(* ===== verification/Prelude.thy ===== *)
theory Prelude
  imports Main "HOL-Library.Word" "HOL-Library.Product_Lexorder"
begin

text \<open>
  What every component shares: the exceptions the program raises, operations as functions of a
  state that return an exception or a value together with the new state, an invariant calculus
  and weakest preconditions for such operations, and the operations of a database table with the facts about its keys and
  its references.
\<close>

section \<open>Exceptions and operations\<close>

text \<open>
  One constructor per exception class the program raises or lets through. \<open>BackendError\<close> is
  whatever a database driver raises when its backend does not answer.
\<close>

datatype exn =
    HTTPException int string
  | IntegrityError
  | BackendError
  | RuntimeError string
  | ValueError string
  | TypeError
  | KeyError
  | IndexError
  | AttributeError
  | OverflowError
  | OSError string
  | PermissionError string
  | FileNotFoundError string
  | IsADirectoryError string
  | AgentError string
  | TimeoutError
  | ConnectionError string
  | StopAsyncIteration
  | TimeoutExpired
  | EOFError

type_synonym ('s, 'a) op = "'s \<Rightarrow> (exn + 'a) \<times> 's"

definition ret :: "'a \<Rightarrow> ('s, 'a) op" where
  "ret a s = (Inr a, s)"

definition raise :: "exn \<Rightarrow> ('s, 'a) op" where
  "raise e s = (Inl e, s)"

definition bindE :: "('s, 'a) op \<Rightarrow> ('a \<Rightarrow> ('s, 'b) op) \<Rightarrow> ('s, 'b) op" where
  "bindE m f s = (case m s of (Inl e, t) \<Rightarrow> (Inl e, t) | (Inr a, t) \<Rightarrow> f a t)"

definition thenE :: "('s, 'a) op \<Rightarrow> ('s, 'b) op \<Rightarrow> ('s, 'b) op" where
  "thenE m k = bindE m (\<lambda>_. k)"

definition catch :: "('s, 'a) op \<Rightarrow> (exn \<Rightarrow> ('s, 'a) op) \<Rightarrow> ('s, 'a) op" where
  "catch m h s = (case m s of (Inl e, t) \<Rightarrow> h e t | (Inr a, t) \<Rightarrow> (Inr a, t))"

text \<open>Reading the state, and running an operation on a part of a larger state.\<close>

definition asks :: "('s \<Rightarrow> 'a) \<Rightarrow> ('s, 'a) op" where
  "asks f s = (Inr (f s), s)"

definition modify :: "('s \<Rightarrow> 's) \<Rightarrow> ('s, unit) op" where
  "modify f s = (Inr (), f s)"

definition zoom :: "('s \<Rightarrow> 't) \<Rightarrow> ('t \<Rightarrow> 's \<Rightarrow> 's) \<Rightarrow> ('t, 'a) op \<Rightarrow> ('s, 'a) op" where
  "zoom g p m s = (case m (g s) of (r, t) \<Rightarrow> (r, p t s))"

text \<open>A pure step that may raise, as an operation.\<close>

definition liftE :: "exn + 'a \<Rightarrow> ('s, 'a) op" where
  "liftE r s = (r, s)"

definition bindS :: "exn + 'a \<Rightarrow> ('a \<Rightarrow> exn + 'b) \<Rightarrow> exn + 'b" where
  "bindS r f = (case r of Inl e \<Rightarrow> Inl e | Inr a \<Rightarrow> f a)"

lemma bindS_simps [simp]: "bindS (Inr a) f = f a" "bindS (Inl e) f = Inl e"
  by (simp_all add: bindS_def)

text \<open>The first error of a list of steps, or all their results.\<close>

fun mapE :: "('a \<Rightarrow> exn + 'b) \<Rightarrow> 'a list \<Rightarrow> exn + 'b list" where
  "mapE f [] = Inr []"
| "mapE f (x # xs) = (case f x of Inl e \<Rightarrow> Inl e | Inr y \<Rightarrow>
     (case mapE f xs of Inl e \<Rightarrow> Inl e | Inr ys \<Rightarrow> Inr (y # ys)))"

lemma mapE_map: "(\<And>x. x \<in> set xs \<Longrightarrow> f x = Inr (g x)) \<Longrightarrow> mapE f xs = Inr (map g xs)"
  by (induction xs) auto

lemma mapE_map_arg: "mapE f (map h xs) = mapE (\<lambda>x. f (h x)) xs"
  by (induction xs) (auto split: sum.split)

named_theorems op_defs "unfolding of the operation combinators"

lemmas op_unfold [op_defs] =
  ret_def raise_def bindE_def thenE_def catch_def asks_def modify_def zoom_def
  liftE_def

lemma bindE_simps [simp]:
  "bindE (ret a) f s = f a s"
  "bindE (raise e) f s = (Inl e, s)"
  "bindE (asks g) f s = f (g s) s"
  "bindE (modify h) k s = k () (h s)"
  by (simp_all add: op_defs)

lemma bindE_assoc: "bindE (bindE m f) g s = bindE m (\<lambda>a. bindE (f a) g) s"
  by (simp add: bindE_def split: prod.splits sum.splits)

lemma ret_apply [simp]: "ret a s = (Inr a, s)"
  by (simp add: ret_def)

lemma raise_apply [simp]: "raise e s = (Inl e, s)"
  by (simp add: raise_def)

lemma asks_apply [simp]: "asks f s = (Inr (f s), s)"
  by (simp add: asks_def)

lemma modify_apply [simp]: "modify f s = (Inr (), f s)"
  by (simp add: modify_def)

lemma liftE_apply [simp]: "liftE r s = (r, s)"
  by (simp add: liftE_def)

lemma bindE_liftE [simp]:
  "bindE (liftE (Inr a)) f s = f a s" "bindE (liftE (Inl e)) f s = (Inl e, s)"
  by (simp_all add: bindE_def)

section \<open>Invariants of operations\<close>

text \<open>\<open>preserves I m\<close>: whatever \<open>m\<close> returns or raises, it leaves \<open>I\<close> true where it was.\<close>

definition preserves :: "('s \<Rightarrow> bool) \<Rightarrow> ('s, 'a) op \<Rightarrow> bool" where
  "preserves I m \<longleftrightarrow> (\<forall>s. I s \<longrightarrow> I (snd (m s)))"

named_theorems pres "operations that preserve an invariant"

lemma preservesI: "(\<And>s. I s \<Longrightarrow> I (snd (m s))) \<Longrightarrow> preserves I m"
  by (simp add: preserves_def)

lemma preservesD: "preserves I m \<Longrightarrow> I s \<Longrightarrow> m s = (r, t) \<Longrightarrow> I t"
  by (auto simp: preserves_def dest!: spec [of _ s])

lemma preserves_ret [pres]: "preserves I (ret a)"
  by (simp add: preserves_def)

lemma preserves_raise [pres]: "preserves I (raise e)"
  by (simp add: preserves_def)

lemma preserves_liftE [pres]: "preserves I (liftE r)"
  by (simp add: preserves_def)

lemma preserves_zoom [pres]:
  "preserves J m \<Longrightarrow> (\<And>t s. g (p t s) = t) \<Longrightarrow> preserves (\<lambda>s. J (g s)) (zoom g p m)"
  by (auto simp: preserves_def zoom_def split: prod.splits)

lemma preserves_asks [pres]: "preserves I (asks f)"
  by (simp add: preserves_def)

lemma preserves_bindE [pres]:
  assumes "preserves I m" and "\<And>a. preserves I (f a)"
  shows "preserves I (bindE m f)"
  using assms by (auto simp: preserves_def bindE_def split: prod.splits sum.splits)

lemma preserves_thenE [pres]:
  "preserves I m \<Longrightarrow> preserves I k \<Longrightarrow> preserves I (thenE m k)"
  by (simp add: thenE_def preserves_bindE)

lemma preserves_catch [pres]:
  assumes "preserves I m" and "\<And>e. preserves I (h e)"
  shows "preserves I (catch m h)"
  using assms by (auto simp: preserves_def catch_def split: prod.splits sum.splits)

lemma preserves_if [pres]:
  "(b \<Longrightarrow> preserves I m) \<Longrightarrow> (\<not> b \<Longrightarrow> preserves I n) \<Longrightarrow> preserves I (if b then m else n)"
  by simp

lemma preserves_case_option [pres]:
  "(x = None \<Longrightarrow> preserves I m) \<Longrightarrow> (\<And>a. x = Some a \<Longrightarrow> preserves I (f a)) \<Longrightarrow>
   preserves I (case x of None \<Rightarrow> m | Some a \<Rightarrow> f a)"
  by (cases x) simp_all

lemma preserves_case_sum [pres]:
  "(\<And>a. x = Inl a \<Longrightarrow> preserves I (f a)) \<Longrightarrow> (\<And>b. x = Inr b \<Longrightarrow> preserves I (g b)) \<Longrightarrow>
   preserves I (case x of Inl a \<Rightarrow> f a | Inr b \<Rightarrow> g b)"
  by (cases x) simp_all

section \<open>Weakest preconditions\<close>

text \<open>
  What has to hold of a state for an operation to end in \<open>Q\<close>, when it returns, or in \<open>R\<close>, when it raises.
\<close>

definition wp :: "('s, 'a) op \<Rightarrow> ('a \<Rightarrow> 's \<Rightarrow> bool) \<Rightarrow> (exn \<Rightarrow> 's \<Rightarrow> bool) \<Rightarrow> 's \<Rightarrow> bool" where
  "wp m Q R s = (case m s of (Inl e, t) \<Rightarrow> R e t | (Inr a, t) \<Rightarrow> Q a t)"

named_theorems wps "weakest preconditions of the operations"

lemma wp_steps [wps]:
  "wp (ret a) Q R s = Q a s"
  "wp (raise e) Q R s = R e s"
  "wp (asks g) Q R s = Q (g s) s"
  "wp (liftE r) Q R s = (case r of Inl e \<Rightarrow> R e s | Inr a \<Rightarrow> Q a s)"
  by (simp_all add: wp_def split: sum.split)

lemma wp_modify [wps]: "wp (modify h) Q R s = Q () (h s)"
  by (simp add: wp_def)

lemma wp_bindE [wps]: "wp (bindE m f) Q R s = wp m (\<lambda>a. wp (f a) Q R) R s"
  by (simp add: wp_def bindE_def split: prod.split sum.split)

lemma wp_thenE [wps]: "wp (thenE m k) Q R s = wp m (\<lambda>_. wp k Q R) R s"
  by (simp add: thenE_def wp_bindE)

lemma wp_catch [wps]: "wp (catch m h) Q R s = wp m Q (\<lambda>e. wp (h e) Q R) s"
  by (simp add: wp_def catch_def split: prod.split sum.split)

lemma wp_if: "wp (if b then m else n) Q R s = (if b then wp m Q R s else wp n Q R s)"
  by simp

lemma wp_cases [wps]:
  "wp (case x of None \<Rightarrow> m | Some a \<Rightarrow> f a) Q R s = (case x of None \<Rightarrow> wp m Q R s | Some a \<Rightarrow> wp (f a) Q R s)"
  by (cases x) simp_all

lemma wpI: "wp m Q R s \<Longrightarrow> m s = (r, t) \<Longrightarrow> case r of Inl e \<Rightarrow> R e t | Inr a \<Rightarrow> Q a t"
  by (simp add: wp_def)

lemma wp_mono: "wp m Q R s \<Longrightarrow> (\<And>a t. Q a t \<Longrightarrow> Q' a t) \<Longrightarrow> (\<And>e t. R e t \<Longrightarrow> R' e t) \<Longrightarrow> wp m Q' R' s"
  by (auto simp: wp_def split: prod.splits sum.splits)

section \<open>Tables\<close>

text \<open>
  A database table is the list of its rows in insertion order. \<open>WHERE\<close> is a predicate on rows;
  the number of rows an \<open>UPDATE\<close> or \<open>DELETE\<close> touched is the cursor's \<open>rowcount\<close>.
\<close>

definition select_where :: "('r \<Rightarrow> bool) \<Rightarrow> 'r list \<Rightarrow> 'r list" where
  "select_where P t = filter P t"

definition fetchone :: "'r list \<Rightarrow> 'r option" where
  "fetchone rs = (case rs of [] \<Rightarrow> None | r # _ \<Rightarrow> Some r)"

definition update_where :: "('r \<Rightarrow> bool) \<Rightarrow> ('r \<Rightarrow> 'r) \<Rightarrow> 'r list \<Rightarrow> 'r list" where
  "update_where P f t = map (\<lambda>r. if P r then f r else r) t"

definition delete_where :: "('r \<Rightarrow> bool) \<Rightarrow> 'r list \<Rightarrow> 'r list" where
  "delete_where P t = filter (\<lambda>r. \<not> P r) t"

definition rowcount :: "('r \<Rightarrow> bool) \<Rightarrow> 'r list \<Rightarrow> nat" where
  "rowcount P t = length (filter P t)"

definition has_key :: "('r \<Rightarrow> 'k) \<Rightarrow> 'k \<Rightarrow> 'r list \<Rightarrow> bool" where
  "has_key key k t \<longleftrightarrow> k \<in> set (map key t)"

text \<open>\<open>INSERT ... ON CONFLICT(key) DO UPDATE\<close>: \<open>upd\<close> rewrites the row that is already there.\<close>

definition upsert :: "('r \<Rightarrow> 'k) \<Rightarrow> 'r \<Rightarrow> ('r \<Rightarrow> 'r) \<Rightarrow> 'r list \<Rightarrow> 'r list" where
  "upsert key r upd t =
     (if has_key key (key r) t then update_where (\<lambda>q. key q = key r) upd t else t @ [r])"

text \<open>A primary key or \<open>UNIQUE\<close> column, and a column that references the keys \<open>K\<close>.\<close>

definition uniq :: "('r \<Rightarrow> 'k) \<Rightarrow> 'r list \<Rightarrow> bool" where
  "uniq key t \<longleftrightarrow> distinct (map key t)"

definition refs :: "('r \<Rightarrow> 'k) \<Rightarrow> 'r list \<Rightarrow> 'k set \<Rightarrow> bool" where
  "refs f t K \<longleftrightarrow> (\<forall>r \<in> set t. f r \<in> K)"

definition refs_opt :: "('r \<Rightarrow> 'k option) \<Rightarrow> 'r list \<Rightarrow> 'k set \<Rightarrow> bool" where
  "refs_opt f t K \<longleftrightarrow> (\<forall>r \<in> set t. \<forall>k. f r = Some k \<longrightarrow> k \<in> K)"

lemma fetchone_simps [simp]:
  "fetchone [] = None" "fetchone (r # rs) = Some r"
  by (simp_all add: fetchone_def)

lemma fetchone_Some: "fetchone (select_where P t) = Some r \<Longrightarrow> r \<in> set t \<and> P r"
  by (auto simp: fetchone_def select_where_def split: list.splits dest: filter_eq_ConsD)

lemma fetchone_None [simp]: "fetchone (select_where P t) = None \<longleftrightarrow> (\<forall>r \<in> set t. \<not> P r)"
  by (auto simp: fetchone_def select_where_def filter_empty_conv split: list.splits
      dest: filter_eq_ConsD)

lemma rowcount_pos: "0 < rowcount P t \<longleftrightarrow> (\<exists>r \<in> set t. P r)"
  by (auto simp: rowcount_def filter_empty_conv)

lemma rowcount_0: "rowcount P t = 0 \<longleftrightarrow> (\<forall>r \<in> set t. \<not> P r)"
  by (auto simp: rowcount_def filter_empty_conv)

lemma set_delete_where [simp]: "set (delete_where P t) = {r \<in> set t. \<not> P r}"
  by (auto simp: delete_where_def)

lemma set_update_where: "set (update_where P f t) = (\<lambda>r. if P r then f r else r) ` set t"
  by (simp add: update_where_def)

lemma bex_update_where [simp]:
  "(\<exists>r \<in> set (update_where P f t). Q r) \<longleftrightarrow> (\<exists>r \<in> set t. if P r then Q (f r) else Q r)"
  by (auto simp: set_update_where)

lemma ball_update_where [simp]:
  "(\<forall>r \<in> set (update_where P f t). Q r) \<longleftrightarrow> (\<forall>r \<in> set t. if P r then Q (f r) else Q r)"
  by (auto simp: set_update_where)

lemma length_update_where [simp]: "length (update_where P f t) = length t"
  by (simp add: update_where_def)

lemma map_key_update_where [simp]:
  "(\<And>r. P r \<Longrightarrow> key (f r) = key r) \<Longrightarrow> map key (update_where P f t) = map key t"
  by (auto simp: update_where_def)

lemma update_where_none: "\<forall>r \<in> set t. \<not> P r \<Longrightarrow> update_where P f t = t"
  by (auto simp: update_where_def map_idI)

lemma delete_where_none: "\<forall>r \<in> set t. \<not> P r \<Longrightarrow> delete_where P t = t"
  by (simp add: delete_where_def)

lemma uniq_Nil [simp]: "uniq key []"
  by (simp add: uniq_def)

lemma uniq_append [simp]: "uniq key (t @ [r]) \<longleftrightarrow> uniq key t \<and> \<not> has_key key (key r) t"
  by (auto simp: uniq_def has_key_def)

lemma uniq_filter: "uniq key t \<Longrightarrow> uniq key (filter P t)"
  by (simp add: uniq_def distinct_map_filter)

lemma uniq_delete_where [simp]: "uniq key t \<Longrightarrow> uniq key (delete_where P t)"
  by (simp add: delete_where_def uniq_filter)

lemma uniq_update_where [simp]:
  "(\<And>r. P r \<Longrightarrow> key (f r) = key r) \<Longrightarrow> uniq key (update_where P f t) \<longleftrightarrow> uniq key t"
  by (simp add: uniq_def)

lemma uniq_upsert [simp]:
  "uniq key t \<Longrightarrow> (\<And>q. key q = key r \<Longrightarrow> key (upd q) = key r) \<Longrightarrow> uniq key (upsert key r upd t)"
  by (subst upsert_def) (auto intro: uniq_update_where [THEN iffD2])

lemma uniqD: "uniq key t \<Longrightarrow> r \<in> set t \<Longrightarrow> q \<in> set t \<Longrightarrow> key r = key q \<Longrightarrow> r = q"
  by (auto simp: uniq_def distinct_map dest: inj_onD)

lemma fetchone_uniq:
  assumes "uniq key t" and "r \<in> set t" and "P r" and "\<And>q. q \<in> set t \<Longrightarrow> P q \<Longrightarrow> key q = key r"
  shows "fetchone (select_where P t) = Some r"
proof (cases "fetchone (select_where P t)")
  case None
  with assms show ?thesis by (auto simp: fetchone_None)
next
  case (Some q)
  then have "q \<in> set t" "P q" by (auto dest: fetchone_Some)
  with assms have "q = r" by (auto dest: uniqD)
  with Some show ?thesis by simp
qed

lemma refs_Nil [simp]: "refs f [] K"
  by (simp add: refs_def)

lemma refs_append [simp]: "refs f (t @ [r]) K \<longleftrightarrow> refs f t K \<and> f r \<in> K"
  by (auto simp: refs_def)

lemma refs_mono [intro]: "refs f t K \<Longrightarrow> K \<subseteq> L \<Longrightarrow> refs f t L"
  by (auto simp: refs_def)

lemma refs_insert [simp]: "refs f t K \<Longrightarrow> refs f t (insert k K)"
  by (auto simp: refs_def)

lemma refs_delete_where [simp]: "refs f t K \<Longrightarrow> refs f (delete_where P t) K"
  by (auto simp: refs_def)

lemma refs_update_where [simp]:
  "refs f t K \<Longrightarrow> (\<And>r. P r \<Longrightarrow> f (g r) = f r) \<Longrightarrow> refs f (update_where P g t) K"
  by (simp add: refs_def)

lemma refs_upsert [simp]:
  "refs f t K \<Longrightarrow> f r \<in> K \<Longrightarrow> (\<And>q. f q \<in> K \<Longrightarrow> f (upd q) \<in> K) \<Longrightarrow>
   refs f (upsert key r upd t) K"
  by (auto simp: upsert_def refs_def)

lemma refs_opt_Nil [simp]: "refs_opt f [] K"
  by (simp add: refs_opt_def)

lemma refs_opt_append [simp]:
  "refs_opt f (t @ [r]) K \<longleftrightarrow> refs_opt f t K \<and> (\<forall>k. f r = Some k \<longrightarrow> k \<in> K)"
  by (auto simp: refs_opt_def)

lemma refs_opt_insert [simp]: "refs_opt f t K \<Longrightarrow> refs_opt f t (insert k K)"
  by (auto simp: refs_opt_def)

lemma has_key_append [simp]: "has_key key k (t @ [r]) \<longleftrightarrow> has_key key k t \<or> key r = k"
  by (auto simp: has_key_def)

lemma has_key_Nil [simp]: "\<not> has_key key k []"
  by (simp add: has_key_def)

lemma has_key_iff: "has_key key k t \<longleftrightarrow> (\<exists>r \<in> set t. key r = k)"
  by (auto simp: has_key_def)

lemma set_upsert:
  "set (upsert key r upd t) =
     (if has_key key (key r) t then (\<lambda>q. if key q = key r then upd q else q) ` set t
      else insert r (set t))"
  by (auto simp: upsert_def set_update_where)

text \<open>\<open>ORDER BY\<close>: a stable sort by a key; a bound on the result as \<open>LIMIT\<close>.\<close>

definition order_by :: "('r \<Rightarrow> 'k::linorder) \<Rightarrow> 'r list \<Rightarrow> 'r list" where
  "order_by k t = sort_key k t"

definition limit :: "int \<Rightarrow> 'r list \<Rightarrow> 'r list" where
  "limit n t = (if n < 0 then t else take (nat n) t)"

lemma set_order_by [simp]: "set (order_by k t) = set t"
  by (simp add: order_by_def)

lemma length_order_by [simp]: "length (order_by k t) = length t"
  by (simp add: order_by_def)

lemma sorted_order_by [simp]: "sorted (map k (order_by k t))"
  by (simp add: order_by_def)

lemma set_limit: "set (limit n t) \<subseteq> set t"
  by (auto simp: limit_def dest: in_set_takeD)

lemma length_limit: "0 \<le> n \<Longrightarrow> length (limit n t) \<le> nat n"
  by (simp add: limit_def)

section \<open>Dictionaries\<close>

text \<open>
  A dictionary in insertion order, its keys distinct: assignment keeps the place of a key that is
  there, \<open>pop\<close> removes it.
\<close>

fun dict_put :: "'k \<Rightarrow> 'v \<Rightarrow> ('k \<times> 'v) list \<Rightarrow> ('k \<times> 'v) list" where
  "dict_put k v [] = [(k, v)]"
| "dict_put k v ((j, w) # d) = (if j = k then (k, v) # d else (j, w) # dict_put k v d)"

definition dict_pop :: "'k \<Rightarrow> ('k \<times> 'v) list \<Rightarrow> ('k \<times> 'v) list" where
  "dict_pop k d = filter (\<lambda>(j, _). j \<noteq> k) d"

lemma map_of_dict_put [simp]: "map_of (dict_put k v d) = (map_of d)(k \<mapsto> v)"
  by (induction k v d rule: dict_put.induct) auto

lemma map_of_dict_pop [simp]: "map_of (dict_pop k d) = (map_of d)(k := None)"
  by (induction d) (auto simp: dict_pop_def)

lemma dict_put_new: "k \<notin> fst ` set d \<Longrightarrow> dict_put k v d = d @ [(k, v)]"
  by (induction k v d rule: dict_put.induct) auto

lemma keys_dict_put [simp]: "fst ` set (dict_put k v d) = insert k (fst ` set d)"
  by (induction k v d rule: dict_put.induct) auto

lemma keys_dict_pop [simp]: "fst ` set (dict_pop k d) = fst ` set d - {k}"
  by (auto simp: dict_pop_def)

lemma map_fst_dict_put:
  "map fst (dict_put k v d) = (if k \<in> fst ` set d then map fst d else map fst d @ [k])"
  by (induction k v d rule: dict_put.induct) auto

lemma distinct_dict_put [simp]: "distinct (map fst d) \<Longrightarrow> distinct (map fst (dict_put k v d))"
  by (simp add: map_fst_dict_put)

lemma distinct_dict_pop [simp]: "distinct (map fst d) \<Longrightarrow> distinct (map fst (dict_pop k d))"
  by (simp add: dict_pop_def distinct_map_filter)

end
