(* ===== verification/PyString.thy ===== *)
theory PyString
  imports Prelude "HOL-Library.Char_ord"
begin

text \<open>
  The string and integer operations of Python the program uses. A \<open>str\<close> is a HOL \<open>string\<close>
  whose characters are the code points 0 to 255; \<open>strip\<close>, \<open>lower\<close>, \<open>isalnum\<close> and
  \<open>isdigit\<close> follow Python on every one of those code points. \<open>bytes\<close> are lists of 8-bit words.
\<close>

type_synonym byte = "8 word"

section \<open>Truth values, white space, prefixes\<close>

text \<open>\<open>a or b\<close> on strings, and \<open>x or ''\<close> on a string that may be \<open>None\<close>.\<close>

definition or_str :: "string \<Rightarrow> string \<Rightarrow> string" where
  "or_str a b = (if a = [] then b else a)"

definition opt_str :: "string option \<Rightarrow> string" where
  "opt_str x = (case x of None \<Rightarrow> [] | Some s \<Rightarrow> s)"

text \<open>\<open>s or None\<close>.\<close>

definition str_or_none :: "string \<Rightarrow> string option" where
  "str_or_none s = (if s = [] then None else Some s)"

definition is_space :: "char \<Rightarrow> bool" where
  "is_space c = (let n = of_char c :: nat in
     (9 \<le> n \<and> n \<le> 13) \<or> (28 \<le> n \<and> n \<le> 32) \<or> n = 133 \<or> n = 160)"

definition lstrip_by :: "(char \<Rightarrow> bool) \<Rightarrow> string \<Rightarrow> string" where
  "lstrip_by P s = dropWhile P s"

definition rstrip_by :: "(char \<Rightarrow> bool) \<Rightarrow> string \<Rightarrow> string" where
  "rstrip_by P s = rev (dropWhile P (rev s))"

definition strip :: "string \<Rightarrow> string" where
  "strip s = rstrip_by is_space (lstrip_by is_space s)"

definition rstrip_slash :: "string \<Rightarrow> string" where
  "rstrip_slash s = rstrip_by (\<lambda>c. c = CHR ''/'') s"

definition startswith :: "string \<Rightarrow> string \<Rightarrow> bool" where
  "startswith p s \<longleftrightarrow> take (length p) s = p"

definition endswith :: "string \<Rightarrow> string \<Rightarrow> bool" where
  "endswith p s \<longleftrightarrow> startswith (rev p) (rev s)"

text \<open>\<open>s[:n]\<close> and \<open>s[-n:]\<close> for a positive literal \<open>n\<close>.\<close>

definition last_chars :: "nat \<Rightarrow> string \<Rightarrow> string" where
  "last_chars n s = drop (length s - n) s"

definition lower_char :: "char \<Rightarrow> char" where
  "lower_char c = (let n = of_char c :: nat in
     if (65 \<le> n \<and> n \<le> 90) \<or> (192 \<le> n \<and> n \<le> 222 \<and> n \<noteq> 215) then char_of (n + 32) else c)"

definition lower :: "string \<Rightarrow> string" where
  "lower s = map lower_char s"

definition is_digit_char :: "char \<Rightarrow> bool" where
  "is_digit_char c = (let n = of_char c :: nat in
     (48 \<le> n \<and> n \<le> 57) \<or> n \<in> {178, 179, 185})"

definition isdigit :: "string \<Rightarrow> bool" where
  "isdigit s \<longleftrightarrow> s \<noteq> [] \<and> list_all is_digit_char s"

definition is_alnum_char :: "char \<Rightarrow> bool" where
  "is_alnum_char c = (let n = of_char c :: nat in
     (48 \<le> n \<and> n \<le> 57) \<or> (65 \<le> n \<and> n \<le> 90) \<or> (97 \<le> n \<and> n \<le> 122)
     \<or> n \<in> {170, 178, 179, 181, 185, 186, 188, 189, 190}
     \<or> (192 \<le> n \<and> n \<noteq> 215 \<and> n \<noteq> 247))"

definition isalnum :: "string \<Rightarrow> bool" where
  "isalnum s \<longleftrightarrow> s \<noteq> [] \<and> list_all is_alnum_char s"

text \<open>\<open>s.replace(c, '')\<close> for a single character \<open>c\<close>.\<close>

definition remove_char :: "char \<Rightarrow> string \<Rightarrow> string" where
  "remove_char c s = filter (\<lambda>d. d \<noteq> c) s"

lemma startswith_append [simp]: "startswith p (p @ s)"
  by (simp add: startswith_def)

lemma startswithE: "startswith p s \<Longrightarrow> \<exists>t. s = p @ t"
  by (metis startswith_def append_take_drop_id)

lemma rstrip_by_append:
  "\<not> P c \<Longrightarrow> rstrip_by P (s @ [c]) = s @ [c]"
  by (simp add: rstrip_by_def)

lemma rstrip_by_last: "rstrip_by P s \<noteq> [] \<Longrightarrow> \<not> P (last (rstrip_by P s))"
  by (metis rstrip_by_def hd_dropWhile last_rev rev_is_Nil_conv)

lemma rstrip_by_id: "s = [] \<or> \<not> P (last s) \<Longrightarrow> rstrip_by P s = s"
  by (cases s rule: rev_cases) (auto simp: rstrip_by_def)

lemma rstrip_by_idem [simp]: "rstrip_by P (rstrip_by P s) = rstrip_by P s"
  using rstrip_by_id rstrip_by_last by blast

lemma rstrip_slash_idem [simp]: "rstrip_slash (rstrip_slash s) = rstrip_slash s"
  by (simp add: rstrip_slash_def)

lemma rstrip_slash_Nil [simp]: "rstrip_slash [] = []"
  by (simp add: rstrip_slash_def rstrip_by_def)

lemma strip_Nil [simp]: "strip [] = []"
  by (simp add: strip_def rstrip_by_def lstrip_by_def)

lemma set_dropWhile_subset: "set (dropWhile P xs) \<subseteq> set xs"
  by (auto dest: set_dropWhileD)

lemma set_rstrip_by: "set (rstrip_by P s) \<subseteq> set s"
  by (auto simp: rstrip_by_def dest: set_dropWhileD)

lemma strip_idem [simp]: "strip (strip s) = strip s"
proof (cases "strip s = []")
  case False
  obtain u where u: "lstrip_by is_space s = strip s @ u"
    unfolding strip_def rstrip_by_def by (metis rev_append rev_rev_ident takeWhile_dropWhile_id)
  have "\<not> is_space (hd (strip s))"
    using False u hd_dropWhile [of is_space s] by (cases "strip s") (auto simp: lstrip_by_def)
  then have "lstrip_by is_space (strip s) = strip s" using False by (cases "strip s") (auto simp: lstrip_by_def)
  then show ?thesis by (simp add: strip_def)
qed simp

lemma or_str_Nil [simp]: "or_str [] b = b" "a \<noteq> [] \<Longrightarrow> or_str a b = a"
  by (simp_all add: or_str_def)

lemma or_str_eq_Nil [simp]: "or_str a b = [] \<longleftrightarrow> a = [] \<and> b = []"
  by (simp add: or_str_def)

lemma str_or_none_None [simp]: "str_or_none s = None \<longleftrightarrow> s = []"
  by (simp add: str_or_none_def)

section \<open>Splitting\<close>

text \<open>\<open>s.partition(c)\<close>: what precedes the first \<open>c\<close>, and what follows it when there is one.\<close>

definition partition_at :: "char \<Rightarrow> string \<Rightarrow> string \<times> string option" where
  "partition_at c s = (takeWhile (\<lambda>d. d \<noteq> c) s,
     (case dropWhile (\<lambda>d. d \<noteq> c) s of [] \<Rightarrow> None | _ # r \<Rightarrow> Some r))"

lemma partition_at_append:
  "c \<notin> set a \<Longrightarrow> partition_at c (a @ c # r) = (a, Some r)"
proof -
  assume "c \<notin> set a"
  then have "\<forall>d \<in> set a. d \<noteq> c" by auto
  then show ?thesis by (simp add: partition_at_def takeWhile_append2 dropWhile_append2)
qed

lemma ball_conv_neq: "c \<notin> set a \<Longrightarrow> \<forall>d \<in> set a. d \<noteq> c"
  by auto

lemma partition_at_None:
  "c \<notin> set a \<Longrightarrow> partition_at c a = (a, None)"
  by (simp add: partition_at_def takeWhile_eq_all_conv [THEN iffD2]
      dropWhile_eq_Nil_conv [THEN iffD2] ball_conv_neq)

text \<open>\<open>s.split(c, n)\<close>.\<close>

fun split_max :: "char \<Rightarrow> nat \<Rightarrow> string \<Rightarrow> string list" where
  "split_max c 0 s = [s]"
| "split_max c (Suc n) s =
     (case partition_at c s of (a, None) \<Rightarrow> [a] | (a, Some r) \<Rightarrow> a # split_max c n r)"

lemma split_max_Suc_append [simp]:
  "c \<notin> set a \<Longrightarrow> split_max c (Suc n) (a @ c # r) = a # split_max c n r"
  by (simp add: partition_at_append)

text \<open>\<open>s.split(c)\<close> and \<open>s.splitlines()\<close>; a line ends at LF, CR, CRLF or one of the other
  line boundaries, and a trailing boundary opens no further line.\<close>

fun split_all :: "char \<Rightarrow> string \<Rightarrow> string list" where
  "split_all c [] = [[]]"
| "split_all c (d # s) =
     (if d = c then [] # split_all c s
      else (case split_all c s of [] \<Rightarrow> [[d]] | l # ls \<Rightarrow> (d # l) # ls))"

definition is_line_end :: "char \<Rightarrow> bool" where
  "is_line_end c = (let n = of_char c :: nat in (10 \<le> n \<and> n \<le> 13) \<or> (28 \<le> n \<and> n \<le> 30) \<or> n = 133)"

fun splitlines_acc :: "string \<Rightarrow> string \<Rightarrow> string list" where
  "splitlines_acc acc [] = (if acc = [] then [] else [rev acc])"
| "splitlines_acc acc (c # s) =
     (if is_line_end c then rev acc #
        (case s of [] \<Rightarrow> []
         | d # t \<Rightarrow> if of_char c = (13::nat) \<and> of_char d = (10::nat) then splitlines_acc [] t
                   else splitlines_acc [] s)
      else splitlines_acc (c # acc) s)"

definition splitlines :: "string \<Rightarrow> string list" where
  "splitlines s = splitlines_acc [] s"

section \<open>Bytes and hexadecimal text\<close>

text \<open>\<open>s.encode()\<close>: UTF-8 of a code point below 256.\<close>

definition utf8_char :: "char \<Rightarrow> byte list" where
  "utf8_char c = (let n = of_char c :: nat in
     if n < 128 then [word_of_nat n] else [word_of_nat (192 + n div 64), word_of_nat (128 + n mod 64)])"

definition encode :: "string \<Rightarrow> byte list" where
  "encode s = concat (map utf8_char s)"

definition hex_digit :: "nat \<Rightarrow> char" where
  "hex_digit n = (if n < 10 then char_of (48 + n) else char_of (87 + n))"

definition hexdigest :: "byte list \<Rightarrow> string" where
  "hexdigest bs = concat (map (\<lambda>b. [hex_digit (unat b div 16), hex_digit (unat b mod 16)]) bs)"

definition hex_val :: "char \<Rightarrow> nat option" where
  "hex_val c = (let n = of_char c :: nat in
     if 48 \<le> n \<and> n \<le> 57 then Some (n - 48)
     else if 97 \<le> n \<and> n \<le> 102 then Some (n - 87)
     else if 65 \<le> n \<and> n \<le> 70 then Some (n - 55) else None)"

definition ascii_space :: "char \<Rightarrow> bool" where
  "ascii_space c = (let n = of_char c :: nat in (9 \<le> n \<and> n \<le> 13) \<or> n = 32)"

text \<open>\<open>bytes.fromhex\<close>: pairs of hexadecimal digits, white space allowed between the pairs;
  anything else is a \<open>ValueError\<close>, here \<open>None\<close>.\<close>

fun fromhex :: "string \<Rightarrow> byte list option" where
  "fromhex [] = Some []"
| "fromhex [c] = (if ascii_space c then Some [] else None)"
| "fromhex (c # d # s) =
     (if ascii_space c then fromhex (d # s)
      else (case (hex_val c, hex_val d, fromhex s) of
              (Some a, Some b, Some bs) \<Rightarrow> Some (word_of_nat (16 * a + b) # bs)
            | _ \<Rightarrow> None))"

lemma of_char_char_of_small: "n < 256 \<Longrightarrow> of_char (char_of n :: char) = (n :: nat)"
  by (simp add: of_char_of)

lemma hex_val_hex_digit [simp]: "n < 16 \<Longrightarrow> hex_val (hex_digit n) = Some n"
  by (auto simp: hex_val_def hex_digit_def of_char_char_of_small Let_def)

lemma not_space_hex_digit [simp]: "n < 16 \<Longrightarrow> \<not> ascii_space (hex_digit n)"
  by (auto simp: ascii_space_def hex_digit_def of_char_char_of_small Let_def)

lemma unat_byte_lt: "unat (b :: byte) < 256"
  using unsigned_less [of b, where ?'a = nat] by simp

lemma fromhex_hexdigest [simp]: "fromhex (hexdigest bs) = Some bs"
proof (induction bs)
  case Nil
  then show ?case by (simp add: hexdigest_def)
next
  case (Cons b bs)
  have "unat b div 16 < 16" using unat_byte_lt [of b] by simp
  then show ?case using Cons by (simp add: hexdigest_def)
qed

lemma hexdigest_inject: "hexdigest a = hexdigest b \<longleftrightarrow> a = b"
  by (metis fromhex_hexdigest option.inject)

lemma hex_digit_alnum: "n < 16 \<Longrightarrow> of_char (hex_digit n) \<in> {48..57} \<union> {97..102 :: nat}"
  by (auto simp: hex_digit_def of_char_char_of_small)

lemma hexdigest_chars:
  "c \<in> set (hexdigest bs) \<Longrightarrow> of_char c \<in> {48..57} \<union> {97..102 :: nat}"
proof -
  assume "c \<in> set (hexdigest bs)"
  then obtain b where "c = hex_digit (unat (b :: byte) div 16) \<or> c = hex_digit (unat b mod 16)"
    by (auto simp: hexdigest_def)
  moreover have "unat b div 16 < 16" using unat_byte_lt [of b] by simp
  moreover have "unat b mod 16 < 16" by simp
  ultimately show ?thesis using hex_digit_alnum by blast
qed

text \<open>UTF-8 is injective, so two strings with equal encodings are equal.\<close>

lemma utf8_char_len: "length (utf8_char c) = (if of_char c < (128::nat) then 1 else 2)"
  by (simp add: utf8_char_def Let_def)

lemma utf8_char_prefix:
  assumes "utf8_char c @ x = utf8_char d @ y"
  shows "c = d \<and> x = y"
proof -
  have c: "of_char c < (256::nat)" and d: "of_char d < (256::nat)"
    by simp_all
  let ?c = "of_char c :: nat" and ?d = "of_char d :: nat"
  have bc: "192 + ?c div 64 < 256" "128 + ?c mod 64 < 256" using c by linarith+
  have bd: "192 + ?d div 64 < 256" "128 + ?d mod 64 < 256" using d by linarith+
  have w: "word_of_nat m = (word_of_nat n :: byte) \<longleftrightarrow> m = n" if "m < 256" "n < 256" for m n
    using that by (simp add: word_of_nat_eq_iff take_bit_eq_mod)
  have "?c = ?d \<or> ?c div 64 = ?d div 64 \<and> ?c mod 64 = ?d mod 64"
    using assms c d
    by (auto simp: utf8_char_def Let_def w bc bd simp del: of_nat_add of_nat_numeral split: if_splits)
  then have "?c = ?d" by (metis div_mult_mod_eq)
  then have "c = d" by (simp add: of_char_eq_iff)
  with assms show ?thesis by simp
qed

lemma encode_inject: "encode s = encode t \<longleftrightarrow> s = t"
proof
  show "encode s = encode t \<Longrightarrow> s = t"
  proof (induction s arbitrary: t)
    case Nil
    then show ?case by (cases t) (auto simp: encode_def utf8_char_def Let_def split: if_splits)
  next
    case (Cons c s)
    then obtain d u where t: "t = d # u"
      by (cases t) (auto simp: encode_def utf8_char_def Let_def split: if_splits)
    with Cons.prems have "c = d \<and> encode s = encode u"
      by (intro utf8_char_prefix) (simp add: encode_def)
    with t Cons.IH show ?case by simp
  qed
qed simp

section \<open>Integers as text\<close>

definition dec_digit :: "nat \<Rightarrow> char" where
  "dec_digit n = char_of (48 + n)"

fun nat_str :: "nat \<Rightarrow> string" where
  "nat_str n = (if n < 10 then [dec_digit n] else nat_str (n div 10) @ [dec_digit (n mod 10)])"

declare nat_str.simps [simp del]

text \<open>\<open>str(i)\<close>.\<close>

definition int_str :: "int \<Rightarrow> string" where
  "int_str i = (if i < 0 then CHR ''-'' # nat_str (nat (- i)) else nat_str (nat i))"

definition dec_val :: "char \<Rightarrow> nat option" where
  "dec_val c = (let n = of_char c :: nat in if 48 \<le> n \<and> n \<le> 57 then Some (n - 48) else None)"

text \<open>
  \<open>int(s)\<close>: surrounding white space, a sign, digits with single underscores between them, and
  at most 4300 digits; anything else is a \<open>ValueError\<close>, here \<open>None\<close>. The argument \<open>u\<close> of
  \<open>digits_val\<close> says that an underscore may come next (the previous character was a digit).
\<close>

fun digits_val :: "nat \<Rightarrow> bool \<Rightarrow> string \<Rightarrow> nat option" where
  "digits_val acc u [] = (if u then Some acc else None)"
| "digits_val acc u (c # s) =
     (if c = CHR ''_'' then (if u then digits_val acc False s else None)
      else (case dec_val c of None \<Rightarrow> None | Some d \<Rightarrow> digits_val (10 * acc + d) True s))"

definition max_str_digits :: nat where
  "max_str_digits = 4300"

definition py_nat :: "string \<Rightarrow> nat option" where
  "py_nat s = (if max_str_digits < length (filter (\<lambda>c. dec_val c \<noteq> None) s) then None
     else digits_val 0 False s)"

definition py_int :: "string \<Rightarrow> int option" where
  "py_int s = (case strip s of
       [] \<Rightarrow> None
     | c # r \<Rightarrow> if c = CHR ''-'' then map_option (\<lambda>n. - int n) (py_nat r)
               else if c = CHR ''+'' then map_option int (py_nat r)
               else map_option int (py_nat (c # r)))"

lemma dec_val_dec_digit [simp]: "n < 10 \<Longrightarrow> dec_val (dec_digit n) = Some n"
  by (simp add: dec_val_def dec_digit_def of_char_char_of_small)

lemma of_char_dec_digit [simp]: "n < 10 \<Longrightarrow> of_char (dec_digit n) = (48 + n :: nat)"
  by (simp add: dec_digit_def of_char_char_of_small)

lemma dec_digit_not: 
  "n < 10 \<Longrightarrow> dec_digit n \<noteq> CHR ''_''" "n < 10 \<Longrightarrow> dec_digit n \<noteq> CHR ''-''"
  "n < 10 \<Longrightarrow> dec_digit n \<noteq> CHR ''+''" "n < 10 \<Longrightarrow> \<not> is_space (dec_digit n)"
  by (auto simp: is_space_def Let_def dest: arg_cong [where f = "of_char :: char \<Rightarrow> nat"])

lemma digits_val_snoc:
  "digits_val a u s = Some v \<Longrightarrow> n < 10 \<Longrightarrow> digits_val a u (s @ [dec_digit n]) = Some (10 * v + n)"
proof (induction a u s rule: digits_val.induct)
  case (1 acc u)
  then show ?case by (auto simp: dec_digit_not split: if_splits)
next
  case (2 acc u c s)
  then show ?case by (auto split: if_splits option.splits)
qed

lemma nat_str_digits: "\<exists>ds. ds \<noteq> [] \<and> nat_str n = map dec_digit ds \<and> (\<forall>d \<in> set ds. d < 10)"
proof (induction n rule: nat_str.induct)
  case (1 n)
  show ?case
  proof (cases "n < 10")
    case True
    then have "nat_str n = map dec_digit [n]" by (simp add: nat_str.simps)
    with True show ?thesis by (intro exI [of _ "[n]"]) simp
  next
    case False
    with 1 obtain ds where "ds \<noteq> []" "nat_str (n div 10) = map dec_digit ds" "\<forall>d \<in> set ds. d < 10"
      by blast
    with False show ?thesis
      by (intro exI [of _ "ds @ [n mod 10]"]) (subst nat_str.simps, auto)
  qed
qed

lemma digits_val_nat_str: "digits_val 0 u (nat_str n) = Some n"
proof (induction n rule: nat_str.induct)
  case (1 n)
  show ?case
  proof (cases "n < 10")
    case True
    then show ?thesis by (simp add: nat_str.simps dec_digit_not)
  next
    case False
    with 1 have "digits_val 0 u (nat_str (n div 10)) = Some (n div 10)" by simp
    from digits_val_snoc [OF this, of "n mod 10"] False show ?thesis
      by (subst nat_str.simps) simp
  qed
qed

lemma length_nat_str: "0 < k \<Longrightarrow> n < 10 ^ k \<Longrightarrow> length (nat_str n) \<le> k"
proof (induction k arbitrary: n)
  case 0
  then show ?case by simp
next
  case (Suc k)
  show ?case
  proof (cases "n < 10")
    case True
    then show ?thesis by (simp add: nat_str.simps)
  next
    case False
    with Suc.prems have "0 < k" by (cases k) auto
    moreover have "n div 10 < 10 ^ k" using Suc.prems by (simp add: less_mult_imp_div_less mult.commute)
    ultimately have "length (nat_str (n div 10)) \<le> k" by (rule Suc.IH)
    with False show ?thesis by (subst nat_str.simps) simp
  qed
qed

lemma strip_no_space: "\<forall>c \<in> set s. \<not> is_space c \<Longrightarrow> strip s = s"
proof -
  assume a: "\<forall>c \<in> set s. \<not> is_space c"
  then have "lstrip_by is_space s = s" by (cases s) (auto simp: lstrip_by_def)
  moreover have "s = [] \<or> \<not> is_space (last s)" using a by auto
  ultimately show ?thesis by (simp add: strip_def rstrip_by_id)
qed

lemma nat_str_ne: "nat_str n \<noteq> []"
  using nat_str_digits [of n] by auto

lemma nat_str_no_space: "c \<in> set (nat_str n) \<Longrightarrow> \<not> is_space c"
  using nat_str_digits [of n] by (auto simp: dec_digit_not)

lemma max_str_digits_pos: "0 < max_str_digits"
  by (simp add: max_str_digits_def)

lemma py_nat_nat_str: "n < 10 ^ max_str_digits \<Longrightarrow> py_nat (nat_str n) = Some n"
proof -
  assume "n < 10 ^ max_str_digits"
  then have "length (nat_str n) \<le> max_str_digits"
    by (rule length_nat_str [OF max_str_digits_pos])
  then have "length (filter (\<lambda>c. dec_val c \<noteq> None) (nat_str n)) \<le> max_str_digits"
    using length_filter_le le_trans by blast
  then show ?thesis by (simp add: py_nat_def digits_val_nat_str)
qed

text \<open>\<open>int(str(i)) = i\<close> for every integer of at most 4300 digits.\<close>

lemma py_int_int_str:
  assumes "\<bar>i\<bar> < 10 ^ max_str_digits"
  shows "py_int (int_str i) = Some i"
proof (cases "i < 0")
  case True
  have n: "nat (- i) < 10 ^ max_str_digits" using assms True by (simp add: nat_less_iff)
  have "\<forall>c \<in> set (int_str i). \<not> is_space c"
    using True nat_str_no_space by (auto simp: int_str_def is_space_def)
  with True py_nat_nat_str [OF n] show ?thesis
    by (simp add: py_int_def strip_no_space) (simp add: int_str_def)
next
  case False
  have n: "nat i < 10 ^ max_str_digits" using assms False by (simp add: nat_less_iff)
  have "\<forall>c \<in> set (int_str i). \<not> is_space c"
    using False nat_str_no_space by (auto simp: int_str_def)
  then have s: "strip (int_str i) = int_str i" by (rule strip_no_space)
  obtain ds where ds: "ds \<noteq> []" "nat_str (nat i) = map dec_digit ds" "\<forall>d \<in> set ds. d < 10"
    using nat_str_digits by blast
  then obtain d r where "nat_str (nat i) = dec_digit d # r" "d < 10" by (cases ds) auto
  with False s py_nat_nat_str [OF n] show ?thesis
    by (simp add: py_int_def int_str_def dec_digit_not)
qed

lemma int_str_ne [simp]: "int_str i \<noteq> []"
  by (simp add: int_str_def nat_str_ne)

end
