(* ===== verification/Json.thy ===== *)
theory Json
  imports Complex_Main PyString
begin

text \<open>
  The JSON values the program's messages are made of, with the accesses and truth values of the
  decoded Python objects, and \<open>base64\<close>. A JSON number without fraction is an \<open>int\<close>; one with a
  fraction is a rational, so that the special values and the rounding of floating point are
  outside the model.
\<close>

section \<open>Values\<close>

datatype json =
    JNull
  | JBool bool
  | JInt int
  | JFloat rat
  | JStr string
  | JArr "json list"
  | JObj "(string \<times> json) list"

text \<open>\<open>bool(v)\<close>.\<close>

fun truthy :: "json \<Rightarrow> bool" where
  "truthy JNull = False"
| "truthy (JBool b) = b"
| "truthy (JInt i) = (i \<noteq> 0)"
| "truthy (JFloat q) = (q \<noteq> 0)"
| "truthy (JStr s) = (s \<noteq> [])"
| "truthy (JArr xs) = (xs \<noteq> [])"
| "truthy (JObj kvs) = (kvs \<noteq> [])"

text \<open>\<open>a or b\<close>.\<close>

definition jor :: "json \<Rightarrow> json \<Rightarrow> json" where
  "jor a b = (if truthy a then a else b)"

text \<open>
  \<open>d.get(k, default)\<close> on a decoded object; the attribute does not exist on anything else. The keys
  of an object are distinct, as in the dictionary it was decoded to.
\<close>

definition jget_or :: "json \<Rightarrow> string \<Rightarrow> json \<Rightarrow> exn + json" where
  "jget_or d k x = (case d of
     JObj kvs \<Rightarrow> Inr (case map_of kvs k of Some v \<Rightarrow> v | None \<Rightarrow> x)
   | _ \<Rightarrow> Inl AttributeError)"

text \<open>The same for a dictionary known to be one; a missing key is \<open>None\<close>.\<close>

definition jget :: "(string \<times> json) list \<Rightarrow> string \<Rightarrow> json" where
  "jget kvs k = (case map_of kvs k of Some v \<Rightarrow> v | None \<Rightarrow> JNull)"

definition jget_default :: "(string \<times> json) list \<Rightarrow> string \<Rightarrow> json \<Rightarrow> json" where
  "jget_default kvs k x = (case map_of kvs k of Some v \<Rightarrow> v | None \<Rightarrow> x)"

lemma jget_simps [simp]:
  "jget [] k = JNull"
  "jget ((j, v) # kvs) k = (if j = k then v else jget kvs k)"
  by (auto simp: jget_def)

lemma jget_default_simps [simp]:
  "jget_default [] k x = x"
  "jget_default ((j, v) # kvs) k x = (if j = k then v else jget_default kvs k x)"
  by (auto simp: jget_default_def)

lemma jget_dict_put [simp]: "jget (dict_put k v d) j = (if j = k then v else jget d j)"
  by (simp add: jget_def)

lemma jget_dict_pop [simp]: "jget (dict_pop k d) j = (if j = k then JNull else jget d j)"
  by (simp add: jget_def)

definition as_str :: "json \<Rightarrow> string option" where
  "as_str v = (case v of JStr s \<Rightarrow> Some s | _ \<Rightarrow> None)"

text \<open>\<open>==\<close> between a decoded value and a string literal.\<close>

definition is_str :: "string \<Rightarrow> json \<Rightarrow> bool" where
  "is_str s v \<longleftrightarrow> v = JStr s"

lemma is_str_simps [simp]: "is_str s (JStr t) \<longleftrightarrow> t = s" "\<not> is_str s JNull"
  by (auto simp: is_str_def)

text \<open>\<open>str(v)\<close>; the texts of floats, lists and objects are the parameter \<open>SH\<close>.\<close>

definition py_str :: "(json \<Rightarrow> string) \<Rightarrow> json \<Rightarrow> string" where
  "py_str SH v = (case v of JStr s \<Rightarrow> s | JInt i \<Rightarrow> int_str i | JNull \<Rightarrow> ''None''
     | JBool b \<Rightarrow> if b then ''True'' else ''False'' | _ \<Rightarrow> SH v)"

lemma py_str_simps [simp]:
  "py_str SH (JStr s) = s" "py_str SH (JInt i) = int_str i" "py_str SH JNull = ''None''"
  by (simp_all add: py_str_def)

text \<open>Iteration over a decoded value: the members of a list, the keys of an object, characters.\<close>

definition jiter :: "json \<Rightarrow> exn + json list" where
  "jiter v = (case v of JArr xs \<Rightarrow> Inr xs | JObj kvs \<Rightarrow> Inr (map (\<lambda>(k, _). JStr k) kvs)
     | JStr s \<Rightarrow> Inr (map (\<lambda>c. JStr [c]) s) | _ \<Rightarrow> Inl TypeError)"

text \<open>
  \<open>int(v)\<close>: a float is truncated towards zero, a string parsed; nothing else is accepted.
\<close>

definition trunc_rat :: "rat \<Rightarrow> int" where
  "trunc_rat q = (if q < 0 then - \<lfloor>- q\<rfloor> else \<lfloor>q\<rfloor>)"

text \<open>\<open>int(round(q))\<close>: to the nearest, a half to the even neighbour.\<close>

definition py_round :: "rat \<Rightarrow> int" where
  "py_round q = (let f = \<lfloor>q\<rfloor>; d = q - of_int f in
     if d < 1 / 2 then f else if d > 1 / 2 then f + 1 else if even f then f else f + 1)"

fun jint :: "json \<Rightarrow> exn + int" where
  "jint (JInt i) = Inr i"
| "jint (JBool b) = Inr (if b then 1 else 0)"
| "jint (JFloat q) = Inr (trunc_rat q)"
| "jint (JStr s) = (case py_int s of Some i \<Rightarrow> Inr i
     | None \<Rightarrow> Inl (ValueError ''invalid literal for int()''))"
| "jint JNull = Inl TypeError"
| "jint (JArr xs) = Inl TypeError"
| "jint (JObj kvs) = Inl TypeError"

section \<open>base64\<close>

definition b64_char :: "nat \<Rightarrow> char" where
  "b64_char n = (if n < 26 then char_of (65 + n) else if n < 52 then char_of (71 + n)
     else if n < 62 then char_of (n - 4) else if n = 62 then CHR ''+'' else CHR ''/'')"

definition b64_val :: "char \<Rightarrow> nat option" where
  "b64_val c = (let n = of_char c :: nat in
     if 65 \<le> n \<and> n \<le> 90 then Some (n - 65) else if 97 \<le> n \<and> n \<le> 122 then Some (n - 71)
     else if 48 \<le> n \<and> n \<le> 57 then Some (n + 4) else if n = 43 then Some 62
     else if n = 47 then Some 63 else None)"

fun b64encode :: "byte list \<Rightarrow> string" where
  "b64encode [] = []"
| "b64encode [a] = [b64_char (unat a div 4), b64_char (unat a mod 4 * 16), CHR ''='', CHR ''='']"
| "b64encode [a, b] = [b64_char (unat a div 4), b64_char (unat a mod 4 * 16 + unat b div 16),
     b64_char (unat b mod 16 * 4), CHR ''='']"
| "b64encode (a # b # c # r) = b64_char (unat a div 4) # b64_char (unat a mod 4 * 16 + unat b div 16)
     # b64_char (unat b mod 16 * 4 + unat c div 64) # b64_char (unat c mod 64) # b64encode r"

text \<open>
  The decoder as the library runs it without validation: characters outside the alphabet are
  skipped, a complete padding ends the input, and an input that ends inside a group is an error.
  The state is the position in the group of four, the bits left over, and the pads seen.
\<close>

fun b64_run :: "nat \<Rightarrow> nat \<Rightarrow> nat \<Rightarrow> string \<Rightarrow> byte list option" where
  "b64_run q left pads [] = (if q = 0 then Some [] else None)"
| "b64_run q left pads (c # s) =
     (if c = CHR ''='' then
        (if 2 \<le> q \<and> 4 \<le> q + Suc pads then Some []
         else b64_run q left (if 2 \<le> q then Suc pads else pads) s)
      else case b64_val c of None \<Rightarrow> b64_run q left pads s
        | Some v \<Rightarrow>
            if q = 0 then b64_run 1 v 0 s
            else if q = 1 then map_option ((#) (word_of_nat (left * 4 + v div 16))) (b64_run 2 (v mod 16) 0 s)
            else if q = 2 then map_option ((#) (word_of_nat (left * 16 + v div 4))) (b64_run 3 (v mod 4) 0 s)
            else map_option ((#) (word_of_nat (left * 64 + v))) (b64_run 0 0 0 s))"

text \<open>\<open>b64decode(s)\<close>; a character outside ASCII is a \<open>ValueError\<close>, as a wrong padding is.\<close>

definition b64decode :: "string \<Rightarrow> byte list option" where
  "b64decode s = (if list_all (\<lambda>c. of_char c < (128::nat)) s then b64_run 0 0 0 s else None)"

lemma b64_val_char [simp]: "n < 64 \<Longrightarrow> b64_val (b64_char n) = Some n"
  by (auto simp: b64_char_def b64_val_def Let_def of_char_char_of_small)

lemma b64_char_not_pad [simp]: "n < 64 \<Longrightarrow> b64_char n \<noteq> CHR ''=''"
  using b64_val_char [of n] by (auto simp: b64_val_def)

lemma b64_char_ascii: "of_char (b64_char n) < (128::nat)"
  by (auto simp: b64_char_def of_char_char_of_small)

lemma b64encode_ascii: "c \<in> set (b64encode bs) \<Longrightarrow> of_char c < (128::nat)"
  by (induction bs rule: b64encode.induct) (auto simp: b64_char_ascii)

lemma unat_byte_bounds [simp]:
  "unat (a :: byte) div 4 < 64" "unat (a :: byte) mod 4 * 16 < 64"
  "unat (a :: byte) mod 4 * 16 + unat (b :: byte) div 16 < 64"
  "unat (a :: byte) mod 16 * 4 < 64"
  "unat (b :: byte) mod 16 * 4 + unat (c :: byte) div 64 < 64"
  using unat_byte_lt [of a] unat_byte_lt [of b] unat_byte_lt [of c] by auto

lemma b64_bits [simp]:
  "unat (a :: byte) div 4 * 4 + unat a mod 4 * 16 div 16 = unat a"
  "unat (a :: byte) div 4 * 4 + (unat a mod 4 * 16 + unat (b :: byte) div 16) div 16 = unat a"
  "(unat (a :: byte) mod 4 * 16 + unat (b :: byte) div 16) mod 16 = unat b div 16"
  "unat (b :: byte) div 16 * 16 + unat b mod 16 * 4 div 4 = unat b"
  "unat (b :: byte) div 16 * 16 + (unat b mod 16 * 4 + unat (c :: byte) div 64) div 4 = unat b"
  "(unat (b :: byte) mod 16 * 4 + unat (c :: byte) div 64) mod 4 = unat c div 64"
  "unat (c :: byte) div 64 * 64 + unat c mod 64 = unat c"
  using unat_byte_lt [of a] unat_byte_lt [of b] unat_byte_lt [of c] by (auto simp: div_mult2_eq)

lemma byte_high [simp]:
  "unat (b :: byte) div 16 div 16 = 0" "unat (b :: byte) div 64 div 4 = 0"
  "unat (b :: byte) div 16 mod 16 = unat b div 16" "unat (b :: byte) div 64 mod 4 = unat b div 64"
  using unat_byte_lt [of b] by (auto simp: div_mult2_eq)

lemma b64_run_encode: "b64_run 0 0 0 (b64encode bs) = Some bs"
  by (induction bs rule: b64encode.induct) (simp_all del: of_nat_add of_nat_mult)

lemma b64decode_encode [simp]: "b64decode (b64encode bs) = Some bs"
  by (auto simp: b64decode_def b64_run_encode list_all_iff b64encode_ascii)

end
