(* ===== verification/Hrana.thy ===== *)
theory Hrana
  imports Json
begin

text \<open>
  The SQL-over-HTTP transport of \<^verbatim>\<open>hub/db.py\<close> and its copy in \<^verbatim>\<open>agent/agent.py\<close>: the endpoint
  address, the encoding of bound parameters, the decoding of cells, the cursor built from a
  result, the pipeline with its errors, and the splitting of scripts into statements.
  Parameters: \<open>FS\<close> is \<open>float(s)\<close> on a string, \<open>SH\<close> is \<open>str()\<close> of a decoded object, \<open>post\<close>
  the HTTP client (it raises, or answers with status, body text and decoded body).
\<close>

section \<open>Statements of a script\<close>

definition split_sql :: "string \<Rightarrow> string list" where
  "split_sql script = filter (\<lambda>s. s \<noteq> []) (map strip (split_all (CHR '';'') script))"

section \<open>The endpoint\<close>

definition turso_http_url :: "string \<Rightarrow> string" where
  "turso_http_url sync_url = rstrip_slash (let u = strip sync_url in
     if startswith ''libsql://'' u then ''https://'' @ drop 9 u
     else if startswith ''wss://'' u then ''https://'' @ drop 6 u
     else if startswith ''ws://'' u then ''http://'' @ drop 5 u
     else u)"

definition agent_turso_http_url :: "string \<Rightarrow> string" where
  "agent_turso_http_url sync_url = (let u = strip sync_url in
     rstrip_slash
       (if startswith ''libsql://'' u then ''https://'' @ drop 9 u
        else if startswith ''wss://'' u then ''https://'' @ drop 6 u
        else if startswith ''ws://'' u then ''http://'' @ drop 5 u
        else u))"

section \<open>Parameters and cells\<close>

text \<open>The values the queries bind.\<close>

datatype sql_arg = SNull | SBool bool | SInt int | SFloat rat | SBlob "byte list" | SText string

fun hrana_arg :: "sql_arg \<Rightarrow> json" where
  "hrana_arg SNull = JObj [(''type'', JStr ''null'')]"
| "hrana_arg (SBool b) = JObj [(''type'', JStr ''integer''), (''value'', JStr (int_str (if b then 1 else 0)))]"
| "hrana_arg (SInt i) = JObj [(''type'', JStr ''integer''), (''value'', JStr (int_str i))]"
| "hrana_arg (SFloat q) = JObj [(''type'', JStr ''float''), (''value'', JFloat q)]"
| "hrana_arg (SBlob bs) = JObj [(''type'', JStr ''blob''), (''base64'', JStr (b64encode bs))]"
| "hrana_arg (SText s) = JObj [(''type'', JStr ''text''), (''value'', JStr s)]"

text \<open>The agent's copy has no case for bytes; its statements bind text, integers and \<open>None\<close>.\<close>

fun agent_hrana_arg :: "sql_arg \<Rightarrow> json option" where
  "agent_hrana_arg SNull = Some (JObj [(''type'', JStr ''null'')])"
| "agent_hrana_arg (SBool b) =
     Some (JObj [(''type'', JStr ''integer''), (''value'', JStr (int_str (if b then 1 else 0)))])"
| "agent_hrana_arg (SInt i) = Some (JObj [(''type'', JStr ''integer''), (''value'', JStr (int_str i))])"
| "agent_hrana_arg (SFloat q) = Some (JObj [(''type'', JStr ''float''), (''value'', JFloat q)])"
| "agent_hrana_arg (SText s) = Some (JObj [(''type'', JStr ''text''), (''value'', JStr s)])"
| "agent_hrana_arg (SBlob bs) = None"

text \<open>What a cell decodes to: a decoded JSON value or bytes.\<close>

datatype pyval = J json | PyBytes "byte list"

definition py_float :: "(string \<Rightarrow> rat option) \<Rightarrow> json \<Rightarrow> exn + rat" where
  "py_float FS v = (case v of
     JInt i \<Rightarrow> Inr (of_int i) | JBool b \<Rightarrow> Inr (if b then 1 else 0) | JFloat q \<Rightarrow> Inr q
   | JStr s \<Rightarrow> (case FS s of Some q \<Rightarrow> Inr q | None \<Rightarrow> Inl (ValueError ''could not convert string to float''))
   | _ \<Rightarrow> Inl TypeError)"

definition hrana_val :: "(string \<Rightarrow> rat option) \<Rightarrow> json \<Rightarrow> pyval" where
  "hrana_val FS c = (case c of
     JObj d \<Rightarrow>
       (let t = jget d ''type'' in
        if t = JNull \<or> is_str ''null'' t then J JNull
        else if is_str ''integer'' t then
          (case jint (jget d ''value'') of Inr i \<Rightarrow> J (JInt i) | Inl _ \<Rightarrow> J (jget d ''value''))
        else if is_str ''float'' t then
          (case py_float FS (jget d ''value'') of Inr q \<Rightarrow> J (JFloat q) | Inl _ \<Rightarrow> J (jget d ''value''))
        else if is_str ''blob'' t then
          (case jget_default d ''base64'' (JStr []) of
             JStr s \<Rightarrow> PyBytes (case b64decode s of Some bs \<Rightarrow> bs | None \<Rightarrow> [])
           | _ \<Rightarrow> PyBytes [])
        else J (jget d ''value''))
   | _ \<Rightarrow> J c)"

section \<open>The cursor\<close>

type_synonym row = "(json \<times> pyval) list"

text \<open>One row: \<open>cols[i]\<close> for the \<open>i\<close>-th cell, a list or object as a name is not hashable.\<close>

fun row_dict :: "(string \<Rightarrow> rat option) \<Rightarrow> json list \<Rightarrow> json list \<Rightarrow> row \<Rightarrow> exn + row" where
  "row_dict FS cols [] acc = Inr acc"
| "row_dict FS [] (cell # cells) acc = Inl IndexError"
| "row_dict FS (c # cols) (cell # cells) acc =
     (case c of JArr _ \<Rightarrow> Inl TypeError | JObj _ \<Rightarrow> Inl TypeError
      | _ \<Rightarrow> row_dict FS cols cells (dict_put c (hrana_val FS cell) acc))"

record http_cur =
  hc_rows :: "row list"
  hc_lastrowid :: "int option"
  hc_rowcount :: int

definition turso_http_cur :: "(string \<Rightarrow> rat option) \<Rightarrow> json \<Rightarrow> exn + http_cur" where
  "turso_http_cur FS result =
     (let r = jor result (JObj []) in
      bindS (jget_or r ''cols'' JNull) (\<lambda>cs. bindS (jiter (jor cs (JArr []))) (\<lambda>cs.
      bindS (mapE (\<lambda>c. jget_or c ''name'' JNull) cs) (\<lambda>cols.
      bindS (jget_or r ''rows'' JNull) (\<lambda>rs. bindS (jiter (jor rs (JArr []))) (\<lambda>rs.
      bindS (mapE (\<lambda>row. bindS (jiter row) (\<lambda>cells. row_dict FS cols cells [])) rs) (\<lambda>rows.
      bindS (jget_or r ''last_insert_rowid'' JNull) (\<lambda>lir.
      bindS (jget_or r ''affected_row_count'' JNull) (\<lambda>arc.
      bindS (jint (jor arc (JInt 0))) (\<lambda>n.
        Inr \<lparr>hc_rows = rows,
          hc_lastrowid = (case jint lir of Inr i \<Rightarrow> Some i | Inl _ \<Rightarrow> None),
          hc_rowcount = n\<rparr>))))))))))"

definition cur_fetchone :: "http_cur \<Rightarrow> row option" where
  "cur_fetchone c = (case hc_rows c of [] \<Rightarrow> None | r # _ \<Rightarrow> Some r)"

definition cur_fetchall :: "http_cur \<Rightarrow> row list" where
  "cur_fetchall c = hc_rows c"

section \<open>The cursor of the replica\<close>

text \<open>
  The driver's cursor: the names of the columns, when it has a description, and what is left of its rows.
  A row that is shorter than the columns raises; the values are those of the driver.
\<close>

record libsql_cur =
  lq_description :: "string list option"
  lq_rows :: "pyval list list"

definition libsql_cols :: "libsql_cur \<Rightarrow> string list" where
  "libsql_cols c = (case lq_description c of None \<Rightarrow> [] | Some cols \<Rightarrow> cols)"

fun libsql_row :: "string list \<Rightarrow> pyval list \<Rightarrow> row \<Rightarrow> exn + row" where
  "libsql_row [] cells acc = Inr acc"
| "libsql_row (c # cols) [] acc = Inl IndexError"
| "libsql_row (c # cols) (v # cells) acc = libsql_row cols cells (dict_put (JStr c) v acc)"

definition libsql_fetchone :: "libsql_cur \<Rightarrow> exn + row option" where
  "libsql_fetchone c = (case lq_rows c of [] \<Rightarrow> Inr None
     | r # _ \<Rightarrow> map_sum id Some (libsql_row (libsql_cols c) r []))"

definition libsql_fetchall :: "libsql_cur \<Rightarrow> exn + row list" where
  "libsql_fetchall c = mapE (\<lambda>r. libsql_row (libsql_cols c) r []) (lq_rows c)"

text \<open>A script is run statement by statement, up to the first that raises.\<close>

definition libsql_executescript :: "(string \<Rightarrow> exn + unit) \<Rightarrow> string \<Rightarrow> exn + unit" where
  "libsql_executescript run script = bindS (mapE run (split_sql script)) (\<lambda>_. Inr ())"

section \<open>The pipeline\<close>

definition pipeline_body :: "bool \<Rightarrow> (string \<times> sql_arg list) list \<Rightarrow> json" where
  "pipeline_body want_rows stmts = JObj [(''requests'', JArr
     (map (\<lambda>(sql, params). JObj [(''type'', JStr ''execute''),
        (''stmt'', JObj [(''sql'', JStr sql), (''args'', JArr (map hrana_arg params)),
           (''want_rows'', JBool want_rows)])]) stmts
      @ [JObj [(''type'', JStr ''close'')]]))]"

definition turso_error :: "(json \<Rightarrow> string) \<Rightarrow> json \<Rightarrow> exn" where
  "turso_error SH item =
     (case bindS (jget_or item ''error'' JNull) (\<lambda>e. let err = jor e (JObj []) in
        bindS (jget_or err ''message'' JNull) (\<lambda>m. Inr (jor m err))) of
        Inl e \<Rightarrow> e
      | Inr m \<Rightarrow> RuntimeError (''Turso error: '' @ py_str SH m))"

fun pipeline_items :: "(json \<Rightarrow> string) \<Rightarrow> json list \<Rightarrow> exn + json list" where
  "pipeline_items SH [] = Inr []"
| "pipeline_items SH (item # items) =
     bindS (jget_or item ''type'' JNull) (\<lambda>t.
       if is_str ''error'' t then Inl (turso_error SH item)
       else bindS (jget_or item ''response'' JNull) (\<lambda>resp.
         let resp = jor resp (JObj []) in
         bindS (jget_or resp ''type'' JNull) (\<lambda>rt.
         bindS (if is_str ''execute'' rt
                then bindS (jget_or resp ''result'' JNull) (\<lambda>r. Inr [jor r (JObj [])])
                else Inr []) (\<lambda>out.
         bindS (pipeline_items SH items) (\<lambda>rest. Inr (out @ rest))))))"

type_synonym http_post = "json \<Rightarrow> exn + (int \<times> string \<times> json)"

definition pipeline ::
  "(json \<Rightarrow> string) \<Rightarrow> http_post \<Rightarrow> (string \<times> sql_arg list) list \<Rightarrow> exn + json list" where
  "pipeline SH post stmts = bindS (post (pipeline_body True stmts)) (\<lambda>(status, resp_text, data).
     if status \<noteq> 200 then Inl (RuntimeError (''Turso HTTP '' @ int_str status @ '': '' @ take 200 resp_text))
     else bindS (jget_or data ''results'' (JArr [])) (\<lambda>rs. bindS (jiter rs) (pipeline_items SH)))"

definition http_execute ::
  "(string \<Rightarrow> rat option) \<Rightarrow> (json \<Rightarrow> string) \<Rightarrow> http_post \<Rightarrow> string \<Rightarrow> sql_arg list \<Rightarrow> exn + http_cur" where
  "http_execute FS SH post sql params = bindS (pipeline SH post [(sql, params)]) (\<lambda>res.
     case res of [] \<Rightarrow> Inl IndexError | r # _ \<Rightarrow> turso_http_cur FS r)"

definition http_executescript :: "(json \<Rightarrow> string) \<Rightarrow> http_post \<Rightarrow> string \<Rightarrow> exn + unit" where
  "http_executescript SH post script =
     (let stmts = map (\<lambda>s. (s, [])) (split_sql script) in
      if stmts = [] then Inr () else bindS (pipeline SH post stmts) (\<lambda>_. Inr ()))"

text \<open>
  The remote backend: where it posts and with which headers. It is made only when a first statement gets
  through; a probe makes one and drops it.
\<close>

record turso_backend =
  tb_endpoint :: string
  tb_headers :: "(string \<times> string) list"

definition turso_backend_init ::
  "(json \<Rightarrow> string) \<Rightarrow> (turso_backend \<Rightarrow> http_post) \<Rightarrow> string \<Rightarrow> string \<Rightarrow> exn + turso_backend" where
  "turso_backend_init SH client base_url auth_token =
     (let B = \<lparr>tb_endpoint = turso_http_url base_url @ ''/v2/pipeline'',
            tb_headers = (''Content-Type'', ''application/json'') #
              (if auth_token \<noteq> [] then [(''Authorization'', ''Bearer '' @ auth_token)] else [])\<rparr> in
      bindS (pipeline SH (client B) [(''SELECT 1'', [])]) (\<lambda>_. Inr B))"

definition http_probe :: "(json \<Rightarrow> string) \<Rightarrow> (turso_backend \<Rightarrow> http_post) \<Rightarrow> string \<Rightarrow> string \<Rightarrow> exn + unit" where
  "http_probe SH client sync_url auth_token = bindS (turso_backend_init SH client sync_url auth_token) (\<lambda>_. Inr ())"

text \<open>The agent writes only: it asks for no rows and looks at nothing but the errors.\<close>

fun agent_items :: "(json \<Rightarrow> string) \<Rightarrow> json list \<Rightarrow> exn + unit" where
  "agent_items SH [] = Inr ()"
| "agent_items SH (item # items) = bindS (jget_or item ''type'' JNull) (\<lambda>t.
     if is_str ''error'' t then Inl (turso_error SH item) else agent_items SH items)"

definition agent_turso_pipeline ::
  "(json \<Rightarrow> string) \<Rightarrow> http_post \<Rightarrow> (string \<times> sql_arg list) list \<Rightarrow> exn + unit" where
  "agent_turso_pipeline SH post stmts = bindS (post (pipeline_body False stmts)) (\<lambda>(status, resp_text, data).
     if status \<noteq> 200 then Inl (RuntimeError (''Turso HTTP '' @ int_str status @ '': '' @ take 200 resp_text))
     else bindS (jget_or data ''results'' (JArr [])) (\<lambda>rs. bindS (jiter rs) (agent_items SH)))"

section \<open>Facts\<close>

lemma agent_url_eq: "agent_turso_http_url u = turso_http_url u"
  by (simp add: agent_turso_http_url_def turso_http_url_def Let_def)

lemma agent_arg_eq: "agent_hrana_arg v = (case v of SBlob bs \<Rightarrow> None | _ \<Rightarrow> Some (hrana_arg v))"
  by (cases v) simp_all

text \<open>What a bound value comes back as when it is read from a column: booleans as integers.\<close>

fun read_back :: "sql_arg \<Rightarrow> pyval" where
  "read_back SNull = J JNull"
| "read_back (SBool b) = J (JInt (if b then 1 else 0))"
| "read_back (SInt i) = J (JInt i)"
| "read_back (SFloat q) = J (JFloat q)"
| "read_back (SBlob bs) = PyBytes bs"
| "read_back (SText s) = J (JStr s)"

text \<open>Integers short enough for Python's own text conversion; the columns hold 64 bits.\<close>

definition arg_fits :: "sql_arg \<Rightarrow> bool" where
  "arg_fits v = (case v of SInt i \<Rightarrow> \<bar>i\<bar> < 10 ^ max_str_digits | _ \<Rightarrow> True)"

lemma py_int_small: "py_int (int_str 0) = Some 0" "py_int (int_str 1) = Some 1"
  using max_str_digits_pos by (auto intro!: py_int_int_str one_less_power)

lemma hrana_val_arg: "arg_fits v \<Longrightarrow> hrana_val FS (hrana_arg v) = read_back v"
  by (cases v) (auto simp: hrana_val_def arg_fits_def py_int_int_str py_float_def py_int_small)

lemma row_dict_strings:
  "length names = length cells \<Longrightarrow> distinct names \<Longrightarrow> JStr ` set names \<inter> fst ` set acc = {} \<Longrightarrow>
   row_dict FS (map JStr names) cells acc = Inr (acc @ zip (map JStr names) (map (hrana_val FS) cells))"
proof (induction names cells arbitrary: acc rule: list_induct2)
  case Nil
  then show ?case by simp
next
  case (Cons n names cell cells)
  have "JStr n \<notin> fst ` set acc" using Cons.prems(2) by auto
  then have "row_dict FS (map JStr (n # names)) (cell # cells) acc =
      row_dict FS (map JStr names) cells (acc @ [(JStr n, hrana_val FS cell)])"
    by (simp add: dict_put_new)
  with Cons.IH [of "acc @ [(JStr n, hrana_val FS cell)]"] Cons.prems show ?case by auto
qed

text \<open>The server's answer for a table with the given columns and rows.\<close>

definition result_of :: "string list \<Rightarrow> sql_arg list list \<Rightarrow> int option \<Rightarrow> int \<Rightarrow> json" where
  "result_of names rows lir n = JObj
     [(''cols'', JArr (map (\<lambda>c. JObj [(''name'', JStr c)]) names)),
      (''rows'', JArr (map (\<lambda>r. JArr (map hrana_arg r)) rows)),
      (''last_insert_rowid'', case lir of None \<Rightarrow> JNull | Some i \<Rightarrow> JStr (int_str i)),
      (''affected_row_count'', JInt n)]"

lemma jor_JArr [simp]: "jor (JArr xs) (JArr []) = JArr xs"
  by (auto simp: jor_def)

lemma turso_http_cur_result:
  assumes "distinct names" and "\<forall>r \<in> set rows. length r = length names \<and> (\<forall>v \<in> set r. arg_fits v)"
    and "\<forall>i. lir = Some i \<longrightarrow> \<bar>i\<bar> < 10 ^ max_str_digits"
  shows "turso_http_cur FS (result_of names rows lir n) =
    Inr \<lparr>hc_rows = map (\<lambda>r. zip (map JStr names) (map read_back r)) rows,
      hc_lastrowid = lir, hc_rowcount = n\<rparr>"
proof -
  have cols: "mapE (\<lambda>c. jget_or c ''name'' JNull) (map (\<lambda>c. JObj [(''name'', JStr c)]) names)
      = Inr (map JStr names)"
    by (simp add: mapE_map_arg jget_or_def mapE_map)
  have row: "bindS (jiter (JArr (map hrana_arg r))) (\<lambda>cells. row_dict FS (map JStr names) cells []) =
      Inr (zip (map JStr names) (map read_back r))" if "r \<in> set rows" for r
  proof -
    have e: "map (hrana_val FS \<circ> hrana_arg) r = map read_back r"
      using assms(2) that by (auto simp: hrana_val_arg)
    show ?thesis using assms that by (simp add: jiter_def row_dict_strings e)
  qed
  have rows: "mapE (\<lambda>row. bindS (jiter row) (\<lambda>cells. row_dict FS (map JStr names) cells []))
      (map (\<lambda>r. JArr (map hrana_arg r)) rows) = Inr (map (\<lambda>r. zip (map JStr names) (map read_back r)) rows)"
    unfolding mapE_map_arg using row by (rule mapE_map)
  have lir: "(case jint (case lir of None \<Rightarrow> JNull | Some i \<Rightarrow> JStr (int_str i)) of Inr i \<Rightarrow> Some i | Inl _ \<Rightarrow> None) = lir"
    using assms(3) by (cases lir) (auto simp: py_int_int_str)
  have arc: "jint (jor (JInt n) (JInt 0)) = Inr n" by (simp add: jor_def)
  show ?thesis
    unfolding turso_http_cur_def result_of_def Let_def
    by (simp add: jor_def [of "JObj _"] jget_or_def [of "JObj _"] jiter_def [of "JArr _"] cols rows lir arc)
qed

text \<open>An error item ends the pipeline, whatever follows it; without one every execution answers.\<close>

definition ok_item :: "json \<Rightarrow> json" where
  "ok_item r = JObj [(''type'', JStr ''ok''), (''response'',
     JObj [(''type'', JStr ''execute''), (''result'', r)])]"

definition close_item :: json where
  "close_item = JObj [(''type'', JStr ''ok''), (''response'', JObj [(''type'', JStr ''close'')])]"

definition error_item :: "string \<Rightarrow> json" where
  "error_item m = JObj [(''type'', JStr ''error''), (''error'', JObj [(''message'', JStr m)])]"

lemma pipeline_items_ok:
  "pipeline_items SH (map ok_item rs @ [close_item]) = Inr (map (\<lambda>r. jor r (JObj [])) rs)"
  by (induction rs) (simp_all add: ok_item_def close_item_def jget_or_def jor_def)

lemma pipeline_items_error:
  "m \<noteq> [] \<Longrightarrow> pipeline_items SH (map ok_item rs @ error_item m # rest) = Inl (RuntimeError (''Turso error: '' @ m))"
  by (induction rs) (simp_all add: ok_item_def error_item_def jget_or_def jor_def turso_error_def py_str_def)

text \<open>A statement over HTTP gives the rows the server has, with the values that were bound.\<close>

lemma http_execute_rows:
  assumes "distinct names" and "\<forall>r \<in> set rows. length r = length names \<and> (\<forall>v \<in> set r. arg_fits v)"
    and "\<forall>i. lir = Some i \<longrightarrow> \<bar>i\<bar> < 10 ^ max_str_digits"
    and "post (pipeline_body True [(sql, params)]) =
      Inr (200, resp_text, JObj [(''results'', JArr [ok_item (result_of names rows lir n), close_item])])"
  shows "http_execute FS SH post sql params = Inr \<lparr>hc_rows = map (\<lambda>r. zip (map JStr names) (map read_back r)) rows,
      hc_lastrowid = lir, hc_rowcount = n\<rparr>"
  using pipeline_items_ok [of SH "[result_of names rows lir n]"] assms(4)
    turso_http_cur_result [OF assms(1-3), of FS n]
  by (simp add: http_execute_def pipeline_def jget_or_def [of "JObj _"] jiter_def jor_def result_of_def)

text \<open>Both copies of the pipeline report the same errors for the same answer.\<close>

lemma agent_items_error:
  "m \<noteq> [] \<Longrightarrow> agent_items SH (map ok_item rs @ error_item m # rest) = Inl (RuntimeError (''Turso error: '' @ m))"
  by (induction rs) (simp_all add: ok_item_def error_item_def jget_or_def jor_def turso_error_def py_str_def)

lemma agent_items_ok: "agent_items SH (map ok_item rs @ [close_item]) = Inr ()"
  by (induction rs) (simp_all add: ok_item_def close_item_def jget_or_def)

text \<open>Splitting gives back the statements of a script whose statements contain no semicolon.\<close>

fun join_stmts :: "string list \<Rightarrow> string" where
  "join_stmts [] = []"
| "join_stmts (s # ss) = s @ CHR '';'' # join_stmts ss"

lemma split_all_append:
  "c \<notin> set a \<Longrightarrow> split_all c (a @ c # b) = a # split_all c b"
  by (induction a) (auto split: list.split)

lemma split_all_join:
  "\<forall>s \<in> set ss. CHR '';'' \<notin> set s \<Longrightarrow> split_all (CHR '';'') (join_stmts ss) = ss @ [[]]"
  by (induction ss) (simp_all add: split_all_append)

lemma split_sql_join:
  "\<forall>s \<in> set ss. CHR '';'' \<notin> set s \<Longrightarrow> split_sql (join_stmts ss) = filter (\<lambda>s. s \<noteq> []) (map strip ss)"
  by (simp add: split_sql_def split_all_join)

section \<open>Properties\<close>

text \<open>
  What is bound over HTTP is what is read back. When the server answers a statement with a table
  of values encoded as the client encodes parameters, the cursor holds those values under the column
  names, booleans as integers, with the row id and the row count the server reported.
\<close>

theorem http_rows_roundtrip:
  assumes "distinct names" and "\<forall>r \<in> set rows. length r = length names \<and> (\<forall>v \<in> set r. arg_fits v)"
    and "\<forall>i. lir = Some i \<longrightarrow> \<bar>i\<bar> < 10 ^ max_str_digits"
    and "post (pipeline_body True [(sql, params)]) =
      Inr (200, resp_text, JObj [(''results'', JArr [ok_item (result_of names rows lir n), close_item])])"
  shows "http_execute FS SH post sql params = Inr \<lparr>hc_rows = map (\<lambda>r. zip (map JStr names) (map read_back r)) rows,
      hc_lastrowid = lir, hc_rowcount = n\<rparr>"
  using assms by (rule http_execute_rows)

theorem http_rows_roundtrip_witness:
  "http_execute (\<lambda>_. None) (\<lambda>_. [])
     (\<lambda>_. Inr (200, [], JObj [(''results'',
        JArr [ok_item (result_of [''a'', ''b''] [[SText ''x'', SNull]] None 0), close_item])]))
     ''SELECT'' [] =
   Inr \<lparr>hc_rows = [[(JStr ''a'', J (JStr ''x'')), (JStr ''b'', J JNull)]], hc_lastrowid = None, hc_rowcount = 0\<rparr>"
  by (subst http_rows_roundtrip [where names = "[''a'', ''b'']" and rows = "[[SText ''x'', SNull]]"
        and lir = None and n = 0 and resp_text = "[]"]) (simp_all add: arg_fits_def)

text \<open>
  No error of the remote database passes for success. Whatever statements succeeded before it and
  whatever follows it, an error item in the answer raises its message, in the hub's pipeline and in
  the agent's.
\<close>

theorem pipeline_error_raised:
  assumes "m \<noteq> []"
    and "\<And>body. post body = Inr (200, resp_text, JObj [(''results'', JArr (map ok_item rs @ error_item m # rest))])"
  shows "pipeline SH post stmts = Inl (RuntimeError (''Turso error: '' @ m)) \<and>
    agent_turso_pipeline SH post stmts = Inl (RuntimeError (''Turso error: '' @ m))"
  using pipeline_items_error [OF assms(1), of SH rs rest] agent_items_error [OF assms(1), of SH rs rest]
  by (simp_all add: pipeline_def agent_turso_pipeline_def assms(2) jget_or_def [of "JObj _"] jiter_def)

theorem pipeline_error_raised_witness:
  "pipeline (\<lambda>_. []) (\<lambda>_. Inr (200, [], JObj [(''results'', JArr (map ok_item [] @ error_item ''locked'' # []))]))
     [(''SELECT 1'', [])] = Inl (RuntimeError (''Turso error: '' @ ''locked''))"
  by (rule pipeline_error_raised [where resp_text = "[]" and rs = "[]" and rest = "[]", THEN conjunct1])
    simp_all

section \<open>One row, whichever the backend\<close>

lemma libsql_row_zip:
  assumes "length cells = length names" and "distinct names" and "fst ` set acc \<inter> JStr ` set names = {}"
  shows "libsql_row names cells acc = Inr (acc @ zip (map JStr names) cells)"
  using assms
proof (induction names arbitrary: cells acc)
  case (Cons n names)
  then obtain v vs where c: "cells = v # vs" by (cases cells) auto
  have "JStr n \<notin> fst ` set acc" using Cons.prems(3) by auto
  with Cons.IH [of vs "acc @ [(JStr n, v)]"] Cons.prems c show ?case by (auto simp: dict_put_new)
qed simp

text \<open>
  The replica and the remote backend give the same rows: for a table with columns of distinct names, what
  the driver's cursor gives, one row or all, is what the decoded answer of the HTTP interface gives.
\<close>

lemma backends_give_same_rows:
  assumes "distinct names" and "\<forall>r \<in> set rows. length r = length names \<and> (\<forall>v \<in> set r. arg_fits v)"
    and "c = \<lparr>lq_description = Some names, lq_rows = map (map read_back) rows\<rparr>"
    and "turso_http_cur FS (result_of names rows None n) = Inr cur"
  shows "libsql_fetchall c = Inr (cur_fetchall cur) \<and> libsql_fetchone c = Inr (cur_fetchone cur)"
proof -
  have cur: "hc_rows cur = map (\<lambda>r. zip (map JStr names) (map read_back r)) rows"
    using assms(4) turso_http_cur_result [OF assms(1,2), of None FS n] by auto
  have row: "libsql_row names (map read_back r) [] = Inr (zip (map JStr names) (map read_back r))" if "r \<in> set rows" for r
    using assms(1,2) that by (subst libsql_row_zip) auto
  then have "mapE (\<lambda>r. libsql_row names r []) (map (map read_back) rows) = Inr (hc_rows cur)"
    unfolding mapE_map_arg cur by (rule mapE_map)
  then show ?thesis
    using row by (cases rows) (auto simp: assms(3) libsql_fetchall_def libsql_fetchone_def libsql_cols_def cur_fetchall_def cur_fetchone_def cur)
qed

end
