(* ===== verification/Crypto.thy ===== *)
theory Crypto
  imports PyString
begin

text \<open>
  The hash helpers of \<^verbatim>\<open>hub/db.py\<close>. The hash primitives are parameters: \<open>H\<close> is SHA-256 on
  bytes and \<open>P\<close> is PBKDF2-HMAC-SHA256 on a password, a salt and an iteration count. No property
  of them is assumed; the theorems say how the code's outcome depends on them.
\<close>

type_synonym hash_fn = "byte list \<Rightarrow> byte list"
type_synonym kdf_fn = "byte list \<Rightarrow> byte list \<Rightarrow> int \<Rightarrow> byte list"

definition hash_token :: "hash_fn \<Rightarrow> string \<Rightarrow> string" where
  "hash_token H token = hexdigest (H (encode token))"

definition kdf_iters :: int where
  "kdf_iters = 200000"

definition pbkdf2_algo :: string where
  "pbkdf2_algo = ''pbkdf2_sha256''"

definition hash_password :: "kdf_fn \<Rightarrow> string \<Rightarrow> byte list \<Rightarrow> string" where
  "hash_password P password salt =
     pbkdf2_algo @ CHR ''$'' # int_str kdf_iters @ CHR ''$'' # hexdigest salt
       @ CHR ''$'' # hexdigest (P (encode password) salt kdf_iters)"

text \<open>
  \<open>hashlib.pbkdf2_hmac\<close> refuses an iteration count below 1 with \<open>ValueError\<close> and one above the
  C \<open>int\<close> range with \<open>OverflowError\<close>.
\<close>

definition pbkdf2_hmac :: "kdf_fn \<Rightarrow> byte list \<Rightarrow> byte list \<Rightarrow> int \<Rightarrow> exn + byte list" where
  "pbkdf2_hmac P pw salt iters =
     (if iters < 1 then Inl (ValueError ''iteration value must be greater than 0.'')
      else if 2147483647 < iters then Inl OverflowError
      else Inr (P pw salt iters))"

text \<open>
  The \<open>try\<close> of \<open>verify_password\<close> turns \<open>ValueError\<close> and \<open>TypeError\<close> into \<open>False\<close>; any other
  exception goes through.
\<close>

definition value_or_type_error :: "exn \<Rightarrow> bool" where
  "value_or_type_error e = (case e of ValueError _ \<Rightarrow> True | TypeError \<Rightarrow> True | _ \<Rightarrow> False)"

definition verify_password :: "kdf_fn \<Rightarrow> string \<Rightarrow> string \<Rightarrow> exn + bool" where
  "verify_password P password stored =
     (case split_max (CHR ''$'') 3 stored of
        [algo, iters_s, salt_h, digest_h] \<Rightarrow>
          if algo \<noteq> pbkdf2_algo then Inr False
          else (case fromhex salt_h of
             None \<Rightarrow> Inr False
           | Some salt \<Rightarrow> (case fromhex digest_h of
                None \<Rightarrow> Inr False
              | Some expected \<Rightarrow> (case py_int iters_s of
                   None \<Rightarrow> Inr False
                 | Some iters \<Rightarrow> (case pbkdf2_hmac P (encode password) salt iters of
                      Inr candidate \<Rightarrow> Inr (candidate = expected)
                    | Inl e \<Rightarrow> if value_or_type_error e then Inr False else Inl e))))
      | _ \<Rightarrow> Inr False)"

lemma hash_token_inject: "hash_token H a = hash_token H b \<longleftrightarrow> H (encode a) = H (encode b)"
  by (simp add: hash_token_def hexdigest_inject)

lemma dollar_not_hex: "CHR ''$'' \<notin> set (hexdigest bs)"
  using hexdigest_chars [of "CHR ''$''" bs] by (auto simp del: of_char_eq_iff)

lemma int_str_kdf_iters: "int_str kdf_iters = ''200000''"
  by (simp add: kdf_iters_def int_str_def nat_str.simps dec_digit_def char_of_def bit_0)

lemma py_int_kdf_iters: "py_int (int_str kdf_iters) = Some kdf_iters"
proof (rule py_int_int_str)
  have "(10::int) ^ 6 \<le> 10 ^ max_str_digits"
    by (rule power_increasing) (simp_all add: max_str_digits_def)
  then show "\<bar>kdf_iters\<bar> < 10 ^ max_str_digits" by (simp add: kdf_iters_def)
qed

lemma split_hash_password:
  "split_max (CHR ''$'') 3 (hash_password P pw salt) =
     [pbkdf2_algo, int_str kdf_iters, hexdigest salt,
      hexdigest (P (encode pw) salt kdf_iters)]"
proof -
  have "CHR ''$'' \<notin> set pbkdf2_algo" by (simp add: pbkdf2_algo_def)
  moreover have "CHR ''$'' \<notin> set (int_str kdf_iters)" by (simp add: int_str_kdf_iters)
  ultimately show ?thesis
    by (simp add: hash_password_def numeral_3_eq_3 split_max_Suc_append dollar_not_hex
        append_assoc del: split_max.simps(2))
qed

text \<open>A password is accepted against a stored hash exactly when the derived keys agree.\<close>

lemma verify_hash_password:
  "verify_password P pw (hash_password P pw' salt) =
     Inr (P (encode pw) salt kdf_iters = P (encode pw') salt kdf_iters)"
proof -
  have "pbkdf2_hmac P (encode pw) salt kdf_iters = Inr (P (encode pw) salt kdf_iters)"
    by (simp add: pbkdf2_hmac_def kdf_iters_def)
  then show ?thesis
    by (simp add: verify_password_def split_hash_password py_int_kdf_iters)
qed

text \<open>The only exception \<open>verify_password\<close> lets through is the overflow of the count.\<close>

lemma verify_password_exn: "verify_password P pw stored = Inl e \<Longrightarrow> e = OverflowError"
  by (auto simp: verify_password_def pbkdf2_hmac_def value_or_type_error_def
      split: list.splits option.splits if_splits)

end
