(* ===== verification/Schema.thy ===== *)
theory Schema
  imports Crypto
begin

text \<open>
  The hub's database (\<^verbatim>\<open>hub/db.py\<close>): one record per row type of the schema, the tables, the
  backend that serves them, and the well-formedness of a database: primary keys and \<open>UNIQUE\<close>
  columns are unique, auto-increment ids stay below their counter, and every reference has a row
  to point to when the backend enforces foreign keys. Integer columns are \<open>int\<close>, nullable columns
  are options, \<open>0\<close>/\<open>1\<close> flags stay integers as in the schema.
\<close>

section \<open>Rows\<close>

record user_row =
  u_id :: int
  u_username :: string
  u_password_hash :: string
  u_is_admin :: int
  u_created_at :: int

record invite_row =
  i_code :: string
  i_created_by :: int
  i_created_at :: int
  i_used_by :: "int option"
  i_used_at :: "int option"

record device_row =
  d_id :: string
  d_owner_id :: int
  d_name :: string
  d_token_hash :: string
  d_paired_at :: int
  d_last_seen :: "int option"
  d_characteristics :: "string option"

record pairing_row =
  p_code :: string
  p_user_id :: int
  p_device_name :: "string option"
  p_expires_at :: int
  p_used :: int

record session_row =
  s_token_hash :: string
  s_user_id :: int
  s_created_at :: int
  s_expires_at :: int

record lock_row =
  l_device_id :: string
  l_holder :: string
  l_label :: "string option"
  l_acquired_at :: int
  l_expires_at :: int

record theft_row =
  t_device_id :: string
  t_armed :: int
  t_armed_at :: "int option"
  t_armed_by :: "int option"
  t_interval_s :: int
  t_opts :: "string option"
  t_last_run :: "int option"

record media_row =
  m_id :: int
  m_device_id :: string
  m_owner_id :: int
  m_kind :: string
  m_created_at :: int
  m_path :: "string option"
  m_mime :: "string option"
  m_size :: "int option"
  m_meta :: "string option"
  m_trigger :: "string option"

record account_token_row =
  a_id :: int
  a_user_id :: int
  a_token_hash :: string
  a_label :: "string option"
  a_created_at :: int
  a_last_used :: "int option"

record node_row =
  n_url :: string
  n_label :: "string option"
  n_last_seen :: int

record presence_row =
  pr_device_id :: string
  pr_node_url :: string
  pr_last_seen :: int

record audit_row =
  au_id :: int
  au_ts :: int
  au_owner_id :: "int option"
  au_actor_id :: "int option"
  au_actor_name :: "string option"
  au_device_id :: "string option"
  au_action :: string
  au_detail :: "string option"
  au_node_url :: "string option"
  au_ok :: int

section \<open>Tables and backends\<close>

record tables =
  users :: "user_row list"
  user_seq :: int
  invites :: "invite_row list"
  devices :: "device_row list"
  pairing_codes :: "pairing_row list"
  sessions :: "session_row list"
  device_locks :: "lock_row list"
  theft_state :: "theft_row list"
  theft_media :: "media_row list"
  media_seq :: int
  account_tokens :: "account_token_row list"
  account_seq :: int
  node_endpoints :: "node_row list"
  device_presence :: "presence_row list"
  audit_log :: "audit_row list"
  audit_seq :: int

definition empty_tables :: tables where
  "empty_tables = \<lparr>users = [], user_seq = 0, invites = [], devices = [], pairing_codes = [],
     sessions = [], device_locks = [], theft_state = [], theft_media = [], media_seq = 0,
     account_tokens = [], account_seq = 0, node_endpoints = [], device_presence = [],
     audit_log = [], audit_seq = 0\<rparr>"

text \<open>
  The three backends. The local file answers always; the embedded replica answers reads locally
  and needs its remote primary for writes; the HTTP backend needs the remote for everything. The
  first flag says whether the remote is reachable now, the second whether the server behind the
  driver enforces foreign keys (only the SQLite backend switches that on itself).
\<close>

datatype backend =
    SqliteBackend
  | LibsqlBackend (remote_up: bool) (server_fk: bool)
  | TursoHttpBackend (remote_up: bool) (server_fk: bool)

fun can_read :: "backend \<Rightarrow> bool" where
  "can_read SqliteBackend = True"
| "can_read (LibsqlBackend up fk) = True"
| "can_read (TursoHttpBackend up fk) = up"

fun can_write :: "backend \<Rightarrow> bool" where
  "can_write SqliteBackend = True"
| "can_write (LibsqlBackend up fk) = up"
| "can_write (TursoHttpBackend up fk) = up"

fun enforces_fk :: "backend \<Rightarrow> bool" where
  "enforces_fk SqliteBackend = True"
| "enforces_fk (LibsqlBackend up fk) = fk"
| "enforces_fk (TursoHttpBackend up fk) = fk"

record db = tables +
  db_backend :: "backend option"

definition fk_on :: "db \<Rightarrow> bool" where
  "fk_on s = (case db_backend s of None \<Rightarrow> False | Some b \<Rightarrow> enforces_fk b)"

definition empty_db :: "backend \<Rightarrow> db" where
  "empty_db b = tables.extend empty_tables \<lparr>db_backend = Some b\<rparr>"

text \<open>
  \<open>_connect\<close>: without \<open>init\<close> there is no backend. A statement that only reads, or one that
  writes, runs when the backend answers it; each runs as one atomic, auto-committed statement
  sequence on the state it finds.
\<close>

definition db_read :: "(db \<Rightarrow> 'a) \<Rightarrow> (db, 'a) op" where
  "db_read f s = (case db_backend s of
       None \<Rightarrow> (Inl (RuntimeError ''db.init() not called''), s)
     | Some b \<Rightarrow> if can_read b then (Inr (f s), s) else (Inl BackendError, s))"

definition db_write :: "(db, 'a) op \<Rightarrow> (db, 'a) op" where
  "db_write m s = (case db_backend s of
       None \<Rightarrow> (Inl (RuntimeError ''db.init() not called''), s)
     | Some b \<Rightarrow> if can_write b then m s else (Inl BackendError, s))"

text \<open>A constraint of the schema: the statement runs, or \<open>IntegrityError\<close> and no change.\<close>

definition constraint :: "(db \<Rightarrow> bool) \<Rightarrow> (db \<Rightarrow> 'a \<times> db) \<Rightarrow> (db, 'a) op" where
  "constraint C m s = (if C s then (let (a, t) = m s in (Inr a, t)) else (Inl IntegrityError, s))"

text \<open>A reference to a user or to a device, checked when foreign keys are on.\<close>

definition fk_user :: "int \<Rightarrow> db \<Rightarrow> bool" where
  "fk_user uid s \<longleftrightarrow> (fk_on s \<longrightarrow> has_key u_id uid (users s))"

definition fk_device :: "string \<Rightarrow> db \<Rightarrow> bool" where
  "fk_device did s \<longleftrightarrow> (fk_on s \<longrightarrow> has_key d_id did (devices s))"

lemma fk_user_iff: "fk_user uid s \<longleftrightarrow> (fk_on s \<longrightarrow> uid \<in> u_id ` set (users s))"
  by (simp add: fk_user_def has_key_def)

lemma fk_device_iff: "fk_device did s \<longleftrightarrow> (fk_on s \<longrightarrow> did \<in> d_id ` set (devices s))"
  by (simp add: fk_device_def has_key_def)

definition answers :: "db \<Rightarrow> bool" where
  "answers s = (case db_backend s of None \<Rightarrow> False | Some b \<Rightarrow> can_write b)"

definition answers_reads :: "db \<Rightarrow> bool" where
  "answers_reads s = (case db_backend s of None \<Rightarrow> False | Some b \<Rightarrow> can_read b)"

lemma can_write_read: "can_write b \<Longrightarrow> can_read b"
  by (cases b) simp_all

lemma answers_reads_if [simp]: "answers s \<Longrightarrow> answers_reads s"
  by (auto simp: answers_def answers_reads_def can_write_read split: option.splits)

lemma db_read_answers [simp]: "answers_reads s \<Longrightarrow> db_read f s = (Inr (f s), s)"
  by (auto simp: db_read_def answers_reads_def split: option.splits)

lemma db_write_answers [simp]: "answers s \<Longrightarrow> db_write m s = m s"
  by (auto simp: db_write_def answers_def split: option.splits)

lemma db_write_refused: "\<not> answers s \<Longrightarrow> \<exists>e. db_write m s = (Inl e, s)"
  by (auto simp: db_write_def answers_def split: option.splits)

lemma db_read_state [simp]: "snd (db_read f s) = s"
  by (simp add: db_read_def split: option.splits)

lemma answers_empty_db [simp]:
  "answers (empty_db b) \<longleftrightarrow> can_write b" "fk_on (empty_db b) \<longleftrightarrow> enforces_fk b"
  by (simp_all add: answers_def empty_db_def fk_on_def tables.extend_def empty_tables_def)

section \<open>Well-formed databases\<close>

definition ids_below :: "('r \<Rightarrow> int) \<Rightarrow> 'r list \<Rightarrow> int \<Rightarrow> bool" where
  "ids_below f t n \<longleftrightarrow> (\<forall>r \<in> set t. f r \<le> n)"

definition user_ids :: "db \<Rightarrow> int set" where
  "user_ids s = u_id ` set (users s)"

definition device_ids :: "db \<Rightarrow> string set" where
  "device_ids s = d_id ` set (devices s)"

definition wf_keys :: "db \<Rightarrow> bool" where
  "wf_keys s \<longleftrightarrow>
     uniq u_id (users s) \<and> uniq u_username (users s) \<and> ids_below u_id (users s) (user_seq s) \<and>
     uniq i_code (invites s) \<and> uniq d_id (devices s) \<and> uniq p_code (pairing_codes s) \<and>
     uniq s_token_hash (sessions s) \<and> uniq l_device_id (device_locks s) \<and>
     uniq t_device_id (theft_state s) \<and>
     uniq m_id (theft_media s) \<and> ids_below m_id (theft_media s) (media_seq s) \<and>
     uniq a_id (account_tokens s) \<and> ids_below a_id (account_tokens s) (account_seq s) \<and>
     uniq a_token_hash (account_tokens s) \<and>
     uniq n_url (node_endpoints s) \<and> uniq pr_device_id (device_presence s) \<and>
     uniq au_id (audit_log s) \<and> ids_below au_id (audit_log s) (audit_seq s)"

definition wf_refs :: "db \<Rightarrow> bool" where
  "wf_refs s \<longleftrightarrow>
     refs i_created_by (invites s) (user_ids s) \<and> refs_opt i_used_by (invites s) (user_ids s) \<and>
     refs d_owner_id (devices s) (user_ids s) \<and> refs p_user_id (pairing_codes s) (user_ids s) \<and>
     refs s_user_id (sessions s) (user_ids s) \<and>
     refs l_device_id (device_locks s) (device_ids s) \<and>
     refs t_device_id (theft_state s) (device_ids s) \<and>
     refs m_device_id (theft_media s) (device_ids s) \<and> refs m_owner_id (theft_media s) (user_ids s) \<and>
     refs a_user_id (account_tokens s) (user_ids s) \<and>
     refs pr_device_id (device_presence s) (device_ids s)"

definition wf_db :: "db \<Rightarrow> bool" where
  "wf_db s \<longleftrightarrow> wf_keys s \<and> (fk_on s \<longrightarrow> wf_refs s)"

lemmas wf_defs = wf_db_def wf_keys_def wf_refs_def user_ids_def device_ids_def

lemma ids_below_simps [simp]:
  "ids_below f [] n"
  "ids_below f (t @ [r]) n \<longleftrightarrow> ids_below f t n \<and> f r \<le> n"
  "ids_below f t n \<Longrightarrow> ids_below f t (n + 1)"
  "ids_below f t n \<Longrightarrow> ids_below f (delete_where P t) n"
  by (auto simp: ids_below_def)

lemma ids_below_map: "ids_below f t n \<longleftrightarrow> (\<forall>k \<in> set (map f t). k \<le> n)"
  by (simp add: ids_below_def)

lemma ids_below_update_where [simp]:
  "(\<And>r. P r \<Longrightarrow> f (g r) = f r) \<Longrightarrow> ids_below f (update_where P g t) n \<longleftrightarrow> ids_below f t n"
  unfolding ids_below_map by (simp only: map_key_update_where)

lemma ids_below_fresh [simp]: "ids_below f t n \<Longrightarrow> \<not> has_key f (n + 1) t"
  by (auto simp: ids_below_def has_key_def)

lemma wf_empty_db [simp]: "wf_db (empty_db b)"
  by (simp add: wf_defs empty_db_def tables.extend_def empty_tables_def)

text \<open>How to show that an operation keeps a database well-formed.\<close>

lemma preserves_db_read [pres]: "preserves I (db_read f)"
  by (simp add: preserves_def)

lemma preserves_db_write [pres]: "preserves I m \<Longrightarrow> preserves I (db_write m)"
  by (auto simp: preserves_def db_write_def split: option.splits)

lemma preserves_constraint:
  "(\<And>s a t. I s \<Longrightarrow> C s \<Longrightarrow> m s = (a, t) \<Longrightarrow> I t) \<Longrightarrow> preserves I (constraint C m)"
  by (auto simp: preserves_def constraint_def split: prod.splits)

lemma preserves_modify: "(\<And>s. I s \<Longrightarrow> I (f s)) \<Longrightarrow> preserves I (modify f)"
  by (simp add: preserves_def)

text \<open>No operation on the tables changes the backend.\<close>

definition same_backend :: "(db, 'a) op \<Rightarrow> bool" where
  "same_backend m \<longleftrightarrow> (\<forall>s. db_backend (snd (m s)) = db_backend s)"

lemma answers_cong: "db_backend t = db_backend s \<Longrightarrow> answers t = answers s"
  by (simp add: answers_def)

lemma fk_on_cong: "db_backend t = db_backend s \<Longrightarrow> fk_on t = fk_on s"
  by (simp add: fk_on_def)

lemma fk_on_update [simp]:
  "fk_on (s\<lparr>users := x1\<rparr>) = fk_on s" "fk_on (s\<lparr>user_seq := n\<rparr>) = fk_on s"
  "fk_on (s\<lparr>invites := x2\<rparr>) = fk_on s" "fk_on (s\<lparr>devices := x3\<rparr>) = fk_on s"
  "fk_on (s\<lparr>pairing_codes := x4\<rparr>) = fk_on s" "fk_on (s\<lparr>sessions := x5\<rparr>) = fk_on s"
  "fk_on (s\<lparr>device_locks := x6\<rparr>) = fk_on s" "fk_on (s\<lparr>theft_state := x7\<rparr>) = fk_on s"
  "fk_on (s\<lparr>theft_media := x8\<rparr>) = fk_on s" "fk_on (s\<lparr>media_seq := n\<rparr>) = fk_on s"
  "fk_on (s\<lparr>account_tokens := x9\<rparr>) = fk_on s" "fk_on (s\<lparr>account_seq := n\<rparr>) = fk_on s"
  "fk_on (s\<lparr>node_endpoints := x10\<rparr>) = fk_on s" "fk_on (s\<lparr>device_presence := x11\<rparr>) = fk_on s"
  "fk_on (s\<lparr>audit_log := x12\<rparr>) = fk_on s" "fk_on (s\<lparr>audit_seq := n\<rparr>) = fk_on s"
  by (simp_all add: fk_on_def)

lemma answers_update [simp]:
  "answers (s\<lparr>users := x1\<rparr>) = answers s" "answers (s\<lparr>user_seq := n\<rparr>) = answers s"
  "answers (s\<lparr>invites := x2\<rparr>) = answers s" "answers (s\<lparr>devices := x3\<rparr>) = answers s"
  "answers (s\<lparr>pairing_codes := x4\<rparr>) = answers s" "answers (s\<lparr>sessions := x5\<rparr>) = answers s"
  "answers (s\<lparr>device_locks := x6\<rparr>) = answers s" "answers (s\<lparr>theft_state := x7\<rparr>) = answers s"
  "answers (s\<lparr>theft_media := x8\<rparr>) = answers s" "answers (s\<lparr>media_seq := n\<rparr>) = answers s"
  "answers (s\<lparr>account_tokens := x9\<rparr>) = answers s" "answers (s\<lparr>account_seq := n\<rparr>) = answers s"
  "answers (s\<lparr>node_endpoints := x10\<rparr>) = answers s" "answers (s\<lparr>device_presence := x11\<rparr>) = answers s"
  "answers (s\<lparr>audit_log := x12\<rparr>) = answers s" "answers (s\<lparr>audit_seq := n\<rparr>) = answers s"
  by (simp_all add: answers_def)

end
