(* ===== verification/OneShot.thy ===== *)
theory OneShot
  imports Prelude
begin

text \<open>
  The contract of a code that may be redeemed once. Invites and pairing codes both promise it;
  what follows from it (whatever the order of the attempts, a code is redeemed at most once) is
  proved here for any provider.
\<close>

text \<open>A sequence of attempts, each by an actor for a code; the outcomes in order.\<close>

fun attempts :: "('a \<Rightarrow> 'k \<Rightarrow> 's \<Rightarrow> bool \<times> 's) \<Rightarrow> ('a \<times> 'k) list \<Rightarrow> 's \<Rightarrow> bool list \<times> 's" where
  "attempts redeem [] s = ([], s)"
| "attempts redeem ((a, k) # xs) s =
     (case redeem a k s of (b, t) \<Rightarrow> (case attempts redeem xs t of (bs, u) \<Rightarrow> (b # bs, u)))"

text \<open>How many of the attempts for the code \<open>k\<close> succeeded.\<close>

definition successes :: "'k \<Rightarrow> ('a \<times> 'k) list \<Rightarrow> bool list \<Rightarrow> nat" where
  "successes k xs bs = length (filter (\<lambda>((a, j), b). j = k \<and> b) (zip xs bs))"

lemma successes_simps [simp]:
  "successes k [] bs = 0"
  "successes k ((a, j) # xs) (b # bs) = (if j = k \<and> b then 1 else 0) + successes k xs bs"
  by (simp_all add: successes_def)

locale one_shot =
  fixes inv :: "'s \<Rightarrow> bool"
    and may :: "'a \<Rightarrow> 's \<Rightarrow> bool"
    and valid :: "'a \<Rightarrow> 'k \<Rightarrow> 's \<Rightarrow> bool"
    and redeem :: "'a \<Rightarrow> 'k \<Rightarrow> 's \<Rightarrow> bool \<times> 's"
  assumes redeem_iff: "inv s \<Longrightarrow> may a s \<Longrightarrow> fst (redeem a k s) \<longleftrightarrow> valid a k s"
    and redeem_spends: "inv s \<Longrightarrow> may a s \<Longrightarrow> valid a k s \<Longrightarrow> \<not> valid b k (snd (redeem a k s))"
    and redeem_other: "inv s \<Longrightarrow> may a s \<Longrightarrow> j \<noteq> k \<Longrightarrow> valid b j (snd (redeem a k s)) \<longleftrightarrow> valid b j s"
    and refused_same: "inv s \<Longrightarrow> may a s \<Longrightarrow> \<not> valid a k s \<Longrightarrow> snd (redeem a k s) = s"
    and inv_redeem: "inv s \<Longrightarrow> may a s \<Longrightarrow> inv (snd (redeem a k s))"
    and may_redeem: "inv s \<Longrightarrow> may a s \<Longrightarrow> may b s \<Longrightarrow> may b (snd (redeem a k s))"
begin

text \<open>A code nobody can redeem stays so.\<close>

lemma spent_stays:
  assumes "inv s" and "may a s" and "\<And>b. \<not> valid b k s"
  shows "\<not> valid b k (snd (redeem a j s))"
proof (cases "j = k")
  case True
  then show ?thesis using assms refused_same [of s a k] by simp
next
  case False
  then show ?thesis using assms redeem_other [of s a k j b] by simp
qed

lemma spent_never_redeemed:
  assumes "inv s" and "\<forall>(a, j) \<in> set xs. may a s" and "\<And>b. \<not> valid b k s"
    and "attempts redeem xs s = (bs, t)"
  shows "successes k xs bs = 0"
  using assms
proof (induction xs arbitrary: s bs t)
  case Nil
  then show ?case by simp
next
  case (Cons x xs)
  obtain a j where x: "x = (a, j)" by (cases x)
  obtain b u where r: "redeem a j s = (b, u)" by (cases "redeem a j s")
  obtain cs v where rest: "attempts redeem xs u = (cs, v)" by (cases "attempts redeem xs u")
  have bs: "bs = b # cs" using Cons.prems(4) x r rest by simp
  have may: "may a s" using Cons.prems(2) x by simp
  have "inv u" using inv_redeem [OF Cons.prems(1) may, of j] r by simp
  moreover have "\<forall>(c, i) \<in> set xs. may c u"
    using may_redeem [OF Cons.prems(1) may, of _ j] r Cons.prems(2) by auto
  moreover have "\<And>c. \<not> valid c k u"
    using spent_stays [OF Cons.prems(1) may Cons.prems(3), of _ j] r by simp
  ultimately have "successes k xs cs = 0" using rest by (rule Cons.IH)
  moreover have "\<not> (j = k \<and> b)"
    using redeem_iff [OF Cons.prems(1) may, of j] Cons.prems(3) r by auto
  ultimately show ?case using x bs by simp
qed

text \<open>Whatever the order of the attempts, at most one of those for a code succeeds.\<close>

lemma at_most_once:
  assumes "inv s" and "\<forall>(a, j) \<in> set xs. may a s" and "attempts redeem xs s = (bs, t)"
  shows "successes k xs bs \<le> 1"
  using assms
proof (induction xs arbitrary: s bs t)
  case Nil
  then show ?case by simp
next
  case (Cons x xs)
  obtain a j where x: "x = (a, j)" by (cases x)
  obtain b u where r: "redeem a j s = (b, u)" by (cases "redeem a j s")
  obtain cs v where rest: "attempts redeem xs u = (cs, v)" by (cases "attempts redeem xs u")
  have bs: "bs = b # cs" using Cons.prems(3) x r rest by simp
  have may: "may a s" using Cons.prems(2) x by simp
  have u: "inv u" using inv_redeem [OF Cons.prems(1) may, of j] r by simp
  have may_u: "\<forall>(c, i) \<in> set xs. may c u"
    using may_redeem [OF Cons.prems(1) may, of _ j] r Cons.prems(2) by auto
  show ?case
  proof (cases "j = k \<and> b")
    case True
    then have "valid a k s" using redeem_iff [OF Cons.prems(1) may, of k] r by simp
    then have "\<And>c. \<not> valid c k u"
      using redeem_spends [OF Cons.prems(1) may, of k] True r by simp
    from spent_never_redeemed [OF u may_u this rest] show ?thesis using x bs True by simp
  next
    case False
    then show ?thesis using Cons.IH [OF u may_u rest] x bs by auto
  qed
qed

end

end
