(* ===== verification/Accounts.thy ===== *)
theory Accounts
  imports Schema OneShot
begin

text \<open>
  Users and invites (\<^verbatim>\<open>hub/db.py\<close>, sections Users and Invites). \<open>now\<close> is \<open>int(time.time())\<close> at
  the call; the salt and the invite code are what the random source delivered.
\<close>

section \<open>Users\<close>

definition create_user ::
  "kdf_fn \<Rightarrow> string \<Rightarrow> string \<Rightarrow> bool \<Rightarrow> byte list \<Rightarrow> int \<Rightarrow> (db, int) op" where
  "create_user P username password is_admin salt now = db_write (constraint
     (\<lambda>s. \<not> has_key u_username username (users s))
     (\<lambda>s. let uid = user_seq s + 1 in
        (uid, s\<lparr>users := users s @ [\<lparr>u_id = uid, u_username = username,
             u_password_hash = hash_password P password salt,
             u_is_admin = (if is_admin then 1 else 0), u_created_at = now\<rparr>],
           user_seq := uid\<rparr>)))"

definition get_user_by_username :: "string \<Rightarrow> (db, user_row option) op" where
  "get_user_by_username username =
     db_read (\<lambda>s. fetchone (select_where (\<lambda>r. u_username r = username) (users s)))"

text \<open>The columns \<open>get_user_by_id\<close> selects: no password hash.\<close>

record user_info =
  ui_id :: int
  ui_username :: string
  ui_is_admin :: int
  ui_created_at :: int

definition user_info_of :: "user_row \<Rightarrow> user_info" where
  "user_info_of r = \<lparr>ui_id = u_id r, ui_username = u_username r, ui_is_admin = u_is_admin r,
     ui_created_at = u_created_at r\<rparr>"

definition get_user_by_id :: "int \<Rightarrow> (db, user_info option) op" where
  "get_user_by_id uid =
     db_read (\<lambda>s. map_option user_info_of (fetchone (select_where (\<lambda>r. u_id r = uid) (users s))))"

definition user_count :: "(db, nat) op" where
  "user_count = db_read (\<lambda>s. length (users s))"

section \<open>Invites\<close>

definition create_invite :: "int \<Rightarrow> string \<Rightarrow> int \<Rightarrow> (db, string) op" where
  "create_invite created_by code now = db_write (constraint
     (\<lambda>s. \<not> has_key i_code code (invites s) \<and> fk_user created_by s)
     (\<lambda>s. (code, s\<lparr>invites := invites s @ [\<lparr>i_code = code, i_created_by = created_by,
        i_created_at = now, i_used_by = None, i_used_at = None\<rparr>]\<rparr>)))"

record invite_info =
  ii_code :: string
  ii_created_at :: int
  ii_used_by :: "int option"
  ii_used_at :: "int option"

definition invite_info_of :: "invite_row \<Rightarrow> invite_info" where
  "invite_info_of r = \<lparr>ii_code = i_code r, ii_created_at = i_created_at r,
     ii_used_by = i_used_by r, ii_used_at = i_used_at r\<rparr>"

definition list_invites :: "int \<Rightarrow> (db, invite_info list) op" where
  "list_invites created_by = db_read (\<lambda>s. map invite_info_of
     (order_by (\<lambda>r. - i_created_at r) (select_where (\<lambda>r. i_created_by r = created_by) (invites s))))"

definition open_invite :: "string \<Rightarrow> invite_row \<Rightarrow> bool" where
  "open_invite code r \<longleftrightarrow> i_code r = code \<and> i_used_by r = None"

text \<open>The update touches a row only when the invite is open, so that is when the reference to the
  user is checked.\<close>

definition consume_invite :: "string \<Rightarrow> int \<Rightarrow> int \<Rightarrow> (db, bool) op" where
  "consume_invite code uid now = db_write (constraint
     (\<lambda>s. 0 < rowcount (open_invite code) (invites s) \<longrightarrow> fk_user uid s)
     (\<lambda>s. (0 < rowcount (open_invite code) (invites s),
        s\<lparr>invites := update_where (open_invite code)
             (\<lambda>r. r\<lparr>i_used_by := Some uid, i_used_at := Some now\<rparr>) (invites s)\<rparr>)))"

definition invite_is_valid :: "string \<Rightarrow> (db, bool) op" where
  "invite_is_valid code =
     db_read (\<lambda>s. fetchone (select_where (open_invite code) (invites s)) \<noteq> None)"

section \<open>Facts\<close>

lemma create_user_wf [pres]: "preserves wf_db (create_user P u pw adm salt now)"
  unfolding create_user_def
  by (intro preserves_db_write preserves_constraint)
    (auto simp: wf_defs Let_def)

lemma create_invite_wf [pres]: "preserves wf_db (create_invite by code now)"
  unfolding create_invite_def
  by (intro preserves_db_write preserves_constraint)
    (auto simp: wf_defs fk_user_iff)

lemma refs_opt_used_by:
  "refs_opt i_used_by t K \<Longrightarrow> uid \<in> K \<or> rowcount P t = 0 \<Longrightarrow>
   refs_opt i_used_by (update_where P (\<lambda>r. r\<lparr>i_used_by := Some uid, i_used_at := x\<rparr>) t) K"
  by (auto simp: refs_opt_def rowcount_0)

lemma consume_invite_wf [pres]: "preserves wf_db (consume_invite code uid now)"
  unfolding consume_invite_def
  by (intro preserves_db_write preserves_constraint)
    (auto simp: wf_defs fk_user_iff intro!: refs_opt_used_by)

lemma reads_wf [pres]:
  "preserves wf_db (get_user_by_username u)" "preserves wf_db (get_user_by_id i)"
  "preserves wf_db user_count" "preserves wf_db (list_invites i)" "preserves wf_db (invite_is_valid c)"
  by (simp_all add: get_user_by_username_def get_user_by_id_def user_count_def list_invites_def
      invite_is_valid_def pres)

lemma create_user_ok:
  assumes "answers s" and "\<not> has_key u_username u (users s)"
  shows "create_user P u pw adm salt now s =
    (Inr (user_seq s + 1),
     s\<lparr>users := users s @ [\<lparr>u_id = user_seq s + 1, u_username = u,
         u_password_hash = hash_password P pw salt, u_is_admin = (if adm then 1 else 0),
         u_created_at = now\<rparr>], user_seq := user_seq s + 1\<rparr>)"
  using assms by (simp add: create_user_def constraint_def Let_def)

lemma create_user_taken:
  "answers s \<Longrightarrow> has_key u_username u (users s) \<Longrightarrow>
   create_user P u pw adm salt now s = (Inl IntegrityError, s)"
  by (simp add: create_user_def constraint_def)

lemma get_user_by_username_answers:
  "answers s \<Longrightarrow> get_user_by_username u s =
     (Inr (fetchone (select_where (\<lambda>r. u_username r = u) (users s))), s)"
  by (simp add: get_user_by_username_def)

lemma get_user_by_username_None:
  "answers s \<Longrightarrow> get_user_by_username u s = (Inr None, s) \<longleftrightarrow> \<not> has_key u_username u (users s)"
  by (auto simp: get_user_by_username_def has_key_def)

lemma get_user_by_username_row:
  assumes "answers s" and "wf_db s" and "r \<in> set (users s)"
  shows "get_user_by_username (u_username r) s = (Inr (Some r), s)"
proof -
  have "uniq u_username (users s)" using assms by (simp add: wf_db_def wf_keys_def)
  from fetchone_uniq [OF this assms(3), of "\<lambda>q. u_username q = u_username r"]
  show ?thesis using assms by (simp add: get_user_by_username_def)
qed

lemma get_user_by_id_row:
  assumes "answers_reads s" and "wf_db s" and "r \<in> set (users s)"
  shows "get_user_by_id (u_id r) s = (Inr (Some (user_info_of r)), s)"
proof -
  have "uniq u_id (users s)" using assms by (simp add: wf_db_def wf_keys_def)
  from fetchone_uniq [OF this assms(3), of "\<lambda>q. u_id q = u_id r"]
  show ?thesis using assms by (simp add: get_user_by_id_def)
qed

section \<open>Invites are one-shot codes\<close>

text \<open>The redemption as a function of the state, defined where the database answers.\<close>

definition redeem_invite :: "int \<times> int \<Rightarrow> string \<Rightarrow> db \<Rightarrow> bool \<times> db" where
  "redeem_invite a code s =
     (case consume_invite code (fst a) (snd a) s of (r, t) \<Rightarrow> (r = Inr True, t))"

definition invite_open :: "string \<Rightarrow> db \<Rightarrow> bool" where
  "invite_open code s \<longleftrightarrow> (\<exists>r \<in> set (invites s). open_invite code r)"

lemma consume_invite_answers:
  assumes "answers s" and "fk_user uid s"
  shows "consume_invite code uid now s = (Inr (invite_open code s),
     s\<lparr>invites := update_where (open_invite code)
             (\<lambda>r. r\<lparr>i_used_by := Some uid, i_used_at := Some now\<rparr>) (invites s)\<rparr>)"
  using assms by (simp add: consume_invite_def constraint_def rowcount_pos invite_open_def)

lemma invite_is_valid_answers:
  "answers s \<Longrightarrow> invite_is_valid code s = (Inr (invite_open code s), s)"
  by (auto simp: invite_is_valid_def invite_open_def)

lemma invite_open_redeem:
  assumes "answers s" and "fk_user (fst a) s"
  shows "invite_open j (snd (redeem_invite a k s)) \<longleftrightarrow> j \<noteq> k \<and> invite_open j s"
  by (auto simp: redeem_invite_def consume_invite_answers [OF assms] invite_open_def open_invite_def
      split: if_splits)

interpretation inv: one_shot answers "\<lambda>a s. fk_user (fst a) s" "\<lambda>_. invite_open" redeem_invite
proof unfold_locales
  fix s :: db and a b :: "int \<times> int" and k j :: string
  assume s: "answers s" and a: "fk_user (fst a) s"
  note red = consume_invite_answers [OF s a]
  show "fst (redeem_invite a k s) \<longleftrightarrow> invite_open k s"
    by (simp add: redeem_invite_def red)
  show "\<not> invite_open k (snd (redeem_invite a k s))"
    by (simp add: invite_open_redeem s a)
  show "j \<noteq> k \<Longrightarrow> invite_open j (snd (redeem_invite a k s)) \<longleftrightarrow> invite_open j s"
    by (simp add: invite_open_redeem s a)
  show "\<not> invite_open k s \<Longrightarrow> snd (redeem_invite a k s) = s"
    by (simp add: redeem_invite_def red invite_open_def update_where_none)
  show "answers (snd (redeem_invite a k s))"
    using s by (simp add: redeem_invite_def red)
  show "fk_user (fst b) s \<Longrightarrow> fk_user (fst b) (snd (redeem_invite a k s))"
    by (simp add: redeem_invite_def red fk_user_def)
qed

section \<open>Properties\<close>

definition invite_demo :: db where
  "invite_demo = (empty_db SqliteBackend)\<lparr>
     users := [\<lparr>u_id = 1, u_username = ''ann'', u_password_hash = [], u_is_admin = 1, u_created_at = 0\<rparr>], user_seq := 1,
     invites := [\<lparr>i_code = ''abc'', i_created_by = 1, i_created_at = 0, i_used_by = None, i_used_at = None\<rparr>]\<rparr>"

lemma invite_demo_ok: "answers invite_demo" "fk_user 1 invite_demo"
  by (simp_all add: invite_demo_def fk_user_iff)

end
