(* ===== verification/Devices.thy ===== *)
theory Devices
  imports Accounts
begin

text \<open>
  Enrolled devices (\<^verbatim>\<open>hub/db.py\<close>, section Devices): enrollment, owner-scoped reads and writes,
  deletion with the cascade of the schema, and authentication by the hashed token.
\<close>

definition create_device ::
  "hash_fn \<Rightarrow> string \<Rightarrow> int \<Rightarrow> string \<Rightarrow> string \<Rightarrow> string option \<Rightarrow> int \<Rightarrow> (db, unit) op" where
  "create_device H device_id owner_id name token characteristics now = db_write (constraint
     (\<lambda>s. \<not> has_key d_id device_id (devices s) \<and> fk_user owner_id s)
     (\<lambda>s. ((), s\<lparr>devices := devices s @ [\<lparr>d_id = device_id, d_owner_id = owner_id, d_name = name,
        d_token_hash = hash_token H token, d_paired_at = now, d_last_seen = None,
        d_characteristics = characteristics\<rparr>]\<rparr>)))"

text \<open>The columns the listing and the owner-scoped lookup select.\<close>

record device_info =
  di_id :: string
  di_name :: string
  di_paired_at :: int
  di_last_seen :: "int option"
  di_characteristics :: "string option"

definition device_info_of :: "device_row \<Rightarrow> device_info" where
  "device_info_of r = \<lparr>di_id = d_id r, di_name = d_name r, di_paired_at = d_paired_at r,
     di_last_seen = d_last_seen r, di_characteristics = d_characteristics r\<rparr>"

definition owned :: "string \<Rightarrow> int \<Rightarrow> device_row \<Rightarrow> bool" where
  "owned device_id owner_id r \<longleftrightarrow> d_id r = device_id \<and> d_owner_id r = owner_id"

definition list_devices :: "int \<Rightarrow> (db, device_info list) op" where
  "list_devices owner_id = db_read (\<lambda>s. map device_info_of
     (order_by (\<lambda>r. - d_paired_at r) (select_where (\<lambda>r. d_owner_id r = owner_id) (devices s))))"

text \<open>The columns \<open>get_device\<close> selects.\<close>

record device_cred =
  dc_id :: string
  dc_owner_id :: int
  dc_name :: string
  dc_token_hash :: string
  dc_paired_at :: int
  dc_last_seen :: "int option"

definition device_cred_of :: "device_row \<Rightarrow> device_cred" where
  "device_cred_of r = \<lparr>dc_id = d_id r, dc_owner_id = d_owner_id r, dc_name = d_name r,
     dc_token_hash = d_token_hash r, dc_paired_at = d_paired_at r, dc_last_seen = d_last_seen r\<rparr>"

definition get_device :: "string \<Rightarrow> (db, device_cred option) op" where
  "get_device device_id = db_read (\<lambda>s.
     map_option device_cred_of (fetchone (select_where (\<lambda>r. d_id r = device_id) (devices s))))"

definition get_device_for_user :: "string \<Rightarrow> int \<Rightarrow> (db, device_info option) op" where
  "get_device_for_user device_id owner_id = db_read (\<lambda>s.
     map_option device_info_of (fetchone (select_where (owned device_id owner_id) (devices s))))"

definition update_device_name :: "string \<Rightarrow> int \<Rightarrow> string \<Rightarrow> (db, bool) op" where
  "update_device_name device_id owner_id name = db_write (\<lambda>s.
     (Inr (0 < rowcount (owned device_id owner_id) (devices s)),
      s\<lparr>devices := update_where (owned device_id owner_id) (\<lambda>r. r\<lparr>d_name := name\<rparr>) (devices s)\<rparr>))"

definition update_device :: "string \<Rightarrow> int \<Rightarrow> string \<Rightarrow> string option \<Rightarrow> (db, bool) op" where
  "update_device device_id owner_id name characteristics = db_write (\<lambda>s.
     (Inr (0 < rowcount (owned device_id owner_id) (devices s)),
      s\<lparr>devices := update_where (owned device_id owner_id)
           (\<lambda>r. r\<lparr>d_name := name, d_characteristics := characteristics\<rparr>) (devices s)\<rparr>))"

text \<open>\<open>ON DELETE CASCADE\<close> of the tables that reference a device, when the backend enforces it.\<close>

definition cascade_device :: "string \<Rightarrow> db \<Rightarrow> db" where
  "cascade_device device_id s = (if fk_on s then
     s\<lparr>device_locks := delete_where (\<lambda>r. l_device_id r = device_id) (device_locks s),
       theft_state := delete_where (\<lambda>r. t_device_id r = device_id) (theft_state s),
       theft_media := delete_where (\<lambda>r. m_device_id r = device_id) (theft_media s),
       device_presence := delete_where (\<lambda>r. pr_device_id r = device_id) (device_presence s)\<rparr>
     else s)"

definition delete_device :: "string \<Rightarrow> int \<Rightarrow> (db, bool) op" where
  "delete_device device_id owner_id = db_write (\<lambda>s.
     if 0 < rowcount (owned device_id owner_id) (devices s)
     then (Inr True, cascade_device device_id
            (s\<lparr>devices := delete_where (owned device_id owner_id) (devices s)\<rparr>))
     else (Inr False, s))"

definition authenticate_device :: "hash_fn \<Rightarrow> string \<Rightarrow> string \<Rightarrow> (db, device_cred option) op" where
  "authenticate_device H device_id token = bindE (get_device device_id) (\<lambda>d.
     case d of None \<Rightarrow> ret None
     | Some r \<Rightarrow> ret (if dc_token_hash r = hash_token H token then Some r else None))"

text \<open>Best effort: an error of the database is swallowed.\<close>

definition touch_device :: "string \<Rightarrow> int \<Rightarrow> (db, unit) op" where
  "touch_device device_id now = catch
     (db_write (modify (\<lambda>s. s\<lparr>devices := update_where (\<lambda>r. d_id r = device_id)
        (\<lambda>r. r\<lparr>d_last_seen := Some now\<rparr>) (devices s)\<rparr>)))
     (\<lambda>_. ret ())"

section \<open>Well-formedness\<close>

lemma create_device_wf [pres]: "preserves wf_db (create_device H d own n tok ch now)"
  unfolding create_device_def
  by (intro preserves_db_write preserves_constraint) (auto simp: wf_defs fk_user_iff)

lemma update_device_name_wf [pres]: "preserves wf_db (update_device_name d own n)"
  unfolding update_device_name_def
  by (intro preserves_db_write preservesI) (simp add: wf_defs flip: set_map)

lemma update_device_wf [pres]: "preserves wf_db (update_device d own n c)"
  unfolding update_device_def
  by (intro preserves_db_write preservesI) (simp add: wf_defs flip: set_map)

lemma touch_device_wf [pres]: "preserves wf_db (touch_device d now)"
  unfolding touch_device_def
  by (intro preserves_catch preserves_db_write preserves_modify pres)
    (simp add: wf_defs flip: set_map)

lemma device_reads_wf [pres]:
  "preserves wf_db (list_devices own)" "preserves wf_db (get_device d)"
  "preserves wf_db (get_device_for_user d own)"
  by (simp_all add: list_devices_def get_device_def get_device_for_user_def pres)

lemma authenticate_device_wf [pres]: "preserves wf_db (authenticate_device H d tok)"
  unfolding authenticate_device_def by (intro pres device_reads_wf) 

lemma refs_after_delete:
  "refs f t (d_id ` set ds) \<Longrightarrow>
   refs f (delete_where (\<lambda>r. f r = d) t) (d_id ` {r \<in> set ds. \<not> owned d own r})"
  by (auto simp: refs_def owned_def)

lemma fk_on_cascade [simp]: "fk_on (cascade_device d s) = fk_on s"
  by (simp add: cascade_device_def)

lemma answers_cascade [simp]: "answers (cascade_device d s) = answers s"
  by (simp add: cascade_device_def)

lemma devices_cascade [simp]: "devices (cascade_device d s) = devices s"
  by (simp add: cascade_device_def)

lemma delete_device_wf [pres]: "preserves wf_db (delete_device d own)"
  unfolding delete_device_def
proof (intro preserves_db_write preservesI)
  fix s :: db assume "wf_db s"
  then show "wf_db (snd (if 0 < rowcount (owned d own) (devices s)
     then (Inr True, cascade_device d (s\<lparr>devices := delete_where (owned d own) (devices s)\<rparr>))
     else (Inr False, s)))"
    by (cases "fk_on s") (simp_all add: wf_defs cascade_device_def refs_after_delete)
qed

section \<open>Behaviour\<close>

lemma create_device_ok:
  assumes "answers s" and "\<not> has_key d_id d (devices s)" and "fk_user own s"
  shows "create_device H d own n tok ch now s = (Inr (), s\<lparr>devices := devices s @
    [\<lparr>d_id = d, d_owner_id = own, d_name = n, d_token_hash = hash_token H tok, d_paired_at = now,
      d_last_seen = None, d_characteristics = ch\<rparr>]\<rparr>)"
  using assms by (simp add: create_device_def constraint_def)

lemma authenticate_device_state [simp]: "snd (authenticate_device H d tok s) = s"
  by (auto simp: authenticate_device_def get_device_def bindE_def db_read_def ret_def
      split: option.splits)

text \<open>The token is checked against the row of the device, and only its hash is compared.\<close>

lemma authenticate_device_iff:
  assumes "answers_reads s" and "wf_db s"
  shows "authenticate_device H d tok s = (Inr (Some c), s) \<longleftrightarrow>
    (\<exists>r \<in> set (devices s). d_id r = d \<and> d_token_hash r = hash_token H tok \<and> c = device_cred_of r)"
    (is "?L \<longleftrightarrow> ?R")
proof
  assume ?L
  then show ?R using assms
    by (auto simp: authenticate_device_def get_device_def bindE_def device_cred_of_def
        split: option.splits if_splits dest!: fetchone_Some)
next
  assume ?R
  then obtain r where r: "r \<in> set (devices s)" "d_id r = d" "d_token_hash r = hash_token H tok"
    "c = device_cred_of r" by blast
  have "uniq d_id (devices s)" using assms by (simp add: wf_defs)
  from fetchone_uniq [OF this r(1), of "\<lambda>q. d_id q = d"] r assms show ?L
    by (simp add: authenticate_device_def get_device_def device_cred_of_def bindE_def)
qed

lemma authenticate_device_None:
  assumes "answers_reads s" and "wf_db s"
  shows "authenticate_device H d tok s = (Inr None, s) \<longleftrightarrow>
    (\<forall>r \<in> set (devices s). d_id r = d \<longrightarrow> d_token_hash r \<noteq> hash_token H tok)"
proof -
  obtain x where x: "authenticate_device H d tok s = (Inr x, s)"
    using assms
    by (cases "fetchone (select_where (\<lambda>r. d_id r = d) (devices s))")
      (auto simp: authenticate_device_def get_device_def bindE_def)
  show ?thesis
  proof (cases x)
    case None
    then show ?thesis using x authenticate_device_iff [OF assms, of H d tok] by auto
  next
    case (Some c)
    then show ?thesis using x authenticate_device_iff [OF assms, of H d tok c] by auto
  qed
qed

lemma touch_device_returns: "fst (touch_device d now s) = Inr ()"
  by (simp add: touch_device_def catch_def db_write_def split: option.splits)

lemma touch_device_outage: "\<not> answers s \<Longrightarrow> touch_device d now s = (Inr (), s)"
  by (auto simp: touch_device_def catch_def db_write_def answers_def split: option.splits)

lemma list_devices_set:
  "answers_reads s \<Longrightarrow> list_devices own s = (Inr ds, s) \<Longrightarrow>
   set ds = device_info_of ` {r \<in> set (devices s). d_owner_id r = own}"
  by (auto simp: list_devices_def select_where_def)

lemma get_device_for_user_None:
  "answers_reads s \<Longrightarrow> get_device_for_user d own s = (Inr None, s) \<longleftrightarrow>
     (\<forall>r \<in> set (devices s). \<not> owned d own r)"
  by (auto simp: get_device_for_user_def)

text \<open>The rows of other owners survive every owner-scoped write.\<close>

lemma owner_scoped_frame:
  assumes "m \<in> {update_device_name d own n, update_device d own n c, delete_device d own}"
    and "r \<in> set (devices s)" and "d_owner_id r \<noteq> own"
  shows "r \<in> set (devices (snd (m s)))"
  using assms
  by (auto simp: update_device_name_def update_device_def delete_device_def db_write_def owned_def
      set_update_where image_iff split: option.splits)

section \<open>Properties\<close>

text \<open>
  Deleting a device removes it and everything that belongs to it. On a backend that enforces
  foreign keys, after a deletion no table holds a row of the device, and the rows of every other
  device are untouched.
\<close>

theorem delete_device_complete:
  assumes "answers s" and "wf_db s" and "fk_on s" and "delete_device d own s = (Inr True, t)"
  shows "(\<forall>r \<in> set (devices t). d_id r \<noteq> d) \<and> (\<forall>r \<in> set (device_locks t). l_device_id r \<noteq> d) \<and>
    (\<forall>r \<in> set (theft_state t). t_device_id r \<noteq> d) \<and> (\<forall>r \<in> set (theft_media t). m_device_id r \<noteq> d) \<and>
    (\<forall>r \<in> set (device_presence t). pr_device_id r \<noteq> d) \<and>
    {r \<in> set (devices t). d_id r \<noteq> d} = {r \<in> set (devices s). d_id r \<noteq> d} \<and>
    {r \<in> set (theft_media t). m_device_id r \<noteq> d} = {r \<in> set (theft_media s). m_device_id r \<noteq> d}"
proof -
  have pos: "0 < rowcount (owned d own) (devices s)"
    and t: "t = cascade_device d (s\<lparr>devices := delete_where (owned d own) (devices s)\<rparr>)"
    using assms(1,4) by (auto simp: delete_device_def split: if_splits)
  obtain q where q: "q \<in> set (devices s)" "owned d own q" using pos by (auto simp: rowcount_pos)
  have u: "uniq d_id (devices s)" using assms(2) by (simp add: wf_defs)
  have "owned d own r" if "r \<in> set (devices s)" "d_id r = d" for r
    using uniqD [OF u that(1) q(1)] q(2) that(2) by (simp add: owned_def)
  then show ?thesis using assms(3) by (auto simp: t cascade_device_def owned_def)
qed

text \<open>
  A device authenticates with a token exactly when the row of that device stores the token's
  hash; nothing else is accepted, and the check changes nothing.
\<close>

theorem device_token_exact:
  assumes "answers_reads s" and "wf_db s"
  shows "authenticate_device H d tok s =
    (Inr (if \<exists>r \<in> set (devices s). d_id r = d \<and> d_token_hash r = hash_token H tok
          then map_option device_cred_of (fetchone (select_where (\<lambda>r. d_id r = d) (devices s)))
          else None), s)"
proof -
  obtain x where x: "authenticate_device H d tok s = (Inr x, s)"
    using assms
    by (cases "fetchone (select_where (\<lambda>r. d_id r = d) (devices s))")
      (auto simp: authenticate_device_def get_device_def bindE_def simp del: fetchone_None)
  show ?thesis
  proof (cases "\<exists>r \<in> set (devices s). d_id r = d \<and> d_token_hash r = hash_token H tok")
    case True
    then obtain r where r: "r \<in> set (devices s)" "d_id r = d" "d_token_hash r = hash_token H tok" by blast
    have "uniq d_id (devices s)" using assms(2) by (simp add: wf_defs)
    from fetchone_uniq [OF this r(1), of "\<lambda>q. d_id q = d"] r
    have "fetchone (select_where (\<lambda>r. d_id r = d) (devices s)) = Some r" by simp
    moreover have "authenticate_device H d tok s = (Inr (Some (device_cred_of r)), s)"
      using authenticate_device_iff [OF assms, of H d tok "device_cred_of r"] r by blast
    ultimately show ?thesis using True by simp
  next
    case False
    then have "authenticate_device H d tok s = (Inr None, s)"
      using authenticate_device_None [OF assms, of H d tok] by blast
    then show ?thesis by (simp only: False if_False)
  qed
qed

definition enrolled_demo :: db where
  "enrolled_demo = invite_demo\<lparr>devices := [\<lparr>d_id = ''d1'', d_owner_id = 1, d_name = ''phone'',
     d_token_hash = hash_token (\<lambda>bs. bs) ''t'', d_paired_at = 0, d_last_seen = None, d_characteristics = None\<rparr>]\<rparr>"

lemma enrolled_demo_ok: "answers enrolled_demo" "wf_db enrolled_demo" "fk_on enrolled_demo"
  by (simp_all add: enrolled_demo_def invite_demo_def wf_defs empty_db_def empty_tables_def
      tables.extend_def uniq_def refs_def refs_opt_def ids_below_def fk_on_def answers_def)

theorem delete_device_complete_witness:
  "''d1'' \<notin> d_id ` set (devices (snd (delete_device ''d1'' 1 enrolled_demo)))"
proof -
  have "delete_device ''d1'' 1 enrolled_demo = (Inr True, snd (delete_device ''d1'' 1 enrolled_demo))"
    by (simp add: delete_device_def enrolled_demo_ok) (simp add: enrolled_demo_def rowcount_def owned_def)
  from conjunct1 [OF delete_device_complete [OF enrolled_demo_ok this]] show ?thesis by auto
qed

theorem device_token_exact_witness:
  "\<exists>c. authenticate_device (\<lambda>bs. bs) ''d1'' ''t'' enrolled_demo = (Inr (Some c), enrolled_demo)"
proof -
  have "answers_reads enrolled_demo" using enrolled_demo_ok(1) by simp
  from device_token_exact [OF this enrolled_demo_ok(2), of "\<lambda>bs. bs" "''d1''" "''t''"]
  show ?thesis by (simp add: enrolled_demo_def select_where_def)
qed

end
