(* ===== verification/Pairing.thy ===== *)
theory Pairing
  imports Devices
begin

text \<open>
  Pairing codes and account enrollment tokens (\<^verbatim>\<open>hub/db.py\<close>). A pairing code lives ten minutes
  and is spent by its first use; an account token is reusable until it is revoked. Where a
  function reads the clock twice it has two times as arguments.
\<close>

section \<open>Pairing codes\<close>

definition PAIRING_TTL :: int where
  "PAIRING_TTL = 600"

text \<open>\<open>f"{n:06d}"\<close> of the drawn number.\<close>

definition pairing_code_text :: "nat \<Rightarrow> string" where
  "pairing_code_text n = (let d = nat_str n in replicate (6 - length d) (CHR ''0'') @ d)"

text \<open>The cleanup runs before the insert and stays when the insert is refused.\<close>

definition create_pairing_code ::
  "int \<Rightarrow> string option \<Rightarrow> nat \<Rightarrow> int \<Rightarrow> int \<Rightarrow> (db, string) op" where
  "create_pairing_code uid device_name drawn now1 now2 = db_write (
     let code = pairing_code_text drawn in
     thenE (modify (\<lambda>s. s\<lparr>pairing_codes := delete_where
              (\<lambda>r. p_expires_at r < now1 \<or> p_user_id r = uid \<and> p_used r = 0) (pairing_codes s)\<rparr>))
       (constraint
         (\<lambda>s. \<not> has_key p_code code (pairing_codes s) \<and> fk_user uid s)
         (\<lambda>s. (code, s\<lparr>pairing_codes := pairing_codes s @ [\<lparr>p_code = code, p_user_id = uid,
            p_device_name = device_name, p_expires_at = now2 + PAIRING_TTL, p_used = 0\<rparr>]\<rparr>))))"

definition redeemable :: "string \<Rightarrow> int \<Rightarrow> pairing_row \<Rightarrow> bool" where
  "redeemable code now r \<longleftrightarrow> p_code r = code \<and> p_used r = 0 \<and> now < p_expires_at r"

definition unused_code :: "string \<Rightarrow> pairing_row \<Rightarrow> bool" where
  "unused_code code r \<longleftrightarrow> p_code r = code \<and> p_used r = 0"

text \<open>The two statements of \<open>consume_pairing_code\<close>: the \<open>SELECT\<close>, and the guarded \<open>UPDATE\<close> with
  its row count.\<close>

definition pairing_select :: "string \<Rightarrow> int \<Rightarrow> db \<Rightarrow> (int \<times> string option) option" where
  "pairing_select code now s = map_option (\<lambda>r. (p_user_id r, p_device_name r))
     (fetchone (select_where (redeemable code now) (pairing_codes s)))"

definition pairing_mark :: "string \<Rightarrow> db \<Rightarrow> nat \<times> db" where
  "pairing_mark code s = (rowcount (unused_code code) (pairing_codes s),
     s\<lparr>pairing_codes := update_where (unused_code code) (\<lambda>r. r\<lparr>p_used := 1\<rparr>) (pairing_codes s)\<rparr>)"

definition consume_pairing_code :: "string \<Rightarrow> int \<Rightarrow> (db, (int \<times> string option) option) op" where
  "consume_pairing_code code now =
     bindE (db_read (pairing_select code now)) (\<lambda>row.
       case row of None \<Rightarrow> ret None
       | Some u \<Rightarrow> db_write (\<lambda>s. case pairing_mark code s of
           (n, t) \<Rightarrow> (Inr (if n = 0 then None else Some u), t)))"

section \<open>Account enrollment tokens\<close>

text \<open>\<open>(label or '').strip()[:60] or None\<close>.\<close>

definition clean_label :: "string option \<Rightarrow> string option" where
  "clean_label label = str_or_none (take 60 (strip (opt_str label)))"

definition create_account_token ::
  "hash_fn \<Rightarrow> int \<Rightarrow> string option \<Rightarrow> string \<Rightarrow> int \<Rightarrow> (db, string) op" where
  "create_account_token H uid label tok now = db_write (constraint
     (\<lambda>s. \<not> has_key a_token_hash (hash_token H tok) (account_tokens s) \<and> fk_user uid s)
     (\<lambda>s. (tok, s\<lparr>account_tokens := account_tokens s @ [\<lparr>a_id = account_seq s + 1, a_user_id = uid,
            a_token_hash = hash_token H tok, a_label = clean_label label, a_created_at = now,
            a_last_used = None\<rparr>],
          account_seq := account_seq s + 1\<rparr>)))"

record account_token_info =
  ai_id :: int
  ai_label :: "string option"
  ai_created_at :: int
  ai_last_used :: "int option"

definition account_token_info_of :: "account_token_row \<Rightarrow> account_token_info" where
  "account_token_info_of r = \<lparr>ai_id = a_id r, ai_label = a_label r, ai_created_at = a_created_at r,
     ai_last_used = a_last_used r\<rparr>"

definition list_account_tokens :: "int \<Rightarrow> (db, account_token_info list) op" where
  "list_account_tokens uid = db_read (\<lambda>s. map account_token_info_of
     (order_by (\<lambda>r. - a_created_at r) (select_where (\<lambda>r. a_user_id r = uid) (account_tokens s))))"

definition revoke_account_token :: "int \<Rightarrow> int \<Rightarrow> (db, bool) op" where
  "revoke_account_token token_id uid = db_write (\<lambda>s.
     (Inr (0 < rowcount (\<lambda>r. a_id r = token_id \<and> a_user_id r = uid) (account_tokens s)),
      s\<lparr>account_tokens :=
          delete_where (\<lambda>r. a_id r = token_id \<and> a_user_id r = uid) (account_tokens s)\<rparr>))"

definition account_token_user :: "hash_fn \<Rightarrow> string \<Rightarrow> int \<Rightarrow> (db, int option) op" where
  "account_token_user H token now =
     (if token = [] then ret None
      else bindE (db_read (\<lambda>s.
             fetchone (select_where (\<lambda>r. a_token_hash r = hash_token H token) (account_tokens s))))
        (\<lambda>row. case row of None \<Rightarrow> ret None
         | Some r \<Rightarrow> thenE
             (catch (db_write (modify (\<lambda>s. s\<lparr>account_tokens := update_where (\<lambda>q. a_id q = a_id r)
                (\<lambda>q. q\<lparr>a_last_used := Some now\<rparr>) (account_tokens s)\<rparr>))) (\<lambda>_. ret ()))
             (ret (Some (a_user_id r)))))"

section \<open>Well-formedness\<close>

lemma create_pairing_code_wf [pres]: "preserves wf_db (create_pairing_code uid n k t1 t2)"
  unfolding create_pairing_code_def Let_def
  by (intro preserves_db_write preserves_thenE preserves_constraint preserves_modify)
    (auto simp: wf_defs fk_user_iff)

lemma consume_pairing_code_wf [pres]: "preserves wf_db (consume_pairing_code c now)"
  unfolding consume_pairing_code_def
  by (intro pres preservesI)
    (auto simp: pairing_mark_def unused_code_def wf_defs simp flip: set_map)

lemma create_account_token_wf [pres]: "preserves wf_db (create_account_token H uid l tok now)"
  unfolding create_account_token_def
  by (intro preserves_db_write preserves_constraint) (auto simp: wf_defs fk_user_iff)

lemma revoke_account_token_wf [pres]: "preserves wf_db (revoke_account_token i uid)"
  unfolding revoke_account_token_def
  by (intro preserves_db_write preservesI) (simp add: wf_defs)

lemma account_token_user_wf [pres]: "preserves wf_db (account_token_user H tok now)"
  unfolding account_token_user_def
  by (intro pres preserves_modify) (simp add: wf_defs flip: set_map)

lemma list_account_tokens_wf [pres]: "preserves wf_db (list_account_tokens uid)"
  by (simp add: list_account_tokens_def pres)

section \<open>Behaviour\<close>

text \<open>A token of the table is known, and belongs to a user.\<close>

lemma account_token_known:
  assumes "answers s" and "wf_db s" and "r \<in> set (account_tokens s)" and "a_token_hash r = hash_token H tok" and "tok \<noteq> []"
  shows "\<exists>ts. account_token_user H tok now s = (Inr (Some (a_user_id r)), s\<lparr>account_tokens := ts\<rparr>) \<and> fk_user (a_user_id r) s"
proof -
  have "fetchone (select_where (\<lambda>q. a_token_hash q = hash_token H tok) (account_tokens s)) = Some r"
    using assms(2-4) by (intro fetchone_uniq [of a_token_hash]) (auto simp: wf_defs)
  moreover have "fk_user (a_user_id r) s" using assms(2,3) by (auto simp: wf_defs fk_user_iff refs_def)
  ultimately show ?thesis using assms(1,5)
    by (auto simp: account_token_user_def bindE_def thenE_def catch_def)
qed

definition code_live :: "string \<Rightarrow> int \<Rightarrow> db \<Rightarrow> bool" where
  "code_live code now s \<longleftrightarrow> (\<exists>r \<in> set (pairing_codes s). redeemable code now r)"

lemma pairing_select_None: "pairing_select code now s = None \<longleftrightarrow> \<not> code_live code now s"
  by (auto simp: pairing_select_def code_live_def)

lemma pairing_select_Some:
  "pairing_select code now s = Some (u, n) \<Longrightarrow> \<exists>r \<in> set (pairing_codes s).
     redeemable code now r \<and> u = p_user_id r \<and> n = p_device_name r"
  by (auto simp: pairing_select_def dest!: fetchone_Some)

lemma redeemable_unused: "redeemable code now r \<Longrightarrow> unused_code code r"
  by (simp add: redeemable_def unused_code_def)

lemma consume_pairing_code_answers:
  assumes "answers s"
  shows "consume_pairing_code code now s =
    (if code_live code now s then (Inr (pairing_select code now s), snd (pairing_mark code s))
     else (Inr None, s))"
proof (cases "pairing_select code now s")
  case None
  then have "\<not> code_live code now s" by (simp add: pairing_select_None)
  with None assms show ?thesis by (simp add: consume_pairing_code_def bindE_def)
next
  case (Some u)
  then have "code_live code now s" using pairing_select_None [of code now s] by auto
  moreover from this have "0 < rowcount (unused_code code) (pairing_codes s)"
    by (auto simp: rowcount_pos code_live_def intro: redeemable_unused)
  ultimately show ?thesis using assms Some
    by (simp add: consume_pairing_code_def bindE_def pairing_mark_def)
qed

lemma code_live_mark:
  "code_live j now (snd (pairing_mark k s)) \<longleftrightarrow> j \<noteq> k \<and> code_live j now s"
  by (auto simp: pairing_mark_def code_live_def redeemable_def unused_code_def split: if_splits)

text \<open>Pairing codes keep the contract of one-shot codes; the actor of an attempt is its time.\<close>

definition redeem_pairing :: "int \<Rightarrow> string \<Rightarrow> db \<Rightarrow> bool \<times> db" where
  "redeem_pairing now code s =
     (case consume_pairing_code code now s of (r, t) \<Rightarrow> (\<exists>u n. r = Inr (Some (u, n)), t))"

lemma redeem_pairing_answers:
  "answers s \<Longrightarrow> redeem_pairing now code s =
     (code_live code now s, if code_live code now s then snd (pairing_mark code s) else s)"
  by (cases "pairing_select code now s")
    (auto simp: redeem_pairing_def consume_pairing_code_answers pairing_select_None [symmetric])

lemma answers_mark [simp]: "answers (snd (pairing_mark k s)) = answers s"
  by (simp add: pairing_mark_def)

interpretation pair: one_shot answers "\<lambda>_ _. True" "\<lambda>now code. code_live code now" redeem_pairing
proof unfold_locales
  fix s :: db and a b :: int and k j :: string
  assume s: "answers s"
  note red = redeem_pairing_answers [OF s]
  show "fst (redeem_pairing a k s) \<longleftrightarrow> code_live k a s" by (simp add: red)
  show "code_live k a s \<Longrightarrow> \<not> code_live k b (snd (redeem_pairing a k s))"
    by (simp add: red code_live_mark)
  show "j \<noteq> k \<Longrightarrow> code_live j b (snd (redeem_pairing a k s)) \<longleftrightarrow> code_live j b s"
    by (simp add: red code_live_mark)
  show "\<not> code_live k a s \<Longrightarrow> snd (redeem_pairing a k s) = s" by (simp add: red)
  show "answers (snd (redeem_pairing a k s))" by (simp add: red s)
qed

text \<open>Every issued code is six digits.\<close>

lemma pairing_code_digits:
  assumes "n < 1000000"
  shows "length (pairing_code_text n) = 6" and "isdigit (pairing_code_text n)"
proof -
  have l: "length (nat_str n) \<le> 6" using assms by (intro length_nat_str) simp_all
  then show "length (pairing_code_text n) = 6" by (simp add: pairing_code_text_def Let_def)
  obtain ds where ds: "nat_str n = map dec_digit ds" "\<forall>d \<in> set ds. d < 10"
    using nat_str_digits by blast
  have "list_all is_digit_char (nat_str n)"
    using ds by (auto simp: list_all_iff is_digit_char_def Let_def)
  moreover have "is_digit_char (CHR ''0'')" by (simp add: is_digit_char_def)
  ultimately show "isdigit (pairing_code_text n)"
    by (auto simp: isdigit_def pairing_code_text_def Let_def nat_str_ne list_all_iff)
qed

section \<open>Concurrent redemption, statement by statement\<close>

text \<open>
  The route handlers run in a thread pool, so the statements of two redemptions of one code may
  interleave. Each process has selected nothing yet, holds a selected row, or is done.
\<close>

datatype claim_pc = Ready | Selected "int \<times> string option" | Won "int \<times> string option" | Lost

inductive claim_step :: "string \<Rightarrow> db \<times> (nat \<Rightarrow> claim_pc) \<Rightarrow> db \<times> (nat \<Rightarrow> claim_pc) \<Rightarrow> bool"
  for code where
  select_row: "p i = Ready \<Longrightarrow> pairing_select code now s = Some u \<Longrightarrow>
     claim_step code (s, p) (s, p(i := Selected u))"
| select_none: "p i = Ready \<Longrightarrow> pairing_select code now s = None \<Longrightarrow>
     claim_step code (s, p) (s, p(i := Lost))"
| mark_won: "p i = Selected u \<Longrightarrow> pairing_mark code s = (n, t) \<Longrightarrow> n \<noteq> 0 \<Longrightarrow>
     claim_step code (s, p) (t, p(i := Won u))"
| mark_lost: "p i = Selected u \<Longrightarrow> pairing_mark code s = (n, t) \<Longrightarrow> n = 0 \<Longrightarrow>
     claim_step code (s, p) (t, p(i := Lost))"

inductive_cases claim_stepE: "claim_step code (s, p) (t, q)"

text \<open>Once somebody has won, the code has no unused row left, and the winner is alone.\<close>

definition claim_inv :: "string \<Rightarrow> db \<times> (nat \<Rightarrow> claim_pc) \<Rightarrow> bool" where
  "claim_inv code = (\<lambda>(s, p).
     (\<forall>i u. p i = Won u \<longrightarrow> rowcount (unused_code code) (pairing_codes s) = 0) \<and>
     (\<forall>i j u v. p i = Won u \<longrightarrow> p j = Won v \<longrightarrow> i = j))"

lemma rowcount_after_mark:
  "pairing_mark code s = (n, t) \<Longrightarrow> rowcount (unused_code code) (pairing_codes t) = 0"
proof -
  assume "pairing_mark code s = (n, t)"
  then have "t = snd (pairing_mark code s)" by simp
  then show ?thesis by (simp add: pairing_mark_def rowcount_0 unused_code_def)
qed

lemma claim_inv_step: "claim_step code x y \<Longrightarrow> claim_inv code x \<Longrightarrow> claim_inv code y"
proof (induction rule: claim_step.induct)
  case (mark_won p i u s n t)
  then have "\<And>j v. p j \<noteq> Won v" by (auto simp: claim_inv_def pairing_mark_def)
  with mark_won rowcount_after_mark [of code s n t] show ?case by (auto simp: claim_inv_def)
next
  case (mark_lost p i u s n t)
  then show ?case using rowcount_after_mark [of code s n t] by (auto simp: claim_inv_def)
qed (auto simp: claim_inv_def)

lemma claim_inv_run:
  "(claim_step code)\<^sup>*\<^sup>* x y \<Longrightarrow> claim_inv code x \<Longrightarrow> claim_inv code y"
  by (induction rule: rtranclp_induct) (auto intro: claim_inv_step)

section \<open>Properties\<close>

definition pairing_demo :: db where
  "pairing_demo = (empty_db SqliteBackend)\<lparr>pairing_codes := [\<lparr>p_code = ''123456'', p_user_id = 1,
     p_device_name = None, p_expires_at = 700, p_used = 0\<rparr>]\<rparr>"

lemma pairing_demo_ok: "answers pairing_demo"
  by (simp add: pairing_demo_def)

text \<open>
  A pairing code is redeemed at most once. Whatever attempts are made, for whatever codes and at
  whatever times, at most one of those for a given code succeeds.
\<close>

theorem pairing_code_once:
  assumes "answers s" and "attempts redeem_pairing xs s = (bs, t)"
  shows "successes code xs bs \<le> 1"
  using pair.at_most_once [OF assms(1) _ assms(2)] by auto

theorem pairing_code_once_witness:
  "successes ''123456'' [(650 :: int, ''123456''), (660, ''123456'')]
     (fst (attempts redeem_pairing [(650, ''123456''), (660, ''123456'')] pairing_demo)) \<le> 1"
  by (rule pairing_code_once [OF pairing_demo_ok prod.collapse [symmetric]])

text \<open>
  C16: two processes that redeem the same code concurrently, their statements interleaved in any
  order, never both win: from a state in which nobody has started, every reachable state has at most
  one winner.
\<close>

theorem concurrent_pairing_one_winner:
  assumes "(claim_step code)\<^sup>*\<^sup>* (s, \<lambda>_. Ready) (t, q)" and "q i = Won u" and "q j = Won v"
  shows "i = j"
  using claim_inv_run [OF assms(1)] assms(2,3) by (auto simp: claim_inv_def)

lemma pairing_demo_select: "pairing_select ''123456'' 650 pairing_demo = Some (1, None)"
  by (simp add: pairing_select_def pairing_demo_def select_where_def redeemable_def)

theorem concurrent_pairing_one_winner_witness:
  "\<exists>t q. (claim_step ''123456'')\<^sup>*\<^sup>* (pairing_demo, \<lambda>_. Ready) (t, q) \<and> q 0 = Won (1, None) \<and>
     {j. \<exists>v. q j = Won v} = {0}"
proof -
  obtain n t where m: "pairing_mark ''123456'' pairing_demo = (n, t)"
    by (cases "pairing_mark ''123456'' pairing_demo")
  have n: "n \<noteq> 0" using m by (auto simp: pairing_mark_def pairing_demo_def rowcount_def unused_code_def)
  let ?p0 = "\<lambda>_. Ready" and ?p1 = "(\<lambda>_. Ready)(0 := Selected (1, None))"
  have "claim_step ''123456'' (pairing_demo, ?p0) (pairing_demo, ?p1)"
    by (rule select_row [OF _ pairing_demo_select]) simp
  moreover have "claim_step ''123456'' (pairing_demo, ?p1) (t, ?p1(0 := Won (1, None)))"
    by (rule mark_won [OF _ m n]) simp
  ultimately have r: "(claim_step ''123456'')\<^sup>*\<^sup>* (pairing_demo, ?p0) (t, ?p1(0 := Won (1, None)))"
    by (meson converse_rtranclp_into_rtranclp r_into_rtranclp)
  have "{j. \<exists>v. (?p1(0 := Won (1, None))) j = Won v} = {0}"
    using concurrent_pairing_one_winner [OF r, of 0 "(1, None)"] by auto
  with r show ?thesis by (intro exI [of _ t] exI [of _ "?p1(0 := Won (1, None))"]) simp
qed

end
