(* ===== verification/Sessions.thy ===== *)
theory Sessions
  imports Accounts
begin

text \<open>
  Browser sessions (\<^verbatim>\<open>hub/db.py\<close>, section Sessions) behind an interface: a store that issues a
  token for a user with a lifetime, resolves it, and revokes it.
\<close>

section \<open>The interface\<close>

locale session_store =
  fixes inv :: "'s \<Rightarrow> bool"
    and fresh :: "'t \<Rightarrow> 's \<Rightarrow> bool"
    and may :: "'u \<Rightarrow> 's \<Rightarrow> bool"
    and same :: "'t \<Rightarrow> 't \<Rightarrow> bool"
    and issue :: "'t \<Rightarrow> 'u \<Rightarrow> int \<Rightarrow> int \<Rightarrow> 's \<Rightarrow> 's"
    and resolve :: "'t \<Rightarrow> int \<Rightarrow> 's \<Rightarrow> 'u option"
    and revoke :: "'t \<Rightarrow> 's \<Rightarrow> 's"
  assumes resolve_issue: "inv s \<Longrightarrow> fresh t s \<Longrightarrow> may u s \<Longrightarrow>
      resolve t later (issue t u now ttl s) = (if later < now + ttl then Some u else None)"
    and resolve_issue_other: "inv s \<Longrightarrow> fresh t s \<Longrightarrow> may u s \<Longrightarrow> \<not> same t t' \<Longrightarrow>
      resolve t' later (issue t u now ttl s) = resolve t' later s"
    and resolve_revoke: "inv s \<Longrightarrow> same t t' \<Longrightarrow> resolve t' later (revoke t s) = None"
    and resolve_revoke_other: "inv s \<Longrightarrow> \<not> same t t' \<Longrightarrow>
      resolve t' later (revoke t s) = resolve t' later s"
    and may_issue: "inv s \<Longrightarrow> may v s \<Longrightarrow> may v (issue t u now ttl s)"
    and may_revoke: "inv s \<Longrightarrow> may v s \<Longrightarrow> may v (revoke t s)"
    and fresh_other: "inv s \<Longrightarrow> fresh t s \<Longrightarrow> may u s \<Longrightarrow> fresh t' s \<Longrightarrow>
      \<not> same t t' \<Longrightarrow> fresh t' (issue t u now ttl s)"
    and fresh_revoke: "inv s \<Longrightarrow> fresh t s \<Longrightarrow> fresh t (revoke t' s)"
    and inv_issue: "inv s \<Longrightarrow> fresh t s \<Longrightarrow> may u s \<Longrightarrow> inv (issue t u now ttl s)"
    and inv_revoke: "inv s \<Longrightarrow> inv (revoke t s)"
    and same_refl: "same t t"
begin

text \<open>What the store does to a token is undone by nothing that happens to other tokens.\<close>

fun session_run :: "('t \<times> ('u \<times> int \<times> int) option) list \<Rightarrow> 's \<Rightarrow> 's" where
  "session_run [] s = s"
| "session_run ((t, Some (u, now, ttl)) # es) s = session_run es (issue t u now ttl s)"
| "session_run ((t, None) # es) s = session_run es (revoke t s)"

fun runnable :: "('t \<times> ('u \<times> int \<times> int) option) list \<Rightarrow> 's \<Rightarrow> bool" where
  "runnable [] s \<longleftrightarrow> True"
| "runnable ((t, Some (u, now, ttl)) # es) s \<longleftrightarrow> fresh t s \<and> may u s \<and> runnable es (issue t u now ttl s)"
| "runnable ((t, None) # es) s \<longleftrightarrow> runnable es (revoke t s)"

lemma resolve_run_other:
  "inv s \<Longrightarrow> runnable es s \<Longrightarrow> \<forall>(t', e) \<in> set es. \<not> same t' t \<Longrightarrow>
   resolve t later (session_run es s) = resolve t later s"
proof (induction es s rule: session_run.induct)
  case (1 s)
  then show ?case by simp
next
  case (2 t' u now ttl es s)
  then show ?case by (simp add: inv_issue resolve_issue_other)
next
  case (3 t' es s)
  then show ?case by (simp add: inv_revoke resolve_revoke_other)
qed

text \<open>After a logout the token authenticates nobody, whatever other tokens are issued or revoked.\<close>

lemma logged_out_stays_out:
  "inv s \<Longrightarrow> runnable es (revoke t s) \<Longrightarrow> \<forall>(t', e) \<in> set es. \<not> same t' t \<Longrightarrow>
   resolve t later (session_run es (revoke t s)) = None"
  by (simp add: resolve_run_other inv_revoke resolve_revoke same_refl)

text \<open>After a login it authenticates the user it was issued to, until it expires.\<close>

lemma logged_in_until_expiry:
  "inv s \<Longrightarrow> fresh t s \<Longrightarrow> may u s \<Longrightarrow> runnable es (issue t u now ttl s) \<Longrightarrow>
   \<forall>(t', e) \<in> set es. \<not> same t' t \<Longrightarrow>
   resolve t later (session_run es (issue t u now ttl s)) =
     (if later < now + ttl then Some u else None)"
  by (simp add: resolve_run_other inv_issue resolve_issue)

end

section \<open>The database's sessions\<close>

definition create_session :: "hash_fn \<Rightarrow> int \<Rightarrow> string \<Rightarrow> int \<Rightarrow> int \<Rightarrow> (db, string) op" where
  "create_session H uid token now ttl = db_write (constraint
     (\<lambda>s. \<not> has_key s_token_hash (hash_token H token) (sessions s) \<and> fk_user uid s)
     (\<lambda>s. (token, s\<lparr>sessions := sessions s @ [\<lparr>s_token_hash = hash_token H token,
        s_user_id = uid, s_created_at = now, s_expires_at = now + ttl\<rparr>]\<rparr>)))"

definition live_session :: "hash_fn \<Rightarrow> string \<Rightarrow> int \<Rightarrow> session_row \<Rightarrow> bool" where
  "live_session H token now r \<longleftrightarrow> s_token_hash r = hash_token H token \<and> now < s_expires_at r"

definition lookup_session :: "hash_fn \<Rightarrow> string \<Rightarrow> int \<Rightarrow> (db, int option) op" where
  "lookup_session H token now = db_read (\<lambda>s.
     map_option s_user_id (fetchone (select_where (live_session H token now) (sessions s))))"

definition delete_session :: "hash_fn \<Rightarrow> string \<Rightarrow> (db, unit) op" where
  "delete_session H token = db_write (modify (\<lambda>s.
     s\<lparr>sessions := delete_where (\<lambda>r. s_token_hash r = hash_token H token) (sessions s)\<rparr>))"

lemma create_session_wf [pres]: "preserves wf_db (create_session H uid tok now ttl)"
  unfolding create_session_def
  by (intro preserves_db_write preserves_constraint) (auto simp: wf_defs fk_user_iff)

lemma lookup_session_wf [pres]: "preserves wf_db (lookup_session H tok now)"
  by (simp add: lookup_session_def pres)

lemma delete_session_wf [pres]: "preserves wf_db (delete_session H tok)"
  unfolding delete_session_def
  by (intro preserves_db_write preserves_modify) (simp add: wf_defs)

lemma create_session_ok:
  assumes "answers s" and "\<not> has_key s_token_hash (hash_token H tok) (sessions s)" and "fk_user uid s"
  shows "create_session H uid tok now ttl s = (Inr tok, s\<lparr>sessions := sessions s @
     [\<lparr>s_token_hash = hash_token H tok, s_user_id = uid, s_created_at = now,
       s_expires_at = now + ttl\<rparr>]\<rparr>)"
  using assms by (simp add: create_session_def constraint_def)

lemma lookup_session_state [simp]: "snd (lookup_session H tok now s) = s"
  by (simp add: lookup_session_def)

lemma lookup_session_answers:
  "answers_reads s \<Longrightarrow> lookup_session H tok now s =
     (Inr (map_option s_user_id (fetchone (select_where (live_session H tok now) (sessions s)))), s)"
  by (simp add: lookup_session_def)

text \<open>The store's operations as functions of a state where the database answers.\<close>

definition sess_fresh :: "hash_fn \<Rightarrow> string \<Rightarrow> db \<Rightarrow> bool" where
  "sess_fresh H tok s \<longleftrightarrow> \<not> has_key s_token_hash (hash_token H tok) (sessions s)"

definition sess_issue :: "hash_fn \<Rightarrow> string \<Rightarrow> int \<Rightarrow> int \<Rightarrow> int \<Rightarrow> db \<Rightarrow> db" where
  "sess_issue H tok uid now ttl s = snd (create_session H uid tok now ttl s)"

definition sess_resolve :: "hash_fn \<Rightarrow> string \<Rightarrow> int \<Rightarrow> db \<Rightarrow> int option" where
  "sess_resolve H tok now s =
     (case lookup_session H tok now s of (Inr u, _) \<Rightarrow> u | (Inl e, _) \<Rightarrow> None)"

definition sess_revoke :: "hash_fn \<Rightarrow> string \<Rightarrow> db \<Rightarrow> db" where
  "sess_revoke H tok s = snd (delete_session H tok s)"

definition sess_same :: "hash_fn \<Rightarrow> string \<Rightarrow> string \<Rightarrow> bool" where
  "sess_same H a b \<longleftrightarrow> hash_token H a = hash_token H b"

lemma fetchone_append:
  "fetchone (select_where P (t @ [r])) =
     (case fetchone (select_where P t) of Some q \<Rightarrow> Some q | None \<Rightarrow> if P r then Some r else None)"
  by (auto simp: fetchone_def select_where_def split: list.splits option.splits)

lemma fetchone_delete:
  "(\<And>r. P r \<Longrightarrow> \<not> Q r) \<Longrightarrow> fetchone (select_where P (delete_where Q t)) = fetchone (select_where P t)"
  by (simp add: select_where_def delete_where_def) (metis (mono_tags, lifting) filter_cong)

interpretation sess: session_store answers "sess_fresh H" fk_user "sess_same H"
  "sess_issue H" "sess_resolve H" "sess_revoke H"
proof unfold_locales
  show "sess_same H t t" for t by (simp add: sess_same_def)
next
  fix s :: db and t t' :: string and u v now ttl later :: int
  assume s: "answers s"
  have rev: "sess_revoke H t s =
      s\<lparr>sessions := delete_where (\<lambda>r. s_token_hash r = hash_token H t) (sessions s)\<rparr>" for t
    by (simp add: sess_revoke_def delete_session_def s)
  show "answers (sess_revoke H t s)" by (simp add: rev s)
  show "fk_user v s \<Longrightarrow> fk_user v (sess_revoke H t s)" by (simp add: rev fk_user_def)
  show "sess_fresh H t s \<Longrightarrow> sess_fresh H t (sess_revoke H t' s)"
    by (auto simp: rev sess_fresh_def has_key_def)
  show "sess_same H t t' \<Longrightarrow> sess_resolve H t' later (sess_revoke H t s) = None"
    by (auto simp: sess_resolve_def lookup_session_answers rev s sess_same_def live_session_def)
  show "\<not> sess_same H t t' \<Longrightarrow> sess_resolve H t' later (sess_revoke H t s) = sess_resolve H t' later s"
    by (auto simp: sess_resolve_def lookup_session_answers rev s sess_same_def live_session_def
        intro!: arg_cong [where f = "map_option s_user_id"] fetchone_delete)
  {
    assume f: "sess_fresh H t s" and u: "fk_user u s"
    have iss: "sess_issue H t u now ttl s = s\<lparr>sessions := sessions s @ [\<lparr>s_token_hash = hash_token H t,
        s_user_id = u, s_created_at = now, s_expires_at = now + ttl\<rparr>]\<rparr>"
      using f u by (simp add: sess_issue_def create_session_ok s sess_fresh_def)
    show "answers (sess_issue H t u now ttl s)" by (simp add: iss s)
    have none: "fetchone (select_where (live_session H t later) (sessions s)) = None"
      using f by (auto simp: sess_fresh_def has_key_iff live_session_def)
    show "sess_resolve H t later (sess_issue H t u now ttl s) = (if later < now + ttl then Some u else None)"
      by (simp add: sess_resolve_def lookup_session_answers iss s fetchone_append none live_session_def)
    show "\<not> sess_same H t t' \<Longrightarrow>
        sess_resolve H t' later (sess_issue H t u now ttl s) = sess_resolve H t' later s"
      by (simp add: sess_resolve_def lookup_session_answers iss s fetchone_append live_session_def
          sess_same_def split: option.split)
    show "sess_fresh H t' s \<Longrightarrow> \<not> sess_same H t t' \<Longrightarrow> sess_fresh H t' (sess_issue H t u now ttl s)"
      by (simp add: iss sess_fresh_def sess_same_def)
  }
  show "fk_user v s \<Longrightarrow> fk_user v (sess_issue H t u now ttl s)"
    by (auto simp: sess_issue_def create_session_def constraint_def fk_user_def s)
qed

section \<open>Properties\<close>

text \<open>
  A logout is final. After a token has been revoked it resolves to no user at any later time,
  whatever other tokens are issued or revoked in between.
\<close>

theorem logout_is_final:
  assumes "answers s" and "sess.runnable H es (sess_revoke H tok s)"
    and "\<forall>(t, e) \<in> set es. \<not> sess_same H t tok"
  shows "sess_resolve H tok later (sess.session_run H es (sess_revoke H tok s)) = None"
  using assms by (rule sess.logged_out_stays_out)

theorem logout_is_final_witness:
  "sess_resolve (\<lambda>bs. bs) ''a'' 200 (sess.session_run (\<lambda>bs. bs) [(''b'', None)]
     (sess_revoke (\<lambda>bs. bs) ''a'' (empty_db SqliteBackend))) = None"
  by (rule logout_is_final)
    (simp_all add: sess_same_def hash_token_def encode_def utf8_char_def hexdigest_def hex_digit_def
      of_char_def)

text \<open>
  A session lives exactly as long as it was issued for: until then its token resolves to the
  user it was issued to, whatever happens to other tokens, and from then on to nobody.
\<close>

theorem session_until_expiry:
  assumes "answers s" and "sess_fresh H tok s" and "fk_user u s"
    and "sess.runnable H es (sess_issue H tok u now ttl s)"
    and "\<forall>(t, e) \<in> set es. \<not> sess_same H t tok"
  shows "sess_resolve H tok later (sess.session_run H es (sess_issue H tok u now ttl s)) =
    (if later < now + ttl then Some u else None)"
  using assms by (rule sess.logged_in_until_expiry)

theorem session_until_expiry_witness:
  "sess_resolve (\<lambda>bs. bs) ''a'' 399 (sess.session_run (\<lambda>bs. bs) []
     (sess_issue (\<lambda>bs. bs) ''a'' 1 100 300 invite_demo)) = Some 1"
proof -
  have "sess_fresh (\<lambda>bs. bs) ''a'' invite_demo"
    by (simp add: sess_fresh_def invite_demo_def empty_db_def tables.extend_def empty_tables_def)
  from session_until_expiry [OF invite_demo_ok(1) this invite_demo_ok(2), of "[]" 100 300 399]
  show ?thesis by simp
qed

end
