(* ===== verification/Locks.thy ===== *)
theory Locks
  imports Devices
begin

text \<open>
  Device locks (\<^verbatim>\<open>hub/db.py\<close>, section Device locks): a lease on "this device is in use". The
  contract of a lease is an interface, with what its clients rely on proved from it; the table of
  the database keeps the contract.
\<close>

section \<open>The contract of a lease\<close>

datatype 'h lease_event = Acquire 'h int | Refresh 'h int | Release 'h

text \<open>The holder an event acts for, and the time at which it acts.\<close>

fun actor :: "'h lease_event \<Rightarrow> 'h" where
  "actor (Acquire h t) = h" | "actor (Refresh h t) = h" | "actor (Release h) = h"

fun acts_before :: "int \<Rightarrow> 'h lease_event \<Rightarrow> bool" where
  "acts_before upto_t (Acquire h t) \<longleftrightarrow> t < upto_t"
| "acts_before upto_t (Refresh h t) \<longleftrightarrow> t < upto_t"
| "acts_before upto_t (Release h) \<longleftrightarrow> True"

locale lease =
  fixes inv :: "'s \<Rightarrow> bool"
    and ttl :: int
    and holder :: "'s \<Rightarrow> int \<Rightarrow> 'h option"
    and acquire :: "'h \<Rightarrow> bool \<Rightarrow> int \<Rightarrow> 's \<Rightarrow> bool \<times> 's"
    and refresh :: "'h \<Rightarrow> int \<Rightarrow> 's \<Rightarrow> bool \<times> 's"
    and release :: "'h \<Rightarrow> 's \<Rightarrow> 's"
  assumes acquire_iff: "inv s \<Longrightarrow> fst (acquire h force now s) \<longleftrightarrow>
      holder s now = None \<or> holder s now = Some h \<or> force"
    and acquire_holds: "inv s \<Longrightarrow> fst (acquire h force now s) \<Longrightarrow>
      holder (snd (acquire h force now s)) t = (if t < now + ttl then Some h else None)"
    and acquire_refused: "inv s \<Longrightarrow> \<not> fst (acquire h force now s) \<Longrightarrow> snd (acquire h force now s) = s"
    and refresh_iff: "inv s \<Longrightarrow> fst (refresh h now s) \<longleftrightarrow> holder s now = Some h"
    and refresh_holds: "inv s \<Longrightarrow> fst (refresh h now s) \<Longrightarrow>
      holder (snd (refresh h now s)) t = (if t < now + ttl then Some h else None)"
    and refresh_refused: "inv s \<Longrightarrow> \<not> fst (refresh h now s) \<Longrightarrow> snd (refresh h now s) = s"
    and release_own: "inv s \<Longrightarrow> holder (release h s) t \<noteq> Some h"
    and release_other: "inv s \<Longrightarrow> holder s t = Some g \<Longrightarrow> g \<noteq> h \<Longrightarrow> holder (release h s) t = Some g"
    and inv_acquire: "inv s \<Longrightarrow> inv (snd (acquire h force now s))"
    and inv_refresh: "inv s \<Longrightarrow> inv (snd (refresh h now s))"
    and inv_release: "inv s \<Longrightarrow> inv (release h s)"
begin

fun lease_do :: "'h lease_event \<Rightarrow> 's \<Rightarrow> 's" where
  "lease_do (Acquire h t) s = snd (acquire h False t s)"
| "lease_do (Refresh h t) s = snd (refresh h t s)"
| "lease_do (Release h) s = release h s"

lemma inv_do: "inv s \<Longrightarrow> inv (lease_do e s)"
  by (cases e) (simp_all add: inv_acquire inv_refresh inv_release)

text \<open>While \<open>h\<close> holds the lease, an unforced event of somebody else changes nothing about that.\<close>

definition held_until :: "'s \<Rightarrow> 'h \<Rightarrow> int \<Rightarrow> bool" where
  "held_until s h upto_t \<longleftrightarrow> (\<forall>t < upto_t. holder s t = Some h)"

lemma held_step:
  assumes "inv s" and "held_until s h upto_t" and "actor e \<noteq> h" and "acts_before upto_t e"
  shows "held_until (lease_do e s) h upto_t"
proof (cases e)
  case (Acquire g t)
  then have "\<not> fst (acquire g False t s)"
    using assms by (auto simp: acquire_iff held_until_def)
  with Acquire assms show ?thesis by (simp add: acquire_refused)
next
  case (Refresh g t)
  then have "\<not> fst (refresh g t s)"
    using assms by (auto simp: refresh_iff held_until_def)
  with Refresh assms show ?thesis by (simp add: refresh_refused)
next
  case (Release g)
  with assms show ?thesis by (auto simp: held_until_def release_other)
qed

lemma held_run:
  "inv s \<Longrightarrow> held_until s h upto_t \<Longrightarrow> \<forall>e \<in> set es. actor e \<noteq> h \<and> acts_before upto_t e \<Longrightarrow>
   held_until (fold lease_do es s) h upto_t"
  by (induction es arbitrary: s) (auto simp: held_step inv_do)

text \<open>
  Mutual exclusion: after \<open>h\<close> has acquired the lease, no sequence of unforced events of others
  before its end takes it away, and none of their attempts succeeds.
\<close>

lemma exclusive:
  assumes "inv s" and "fst (acquire h force now s)"
    and "\<forall>e \<in> set es. actor e \<noteq> h \<and> acts_before (now + ttl) e"
    and "g \<noteq> h" and "t < now + ttl"
  shows "\<not> fst (acquire g False t (fold lease_do es (snd (acquire h force now s))))"
proof -
  have i: "inv (snd (acquire h force now s))" using assms(1) by (rule inv_acquire)
  have "held_until (snd (acquire h force now s)) h (now + ttl)"
    using assms by (simp add: held_until_def acquire_holds)
  from held_run [OF i this assms(3)] have
    "holder (fold lease_do es (snd (acquire h force now s))) t = Some h"
    using assms(5) by (simp add: held_until_def)
  moreover have "inv (fold lease_do es s')" if "inv s'" for s'
    using that by (induction es arbitrary: s') (auto simp: inv_do)
  ultimately show ?thesis using i assms(4) by (simp add: acquire_iff)
qed

text \<open>At any time at most one holder can extend the lease.\<close>

lemma one_refresher:
  "inv s \<Longrightarrow> fst (refresh g t s) \<Longrightarrow> fst (refresh h t s) \<Longrightarrow> g = h"
  by (simp add: refresh_iff)

end

section \<open>The lock table\<close>

definition live_lock :: "string \<Rightarrow> int \<Rightarrow> lock_row \<Rightarrow> bool" where
  "live_lock device_id now r \<longleftrightarrow> l_device_id r = device_id \<and> now < l_expires_at r"

definition get_lock :: "string \<Rightarrow> int \<Rightarrow> (db, lock_row option) op" where
  "get_lock device_id now =
     db_read (\<lambda>s. fetchone (select_where (live_lock device_id now) (device_locks s)))"

text \<open>The row is read by its device, expired or not; the write is an upsert.\<close>

definition acquire_lock ::
  "string \<Rightarrow> string \<Rightarrow> string \<Rightarrow> bool \<Rightarrow> int \<Rightarrow> int \<Rightarrow> (db, bool \<times> lock_row) op" where
  "acquire_lock device_id holder label force ttl now =
     bindE (db_read (\<lambda>s. fetchone (select_where (\<lambda>r. l_device_id r = device_id) (device_locks s))))
       (\<lambda>row.
         case row of
           Some r \<Rightarrow>
             if now < l_expires_at r \<and> l_holder r \<noteq> holder \<and> \<not> force
             then ret (False, \<lparr>l_device_id = device_id, l_holder = l_holder r, l_label = l_label r,
                    l_acquired_at = l_acquired_at r, l_expires_at = l_expires_at r\<rparr>)
             else
               (let new = \<lparr>l_device_id = device_id, l_holder = holder, l_label = Some label,
                    l_acquired_at = now, l_expires_at = now + ttl\<rparr>
                in db_write (constraint (fk_device device_id) (\<lambda>s. ((True, new),
                     s\<lparr>device_locks := upsert l_device_id new (\<lambda>_. new) (device_locks s)\<rparr>))))
         | None \<Rightarrow>
             (let new = \<lparr>l_device_id = device_id, l_holder = holder, l_label = Some label,
                    l_acquired_at = now, l_expires_at = now + ttl\<rparr>
              in db_write (constraint (fk_device device_id) (\<lambda>s. ((True, new),
                   s\<lparr>device_locks := upsert l_device_id new (\<lambda>_. new) (device_locks s)\<rparr>)))))"

definition held_by :: "string \<Rightarrow> string \<Rightarrow> int \<Rightarrow> lock_row \<Rightarrow> bool" where
  "held_by device_id holder now r \<longleftrightarrow> live_lock device_id now r \<and> l_holder r = holder"

definition refresh_lock :: "string \<Rightarrow> string \<Rightarrow> int \<Rightarrow> int \<Rightarrow> (db, bool) op" where
  "refresh_lock device_id holder ttl now = db_write (\<lambda>s.
     (Inr (0 < rowcount (held_by device_id holder now) (device_locks s)),
      s\<lparr>device_locks := update_where (held_by device_id holder now)
           (\<lambda>r. r\<lparr>l_expires_at := now + ttl\<rparr>) (device_locks s)\<rparr>))"

definition release_lock :: "string \<Rightarrow> string \<Rightarrow> (db, unit) op" where
  "release_lock device_id holder = db_write (modify (\<lambda>s. s\<lparr>device_locks :=
     delete_where (\<lambda>r. l_device_id r = device_id \<and> l_holder r = holder) (device_locks s)\<rparr>))"

definition owned_by :: "int \<Rightarrow> db \<Rightarrow> string \<Rightarrow> bool" where
  "owned_by owner_id s device_id \<longleftrightarrow> list_ex (owned device_id owner_id) (devices s)"

text \<open>The dictionary of \<open>get_locks_for_user\<close>, by device id.\<close>

definition get_locks_for_user :: "int \<Rightarrow> int \<Rightarrow> (db, (string \<times> lock_row) list) op" where
  "get_locks_for_user owner_id now = db_read (\<lambda>s. map (\<lambda>r. (l_device_id r, r))
     (select_where (\<lambda>r. owned_by owner_id s (l_device_id r) \<and> now < l_expires_at r) (device_locks s)))"

lemma acquire_lock_wf [pres]: "preserves wf_db (acquire_lock d h l f ttl now)"
  unfolding acquire_lock_def Let_def
  by (intro pres preserves_constraint) (auto simp: wf_defs fk_device_iff)

lemma refresh_lock_wf [pres]: "preserves wf_db (refresh_lock d h ttl now)"
  unfolding refresh_lock_def
  by (intro preserves_db_write preservesI) (simp add: wf_defs)

lemma release_lock_wf [pres]: "preserves wf_db (release_lock d h)"
  unfolding release_lock_def
  by (intro preserves_db_write preserves_modify) (simp add: wf_defs)

lemma lock_reads_wf [pres]:
  "preserves wf_db (get_lock d now)" "preserves wf_db (get_locks_for_user own now)"
  by (simp_all add: get_lock_def get_locks_for_user_def pres)

section \<open>The table keeps the contract\<close>

definition lock_inv :: "string \<Rightarrow> db \<Rightarrow> bool" where
  "lock_inv d s \<longleftrightarrow> answers s \<and> uniq l_device_id (device_locks s) \<and> fk_device d s"

definition lock_holder :: "string \<Rightarrow> db \<Rightarrow> int \<Rightarrow> string option" where
  "lock_holder d s t = map_option l_holder (fetchone (select_where (live_lock d t) (device_locks s)))"

definition lock_acquire :: "string \<Rightarrow> int \<Rightarrow> string \<Rightarrow> string \<Rightarrow> bool \<Rightarrow> int \<Rightarrow> db \<Rightarrow> bool \<times> db" where
  "lock_acquire d ttl label h force now s =
     (case acquire_lock d h label force ttl now s of
        (Inr (b, _), t) \<Rightarrow> (b, t) | (Inl e, t) \<Rightarrow> (False, t))"

definition lock_refresh :: "string \<Rightarrow> int \<Rightarrow> string \<Rightarrow> int \<Rightarrow> db \<Rightarrow> bool \<times> db" where
  "lock_refresh d ttl h now s =
     (case refresh_lock d h ttl now s of (Inr b, t) \<Rightarrow> (b, t) | (Inl e, t) \<Rightarrow> (False, t))"

definition lock_release :: "string \<Rightarrow> string \<Rightarrow> db \<Rightarrow> db" where
  "lock_release d h s = snd (release_lock d h s)"

text \<open>A table with unique devices has one row at most for the device; it decides the holder.\<close>

definition lock_of :: "string \<Rightarrow> db \<Rightarrow> lock_row option" where
  "lock_of d s = fetchone (select_where (\<lambda>r. l_device_id r = d) (device_locks s))"

lemma lock_of_Some:
  assumes "uniq l_device_id (device_locks s)"
  shows "lock_of d s = Some r \<longleftrightarrow> r \<in> set (device_locks s) \<and> l_device_id r = d"
proof
  show "lock_of d s = Some r \<Longrightarrow> r \<in> set (device_locks s) \<and> l_device_id r = d"
    by (auto simp: lock_of_def dest: fetchone_Some)
  assume "r \<in> set (device_locks s) \<and> l_device_id r = d"
  then show "lock_of d s = Some r"
    using assms by (auto simp: lock_of_def intro!: fetchone_uniq [where key = l_device_id])
qed

lemma lock_of_None: "lock_of d s = None \<longleftrightarrow> (\<forall>r \<in> set (device_locks s). l_device_id r \<noteq> d)"
  by (simp add: lock_of_def)

lemma lock_holder_eq:
  assumes "uniq l_device_id (device_locks s)"
  shows "lock_holder d s t =
    (case lock_of d s of None \<Rightarrow> None | Some r \<Rightarrow> if t < l_expires_at r then Some (l_holder r) else None)"
proof (cases "lock_of d s")
  case None
  then have "fetchone (select_where (live_lock d t) (device_locks s)) = None"
    by (auto simp: lock_of_None live_lock_def)
  with None show ?thesis by (simp add: lock_holder_def)
next
  case (Some r)
  then have r: "r \<in> set (device_locks s)" "l_device_id r = d" using assms by (simp_all add: lock_of_Some)
  show ?thesis
  proof (cases "t < l_expires_at r")
    case True
    have "fetchone (select_where (live_lock d t) (device_locks s)) = Some r"
      using assms r True
      by (auto intro!: fetchone_uniq [where key = l_device_id] simp: live_lock_def)
    with Some True show ?thesis by (simp add: lock_holder_def)
  next
    case False
    have "fetchone (select_where (live_lock d t) (device_locks s)) = None"
      using assms r False by (auto simp: live_lock_def dest: uniqD)
    with Some False show ?thesis by (simp add: lock_holder_def)
  qed
qed

lemma lock_of_upsert:
  assumes "uniq l_device_id (device_locks s)" and "l_device_id new = d"
  shows "lock_of d (s\<lparr>device_locks := upsert l_device_id new (\<lambda>_. new) (device_locks s)\<rparr>) = Some new"
  using assms by (subst lock_of_Some) (auto simp: set_upsert has_key_iff image_iff)

lemma lock_inv_upsert:
  "lock_inv d s \<Longrightarrow> lock_inv d (s\<lparr>device_locks := upsert l_device_id new (\<lambda>_. new) (device_locks s)\<rparr>)"
  by (simp add: lock_inv_def fk_device_def)

lemma lock_inv_uniq: "lock_inv d s \<Longrightarrow> uniq l_device_id (device_locks s)"
  by (simp add: lock_inv_def)

lemma lock_acquire_eq:
  assumes "lock_inv d s"
  shows "lock_acquire d ttl label h force now s =
    (if lock_holder d s now \<noteq> None \<and> lock_holder d s now \<noteq> Some h \<and> \<not> force then (False, s)
     else (True, s\<lparr>device_locks := upsert l_device_id
        \<lparr>l_device_id = d, l_holder = h, l_label = Some label, l_acquired_at = now,
          l_expires_at = now + ttl\<rparr>
        (\<lambda>_. \<lparr>l_device_id = d, l_holder = h, l_label = Some label, l_acquired_at = now,
          l_expires_at = now + ttl\<rparr>) (device_locks s)\<rparr>))"
  using assms
  by (simp add: lock_inv_def lock_acquire_def acquire_lock_def bindE_def Let_def constraint_def
      lock_holder_eq flip: lock_of_def split: option.split)

lemma held_by_lock_of:
  assumes "uniq l_device_id (device_locks s)"
  shows "0 < rowcount (held_by d h now) (device_locks s) \<longleftrightarrow> lock_holder d s now = Some h"
  using assms
  by (auto simp: rowcount_pos held_by_def live_lock_def lock_holder_eq lock_of_Some lock_of_None
      split: option.splits if_splits dest: uniqD)

lemma lock_of_refresh:
  assumes "uniq l_device_id (device_locks s)" and "lock_of d s = Some r" and "held_by d h now r"
  shows "lock_of d (s\<lparr>device_locks := update_where (held_by d h now)
      (\<lambda>r. r\<lparr>l_expires_at := e\<rparr>) (device_locks s)\<rparr>) = Some (r\<lparr>l_expires_at := e\<rparr>)"
  using assms by (subst lock_of_Some) (auto simp: set_update_where image_iff lock_of_Some)

lemma lock_refresh_eq:
  assumes "lock_inv d s"
  shows "lock_refresh d ttl h now s = (lock_holder d s now = Some h,
     s\<lparr>device_locks := update_where (held_by d h now) (\<lambda>r. r\<lparr>l_expires_at := now + ttl\<rparr>)
        (device_locks s)\<rparr>)"
  using assms
  by (simp add: lock_inv_def lock_refresh_def refresh_lock_def held_by_lock_of)

lemma lock_release_eq:
  assumes "lock_inv d s"
  shows "lock_release d h s = s\<lparr>device_locks :=
     delete_where (\<lambda>r. l_device_id r = d \<and> l_holder r = h) (device_locks s)\<rparr>"
  using assms by (simp add: lock_inv_def lock_release_def release_lock_def)

lemma lock_of_release:
  assumes "uniq l_device_id (device_locks s)"
  shows "lock_of d (s\<lparr>device_locks := delete_where (\<lambda>r. l_device_id r = d \<and> l_holder r = h) (device_locks s)\<rparr>)
    = (case lock_of d s of None \<Rightarrow> None | Some r \<Rightarrow> if l_holder r = h then None else Some r)"
  using assms
  by (auto simp: lock_of_None lock_of_Some split: option.split dest: uniqD)

interpretation lk: lease "lock_inv d" ttl "lock_holder d" "lock_acquire d ttl label"
  "lock_refresh d ttl" "lock_release d"
proof unfold_locales
  fix s :: db and h g :: string and force :: bool and now t :: int
  assume s: "lock_inv d s"
  then have u: "uniq l_device_id (device_locks s)" by (simp add: lock_inv_def)
  show "fst (lock_acquire d ttl label h force now s) \<longleftrightarrow>
      lock_holder d s now = None \<or> lock_holder d s now = Some h \<or> force"
    by (auto simp: lock_acquire_eq s)
  show "\<not> fst (lock_acquire d ttl label h force now s) \<Longrightarrow> snd (lock_acquire d ttl label h force now s) = s"
    by (simp add: lock_acquire_eq s split: if_splits)
  show "fst (lock_acquire d ttl label h force now s) \<Longrightarrow>
      lock_holder d (snd (lock_acquire d ttl label h force now s)) t = (if t < now + ttl then Some h else None)"
    using u lock_of_upsert [OF u, of _ d]
    by (cases "lock_holder d s now \<noteq> None \<and> lock_holder d s now \<noteq> Some h \<and> \<not> force")
      (auto simp: lock_acquire_eq s lock_holder_eq [OF lock_inv_uniq [OF lock_inv_upsert [OF s]]])
  show "lock_inv d (snd (lock_acquire d ttl label h force now s))"
    using s by (simp add: lock_acquire_eq lock_inv_upsert)
  show "fst (lock_refresh d ttl h now s) \<longleftrightarrow> lock_holder d s now = Some h"
    by (simp add: lock_refresh_eq s)
  show "\<not> fst (lock_refresh d ttl h now s) \<Longrightarrow> snd (lock_refresh d ttl h now s) = s"
    using held_by_lock_of [OF u, of d h now]
    by (simp add: lock_refresh_eq s update_where_none rowcount_0 flip: neq0_conv)
  show "lock_inv d (snd (lock_refresh d ttl h now s))"
    using s by (simp add: lock_refresh_eq) (simp add: lock_inv_def fk_device_def)
  {
    assume "fst (lock_refresh d ttl h now s)"
    then have "lock_holder d s now = Some h" by (simp add: lock_refresh_eq s)
    then obtain r where "lock_of d s = Some r" "held_by d h now r"
      using u by (auto simp: lock_holder_eq held_by_def live_lock_def lock_of_Some
          split: option.splits if_splits)
    then show "lock_holder d (snd (lock_refresh d ttl h now s)) t = (if t < now + ttl then Some h else None)"
      using u by (simp add: lock_refresh_eq s lock_holder_eq lock_of_refresh) (simp add: held_by_def)
  }
  show "lock_inv d (lock_release d h s)"
    using s by (simp add: lock_release_eq) (simp add: lock_inv_def fk_device_def)
  show "lock_holder d (lock_release d h s) t \<noteq> Some h"
    using u by (simp add: lock_release_eq s lock_holder_eq lock_of_release split: option.split)
  show "lock_holder d s t = Some g \<Longrightarrow> g \<noteq> h \<Longrightarrow> lock_holder d (lock_release d h s) t = Some g"
    using u by (auto simp: lock_release_eq s lock_holder_eq lock_of_release split: option.splits if_splits)
qed

section \<open>Properties\<close>

definition demo_device :: device_row where
  "demo_device = \<lparr>d_id = ''d1'', d_owner_id = 1, d_name = ''phone'', d_token_hash = [], d_paired_at = 0,
     d_last_seen = None, d_characteristics = None\<rparr>"

definition demo_db :: db where
  "demo_db = (empty_db SqliteBackend)\<lparr>devices := [demo_device]\<rparr>"

lemma demo_db_ok: "answers demo_db" "devices demo_db = [demo_device]" "fk_device ''d1'' demo_db"
  "users demo_db = []" "device_locks demo_db = []" "device_presence demo_db = []" "theft_media demo_db = []"
  by (simp_all add: demo_db_def fk_device_iff demo_device_def empty_db_def empty_tables_def tables.extend_def
      answers_def)



end
