(* ===== verification/Mesh.thy ===== *)
theory Mesh
  imports Pairing Sessions Locks
begin

text \<open>
  The mesh tables of \<^verbatim>\<open>hub/db.py\<close>: the endpoints of the running nodes, which node holds a
  device's connection, and the housekeeping. Presence is used through an interface: a directory
  in which a node withdraws only what it published itself.
\<close>

section \<open>The contract of a presence directory\<close>

datatype 'n presence_event = Published 'n int | Withdrawn 'n

locale presence_directory =
  fixes inv :: "'s \<Rightarrow> bool"
    and ok :: "'n \<Rightarrow> bool"
    and addr :: "'n \<Rightarrow> 'a"
    and window :: int
    and publish :: "'n \<Rightarrow> int \<Rightarrow> 's \<Rightarrow> 's"
    and withdraw :: "'n \<Rightarrow> 's \<Rightarrow> 's"
    and lookup :: "'s \<Rightarrow> int \<Rightarrow> 'a option"
  assumes lookup_publish: "inv s \<Longrightarrow> ok n \<Longrightarrow>
      lookup (publish n now s) later = (if later \<le> now + window then Some (addr n) else None)"
    and withdraw_own: "inv s \<Longrightarrow> lookup (withdraw n s) later \<noteq> Some (addr n)"
    and withdraw_other: "inv s \<Longrightarrow> lookup s later = Some a \<Longrightarrow> a \<noteq> addr n \<Longrightarrow>
      lookup (withdraw n s) later = Some a"
    and withdraw_none: "inv s \<Longrightarrow> lookup s later = None \<Longrightarrow> lookup (withdraw n s) later = None"
    and inv_publish: "inv s \<Longrightarrow> inv (publish n now s)"
    and inv_withdraw: "inv s \<Longrightarrow> inv (withdraw n s)"
begin

fun presence_do :: "'n presence_event \<Rightarrow> 's \<Rightarrow> 's" where
  "presence_do (Published n now) s = publish n now s"
| "presence_do (Withdrawn n) s = withdraw n s"

lemma inv_presence_do: "inv s \<Longrightarrow> inv (presence_do e s)"
  by (cases e) (simp_all add: inv_publish inv_withdraw)

lemma inv_presence_run: "inv s \<Longrightarrow> inv (fold presence_do es s)"
  by (induction es arbitrary: s) (simp_all add: inv_presence_do)

text \<open>A withdrawal by a node at another address changes nothing about what the directory says.\<close>

lemma withdrawals_keep:
  "inv t \<Longrightarrow> lookup t later = r \<Longrightarrow> (\<And>a. r = Some a \<Longrightarrow> a = b) \<Longrightarrow>
   \<forall>e \<in> set es. \<exists>m. e = Withdrawn m \<and> addr m \<noteq> b \<Longrightarrow>
   lookup (fold presence_do es t) later = r"
proof (induction es arbitrary: t)
  case Nil
  then show ?case by simp
next
  case (Cons e es)
  then obtain m where m: "e = Withdrawn m" "addr m \<noteq> b" by auto
  have "lookup (withdraw m t) later = r"
    using Cons.prems m withdraw_other [of t later b m] withdraw_none [of t later m]
    by (cases r) auto
  then show ?case using Cons m by (simp add: inv_withdraw)
qed

text \<open>The last publication that its own node has not withdrawn decides, whatever came before.\<close>

lemma last_publication:
  assumes "inv s" and "ok n" and "\<forall>e \<in> set late. \<exists>m. e = Withdrawn m \<and> addr m \<noteq> addr n"
  shows "lookup (fold presence_do (early @ Published n now # late) s) later =
    (if later \<le> now + window then Some (addr n) else None)"
proof -
  have i: "inv (fold presence_do early s)" using assms(1) by (rule inv_presence_run)
  have "lookup (fold presence_do late (publish n now (fold presence_do early s))) later =
    (if later \<le> now + window then Some (addr n) else None)"
    by (rule withdrawals_keep [OF inv_publish [OF i] lookup_publish [OF i assms(2)] _ assms(3)])
      (simp split: if_splits)
  then show ?thesis by simp
qed

end

section \<open>Node endpoints\<close>

definition publish_node_endpoint :: "string \<Rightarrow> string option \<Rightarrow> int \<Rightarrow> (db, unit) op" where
  "publish_node_endpoint url label now =
     (let u = rstrip_slash (strip url) in
      if u = [] then ret ()
      else let new = \<lparr>n_url = u, n_label = clean_label label, n_last_seen = now\<rparr>
        in db_write (modify (\<lambda>s. s\<lparr>node_endpoints := upsert n_url new (\<lambda>_. new) (node_endpoints s)\<rparr>)))"

definition list_node_endpoints :: "int \<Rightarrow> int \<Rightarrow> (db, node_row list) op" where
  "list_node_endpoints max_age now = db_read (\<lambda>s. order_by (\<lambda>r. - n_last_seen r)
     (select_where (\<lambda>r. now - max 30 max_age \<le> n_last_seen r) (node_endpoints s)))"

section \<open>Device presence\<close>

definition publish_device_presence :: "string \<Rightarrow> string \<Rightarrow> int \<Rightarrow> (db, unit) op" where
  "publish_device_presence device_id node_url now =
     (let u = rstrip_slash (strip node_url) in
      if device_id = [] \<or> u = [] then ret ()
      else let new = \<lparr>pr_device_id = device_id, pr_node_url = u, pr_last_seen = now\<rparr>
        in db_write (constraint (fk_device device_id) (\<lambda>s. ((),
             s\<lparr>device_presence := upsert pr_device_id new (\<lambda>_. new) (device_presence s)\<rparr>))))"

definition clear_device_presence :: "string \<Rightarrow> string \<Rightarrow> (db, unit) op" where
  "clear_device_presence device_id node_url =
     (let u = rstrip_slash (strip node_url) in
      db_write (modify (\<lambda>s. s\<lparr>device_presence := delete_where
        (\<lambda>r. pr_device_id r = device_id \<and> pr_node_url r = u) (device_presence s)\<rparr>)))"

definition presence_for_user :: "int \<Rightarrow> int \<Rightarrow> int \<Rightarrow> (db, (string \<times> string) list) op" where
  "presence_for_user owner_id max_age now = db_read (\<lambda>s. map (\<lambda>r. (pr_device_id r, pr_node_url r))
     (select_where (\<lambda>r. owned_by owner_id s (pr_device_id r) \<and> now - max 45 max_age \<le> pr_last_seen r)
       (device_presence s)))"

definition seen_since :: "string \<Rightarrow> int \<Rightarrow> presence_row \<Rightarrow> bool" where
  "seen_since device_id cutoff r \<longleftrightarrow> pr_device_id r = device_id \<and> cutoff \<le> pr_last_seen r"

definition get_device_presence :: "string \<Rightarrow> int \<Rightarrow> int \<Rightarrow> (db, string option) op" where
  "get_device_presence device_id max_age now = db_read (\<lambda>s. map_option pr_node_url
     (fetchone (select_where (seen_since device_id (now - max 45 max_age)) (device_presence s))))"

section \<open>Housekeeping\<close>

definition purge_tables :: "int \<Rightarrow> db \<Rightarrow> db" where
  "purge_tables now s = s
     \<lparr>sessions := delete_where (\<lambda>r. s_expires_at r < now) (sessions s),
      pairing_codes := delete_where (\<lambda>r. p_expires_at r < now) (pairing_codes s),
      device_locks := delete_where (\<lambda>r. l_expires_at r < now) (device_locks s),
      node_endpoints := delete_where (\<lambda>r. n_last_seen r < now - 3600) (node_endpoints s),
      device_presence := delete_where (\<lambda>r. pr_last_seen r < now - 3600) (device_presence s)\<rparr>"

definition purge_expired :: "int \<Rightarrow> (db, unit) op" where
  "purge_expired now = db_write (modify (purge_tables now))"

section \<open>Well-formedness\<close>

lemma publish_node_endpoint_wf [pres]: "preserves wf_db (publish_node_endpoint u l now)"
  unfolding publish_node_endpoint_def Let_def
  by (intro pres preserves_db_write preserves_modify) (simp add: wf_defs)

lemma publish_device_presence_wf [pres]: "preserves wf_db (publish_device_presence d u now)"
  unfolding publish_device_presence_def Let_def
  by (intro pres preserves_db_write preserves_constraint) (auto simp: wf_defs fk_device_iff)

lemma clear_device_presence_wf [pres]: "preserves wf_db (clear_device_presence d u)"
  unfolding clear_device_presence_def Let_def
  by (intro preserves_db_write preserves_modify) (simp add: wf_defs)

lemma mesh_reads_wf [pres]:
  "preserves wf_db (list_node_endpoints a now)" "preserves wf_db (presence_for_user own a now)"
  "preserves wf_db (get_device_presence d a now)"
  by (simp_all add: list_node_endpoints_def presence_for_user_def get_device_presence_def pres)

lemma purge_expired_wf [pres]: "preserves wf_db (purge_expired now)"
  unfolding purge_expired_def
  by (intro preserves_db_write preserves_modify) (simp add: purge_tables_def wf_defs)

section \<open>Behaviour\<close>

definition presence_of :: "string \<Rightarrow> db \<Rightarrow> presence_row option" where
  "presence_of d s = fetchone (select_where (\<lambda>r. pr_device_id r = d) (device_presence s))"

lemma presence_of_Some:
  assumes "uniq pr_device_id (device_presence s)"
  shows "presence_of d s = Some r \<longleftrightarrow> r \<in> set (device_presence s) \<and> pr_device_id r = d"
proof
  show "presence_of d s = Some r \<Longrightarrow> r \<in> set (device_presence s) \<and> pr_device_id r = d"
    by (auto simp: presence_of_def dest: fetchone_Some)
  assume "r \<in> set (device_presence s) \<and> pr_device_id r = d"
  then show "presence_of d s = Some r"
    using assms by (auto simp: presence_of_def intro!: fetchone_uniq [where key = pr_device_id])
qed

lemma presence_of_None: "presence_of d s = None \<longleftrightarrow> (\<forall>r \<in> set (device_presence s). pr_device_id r \<noteq> d)"
  by (simp add: presence_of_def)

definition presence_lookup :: "string \<Rightarrow> int \<Rightarrow> db \<Rightarrow> int \<Rightarrow> string option" where
  "presence_lookup d max_age s now = map_option pr_node_url
     (fetchone (select_where (seen_since d (now - max 45 max_age)) (device_presence s)))"

lemma get_device_presence_lookup:
  "answers_reads s \<Longrightarrow> get_device_presence d max_age now s = (Inr (presence_lookup d max_age s now), s)"
  by (simp add: get_device_presence_def presence_lookup_def)

lemma presence_lookup_eq:
  assumes "uniq pr_device_id (device_presence s)"
  shows "presence_lookup d a s now = (case presence_of d s of None \<Rightarrow> None
     | Some r \<Rightarrow> if now - max 45 a \<le> pr_last_seen r then Some (pr_node_url r) else None)"
proof (cases "presence_of d s")
  case None
  then have "fetchone (select_where (seen_since d (now - max 45 a)) (device_presence s)) = None"
    by (auto simp: presence_of_None seen_since_def)
  with None show ?thesis by (simp add: presence_lookup_def)
next
  case (Some r)
  then have r: "r \<in> set (device_presence s)" "pr_device_id r = d"
    using assms by (simp_all add: presence_of_Some)
  show ?thesis
  proof (cases "now - max 45 a \<le> pr_last_seen r")
    case True
    have "fetchone (select_where (seen_since d (now - max 45 a)) (device_presence s)) = Some r"
      using assms r True by (auto intro!: fetchone_uniq [where key = pr_device_id] simp: seen_since_def)
    with Some True show ?thesis by (simp add: presence_lookup_def)
  next
    case False
    have "fetchone (select_where (seen_since d (now - max 45 a)) (device_presence s)) = None"
      using assms r False by (auto simp: seen_since_def dest: uniqD)
    with Some False show ?thesis by (simp add: presence_lookup_def)
  qed
qed

definition presence_inv :: "string \<Rightarrow> db \<Rightarrow> bool" where
  "presence_inv d s \<longleftrightarrow> answers s \<and> uniq pr_device_id (device_presence s) \<and> fk_device d s \<and> d \<noteq> []"

text \<open>Node addresses as they are stored: white space and trailing slashes removed, not empty.\<close>

definition clean_url :: "string \<Rightarrow> string" where
  "clean_url u = rstrip_slash (strip u)"

lemma publish_presence_state:
  assumes "presence_inv d s" and "clean_url n \<noteq> []"
  shows "snd (publish_device_presence d n now s) = s\<lparr>device_presence := upsert pr_device_id
     \<lparr>pr_device_id = d, pr_node_url = clean_url n, pr_last_seen = now\<rparr>
     (\<lambda>_. \<lparr>pr_device_id = d, pr_node_url = clean_url n, pr_last_seen = now\<rparr>) (device_presence s)\<rparr>"
  using assms
  by (simp add: publish_device_presence_def presence_inv_def clean_url_def constraint_def Let_def)

lemma presence_of_upsert:
  assumes "uniq pr_device_id (device_presence s)" and "pr_device_id new = d"
  shows "presence_of d (s\<lparr>device_presence := upsert pr_device_id new (\<lambda>_. new) (device_presence s)\<rparr>) = Some new"
  using assms by (subst presence_of_Some) (auto simp: set_upsert has_key_iff image_iff)

lemma clear_presence_state:
  assumes "presence_inv d s"
  shows "snd (clear_device_presence d n s) = s\<lparr>device_presence :=
     delete_where (\<lambda>r. pr_device_id r = d \<and> pr_node_url r = clean_url n) (device_presence s)\<rparr>"
  using assms by (simp add: clear_device_presence_def presence_inv_def clean_url_def Let_def)

lemma presence_of_clear:
  assumes "uniq pr_device_id (device_presence s)"
  shows "presence_of d (s\<lparr>device_presence := delete_where (\<lambda>r. pr_device_id r = d \<and> pr_node_url r = u)
      (device_presence s)\<rparr>) =
    (case presence_of d s of None \<Rightarrow> None | Some r \<Rightarrow> if pr_node_url r = u then None else Some r)"
  using assms
  by (auto simp: presence_of_None presence_of_Some split: option.split dest: uniqD)

definition node_publish :: "string \<Rightarrow> string \<Rightarrow> int \<Rightarrow> db \<Rightarrow> db" where
  "node_publish d n now s = snd (publish_device_presence d n now s)"

definition node_withdraw :: "string \<Rightarrow> string \<Rightarrow> db \<Rightarrow> db" where
  "node_withdraw d n s = snd (clear_device_presence d n s)"

lemma presence_inv_publish: "presence_inv d s \<Longrightarrow> presence_inv d (node_publish d n now s)"
  by (cases "clean_url n = []")
    (simp_all add: node_publish_def publish_presence_state,
     simp_all add: publish_device_presence_def presence_inv_def clean_url_def fk_device_def)

lemma presence_inv_withdraw: "presence_inv d s \<Longrightarrow> presence_inv d (node_withdraw d n s)"
  by (simp add: node_withdraw_def clear_presence_state) (simp add: presence_inv_def fk_device_def)

interpretation dir: presence_directory "presence_inv d" "\<lambda>n. clean_url n \<noteq> []" clean_url
  "max 45 max_age" "node_publish d" "node_withdraw d" "presence_lookup d max_age"
proof unfold_locales
  fix s :: db and n a :: string and now later :: int
  assume s: "presence_inv d s"
  then have u: "uniq pr_device_id (device_presence s)" by (simp add: presence_inv_def)
  show pub: "presence_inv d (node_publish d n now s)" using s by (rule presence_inv_publish)
  show wd: "presence_inv d (node_withdraw d n s)" using s by (rule presence_inv_withdraw)
  note uw = wd [unfolded presence_inv_def, THEN conjunct2, THEN conjunct1]
  {
    assume n: "clean_url n \<noteq> []"
    note uq = pub [unfolded presence_inv_def, THEN conjunct2, THEN conjunct1]
    show "presence_lookup d max_age (node_publish d n now s) later =
        (if later \<le> now + max 45 max_age then Some (clean_url n) else None)"
      using u by (simp add: presence_lookup_eq [OF uq])
        (simp add: node_publish_def publish_presence_state [OF s n] presence_of_upsert algebra_simps)
  }
  have w: "presence_of d (node_withdraw d n s) =
      (case presence_of d s of None \<Rightarrow> None | Some r \<Rightarrow> if pr_node_url r = clean_url n then None else Some r)"
    by (simp add: node_withdraw_def clear_presence_state [OF s] presence_of_clear [OF u])
  show "presence_lookup d max_age (node_withdraw d n s) later \<noteq> Some (clean_url n)"
    by (simp add: presence_lookup_eq [OF uw] w split: option.split)
  show "presence_lookup d max_age s later = Some a \<Longrightarrow> a \<noteq> clean_url n \<Longrightarrow>
      presence_lookup d max_age (node_withdraw d n s) later = Some a"
    by (auto simp: presence_lookup_eq [OF uw] presence_lookup_eq [OF u] w split: option.splits if_splits)
  show "presence_lookup d max_age s later = None \<Longrightarrow>
      presence_lookup d max_age (node_withdraw d n s) later = None"
    by (auto simp: presence_lookup_eq [OF uw] presence_lookup_eq [OF u] w split: option.splits if_splits)
qed

text \<open>Housekeeping changes no answer: every reader already ignores what it drops.\<close>

lemma select_delete_expired:
  "(\<And>r. P r \<Longrightarrow> \<not> Q r) \<Longrightarrow> select_where P (delete_where Q t) = select_where P t"
  by (induction t) (auto simp: select_where_def delete_where_def)

lemma purge_answers [simp]: "answers (purge_tables now s) = answers s"
  by (simp add: purge_tables_def)

lemma purge_readers:
  assumes "now \<le> later"
  shows "select_where (live_session H tok later) (sessions (purge_tables now s))
      = select_where (live_session H tok later) (sessions s)"
    and "select_where (redeemable c later) (pairing_codes (purge_tables now s))
      = select_where (redeemable c later) (pairing_codes s)"
    and "select_where (live_lock d later) (device_locks (purge_tables now s))
      = select_where (live_lock d later) (device_locks s)"
    and "max_age \<le> 3600 \<Longrightarrow>
      select_where (seen_since d (later - max 45 max_age)) (device_presence (purge_tables now s))
      = select_where (seen_since d (later - max 45 max_age)) (device_presence s)"
  using assms
  by (auto simp: purge_tables_def live_session_def redeemable_def live_lock_def seen_since_def
      intro!: select_delete_expired)

text \<open>The endpoints of the listing are those seen in the window, the newest first.\<close>

lemma list_node_endpoints_spec:
  assumes "answers_reads s" and "list_node_endpoints a now s = (Inr rs, s)"
  shows "set rs = {r \<in> set (node_endpoints s). now - max 30 a \<le> n_last_seen r}"
    and "sorted (map (\<lambda>r. - n_last_seen r) rs)"
  using assms by (auto simp: list_node_endpoints_def select_where_def)

section \<open>Properties\<close>

text \<open>
  The last node a device connected to is the one the mesh sees. Whatever nodes published and
  withdrew before, once a node has published its address for a device, late withdrawals by nodes at
  other addresses do not hide it: it is found until the publication is too old.
\<close>

theorem newest_connection_visible:
  assumes "presence_inv d s" and "clean_url n \<noteq> []"
    and "\<forall>e \<in> set late. \<exists>m. e = Withdrawn m \<and> clean_url m \<noteq> clean_url n"
  shows "presence_lookup d max_age
      (fold (dir.presence_do d) (early @ Published n now # late) s) later =
    (if later \<le> now + max 45 max_age then Some (clean_url n) else None)"
  using assms by (rule dir.last_publication)

lemma demo_url: "clean_url ''https://b'' = ''https://b''" "clean_url ''https://a'' = ''https://a''"
  by (simp_all add: clean_url_def strip_def rstrip_slash_def rstrip_by_def lstrip_by_def is_space_def)

theorem newest_connection_visible_witness:
  "presence_lookup ''d1'' 90 (fold (dir.presence_do ''d1'')
     ([Published ''https://a'' 100] @ Published ''https://b'' 110 # [Withdrawn ''https://a'']) demo_db) 150
   = Some ''https://b''"
proof -
  have "presence_inv ''d1'' demo_db" by (simp add: presence_inv_def demo_db_ok)
  from newest_connection_visible [OF this, of "''https://b''" "[Withdrawn ''https://a'']" 90
      "[Published ''https://a'' 100]" 110 150]
  show ?thesis by (simp add: demo_url)
qed

text \<open>
  Reconnecting to the same node loses the presence. When a device's new connection is published
  under the address its old connection was published under, the tear-down of the old connection
  removes the row of the new one: the mesh no longer sees the device that is connected.
\<close>

theorem reconnect_same_node_hides:
  assumes "presence_inv d s"
  shows "presence_lookup d max_age
    (node_withdraw d n (node_publish d n now2 (node_publish d n now1 s))) later \<noteq> Some (clean_url n)"
  by (rule dir.withdraw_own [OF presence_inv_publish [OF presence_inv_publish [OF assms]]])

theorem reconnect_same_node_hides_witness:
  "presence_lookup ''d1'' 90 (node_withdraw ''d1'' ''https://a''
     (node_publish ''d1'' ''https://a'' 110 (node_publish ''d1'' ''https://a'' 100 demo_db))) 111
   \<noteq> Some ''https://a''"
proof -
  have "presence_inv ''d1'' demo_db" by (simp add: presence_inv_def demo_db_ok)
  from reconnect_same_node_hides [OF this, of 90 "''https://a''" 110 100 111]
  show ?thesis by (simp add: demo_url)
qed

text \<open>
  C39: housekeeping is invisible. Purging at any time changes no later answer about a session, a
  pairing code, a lock, or the presence of a device within the hour.
\<close>

theorem purge_invisible:
  assumes "answers s" and "now \<le> later" and "max_age \<le> 3600" and "purge_expired now s = (r, t)"
  shows "r = Inr () \<and>
    fst (lookup_session H tok later t) = fst (lookup_session H tok later s) \<and>
    fst (consume_pairing_code code later t) = fst (consume_pairing_code code later s) \<and>
    fst (get_lock d later t) = fst (get_lock d later s) \<and>
    fst (get_device_presence d max_age later t) = fst (get_device_presence d max_age later s)"
proof -
  have r: "r = Inr ()" and t: "t = purge_tables now s"
    using assms(1,4) by (simp_all add: purge_expired_def)
  have a: "answers t" using assms(1) by (simp add: t)
  have sel: "pairing_select code later t = pairing_select code later s"
    by (simp add: pairing_select_def t purge_readers [OF assms(2)])
  then have live: "code_live code later t = code_live code later s"
    using pairing_select_None [of code later s] pairing_select_None [of code later t] by simp
  show ?thesis
    using a assms(1) r
    by (simp add: lookup_session_answers get_lock_def get_device_presence_def
        consume_pairing_code_answers sel live) (simp add: t purge_readers [OF assms(2)] assms(3))
qed

theorem purge_invisible_witness:
  "fst (lookup_session (\<lambda>bs. bs) ''a'' 500 (purge_tables 400 demo_db)) =
   fst (lookup_session (\<lambda>bs. bs) ''a'' 500 demo_db)"
proof -
  have "purge_expired 400 demo_db = (Inr (), purge_tables 400 demo_db)"
    by (simp add: purge_expired_def demo_db_ok)
  from purge_invisible [OF demo_db_ok(1) _ _ this, of 500 90] show ?thesis by simp
qed

end
