(* ===== verification/TheftDb.thy ===== *)
theory TheftDb
  imports Devices
begin

text \<open>
  Theft mode and the audit log (\<^verbatim>\<open>hub/db.py\<close>): the armed state of each device, the captured
  media with their pruning and the rollups of the dashboard, and the append-only log whose
  recording never disturbs what it records.
\<close>

section \<open>Armed state\<close>

definition get_theft_state :: "string \<Rightarrow> (db, theft_row option) op" where
  "get_theft_state device_id = db_read (\<lambda>s.
     fetchone (select_where (\<lambda>r. t_device_id r = device_id) (theft_state s)))"

text \<open>A new row has never run; an existing one keeps its \<open>last_run\<close>.\<close>

definition set_theft_armed ::
  "string \<Rightarrow> bool \<Rightarrow> int option \<Rightarrow> int \<Rightarrow> string \<Rightarrow> int \<Rightarrow> (db, unit) op" where
  "set_theft_armed device_id armed by_user interval_s opts now =
     (let new = \<lparr>t_device_id = device_id, t_armed = (if armed then 1 else 0),
        t_armed_at = (if armed then Some now else None),
        t_armed_by = (if armed then by_user else None),
        t_interval_s = max 30 interval_s, t_opts = Some opts, t_last_run = None\<rparr>
      in db_write (constraint (fk_device device_id) (\<lambda>s. ((), s\<lparr>theft_state :=
        upsert t_device_id new (\<lambda>r. new\<lparr>t_last_run := t_last_run r\<rparr>) (theft_state s)\<rparr>))))"

definition update_theft_last_run :: "string \<Rightarrow> int \<Rightarrow> (db, unit) op" where
  "update_theft_last_run device_id ts = db_write (modify (\<lambda>s. s\<lparr>theft_state :=
     update_where (\<lambda>r. t_device_id r = device_id) (\<lambda>r. r\<lparr>t_last_run := Some ts\<rparr>) (theft_state s)\<rparr>))"

text \<open>The join with the devices; the key of \<open>devices\<close> makes the joined row unique.\<close>

definition owner_of :: "db \<Rightarrow> string \<Rightarrow> int option" where
  "owner_of s device_id =
     map_option d_owner_id (fetchone (select_where (\<lambda>r. d_id r = device_id) (devices s)))"

record armed_device =
  ad_device_id :: string
  ad_owner_id :: int
  ad_interval_s :: int
  ad_opts :: "string option"
  ad_last_run :: "int option"

definition armed_devices :: "(db, armed_device list) op" where
  "armed_devices = db_read (\<lambda>s. concat (map (\<lambda>t.
     case owner_of s (t_device_id t) of None \<Rightarrow> []
     | Some u \<Rightarrow> [\<lparr>ad_device_id = t_device_id t, ad_owner_id = u, ad_interval_s = t_interval_s t,
         ad_opts = t_opts t, ad_last_run = t_last_run t\<rparr>])
     (select_where (\<lambda>t. t_armed t = 1) (theft_state s))))"

definition theft_states_for_user :: "int \<Rightarrow> (db, (string \<times> theft_row) list) op" where
  "theft_states_for_user owner_id = db_read (\<lambda>s. map (\<lambda>t. (t_device_id t, t))
     (select_where (\<lambda>t. owner_of s (t_device_id t) = Some owner_id) (theft_state s)))"

section \<open>Media\<close>

definition add_theft_media ::
  "string \<Rightarrow> int \<Rightarrow> string \<Rightarrow> string option \<Rightarrow> string option \<Rightarrow> int option \<Rightarrow> string option \<Rightarrow>
   string \<Rightarrow> int \<Rightarrow> (db, int) op" where
  "add_theft_media device_id owner_id kind path mime nbytes meta trigger now = db_write (constraint
     (\<lambda>s. fk_device device_id s \<and> fk_user owner_id s)
     (\<lambda>s. (media_seq s + 1, s\<lparr>theft_media := theft_media s @ [\<lparr>m_id = media_seq s + 1,
          m_device_id = device_id, m_owner_id = owner_id, m_kind = kind, m_created_at = now,
          m_path = path, m_mime = mime, m_size = nbytes, m_meta = meta, m_trigger = Some trigger\<rparr>],
        media_seq := media_seq s + 1\<rparr>)))"

text \<open>\<open>ORDER BY created_at DESC, id DESC\<close>.\<close>

definition newest_first :: "media_row list \<Rightarrow> media_row list" where
  "newest_first t = order_by (\<lambda>r. (- m_created_at r, - m_id r)) t"

definition list_theft_media :: "string \<Rightarrow> int \<Rightarrow> int \<Rightarrow> (db, media_row list) op" where
  "list_theft_media device_id owner_id n = db_read (\<lambda>s. limit n (newest_first
     (select_where (\<lambda>r. m_device_id r = device_id \<and> m_owner_id r = owner_id) (theft_media s))))"

definition list_theft_media_all :: "int \<Rightarrow> int \<Rightarrow> string option \<Rightarrow> (db, media_row list) op" where
  "list_theft_media_all owner_id n kind = db_read (\<lambda>s. limit n (newest_first
     (select_where (\<lambda>r. m_owner_id r = owner_id \<and> (opt_str kind \<noteq> [] \<longrightarrow> m_kind r = opt_str kind))
       (theft_media s))))"

text \<open>The loop keeps the first row it meets for each device.\<close>

definition first_per_device :: "media_row list \<Rightarrow> (string \<rightharpoonup> media_row)" where
  "first_per_device rows = fold (\<lambda>r out. case out (m_device_id r) of
     None \<Rightarrow> out(m_device_id r \<mapsto> r) | Some _ \<Rightarrow> out) rows Map.empty"

definition latest_location_per_device :: "int \<Rightarrow> (db, string \<rightharpoonup> media_row) op" where
  "latest_location_per_device owner_id = bindE (db_read (\<lambda>s. newest_first
     (select_where (\<lambda>r. m_owner_id r = owner_id \<and> m_kind r = ''location'') (theft_media s))))
     (\<lambda>rows. ret (first_per_device rows))"

text \<open>\<open>MAX(created_at) ... GROUP BY device_id\<close>.\<close>

definition max_created :: "media_row list \<Rightarrow> int option" where
  "max_created rows = fold (\<lambda>r m. case m of None \<Rightarrow> Some (m_created_at r)
     | Some x \<Rightarrow> Some (max x (m_created_at r))) rows None"

definition last_capture_per_device :: "int \<Rightarrow> (db, string \<rightharpoonup> int) op" where
  "last_capture_per_device owner_id = db_read (\<lambda>s d. max_created
     (select_where (\<lambda>r. m_owner_id r = owner_id \<and> m_device_id r = d) (theft_media s)))"

definition own_media :: "int \<Rightarrow> int \<Rightarrow> media_row \<Rightarrow> bool" where
  "own_media media_id owner_id r \<longleftrightarrow> m_id r = media_id \<and> m_owner_id r = owner_id"

definition get_theft_media :: "int \<Rightarrow> int \<Rightarrow> (db, media_row option) op" where
  "get_theft_media media_id owner_id = db_read (\<lambda>s.
     fetchone (select_where (own_media media_id owner_id) (theft_media s)))"

definition delete_theft_media :: "int \<Rightarrow> int \<Rightarrow> (db, media_row option) op" where
  "delete_theft_media media_id owner_id = bindE (get_theft_media media_id owner_id) (\<lambda>row.
     case row of None \<Rightarrow> ret None
     | Some r \<Rightarrow> thenE (db_write (modify (\<lambda>s. s\<lparr>theft_media :=
           delete_where (own_media media_id owner_id) (theft_media s)\<rparr>)))
         (ret (Some r)))"

text \<open>The rows past the newest \<open>keep\<close> of the device go one by one; the paths they had are returned.\<close>

fun prune_rows :: "media_row list \<Rightarrow> (db, string list) op" where
  "prune_rows [] = ret []"
| "prune_rows (r # old) =
     thenE (db_write (modify (\<lambda>s. s\<lparr>theft_media := delete_where (\<lambda>q. m_id q = m_id r) (theft_media s)\<rparr>)))
       (bindE (prune_rows old) (\<lambda>paths.
          ret ((if opt_str (m_path r) \<noteq> [] then [opt_str (m_path r)] else []) @ paths)))"

definition prune_theft_media :: "string \<Rightarrow> int \<Rightarrow> (db, string list) op" where
  "prune_theft_media device_id keep =
     bindE (db_read (\<lambda>s. drop (nat (max 0 keep))
       (newest_first (select_where (\<lambda>r. m_device_id r = device_id) (theft_media s))))) prune_rows"

section \<open>Audit log\<close>

definition record_audit ::
  "string \<Rightarrow> int option \<Rightarrow> int option \<Rightarrow> string option \<Rightarrow> string option \<Rightarrow> string option \<Rightarrow>
   string option \<Rightarrow> bool \<Rightarrow> int \<Rightarrow> (db, unit) op" where
  "record_audit action owner_id actor_id actor_name device_id detail node_url ok now = catch
     (db_write (modify (\<lambda>s. s\<lparr>audit_log := audit_log s @ [\<lparr>au_id = audit_seq s + 1, au_ts = now,
          au_owner_id = owner_id, au_actor_id = actor_id, au_actor_name = actor_name,
          au_device_id = device_id, au_action = action, au_detail = Some (take 300 (opt_str detail)),
          au_node_url = node_url, au_ok = (if ok then 1 else 0)\<rparr>],
        audit_seq := audit_seq s + 1\<rparr>)))
     (\<lambda>_. ret ())"

definition list_audit :: "int \<Rightarrow> int \<Rightarrow> (db, audit_row list) op" where
  "list_audit owner_id n = db_read (\<lambda>s. limit (max 1 (min n 1000))
     (order_by (\<lambda>r. (- au_ts r, - au_id r))
       (select_where (\<lambda>r. au_owner_id r = Some owner_id) (audit_log s))))"

section \<open>Well-formedness\<close>

lemma set_theft_armed_wf [pres]: "preserves wf_db (set_theft_armed d a b i opts now)"
  unfolding set_theft_armed_def Let_def
  by (intro preserves_db_write preserves_constraint) (auto simp: wf_defs fk_device_iff)

lemma update_theft_last_run_wf [pres]: "preserves wf_db (update_theft_last_run d ts)"
  unfolding update_theft_last_run_def
  by (intro preserves_db_write preserves_modify) (simp add: wf_defs)

lemma add_theft_media_wf [pres]: "preserves wf_db (add_theft_media d own k p mi sz me tr now)"
  unfolding add_theft_media_def
  by (intro preserves_db_write preserves_constraint) (auto simp: wf_defs fk_device_iff fk_user_iff)

lemma theft_reads_wf [pres]:
  "preserves wf_db (get_theft_state d)" "preserves wf_db armed_devices"
  "preserves wf_db (theft_states_for_user own)" "preserves wf_db (list_theft_media d own n)"
  "preserves wf_db (list_theft_media_all own n k)" "preserves wf_db (latest_location_per_device own)"
  "preserves wf_db (last_capture_per_device own)" "preserves wf_db (get_theft_media i own)"
  "preserves wf_db (list_audit own n)"
  by (simp_all add: get_theft_state_def armed_devices_def theft_states_for_user_def
      list_theft_media_def list_theft_media_all_def latest_location_per_device_def
      last_capture_per_device_def get_theft_media_def list_audit_def pres)

lemma delete_media_wf: "preserves wf_db (db_write (modify (\<lambda>s. s\<lparr>theft_media := delete_where P (theft_media s)\<rparr>)))"
  by (intro preserves_db_write preserves_modify) (simp add: wf_defs)

lemma delete_theft_media_wf [pres]: "preserves wf_db (delete_theft_media i own)"
  unfolding delete_theft_media_def by (intro pres delete_media_wf theft_reads_wf)

lemma prune_rows_wf [pres]: "preserves wf_db (prune_rows old)"
  by (induction old) (simp_all only: prune_rows.simps pres preserves_thenE preserves_bindE delete_media_wf)

lemma prune_theft_media_wf [pres]: "preserves wf_db (prune_theft_media d keep)"
  unfolding prune_theft_media_def by (intro pres)

lemma record_audit_wf [pres]: "preserves wf_db (record_audit ac ow ai an d det nd ok now)"
  unfolding record_audit_def
  by (intro preserves_catch preserves_db_write preserves_modify pres) (auto simp: wf_defs)

section \<open>Behaviour\<close>

lemma set_newest_first [simp]: "set (newest_first t) = set t"
  by (simp add: newest_first_def)

lemma sorted_newest_first: "sorted (map (\<lambda>r. (- m_created_at r, - m_id r)) (newest_first t))"
  by (simp add: newest_first_def)

lemma distinct_newest_first [simp]: "distinct (newest_first t) \<longleftrightarrow> distinct t"
  by (simp add: newest_first_def order_by_def)

lemma uniq_newest_first: "uniq m_id t \<Longrightarrow> uniq m_id (newest_first t)"
  by (simp add: uniq_def newest_first_def order_by_def distinct_map)

lemma prune_rows_answers:
  "answers s \<Longrightarrow> prune_rows old s =
     (Inr (filter (\<lambda>p. p \<noteq> []) (map (\<lambda>r. opt_str (m_path r)) old)),
      s\<lparr>theft_media := filter (\<lambda>q. m_id q \<notin> m_id ` set old) (theft_media s)\<rparr>)"
proof (induction old arbitrary: s)
  case Nil
  then show ?case by simp
next
  case (Cons r old)
  let ?s = "s\<lparr>theft_media := delete_where (\<lambda>q. m_id q = m_id r) (theft_media s)\<rparr>"
  have "answers ?s" using Cons.prems by simp
  from Cons.IH [OF this] Cons.prems show ?case
    by (simp add: thenE_def bindE_def delete_where_def conj_commute)
qed

text \<open>
  Pruning keeps the newest \<open>keep\<close> rows of the device and every row of the others, and returns the
  paths of what it removed.
\<close>

definition media_of :: "string \<Rightarrow> db \<Rightarrow> media_row list" where
  "media_of d s = newest_first (select_where (\<lambda>r. m_device_id r = d) (theft_media s))"

lemma prune_answers:
  "answers s \<Longrightarrow> prune_theft_media d keep s =
    (Inr (filter (\<lambda>p. p \<noteq> []) (map (\<lambda>r. opt_str (m_path r)) (drop (nat keep) (media_of d s)))),
     s\<lparr>theft_media := filter (\<lambda>q. m_id q \<notin> m_id ` set (drop (nat keep) (media_of d s))) (theft_media s)\<rparr>)"
  by (simp add: prune_theft_media_def prune_rows_answers media_of_def bindE_def max_def)

lemma drop_uniq_take:
  "uniq key t \<Longrightarrow> r \<in> set t \<Longrightarrow> key r \<notin> key ` set (drop n t) \<longleftrightarrow> r \<in> set (take n t)"
proof -
  assume u: "uniq key t" and r: "r \<in> set t"
  have t: "set t = set (take n t) \<union> set (drop n t)"
    by (metis append_take_drop_id set_append)
  have "set (take n (map key t)) \<inter> set (drop n (map key t)) = {}"
    using u by (simp add: uniq_def set_take_disj_set_drop_if_distinct)
  then have "key ` set (take n t) \<inter> key ` set (drop n t) = {}"
    by (simp flip: set_map add: take_map drop_map)
  with r t show ?thesis by auto
qed

lemma pruned_media:
  assumes "answers s" and "wf_db s"
  shows "set (theft_media (snd (prune_theft_media d keep s))) =
    {r \<in> set (theft_media s). m_device_id r \<noteq> d} \<union> set (take (nat keep) (media_of d s))"
proof -
  have u: "uniq m_id (theft_media s)" using assms(2) by (simp add: wf_defs)
  then have um: "uniq m_id (media_of d s)"
    by (simp add: media_of_def uniq_newest_first select_where_def uniq_filter)
  have mem: "set (media_of d s) = {r \<in> set (theft_media s). m_device_id r = d}"
    by (auto simp: media_of_def select_where_def)
  have keep_iff: "m_id r \<notin> m_id ` set (drop n (media_of d s)) \<longleftrightarrow> r \<in> set (take n (media_of d s))"
    if "r \<in> set (theft_media s)" "m_device_id r = d" for r n
    using that mem by (intro drop_uniq_take [OF um]) auto
  have other: "m_id r \<notin> m_id ` set (drop n (media_of d s))"
    if "r \<in> set (theft_media s)" "m_device_id r \<noteq> d" for r n
    using that mem uniqD [OF u] by (fastforce dest!: in_set_dropD)
  have sub: "set (take n (media_of d s)) \<subseteq> {r \<in> set (theft_media s). m_device_id r = d}" for n
    using mem set_take_subset by fastforce
  have "r \<in> set (theft_media (snd (prune_theft_media d keep s))) \<longleftrightarrow>
      r \<in> set (theft_media s) \<and> (m_device_id r \<noteq> d \<or> r \<in> set (take (nat keep) (media_of d s)))" for r
    using keep_iff [of r "nat keep"] other [of r "nat keep"] assms(1)
    by (cases "m_device_id r = d") (simp_all add: prune_answers cong: conj_cong)
  with sub [of "nat keep"] show ?thesis by blast
qed

lemma prune_returns: "answers s \<Longrightarrow> \<exists>ps. fst (prune_theft_media d keep s) = Inr ps"
  by (simp add: prune_answers)

text \<open>The first row per device of a list sorted newest first is the newest of the device.\<close>

lemma first_per_device_acc:
  "fold (\<lambda>r out. case out (m_device_id r) of None \<Rightarrow> out(m_device_id r \<mapsto> r) | Some _ \<Rightarrow> out) rows out d
   = (case out d of Some r \<Rightarrow> Some r | None \<Rightarrow> List.find (\<lambda>r. m_device_id r = d) rows)"
  by (induction rows arbitrary: out) (auto split: option.split)

lemma first_per_device_find: "first_per_device rows d = List.find (\<lambda>r. m_device_id r = d) rows"
  by (simp add: first_per_device_def first_per_device_acc)

lemma find_Some_member: "List.find P xs = Some r \<Longrightarrow> r \<in> set xs \<and> P r"
  by (induction xs) (auto split: if_splits)

lemma find_sorted_least:
  "sorted (map k rows) \<Longrightarrow> List.find P rows = Some r \<Longrightarrow> q \<in> set rows \<Longrightarrow> P q \<Longrightarrow> k r \<le> k q"
  by (induction rows) (auto split: if_splits)

lemma latest_location_spec:
  assumes "answers_reads s" and "latest_location_per_device own s = (Inr f, s)"
  shows "f d = Some r \<Longrightarrow>
      r \<in> set (theft_media s) \<and> m_owner_id r = own \<and> m_kind r = ''location'' \<and> m_device_id r = d \<and>
      (\<forall>q \<in> set (theft_media s). m_owner_id q = own \<longrightarrow> m_kind q = ''location'' \<longrightarrow> m_device_id q = d \<longrightarrow>
         m_created_at q < m_created_at r \<or> m_created_at q = m_created_at r \<and> m_id q \<le> m_id r)"
    and "f d = None \<longleftrightarrow> (\<forall>q \<in> set (theft_media s).
       m_owner_id q = own \<longrightarrow> m_kind q = ''location'' \<longrightarrow> m_device_id q \<noteq> d)"
proof -
  let ?rows = "newest_first (select_where (\<lambda>r. m_owner_id r = own \<and> m_kind r = ''location'') (theft_media s))"
  have f: "f = first_per_device ?rows"
    using assms by (simp add: latest_location_per_device_def bindE_def)
  show "f d = None \<longleftrightarrow> (\<forall>q \<in> set (theft_media s).
       m_owner_id q = own \<longrightarrow> m_kind q = ''location'' \<longrightarrow> m_device_id q \<noteq> d)"
    by (auto simp: f first_per_device_find find_None_iff select_where_def)
  assume "f d = Some r"
  then have find: "List.find (\<lambda>r. m_device_id r = d) ?rows = Some r"
    by (simp add: f first_per_device_find)
  from find_Some_member [OF this] have r: "r \<in> set ?rows" "m_device_id r = d" by simp_all
  moreover have "(- m_created_at r, - m_id r) \<le> (- m_created_at q, - m_id q)"
    if "q \<in> set ?rows" "m_device_id q = d" for q
    by (rule find_sorted_least [OF sorted_newest_first find that])
  ultimately show "r \<in> set (theft_media s) \<and> m_owner_id r = own \<and> m_kind r = ''location'' \<and> m_device_id r = d \<and>
      (\<forall>q \<in> set (theft_media s). m_owner_id q = own \<longrightarrow> m_kind q = ''location'' \<longrightarrow> m_device_id q = d \<longrightarrow>
         m_created_at q < m_created_at r \<or> m_created_at q = m_created_at r \<and> m_id q \<le> m_id r)"
    by (auto simp: select_where_def less_eq_prod_def) force
qed

text \<open>Recording neither raises nor touches anything but the log, and the log only grows.\<close>

lemma record_audit_returns: "fst (record_audit ac ow ai an d det nd ok now s) = Inr ()"
  by (simp add: record_audit_def catch_def db_write_def split: option.splits)

lemma record_audit_frame:
  "\<exists>log n. snd (record_audit ac ow ai an d det nd ok now s) = s\<lparr>audit_log := audit_log s @ log, audit_seq := n\<rparr>"
proof (cases "answers s")
  case True
  then show ?thesis by (auto simp: record_audit_def catch_def)
next
  case False
  then obtain e where "db_write m s = (Inl e, s)" for m :: "(db, unit) op"
    by (auto simp: db_write_def answers_def split: option.splits)
  then have "snd (record_audit ac ow ai an d det nd ok now s) = s\<lparr>audit_log := audit_log s @ [], audit_seq := audit_seq s\<rparr>"
    by (simp add: record_audit_def catch_def)
  then show ?thesis by blast
qed

lemma record_audit_tables [simp]:
  "users (snd (record_audit ac ow ai an d det nd ok now s)) = users s"
  "invites (snd (record_audit ac ow ai an d det nd ok now s)) = invites s"
  "devices (snd (record_audit ac ow ai an d det nd ok now s)) = devices s"
  "sessions (snd (record_audit ac ow ai an d det nd ok now s)) = sessions s"
  "device_locks (snd (record_audit ac ow ai an d det nd ok now s)) = device_locks s"
  "theft_state (snd (record_audit ac ow ai an d det nd ok now s)) = theft_state s"
  "theft_media (snd (record_audit ac ow ai an d det nd ok now s)) = theft_media s"
  "db_backend (snd (record_audit ac ow ai an d det nd ok now s)) = db_backend s"
  using record_audit_frame [of ac ow ai an d det nd ok now s] by auto

lemma list_audit_bounds:
  assumes "answers_reads s" and "list_audit own n s = (Inr rows, s)"
  shows "length rows \<le> 1000" and "\<forall>r \<in> set rows. au_owner_id r = Some own \<and> r \<in> set (audit_log s)"
    and "sorted (map (\<lambda>r. (- au_ts r, - au_id r)) rows)"
proof -
  let ?all = "order_by (\<lambda>r. (- au_ts r, - au_id r)) (select_where (\<lambda>r. au_owner_id r = Some own) (audit_log s))"
  have rows: "rows = take (nat (max 1 (min n 1000))) ?all"
    using assms by (simp add: list_audit_def limit_def)
  show "length rows \<le> 1000" by (simp add: rows)
  show "\<forall>r \<in> set rows. au_owner_id r = Some own \<and> r \<in> set (audit_log s)"
    by (auto simp: rows select_where_def dest!: in_set_takeD)
  show "sorted (map (\<lambda>r. (- au_ts r, - au_id r)) rows)"
    by (simp add: rows take_map [symmetric] sorted_wrt_take)
qed

text \<open>Arming and disarming.\<close>

lemma set_theft_armed_state:
  assumes "answers s" and "fk_device d s" and "wf_db s"
  shows "fst (set_theft_armed d a b i opts now s) = Inr ()"
    and "\<exists>r. fst (get_theft_state d (snd (set_theft_armed d a b i opts now s))) = Inr (Some r) \<and>
      (t_armed r = 1 \<longleftrightarrow> a) \<and> 30 \<le> t_interval_s r \<and> t_opts r = Some opts"
proof -
  have u: "uniq t_device_id (theft_state s)" using assms(3) by (simp add: wf_defs)
  let ?new = "\<lparr>t_device_id = d, t_armed = (if a then 1 else 0),
        t_armed_at = (if a then Some now else None), t_armed_by = (if a then b else None),
        t_interval_s = max 30 i, t_opts = Some opts, t_last_run = None\<rparr>"
  let ?t = "upsert t_device_id ?new (\<lambda>r. ?new\<lparr>t_last_run := t_last_run r\<rparr>) (theft_state s)"
  have st: "set_theft_armed d a b i opts now s = (Inr (), s\<lparr>theft_state := ?t\<rparr>)"
    using assms by (simp add: set_theft_armed_def constraint_def Let_def)
  then show "fst (set_theft_armed d a b i opts now s) = Inr ()" by simp
  have "uniq t_device_id ?t" using u by simp
  moreover obtain lr where lr: "?new\<lparr>t_last_run := lr\<rparr> \<in> set ?t"
  proof (cases "has_key t_device_id d (theft_state s)")
    case True
    then obtain q where "q \<in> set (theft_state s)" "t_device_id q = d" by (auto simp: has_key_iff)
    then have "?new\<lparr>t_last_run := t_last_run q\<rparr> \<in> set ?t"
      using True by (auto simp: set_upsert image_iff intro!: bexI [of _ q])
    then show ?thesis by (rule that)
  next
    case False
    then have "?new\<lparr>t_last_run := None\<rparr> \<in> set ?t" by (simp add: set_upsert)
    then show ?thesis by (rule that)
  qed
  ultimately have "fetchone (select_where (\<lambda>r. t_device_id r = d) ?t) = Some (?new\<lparr>t_last_run := lr\<rparr>)"
    by (rule fetchone_uniq) simp_all
  then show "\<exists>r. fst (get_theft_state d (snd (set_theft_armed d a b i opts now s))) = Inr (Some r) \<and>
      (t_armed r = 1 \<longleftrightarrow> a) \<and> 30 \<le> t_interval_s r \<and> t_opts r = Some opts"
    using assms(1) by (simp add: st get_theft_state_def)
qed

section \<open>Properties\<close>

lemma take_newer:
  assumes "r \<in> set (take n (media_of d s))" and "q \<in> set (drop n (media_of d s))"
  shows "m_created_at q \<le> m_created_at r"
proof -
  let ?k = "\<lambda>r. (- m_created_at r, - m_id r)"
  have "sorted (map ?k (take n (media_of d s) @ drop n (media_of d s)))"
    unfolding append_take_drop_id by (simp add: media_of_def sorted_newest_first)
  then have "sorted (map ?k (take n (media_of d s)) @ map ?k (drop n (media_of d s)))"
    by (simp only: map_append)
  then have "?k r \<le> ?k q" using assms unfolding sorted_append by force
  then show ?thesis by (auto simp: less_eq_prod_def)
qed

text \<open>
  Pruning keeps exactly the newest captures. Of the rows of the pruned device those that remain
  are the first \<open>keep\<close> in the order newest first; the rows of the other devices all remain; and the
  paths handed back for deletion are those of the rows that went.
\<close>

theorem prune_keeps_newest:
  assumes "answers s" and "wf_db s"
  shows "fst (prune_theft_media d keep s) =
      Inr (filter (\<lambda>p. p \<noteq> []) (map (\<lambda>r. opt_str (m_path r)) (drop (nat keep) (media_of d s)))) \<and>
    set (theft_media (snd (prune_theft_media d keep s))) =
      {r \<in> set (theft_media s). m_device_id r \<noteq> d} \<union> set (take (nat keep) (media_of d s)) \<and>
    (\<forall>r \<in> set (take (nat keep) (media_of d s)). \<forall>q \<in> set (drop (nat keep) (media_of d s)).
      m_created_at q \<le> m_created_at r)"
  using assms(1) pruned_media [OF assms] take_newer by (auto simp: prune_answers)

definition media_demo :: "int \<Rightarrow> string \<Rightarrow> int \<Rightarrow> media_row" where
  "media_demo i d t = \<lparr>m_id = i, m_device_id = d, m_owner_id = 1, m_kind = ''photo'', m_created_at = t,
     m_path = Some (''p'' @ nat_str (nat i)), m_mime = None, m_size = None, m_meta = None, m_trigger = None\<rparr>"

definition theft_demo :: db where
  "theft_demo = enrolled_demo\<lparr>theft_media := [media_demo 1 ''d1'' 10, media_demo 2 ''d1'' 20],
     media_seq := 2\<rparr>"

lemma wf_media_update:
  "wf_db s \<Longrightarrow> uniq m_id ms \<Longrightarrow> ids_below m_id ms n \<Longrightarrow> refs m_device_id ms (device_ids s) \<Longrightarrow>
   refs m_owner_id ms (user_ids s) \<Longrightarrow> wf_db (s\<lparr>theft_media := ms, media_seq := n\<rparr>)"
  by (simp add: wf_defs)

lemma theft_demo_ok: "answers theft_demo" "wf_db theft_demo"
proof -
  show "answers theft_demo" using enrolled_demo_ok(1) by (simp add: theft_demo_def)
  have "''d1'' \<in> device_ids enrolled_demo" "1 \<in> user_ids enrolled_demo"
    by (simp_all add: device_ids_def user_ids_def enrolled_demo_def invite_demo_def)
  then show "wf_db theft_demo"
    unfolding theft_demo_def
    by (intro wf_media_update enrolled_demo_ok(2))
      (simp_all add: uniq_def ids_below_def refs_def media_demo_def)
qed

lemma media_demo_simps [simp]:
  "m_id (media_demo i d t) = i" "m_device_id (media_demo i d t) = d" "m_created_at (media_demo i d t) = t"
  by (simp_all add: media_demo_def)

theorem prune_keeps_newest_witness:
  "set (theft_media (snd (prune_theft_media ''d1'' 1 theft_demo))) = {media_demo 2 ''d1'' 20}"
proof -
  have "theft_media theft_demo = [media_demo 1 ''d1'' 10, media_demo 2 ''d1'' 20]"
    by (simp add: theft_demo_def)
  then have m: "media_of ''d1'' theft_demo = [media_demo 2 ''d1'' 20, media_demo 1 ''d1'' 10]"
    "{r \<in> set (theft_media theft_demo). m_device_id r \<noteq> ''d1''} = {}"
    by (auto simp: media_of_def select_where_def newest_first_def order_by_def less_eq_prod_def)
  from prune_keeps_newest [OF theft_demo_ok, of "''d1''" 1]
  have "set (theft_media (snd (prune_theft_media ''d1'' 1 theft_demo))) =
      {r \<in> set (theft_media theft_demo). m_device_id r \<noteq> ''d1''} \<union> set (take (nat 1) (media_of ''d1'' theft_demo))"
    by blast
  then show ?thesis by (simp add: m)
qed

text \<open>
  The audit log neither disturbs nor forgets. Recording an event returns normally in every state,
  also when no database answers, changes nothing but the log and its counter, and keeps every entry
  the log had.
\<close>

theorem audit_is_best_effort_and_append_only:
  "fst (record_audit ac ow ai an d det nd ok now s) = Inr () \<and>
   (\<exists>new n. snd (record_audit ac ow ai an d det nd ok now s) =
      s\<lparr>audit_log := audit_log s @ new, audit_seq := n\<rparr> \<and> length new = (if answers s then 1 else 0))"
proof (cases "answers s")
  case True
  let ?row = "\<lparr>au_id = audit_seq s + 1, au_ts = now, au_owner_id = ow, au_actor_id = ai,
    au_actor_name = an, au_device_id = d, au_action = ac, au_detail = Some (take 300 (opt_str det)),
    au_node_url = nd, au_ok = (if ok then 1 else 0)\<rparr>"
  have "record_audit ac ow ai an d det nd ok now s =
      (Inr (), s\<lparr>audit_log := audit_log s @ [?row], audit_seq := audit_seq s + 1\<rparr>)"
    using True by (simp add: record_audit_def catch_def)
  moreover have "length [?row] = (if answers s then 1 else 0)" using True by simp
  ultimately show ?thesis by (metis fst_conv snd_conv)
next
  case False
  then have "snd (record_audit ac ow ai an d det nd ok now s) = s"
    by (auto simp: record_audit_def catch_def db_write_def answers_def split: option.splits)
  then have "snd (record_audit ac ow ai an d det nd ok now s) = s\<lparr>audit_log := audit_log s @ [], audit_seq := audit_seq s\<rparr>"
    by simp
  then show ?thesis using record_audit_returns False
    by (intro conjI exI [of _ "[]"] exI [of _ "audit_seq s"]) simp_all
qed


end
