(* ===== verification/ConfigStore.thy ===== *)
theory ConfigStore
  imports Json
begin

text \<open>
  The hub's configuration (\<^verbatim>\<open>hub/config.py\<close>): the reader of \<^verbatim>\<open>.env\<close> files, the loader that
  folds them into the environment, and the store whose values come from the environment, from
  \<^verbatim>\<open>config.json\<close>, or from a default. Files, \<^verbatim>\<open>json.loads\<close> and \<^verbatim>\<open>json.dumps\<close> are parameters.
\<close>

section \<open>The reader of environment files\<close>

definition is_os_error :: "exn \<Rightarrow> bool" where
  "is_os_error e = (case e of OSError _ \<Rightarrow> True | PermissionError _ \<Rightarrow> True
     | FileNotFoundError _ \<Rightarrow> True | IsADirectoryError _ \<Rightarrow> True | TimeoutError \<Rightarrow> True
     | ConnectionError _ \<Rightarrow> True | _ \<Rightarrow> False)"

definition unquote :: "string \<Rightarrow> string" where
  "unquote v = (if 2 \<le> length v \<and> hd v = last v \<and> hd v \<in> {CHR 0x27, CHR 0x22}
     then butlast (tl v) else v)"

text \<open>What one line adds to the dictionary, if anything.\<close>

definition env_line :: "string \<Rightarrow> (string \<times> string) option" where
  "env_line raw = (let line = strip raw in
     if line = [] \<or> startswith ''#'' line \<or> CHR ''='' \<notin> set line then None
     else (let (k, v) = partition_at (CHR ''='') line;
             k = strip k;
             k = (if startswith ''export '' k then strip (drop 7 k) else k);
             v = unquote (strip (opt_str v))
           in if k = [] then None else Some (k, v)))"

fun env_lines :: "string list \<Rightarrow> (string \<times> string) list \<Rightarrow> (string \<times> string) list" where
  "env_lines [] out = out"
| "env_lines (l # ls) out = env_lines ls (case env_line l of None \<Rightarrow> out | Some (k, v) \<Rightarrow> dict_put k v out)"

text \<open>\<open>text\<close> is what reading the file gave: an \<open>OSError\<close> is no file, other errors go through.\<close>

definition parse_env :: "exn + string \<Rightarrow> exn + (string \<times> string) list" where
  "parse_env text = (case text of
     Inl e \<Rightarrow> if is_os_error e then Inr [] else Inl e
   | Inr t \<Rightarrow> Inr (env_lines (splitlines t) []))"

record files =
  f_resolve :: "string \<Rightarrow> exn + string"
  f_is_file :: "string \<Rightarrow> bool"
  f_read :: "string \<Rightarrow> exn + string"

type_synonym environ = "string \<rightharpoonup> string"

definition fold_env :: "(string \<times> string) list \<Rightarrow> environ \<Rightarrow> environ" where
  "fold_env kvs env = fold (\<lambda>(k, v) e. case e k of None \<Rightarrow> e(k \<mapsto> v) | Some _ \<Rightarrow> e) kvs env"

text \<open>The loop over the candidates: each resolved file once, in order, the first value of a key wins.\<close>

fun load_files :: "files \<Rightarrow> string list \<Rightarrow> string set \<Rightarrow> environ \<Rightarrow> exn + (string list \<times> environ)" where
  "load_files F [] seen env = Inr ([], env)"
| "load_files F (p # ps) seen env =
     (case f_resolve F p of
        Inl e \<Rightarrow> if is_os_error e then load_files F ps seen env else Inl e
      | Inr rp \<Rightarrow>
          if rp \<in> seen \<or> \<not> f_is_file F p then load_files F ps seen env
          else (case parse_env (f_read F p) of
              Inl e \<Rightarrow> Inl e
            | Inr kvs \<Rightarrow>
                (case load_files F ps (insert rp seen) (fold_env kvs env) of
                   Inl e \<Rightarrow> Inl e
                 | Inr (loaded, env') \<Rightarrow> Inr (p # loaded, env'))))"

definition load_env_files ::
  "files \<Rightarrow> string \<Rightarrow> string \<Rightarrow> string \<Rightarrow> environ \<Rightarrow> exn + (string list \<times> environ)" where
  "load_env_files F cwd repo_root home env =
     (let explicit = strip (opt_str (env ''VORTEX_ENV_FILE'')) in
      load_files F ([cwd @ ''/.env'', repo_root @ ''/.env'', home @ ''/vortex/.env'']
        @ (if explicit = [] then [] else [explicit])) {} env)"

section \<open>The registry of settings\<close>

record spec =
  sp_default :: string
  sp_restart :: bool
  sp_live :: bool
  sp_secret :: bool

definition boot_key :: "string \<Rightarrow> bool \<Rightarrow> spec" where
  "boot_key d secret = \<lparr>sp_default = d, sp_restart = True, sp_live = False, sp_secret = secret\<rparr>"

definition live_key :: "string \<Rightarrow> spec" where
  "live_key d = \<lparr>sp_default = d, sp_restart = False, sp_live = True, sp_secret = False\<rparr>"

definition SPEC :: "(string \<times> spec) list" where
  "SPEC = [
     (''VORTEX_SYNC_URL'', boot_key [] False),
     (''VORTEX_SYNC_TOKEN'', boot_key [] True),
     (''VORTEX_HUB_DB'', boot_key [] False),
     (''APP_PORT'', boot_key ''8000'' False),
     (''CLOUDFLARE_TUNNEL_TOKEN'', boot_key [] True),
     (''VORTEX_HUB_PUBLIC_URL'', live_key []),
     (''VORTEX_LOCK_TTL'', live_key ''30''),
     (''VORTEX_SESSION_TTL'', live_key (int_str (30 * 24 * 3600))),
     (''VORTEX_REGISTRATION_MODE'', live_key ''invite''),
     (''VORTEX_MEDIA_DIR'', live_key []),
     (''VORTEX_THEFT_RETENTION'', live_key ''200'')]"

definition spec_of :: "string \<Rightarrow> spec option" where
  "spec_of k = map_of SPEC k"

definition spec_default :: "string \<Rightarrow> string" where
  "spec_default k = (case spec_of k of None \<Rightarrow> [] | Some sp \<Rightarrow> sp_default sp)"

section \<open>The store\<close>

text \<open>The environment, the dictionary read from \<^verbatim>\<open>config.json\<close>, and the text of that file.\<close>

record config =
  cf_env :: environ
  cf_file :: "(string \<times> json) list"
  cf_disk :: "string option"

definition config_boot ::
  "(string \<Rightarrow> json option) \<Rightarrow> exn + (string list \<times> environ) \<Rightarrow> (config, string list) op" where
  "config_boot parse loaded c = (case loaded of
     Inl e \<Rightarrow> (Inl e, c)
   | Inr (paths, env) \<Rightarrow> (Inr paths, c\<lparr>cf_env := env, cf_file :=
       (case cf_disk c of None \<Rightarrow> [] | Some t \<Rightarrow>
          (case parse t of Some (JObj kvs) \<Rightarrow> kvs | _ \<Rightarrow> []))\<rparr>))"

definition blank :: "json \<Rightarrow> bool" where
  "blank v \<longleftrightarrow> v = JNull \<or> v = JStr []"

definition cfg_get :: "(json \<Rightarrow> string) \<Rightarrow> config \<Rightarrow> string \<Rightarrow> string option \<Rightarrow> string" where
  "cfg_get SH c k dflt =
     (if opt_str (cf_env c k) \<noteq> [] then opt_str (cf_env c k)
      else let fv = jget (cf_file c) k in
        if \<not> blank fv then py_str SH fv
        else case dflt of Some d \<Rightarrow> d | None \<Rightarrow> spec_default k)"

definition cfg_get_int :: "(json \<Rightarrow> string) \<Rightarrow> config \<Rightarrow> string \<Rightarrow> int \<Rightarrow> int" where
  "cfg_get_int SH c k dflt =
     (case py_int (cfg_get SH c k (Some (int_str dflt))) of Some i \<Rightarrow> i | None \<Rightarrow> dflt)"

datatype source = FromEnv | FromConfig | FromDefault

definition source_of :: "config \<Rightarrow> string \<Rightarrow> source" where
  "source_of c k = (if opt_str (cf_env c k) \<noteq> [] then FromEnv
     else if \<not> blank (jget (cf_file c) k) then FromConfig else FromDefault)"

text \<open>One assignment of \<open>set_many\<close>.\<close>

definition set_one :: "string \<times> string \<Rightarrow> (string \<times> json) list \<Rightarrow> (string \<times> json) list" where
  "set_one kv d = (case kv of (k, v) \<Rightarrow>
     (case spec_of k of
        None \<Rightarrow> d
      | Some sp \<Rightarrow>
          if sp_secret sp \<and> v = [] then d
          else if v = [] then dict_pop k d
          else dict_put k (JStr v) d))"

text \<open>The file is replaced whole; when writing fails the dictionary in memory is already new.\<close>

definition set_many ::
  "(json \<Rightarrow> string) \<Rightarrow> exn option \<Rightarrow> (string \<times> string) list \<Rightarrow> (config, unit) op" where
  "set_many print write_fails values c =
     (let d = fold set_one values (cf_file c) in
      case write_fails of
        Some e \<Rightarrow> (Inl e, c\<lparr>cf_file := d\<rparr>)
      | None \<Rightarrow> (Inr (), c\<lparr>cf_file := d, cf_disk := Some (print (JObj d))\<rparr>))"

text \<open>The masked hint of a secret: not set, set, or set with its last characters shown.\<close>

datatype hint = NoHint | IsSet | IsSetEnding string

record setting_view =
  sv_key :: string
  sv_value :: string
  sv_secret :: bool
  sv_hint :: hint
  sv_restart :: bool
  sv_live :: bool
  sv_source :: source

definition view_of :: "(json \<Rightarrow> string) \<Rightarrow> config \<Rightarrow> string \<times> spec \<Rightarrow> setting_view" where
  "view_of SH c ks = (case ks of (k, sp) \<Rightarrow>
     let val = cfg_get SH c k None in
     \<lparr>sv_key = k,
      sv_value = (if sp_secret sp then [] else val),
      sv_secret = sp_secret sp,
      sv_hint = (if sp_secret sp \<and> val \<noteq> []
                 then (if 4 \<le> length val then IsSetEnding (last_chars 4 val) else IsSet) else NoHint),
      sv_restart = sp_restart sp,
      sv_live = sp_live sp,
      sv_source = source_of c k\<rparr>)"

definition public_view :: "(json \<Rightarrow> string) \<Rightarrow> config \<Rightarrow> setting_view list" where
  "public_view SH c = map (view_of SH c) SPEC"

section \<open>Typed accessors\<close>

definition cfg_lock_ttl :: "(json \<Rightarrow> string) \<Rightarrow> config \<Rightarrow> int" where
  "cfg_lock_ttl SH c = max 5 (cfg_get_int SH c ''VORTEX_LOCK_TTL'' 30)"

definition cfg_session_ttl :: "(json \<Rightarrow> string) \<Rightarrow> config \<Rightarrow> int" where
  "cfg_session_ttl SH c = max 300 (cfg_get_int SH c ''VORTEX_SESSION_TTL'' (30 * 24 * 3600))"

definition registration_mode :: "(json \<Rightarrow> string) \<Rightarrow> config \<Rightarrow> string" where
  "registration_mode SH c =
     (let m = lower (cfg_get SH c ''VORTEX_REGISTRATION_MODE'' (Some ''invite'')) in
      if m \<in> {''open'', ''invite'', ''closed''} then m else ''invite'')"

definition public_url_override :: "(json \<Rightarrow> string) \<Rightarrow> config \<Rightarrow> string" where
  "public_url_override SH c = rstrip_slash (cfg_get SH c ''VORTEX_HUB_PUBLIC_URL'' (Some []))"

definition media_dir :: "(json \<Rightarrow> string) \<Rightarrow> string \<Rightarrow> config \<Rightarrow> string" where
  "media_dir SH home c =
     or_str (strip (cfg_get SH c ''VORTEX_MEDIA_DIR'' (Some []))) (home @ ''/vortex/media'')"

definition theft_retention :: "(json \<Rightarrow> string) \<Rightarrow> config \<Rightarrow> int" where
  "theft_retention SH c = max 10 (cfg_get_int SH c ''VORTEX_THEFT_RETENTION'' 200)"

text \<open>The accessors of \<^verbatim>\<open>hub/db.py\<close>: the store's value, the constant when the store raises.\<close>

definition SESSION_TTL :: int where
  "SESSION_TTL = 30 * 24 * 3600"

definition session_ttl :: "exn + int \<Rightarrow> int" where
  "session_ttl store = (case store of Inr t \<Rightarrow> t | Inl _ \<Rightarrow> SESSION_TTL)"

definition LOCK_TTL :: int where
  "LOCK_TTL = 30"

definition lock_ttl :: "exn + int \<Rightarrow> int" where
  "lock_ttl store = (case store of Inr t \<Rightarrow> t | Inl _ \<Rightarrow> LOCK_TTL)"

section \<open>Facts\<close>

lemma jget_set_one_other: "fst kv \<noteq> j \<Longrightarrow> jget (set_one kv d) j = jget d j"
  by (cases kv) (auto simp: set_one_def split: option.split)

lemma jget_fold_other: "j \<notin> fst ` set kvs \<Longrightarrow> jget (fold set_one kvs d) j = jget d j"
  by (induction kvs arbitrary: d) (auto simp: jget_set_one_other)

text \<open>What one assignment leaves under its own key.\<close>

definition assigned :: "string \<Rightarrow> string \<Rightarrow> json \<Rightarrow> json" where
  "assigned k v old = (case spec_of k of None \<Rightarrow> old
     | Some sp \<Rightarrow> if v = [] then (if sp_secret sp then old else JNull) else JStr v)"

lemma jget_set_one: "jget (set_one (k, v) d) k = assigned k v (jget d k)"
  by (auto simp: set_one_def assigned_def split: option.split)

lemma jget_fold_set:
  "distinct (map fst kvs) \<Longrightarrow> (k, v) \<in> set kvs \<Longrightarrow> jget (fold set_one kvs d) k = assigned k v (jget d k)"
proof (induction kvs arbitrary: d)
  case Nil
  then show ?case by simp
next
  case (Cons kv kvs)
  show ?case
  proof (cases "kv = (k, v)")
    case True
    then have "k \<notin> fst ` set kvs" using Cons.prems by auto
    then show ?thesis using True by (simp add: jget_fold_other jget_set_one)
  next
    case False
    then have "(k, v) \<in> set kvs" "fst kv \<noteq> k" using Cons.prems by (auto simp: image_iff)
    then show ?thesis using Cons by (simp add: jget_set_one_other)
  qed
qed

lemma jget_fold_absent:
  "(k, v) \<notin> set kvs \<Longrightarrow> k \<notin> fst ` set kvs \<Longrightarrow> jget (fold set_one kvs d) k = jget d k"
  by (rule jget_fold_other)

text \<open>Where a value comes from, in the order the store looks.\<close>

lemma cfg_get_cases:
  "source_of c k = FromEnv \<Longrightarrow> cfg_get SH c k x = opt_str (cf_env c k)"
  "source_of c k = FromConfig \<Longrightarrow> cfg_get SH c k x = py_str SH (jget (cf_file c) k)"
  "source_of c k = FromDefault \<Longrightarrow> cfg_get SH c k x = (case x of Some d \<Rightarrow> d | None \<Rightarrow> spec_default k)"
  by (simp_all add: source_of_def cfg_get_def Let_def split: if_splits)

text \<open>A written value survives a restart: written, read back and looked up.\<close>

lemma set_then_boot:
  assumes "set_many print None kvs c = (Inr (), c')"
    and "parse (print (JObj (cf_file c'))) = Some (JObj (cf_file c'))"
  shows "config_boot parse (Inr (paths, env)) (c'\<lparr>cf_file := junk\<rparr>) =
    (Inr paths, c'\<lparr>cf_env := env, cf_file := fold set_one kvs (cf_file c)\<rparr>)"
  using assms by (auto simp: set_many_def config_boot_def Let_def)

lemma fold_env_lookup: "fold_env kvs env k = (case env k of Some v \<Rightarrow> Some v | None \<Rightarrow> map_of kvs k)"
proof (induction kvs arbitrary: env)
  case Nil
  then show ?case by (simp add: fold_env_def split: option.split)
next
  case (Cons kv kvs)
  obtain j w where kv: "kv = (j, w)" by (cases kv)
  have "fold_env (kv # kvs) env = fold_env kvs (case env j of None \<Rightarrow> env(j \<mapsto> w) | Some _ \<Rightarrow> env)"
    by (simp add: fold_env_def kv)
  then show ?case by (cases "env j") (auto simp: Cons.IH kv split: option.split)
qed

lemma load_files_keep:
  "load_files F ps seen env = Inr (loaded, env') \<Longrightarrow> env k = Some v \<Longrightarrow> env' k = Some v"
proof (induction ps arbitrary: seen env loaded)
  case Nil
  then show ?case by simp
next
  case (Cons p ps)
  have fe: "fold_env kvs env k = Some v" for kvs
    using Cons.prems(2) by (simp add: fold_env_lookup)
  from Cons.prems(1) consider seen' loaded' where "load_files F ps seen' env = Inr (loaded', env')"
    | kvs seen' loaded' where "load_files F ps seen' (fold_env kvs env) = Inr (loaded', env')"
    by (auto split: sum.splits if_splits prod.splits)
  then show ?case
    by cases (use Cons.IH Cons.prems(2) fe in blast)+
qed

text \<open>Reading back a file of plain assignments.\<close>

definition plain :: "string \<Rightarrow> bool" where
  "plain s \<longleftrightarrow> s \<noteq> [] \<and> list_all (\<lambda>c. is_alnum_char c \<or> c = CHR ''_'') s"

lemma alnum_not: "is_alnum_char c \<or> c = CHR ''_'' \<Longrightarrow>
   \<not> is_space c \<and> \<not> is_line_end c \<and> c \<noteq> CHR ''='' \<and> c \<noteq> CHR ''#'' \<and> c \<noteq> CHR '' '' \<and> c \<noteq> CHR 0x27 \<and> c \<noteq> CHR 0x22"
  by (auto simp: is_alnum_char_def is_space_def is_line_end_def Let_def)

lemma splitlines_acc_plain:
  "\<forall>c \<in> set l. \<not> is_line_end c \<Longrightarrow> splitlines_acc acc (l @ CHR 0x0A # s) = (rev acc @ l) # splitlines_acc [] s"
  by (induction l arbitrary: acc) (auto simp: is_line_end_def split: list.split)

definition assignment :: "string \<times> string \<Rightarrow> string" where
  "assignment kv = fst kv @ ''='' @ snd kv @ [CHR 0x0A]"

lemma startswith_nomatch:
  "c \<in> set p \<Longrightarrow> c \<notin> set s \<Longrightarrow> \<not> startswith p s"
  by (metis startswith_def in_set_takeD)

lemma env_line_plain:
  assumes "plain k" and "plain v"
  shows "env_line (k @ ''='' @ v) = Some (k, v)"
proof -
  have ks: "\<forall>c \<in> set k. \<not> is_space c \<and> c \<noteq> CHR ''='' \<and> c \<noteq> CHR ''#'' \<and> c \<noteq> CHR '' ''"
    using assms(1) alnum_not by (fastforce simp: plain_def list_all_iff)
  have vs: "\<forall>c \<in> set v. \<not> is_space c \<and> c \<noteq> CHR 0x27 \<and> c \<noteq> CHR 0x22"
    using assms(2) alnum_not by (fastforce simp: plain_def list_all_iff)
  have line: "strip (k @ CHR ''='' # v) = k @ CHR ''='' # v"
    using ks vs by (intro strip_no_space) (auto simp: is_space_def)
  have "\<not> startswith ''#'' (k @ ''='' @ v)"
    using ks assms(1) by (cases k) (auto simp: startswith_def plain_def)
  moreover have "partition_at (CHR ''='') (k @ ''='' @ v) = (k, Some v)"
    using ks partition_at_append [of "CHR ''=''" k v] by auto
  moreover have "strip k = k" "strip v = v" using ks vs by (auto intro: strip_no_space)
  moreover have "\<not> startswith ''export '' k"
    using ks by (intro startswith_nomatch [of "CHR '' ''"]) auto
  moreover have "unquote v = v"
    using vs assms(2) by (cases v) (auto simp: unquote_def plain_def)
  ultimately show ?thesis using assms(1) by (simp add: env_line_def line plain_def opt_str_def)
qed

lemma splitlines_assignments:
  "\<forall>(k, v) \<in> set kvs. plain k \<and> plain v \<Longrightarrow>
   splitlines (concat (map assignment kvs)) = map (\<lambda>(k, v). k @ ''='' @ v) kvs"
proof (induction kvs)
  case Nil
  then show ?case by (simp add: splitlines_def)
next
  case (Cons kv kvs)
  obtain k v where kv: "kv = (k, v)" by (cases kv)
  have "\<forall>c \<in> set (k @ ''='' @ v). \<not> is_line_end c"
    using Cons.prems kv alnum_not by (fastforce simp: plain_def list_all_iff is_line_end_def)
  from splitlines_acc_plain [OF this, of "[]"] Cons kv show ?case
    by (simp add: splitlines_def assignment_def)
qed

lemma env_lines_plain:
  "\<forall>(k, v) \<in> set kvs. plain k \<and> plain v \<Longrightarrow> distinct (map fst (out @ kvs)) \<Longrightarrow>
   env_lines (map (\<lambda>(k, v). k @ ''='' @ v) kvs) out = out @ kvs"
proof (induction kvs arbitrary: out)
  case Nil
  then show ?case by simp
next
  case (Cons kv kvs)
  obtain k v where kv: "kv = (k, v)" by (cases kv)
  have "k \<notin> fst ` set out" using Cons.prems(2) kv by auto
  then have "dict_put k v out = out @ [(k, v)]" by (rule dict_put_new)
  moreover have "env_line (k @ ''='' @ v) = Some (k, v)"
    using Cons.prems kv by (intro env_line_plain) auto
  ultimately show ?case using Cons.IH [of "out @ [(k, v)]"] Cons.prems kv by simp
qed

section \<open>Properties\<close>

text \<open>
  What is saved is what is read, now and after a restart. After a successful \<open>set_many\<close> with
  distinct keys, a known key that the environment does not set reads as the value written, a blank
  secret keeps its old value, a blank other setting falls back to its default, an unknown key is
  ignored, and a process that boots from the written file reads the same.
\<close>

theorem saved_settings_survive:
  assumes "distinct (map fst kvs)" and "(k, v) \<in> set kvs"
    and "set_many print None kvs c = (Inr (), c')"
    and "parse (print (JObj (cf_file c'))) = Some (JObj (cf_file c'))"
    and "opt_str (env k) = []" and "cf_env c = env" and "spec_of k = Some sp"
  shows "cfg_get SH c' k None =
      (if v \<noteq> [] then v else if sp_secret sp then cfg_get SH c k None else sp_default sp) \<and>
    config_boot parse (Inr (paths, env)) (c'\<lparr>cf_file := junk\<rparr>) = (Inr paths, c')"
proof
  have c': "c' = c\<lparr>cf_file := fold set_one kvs (cf_file c), cf_disk := Some (print (JObj (fold set_one kvs (cf_file c))))\<rparr>"
    using assms(3) by (simp add: set_many_def Let_def)
  have j: "jget (cf_file c') k = assigned k v (jget (cf_file c) k)"
    using jget_fold_set [OF assms(1,2), of "cf_file c"] by (simp add: c')
  show "cfg_get SH c' k None =
      (if v \<noteq> [] then v else if sp_secret sp then cfg_get SH c k None else sp_default sp)"
    using assms(5,6,7) j
    by (auto simp: cfg_get_def assigned_def blank_def spec_default_def c' Let_def)
  show "config_boot parse (Inr (paths, env)) (c'\<lparr>cf_file := junk\<rparr>) = (Inr paths, c')"
    using set_then_boot [of print kvs c c' parse paths env junk] assms(3,4,6) by (simp add: c')
qed

theorem saved_settings_survive_witness:
  "cfg_get (\<lambda>_. []) (\<lparr>cf_env = Map.empty, cf_file = fold set_one [(''APP_PORT'', ''81'')] [],
     cf_disk = Some ''f''\<rparr>) ''APP_PORT'' None = ''81''"
  using saved_settings_survive [THEN conjunct1, of "[(''APP_PORT'', ''81'')]" "''APP_PORT''" "''81''" "\<lambda>_. ''f''"
      "\<lparr>cf_env = Map.empty, cf_file = [], cf_disk = None\<rparr>"
      "\<lparr>cf_env = Map.empty, cf_file = fold set_one [(''APP_PORT'', ''81'')] [], cf_disk = Some ''f''\<rparr>"
      "\<lambda>_. Some (JObj (fold set_one [(''APP_PORT'', ''81'')] []))" Map.empty "boot_key ''8000'' False" "\<lambda>_. []"]
  by (simp add: set_many_def opt_str_def spec_of_def SPEC_def)

text \<open>
  The settings page shows no secret, but for its last characters. The value of a secret is never
  in the view, and its hint is a suffix of four characters, of secrets of at least that length.
\<close>

theorem public_view_masks:
  assumes "v \<in> set (public_view SH c)" and "sv_secret v"
  shows "sv_value v = [] \<and> (case sv_hint v of
     IsSetEnding e \<Rightarrow> length e = 4 \<and> (\<exists>p. cfg_get SH c (sv_key v) None = p @ e)
   | IsSet \<Rightarrow> cfg_get SH c (sv_key v) None \<noteq> [] \<and> length (cfg_get SH c (sv_key v) None) < 4
   | NoHint \<Rightarrow> cfg_get SH c (sv_key v) None = [])"
proof -
  obtain k sp where v: "v = view_of SH c (k, sp)" using assms(1) by (auto simp: public_view_def)
  have suffix: "\<exists>p. x = p @ last_chars 4 x" for x :: string
    by (metis append_take_drop_id last_chars_def)
  show ?thesis
    using assms(2) suffix
    by (auto simp: v view_of_def Let_def last_chars_def)
qed

definition secret_cfg :: config where
  "secret_cfg = \<lparr>cf_env = Map.empty, cf_file = [(''VORTEX_SYNC_TOKEN'', JStr ''abcd'')], cf_disk = None\<rparr>"

theorem public_view_masks_witness:
  "sv_value (view_of (\<lambda>_. []) secret_cfg (''VORTEX_SYNC_TOKEN'', boot_key [] True)) = []"
proof -
  have "view_of (\<lambda>_. []) secret_cfg (''VORTEX_SYNC_TOKEN'', boot_key [] True) \<in> set (public_view (\<lambda>_. []) secret_cfg)"
    by (simp add: public_view_def SPEC_def)
  moreover have "sv_secret (view_of (\<lambda>_. []) secret_cfg (''VORTEX_SYNC_TOKEN'', boot_key [] True))"
    by (simp add: view_of_def boot_key_def Let_def)
  ultimately show ?thesis using public_view_masks by blast
qed

text \<open>
  A secret of four characters is shown whole. The hint of such a secret is the secret itself.
\<close>

theorem short_secret_shown:
  assumes "length (cfg_get SH c k None) = 4" and "sp_secret sp"
  shows "sv_hint (view_of SH c (k, sp)) = IsSetEnding (cfg_get SH c k None)"
  using assms by (auto simp: view_of_def Let_def last_chars_def)

theorem short_secret_shown_witness:
  "sv_hint (view_of (\<lambda>_. []) secret_cfg (''VORTEX_SYNC_TOKEN'', boot_key [] True)) = IsSetEnding ''abcd''"
proof -
  have g: "cfg_get (\<lambda>_. []) secret_cfg ''VORTEX_SYNC_TOKEN'' None = ''abcd''"
    by (simp add: cfg_get_def secret_cfg_def opt_str_def blank_def)
  show ?thesis
    using short_secret_shown [of "\<lambda>_. []" secret_cfg "''VORTEX_SYNC_TOKEN''" "boot_key [] True"]
    by (simp add: g boot_key_def)
qed

text \<open>
  A value from an environment file takes precedence over the value saved by the settings page.
  A key the process environment leaves unset and an environment file assigns reads as the file's
  value, whatever \<^verbatim>\<open>config.json\<close> holds.
\<close>

theorem env_file_beats_config_json:
  assumes "parse_env text = Inr kvs" and "map_of kvs k = Some v" and "v \<noteq> []" and "env k = None"
    and "config_boot parse (Inr (paths, fold_env kvs env)) c = (r, c')"
  shows "cfg_get SH c' k dflt = v \<and> source_of c' k = FromEnv"
proof -
  have "cf_env c' k = Some v"
    using assms by (auto simp: config_boot_def fold_env_lookup)
  then show ?thesis
    using assms(3) by (simp add: cfg_get_def source_of_def opt_str_def)
qed

theorem env_file_beats_config_json_witness:
  "cfg_get (\<lambda>_. []) (snd (config_boot (\<lambda>_. Some (JObj [(''APP_PORT'', JStr ''9000'')]))
      (Inr ([], fold_env [(''APP_PORT'', ''81'')] Map.empty))
      \<lparr>cf_env = Map.empty, cf_file = [], cf_disk = Some ''f''\<rparr>)) ''APP_PORT'' None = ''81''"
proof -
  have "parse_env (Inr (''APP_PORT'' @ ''='' @ ''81'')) = Inr [(''APP_PORT'', ''81'')]"
    using env_line_plain [of "''APP_PORT''" "''81''"]
      splitlines_acc_plain [of "''APP_PORT=81''" "[]" "[]"]
    by (simp add: parse_env_def splitlines_def plain_def is_alnum_char_def is_line_end_def)
  from env_file_beats_config_json [THEN conjunct1, OF this _ _ _ prod.collapse [symmetric]] show ?thesis by simp
qed

text \<open>
  A file of plain assignments is read back as it was written. For distinct names and values of
  letters, digits and underscores, one \<open>NAME=value\<close> per line, the reader returns exactly the
  assignments, in order.
\<close>

theorem env_file_roundtrip:
  assumes "\<forall>(k, v) \<in> set kvs. plain k \<and> plain v" and "distinct (map fst kvs)"
  shows "parse_env (Inr (concat (map assignment kvs))) = Inr kvs"
  using splitlines_assignments [OF assms(1)] env_lines_plain [OF assms(1), of "[]"] assms(2)
  by (simp add: parse_env_def)

theorem env_file_roundtrip_witness:
  "parse_env (Inr (concat (map assignment [(''A'', ''1''), (''B_2'', ''x'')]))) = Inr [(''A'', ''1''), (''B_2'', ''x'')]"
  by (rule env_file_roundtrip) (simp_all add: plain_def is_alnum_char_def)

text \<open>
  No stored text makes a lifetime unusable. Whatever the environment and the file hold, also text
  that is no number, the lock lifetime is at least 5 seconds, the session lifetime at least 300, the
  media retention at least 10, and the registration mode one of its three values.
\<close>

theorem settings_in_bounds:
  "5 \<le> cfg_lock_ttl SH c \<and> 300 \<le> cfg_session_ttl SH c \<and> 10 \<le> theft_retention SH c \<and>
   registration_mode SH c \<in> {''open'', ''invite'', ''closed''}"
  by (auto simp: cfg_lock_ttl_def cfg_session_ttl_def theft_retention_def registration_mode_def Let_def)

end
