(* ===== verification/RateLimit.thy ===== *)
theory RateLimit
  imports Complex_Main Prelude
begin

text \<open>
  The login rate limiter of \<^verbatim>\<open>hub/auth.py\<close>: a log of failures and a table of blocks per address,
  both cleaned when the log grows large. A reference limiter keeps one address at a time and
  never cleans; the table implements it for every address at once. Times are the values of the
  monotonic clock, as rationals.
\<close>

section \<open>The tables\<close>

record rate =
  fail_log :: "(string \<times> rat list) list"
  block_until :: "(string \<times> rat) list"

definition RATE_WINDOW :: rat where "RATE_WINDOW = 60"
definition RATE_MAX :: nat where "RATE_MAX = 5"
definition RATE_BLOCK :: rat where "RATE_BLOCK = 300"
definition MAX_TRACKED :: nat where "MAX_TRACKED = 10000"

lemmas rate_consts = RATE_WINDOW_def RATE_MAX_def RATE_BLOCK_def

definition empty_rate :: rate where
  "empty_rate = \<lparr>fail_log = [], block_until = []\<rparr>"

text \<open>The seconds left while the address is blocked, else 0; an expired block goes with its log.\<close>

definition rate_check :: "string \<Rightarrow> rat \<Rightarrow> rate \<Rightarrow> rat \<times> rate" where
  "rate_check ip now s = (case map_of (block_until s) ip of
     None \<Rightarrow> (0, s)
   | Some u \<Rightarrow> if now < u then (u - now, s)
       else (0, s\<lparr>block_until := dict_pop ip (block_until s), fail_log := dict_pop ip (fail_log s)\<rparr>))"

text \<open>\<open>while log and log[0] < cutoff: log.popleft()\<close>.\<close>

fun drop_old :: "rat \<Rightarrow> rat list \<Rightarrow> rat list" where
  "drop_old cutoff [] = []"
| "drop_old cutoff (t # ts) = (if t < cutoff then drop_old cutoff ts else t # ts)"

definition clean_rate :: "rat \<Rightarrow> rate \<Rightarrow> rate" where
  "clean_rate now s = s
     \<lparr>fail_log := filter (\<lambda>(_, l). l \<noteq> []) (map (\<lambda>(k, l). (k, drop_old (now - RATE_WINDOW) l)) (fail_log s)),
      block_until := filter (\<lambda>(_, u). now < u) (block_until s)\<rparr>"

definition rate_record_fail :: "string \<Rightarrow> rat \<Rightarrow> rate \<Rightarrow> rate" where
  "rate_record_fail ip now s =
     (let s = (if MAX_TRACKED < length (fail_log s) then clean_rate now s else s);
          old = (case map_of (fail_log s) ip of None \<Rightarrow> [] | Some l \<Rightarrow> l);
          log = drop_old (now - RATE_WINDOW) old @ [now]
      in if RATE_MAX \<le> length log
         then s\<lparr>block_until := dict_put ip (now + RATE_BLOCK) (block_until s),
                fail_log := dict_put ip [] (fail_log s)\<rparr>
         else s\<lparr>fail_log := dict_put ip log (fail_log s)\<rparr>)"

definition rate_clear :: "string \<Rightarrow> rate \<Rightarrow> rate" where
  "rate_clear ip s = s\<lparr>fail_log := dict_pop ip (fail_log s), block_until := dict_pop ip (block_until s)\<rparr>"

section \<open>A login attempt\<close>

text \<open>
  What \<open>login_post\<close> does with the limiter: refuse while blocked, else clear on success and record a
  failure otherwise.
\<close>

datatype verdict = Refused rat | Accepted | Denied

definition attempt :: "string \<Rightarrow> rat \<Rightarrow> bool \<Rightarrow> rate \<Rightarrow> verdict \<times> rate" where
  "attempt ip now good s = (case rate_check ip now s of (left, t) \<Rightarrow>
     if 0 < left then (Refused left, t)
     else if good then (Accepted, rate_clear ip t)
     else (Denied, rate_record_fail ip now t))"

fun attempt_seq :: "(string \<times> rat \<times> bool) list \<Rightarrow> rate \<Rightarrow> verdict list" where
  "attempt_seq [] s = []"
| "attempt_seq ((ip, now, good) # xs) s =
     (case attempt ip now good s of (v, t) \<Rightarrow> v # attempt_seq xs t)"

section \<open>The reference limiter of one address\<close>

text \<open>All failures since the last success or block, and the end of the last block.\<close>

type_synonym ref_rate = "rat list \<times> rat option"

definition recent :: "rat \<Rightarrow> rat list \<Rightarrow> rat list" where
  "recent now h = filter (\<lambda>t. now - RATE_WINDOW \<le> t) h"

definition ref_attempt :: "rat \<Rightarrow> bool \<Rightarrow> ref_rate \<Rightarrow> verdict \<times> ref_rate" where
  "ref_attempt now good r = (case r of (h, b) \<Rightarrow>
     if \<exists>u. b = Some u \<and> now < u then (Refused (the b - now), r)
     else if good then (Accepted, ([], None))
     else if RATE_MAX \<le> length (recent now (h @ [now])) then (Denied, ([], Some (now + RATE_BLOCK)))
     else (Denied, (h @ [now], None)))"

fun ref_seq :: "(string \<times> rat \<times> bool) list \<Rightarrow> (string \<Rightarrow> ref_rate) \<Rightarrow> verdict list" where
  "ref_seq [] f = []"
| "ref_seq ((ip, now, good) # xs) f =
     (case ref_attempt now good (f ip) of (v, r) \<Rightarrow> v # ref_seq xs (f(ip := r)))"

section \<open>The tables implement the reference\<close>

definition log_of :: "rate \<Rightarrow> string \<Rightarrow> rat list" where
  "log_of s ip = (case map_of (fail_log s) ip of None \<Rightarrow> [] | Some l \<Rightarrow> l)"

definition live_until :: "rat \<Rightarrow> rat option \<Rightarrow> rat option" where
  "live_until now b = (case b of None \<Rightarrow> None | Some u \<Rightarrow> if now < u then Some u else None)"

definition rate_inv :: "rat \<Rightarrow> rate \<Rightarrow> bool" where
  "rate_inv now s \<longleftrightarrow> distinct (map fst (fail_log s)) \<and> distinct (map fst (block_until s)) \<and>
     (\<forall>ip. sorted (log_of s ip) \<and> (\<forall>t \<in> set (log_of s ip). t \<le> now)) \<and>
     (\<forall>ip. map_of (block_until s) ip \<noteq> None \<longrightarrow> log_of s ip = [])"

text \<open>The same live block, and the same failures within the window.\<close>

definition rate_rel :: "rat \<Rightarrow> rate \<Rightarrow> (string \<Rightarrow> ref_rate) \<Rightarrow> bool" where
  "rate_rel now s f \<longleftrightarrow> rate_inv now s \<and>
     (\<forall>ip. live_until now (map_of (block_until s) ip) = live_until now (snd (f ip)) \<and>
        recent now (log_of s ip) = recent now (fst (f ip)))"

lemma drop_old_recent: "sorted l \<Longrightarrow> drop_old (now - RATE_WINDOW) l = recent now l"
proof (induction l)
  case Nil
  then show ?case by (simp add: recent_def)
next
  case (Cons t l)
  show ?case
  proof (cases "t < now - RATE_WINDOW")
    case True
    with Cons show ?thesis by (simp add: recent_def)
  next
    case False
    then have "\<forall>u \<in> set l. now - RATE_WINDOW \<le> u" using Cons.prems by auto
    with False show ?thesis by (simp add: recent_def)
  qed
qed

lemma recent_recent: "now \<le> later \<Longrightarrow> recent later (recent now l) = recent later l"
  by (auto simp: recent_def intro!: filter_cong)

lemma recent_eq_mono: "recent now l = recent now m \<Longrightarrow> now \<le> later \<Longrightarrow> recent later l = recent later m"
  by (metis recent_recent)

lemma recent_append [simp]: "recent now (l @ m) = recent now l @ recent now m"
  by (simp add: recent_def)

lemma recent_Nil [simp]: "recent now [] = []"
  by (simp add: recent_def)

lemma recent_now [simp]: "recent now [now] = [now]"
  by (simp add: recent_def RATE_WINDOW_def)

lemma sorted_recent [simp]: "sorted l \<Longrightarrow> sorted (recent now l)"
  by (simp add: recent_def sorted_wrt_filter)

lemma set_recent: "t \<in> set (recent now l) \<Longrightarrow> t \<in> set l"
  by (simp add: recent_def)

lemma live_until_None: "live_until now None = None"
  by (simp add: live_until_def)

lemma live_until_mono: "live_until now b = live_until now c \<Longrightarrow> now \<le> later \<Longrightarrow> live_until later b = live_until later c"
  by (auto simp: live_until_def split: option.splits if_splits)

lemma rate_rel_mono: "rate_rel now s f \<Longrightarrow> now \<le> later \<Longrightarrow> rate_rel later s f"
  unfolding rate_rel_def rate_inv_def
  by (auto intro: live_until_mono recent_eq_mono order_trans)

lemma map_of_clean_log:
  "distinct (map fst d) \<Longrightarrow>
   (case map_of (filter (\<lambda>(_, l). l \<noteq> []) (map (\<lambda>(k, l). (k, g l)) d)) ip of None \<Rightarrow> [] | Some l \<Rightarrow> l) =
   (case map_of d ip of None \<Rightarrow> [] | Some l \<Rightarrow> g l)"
proof (induction d)
  case Nil
  then show ?case by simp
next
  case (Cons x d)
  obtain k l where x: "x = (k, l)" by (cases x)
  have "k \<notin> fst ` set d" using Cons.prems x by simp
  then have "map_of (filter (\<lambda>(_, l). l \<noteq> []) (map (\<lambda>(k, l). (k, g l)) d)) k = None"
    by (force simp: map_of_eq_None_iff)
  with Cons x show ?case by auto
qed

lemma map_of_filter_val:
  "distinct (map fst d) \<Longrightarrow> map_of (filter (\<lambda>(_, u). P u) d) k =
    (case map_of d k of None \<Rightarrow> None | Some u \<Rightarrow> if P u then Some u else None)"
proof (induction d)
  case Nil
  then show ?case by simp
next
  case (Cons x d)
  obtain j u where x: "x = (j, u)" by (cases x)
  have "j \<notin> fst ` set d" using Cons.prems x by simp
  then have "map_of d j = None" by (simp add: map_of_eq_None_iff)
  with Cons x show ?case by auto
qed

lemma log_of_clean:
  assumes "rate_inv now s"
  shows "log_of (clean_rate now s) ip = recent now (log_of s ip)"
proof -
  have "log_of (clean_rate now s) ip =
      (case map_of (fail_log s) ip of None \<Rightarrow> [] | Some l \<Rightarrow> drop_old (now - RATE_WINDOW) l)"
    using assms by (simp add: log_of_def clean_rate_def map_of_clean_log rate_inv_def)
  moreover have "sorted (log_of s ip)" using assms by (simp add: rate_inv_def)
  ultimately show ?thesis
    by (auto simp: log_of_def drop_old_recent split: option.splits)
qed

lemma map_of_clean_block:
  "rate_inv now s \<Longrightarrow> map_of (block_until (clean_rate now s)) ip = live_until now (map_of (block_until s) ip)"
  by (simp add: clean_rate_def rate_inv_def map_of_filter_val live_until_def)

lemma clean_keys: "map fst (map (\<lambda>(k, l). (k, g l)) d) = map fst d"
  by (induction d) auto

lemma rate_inv_clean: "rate_inv now s \<Longrightarrow> rate_inv now (clean_rate now s)"
proof -
  assume s: "rate_inv now s"
  have "distinct (map fst (fail_log (clean_rate now s)))"
    using s by (simp add: clean_rate_def rate_inv_def distinct_map_filter clean_keys del: map_map)
  moreover have "distinct (map fst (block_until (clean_rate now s)))"
    using s by (simp add: clean_rate_def rate_inv_def distinct_map_filter)
  moreover have "sorted (recent now (log_of s ip))" "t \<in> set (recent now (log_of s ip)) \<Longrightarrow> t \<le> now" for ip t
    using s by (auto simp: rate_inv_def dest: set_recent)
  moreover have "live_until now (map_of (block_until s) ip) \<noteq> None \<Longrightarrow> recent now (log_of s ip) = []" for ip
    using s by (auto simp: rate_inv_def live_until_def split: option.splits)
  ultimately show "rate_inv now (clean_rate now s)"
    using s by (auto simp: rate_inv_def log_of_clean map_of_clean_block)
qed

lemma live_until_live [simp]: "live_until now (live_until now b) = live_until now b"
  by (simp add: live_until_def split: option.split)

lemma rate_rel_clean: "rate_rel now s f \<Longrightarrow> rate_rel now (clean_rate now s) f"
  by (simp add: rate_rel_def rate_inv_clean log_of_clean map_of_clean_block recent_recent)

lemma log_of_put [simp]:
  "log_of (s\<lparr>fail_log := dict_put ip l (fail_log s)\<rparr>) j = (if j = ip then l else log_of s j)"
  "log_of (s\<lparr>fail_log := dict_pop ip (fail_log s)\<rparr>) j = (if j = ip then [] else log_of s j)"
  "log_of (s\<lparr>block_until := b\<rparr>) j = log_of s j"
  "log_of (s\<lparr>block_until := b, fail_log := dict_put ip l (fail_log s)\<rparr>) j = (if j = ip then l else log_of s j)"
  "log_of (s\<lparr>block_until := b, fail_log := dict_pop ip (fail_log s)\<rparr>) j = (if j = ip then [] else log_of s j)"
  "log_of (s\<lparr>fail_log := dict_pop ip (fail_log s), block_until := b\<rparr>) j = (if j = ip then [] else log_of s j)"
  by (auto simp: log_of_def)

lemma rate_rel_check:
  assumes "rate_rel now s f" and "rate_check ip now s = (left, t)"
  shows "rate_rel now t f" and "0 < left \<longleftrightarrow> live_until now (snd (f ip)) \<noteq> None"
    and "live_until now (snd (f ip)) = Some u \<Longrightarrow> left = u - now"
    and "\<not> 0 < left \<Longrightarrow> map_of (block_until t) ip = None"
proof -
  have b: "live_until now (map_of (block_until s) ip) = live_until now (snd (f ip))"
    using assms(1) by (simp add: rate_rel_def)
  show "0 < left \<longleftrightarrow> live_until now (snd (f ip)) \<noteq> None"
    using assms(2) b by (auto simp: rate_check_def live_until_def split: option.splits if_splits)
  show "live_until now (snd (f ip)) = Some u \<Longrightarrow> left = u - now"
    using assms(2) b by (auto simp: rate_check_def live_until_def split: option.splits if_splits)
  show "\<not> 0 < left \<Longrightarrow> map_of (block_until t) ip = None"
    using assms(2) by (auto simp: rate_check_def split: option.splits if_splits)
  show "rate_rel now t f"
  proof (cases "t = s")
    case True
    then show ?thesis using assms(1) by simp
  next
    case False
    then obtain u where u: "map_of (block_until s) ip = Some u" "\<not> now < u"
      and t: "t = s\<lparr>block_until := dict_pop ip (block_until s), fail_log := dict_pop ip (fail_log s)\<rparr>"
      using assms(2) by (auto simp: rate_check_def split: option.splits if_splits)
    have l: "log_of s ip = []" using assms(1) u by (simp add: rate_rel_def rate_inv_def)
    have "log_of t j = log_of s j" for j using l by (simp add: t)
    moreover have "live_until now (map_of (block_until t) j) = live_until now (map_of (block_until s) j)" for j
      using u by (simp add: t live_until_def)
    ultimately show ?thesis using assms(1) by (simp add: rate_rel_def rate_inv_def t)
  qed
qed

lemma rate_rel_clear: "rate_rel now s f \<Longrightarrow> rate_rel now (rate_clear ip s) (f(ip := ([], None)))"
  by (auto simp: rate_rel_def rate_inv_def rate_clear_def)

lemma rate_rel_fail:
  assumes "rate_rel now s f" and "map_of (block_until s) ip = None"
  shows "rate_rel now (rate_record_fail ip now s) (f(ip := snd (ref_attempt now False (f ip))))"
proof -
  define c where "c = (if MAX_TRACKED < length (fail_log s) then clean_rate now s else s)"
  have c: "rate_rel now c f" using assms(1) by (simp add: c_def rate_rel_clean)
  then have i: "rate_inv now c" by (simp add: rate_rel_def)
  have nb: "map_of (block_until c) ip = None"
    using assms by (simp add: c_def rate_rel_def map_of_clean_block live_until_def)
  define l where "l = recent now (log_of c ip) @ [now]"
  have rec: "rate_record_fail ip now s =
      (if RATE_MAX \<le> length l
       then c\<lparr>block_until := dict_put ip (now + RATE_BLOCK) (block_until c), fail_log := dict_put ip [] (fail_log c)\<rparr>
       else c\<lparr>fail_log := dict_put ip l (fail_log c)\<rparr>)"
    using i by (simp add: rate_record_fail_def Let_def c_def [symmetric] log_of_def [symmetric]
        drop_old_recent l_def rate_inv_def)
  have l: "l = recent now (fst (f ip)) @ [now]" using c by (simp add: l_def rate_rel_def)
  have dead: "live_until now (snd (f ip)) = None" using c nb by (auto simp: rate_rel_def live_until_def dest: spec [of _ ip])
  have ref: "snd (ref_attempt now False (f ip)) =
      (if RATE_MAX \<le> length l then ([], Some (now + RATE_BLOCK)) else (fst (f ip) @ [now], None))"
    using dead by (auto simp: ref_attempt_def l live_until_def split: prod.split option.splits)
  have sl: "sorted l" "\<forall>t \<in> set l. t \<le> now"
    using i by (auto simp: l_def rate_inv_def sorted_append dest: set_recent)
  show ?thesis
  proof (cases "RATE_MAX \<le> length l")
    case True
    then show ?thesis using c by (simp add: rec ref rate_rel_def rate_inv_def)
  next
    case False
    then have rec': "rate_record_fail ip now s = c\<lparr>fail_log := dict_put ip l (fail_log c)\<rparr>"
      and ref': "snd (ref_attempt now False (f ip)) = (fst (f ip) @ [now], None)"
      by (simp_all add: rec ref)
    have "rate_inv now (c\<lparr>fail_log := dict_put ip l (fail_log c)\<rparr>)"
      using i sl nb unfolding rate_inv_def by (auto split: if_splits)
    moreover have "live_until now (map_of (block_until c) j) = live_until now (snd (f j))"
      "recent now (log_of c j) = recent now (fst (f j))" for j
      using c by (simp_all add: rate_rel_def)
    ultimately show ?thesis
      using dead by (simp add: rec' ref' rate_rel_def l recent_recent live_until_None)
  qed
qed

lemma attempt_ref:
  assumes "rate_rel now s f" and "attempt ip now good s = (v, t)"
  shows "ref_attempt now good (f ip) = (v, snd (ref_attempt now good (f ip)))"
    and "rate_rel now t (f(ip := snd (ref_attempt now good (f ip))))"
proof -
  obtain left c where c: "rate_check ip now s = (left, c)" by (cases "rate_check ip now s")
  note chk = rate_rel_check [OF assms(1) c]
  obtain h b where fb: "f ip = (h, b)" by (cases "f ip")
  have blk: "0 < left \<longleftrightarrow> (\<exists>u. b = Some u \<and> now < u)"
    using chk(2) fb by (auto simp: live_until_def split: option.splits if_splits)
  have left: "b = Some u \<Longrightarrow> now < u \<Longrightarrow> left = u - now" for u
    using chk(3) fb by (simp add: live_until_def)
  have same: "f(ip := f ip) = f" by simp
  show "ref_attempt now good (f ip) = (v, snd (ref_attempt now good (f ip)))"
    using assms(2) blk left by (auto simp: attempt_def c ref_attempt_def fb)
  show "rate_rel now t (f(ip := snd (ref_attempt now good (f ip))))"
  proof (cases "0 < left")
    case True
    then have "t = c" "snd (ref_attempt now good (f ip)) = f ip"
      using assms(2) blk by (auto simp: attempt_def c ref_attempt_def fb)
    then show ?thesis using chk(1) by (simp add: same)
  next
    case False
    note nb = chk(4) [OF this]
    show ?thesis
    proof (cases good)
      case True
      then have "t = rate_clear ip c" using assms(2) False by (simp add: attempt_def c)
      moreover have "snd (ref_attempt now good (f ip)) = ([], None)"
        using True blk False by (auto simp: ref_attempt_def fb)
      ultimately show ?thesis using rate_rel_clear [OF chk(1)] by simp
    next
      case bad: False
      then have "t = rate_record_fail ip now c" using assms(2) False by (simp add: attempt_def c)
      then show ?thesis using rate_rel_fail [OF chk(1) nb] bad by simp
    qed
  qed
qed

definition times :: "(string \<times> rat \<times> bool) list \<Rightarrow> rat list" where
  "times xs = map (\<lambda>(_, t, _). t) xs"

lemma attempt_seq_ref:
  "rate_rel t0 s f \<Longrightarrow> sorted (t0 # times xs) \<Longrightarrow> attempt_seq xs s = ref_seq xs f"
proof (induction xs arbitrary: t0 s f)
  case Nil
  then show ?case by simp
next
  case (Cons x xs)
  obtain ip now good where x: "x = (ip, now, good)" by (cases x) auto
  obtain v t where vt: "attempt ip now good s = (v, t)" by (cases "attempt ip now good s")
  have "t0 \<le> now" using Cons.prems(2) x by (simp add: times_def)
  with Cons.prems(1) have rel: "rate_rel now s f" by (rule rate_rel_mono)
  note ref = attempt_ref [OF rel vt]
  have "sorted (now # times xs)" using Cons.prems(2) x by (simp add: times_def)
  from Cons.IH [OF ref(2) this] show ?case using ref(1)
    by (cases "ref_attempt now good (f ip)") (simp add: x vt fun_upd_def)
qed

lemma rate_rel_empty: "rate_rel t empty_rate (\<lambda>_. ([], None))"
  by (simp add: rate_rel_def rate_inv_def empty_rate_def log_of_def live_until_def)

lemma attempt_seq_empty: "sorted (times xs) \<Longrightarrow> attempt_seq xs empty_rate = ref_seq xs (\<lambda>_. ([], None))"
proof (cases xs)
  case Nil
  then show ?thesis by simp
next
  case (Cons x ys)
  assume "sorted (times xs)"
  with Cons have "sorted (hd (times xs) # times xs)" by (simp add: times_def)
  then show ?thesis by (rule attempt_seq_ref [OF rate_rel_empty])
qed

section \<open>Properties\<close>

text \<open>
  C7: the shared tables of the limiter, with their pruning and their bulk cleaning above ten thousand
  entries, give every attempt of every address exactly the verdict of a limiter that watches that
  address alone and never forgets: the cleaning and the other addresses are unobservable.
\<close>

theorem limiter_refines_reference:
  assumes "sorted (times xs)"
  shows "attempt_seq xs empty_rate = ref_seq xs (\<lambda>_. ([], None))"
  using assms by (rule attempt_seq_empty)

theorem limiter_refines_reference_witness:
  "attempt_seq [(''a'', 0, False), (''b'', 1, True), (''a'', 2, False)] empty_rate =
     ref_seq [(''a'', 0, False), (''b'', 1, True), (''a'', 2, False)] (\<lambda>_. ([], None))"
  by (rule limiter_refines_reference) (simp add: times_def)

text \<open>
  Five failures of an address within a minute block it for exactly five minutes: whatever the
  sixth attempt brings, right password or wrong, it is refused before the block ends, with the
  remaining time, and is judged on its merits afterwards.
\<close>

theorem five_failures_block:
  assumes "sorted [t1, t2, t3, t4, t5, t]" and "t5 - t1 \<le> 60"
  shows "attempt_seq (map (\<lambda>t. (ip, t, False)) [t1, t2, t3, t4, t5] @ [(ip, t, good)]) empty_rate =
    [Denied, Denied, Denied, Denied, Denied,
     if t < t5 + 300 then Refused (t5 + 300 - t) else if good then Accepted else Denied]"
proof -
  have w: "t5 - RATE_WINDOW \<le> t1" "t5 - RATE_WINDOW \<le> t2" "t5 - RATE_WINDOW \<le> t3" "t5 - RATE_WINDOW \<le> t4"
    using assms by (auto simp: RATE_WINDOW_def)
  have l: "length (recent now h) \<le> length h" for now h by (simp add: recent_def)
  have "sorted (0 # times []) \<Longrightarrow> attempt_seq (map (\<lambda>t. (ip, t, False)) [t1, t2, t3, t4, t5] @ [(ip, t, good)]) empty_rate =
      ref_seq (map (\<lambda>t. (ip, t, False)) [t1, t2, t3, t4, t5] @ [(ip, t, good)]) (\<lambda>_. ([], None))"
    using assms(1) by (intro attempt_seq_ref [OF rate_rel_empty, of t1]) (simp add: times_def)
  moreover have "recent t5 [t1, t2, t3, t4, t5] = [t1, t2, t3, t4, t5]"
    using w by (simp add: recent_def RATE_WINDOW_def)
  moreover have "length (recent t2 [t1, t2]) < 5" "length (recent t3 [t1, t2, t3]) < 5"
    "length (recent t4 [t1, t2, t3, t4]) < 5" "length (recent t1 [t1]) < 5"
    "length (recent t [t]) < 5"
    using l [of t2 "[t1, t2]"] l [of t3 "[t1, t2, t3]"] l [of t4 "[t1, t2, t3, t4]"] l [of t1 "[t1]"]
      l [of t "[t]"] by auto
  ultimately show ?thesis
    by (simp add: ref_attempt_def RATE_MAX_def RATE_BLOCK_def times_def del: recent_append recent_now)
qed

theorem five_failures_block_witness:
  "attempt_seq (map (\<lambda>t. (''a'', t, False)) [0, 10, 20, 30, 40] @ [(''a'', 100, True)]) empty_rate =
    [Denied, Denied, Denied, Denied, Denied, Refused 240]"
  using five_failures_block [of 0 10 20 30 40 100 "''a''" True] by simp

end
