(* ===== verification/HubState.thy ===== *)
theory HubState
  imports Mesh TheftDb ConfigStore RateLimit
begin

text \<open>
  The state of one hub process (\<^verbatim>\<open>hub/app.py\<close>, \<^verbatim>\<open>hub/auth.py\<close>): its database, rate limiter,
  configuration, live connections and cached address; the parts of a request the handlers read
  and of a response they decide. Rendering of pages is outside the model: a page is its status,
  its error text and its cookie. One handler reads the clock once here.
\<close>

text \<open>The parameters: SHA-256, PBKDF2, \<open>str()\<close> of decoded floats, lists and objects.\<close>

record params =
  pH :: hash_fn
  pP :: kdf_fn
  pSH :: "json \<Rightarrow> string"

record hub =
  h_db :: db
  h_rate :: rate
  h_cfg :: config
  h_conns :: "(string \<times> nat) list"
  h_url_cache :: string
  h_url_file :: "exn + string"
  h_agent_file :: "json option"

text \<open>Header names and query parameters as looked up: header names in lower case.\<close>

record request =
  rq_ip :: string
  rq_cookie :: "string option"
  rq_method :: string
  rq_path :: string
  rq_query :: string
  rq_headers :: "(string \<times> string) list"
  rq_params :: "(string \<times> string) list"
  rq_scheme :: string
  rq_netloc :: string

definition header :: "request \<Rightarrow> string \<Rightarrow> string" where
  "header rq k = opt_str (map_of (rq_headers rq) k)"

definition query_param :: "request \<Rightarrow> string \<Rightarrow> string" where
  "query_param rq k = opt_str (map_of (rq_params rq) k)"

datatype cookie = SetSession string int | DropSession

record response =
  rs_status :: int
  rs_location :: "string option"
  rs_error :: "string option"
  rs_cookie :: "cookie option"

definition page :: "int \<Rightarrow> string option \<Rightarrow> response" where
  "page status err = \<lparr>rs_status = status, rs_location = None, rs_error = err, rs_cookie = None\<rparr>"

definition redirect :: "string \<Rightarrow> response" where
  "redirect url = \<lparr>rs_status = 303, rs_location = Some url, rs_error = None, rs_cookie = None\<rparr>"

definition on_db :: "(db, 'a) op \<Rightarrow> (hub, 'a) op" where
  "on_db m = zoom h_db (\<lambda>t s. s\<lparr>h_db := t\<rparr>) m"

lemma on_db_apply: "on_db m s = (fst (m (h_db s)), s\<lparr>h_db := snd (m (h_db s))\<rparr>)"
  by (simp add: on_db_def zoom_def split: prod.split)

lemma on_db_read [simp]: "answers_reads (h_db s) \<Longrightarrow> on_db (db_read f) s = (Inr (f (h_db s)), s)"
  by (simp add: on_db_apply)

definition wf_hub :: "hub \<Rightarrow> bool" where
  "wf_hub s \<longleftrightarrow> wf_db (h_db s)"

lemma preserves_on_db [pres]: "preserves wf_db m \<Longrightarrow> preserves wf_hub (on_db m)"
  by (simp add: preserves_def wf_hub_def on_db_apply)

lemma preserves_modify_hub: "(\<And>s. h_db (f s) = h_db s) \<Longrightarrow> preserves wf_hub (modify f)"
  by (simp add: preserves_def wf_hub_def)

text \<open>The ids of the devices whose socket this process holds.\<close>

definition online_ids :: "hub \<Rightarrow> string set" where
  "online_ids s = fst ` set (h_conns s)"

section \<open>A fresh process\<close>

text \<open>The state before any request, on a database: nothing configured, nobody connected.\<close>

definition fresh_hub :: "db \<Rightarrow> hub" where
  "fresh_hub d = \<lparr>h_db = d, h_rate = empty_rate,
     h_cfg = \<lparr>cf_env = Map.empty, cf_file = [], cf_disk = None\<rparr>, h_conns = [], h_url_cache = [],
     h_url_file = Inl (FileNotFoundError []), h_agent_file = None\<rparr>"

definition plain_request :: request where
  "plain_request = \<lparr>rq_ip = ''10.0.0.1'', rq_cookie = None, rq_method = ''GET'', rq_path = ''/'',
     rq_query = [], rq_headers = [], rq_params = [], rq_scheme = ''http'', rq_netloc = ''hub:8000''\<rparr>"

definition plain_params :: params where
  "plain_params = \<lparr>pH = (\<lambda>bs. bs), pP = (\<lambda>pw salt n. pw), pSH = (\<lambda>_. [])\<rparr>"

lemma fresh_hub_simps [simp]:
  "h_db (fresh_hub d) = d" "h_rate (fresh_hub d) = empty_rate" "h_conns (fresh_hub d) = []"
  by (simp_all add: fresh_hub_def)

end
