(* ===== verification/HubAuth.thy ===== *)
theory HubAuth
  imports HubState
begin

text \<open>
  Authentication (\<^verbatim>\<open>hub/auth.py\<close>) and the account handlers of \<^verbatim>\<open>hub/app.py\<close>: login with the
  rate limit, logout, the guards of the routes, registration by form and by JSON. The two random
  tokens of a handler are its arguments. \<open>other\<close> is what concurrent requests do to the database
  between two statements of the same registration.
\<close>

section \<open>Sessions of a request\<close>

definition live_session_ttl :: "params \<Rightarrow> hub \<Rightarrow> int" where
  "live_session_ttl X s = session_ttl (Inr (cfg_session_ttl (pSH X) (h_cfg s)))"

definition login :: "params \<Rightarrow> int \<Rightarrow> string \<Rightarrow> int \<Rightarrow> response \<Rightarrow> (hub, response) op" where
  "login X now token uid resp =
     bindE (asks (live_session_ttl X)) (\<lambda>ttl.
     bindE (on_db (create_session (pH X) uid token now ttl)) (\<lambda>tok.
       ret (resp\<lparr>rs_cookie := Some (SetSession tok ttl)\<rparr>)))"

definition logout :: "params \<Rightarrow> string option \<Rightarrow> (hub, response) op" where
  "logout X token =
     thenE (if opt_str token \<noteq> [] then on_db (delete_session (pH X) (opt_str token)) else ret ())
       (ret ((redirect ''/login'')\<lparr>rs_cookie := Some DropSession\<rparr>))"

definition current_user_optional :: "params \<Rightarrow> int \<Rightarrow> request \<Rightarrow> (db, user_info option) op" where
  "current_user_optional X now rq =
     (if opt_str (rq_cookie rq) = [] then ret None
      else bindE (lookup_session (pH X) (opt_str (rq_cookie rq)) now) (\<lambda>uid.
        case uid of None \<Rightarrow> ret None | Some u \<Rightarrow> get_user_by_id u))"

definition require_user :: "params \<Rightarrow> int \<Rightarrow> request \<Rightarrow> (db, user_info) op" where
  "require_user X now rq = bindE (current_user_optional X now rq) (\<lambda>user.
     case user of None \<Rightarrow> raise (HTTPException 303 ''/login'') | Some u \<Rightarrow> ret u)"

definition require_admin :: "params \<Rightarrow> int \<Rightarrow> request \<Rightarrow> (db, user_info) op" where
  "require_admin X now rq = bindE (require_user X now rq) (\<lambda>u.
     if ui_is_admin u = 0 then raise (HTTPException 403 ''Admin only'') else ret u)"

section \<open>Login\<close>

definition on_rate :: "(rate \<Rightarrow> 'a \<times> rate) \<Rightarrow> (hub, 'a) op" where
  "on_rate f s = (case f (h_rate s) of (a, r) \<Rightarrow> (Inr a, s\<lparr>h_rate := r\<rparr>))"

definition login_get :: "params \<Rightarrow> int \<Rightarrow> request \<Rightarrow> string \<Rightarrow> (hub, response) op" where
  "login_get X now rq next_url = bindE (on_db (current_user_optional X now rq)) (\<lambda>u.
     ret (if u \<noteq> None then redirect (or_str next_url ''/'') else page 200 None))"

text \<open>The limiter is asked by the address; \<open>clk\<close> is the monotonic clock.\<close>

definition login_post ::
  "params \<Rightarrow> int \<Rightarrow> rat \<Rightarrow> string \<Rightarrow> request \<Rightarrow> string \<Rightarrow> string \<Rightarrow> string \<Rightarrow> (hub, response) op" where
  "login_post X now clk token rq username password next_url =
     bindE (on_rate (rate_check (rq_ip rq) clk)) (\<lambda>retry.
     if 0 < retry then
       ret (page 429 (Some (''Too many failed attempts; retry in '' @ int_str \<lfloor>retry\<rfloor> @ ''s'')))
     else
       bindE (on_db (get_user_by_username (strip username))) (\<lambda>user.
       bindE (case user of None \<Rightarrow> ret False
              | Some u \<Rightarrow> liftE (verify_password (pP X) password (u_password_hash u))) (\<lambda>good.
       if \<not> good then
         thenE (on_rate (\<lambda>r. ((), rate_record_fail (rq_ip rq) clk r)))
           (ret (page 401 (Some ''Invalid credentials'')))
       else
         thenE (on_rate (\<lambda>r. ((), rate_clear (rq_ip rq) r)))
           (case user of None \<Rightarrow> raise KeyError
            | Some u \<Rightarrow> login X now token (u_id u) (redirect (or_str next_url ''/''))))))"

section \<open>Registration\<close>

definition valid_username :: "string \<Rightarrow> bool" where
  "valid_username u \<longleftrightarrow> isalnum (remove_char (CHR ''-'') (remove_char (CHR ''_'') u))"

definition registration_rule :: "params \<Rightarrow> bool \<Rightarrow> hub \<Rightarrow> string" where
  "registration_rule X bootstrap s =
     (if bootstrap then ''invite'' else registration_mode (pSH X) (h_cfg s))"

definition register_get :: "params \<Rightarrow> int \<Rightarrow> request \<Rightarrow> (hub, response) op" where
  "register_get X now rq = bindE (on_db (current_user_optional X now rq)) (\<lambda>u.
     if u \<noteq> None then ret (redirect ''/'')
     else bindE (on_db user_count) (\<lambda>n.
       if n = 0 then ret (page 200 None)
       else bindE (asks (\<lambda>s. registration_mode (pSH X) (h_cfg s))) (\<lambda>mode.
         ret (if mode = ''closed'' then page 403 None else page 200 None))))"

text \<open>What concurrent requests do between two statements.\<close>

definition meanwhile :: "(db \<Rightarrow> db) \<Rightarrow> (hub, unit) op" where
  "meanwhile other = modify (\<lambda>s. s\<lparr>h_db := other (h_db s)\<rparr>)"

text \<open>The account itself: by bootstrap, freely, or against an invite. \<open>None\<close> is a failed check,
  with its message.\<close>

definition new_account ::
  "params \<Rightarrow> int \<Rightarrow> byte list \<Rightarrow> (db \<Rightarrow> db) \<Rightarrow> bool \<Rightarrow> string \<Rightarrow> string \<Rightarrow> string \<Rightarrow> string \<Rightarrow>
   (hub, string + int) op" where
  "new_account X now salt other bootstrap mode invite username password =
     (if bootstrap then
        bindE (on_db (create_user (pP X) username password True salt now)) (\<lambda>uid. ret (Inr uid))
      else if mode = ''open'' then
        bindE (on_db (create_user (pP X) username password False salt now)) (\<lambda>uid. ret (Inr uid))
      else bindE (on_db (invite_is_valid invite)) (\<lambda>valid.
        if \<not> valid then ret (Inl ''Invalid or already-used invite code'')
        else thenE (meanwhile other)
          (bindE (on_db (create_user (pP X) username password False salt now)) (\<lambda>uid.
           bindE (on_db (consume_invite invite uid now)) (\<lambda>used.
             if used then ret (Inr uid) else ret (Inl ''Invite was used by another registration'')))))) "

definition register_post ::
  "params \<Rightarrow> int \<Rightarrow> byte list \<Rightarrow> string \<Rightarrow> (db \<Rightarrow> db) \<Rightarrow> string \<Rightarrow> string \<Rightarrow> string \<Rightarrow> string \<Rightarrow>
   (hub, response) op" where
  "register_post X now salt token other invite username password password2 =
     bindE (on_db user_count) (\<lambda>n.
     let bootstrap = (n = 0); invite = strip invite; username = strip username in
     bindE (asks (registration_rule X bootstrap)) (\<lambda>mode.
     if mode = ''closed'' then ret (page 403 None)
     else if username = [] \<or> password = [] then ret (page 400 (Some ''All fields required''))
     else if password \<noteq> password2 then ret (page 400 (Some ''Passwords do not match''))
     else if length password < 8 then ret (page 400 (Some ''Password must be at least 8 characters''))
     else if \<not> valid_username username
       then ret (page 400 (Some ''Username may only contain letters, numbers, _ and -''))
     else bindE (on_db (get_user_by_username username)) (\<lambda>taken.
       if taken \<noteq> None then ret (page 400 (Some ''Username already taken''))
       else bindE (new_account X now salt other bootstrap mode invite username password) (\<lambda>r.
         case r of Inl msg \<Rightarrow> ret (page 400 (Some msg))
         | Inr uid \<Rightarrow> login X now token uid (redirect ''/'')))))"

definition api_registration_mode :: "params \<Rightarrow> (hub, string \<times> bool \<times> nat) op" where
  "api_registration_mode X = bindE (on_db user_count) (\<lambda>n.
     bindE (asks (registration_rule X (n = 0))) (\<lambda>mode. ret (mode, n = 0, n)))"

text \<open>\<open>body\<close> is the decoded JSON body, \<open>None\<close> when it does not parse.\<close>

definition api_session_register ::
  "params \<Rightarrow> int \<Rightarrow> byte list \<Rightarrow> string \<Rightarrow> (db \<Rightarrow> db) \<Rightarrow> json option \<Rightarrow> (hub, response) op" where
  "api_session_register X now salt token other body =
     (case body of None \<Rightarrow> raise (HTTPException 400 ''Invalid JSON'')
      | Some b \<Rightarrow>
        bindE (liftE (jget_or b ''invite'' (JStr []))) (\<lambda>inv.
        bindE (liftE (jget_or b ''username'' (JStr []))) (\<lambda>user.
        bindE (liftE (jget_or b ''password'' (JStr []))) (\<lambda>pw.
        let invite = strip (py_str (pSH X) inv); username = strip (py_str (pSH X) user);
            password = py_str (pSH X) pw in
        bindE (on_db user_count) (\<lambda>n. let bootstrap = (n = 0) in
        bindE (asks (registration_rule X bootstrap)) (\<lambda>mode.
        if mode = ''closed'' then raise (HTTPException 403 ''Registration is closed on this hub.'')
        else if username = [] \<or> password = [] then raise (HTTPException 400 ''All fields required'')
        else if length password < 8
          then raise (HTTPException 400 ''Password must be at least 8 characters'')
        else if \<not> valid_username username
          then raise (HTTPException 400 ''Username may only contain letters, numbers, _ and -'')
        else bindE (on_db (get_user_by_username username)) (\<lambda>taken.
          if taken \<noteq> None then raise (HTTPException 400 ''Username already taken'')
          else bindE (new_account X now salt other bootstrap mode invite username password) (\<lambda>r.
            case r of Inl msg \<Rightarrow> raise (HTTPException 400 msg)
            | Inr uid \<Rightarrow> login X now token uid (page 200 None)))))))))"

section \<open>Facts\<close>

lemma current_user_wf [pres]: "preserves wf_db (current_user_optional X now rq)"
  unfolding current_user_optional_def by (intro pres)

lemma require_user_wf [pres]: "preserves wf_db (require_user X now rq)"
  unfolding require_user_def by (intro pres)

lemma on_rate_wf [pres]: "preserves wf_hub (on_rate f)"
  by (auto simp: preserves_def on_rate_def wf_hub_def split: prod.split)

lemma login_wf [pres]: "preserves wf_hub (login X now tok uid resp)"
  unfolding login_def by (intro pres)

lemma logout_wf [pres]: "preserves wf_hub (logout X tok)"
  unfolding logout_def by (intro pres)

lemma login_post_wf [pres]: "preserves wf_hub (login_post X now clk tok rq u pw nxt)"
  unfolding login_post_def by (intro pres)

lemma new_account_wf [pres]:
  assumes "\<And>t. wf_db t \<Longrightarrow> wf_db (other t)"
  shows "preserves wf_hub (new_account X now salt other b m i u pw)"
proof -
  have "preserves wf_hub (meanwhile other)"
    using assms by (auto simp: preserves_def wf_hub_def meanwhile_def)
  then show ?thesis unfolding new_account_def by (intro pres)
qed

lemma register_post_wf [pres]:
  assumes "\<And>t. wf_db t \<Longrightarrow> wf_db (other t)"
  shows "preserves wf_hub (register_post X now salt tok other i u pw pw2)"
  using assms unfolding register_post_def Let_def by (intro pres)

lemma current_user_state [simp]: "snd (current_user_optional X now rq s) = s"
  by (auto simp: current_user_optional_def bindE_def lookup_session_def get_user_by_id_def
      split: option.splits sum.splits prod.splits dest: arg_cong [where f = snd])

text \<open>Who a request is: the user whose unexpired session its cookie names.\<close>

lemma current_user_cookie:
  assumes "answers_reads s" and "rq_cookie rq = Some tok" and "tok \<noteq> []"
  shows "current_user_optional X now rq s =
    (Inr (case sess_resolve (pH X) tok now s of None \<Rightarrow> None
          | Some u \<Rightarrow> map_option user_info_of (fetchone (select_where (\<lambda>r. u_id r = u) (users s)))), s)"
  using assms
  by (cases "fetchone (select_where (live_session (pH X) tok now) (sessions s))")
    (simp_all add: current_user_optional_def bindE_def lookup_session_def get_user_by_id_def opt_str_def
      sess_resolve_def del: fetchone_None)

lemma require_user_iff:
  "require_user X now rq s = (Inr u, t) \<longleftrightarrow> current_user_optional X now rq s = (Inr (Some u), t)"
  by (auto simp: require_user_def bindE_def split: prod.splits sum.splits option.splits)

text \<open>A successful login: the limiter lets it through, the password is right, the cookie is new.\<close>

lemma login_answers:
  assumes "answers (h_db s)" and "sess_fresh (pH X) tok (h_db s)" and "fk_user uid (h_db s)"
  shows "login X now tok uid resp s =
    (Inr (resp\<lparr>rs_cookie := Some (SetSession tok (live_session_ttl X s))\<rparr>),
     s\<lparr>h_db := sess_issue (pH X) tok uid now (live_session_ttl X s) (h_db s)\<rparr>)"
  using assms
  by (simp add: login_def bindE_def on_db_apply create_session_ok sess_issue_def sess_fresh_def)

lemma session_ttl_min: "300 \<le> live_session_ttl X s"
  by (simp add: live_session_ttl_def session_ttl_def cfg_session_ttl_def)

definition credentials_ok :: "params \<Rightarrow> string \<Rightarrow> string \<Rightarrow> db \<Rightarrow> user_row option" where
  "credentials_ok X username password s =
     (case fetchone (select_where (\<lambda>r. u_username r = strip username) (users s)) of
        None \<Rightarrow> None
      | Some u \<Rightarrow> if verify_password (pP X) password (u_password_hash u) = Inr True then Some u else None)"

definition rate_allows :: "request \<Rightarrow> rat \<Rightarrow> hub \<Rightarrow> bool" where
  "rate_allows rq clk s \<longleftrightarrow> \<not> 0 < fst (rate_check (rq_ip rq) clk (h_rate s))"

lemma login_post_ok:
  assumes "answers (h_db s)" and "sess_fresh (pH X) tok (h_db s)"
    and "rate_allows rq clk s" and "credentials_ok X username password (h_db s) = Some u"
  shows "\<exists>t ttl. 300 \<le> ttl \<and> login_post X now clk tok rq username password nxt s =
     (Inr ((redirect (or_str nxt ''/''))\<lparr>rs_cookie := Some (SetSession tok ttl)\<rparr>), t) \<and>
     h_db t = sess_issue (pH X) tok (u_id u) now ttl (h_db s) \<and> fk_user (u_id u) (h_db s)"
proof -
  obtain left r where r: "rate_check (rq_ip rq) clk (h_rate s) = (left, r)"
    by (cases "rate_check (rq_ip rq) clk (h_rate s)")
  have left: "\<not> 0 < left" using assms(3) r by (simp add: rate_allows_def)
  from assms(4) have u: "fetchone (select_where (\<lambda>r. u_username r = strip username) (users (h_db s))) = Some u"
    and v: "verify_password (pP X) password (u_password_hash u) = Inr True"
    by (auto simp: credentials_ok_def split: option.splits if_splits)
  have fk: "fk_user (u_id u) (h_db s)"
    using fetchone_Some [OF u] by (auto simp: fk_user_iff)
  let ?s = "s\<lparr>h_rate := rate_clear (rq_ip rq) r\<rparr>"
  have "login_post X now clk tok rq username password nxt s =
      login X now tok (u_id u) (redirect (or_str nxt ''/'')) ?s"
    using assms(1) r left u v
    by (simp add: login_post_def bindE_def thenE_def on_rate_def get_user_by_username_def)
  moreover have "live_session_ttl X ?s = live_session_ttl X s" by (simp add: live_session_ttl_def)
  ultimately show ?thesis
    using login_answers [of ?s X tok "u_id u" now "redirect (or_str nxt ''/'')"] assms fk
      session_ttl_min [of X s] by auto
qed

text \<open>Without the right password no cookie leaves the handler and the database stays as it is.\<close>

lemma login_post_refused:
  assumes "answers_reads (h_db s)" and "credentials_ok X username password (h_db s) = None"
  shows "h_db (snd (login_post X now clk tok rq username password nxt s)) = h_db s"
    and "login_post X now clk tok rq username password nxt s = (Inr resp, t) \<Longrightarrow>
      rs_cookie resp = None \<and> rs_status resp \<in> {401, 429}"
proof -
  obtain left r where r: "rate_check (rq_ip rq) clk (h_rate s) = (left, r)"
    by (cases "rate_check (rq_ip rq) clk (h_rate s)")
  show "h_db (snd (login_post X now clk tok rq username password nxt s)) = h_db s"
    and "login_post X now clk tok rq username password nxt s = (Inr resp, t) \<Longrightarrow>
      rs_cookie resp = None \<and> rs_status resp \<in> {401, 429}"
    using assms r
    by (auto simp: login_post_def bindE_def thenE_def on_rate_def get_user_by_username_def page_def
        credentials_ok_def simp del: fetchone_None split: option.splits sum.splits if_splits)
qed

section \<open>Registration against the rules\<close>

text \<open>Who may be an administrator: only who was one before.\<close>

definition no_new_admin :: "db \<Rightarrow> db \<Rightarrow> bool" where
  "no_new_admin s t \<longleftrightarrow> (\<forall>r \<in> set (users t). u_is_admin r \<noteq> 0 \<longrightarrow> r \<in> set (users s))"

lemma no_new_admin_refl [simp]: "no_new_admin s s"
  by (simp add: no_new_admin_def)

lemma no_new_admin_same: "users t = users s \<Longrightarrow> no_new_admin s t"
  by (simp add: no_new_admin_def)

definition keeps_admins :: "(hub, 'a) op \<Rightarrow> bool" where
  "keeps_admins m \<longleftrightarrow> (\<forall>s0. preserves (\<lambda>s. no_new_admin s0 (h_db s)) m)"

lemma keeps_admins_bindE: "keeps_admins m \<Longrightarrow> (\<And>a. keeps_admins (f a)) \<Longrightarrow> keeps_admins (bindE m f)"
  by (auto simp: keeps_admins_def intro: preserves_bindE)

lemma keeps_admins_users:
  "(\<And>s. users (h_db (snd (m s))) = users (h_db s)) \<Longrightarrow> keeps_admins m"
  by (auto simp: keeps_admins_def preserves_def no_new_admin_def)

lemma keeps_admins_intros:
  "keeps_admins (ret a)" "keeps_admins (raise e)" "keeps_admins (asks g)" "keeps_admins (liftE r)"
  "keeps_admins (on_db (db_read f))" "keeps_admins (on_db (create_session H uid tok now ttl))"
  "keeps_admins (on_db (consume_invite i uid now))" "keeps_admins (on_db user_count)"
  "keeps_admins (on_db (invite_is_valid i))" "keeps_admins (on_db (get_user_by_username u))"
  by (rule keeps_admins_users, simp add: on_db_apply create_session_def consume_invite_def
      user_count_def invite_is_valid_def get_user_by_username_def db_write_def constraint_def
      split: option.split)+

lemma keeps_admins_create: "keeps_admins (on_db (create_user P u pw False salt now))"
  by (auto simp: keeps_admins_def preserves_def on_db_apply create_user_def db_write_def constraint_def
      Let_def no_new_admin_def split: option.splits)

lemma keeps_admins_login: "keeps_admins (login X now tok uid resp)"
  unfolding login_def by (intro keeps_admins_bindE keeps_admins_intros)

lemma keeps_admins_meanwhile:
  "(\<And>t. users (other t) = users t) \<Longrightarrow> keeps_admins (meanwhile other)"
  by (rule keeps_admins_users) (simp add: meanwhile_def)

lemma keeps_admins_if: "(b \<Longrightarrow> keeps_admins m) \<Longrightarrow> (\<not> b \<Longrightarrow> keeps_admins n) \<Longrightarrow> keeps_admins (if b then m else n)"
  by simp

lemma keeps_admins_sum:
  "(\<And>a. keeps_admins (f a)) \<Longrightarrow> (\<And>b. keeps_admins (g b)) \<Longrightarrow>
   keeps_admins (case x of Inl a \<Rightarrow> f a | Inr b \<Rightarrow> g b)"
  by (cases x) simp_all

lemma keeps_admins_new_account:
  assumes "\<And>t. users (other t) = users t"
  shows "keeps_admins (new_account X now salt other False mode invite username password)"
  unfolding new_account_def thenE_def
  by (simp, intro conjI impI keeps_admins_bindE keeps_admins_if keeps_admins_intros keeps_admins_create
      keeps_admins_meanwhile [OF assms])

definition form_ok :: "string \<Rightarrow> string \<Rightarrow> string \<Rightarrow> bool" where
  "form_ok username password password2 \<longleftrightarrow> username \<noteq> [] \<and> password = password2 \<and>
     8 \<le> length password \<and> valid_username username"

text \<open>Past its checks the form handler is the creation of the account and the login.\<close>

lemma register_post_core:
  assumes "answers_reads (h_db s)" and "form_ok (strip username) password password2"
    and "\<forall>r \<in> set (users (h_db s)). u_username r \<noteq> strip username"
    and "mode = registration_rule X (users (h_db s) = []) s" and "mode \<noteq> ''closed''"
  shows "register_post X now salt tok other invite username password password2 s =
    bindE (new_account X now salt other (users (h_db s) = []) mode (strip invite) (strip username) password)
      (\<lambda>r. case r of Inl msg \<Rightarrow> ret (page 400 (Some msg)) | Inr uid \<Rightarrow> login X now tok uid (redirect ''/'')) s"
proof -
  have pw: "password \<noteq> []" using assms(2) by (auto simp: form_ok_def)
  have "fetchone (select_where (\<lambda>r. u_username r = strip username) (users (h_db s))) = None"
    using assms(3) by simp
  then have taken: "on_db (get_user_by_username (strip username)) s = (Inr None, s)"
    using assms(1) by (simp add: get_user_by_username_def del: fetchone_None)
  have cnt: "on_db user_count s = (Inr (length (users (h_db s))), s)"
    using assms(1) by (simp add: user_count_def)
  show ?thesis
    using assms(2,4,5) pw
    by (auto simp: register_post_def bindE_def [of "on_db user_count"] cnt Let_def form_ok_def
        bindE_def [of "on_db (get_user_by_username (strip username))"] taken)
qed

lemma register_post_rejected:
  assumes "answers_reads (h_db s)"
    and "\<not> form_ok (strip username) password password2 \<or>
      (\<exists>r \<in> set (users (h_db s)). u_username r = strip username) \<or>
      registration_rule X (users (h_db s) = []) s = ''closed''"
  shows "\<exists>status err. status \<in> {400, 403} \<and>
    register_post X now salt tok other invite username password password2 s = (Inr (page status err), s)"
proof -
  have cnt: "on_db user_count s = (Inr (length (users (h_db s))), s)"
    using assms(1) by (simp add: user_count_def)
  have taken: "on_db (get_user_by_username (strip username)) s =
      (Inr (fetchone (select_where (\<lambda>r. u_username r = strip username) (users (h_db s)))), s)"
    using assms(1) by (simp add: get_user_by_username_def)
  show ?thesis
    using assms(2)
    by (auto simp: register_post_def bindE_def [of "on_db user_count"] cnt Let_def form_ok_def
        bindE_def [of "on_db (get_user_by_username (strip username))"] taken)
qed

text \<open>With nobody interfering the invite that was valid is consumed.\<close>

lemma invite_is_valid_rowcount:
  "answers_reads s \<Longrightarrow> invite_is_valid code s = (Inr (0 < rowcount (open_invite code) (invites s)), s)"
  by (auto simp: invite_is_valid_def rowcount_pos)

lemma new_account_invite:
  assumes "answers (h_db s)" and "answers (other (h_db s))" and "mode \<noteq> ''open''"
    and "0 < rowcount (open_invite code) (invites (h_db s))"
    and "\<not> has_key u_username username (users (other (h_db s)))"
  shows "\<exists>t. new_account X now salt other False mode code username password s =
      (Inr (if 0 < rowcount (open_invite code) (invites (other (h_db s)))
            then Inr (user_seq (other (h_db s)) + 1)
            else Inl ''Invite was used by another registration''), t) \<and>
    users (h_db t) = users (other (h_db s)) @ [\<lparr>u_id = user_seq (other (h_db s)) + 1, u_username = username,
         u_password_hash = hash_password (pP X) password salt, u_is_admin = 0, u_created_at = now\<rparr>]"
proof -
  let ?o = "other (h_db s)"
  let ?t = "?o\<lparr>users := users ?o @ [\<lparr>u_id = user_seq ?o + 1, u_username = username,
         u_password_hash = hash_password (pP X) password salt, u_is_admin = 0, u_created_at = now\<rparr>],
         user_seq := user_seq ?o + 1\<rparr>"
  have "on_db (create_user (pP X) username password False salt now) (s\<lparr>h_db := ?o\<rparr>) =
      (Inr (user_seq ?o + 1), s\<lparr>h_db := ?t\<rparr>)"
    using assms by (simp add: on_db_apply create_user_ok)
  moreover have "fk_user (user_seq ?o + 1) ?t" by (simp add: fk_user_iff)
  then have "on_db (consume_invite code (user_seq ?o + 1) now) (s\<lparr>h_db := ?t\<rparr>) =
      (Inr (0 < rowcount (open_invite code) (invites ?o)), s\<lparr>h_db := ?t\<lparr>invites :=
        update_where (open_invite code) (\<lambda>r. r\<lparr>i_used_by := Some (user_seq ?o + 1), i_used_at := Some now\<rparr>)
          (invites ?o)\<rparr>\<rparr>)"
    using assms by (simp add: on_db_apply consume_invite_def constraint_def)
  moreover have "on_db (invite_is_valid code) s = (Inr True, s)"
    using assms by (simp add: on_db_apply invite_is_valid_rowcount)
  ultimately show ?thesis
    using assms(3) by (simp add: new_account_def bindE_def thenE_def meanwhile_def)
qed

section \<open>Properties\<close>

text \<open>
  A login with the right password gives a session of that user. When the limiter lets the
  attempt through and the password matches the user's stored hash, the answer is the redirect with a
  new cookie, and that cookie's token is the user's, and nobody else's, until its lifetime of at least
  five minutes has passed.
\<close>

theorem login_gives_session:
  assumes "answers (h_db s)" and "sess_fresh (pH X) tok (h_db s)"
    and "rate_allows rq clk s" and "credentials_ok X username password (h_db s) = Some u"
  shows "\<exists>t ttl. login_post X now clk tok rq username password nxt s =
      (Inr ((redirect (or_str nxt ''/''))\<lparr>rs_cookie := Some (SetSession tok ttl)\<rparr>), t) \<and> 300 \<le> ttl \<and>
    (\<forall>later. sess_resolve (pH X) tok later (h_db t) = (if later < now + ttl then Some (u_id u) else None))"
proof -
  obtain t ttl where "300 \<le> ttl"
    and p: "login_post X now clk tok rq username password nxt s =
      (Inr ((redirect (or_str nxt ''/''))\<lparr>rs_cookie := Some (SetSession tok ttl)\<rparr>), t)"
    and t: "h_db t = sess_issue (pH X) tok (u_id u) now ttl (h_db s)" and fk: "fk_user (u_id u) (h_db s)"
    using login_post_ok [OF assms, of now nxt] by auto
  moreover have "sess_resolve (pH X) tok later (h_db t) = (if later < now + ttl then Some (u_id u) else None)" for later
    unfolding t by (rule sess.resolve_issue [OF assms(1,2) fk])
  ultimately show ?thesis by blast
qed

definition login_demo :: hub where
  "login_demo = fresh_hub ((empty_db SqliteBackend)\<lparr>users := [\<lparr>u_id = 1, u_username = ''ann'',
     u_password_hash = hash_password (pP plain_params) ''secret99'' [], u_is_admin = 1, u_created_at = 0\<rparr>],
     user_seq := 1\<rparr>)"

lemma login_demo_ok:
  "answers (h_db login_demo)" "sess_fresh H tok (h_db login_demo)" "rate_allows rq clk login_demo"
  by (simp_all add: login_demo_def sess_fresh_def empty_db_def empty_tables_def tables.extend_def answers_def
      rate_allows_def rate_check_def empty_rate_def)

lemma login_demo_credentials:
  "map_option u_id (credentials_ok plain_params ''ann'' ''secret99'' (h_db login_demo)) = Some 1"
  "credentials_ok plain_params ''ann'' ''wrong'' (h_db login_demo) = None"
  by (simp_all add: credentials_ok_def login_demo_def select_where_def strip_def rstrip_by_def
      lstrip_by_def is_space_def verify_hash_password plain_params_def encode_inject)

theorem login_gives_session_witness:
  "\<exists>t. sess_resolve (pH plain_params) ''tok'' 350 (h_db t) = Some 1 \<and>
    (\<exists>r. login_post plain_params 100 0 ''tok'' plain_request ''ann'' ''secret99'' [] login_demo = (Inr r, t))"
proof -
  obtain u where u: "credentials_ok plain_params ''ann'' ''secret99'' (h_db login_demo) = Some u" "u_id u = 1"
    using login_demo_credentials(1) by auto
  from login_gives_session [where s = login_demo and X = plain_params and tok = "''tok''" and
      rq = plain_request and clk = 0 and now = 100 and nxt = "[]", OF login_demo_ok u(1)]
  obtain t ttl where t: "login_post plain_params 100 0 ''tok'' plain_request ''ann'' ''secret99'' [] login_demo =
      (Inr ((redirect (or_str [] ''/''))\<lparr>rs_cookie := Some (SetSession ''tok'' ttl)\<rparr>), t)"
    "300 \<le> ttl" "\<forall>later. sess_resolve (pH plain_params) ''tok'' later (h_db t) =
       (if later < 100 + ttl then Some (u_id u) else None)" by blast
  then have "sess_resolve (pH plain_params) ''tok'' 350 (h_db t) = Some 1" using u(2) by simp
  with t(1) show ?thesis by blast
qed

text \<open>
  C19: without the right password there is no session. When the user does not exist or the password
  does not match, the answer carries no cookie and has status 401 or 429, and the database is as
  before.
\<close>

theorem login_refused:
  assumes "answers_reads (h_db s)" and "credentials_ok X username password (h_db s) = None"
  shows "h_db (snd (login_post X now clk tok rq username password nxt s)) = h_db s \<and>
    (\<forall>resp t. login_post X now clk tok rq username password nxt s = (Inr resp, t) \<longrightarrow>
      rs_cookie resp = None \<and> rs_status resp \<in> {401, 429})"
  using login_post_refused [OF assms] by blast

theorem login_refused_witness:
  "h_db (snd (login_post plain_params 100 0 ''tok'' plain_request ''ann'' ''wrong'' [] login_demo)) = h_db login_demo"
  using login_refused [OF answers_reads_if [OF login_demo_ok(1)] login_demo_credentials(2)] by blast



text \<open>
  The first account is the administrator. On a hub without users a registration with valid fields
  creates exactly one user, an administrator, and logs it in, whatever the registration mode and the
  invite say.
\<close>

theorem first_account_is_admin:
  assumes "answers (h_db s)" and "users (h_db s) = []" and "form_ok (strip u) pw pw"
    and "sess_fresh (pH X) tok (h_db s)"
  shows "\<exists>t ttl row. register_post X now salt tok other invite u pw pw s =
      (Inr ((redirect ''/'')\<lparr>rs_cookie := Some (SetSession tok ttl)\<rparr>), t) \<and>
    users (h_db t) = [row] \<and> u_is_admin row = 1 \<and> u_username row = strip u \<and>
    sess_resolve (pH X) tok now (h_db t) = Some (u_id row)"
proof -
  let ?row = "\<lparr>u_id = user_seq (h_db s) + 1, u_username = strip u,
         u_password_hash = hash_password (pP X) pw salt, u_is_admin = 1, u_created_at = now\<rparr>"
  let ?d = "h_db s\<lparr>users := [?row], user_seq := user_seq (h_db s) + 1\<rparr>"
  have mode: "registration_rule X (users (h_db s) = []) s = ''invite''"
    using assms(2) by (simp add: registration_rule_def)
  have cr: "on_db (create_user (pP X) (strip u) pw True salt now) s = (Inr (user_seq (h_db s) + 1), s\<lparr>h_db := ?d\<rparr>)"
    using assms(1,2) by (simp add: on_db_apply create_user_ok)
  have fk: "fk_user (user_seq (h_db s) + 1) ?d" by (simp add: fk_user_iff)
  have fr: "sess_fresh (pH X) tok ?d" using assms(4) by (simp add: sess_fresh_def)
  have an: "answers ?d" using assms(1) by simp
  let ?ttl = "live_session_ttl X (s\<lparr>h_db := ?d\<rparr>)"
  have lg: "login X now tok (user_seq (h_db s) + 1) (redirect ''/'') (s\<lparr>h_db := ?d\<rparr>) =
      (Inr ((redirect ''/'')\<lparr>rs_cookie := Some (SetSession tok ?ttl)\<rparr>),
       s\<lparr>h_db := sess_issue (pH X) tok (user_seq (h_db s) + 1) now ?ttl ?d\<rparr>)"
    using login_answers [of "s\<lparr>h_db := ?d\<rparr>" X tok "user_seq (h_db s) + 1" now "redirect ''/''"] an fr fk by simp
  have "register_post X now salt tok other invite u pw pw s =
      (Inr ((redirect ''/'')\<lparr>rs_cookie := Some (SetSession tok ?ttl)\<rparr>),
       s\<lparr>h_db := sess_issue (pH X) tok (user_seq (h_db s) + 1) now ?ttl ?d\<rparr>)"
    using register_post_core [OF answers_reads_if [OF assms(1)] assms(3) _ mode [symmetric]] assms(2)
    by (simp add: new_account_def bindE_def cr lg)
  moreover have "sess_resolve (pH X) tok now (sess_issue (pH X) tok (user_seq (h_db s) + 1) now ?ttl ?d) =
      Some (user_seq (h_db s) + 1)"
    using sess.resolve_issue [OF an fr fk, of now now ?ttl] session_ttl_min [of X "s\<lparr>h_db := ?d\<rparr>"] by simp
  moreover have "users (sess_issue (pH X) tok (user_seq (h_db s) + 1) now ?ttl ?d) = [?row]"
    using an fr fk by (simp add: sess_issue_def create_session_ok sess_fresh_def)
  ultimately show ?thesis
    by (intro exI [of _ "s\<lparr>h_db := sess_issue (pH X) tok (user_seq (h_db s) + 1) now ?ttl ?d\<rparr>"]
        exI [of _ ?ttl] exI [of _ ?row]) simp
qed

theorem first_account_is_admin_witness:
  "\<exists>t row. users (h_db t) = [row] \<and> u_is_admin row = 1 \<and>
    (\<exists>r. register_post plain_params 5 [] ''tok'' (\<lambda>t. t) [] ''ann'' ''12345678'' ''12345678''
      (fresh_hub (empty_db SqliteBackend)) = (Inr r, t))"
proof -
  have d: "users (empty_db SqliteBackend) = []" "sessions (empty_db SqliteBackend) = []"
    by (simp_all add: empty_db_def empty_tables_def tables.extend_def)
  have f: "form_ok (strip ''ann'') ''12345678'' ''12345678''"
    by (simp add: form_ok_def valid_username_def isalnum_def is_alnum_char_def remove_char_def strip_def
        rstrip_by_def lstrip_by_def is_space_def)
  show ?thesis
    using first_account_is_admin [of "fresh_hub (empty_db SqliteBackend)" "''ann''" "''12345678''"
        plain_params "''tok''" 5 "[]" "\<lambda>t. t" "[]"] d f
    by (auto simp: sess_fresh_def)
qed

text \<open>
  An invite lost to a race leaves an account behind. When the invite a registration has checked
  is used by another request before it is consumed, the registration answers with the error, but the
  user it has created stays: the name is taken, its password works, and no invite was spent on it.
\<close>

theorem lost_race_keeps_account:
  assumes "answers (h_db s)" and "answers (other (h_db s))" and "mode \<noteq> ''open''"
    and "0 < rowcount (open_invite code) (invites (h_db s))"
    and "rowcount (open_invite code) (invites (other (h_db s))) = 0"
    and "\<not> has_key u_username username (users (other (h_db s)))"
  shows "\<exists>t. new_account X now salt other False mode code username password s =
      (Inr (Inl ''Invite was used by another registration''), t) \<and>
    has_key u_username username (users (h_db t))"
  using new_account_invite [where other = other and s = s and mode = mode and code = code and
      username = username and X = X and now = now and salt = salt and password = password,
      OF assms(1-4,6)] assms(5)
  by (auto simp: has_key_iff)

theorem lost_race_keeps_account_witness:
  "\<exists>t. new_account plain_params 5 [] (\<lambda>d. snd (consume_invite ''abc'' 1 4 d)) False ''invite'' ''abc'' ''bob'' ''12345678''
      (fresh_hub invite_demo) = (Inr (Inl ''Invite was used by another registration''), t) \<and>
    has_key u_username ''bob'' (users (h_db t))"
proof -
  have e: "snd (consume_invite ''abc'' 1 4 invite_demo) = invite_demo\<lparr>invites :=
      update_where (open_invite ''abc'') (\<lambda>r. r\<lparr>i_used_by := Some 1, i_used_at := Some 4\<rparr>) (invites invite_demo)\<rparr>"
    using invite_demo_ok by (simp add: consume_invite_def constraint_def)
  show ?thesis
    by (rule lost_race_keeps_account)
      (simp_all add: e invite_demo_ok(1),
       simp_all add: invite_demo_def rowcount_def open_invite_def update_where_def has_key_iff)
qed

end
