(* ===== verification/HubRelay.thy ===== *)
theory HubRelay
  imports HubState
begin

text \<open>
  Where a node is reachable and how it reaches the others (\<^verbatim>\<open>hub/app.py\<close>): the resolution of its
  own public address, the cross-node relay with its one-hop guard, and the map of devices that
  are live elsewhere.
\<close>

section \<open>The address of this node\<close>

definition is_loopback_host :: "string \<Rightarrow> bool" where
  "is_loopback_host host = (if host = [] then True else
     (let h = lower host;
          h = (if CHR '':'' \<in> set h \<and> \<not> startswith ''['' h then fst (partition_at (CHR '':'') h) else h)
      in h \<in> {''localhost'', ''0.0.0.0'', ''::1'', ''[::1]''} \<or> startswith ''127.'' h))"

definition hub_public_url :: "params \<Rightarrow> request \<Rightarrow> (hub, string) op" where
  "hub_public_url X rq s =
     (let override = public_url_override (pSH X) (h_cfg s) in
      if override \<noteq> [] then (Inr override, s)
      else
        (let fwd_host = or_str (header rq ''x-forwarded-host'') (header rq ''host'');
             scheme = or_str (header rq ''x-forwarded-proto'') (rq_scheme rq);
             host = or_str fwd_host (rq_netloc rq);
             url = scheme @ ''://'' @ host
         in (Inr url, if is_loopback_host host then s else s\<lparr>h_url_cache := url\<rparr>)))"

text \<open>The file the launcher wrote: a file that cannot be read is no address.\<close>

definition public_url_file :: "hub \<Rightarrow> exn + string" where
  "public_url_file s = (case h_url_file s of
     Inr t \<Rightarrow> Inr (rstrip_slash (strip t))
   | Inl e \<Rightarrow> if is_os_error e then Inr [] else Inl e)"

definition resolve_public_url :: "params \<Rightarrow> hub \<Rightarrow> exn + string" where
  "resolve_public_url X s =
     (let override = public_url_override (pSH X) (h_cfg s) in
      if override \<noteq> [] then Inr override
      else case public_url_file s of Inl e \<Rightarrow> Inl e
      | Inr f \<Rightarrow> Inr (or_str f (or_str (h_url_cache s)
          (rstrip_slash (strip (opt_str (cf_env (h_cfg s) ''VORTEX_DETECTED_PUBLIC_URL'')))))))"

section \<open>Which requests are relayed\<close>

text \<open>\<open>$\<close> of a pattern: the end, or before a final newline.\<close>

definition at_end :: "string \<Rightarrow> bool" where
  "at_end s \<longleftrightarrow> s = [] \<or> s = [CHR 0x0A]"

definition after :: "string \<Rightarrow> string \<Rightarrow> string option" where
  "after p s = (if startswith p s then Some (drop (length p) s) else None)"

text \<open>A segment without slash, then a slash: what \<open>(?P<did>[^/]+)/\<close> matches.\<close>

definition segment :: "string \<Rightarrow> (string \<times> string) option" where
  "segment s = (case partition_at (CHR ''/'') s of
     (a, Some r) \<Rightarrow> if a = [] then None else Some (a, r) | _ \<Rightarrow> None)"

definition ends_after :: "string \<Rightarrow> string \<Rightarrow> bool" where
  "ends_after p s = (case after p s of Some r \<Rightarrow> at_end r | None \<Rightarrow> False)"

definition data_tail :: "string \<Rightarrow> bool" where
  "data_tail r \<longleftrightarrow> startswith ''files/'' r \<or> ends_after ''files'' r \<or> startswith ''camera/'' r \<or>
     startswith ''screen/'' r \<or> ends_after ''input'' r \<or> ends_after ''theft/capture'' r \<or>
     startswith ''thumb/'' r \<or> ends_after ''direct'' r"

definition api_tail :: "string \<Rightarrow> bool" where
  "api_tail r \<longleftrightarrow> ends_after ''info'' r \<or> ends_after ''screen-size'' r \<or> ends_after ''cameras'' r"

definition tail_match :: "string \<Rightarrow> (string \<Rightarrow> bool) \<Rightarrow> string \<Rightarrow> string option" where
  "tail_match prefix T path = (case after prefix path of None \<Rightarrow> None
     | Some r \<Rightarrow> (case segment r of None \<Rightarrow> None | Some (did, t) \<Rightarrow> if T t then Some did else None))"

definition relay_match :: "string \<Rightarrow> string option" where
  "relay_match path = (case tail_match ''/devices/'' data_tail path of
     Some did \<Rightarrow> Some did | None \<Rightarrow> tail_match ''/api/devices/'' api_tail path)"

section \<open>The relay\<close>

definition presence_or_none :: "(db, string option) op \<Rightarrow> (db, string option) op" where
  "presence_or_none m = catch m (\<lambda>_. ret None)"

text \<open>The node to send the request to, if it is not served here.\<close>

definition relay_target :: "params \<Rightarrow> int \<Rightarrow> request \<Rightarrow> (hub, string option) op" where
  "relay_target X now rq =
     (case relay_match (rq_path rq) of
        None \<Rightarrow> ret None
      | Some did \<Rightarrow>
          if header rq ''x-vortex-relay'' \<noteq> [] then ret None
          else bindE (asks (\<lambda>s. did \<in> online_ids s)) (\<lambda>here.
            if here then ret None
            else bindE (on_db (presence_or_none (get_device_presence did 90 now))) (\<lambda>node.
              bindE (\<lambda>s. (resolve_public_url X s, s)) (\<lambda>url.
                if opt_str node = [] \<or> rstrip_slash (opt_str node) = rstrip_slash url then ret None
                else ret (Some (rstrip_slash (opt_str node)))))))"

definition hop_request_headers :: "string set" where
  "hop_request_headers = {''host'', ''content-length'', ''connection'', ''keep-alive'', ''transfer-encoding''}"

definition hop_response_headers :: "string set" where
  "hop_response_headers = {''connection'', ''keep-alive'', ''proxy-authenticate'',
     ''proxy-authorization'', ''te'', ''trailers'', ''transfer-encoding'', ''upgrade'', ''content-length''}"

definition relayed_url :: "request \<Rightarrow> string \<Rightarrow> string" where
  "relayed_url rq node = node @ rq_path rq @ (if rq_query rq \<noteq> [] then ''?'' @ rq_query rq else [])"

definition relayed_headers :: "request \<Rightarrow> (string \<times> string) list" where
  "relayed_headers rq = dict_put ''x-vortex-relay'' ''1''
     (filter (\<lambda>(k, _). lower k \<notin> hop_request_headers) (rq_headers rq))"

definition upper_eq :: "string \<Rightarrow> string \<Rightarrow> bool" where
  "upper_eq m name \<longleftrightarrow> lower m = lower name"

definition relays_body :: "request \<Rightarrow> bool" where
  "relays_body rq \<longleftrightarrow> upper_eq (rq_method rq) ''POST'' \<or> upper_eq (rq_method rq) ''PUT'' \<or>
     upper_eq (rq_method rq) ''PATCH''"

record sent =
  sn_url :: string
  sn_method :: string
  sn_headers :: "(string \<times> string) list"
  sn_body :: bool

record reply =
  rp_status :: int
  rp_headers :: "(string \<times> string) list"

text \<open>
  The middleware: \<open>send\<close> is the HTTP client, \<open>call_next\<close> the handlers of this node. Anything
  the client raises becomes a 502.
\<close>

definition cross_node_relay ::
  "params \<Rightarrow> int \<Rightarrow> (sent \<Rightarrow> exn + reply) \<Rightarrow> (request \<Rightarrow> (hub, reply) op) \<Rightarrow> request \<Rightarrow> (hub, reply) op" where
  "cross_node_relay X now send call_next rq = bindE (relay_target X now rq) (\<lambda>target.
     case target of None \<Rightarrow> call_next rq
     | Some node \<Rightarrow>
        (case send \<lparr>sn_url = relayed_url rq node, sn_method = rq_method rq,
            sn_headers = relayed_headers rq, sn_body = relays_body rq\<rparr> of
           Inl e \<Rightarrow> raise (HTTPException 502 ''Could not reach the node holding this device'')
         | Inr rp \<Rightarrow> ret (rp\<lparr>rp_headers :=
             filter (\<lambda>(k, _). lower k \<notin> hop_response_headers) (rp_headers rp)\<rparr>)))"

section \<open>Devices that are live elsewhere\<close>

definition other_node_for :: "params \<Rightarrow> int \<Rightarrow> string \<Rightarrow> (hub, string option) op" where
  "other_node_for X now device_id =
     bindE (asks (\<lambda>s. device_id \<in> online_ids s)) (\<lambda>here.
       if here then ret None
       else bindE (on_db (presence_or_none (get_device_presence device_id 90 now))) (\<lambda>node.
         if opt_str node = [] then ret None
         else bindE (\<lambda>s. (resolve_public_url X s, s)) (\<lambda>url.
           if rstrip_slash url \<noteq> [] \<and> rstrip_slash (opt_str node) = rstrip_slash url then ret None
           else ret (Some (rstrip_slash (opt_str node))))))"

definition offline_detail :: "params \<Rightarrow> int \<Rightarrow> string \<Rightarrow> (hub, string) op" where
  "offline_detail X now device_id = bindE (other_node_for X now device_id) (\<lambda>other.
     case other of
       Some n \<Rightarrow> if n \<noteq> [] then ret (''This device's live connection is on another node. Control it there: ''
           @ n @ ''/devices/'' @ device_id)
         else ret ''Device offline (no agent connected to any node - start serve.sh on the device).''
     | None \<Rightarrow> ret ''Device offline (no agent connected to any node - start serve.sh on the device).'')"

text \<open>The dictionary of \<open>_elsewhere_map\<close>; an error of the database leaves it empty.\<close>

definition elsewhere_map :: "params \<Rightarrow> int \<Rightarrow> int \<Rightarrow> string set \<Rightarrow> (hub, (string \<times> string) list) op" where
  "elsewhere_map X now owner_id online =
     bindE (\<lambda>s. (resolve_public_url X s, s)) (\<lambda>url.
       catch (bindE (on_db (presence_for_user owner_id 90 now)) (\<lambda>rows.
           ret (filter (\<lambda>(did, u). u \<noteq> [] \<and> u \<noteq> rstrip_slash url)
             (map (\<lambda>(did, u). (did, rstrip_slash u)) (filter (\<lambda>(did, _). did \<notin> online) rows)))))
         (\<lambda>_. ret []))"

text \<open>One round of the heartbeat: the node's own address, then the presence of each connection.\<close>

fun publish_all :: "string \<Rightarrow> int \<Rightarrow> string list \<Rightarrow> (hub, unit) op" where
  "publish_all url now [] = ret ()"
| "publish_all url now (d # ds) =
     thenE (catch (on_db (publish_device_presence d url now)) (\<lambda>_. ret ())) (publish_all url now ds)"

definition heartbeat_round :: "params \<Rightarrow> string \<Rightarrow> int \<Rightarrow> (hub, unit) op" where
  "heartbeat_round X version now = catch
     (bindE (\<lambda>s. (resolve_public_url X s, s)) (\<lambda>url.
        if url = [] then ret ()
        else thenE (on_db (publish_node_endpoint url (Some (''v'' @ version)) now))
          (bindE (asks (\<lambda>s. map fst (h_conns s))) (publish_all url now))))
     (\<lambda>_. ret ())"

section \<open>Facts\<close>

lemma header_relayed: "map_of (relayed_headers rq) ''x-vortex-relay'' = Some ''1''"
  by (simp add: relayed_headers_def)

text \<open>A relayed request carries the guard, and a request with the guard is served where it lands.\<close>

lemma guard_stops_relay:
  "header rq ''x-vortex-relay'' \<noteq> [] \<Longrightarrow> relay_target X now rq s = (Inr None, s)"
  by (simp add: relay_target_def split: option.split)

lemma not_relayable: "relay_match (rq_path rq) = None \<Longrightarrow> relay_target X now rq s = (Inr None, s)"
  by (simp add: relay_target_def)

lemma resolve_state: "snd ((\<lambda>s. (resolve_public_url X s, s)) s) = s"
  by simp

lemma presence_or_none_apply:
  "presence_or_none (get_device_presence d a now) t =
     (Inr (if answers_reads t then presence_lookup d a t now else None), t)"
  by (auto simp: presence_or_none_def catch_def get_device_presence_def db_read_def answers_reads_def
      presence_lookup_def split: option.splits)

lemma relay_target_state [simp]: "snd (relay_target X now rq s) = s"
  by (auto simp: relay_target_def bindE_def on_db_apply presence_or_none_apply
      split: option.splits sum.splits prod.splits)

lemma relay_target_Some:
  assumes "relay_target X now rq s = (Inr (Some node), t)"
  obtains did url where "relay_match (rq_path rq) = Some did" and "did \<notin> online_ids s"
    and "header rq ''x-vortex-relay'' = []" and "resolve_public_url X s = Inr url"
    and "presence_lookup did 90 (h_db s) now \<noteq> None"
    and "node = rstrip_slash (the (presence_lookup did 90 (h_db s) now))" and "node \<noteq> rstrip_slash url"
proof -
  from assms obtain did where did: "relay_match (rq_path rq) = Some did"
    by (auto simp: relay_target_def split: option.splits)
  let ?p = "if answers_reads (h_db s) then presence_lookup did 90 (h_db s) now else None"
  from assms did have h: "header rq ''x-vortex-relay'' = []" and o: "did \<notin> online_ids s"
    by (auto simp: relay_target_def bindE_def split: if_splits)
  from assms did h o obtain url where url: "resolve_public_url X s = Inr url"
    by (auto simp: relay_target_def bindE_def on_db_apply presence_or_none_apply split: sum.splits)
  from assms did h o url have "opt_str ?p \<noteq> []" "node = rstrip_slash (opt_str ?p)"
    "node \<noteq> rstrip_slash url"
    by (auto simp: relay_target_def bindE_def on_db_apply presence_or_none_apply split: if_splits)
  moreover from this obtain p where "?p = Some p" by (cases ?p) (auto simp: opt_str_def)
  ultimately show ?thesis using that [OF did o h url] by (auto simp: opt_str_def split: if_splits)
qed

text \<open>One heartbeat raises nothing.\<close>

lemma heartbeat_returns: "fst (heartbeat_round X v now s) = Inr ()"
  by (simp add: heartbeat_round_def catch_def split: prod.split sum.split)

lemma publish_all_wf [pres]: "preserves wf_hub (publish_all url now ds)"
  by (induction ds) (simp_all only: publish_all.simps pres preserves_thenE preserves_catch
      preserves_on_db publish_device_presence_wf)

lemma preserves_resolve [pres]: "preserves wf_hub (\<lambda>s. (resolve_public_url X s, s))"
  by (simp add: preserves_def)

lemma heartbeat_wf [pres]: "preserves wf_hub (heartbeat_round X v now)"
  unfolding heartbeat_round_def
  by (intro preserves_catch preserves_bindE preserves_if preserves_thenE pres)

lemma hub_public_url_wf [pres]: "preserves wf_hub (hub_public_url X rq)"
  by (auto simp: preserves_def wf_hub_def hub_public_url_def Let_def)

lemma elsewhere_wf [pres]: "preserves wf_hub (elsewhere_map X now own on)"
  unfolding elsewhere_map_def by (intro preserves_catch preserves_bindE pres)

text \<open>No loopback address enters the cache.\<close>

lemma cache_not_loopback:
  assumes "hub_public_url X rq s = (r, t)" and "h_url_cache t \<noteq> h_url_cache s"
  shows "\<exists>host. \<not> is_loopback_host host \<and> (\<exists>scheme. h_url_cache t = scheme @ ''://'' @ host)"
  using assms by (auto simp: hub_public_url_def Let_def split: if_splits)

section \<open>Properties\<close>

text \<open>
  The relay makes one hop at most. A request that one node forwards is never forwarded again:
  whatever node receives the forwarded headers, in whatever state, serves it itself.
\<close>

theorem relay_one_hop:
  assumes "rq_headers rq' = relayed_headers rq"
  shows "relay_target X now rq' s = (Inr None, s)"
proof -
  have "header rq' ''x-vortex-relay'' = ''1''"
    using assms header_relayed [of rq] by (simp add: header_def opt_str_def)
  then show ?thesis by (intro guard_stops_relay) simp
qed

theorem relay_one_hop_witness:
  "relay_target plain_params 100 (plain_request\<lparr>rq_path := ''/devices/d1/input'',
     rq_headers := relayed_headers plain_request\<rparr>) (fresh_hub enrolled_demo) =
   (Inr None, fresh_hub enrolled_demo)"
  by (rule relay_one_hop [of _ plain_request]) simp


definition mesh_demo :: db where
  "mesh_demo = enrolled_demo\<lparr>device_presence :=
     [\<lparr>pr_device_id = ''d1'', pr_node_url = ''https://b'', pr_last_seen = 100\<rparr>]\<rparr>"

lemma demo_path: "relay_match ''/devices/d1/input'' = Some ''d1''"
  by (simp add: relay_match_def tail_match_def after_def startswith_def segment_def partition_at_def
      data_tail_def ends_after_def at_end_def)


text \<open>
  The test for loopback addresses misses the bare IPv6 loopback. The address \<open>::1\<close>, listed
  among the addresses it is to recognise, is cut at its first colon and passes for a public one.
\<close>

theorem ipv6_loopback_missed:
  "\<not> is_loopback_host ''::1'' \<and> is_loopback_host ''127.0.0.1:8000''"
  by (simp add: is_loopback_host_def lower_def lower_char_def partition_at_def startswith_def Let_def)

end
