(* ===== verification/HubEnroll.thy ===== *)
theory HubEnroll
  imports HubAuth HubRelay
begin

text \<open>
  Enrollment and device management of \<^verbatim>\<open>hub/app.py\<close>: pairing codes, account tokens and the signed-in
  browser as the three ways to enroll a device, the endpoints a device calls with its own
  credentials, and the pages that list, rename and delete devices. The ids and tokens a handler
  draws are its arguments; so is the outcome of a request to a device.
\<close>

section \<open>Parts the handlers share\<close>

text \<open>A route behind the login.\<close>

definition as_user :: "params \<Rightarrow> int \<Rightarrow> request \<Rightarrow> (user_info \<Rightarrow> (hub, 'a) op) \<Rightarrow> (hub, 'a) op" where
  "as_user X now rq f = bindE (on_db (require_user X now rq)) f"

text \<open>\<open>(body.get('device_name') or '').strip()[:80]\<close>.\<close>

definition name_field :: "json \<Rightarrow> exn + string" where
  "name_field body = (case jget_or body ''device_name'' JNull of
     Inl e \<Rightarrow> Inl e
   | Inr v \<Rightarrow> (case jor v (JStr []) of JStr s \<Rightarrow> Inr (take 80 (strip s)) | _ \<Rightarrow> Inl AttributeError))"

text \<open>The addresses of the live nodes, this one first.\<close>

definition live_node_urls :: "params \<Rightarrow> int \<Rightarrow> request option \<Rightarrow> (hub, string list) op" where
  "live_node_urls X now rq =
     bindE (on_db (list_node_endpoints 180 now)) (\<lambda>ns.
     bindE (case rq of None \<Rightarrow> ret [] | Some r \<Rightarrow> hub_public_url X r) (\<lambda>url.
     let urls = map n_url ns; here = rstrip_slash url in
     ret (if here \<noteq> [] \<and> here \<notin> set urls then here # urls
          else if here \<noteq> [] then here # remove1 here urls
          else urls)))"

record enrolled =
  en_device_id :: string
  en_token :: string
  en_name :: string
  en_nodes :: "string list"

section \<open>Pairing codes\<close>

definition pair_post ::
  "params \<Rightarrow> int \<Rightarrow> nat \<Rightarrow> request \<Rightarrow> string \<Rightarrow> (hub, string \<times> string \<times> string option) op" where
  "pair_post X now drawn rq device_name = as_user X now rq (\<lambda>u.
     let name = str_or_none (take 80 (strip device_name)) in
     bindE (on_db (create_pairing_code (ui_id u) name drawn now now)) (\<lambda>code.
     bindE (hub_public_url X rq) (\<lambda>url. ret (code, url, name))))"

definition api_pair :: "params \<Rightarrow> int \<Rightarrow> string \<Rightarrow> string \<Rightarrow> json option \<Rightarrow> (hub, enrolled) op" where
  "api_pair X now device_id token body = (case body of
     None \<Rightarrow> raise (HTTPException 400 ''Invalid JSON'')
   | Some b \<Rightarrow>
       bindE (liftE (jget_or b ''code'' (JStr []))) (\<lambda>c.
       let code = strip (py_str (pSH X) c) in
       bindE (liftE (name_field b)) (\<lambda>name_override.
       if code = [] then raise (HTTPException 400 ''Missing code'')
       else bindE (on_db (consume_pairing_code code now)) (\<lambda>consumed.
         case consumed of
           None \<Rightarrow> raise (HTTPException 403 ''Invalid or expired code'')
         | Some (uid, device_name) \<Rightarrow>
             (let name = or_str name_override (or_str (opt_str device_name) ''Unnamed Device'') in
              thenE (on_db (create_device (pH X) device_id uid name token None now))
                (ret \<lparr>en_device_id = device_id, en_token = token, en_name = name, en_nodes = []\<rparr>))))))"

section \<open>Account tokens and the signed-in browser\<close>

definition enroll_tokens_get ::
  "params \<Rightarrow> int \<Rightarrow> request \<Rightarrow> (hub, account_token_info list \<times> string) op" where
  "enroll_tokens_get X now rq = as_user X now rq (\<lambda>u.
     bindE (on_db (list_account_tokens (ui_id u))) (\<lambda>ts.
     bindE (hub_public_url X rq) (\<lambda>url. ret (ts, url))))"

definition enroll_tokens_create ::
  "params \<Rightarrow> int \<Rightarrow> string \<Rightarrow> request \<Rightarrow> string \<Rightarrow> (hub, string \<times> string \<times> string option) op" where
  "enroll_tokens_create X now token rq label = as_user X now rq (\<lambda>u.
     bindE (on_db (create_account_token (pH X) (ui_id u) (str_or_none (take 60 (strip label))) token now)) (\<lambda>tok.
     bindE (hub_public_url X rq) (\<lambda>url. ret (tok, url, str_or_none (strip label)))))"

definition enroll_tokens_delete :: "params \<Rightarrow> int \<Rightarrow> request \<Rightarrow> int \<Rightarrow> (hub, response) op" where
  "enroll_tokens_delete X now rq token_id = as_user X now rq (\<lambda>u.
     thenE (on_db (revoke_account_token token_id (ui_id u))) (ret (redirect ''/enroll-tokens'')))"

definition enroll_as ::
  "params \<Rightarrow> int \<Rightarrow> string \<Rightarrow> string \<Rightarrow> request \<Rightarrow> int \<Rightarrow> string \<Rightarrow> (hub, enrolled) op" where
  "enroll_as X now device_id token rq uid name =
     thenE (on_db (create_device (pH X) device_id uid name token None now))
       (bindE (live_node_urls X now (Some rq)) (\<lambda>nodes.
         ret \<lparr>en_device_id = device_id, en_token = token, en_name = name, en_nodes = nodes\<rparr>))"

definition api_enroll ::
  "params \<Rightarrow> int \<Rightarrow> string \<Rightarrow> string \<Rightarrow> request \<Rightarrow> json option \<Rightarrow> (hub, enrolled) op" where
  "api_enroll X now device_id token rq body = (case body of
     None \<Rightarrow> raise (HTTPException 400 ''Invalid JSON'')
   | Some b \<Rightarrow>
       bindE (liftE (jget_or b ''account_token'' (JStr []))) (\<lambda>t.
       bindE (on_db (account_token_user (pH X) (strip (py_str (pSH X) t)) now)) (\<lambda>uid.
         case uid of
           None \<Rightarrow> raise (HTTPException 403 ''Invalid or revoked account token'')
         | Some u \<Rightarrow> bindE (liftE (name_field b)) (\<lambda>n.
             enroll_as X now device_id token rq u (or_str n ''Unnamed Device'')))))"

definition api_session_enroll ::
  "params \<Rightarrow> int \<Rightarrow> string \<Rightarrow> string \<Rightarrow> request \<Rightarrow> json option \<Rightarrow> (hub, enrolled) op" where
  "api_session_enroll X now device_id token rq body = as_user X now rq (\<lambda>u.
     bindE (liftE (name_field (case body of None \<Rightarrow> JObj [] | Some b \<Rightarrow> b))) (\<lambda>n.
       enroll_as X now device_id token rq (ui_id u) (or_str n ''Unnamed Device'')))"

section \<open>Endpoints for devices\<close>

text \<open>The credentials of a device: two headers, or two query parameters.\<close>

definition device_creds :: "request \<Rightarrow> string \<times> string" where
  "device_creds rq = (strip (or_str (header rq ''x-vortex-device'') (query_param rq ''device_id'')),
     or_str (header rq ''x-vortex-token'') (query_param rq ''token''))"

definition as_device :: "params \<Rightarrow> request \<Rightarrow> (device_cred \<Rightarrow> (hub, 'a) op) \<Rightarrow> (hub, 'a) op" where
  "as_device X rq f = (case device_creds rq of (did, tok) \<Rightarrow>
     bindE (if did = [] then ret None else on_db (authenticate_device (pH X) did tok)) (\<lambda>dev.
       case dev of None \<Rightarrow> raise (HTTPException 403 ''Invalid device credentials'') | Some d \<Rightarrow> f d))"

definition api_nodes :: "params \<Rightarrow> int \<Rightarrow> request \<Rightarrow> (hub, string list) op" where
  "api_nodes X now rq = as_device X rq (\<lambda>_. live_node_urls X now (Some rq))"

record account_device =
  cd_id :: string
  cd_name :: string
  cd_online :: bool
  cd_elsewhere :: "string option"
  cd_last_seen :: "int option"
  cd_paired_at :: int
  cd_this_device :: bool

definition api_account_devices :: "params \<Rightarrow> int \<Rightarrow> request \<Rightarrow> (hub, account_device list \<times> int) op" where
  "api_account_devices X now rq = as_device X rq (\<lambda>dev.
     bindE (on_db (list_devices (dc_owner_id dev))) (\<lambda>rows.
     bindE (asks online_ids) (\<lambda>online.
     bindE (elsewhere_map X now (dc_owner_id dev) online) (\<lambda>elsewhere.
       ret (map (\<lambda>r. \<lparr>cd_id = di_id r, cd_name = di_name r, cd_online = di_id r \<in> online,
              cd_elsewhere = map_of elsewhere (di_id r), cd_last_seen = di_last_seen r,
              cd_paired_at = di_paired_at r, cd_this_device = (di_id r = fst (device_creds rq))\<rparr>) rows,
            dc_owner_id dev)))))"

definition api_device_session :: "params \<Rightarrow> int \<Rightarrow> string \<Rightarrow> request \<Rightarrow> (hub, response) op" where
  "api_device_session X now token rq = as_device X rq (\<lambda>dev.
     login X now token (dc_owner_id dev) (page 200 None))"

section \<open>This machine as a device\<close>

text \<open>The description of the machine; a line with nothing to say is left out.\<close>

record platform =
  pf_node :: string
  pf_system :: string
  pf_release :: string
  pf_machine :: string
  pf_python :: string

fun join_lines :: "string list \<Rightarrow> string" where
  "join_lines [] = []"
| "join_lines [l] = l"
| "join_lines (l # m # ls) = l @ CHR 0x0A # join_lines (m # ls)"

definition host_characteristics :: "platform \<Rightarrow> string" where
  "host_characteristics pf = join_lines (map (\<lambda>(k, v). k @ '': '' @ v) (filter (\<lambda>(k, v). strip v \<noteq> [])
     [(''host'', pf_node pf), (''os'', pf_system pf @ '' '' @ pf_release pf), (''arch'', pf_machine pf),
      (''python'', pf_python pf)]))"

text \<open>The agent's credential file, replaced in one step; writing it can fail.\<close>

definition write_local_agent_config ::
  "exn option \<Rightarrow> string \<Rightarrow> string \<Rightarrow> string \<Rightarrow> string \<Rightarrow> (hub, unit) op" where
  "write_local_agent_config fails device_id token hub_url name = (case fails of
     Some e \<Rightarrow> raise e
   | None \<Rightarrow> modify (\<lambda>s. s\<lparr>h_agent_file := Some (JObj [(''device_id'', JStr device_id),
       (''token'', JStr token), (''hub_url'', JStr (rstrip_slash hub_url)), (''name'', JStr name)])\<rparr>))"

definition self_register_post ::
  "params \<Rightarrow> int \<Rightarrow> platform \<Rightarrow> exn option \<Rightarrow> string \<Rightarrow> string \<Rightarrow> request \<Rightarrow> string \<Rightarrow> string \<Rightarrow> (hub, response) op" where
  "self_register_post X now pf fails device_id token rq device_name characteristics = as_user X now rq (\<lambda>u.
     let name = or_str (take 80 (strip device_name)) (or_str (pf_node pf) ''This device'');
         chars = str_or_none (take 4000 (strip characteristics)) in
     thenE (on_db (create_device (pH X) device_id (ui_id u) name token chars now))
       (bindE (hub_public_url X rq) (\<lambda>url.
         thenE (write_local_agent_config fails device_id token url name) (ret (redirect ''/?selfreg=1'')))))"

section \<open>Device pages\<close>

definition dashboard ::
  "params \<Rightarrow> int \<Rightarrow> request \<Rightarrow> (hub, device_info list \<times> string set \<times> (string \<times> string) list) op" where
  "dashboard X now rq = as_user X now rq (\<lambda>u.
     bindE (on_db (list_devices (ui_id u))) (\<lambda>devs.
     bindE (asks online_ids) (\<lambda>online.
     bindE (elsewhere_map X now (ui_id u) online) (\<lambda>elsewhere. ret (devs, online, elsewhere)))))"

definition api_online :: "params \<Rightarrow> int \<Rightarrow> request \<Rightarrow> (hub, string set \<times> (string \<times> string) list) op" where
  "api_online X now rq = as_user X now rq (\<lambda>u.
     bindE (on_db (list_devices (ui_id u))) (\<lambda>devs.
     bindE (asks online_ids) (\<lambda>online.
     bindE (elsewhere_map X now (ui_id u) online) (\<lambda>elsewhere.
       ret (di_id ` set devs \<inter> online, elsewhere)))))"

text \<open>A device of the user, or a 404.\<close>

definition own_device ::
  "params \<Rightarrow> int \<Rightarrow> request \<Rightarrow> string \<Rightarrow> (user_info \<Rightarrow> device_info \<Rightarrow> (hub, 'a) op) \<Rightarrow> (hub, 'a) op" where
  "own_device X now rq device_id f = as_user X now rq (\<lambda>u.
     bindE (on_db (get_device_for_user device_id (ui_id u))) (\<lambda>d.
       case d of None \<Rightarrow> raise (HTTPException 404 ''Device not found'') | Some d \<Rightarrow> f u d))"

text \<open>What the request to the device over a connection comes to.\<close>

type_synonym agent_call = "nat \<Rightarrow> string \<Rightarrow> (string \<times> json) list \<Rightarrow> exn + json"

definition failed_json :: "string \<Rightarrow> json" where
  "failed_json err = JObj [(''ok'', JBool False), (''error'', JStr err)]"

definition api_device_info ::
  "params \<Rightarrow> int \<Rightarrow> agent_call \<Rightarrow> request \<Rightarrow> string \<Rightarrow> (hub, json) op" where
  "api_device_info X now call rq device_id = own_device X now rq device_id (\<lambda>u d.
     bindE (asks (\<lambda>s. map_of (h_conns s) device_id)) (\<lambda>conn.
       case conn of
         None \<Rightarrow> bindE (offline_detail X now device_id) (\<lambda>detail. ret (failed_json detail))
       | Some k \<Rightarrow> (case call k ''device_info'' [] of
           Inl (AgentError m) \<Rightarrow> ret (failed_json m)
         | Inl TimeoutError \<Rightarrow> ret (failed_json ''Agent did not respond in 15s'')
         | Inl e \<Rightarrow> raise e
         | Inr result \<Rightarrow> ret (JObj [(''ok'', JBool True), (''result'', result)]))))"

definition api_devices_stats ::
  "params \<Rightarrow> int \<Rightarrow> agent_call \<Rightarrow> request \<Rightarrow> (hub, (string \<times> json option) list) op" where
  "api_devices_stats X now call rq = as_user X now rq (\<lambda>u.
     bindE (on_db (list_devices (ui_id u))) (\<lambda>devs.
     bindE (asks h_conns) (\<lambda>conns.
       ret (concat (map (\<lambda>d. case map_of conns (di_id d) of
              None \<Rightarrow> []
            | Some k \<Rightarrow> [(di_id d, case call k ''system_info'' [] of Inl _ \<Rightarrow> None | Inr r \<Rightarrow> Some r)]) devs)))))"

definition device_manage :: "params \<Rightarrow> int \<Rightarrow> request \<Rightarrow> string \<Rightarrow> (hub, device_info \<times> bool) op" where
  "device_manage X now rq device_id = own_device X now rq device_id (\<lambda>u d.
     bindE (asks online_ids) (\<lambda>online. ret (d, device_id \<in> online)))"

definition device_rename :: "params \<Rightarrow> int \<Rightarrow> request \<Rightarrow> string \<Rightarrow> string \<Rightarrow> (hub, response) op" where
  "device_rename X now rq device_id name = as_user X now rq (\<lambda>u.
     let name = take 80 (strip name) in
     if name = [] then raise (HTTPException 400 ''Name required'')
     else bindE (on_db (update_device_name device_id (ui_id u) name)) (\<lambda>done.
       if done then ret (redirect (''/devices/'' @ device_id))
       else raise (HTTPException 404 ''Device not found'')))"

text \<open>Deleting a device also gives the connection to close.\<close>

definition device_delete ::
  "params \<Rightarrow> int \<Rightarrow> request \<Rightarrow> string \<Rightarrow> (hub, response \<times> nat option) op" where
  "device_delete X now rq device_id = as_user X now rq (\<lambda>u.
     bindE (on_db (delete_device device_id (ui_id u))) (\<lambda>done.
       if done then bindE (asks (\<lambda>s. map_of (h_conns s) device_id)) (\<lambda>conn. ret (redirect ''/'', conn))
       else raise (HTTPException 404 ''Device not found'')))"

section \<open>Well-formedness\<close>

lemma hub_public_url_db [simp]: "h_db (snd (hub_public_url X rq s)) = h_db s"
  by (simp add: hub_public_url_def Let_def)

lemma node_reads_wf [pres]: "preserves wf_db (list_node_endpoints a now)"
  by (simp add: list_node_endpoints_def pres)

lemma as_user_wf [pres]: "(\<And>u. preserves wf_hub (f u)) \<Longrightarrow> preserves wf_hub (as_user X now rq f)"
  unfolding as_user_def by (intro pres)

lemma as_device_wf [pres]: "(\<And>d. preserves wf_hub (f d)) \<Longrightarrow> preserves wf_hub (as_device X rq f)"
  unfolding as_device_def by (cases "device_creds rq") (simp only: prod.case, intro pres)

lemma live_node_urls_wf [pres]: "preserves wf_hub (live_node_urls X now rq)"
  unfolding live_node_urls_def Let_def by (intro pres)

lemma enroll_as_wf [pres]: "preserves wf_hub (enroll_as X now dev tok rq uid name)"
  unfolding enroll_as_def by (intro pres)

lemma agent_config_wf [pres]: "preserves wf_hub (write_local_agent_config fails dev tok url name)"
  unfolding write_local_agent_config_def by (intro pres preserves_modify_hub) simp

lemma enrollment_wf [pres]:
  "preserves wf_hub (pair_post X now drawn rq name)"
  "preserves wf_hub (enroll_tokens_create X now tok rq lab)"
  "preserves wf_hub (enroll_tokens_delete X now rq i)"
  "preserves wf_hub (api_enroll X now dev tok rq body)"
  "preserves wf_hub (api_session_enroll X now dev tok rq body)"
  "preserves wf_hub (api_device_session X now tok rq)"
  "preserves wf_hub (self_register_post X now pf fails dev tok rq name ch)"
  "preserves wf_hub (device_rename X now rq dev name)"
  "preserves wf_hub (device_delete X now rq dev)"
  by (unfold pair_post_def enroll_tokens_create_def enroll_tokens_delete_def api_enroll_def
      api_session_enroll_def api_device_session_def self_register_post_def device_rename_def
      device_delete_def Let_def) (intro pres)+

lemma api_pair_wf [pres]: "preserves wf_hub (api_pair X now dev tok body)"
  unfolding api_pair_def Let_def by (auto intro!: pres split: option.split)

section \<open>Facts\<close>

text \<open>A device just created authenticates with its token.\<close>

lemma fetchone_fresh:
  "\<not> has_key key k t \<Longrightarrow> key r = k \<Longrightarrow> fetchone (select_where (\<lambda>q. key q = k) (t @ [r])) = Some r"
  by (auto simp: fetchone_append has_key_iff split: option.split dest!: fetchone_Some)

lemma authenticate_created:
  assumes "answers s" and "\<not> has_key d_id d (devices s)"
    and "devices t = devices s @ [r]" and "d_id r = d" and "d_token_hash r = hash_token H tok"
    and "answers_reads t"
  shows "authenticate_device H d tok t = (Inr (Some (device_cred_of r)), t)"
  using assms fetchone_fresh [of d_id d "devices s" r]
  by (simp add: authenticate_device_def get_device_def bindE_def device_cred_of_def)

lemma as_device_apply:
  assumes "device_creds rq = (did, tok)" and "did \<noteq> []" and "answers_reads (h_db s)" and "wf_db (h_db s)"
  shows "r \<in> set (devices (h_db s)) \<Longrightarrow> d_id r = did \<Longrightarrow> d_token_hash r = hash_token (pH X) tok \<Longrightarrow>
      as_device X rq f s = f (device_cred_of r) s"
    and "\<forall>r \<in> set (devices (h_db s)). d_id r = did \<longrightarrow> d_token_hash r \<noteq> hash_token (pH X) tok \<Longrightarrow>
      as_device X rq f s = (Inl (HTTPException 403 ''Invalid device credentials''), s)"
proof -
  assume "r \<in> set (devices (h_db s))" "d_id r = did" "d_token_hash r = hash_token (pH X) tok"
  then have "authenticate_device (pH X) did tok (h_db s) = (Inr (Some (device_cred_of r)), h_db s)"
    using authenticate_device_iff [OF assms(3,4)] by blast
  then show "as_device X rq f s = f (device_cred_of r) s"
    by (simp add: as_device_def assms(1,2) bindE_def on_db_apply)
next
  assume "\<forall>r \<in> set (devices (h_db s)). d_id r = did \<longrightarrow> d_token_hash r \<noteq> hash_token (pH X) tok"
  then have "authenticate_device (pH X) did tok (h_db s) = (Inr None, h_db s)"
    using authenticate_device_None [OF assms(3,4)] by blast
  then show "as_device X rq f s = (Inl (HTTPException 403 ''Invalid device credentials''), s)"
    by (simp add: as_device_def assms(1,2) bindE_def on_db_apply)
qed

lemma hub_public_url_answers: "\<exists>u. hub_public_url X rq s = (Inr u, snd (hub_public_url X rq s))"
  by (simp add: hub_public_url_def Let_def)

lemma live_node_urls_answers:
  assumes "answers_reads (h_db s)"
  shows "\<exists>ns. live_node_urls X now (Some rq) s = (Inr ns, snd (hub_public_url X rq s))"
proof -
  obtain es where "on_db (list_node_endpoints 180 now) s = (Inr es, s)"
    using assms by (simp add: list_node_endpoints_def)
  moreover obtain u t where "hub_public_url X rq s = (Inr u, t)"
    using hub_public_url_answers by blast
  ultimately show ?thesis by (simp add: live_node_urls_def bindE_def Let_def)
qed

lemma enroll_as_ok:
  assumes "answers (h_db s)" and "fk_user uid (h_db s)" and "\<not> has_key d_id dev (devices (h_db s))"
  shows "\<exists>ns t. enroll_as X now dev tok rq uid name s =
      (Inr \<lparr>en_device_id = dev, en_token = tok, en_name = name, en_nodes = ns\<rparr>, t) \<and>
    h_db t = (h_db s)\<lparr>devices := devices (h_db s) @ [\<lparr>d_id = dev, d_owner_id = uid, d_name = name,
      d_token_hash = hash_token (pH X) tok, d_paired_at = now, d_last_seen = None, d_characteristics = None\<rparr>]\<rparr>"
proof -
  define d where "d = (h_db s)\<lparr>devices := devices (h_db s) @ [\<lparr>d_id = dev, d_owner_id = uid, d_name = name,
      d_token_hash = hash_token (pH X) tok, d_paired_at = now, d_last_seen = None, d_characteristics = None\<rparr>]\<rparr>"
  define u where "u = s\<lparr>h_db := d\<rparr>"
  have made: "on_db (create_device (pH X) dev uid name tok None now) s = (Inr (), u)"
    using assms by (simp add: on_db_apply create_device_ok u_def d_def)
  have d: "h_db u = d" by (simp add: u_def)
  have "answers_reads (h_db u)" using assms(1) unfolding d
    by (auto simp: d_def answers_reads_def answers_def can_write_read split: option.splits)
  from live_node_urls_answers [OF this] obtain ns where
    "live_node_urls X now (Some rq) u = (Inr ns, snd (hub_public_url X rq u))" by blast
  then show ?thesis
    unfolding d_def [symmetric] by (simp add: enroll_as_def thenE_def bindE_def made d)
qed

lemma devices_mark [simp]: "devices (snd (pairing_mark code s)) = devices s"
  by (simp add: pairing_mark_def)

lemma fk_user_mark [simp]: "fk_user uid (snd (pairing_mark code s)) = fk_user uid s"
  by (simp add: pairing_mark_def fk_user_iff)

lemma code_live_devices [simp]: "code_live code now (s\<lparr>devices := ds\<rparr>) = code_live code now s"
  by (simp add: code_live_def)

section \<open>Properties\<close>

text \<open>
  A pairing code enrolls one device for its user. A request with a live code creates a device;
  the id and token it answers with authenticate as a device of the user the code was made for; and
  the same request is refused from then on, at any time, without any effect.
\<close>

theorem pairing_enrolls_once:
  assumes "answers (h_db s)" and "jget_or b ''code'' (JStr []) = Inr (JStr c)" and "name_field b = Inr n"
    and "strip c \<noteq> []" and "pairing_select (strip c) now (h_db s) = Some (uid, label)"
    and "fk_user uid (h_db s)" and "\<not> has_key d_id dev (devices (h_db s))"
  shows "\<exists>e t cred. api_pair X now dev tok (Some b) s = (Inr e, t) \<and>
    authenticate_device (pH X) (en_device_id e) (en_token e) (h_db t) = (Inr (Some cred), h_db t) \<and>
    dc_id cred = dev \<and> dc_owner_id cred = uid \<and> dc_name cred = en_name e \<and> en_name e \<noteq> [] \<and>
    (\<forall>later dev' tok'. api_pair X later dev' tok' (Some b) t =
      (Inl (HTTPException 403 ''Invalid or expired code''), t))"
proof -
  let ?m = "snd (pairing_mark (strip c) (h_db s))"
  let ?name = "or_str n (or_str (opt_str label) ''Unnamed Device'')"
  let ?row = "\<lparr>d_id = dev, d_owner_id = uid, d_name = ?name, d_token_hash = hash_token (pH X) tok,
      d_paired_at = now, d_last_seen = None, d_characteristics = None\<rparr>"
  let ?t = "s\<lparr>h_db := ?m\<lparr>devices := devices (h_db s) @ [?row]\<rparr>\<rparr>"
  let ?e = "\<lparr>en_device_id = dev, en_token = tok, en_name = ?name, en_nodes = []\<rparr>"
  have live: "code_live (strip c) now (h_db s)"
    using assms(5) pairing_select_None [of "strip c" now "h_db s"] by auto
  have cons: "consume_pairing_code (strip c) now (h_db s) = (Inr (Some (uid, label)), ?m)"
    using assms(1,5) live by (simp add: consume_pairing_code_answers)
  have "create_device (pH X) dev uid ?name tok None now ?m = (Inr (), ?m\<lparr>devices := devices (h_db s) @ [?row]\<rparr>)"
    using assms(1,6,7) by (simp add: create_device_ok)
  then have run: "api_pair X now dev tok (Some b) s = (Inr ?e, ?t)"
    using assms(2-4) cons by (simp add: api_pair_def bindE_def thenE_def on_db_apply Let_def)
  have auth: "authenticate_device (pH X) dev tok (h_db ?t) = (Inr (Some (device_cred_of ?row)), h_db ?t)"
    by (rule authenticate_created [OF assms(1,7)]) (simp_all add: assms(1))
  have dead: "\<not> code_live (strip c) later (h_db ?t)" for later
    by (simp add: code_live_mark)
  have again: "api_pair X later dev' tok' (Some b) ?t = (Inl (HTTPException 403 ''Invalid or expired code''), ?t)"
    for later dev' tok'
    using assms(1-4) dead by (simp add: api_pair_def bindE_def on_db_apply consume_pairing_code_answers Let_def)
  show ?thesis
    by (intro exI [of _ ?e] exI [of _ ?t] exI [of _ "device_cred_of ?row"])
      (use run auth again in \<open>simp add: device_cred_of_def or_str_def\<close>)
qed

definition enroll_demo :: hub where
  "enroll_demo = fresh_hub (invite_demo\<lparr>pairing_codes := [\<lparr>p_code = ''123456'', p_user_id = 1,
     p_device_name = None, p_expires_at = 700, p_used = 0\<rparr>]\<rparr>)"

lemma strip_digits: "strip ''123456'' = ''123456''"
  by (simp add: strip_def rstrip_by_def lstrip_by_def is_space_def)

theorem pairing_enrolls_once_witness:
  "\<exists>e t. api_pair plain_params 650 ''d9'' ''secret'' (Some (JObj [(''code'', JStr ''123456'')])) enroll_demo = (Inr e, t) \<and>
    fst (api_pair plain_params 651 ''d8'' ''other'' (Some (JObj [(''code'', JStr ''123456'')])) t) =
      Inl (HTTPException 403 ''Invalid or expired code'')"
proof -
  have a: "answers (h_db enroll_demo)" "fk_user 1 (h_db enroll_demo)" "\<not> has_key d_id ''d9'' (devices (h_db enroll_demo))"
    by (simp_all add: enroll_demo_def invite_demo_def fk_user_iff empty_db_def empty_tables_def tables.extend_def
        answers_def)
  have sel: "pairing_select (strip ''123456'') 650 (h_db enroll_demo) = Some (1, None)"
    by (simp add: strip_digits enroll_demo_def pairing_select_def select_where_def redeemable_def)
  have n: "name_field (JObj [(''code'', JStr ''123456'')]) = Inr []"
    by (simp add: name_field_def jget_or_def jor_def strip_def rstrip_by_def lstrip_by_def)
  from pairing_enrolls_once [where b = "JObj [(''code'', JStr ''123456'')]" and c = "''123456''", OF a(1) _ n _ sel a(2,3)]
  show ?thesis by (fastforce simp: jget_or_def strip_digits)
qed

text \<open>
  C17: no credentials, no device. A request whose pairing code is not live, whose account token is
  not known and whose cookie names no session is refused by all three enrollment endpoints, and the
  database is as before.
\<close>

theorem enrollment_needs_credentials:
  assumes "answers_reads (h_db s)"
    and "\<forall>c. jget_or b ''code'' (JStr []) = Inr c \<longrightarrow> \<not> code_live (strip (py_str (pSH X) c)) now (h_db s)"
    and "\<forall>t. jget_or b ''account_token'' (JStr []) = Inr t \<longrightarrow>
      \<not> has_key a_token_hash (hash_token (pH X) (strip (py_str (pSH X) t))) (account_tokens (h_db s))"
    and "fst (current_user_optional X now rq (h_db s)) = Inr None"
    and "m \<in> {api_pair X now dev tok (Some b), api_enroll X now dev tok rq (Some b),
      api_session_enroll X now dev tok rq (Some b)}"
  shows "isl (fst (m s)) \<and> h_db (snd (m s)) = h_db s"
proof -
  have "isl (fst (api_pair X now dev tok (Some b) s)) \<and> h_db (snd (api_pair X now dev tok (Some b) s)) = h_db s"
  proof (cases "jget_or b ''code'' (JStr [])")
    case (Inr c)
    then have "consume_pairing_code (strip (py_str (pSH X) c)) now (h_db s) = (Inr None, h_db s)"
      using assms(1,2) pairing_select_None [of "strip (py_str (pSH X) c)" now "h_db s"]
      by (simp add: consume_pairing_code_def bindE_def)
    then show ?thesis by (simp add: api_pair_def Inr bindE_def on_db_apply Let_def split: sum.split)
  qed (simp add: api_pair_def bindE_def)
  moreover have "isl (fst (api_enroll X now dev tok rq (Some b) s)) \<and> h_db (snd (api_enroll X now dev tok rq (Some b) s)) = h_db s"
  proof (cases "jget_or b ''account_token'' (JStr [])")
    case (Inr t)
    then have "\<not> has_key a_token_hash (hash_token (pH X) (strip (py_str (pSH X) t))) (account_tokens (h_db s))"
      using assms(3) by blast
    then have "account_token_user (pH X) (strip (py_str (pSH X) t)) now (h_db s) = (Inr None, h_db s)"
      using assms(1) by (auto simp: account_token_user_def bindE_def has_key_iff split: option.split
          dest!: fetchone_Some simp del: fetchone_None)
    then show ?thesis by (simp add: api_enroll_def Inr bindE_def on_db_apply)
  qed (simp add: api_enroll_def bindE_def)
  moreover have "current_user_optional X now rq (h_db s) = (Inr None, h_db s)"
    using assms(4) current_user_state [of X now rq "h_db s"] by (metis prod.collapse)
  then have "require_user X now rq (h_db s) = (Inl (HTTPException 303 ''/login''), h_db s)"
    by (simp add: require_user_def bindE_def)
  then have "isl (fst (api_session_enroll X now dev tok rq (Some b) s)) \<and>
      h_db (snd (api_session_enroll X now dev tok rq (Some b) s)) = h_db s"
    by (simp add: api_session_enroll_def as_user_def bindE_def on_db_apply)
  ultimately show ?thesis using assms(5) by blast
qed

theorem enrollment_needs_credentials_witness:
  "isl (fst (api_pair plain_params 701 ''d9'' ''secret'' (Some (JObj [(''code'', JStr ''123456'')])) enroll_demo))"
proof -
  have a: "answers_reads (h_db enroll_demo)"
    by (simp add: enroll_demo_def invite_demo_def)
  have c: "\<forall>c. jget_or (JObj [(''code'', JStr ''123456'')]) ''code'' (JStr []) = Inr c \<longrightarrow>
      \<not> code_live (strip (py_str (pSH plain_params) c)) 701 (h_db enroll_demo)"
    by (auto simp: jget_or_def code_live_def enroll_demo_def redeemable_def)
  have t: "\<forall>t. jget_or (JObj [(''code'', JStr ''123456'')]) ''account_token'' (JStr []) = Inr t \<longrightarrow>
      \<not> has_key a_token_hash (hash_token (pH plain_params) (strip (py_str (pSH plain_params) t)))
        (account_tokens (h_db enroll_demo))"
    by (simp add: enroll_demo_def invite_demo_def empty_db_def empty_tables_def tables.extend_def)
  have u: "fst (current_user_optional plain_params 701 plain_request (h_db enroll_demo)) = Inr None"
    by (simp add: current_user_optional_def plain_request_def opt_str_def)
  show ?thesis by (rule conjunct1 [OF enrollment_needs_credentials [OF a c t u, where dev = "''d9''" and tok = "''secret''"]]) simp
qed

text \<open>
  The credentials of a device open a session of its owner. A device that shows its id and token
  gets the cookie of a new session of the user who owns it, and the session outlives the device: it
  lasts until its own expiry, also after the device has been deleted.
\<close>

theorem device_opens_owner_session:
  assumes "answers (h_db s)" and "wf_db (h_db s)" and "device_creds rq = (did, tok)" and "did \<noteq> []"
    and "r \<in> set (devices (h_db s))" and "d_id r = did" and "d_token_hash r = hash_token (pH X) tok"
    and "fk_user (d_owner_id r) (h_db s)" and "sess_fresh (pH X) new (h_db s)"
  shows "\<exists>resp t ttl. api_device_session X now new rq s = (Inr resp, t) \<and>
    rs_cookie resp = Some (SetSession new ttl) \<and> 300 \<le> ttl \<and>
    (\<forall>later. sess_resolve (pH X) new later (h_db t) = (if later < now + ttl then Some (d_owner_id r) else None)) \<and>
    (\<forall>later. sess_resolve (pH X) new later (snd (delete_device did (d_owner_id r) (h_db t))) =
      (if later < now + ttl then Some (d_owner_id r) else None))"
proof -
  let ?ttl = "live_session_ttl X s"
  let ?t = "s\<lparr>h_db := sess_issue (pH X) new (d_owner_id r) now ?ttl (h_db s)\<rparr>"
  have run: "api_device_session X now new rq s =
      (Inr ((page 200 None)\<lparr>rs_cookie := Some (SetSession new ?ttl)\<rparr>), ?t)"
    by (simp add: api_device_session_def device_cred_of_def login_answers [OF assms(1,9,8)]
        as_device_apply(1) [OF assms(3,4) answers_reads_if [OF assms(1)] assms(2,5,6,7)])
  have live: "sess_resolve (pH X) new later (h_db ?t) = (if later < now + ?ttl then Some (d_owner_id r) else None)" for later
    using sess.resolve_issue [OF assms(1,9,8)] by simp
  have same: "sess_resolve (pH X) new later (snd (delete_device did own q)) = sess_resolve (pH X) new later q"
    if "answers q" for later own q
    using that by (simp add: sess_resolve_def lookup_session_answers delete_device_def cascade_device_def)
  have "answers (h_db ?t)" using sess.inv_issue [OF assms(1,9,8)] by simp
  from same [OF this] run live session_ttl_min [of X s] show ?thesis
    by (intro exI [of _ "(page 200 None)\<lparr>rs_cookie := Some (SetSession new ?ttl)\<rparr>"] exI [of _ ?t] exI [of _ ?ttl]) simp
qed

definition device_request :: request where
  "device_request = plain_request\<lparr>rq_headers := [(''x-vortex-device'', ''d1''), (''x-vortex-token'', ''t'')]\<rparr>"

lemma device_request_creds: "device_creds device_request = (''d1'', ''t'')"
  by (simp add: device_creds_def device_request_def header_def opt_str_def or_str_def strip_def rstrip_by_def
      lstrip_by_def is_space_def)

theorem device_opens_owner_session_witness:
  "\<exists>resp t. api_device_session plain_params 100 ''new'' device_request (fresh_hub enrolled_demo) = (Inr resp, t) \<and>
    sess_resolve (pH plain_params) ''new'' 200 (snd (delete_device ''d1'' 1 (h_db t))) = Some 1"
proof -
  let ?r = "\<lparr>d_id = ''d1'', d_owner_id = 1, d_name = ''phone'', d_token_hash = hash_token (\<lambda>bs. bs) ''t'',
    d_paired_at = 0, d_last_seen = None, d_characteristics = None\<rparr>"
  have "fk_user 1 enrolled_demo" "sess_fresh (pH plain_params) ''new'' enrolled_demo" "?r \<in> set (devices enrolled_demo)"
    by (simp_all add: enrolled_demo_def invite_demo_def fk_user_iff sess_fresh_def empty_db_def empty_tables_def
        tables.extend_def)
  with device_opens_owner_session [where s = "fresh_hub enrolled_demo" and r = ?r and X = plain_params and now = 100
      and new = "''new''", OF _ _ device_request_creds] enrolled_demo_ok(1,2)
  obtain resp t ttl where "api_device_session plain_params 100 ''new'' device_request (fresh_hub enrolled_demo) = (Inr resp, t)"
    "300 \<le> ttl" "\<forall>later. sess_resolve (pH plain_params) ''new'' later (snd (delete_device ''d1'' 1 (h_db t))) =
      (if later < 100 + ttl then Some 1 else None)"
    by (auto simp: plain_params_def)
  then show ?thesis by (intro exI [of _ resp] exI [of _ t]) simp
qed



end
