(* ===== verification/Demux.thy ===== *)
theory Demux
  imports Json
begin

text \<open>
  The chunk protocol both ends of the device socket speak: a text header names a stream, and the next
  binary frame belongs to it. The interface of a receiver, with what follows for any interleaving
  of streams whose senders keep each header with its frame.
\<close>

type_synonym msg = "(string \<times> json) list"

text \<open>What a sender puts on the socket: a text frame or a binary one.\<close>

datatype out = OutText json | OutBytes "byte list"

text \<open>A chunk on the wire: its header and its frame, sent under the sender's lock.\<close>

definition chunk_pair :: "json \<Rightarrow> byte list \<Rightarrow> out list" where
  "chunk_pair rid data = [OutText (JObj [(''type'', JStr ''stream_chunk_header''), (''id'', rid)]), OutBytes data]"

locale chunk_demux =
  fixes ok :: "'r \<Rightarrow> bool"
    and harmless :: "'e \<Rightarrow> bool"
    and arm :: "'r \<Rightarrow> 's \<Rightarrow> 's"
    and chunk :: "'d \<Rightarrow> 's \<Rightarrow> 's"
    and other :: "'e \<Rightarrow> 's \<Rightarrow> 's"
    and received :: "'s \<Rightarrow> 'r \<Rightarrow> 'd list option"
  assumes deliver: "ok r \<Longrightarrow> received (chunk d (arm r s)) q =
      (if q = r then map_option (\<lambda>l. l @ [d]) (received s r) else received s q)"
    and other_keeps: "harmless e \<Longrightarrow> received (other e s) q = received s q"
begin

text \<open>What a sender puts on the wire in one go: a header with its frame, or another text frame.\<close>

fun group :: "('r \<times> 'd) + 'e \<Rightarrow> 's \<Rightarrow> 's" where
  "group (Inl (r, d)) s = chunk d (arm r s)"
| "group (Inr e) s = other e s"

definition sent_to :: "'r \<Rightarrow> (('r \<times> 'd) + 'e) list \<Rightarrow> 'd list" where
  "sent_to q gs = concat (map (\<lambda>g. case g of Inl (r, d) \<Rightarrow> if r = q then [d] else [] | Inr e \<Rightarrow> []) gs)"

definition well_sent :: "(('r \<times> 'd) + 'e) list \<Rightarrow> bool" where
  "well_sent gs \<longleftrightarrow> (\<forall>g \<in> set gs. case g of Inl (r, d) \<Rightarrow> ok r | Inr e \<Rightarrow> harmless e)"

text \<open>Every open stream receives its own chunks, all of them, in the order they were sent.\<close>

lemma received_groups:
  "well_sent gs \<Longrightarrow> received (fold group gs s) q = map_option (\<lambda>l. l @ sent_to q gs) (received s q)"
proof (induction gs arbitrary: s)
  case Nil
  then show ?case by (simp add: sent_to_def option.map_ident)
next
  case (Cons g gs)
  then have ws: "well_sent gs" by (simp add: well_sent_def)
  show ?case
  proof (cases g)
    case (Inl rd)
    obtain r d where rd: "rd = (r, d)" by (cases rd)
    with Inl Cons.prems have "ok r" by (simp add: well_sent_def)
    then show ?thesis using Cons.IH [OF ws, of "group g s"] Inl rd
      by (auto simp: deliver sent_to_def option.map_comp comp_def)
  next
    case (Inr e)
    with Cons.prems have "harmless e" by (simp add: well_sent_def)
    then show ?thesis using Cons.IH [OF ws, of "group g s"] Inr
      by (simp add: other_keeps sent_to_def)
  qed
qed

text \<open>Two senders whose groups are interleaved in any way.\<close>

lemma sent_to_shuffles:
  "gs \<in> shuffles xs ys \<Longrightarrow> sent_to q xs = [] \<Longrightarrow> sent_to q gs = sent_to q ys"
proof (induction xs ys arbitrary: gs rule: shuffles.induct)
  case (3 x xs y ys)
  from "3.prems"(1) consider hs where "gs = x # hs" "hs \<in> shuffles xs (y # ys)"
    | hs where "gs = y # hs" "hs \<in> shuffles (x # xs) ys"
    by (auto simp: Cons_in_shuffles_iff)
  then show ?case
  proof cases
    case 1
    then show ?thesis using "3.IH"(1) [of hs] "3.prems"(2) by (simp add: sent_to_def)
  next
    case 2
    then show ?thesis using "3.IH"(2) [of hs] "3.prems"(2) by (simp add: sent_to_def)
  qed
qed (auto simp: sent_to_def)

lemma interleaved_streams:
  assumes "well_sent gs" and "gs \<in> shuffles (map (\<lambda>d. Inl (a, d)) xs) (map (\<lambda>d. Inl (b, d)) ys)"
    and "a \<noteq> b" and "received s a = Some []" and "received s b = Some []"
  shows "received (fold group gs s) a = Some xs \<and> received (fold group gs s) b = Some ys"
proof -
  have e: "sent_to q (map (\<lambda>d. Inl (r, d)) zs) = (if r = q then zs else [])" for q r zs
    by (induction zs) (auto simp: sent_to_def)
  have "sent_to b gs = ys" using sent_to_shuffles [OF assms(2), of b] assms(3) by (simp add: e)
  moreover have "gs \<in> shuffles (map (\<lambda>d. Inl (b, d)) ys) (map (\<lambda>d. Inl (a, d)) xs)"
    using assms(2) by (simp add: shuffles_commutes)
  from sent_to_shuffles [OF this, of a] have "sent_to a gs = xs" using assms(3) by (simp add: e)
  ultimately show ?thesis using assms by (simp add: received_groups)
qed

end

section \<open>Ids as dictionary keys\<close>

definition hashable :: "json \<Rightarrow> bool" where
  "hashable v = (case v of JArr _ \<Rightarrow> False | JObj _ \<Rightarrow> False | _ \<Rightarrow> True)"

lemma hashable_simps [simp]: "hashable (JStr s)" "hashable JNull"
  by (simp_all add: hashable_def)

text \<open>\<open>d.get(k)\<close> on a dictionary whose keys are request ids.\<close>

definition id_get :: "json \<Rightarrow> (json \<times> 'a) list \<Rightarrow> exn + 'a option" where
  "id_get k d = (if hashable k then Inr (map_of d k) else Inl TypeError)"

lemma id_get_hashable [simp]: "hashable k \<Longrightarrow> id_get k d = Inr (map_of d k)"
  by (simp add: id_get_def)

text \<open>A change of the value of an existing key.\<close>

definition id_update :: "json \<Rightarrow> ('a \<Rightarrow> 'a) \<Rightarrow> (json \<times> 'a) list \<Rightarrow> (json \<times> 'a) list" where
  "id_update k f d = map (\<lambda>(j, v). (j, if j = k then f v else v)) d"

lemma map_of_id_update [simp]:
  "map_of (id_update k f d) j = (if j = k then map_option f (map_of d j) else map_of d j)"
  by (induction d) (auto simp: id_update_def)

lemma keys_id_update [simp]: "map fst (id_update k f d) = map fst d"
  by (induction d) (auto simp: id_update_def)

end
