(* ===== verification/WsRouter.thy ===== *)
theory WsRouter
  imports Demux
begin

text \<open>
  The hub's end of a device socket (\<^verbatim>\<open>hub/ws_router.py\<close>): one connection multiplexes unary
  requests and streams, the registry keeps one connection per device. Waiting is explicit: what the
  event loop does while a caller waits is an argument of the caller.
\<close>

section \<open>The state of a connection\<close>

datatype fut = Pending | Result msg | Failed exn

text \<open>A queue holds text frames, binary chunks under their id, and the mark of a lost connection.\<close>

datatype qitem = Frame msg | Chunk json "byte list" | Closed

record conn =
  cn_device :: string
  cn_owner :: int
  cn_name :: string
  cn_unary :: "(json \<times> fut) list"
  cn_stream :: "(json \<times> qitem list) list"
  cn_closed :: bool
  cn_armed :: json
  cn_direct :: "(json \<times> json \<times> json) option"
  cn_out :: "out list"

definition new_conn :: "string \<Rightarrow> int \<Rightarrow> string \<Rightarrow> conn" where
  "new_conn device_id owner_id name = \<lparr>cn_device = device_id, cn_owner = owner_id, cn_name = name,
     cn_unary = [], cn_stream = [], cn_closed = False, cn_armed = JNull, cn_direct = None, cn_out = []\<rparr>"

section \<open>Incoming frames\<close>

text \<open>\<open>q = pending_stream.get(rid); if q is not None: q.put(item)\<close>.\<close>

definition put_stream :: "json \<Rightarrow> qitem \<Rightarrow> (conn, unit) op" where
  "put_stream rid item c = (case id_get rid (cn_stream c) of
     Inl e \<Rightarrow> (Inl e, c)
   | Inr None \<Rightarrow> (Inr (), c)
   | Inr (Some _) \<Rightarrow> (Inr (), c\<lparr>cn_stream := id_update rid (\<lambda>q. q @ [item]) (cn_stream c)\<rparr>))"

definition stream_frame :: "json \<Rightarrow> bool" where
  "stream_frame t \<longleftrightarrow> is_str ''stream_start'' t \<or> is_str ''stream_chunk'' t \<or> is_str ''stream_end'' t"

definition handle_incoming :: "msg \<Rightarrow> (conn, unit) op" where
  "handle_incoming msg c =
     (let rid = jget msg ''id''; mtype = jget msg ''type'' in
      if is_str ''direct_info'' mtype then
        (Inr (), c\<lparr>cn_direct := Some (jget msg ''port'', jor (jget msg ''hosts'') (JArr []), jget msg ''ticket'')\<rparr>)
      else if is_str ''response'' mtype then
        (case id_get rid (cn_unary c) of
           Inl e \<Rightarrow> (Inl e, c)
         | Inr f \<Rightarrow>
             if f = Some Pending
             then (Inr (), c\<lparr>cn_unary := id_update rid (\<lambda>_. Result msg) (cn_unary c)\<rparr>)
             else put_stream rid (Frame msg) c)
      else if is_str ''stream_chunk_header'' mtype then (Inr (), c\<lparr>cn_armed := rid\<rparr>)
      else if stream_frame mtype then put_stream rid (Frame msg) c
      else if truthy rid then put_stream rid (Frame msg) c
      else (Inr (), c))"

definition handle_incoming_binary :: "byte list \<Rightarrow> (conn, unit) op" where
  "handle_incoming_binary data c =
     (let rid = cn_armed c; c = c\<lparr>cn_armed := JNull\<rparr> in
      if rid = JNull then (Inr (), c) else put_stream rid (Chunk rid data) c)"

definition close_pending :: "string \<Rightarrow> conn \<Rightarrow> conn" where
  "close_pending error c = c\<lparr>cn_closed := True,
     cn_unary := map (\<lambda>(k, f). (k, if f = Pending then Failed (AgentError error) else f)) (cn_unary c),
     cn_stream := map (\<lambda>(k, q). (k, q @ [Closed])) (cn_stream c)\<rparr>"

section \<open>Requests\<close>

definition request_msg :: "json \<Rightarrow> string \<Rightarrow> msg \<Rightarrow> json" where
  "request_msg rid oper args = JObj [(''type'', JStr ''request''), (''id'', rid), (''op'', JStr oper),
     (''args'', JObj args)]"

text \<open>Sending: the socket takes the frame, or raises.\<close>

definition send :: "exn option \<Rightarrow> out list \<Rightarrow> (conn, unit) op" where
  "send fails fs c = (case fails of Some e \<Rightarrow> (Inl e, c) | None \<Rightarrow> (Inr (), c\<lparr>cn_out := cn_out c @ fs\<rparr>))"

text \<open>What the caller makes of its future when the waiting is over; \<open>Pending\<close> is the timeout.\<close>

definition unary_result :: "(json \<Rightarrow> string) \<Rightarrow> fut option \<Rightarrow> exn + json" where
  "unary_result SH f = (case f of
     Some (Result msg) \<Rightarrow>
       if \<not> truthy (jget msg ''ok'')
       then Inl (AgentError (py_str SH (jor (jget msg ''error'') (JStr ''agent error''))))
       else Inr (jor (jget msg ''result'') (JObj []))
   | Some (Failed e) \<Rightarrow> Inl e
   | _ \<Rightarrow> Inl TimeoutError)"

definition request ::
  "(json \<Rightarrow> string) \<Rightarrow> json \<Rightarrow> string \<Rightarrow> msg \<Rightarrow> exn option \<Rightarrow> (conn \<Rightarrow> conn) \<Rightarrow> (conn, json) op" where
  "request SH rid oper args fails during c =
     (let c = c\<lparr>cn_unary := dict_put rid Pending (cn_unary c)\<rparr> in
      case send fails [OutText (request_msg rid oper args)] c of
        (Inl e, c) \<Rightarrow> (Inl e, c\<lparr>cn_unary := dict_pop rid (cn_unary c)\<rparr>)
      | (Inr _, c) \<Rightarrow>
          (let c = during c in
           (unary_result SH (map_of (cn_unary c) rid), c\<lparr>cn_unary := dict_pop rid (cn_unary c)\<rparr>)))"

definition chunk_frames :: "json \<Rightarrow> byte list list \<Rightarrow> out list" where
  "chunk_frames rid chunks = concat (map (chunk_pair rid) (filter (\<lambda>d. d \<noteq> []) chunks))"

definition upload ::
  "(json \<Rightarrow> string) \<Rightarrow> json \<Rightarrow> string \<Rightarrow> msg \<Rightarrow> byte list list \<Rightarrow> exn option \<Rightarrow> (conn \<Rightarrow> conn) \<Rightarrow> (conn, json) op" where
  "upload SH rid oper args chunks fails during c =
     (let c = c\<lparr>cn_unary := dict_put rid Pending (cn_unary c)\<rparr> in
      case send fails (OutText (request_msg rid oper args) # chunk_frames rid chunks @
             [OutText (JObj [(''type'', JStr ''stream_end''), (''id'', rid)])]) c of
        (Inl e, c) \<Rightarrow> (Inl e, c\<lparr>cn_unary := dict_pop rid (cn_unary c)\<rparr>)
      | (Inr _, c) \<Rightarrow>
          (let c = during c in
           (unary_result SH (map_of (cn_unary c) rid), c\<lparr>cn_unary := dict_pop rid (cn_unary c)\<rparr>)))"

section \<open>Streams\<close>

text \<open>
  How a stream goes on: ended, an exception, or waiting for a frame that is not there yet; only
  before the first \<open>stream_start\<close> the waiting has a timeout.
\<close>

datatype stream_end = Ended | Raised exn | Waiting

fun consume :: "(json \<Rightarrow> string) \<Rightarrow> bool \<Rightarrow> qitem list \<Rightarrow> qitem list \<times> stream_end" where
  "consume SH started [] = ([], if started then Waiting else Raised TimeoutError)"
| "consume SH started (Closed # q) = ([], Ended)"
| "consume SH started (Chunk r d # q) = (case consume SH started q of (ys, e) \<Rightarrow> (Chunk r d # ys, e))"
| "consume SH started (Frame m # q) =
     (let t = jget m ''type'' in
      if \<not> truthy (jget_default m ''ok'' (JBool True)) \<and> is_str ''response'' t
      then ([], Raised (AgentError (py_str SH (jor (jget m ''error'') (JStr ''agent error'')))))
      else if is_str ''stream_end'' t then ([Frame m], Ended)
      else (case consume SH (started \<or> is_str ''stream_start'' t) q of (ys, e) \<Rightarrow> (Frame m # ys, e)))"

text \<open>Opening the stream: its queue is there before the request is sent.\<close>

definition stream_open :: "json \<Rightarrow> string \<Rightarrow> msg \<Rightarrow> exn option \<Rightarrow> (conn, unit) op" where
  "stream_open rid oper args fails c =
     (case send fails [OutText (request_msg rid oper args)] (c\<lparr>cn_stream := dict_put rid [] (cn_stream c)\<rparr>) of
        (Inl e, c) \<Rightarrow> (Inl e, c\<lparr>cn_stream := dict_pop rid (cn_stream c)\<rparr>)
      | (Inr _, c) \<Rightarrow> (Inr (), c))"

definition stream ::
  "(json \<Rightarrow> string) \<Rightarrow> json \<Rightarrow> string \<Rightarrow> msg \<Rightarrow> exn option \<Rightarrow> (conn \<Rightarrow> conn) \<Rightarrow>
   (conn, qitem list \<times> stream_end) op" where
  "stream SH rid oper args fails during = bindE (stream_open rid oper args fails) (\<lambda>_ c.
     let c = during c in
     (case map_of (cn_stream c) rid of
        None \<Rightarrow> (Inr ([], Waiting), c)
      | Some q \<Rightarrow> (case consume SH False q of (ys, e) \<Rightarrow>
          (Inr (ys, e), if e = Waiting then c else c\<lparr>cn_stream := dict_pop rid (cn_stream c)\<rparr>))))"

section \<open>The registry\<close>

record registry =
  rg_conns :: "(string \<times> nat) list"
  rg_store :: "nat \<Rightarrow> conn"

definition rg_device :: "registry \<Rightarrow> nat \<Rightarrow> string" where
  "rg_device g k = cn_device (rg_store g k)"

definition rg_close :: "string \<Rightarrow> nat \<Rightarrow> registry \<Rightarrow> registry" where
  "rg_close error k g = g\<lparr>rg_store := (rg_store g)(k := close_pending error (rg_store g k))\<rparr>"

definition register :: "nat \<Rightarrow> registry \<Rightarrow> registry" where
  "register k g =
     (let d = rg_device g k;
          g = (case map_of (rg_conns g) d of
                 Some j \<Rightarrow> if j \<noteq> k then rg_close ''superseded by new connection'' j g else g
               | None \<Rightarrow> g)
      in g\<lparr>rg_conns := dict_put d k (rg_conns g)\<rparr>)"

definition unregister :: "nat \<Rightarrow> registry \<Rightarrow> registry" where
  "unregister k g =
     (let d = rg_device g k;
          g = (if map_of (rg_conns g) d = Some k then g\<lparr>rg_conns := dict_pop d (rg_conns g)\<rparr> else g)
      in rg_close ''agent disconnected'' k g)"

definition registry_get :: "string \<Rightarrow> registry \<Rightarrow> nat option" where
  "registry_get device_id g = map_of (rg_conns g) device_id"

definition registry_online :: "registry \<Rightarrow> string set" where
  "registry_online g = fst ` set (rg_conns g)"

section \<open>Facts\<close>

lemma put_stream_state:
  "hashable rid \<Longrightarrow> snd (put_stream rid item c) =
     c\<lparr>cn_stream := id_update rid (\<lambda>q. q @ [item]) (cn_stream c)\<rparr>"
proof (cases "map_of (cn_stream c) rid")
  case None
  then have "id_update rid (\<lambda>q. q @ [item]) (cn_stream c) = cn_stream c"
    by (force simp: id_update_def map_of_eq_None_iff intro!: map_idI)
  moreover assume "hashable rid"
  ultimately show ?thesis using None by (simp add: put_stream_def)
qed (simp add: put_stream_def)

definition chunk_data :: "qitem list \<Rightarrow> byte list list" where
  "chunk_data q = concat (map (\<lambda>i. case i of Chunk r d \<Rightarrow> [d] | _ \<Rightarrow> []) q)"

definition stream_received :: "conn \<Rightarrow> json \<Rightarrow> byte list list option" where
  "stream_received c rid = map_option chunk_data (map_of (cn_stream c) rid)"

lemma chunk_data_append [simp]: "chunk_data (p @ q) = chunk_data p @ chunk_data q"
  by (simp add: chunk_data_def)

lemma chunk_data_simps [simp]:
  "chunk_data [] = []" "chunk_data [Frame m] = []" "chunk_data [Chunk r d] = [d]" "chunk_data [Closed] = []"
  by (simp_all add: chunk_data_def)

lemma received_put_frame:
  "hashable rid \<Longrightarrow> stream_received (snd (put_stream rid (Frame m) c)) q = stream_received c q"
  by (simp add: put_stream_state stream_received_def option.map_comp comp_def)

definition conn_arm :: "json \<Rightarrow> conn \<Rightarrow> conn" where
  "conn_arm rid c = snd (handle_incoming [(''type'', JStr ''stream_chunk_header''), (''id'', rid)] c)"

definition conn_chunk :: "byte list \<Rightarrow> conn \<Rightarrow> conn" where
  "conn_chunk d c = snd (handle_incoming_binary d c)"

definition conn_text :: "msg \<Rightarrow> conn \<Rightarrow> conn" where
  "conn_text m c = snd (handle_incoming m c)"

definition plain_text :: "msg \<Rightarrow> bool" where
  "plain_text m \<longleftrightarrow> \<not> is_str ''stream_chunk_header'' (jget m ''type'') \<and> hashable (jget m ''id'')"

definition stream_id :: "json \<Rightarrow> bool" where
  "stream_id r \<longleftrightarrow> hashable r \<and> r \<noteq> JNull"

interpretation hub_demux: chunk_demux stream_id plain_text conn_arm conn_chunk conn_text stream_received
proof unfold_locales
  fix r q :: json and d :: "byte list" and c :: conn and m :: msg
  show "stream_id r \<Longrightarrow> stream_received (conn_chunk d (conn_arm r c)) q =
      (if q = r then map_option (\<lambda>l. l @ [d]) (stream_received c r) else stream_received c q)"
    by (simp add: conn_chunk_def conn_arm_def handle_incoming_def handle_incoming_binary_def stream_id_def
        put_stream_state stream_received_def option.map_comp comp_def Let_def)
  show "plain_text m \<Longrightarrow> stream_received (conn_text m c) q = stream_received c q"
    by (auto simp: conn_text_def handle_incoming_def plain_text_def received_put_frame Let_def)
      (simp_all add: stream_received_def)
qed

text \<open>A connection that is lost fails the callers and ends the streams.\<close>

lemma close_pending_unary:
  "map_of (cn_unary (close_pending e c)) k =
     map_option (\<lambda>f. if f = Pending then Failed (AgentError e) else f) (map_of (cn_unary c) k)"
proof -
  have "map_of (map (\<lambda>(k, f). (k, g f)) d) k = map_option g (map_of d k)" for g :: "fut \<Rightarrow> fut" and d
    by (induction d) auto
  then show ?thesis by (simp add: close_pending_def)
qed

lemma close_pending_stream:
  "map_of (cn_stream (close_pending e c)) k = map_option (\<lambda>q. q @ [Closed]) (map_of (cn_stream c) k)"
proof -
  have "map_of (map (\<lambda>(k, q). (k, g q)) d) k = map_option g (map_of d k)"
    for g :: "qitem list \<Rightarrow> qitem list" and d
    by (induction d) auto
  then show ?thesis by (simp add: close_pending_def)
qed

text \<open>A response resolves the waiting request of its id and no other.\<close>

lemma response_resolves:
  assumes "hashable rid" and "map_of (cn_unary c) rid = Some Pending" and "jget m ''id'' = rid"
    and "is_str ''response'' (jget m ''type'')"
  shows "handle_incoming m c = (Inr (), c\<lparr>cn_unary := id_update rid (\<lambda>_. Result m) (cn_unary c)\<rparr>)"
  using assms by (simp add: handle_incoming_def is_str_def)

lemma registry_device_register [simp]: "rg_device (register k g) j = rg_device g j"
  by (simp add: rg_device_def register_def rg_close_def close_pending_def Let_def split: option.split)

lemma registry_device_unregister [simp]: "rg_device (unregister k g) j = rg_device g j"
  by (simp add: rg_device_def unregister_def rg_close_def close_pending_def Let_def)

lemma register_get: "registry_get d (register k g) = (if d = rg_device g k then Some k else registry_get d g)"
  by (simp add: registry_get_def register_def rg_close_def Let_def split: option.split)

lemma unregister_get:
  "registry_get d (unregister k g) =
     (if d = rg_device g k \<and> registry_get d g = Some k then None else registry_get d g)"
  by (auto simp: registry_get_def unregister_def rg_close_def Let_def)

section \<open>Properties\<close>

text \<open>
  C14: multiplexed streams do not mix. However the chunks of two streams are interleaved on the socket,
  each header kept with its frame, the hub's queue of each stream holds that stream's chunks, all of
  them, in order.
\<close>

theorem streams_do_not_mix:
  assumes "gs \<in> shuffles (map (\<lambda>d. Inl (a, d)) xs) (map (\<lambda>d. Inl (b, d)) ys)"
    and "stream_id a" and "stream_id b" and "a \<noteq> b"
    and "stream_received c a = Some []" and "stream_received c b = Some []"
  shows "stream_received (fold hub_demux.group gs c) a = Some xs \<and>
    stream_received (fold hub_demux.group gs c) b = Some ys"
proof (rule hub_demux.interleaved_streams [OF _ assms(1,4-6)])
  have "set gs = set (map (\<lambda>d. Inl (a, d)) xs) \<union> set (map (\<lambda>d. Inl (b, d)) ys)"
    using assms(1) by (rule set_shuffles)
  then show "hub_demux.well_sent gs" using assms(2,3) by (auto simp: hub_demux.well_sent_def)
qed

definition demo_conn :: conn where
  "demo_conn = (new_conn ''d1'' 1 ''phone'')\<lparr>cn_stream := [(JStr ''a'', []), (JStr ''b'', [])]\<rparr>"

theorem streams_do_not_mix_witness:
  "stream_received (fold hub_demux.group [Inl (JStr ''a'', [1]), Inl (JStr ''b'', [2]), Inl (JStr ''a'', [3])]
     demo_conn) (JStr ''a'') = Some [[1], [3]]"
proof -
  have "[Inl (JStr ''a'', [1]), Inl (JStr ''b'', [2]), Inl (JStr ''a'', [3])] \<in>
      shuffles (map (\<lambda>d. Inl (JStr ''a'', d)) [[1], [3]]) (map (\<lambda>d. Inl (JStr ''b'', d) :: (json \<times> byte list) + msg) [[2]])"
    by (simp add: Cons_in_shuffles_iff)
  from conjunct1 [OF streams_do_not_mix [OF this, of demo_conn]] show ?thesis
    by (simp add: stream_id_def demo_conn_def stream_received_def)
qed

text \<open>
  A late tear-down does not disconnect the device. When a device connects again, the new
  connection replaces the old one, whose waiting requests fail at once; the old connection's
  tear-down, whenever it comes, leaves the new one in the registry.
\<close>

theorem new_connection_survives_old_teardown:
  assumes "rg_device g j = rg_device g k" and "j \<noteq> k" and "registry_get (rg_device g k) g = Some j"
    and "map_of (cn_unary (rg_store g j)) r = Some Pending"
  shows "registry_get (rg_device g k) (unregister j (register k g)) = Some k \<and>
    map_of (cn_unary (rg_store (register k g) j)) r = Some (Failed (AgentError ''superseded by new connection''))"
  using assms
  by (simp add: unregister_get register_get)
    (simp add: register_def registry_get_def rg_close_def close_pending_unary Let_def)

definition demo_registry :: registry where
  "demo_registry = \<lparr>rg_conns = [(''d1'', 0)],
     rg_store = (\<lambda>_. (new_conn ''d1'' 1 ''phone'')\<lparr>cn_unary := [(JStr ''r'', Pending)]\<rparr>)\<rparr>"

theorem new_connection_survives_old_teardown_witness:
  "registry_get ''d1'' (unregister 0 (register 1 demo_registry)) = Some 1"
proof -
  have d: "rg_device demo_registry i = ''d1''" for i
    by (simp add: rg_device_def demo_registry_def new_conn_def)
  from conjunct1 [OF new_connection_survives_old_teardown [of demo_registry 0 1 "JStr ''r''"]]
  show ?thesis by (simp add: d) (simp add: registry_get_def demo_registry_def new_conn_def)
qed

text \<open>
  Losing the device fails a request but ends a stream. When the connection drops, a waiting
  request raises; a stream that has started and received some chunks ends without an exception after
  them, exactly like a stream that is complete but for its last frame.
\<close>

theorem disconnect_fails_requests_ends_streams:
  assumes "map_of (cn_unary c) r = Some Pending"
    and "map_of (cn_stream c) q = Some (Frame m # map (Chunk q) ds)"
    and "is_str ''stream_start'' (jget m ''type'')"
  shows "unary_result SH (map_of (cn_unary (close_pending e c)) r) = Inl (AgentError e) \<and>
    map_option (consume SH False) (map_of (cn_stream (close_pending e c)) q) =
      Some (Frame m # map (Chunk q) ds, Ended)"
proof -
  have "consume SH True (map (Chunk q) ds @ [Closed]) = (map (Chunk q) ds, Ended)"
    by (induction ds) simp_all
  then show ?thesis
    using assms by (simp add: close_pending_unary close_pending_stream unary_result_def is_str_def Let_def)
qed

theorem disconnect_fails_requests_ends_streams_witness:
  "map_option (consume (\<lambda>_. []) False) (map_of (cn_stream (close_pending ''gone''
     ((new_conn ''d1'' 1 ''phone'')\<lparr>cn_unary := [(JStr ''r'', Pending)],
        cn_stream := [(JStr ''q'', Frame [(''type'', JStr ''stream_start'')] # map (Chunk (JStr ''q'')) [[1]])]\<rparr>)))
     (JStr ''q'')) = Some (Frame [(''type'', JStr ''stream_start'')] # map (Chunk (JStr ''q'')) [[1]], Ended)"
  by (rule conjunct2 [OF disconnect_fails_requests_ends_streams [where r = "JStr ''r''"]]) simp_all

end
