(* ===== verification/HubSocket.thy ===== *)
theory HubSocket
  imports HubEnroll WsRouter
begin

text \<open>
  The socket endpoint of \<^verbatim>\<open>hub/app.py\<close>, \<open>ws_agent\<close>: the hello of a device, its admission to the
  registry and to the mesh, the receive loop and the tear-down. The state is a hub together with
  its connections; the frames the other end sends are an argument.
\<close>

section \<open>The hub with its connections\<close>

record net =
  nt_hub :: hub
  nt_store :: "nat \<Rightarrow> conn"

definition on_hub :: "(hub, 'a) op \<Rightarrow> (net, 'a) op" where
  "on_hub m = zoom nt_hub (\<lambda>t n. n\<lparr>nt_hub := t\<rparr>) m"

text \<open>The registry: which connection each device has, and the connections.\<close>

definition nt_reg :: "net \<Rightarrow> registry" where
  "nt_reg n = \<lparr>rg_conns = h_conns (nt_hub n), rg_store = nt_store n\<rparr>"

definition set_reg :: "registry \<Rightarrow> net \<Rightarrow> net" where
  "set_reg g n = n\<lparr>nt_hub := (nt_hub n)\<lparr>h_conns := rg_conns g\<rparr>, nt_store := rg_store g\<rparr>"

definition on_reg :: "(registry \<Rightarrow> registry) \<Rightarrow> (net, unit) op" where
  "on_reg f = modify (\<lambda>n. set_reg (f (nt_reg n)) n)"

definition on_conn :: "nat \<Rightarrow> (conn, unit) op \<Rightarrow> (net, unit) op" where
  "on_conn k m n = (case m (nt_store n k) of (r, c) \<Rightarrow> (r, n\<lparr>nt_store := (nt_store n)(k := c)\<rparr>))"

section \<open>Admission\<close>

text \<open>
  How the first frame is taken: none came, or it is refused with a message, or the
  acknowledgement could not be sent, or the device is served, under its id, with the address its
  presence was published under and the acknowledgement it got.
\<close>

datatype admission = NoHello | Refused string | Lost | Serving string string json

text \<open>\<open>(first.get(k) or '')\<close>, which is to be a string.\<close>

definition text_field :: "json \<Rightarrow> string \<Rightarrow> exn + string" where
  "text_field first k = (case jget_or first k JNull of Inl e \<Rightarrow> Inl e
     | Inr v \<Rightarrow> (case jor v (JStr []) of JStr s \<Rightarrow> Inr s | _ \<Rightarrow> Inl AttributeError))"

definition touch :: "string \<Rightarrow> int \<Rightarrow> (net, unit) op" where
  "touch did now = on_hub (on_db (touch_device did now))"

definition ws_enter :: "params \<Rightarrow> int \<Rightarrow> nat \<Rightarrow> string \<Rightarrow> device_cred \<Rightarrow> (net, string) op" where
  "ws_enter X now k did dev =
     thenE (modify (\<lambda>n. n\<lparr>nt_store := (nt_store n)(k := new_conn did (dc_owner_id dev) (dc_name dev))\<rparr>))
    (thenE (on_reg (register k))
    (thenE (touch did now)
    (bindE (asks (\<lambda>n. resolve_public_url X (nt_hub n))) (\<lambda>u. case u of
       Inl _ \<Rightarrow> ret []
     | Inr url \<Rightarrow>
         if url = [] then ret []
         else thenE (catch (on_hub (on_db (publish_device_presence did url now))) (\<lambda>_. ret ())) (ret url)))))"

definition sync_creds :: "params \<Rightarrow> hub \<Rightarrow> (string \<times> json) list" where
  "sync_creds X s =
     (let su = cfg_get (pSH X) (h_cfg s) ''VORTEX_SYNC_URL'' None;
          st = cfg_get (pSH X) (h_cfg s) ''VORTEX_SYNC_TOKEN'' None in
      if su \<noteq> [] \<and> st \<noteq> [] then [(''sync_url'', JStr su), (''sync_token'', JStr st)] else [])"

definition ws_ack :: "params \<Rightarrow> int \<Rightarrow> device_cred \<Rightarrow> (net, json) op" where
  "ws_ack X now dev =
     bindE (on_hub (on_db (list_node_endpoints 180 now))) (\<lambda>ns.
     bindE (asks (\<lambda>n. sync_creds X (nt_hub n))) (\<lambda>creds.
       ret (JObj ([(''type'', JStr ''auth_ok''), (''name'', JStr (dc_name dev)),
         (''nodes'', JArr (map (\<lambda>r. JStr (n_url r)) ns))] @ creds))))"

text \<open>\<open>fails\<close> is what sending the acknowledgement raises, if anything.\<close>

definition ws_accepted ::
  "params \<Rightarrow> int \<Rightarrow> nat \<Rightarrow> exn option \<Rightarrow> string \<Rightarrow> device_cred \<Rightarrow> (net, admission) op" where
  "ws_accepted X now k fails did dev =
     bindE (ws_enter X now k did dev) (\<lambda>url.
       catch (bindE (ws_ack X now dev) (\<lambda>ack.
           case fails of Some e \<Rightarrow> raise e | None \<Rightarrow> ret (Serving did url ack)))
         (\<lambda>_. thenE (on_reg (unregister k)) (ret Lost)))"

text \<open>The token is used only once a device of that id is found.\<close>

definition check_token :: "params \<Rightarrow> string \<Rightarrow> json \<Rightarrow> (net, device_cred option) op" where
  "check_token X did token = (case token of
     JStr tok \<Rightarrow> on_hub (on_db (authenticate_device (pH X) did tok))
   | _ \<Rightarrow> bindE (on_hub (on_db (get_device did))) (\<lambda>d.
       case d of None \<Rightarrow> ret None | Some _ \<Rightarrow> raise AttributeError))"

definition ws_admit ::
  "params \<Rightarrow> int \<Rightarrow> nat \<Rightarrow> exn option \<Rightarrow> json option \<Rightarrow> (net, admission) op" where
  "ws_admit X now k fails hello = (case hello of
     None \<Rightarrow> ret NoHello
   | Some first \<Rightarrow>
       bindE (liftE (jget_or first ''type'' JNull)) (\<lambda>t.
       if \<not> is_str ''auth'' t then ret (Refused ''expected auth'')
       else bindE (liftE (text_field first ''device_id'')) (\<lambda>i.
       bindE (liftE (jget_or first ''token'' JNull)) (\<lambda>token.
       if strip i = [] \<or> \<not> truthy token then ret (Refused ''missing fields'')
       else bindE (check_token X (strip i) token) (\<lambda>dev. case dev of
          None \<Rightarrow> ret (Refused ''invalid credentials'')
        | Some d \<Rightarrow> ws_accepted X now k fails (strip i) d)))))"

section \<open>The receive loop and the tear-down\<close>

datatype wsevt = WsText "json option" | WsBytes "byte list" | WsOther | WsGone

definition ws_event :: "nat \<Rightarrow> string \<Rightarrow> int \<Rightarrow> wsevt \<Rightarrow> (net, unit) op" where
  "ws_event k did now e = thenE (touch did now) (case e of
     WsText (Some (JObj m)) \<Rightarrow> on_conn k (handle_incoming m)
   | WsBytes d \<Rightarrow> on_conn k (handle_incoming_binary d)
   | _ \<Rightarrow> ret ())"

text \<open>Whether the loop has ended: by the socket, or by an exception, which is swallowed.\<close>

fun ws_loop :: "nat \<Rightarrow> string \<Rightarrow> (wsevt \<times> int) list \<Rightarrow> (net, bool) op" where
  "ws_loop k did [] = ret False"
| "ws_loop k did ((WsGone, now) # es) = ret True"
| "ws_loop k did ((e, now) # es) =
     bindE (catch (thenE (ws_event k did now e) (ret True)) (\<lambda>_. ret False)) (\<lambda>go.
       if go then ws_loop k did es else ret True)"

definition ws_teardown :: "nat \<Rightarrow> string \<Rightarrow> string \<Rightarrow> (net, unit) op" where
  "ws_teardown k did url = thenE (on_reg (unregister k))
     (if url = [] then ret ()
      else catch (on_hub (on_db (clear_device_presence did url))) (\<lambda>_. ret ()))"

definition ws_agent ::
  "params \<Rightarrow> int \<Rightarrow> nat \<Rightarrow> exn option \<Rightarrow> json option \<Rightarrow> (wsevt \<times> int) list \<Rightarrow> (net, admission) op" where
  "ws_agent X now k fails hello es = bindE (ws_admit X now k fails hello) (\<lambda>a. case a of
     Serving did url ack \<Rightarrow> bindE (ws_loop k did es) (\<lambda>ended.
       if ended then thenE (ws_teardown k did url) (ret a) else ret a)
   | _ \<Rightarrow> ret a)"

section \<open>Facts\<close>

lemma on_hub_apply: "on_hub m n = (fst (m (nt_hub n)), n\<lparr>nt_hub := snd (m (nt_hub n))\<rparr>)"
  by (simp add: on_hub_def zoom_def split: prod.split)

lemma on_reg_apply [simp]: "on_reg f n = (Inr (), set_reg (f (nt_reg n)) n)"
  by (simp add: on_reg_def)

lemma nt_reg_set [simp]: "nt_reg (set_reg g n) = g"
  by (simp add: nt_reg_def set_reg_def)

lemma set_reg_db [simp]: "h_db (nt_hub (set_reg g n)) = h_db (nt_hub n)"
  by (simp add: set_reg_def)

lemma set_reg_cfg [simp]:
  "h_cfg (nt_hub (set_reg g n)) = h_cfg (nt_hub n)" "resolve_public_url X (nt_hub (set_reg g n)) = resolve_public_url X (nt_hub n)"
  by (simp_all add: set_reg_def resolve_public_url_def public_url_file_def Let_def split: sum.split)

text \<open>Operations on the database leave the registry alone.\<close>

lemma on_hub_reg [simp]: "nt_reg (snd (on_hub (on_db m) n)) = nt_reg n"
  by (simp add: on_hub_apply on_db_apply nt_reg_def)

lemma touch_reg [simp]: "nt_reg (snd (touch did now n)) = nt_reg n"
  by (simp add: touch_def)

text \<open>The device a connection belongs to never changes.\<close>

lemma handle_incoming_device [simp]: "cn_device (snd (handle_incoming m c)) = cn_device c"
  by (auto simp: handle_incoming_def put_stream_def id_get_def Let_def split: option.split)

lemma handle_binary_device [simp]: "cn_device (snd (handle_incoming_binary d c)) = cn_device c"
  by (auto simp: handle_incoming_binary_def put_stream_def id_get_def Let_def split: option.split)

text \<open>What another device's connection \<open>k\<close> cannot change: the entry of device \<open>d\<close>.\<close>

definition not_mine :: "string \<Rightarrow> nat option \<Rightarrow> nat \<Rightarrow> net \<Rightarrow> bool" where
  "not_mine d v k n \<longleftrightarrow> registry_get d (nt_reg n) = v \<and> rg_device (nt_reg n) k \<noteq> d"

lemma not_mine_on_hub [pres]: "preserves (not_mine d v k) (on_hub (on_db m))"
  by (simp add: preserves_def not_mine_def)

lemma not_mine_touch [pres]: "preserves (not_mine d v k) (touch did now)"
  by (simp add: preserves_def not_mine_def)

lemma not_mine_unregister [pres]: "preserves (not_mine d v k) (on_reg (unregister k))"
  by (auto simp: preserves_def not_mine_def unregister_get)

lemma not_mine_on_conn:
  "(\<And>c. cn_device (snd (m c)) = cn_device c) \<Longrightarrow> preserves (not_mine d v k) (on_conn k m)"
  by (auto simp: preserves_def not_mine_def on_conn_def nt_reg_def registry_get_def rg_device_def
      split: prod.split) (metis snd_conv)

lemma not_mine_event [pres]: "preserves (not_mine d v k) (ws_event k did now e)"
  unfolding ws_event_def
  by (intro pres) (auto simp: not_mine_on_conn pres split: wsevt.split option.split json.split)

lemma not_mine_loop [pres]: "preserves (not_mine d v k) (ws_loop k did es)"
proof (induction es)
  case (Cons x es)
  obtain e now where x: "x = (e, now)" by (cases x)
  show ?case unfolding x by (cases e) (simp_all only: ws_loop.simps, (intro pres Cons)+)
qed (simp only: ws_loop.simps pres)

lemma not_mine_teardown [pres]: "preserves (not_mine d v k) (ws_teardown k did url)"
  unfolding ws_teardown_def by (intro pres)

text \<open>The hello of an enrolled device.\<close>

definition hello_ok :: "params \<Rightarrow> db \<Rightarrow> json option \<Rightarrow> string \<Rightarrow> device_row \<Rightarrow> bool" where
  "hello_ok X s hello d r \<longleftrightarrow> (\<exists>kvs i tok. hello = Some (JObj kvs) \<and> jget kvs ''type'' = JStr ''auth'' \<and>
     jor (jget kvs ''device_id'') (JStr []) = JStr i \<and> strip i = d \<and> d \<noteq> [] \<and>
     jget kvs ''token'' = JStr tok \<and> tok \<noteq> [] \<and>
     r \<in> set (devices s) \<and> d_id r = d \<and> d_token_hash r = hash_token (pH X) tok)"

lemma jget_or_obj: "jget_or (JObj kvs) k JNull = Inr (jget kvs k)"
  by (simp add: jget_or_def jget_def)

lemma check_token_state [simp]: "snd (check_token X did token n) = n"
  by (auto simp: check_token_def on_hub_apply on_db_apply bindE_def get_device_def split: json.split option.split sum.split)

lemma ws_admit_ok:
  assumes "answers_reads (h_db (nt_hub n))" and "wf_db (h_db (nt_hub n))" and "hello_ok X (h_db (nt_hub n)) hello d r"
  shows "ws_admit X now k fails hello n = ws_accepted X now k fails d (device_cred_of r) n"
proof -
  obtain kvs i tok where h: "hello = Some (JObj kvs)" "jget kvs ''type'' = JStr ''auth''"
    "jor (jget kvs ''device_id'') (JStr []) = JStr i" "strip i = d" "d \<noteq> []"
    "jget kvs ''token'' = JStr tok" "tok \<noteq> []" "r \<in> set (devices (h_db (nt_hub n)))" "d_id r = d"
    "d_token_hash r = hash_token (pH X) tok"
    using assms(3) by (auto simp: hello_ok_def)
  have "authenticate_device (pH X) d tok (h_db (nt_hub n)) = (Inr (Some (device_cred_of r)), h_db (nt_hub n))"
    using authenticate_device_iff [OF assms(1,2)] h by blast
  then have "check_token X d (JStr tok) n = (Inr (Some (device_cred_of r)), n)"
    by (simp add: check_token_def on_hub_apply on_db_apply)
  then show ?thesis
    by (simp add: ws_admit_def h text_field_def jget_or_obj bindE_def)
qed

lemma ws_admit_refused:
  assumes "answers_reads (h_db (nt_hub n))" and "wf_db (h_db (nt_hub n))"
    and "\<And>d r. \<not> hello_ok X (h_db (nt_hub n)) hello d r"
  shows "\<exists>res. ws_admit X now k fails hello n = (res, n) \<and> (\<forall>did url ack. res \<noteq> Inr (Serving did url ack))"
proof (cases hello)
  case None
  then show ?thesis by (simp add: ws_admit_def)
next
  case (Some first)
  show ?thesis
  proof (cases "\<exists>kvs i tok. first = JObj kvs \<and> jget kvs ''type'' = JStr ''auth'' \<and>
      jor (jget kvs ''device_id'') (JStr []) = JStr i \<and> strip i \<noteq> [] \<and> jget kvs ''token'' = JStr tok \<and> tok \<noteq> []")
    case True
    then obtain kvs i tok where h: "first = JObj kvs" "jget kvs ''type'' = JStr ''auth''"
      "jor (jget kvs ''device_id'') (JStr []) = JStr i" "strip i \<noteq> []" "jget kvs ''token'' = JStr tok" "tok \<noteq> []"
      by blast
    have "d_token_hash r \<noteq> hash_token (pH X) tok" if "r \<in> set (devices (h_db (nt_hub n)))" "d_id r = strip i" for r
      using assms(3) [of "strip i" r] h that unfolding hello_ok_def Some by blast
    then have "authenticate_device (pH X) (strip i) tok (h_db (nt_hub n)) = (Inr None, h_db (nt_hub n))"
      using authenticate_device_None [OF assms(1,2)] by blast
    then have "check_token X (strip i) (JStr tok) n = (Inr None, n)"
      by (simp add: check_token_def on_hub_apply on_db_apply)
    then show ?thesis by (simp add: ws_admit_def Some h text_field_def jget_or_obj bindE_def)
  next
    case False
    have c: "check_token X did token n = (Inr None, n) \<or> (\<exists>e. check_token X did token n = (Inl e, n))"
      if "\<forall>tok. token \<noteq> JStr tok" for did token
      using that assms(1)
      by (cases token) (auto simp: check_token_def on_hub_apply on_db_apply bindE_def get_device_def
          split: option.split)
    show ?thesis
    proof (cases "\<exists>kvs i. first = JObj kvs \<and> jget kvs ''type'' = JStr ''auth'' \<and>
        jor (jget kvs ''device_id'') (JStr []) = JStr i \<and> strip i \<noteq> [] \<and> truthy (jget kvs ''token'')")
      case True
      then obtain kvs i where h: "first = JObj kvs" "jget kvs ''type'' = JStr ''auth''"
        "jor (jget kvs ''device_id'') (JStr []) = JStr i" "strip i \<noteq> []" "truthy (jget kvs ''token'')"
        by blast
      with False have "\<forall>tok. jget kvs ''token'' \<noteq> JStr tok" by fastforce
      from c [OF this, of "strip i"] h show ?thesis
        by (auto simp: ws_admit_def Some text_field_def jget_or_obj bindE_def)
    next
      case False
      then show ?thesis
        by (cases first) (auto simp: ws_admit_def Some text_field_def jget_or_def bindE_def is_str_def jget_def [symmetric]
            split: json.split sum.split)
    qed
  qed
qed

section \<open>Properties\<close>

text \<open>What admission does to the state when the database answers.\<close>

definition entered :: "int \<Rightarrow> nat \<Rightarrow> string \<Rightarrow> device_row \<Rightarrow> string \<Rightarrow> net \<Rightarrow> net" where
  "entered now k d r url n =
     (let g = register k (nt_reg (n\<lparr>nt_store := (nt_store n)(k := new_conn d (d_owner_id r) (d_name r))\<rparr>));
          m = set_reg g n;
          t = snd (touch_device d now (h_db (nt_hub m)))
      in m\<lparr>nt_hub := (nt_hub m)\<lparr>h_db := node_publish d url now t\<rparr>\<rparr>)"

lemma presence_inv_touch:
  assumes "answers s" and "wf_db s" and "r \<in> set (devices s)" and "d_id r = d" and "d \<noteq> []"
  shows "presence_inv d (snd (touch_device d now s))"
proof -
  have "touch_device d now s = (Inr (), s\<lparr>devices := update_where (\<lambda>r. d_id r = d)
      (\<lambda>r. r\<lparr>d_last_seen := Some now\<rparr>) (devices s)\<rparr>)"
    using assms(1) by (simp add: touch_device_def catch_def)
  moreover have "has_key d_id d (devices s)" using assms(3,4) by (auto simp: has_key_iff)
  ultimately show ?thesis using assms
    by (simp add: presence_inv_def wf_defs fk_device_def has_key_def flip: set_map)
qed

lemma ws_enter_ok:
  assumes "answers (h_db (nt_hub n))" and "wf_db (h_db (nt_hub n))"
    and "r \<in> set (devices (h_db (nt_hub n)))" and "d_id r = d" and "d \<noteq> []"
    and "resolve_public_url X (nt_hub n) = Inr url" and "clean_url url \<noteq> []"
  shows "ws_enter X now k d (device_cred_of r) n = (Inr url, entered now k d r url n)"
proof -
  have url: "url \<noteq> []" using assms(7) by (auto simp: clean_url_def strip_def rstrip_slash_def rstrip_by_def lstrip_by_def)
  let ?t = "snd (touch_device d now (h_db (nt_hub n)))"
  let ?n = "n\<lparr>nt_store := (nt_store n)(k := new_conn d (d_owner_id r) (d_name r))\<rparr>"
  let ?m = "set_reg (register k (nt_reg ?n)) ?n"
  let ?p = "?m\<lparr>nt_hub := (nt_hub ?m)\<lparr>h_db := ?t\<rparr>\<rparr>"
  have tch: "touch d now ?m = (Inr (), ?p)"
    by (simp add: touch_def on_hub_apply on_db_apply touch_device_returns)
  have "resolve_public_url X (s\<lparr>h_db := x\<rparr>) = resolve_public_url X s" for s x
    by (simp add: resolve_public_url_def public_url_file_def Let_def split: sum.split)
  then have res: "resolve_public_url X (nt_hub ?p) = Inr url" using assms(6) by simp
  have pub: "catch (on_hub (on_db (publish_device_presence d url now))) (\<lambda>_. ret ()) ?p =
      (Inr (), ?p\<lparr>nt_hub := (nt_hub ?p)\<lparr>h_db := node_publish d url now ?t\<rparr>\<rparr>)"
    by (simp add: catch_def on_hub_apply on_db_apply node_publish_def split: sum.split)
  have "entered now k d r url n = ?p\<lparr>nt_hub := (nt_hub ?p)\<lparr>h_db := node_publish d url now ?t\<rparr>\<rparr>"
    by (simp add: entered_def set_reg_def Let_def)
  moreover have "ws_enter X now k d (device_cred_of r) n =
      (Inr url, ?p\<lparr>nt_hub := (nt_hub ?p)\<lparr>h_db := node_publish d url now ?t\<rparr>\<rparr>)"
    by (simp only: ws_enter_def thenE_def bindE_def modify_apply prod.case sum.case on_reg_apply tch asks_apply
        res url if_False pub ret_apply device_cred_of_def device_cred.simps)
  ultimately show ?thesis by simp
qed

lemma registry_entered [simp]:
  "registry_get d (nt_reg (entered now k d r url n)) = Some k"
  "rg_device (nt_reg (entered now k d r url n)) k = d"
proof -
  let ?g = "nt_reg (n\<lparr>nt_store := (nt_store n)(k := new_conn d (d_owner_id r) (d_name r))\<rparr>)"
  have d: "rg_device ?g k = d" by (simp add: rg_device_def nt_reg_def new_conn_def)
  have e: "nt_reg (entered now k d r url n) = register k ?g"
    by (simp add: entered_def Let_def) (simp add: nt_reg_def set_reg_def)
  show "registry_get d (nt_reg (entered now k d r url n)) = Some k"
    "rg_device (nt_reg (entered now k d r url n)) k = d"
    using d by (simp_all add: e register_get)
qed

lemma ws_admit_served:
  assumes "answers (h_db (nt_hub n))" and "wf_db (h_db (nt_hub n))"
    and "hello_ok X (h_db (nt_hub n)) hello d r"
    and "resolve_public_url X (nt_hub n) = Inr url" and "clean_url url \<noteq> []"
  shows "\<exists>ns. ws_admit X now k None hello n = (Inr (Serving d url (JObj ([(''type'', JStr ''auth_ok''),
      (''name'', JStr (d_name r)), (''nodes'', JArr ns)] @ sync_creds X (nt_hub n)))), entered now k d r url n)"
proof -
  have r: "r \<in> set (devices (h_db (nt_hub n)))" "d_id r = d" "d \<noteq> []"
    using assms(3) by (auto simp: hello_ok_def)
  let ?t = "entered now k d r url n" and ?q = "snd (touch_device d now (h_db (nt_hub n)))"
  have "h_db (nt_hub ?t) = node_publish d url now ?q" by (simp add: entered_def Let_def)
  moreover have "presence_inv d ?q" by (rule presence_inv_touch [OF assms(1,2) r])
  ultimately have ans: "answers (h_db (nt_hub ?t))"
    using presence_inv_publish [of d ?q url now] by (simp add: presence_inv_def)
  have cfg: "sync_creds X (nt_hub ?t) = sync_creds X (nt_hub n)"
    by (simp add: entered_def sync_creds_def Let_def)
  obtain ns where "ws_ack X now (device_cred_of r) ?t = (Inr (JObj ([(''type'', JStr ''auth_ok''),
      (''name'', JStr (d_name r)), (''nodes'', JArr ns)] @ sync_creds X (nt_hub n))), ?t)"
    using ans by (simp add: ws_ack_def bindE_def on_hub_apply on_db_apply list_node_endpoints_def device_cred_of_def cfg)
  then show ?thesis
    by (simp add: ws_admit_ok [OF answers_reads_if [OF assms(1)] assms(2,3)] ws_accepted_def bindE_def catch_def
        ws_enter_ok [OF assms(1,2) r assms(4,5)])
qed

definition demo_net :: net where
  "demo_net = \<lparr>nt_hub = (fresh_hub enrolled_demo)\<lparr>h_url_file := Inr ''https://a''\<rparr>, nt_store = (\<lambda>_. new_conn [] 0 [])\<rparr>"

definition demo_hello :: "json option" where
  "demo_hello = Some (JObj [(''type'', JStr ''auth''), (''device_id'', JStr ''d1''), (''token'', JStr ''t'')])"

lemma demo_net_ok:
  "answers (h_db (nt_hub demo_net))" "wf_db (h_db (nt_hub demo_net))"
  "hello_ok plain_params (h_db (nt_hub demo_net)) demo_hello ''d1'' (hd (devices enrolled_demo))"
  "resolve_public_url plain_params (nt_hub demo_net) = Inr ''https://a''" "clean_url ''https://a'' \<noteq> []"
proof -
  show "answers (h_db (nt_hub demo_net))" "wf_db (h_db (nt_hub demo_net))"
    using enrolled_demo_ok by (simp_all add: demo_net_def)
  have "hd (devices enrolled_demo) \<in> set (devices enrolled_demo)" "d_id (hd (devices enrolled_demo)) = ''d1''"
    "d_token_hash (hd (devices enrolled_demo)) = hash_token (\<lambda>bs. bs) ''t''"
    by (simp_all add: enrolled_demo_def)
  moreover have "strip ''d1'' = ''d1''" by (simp add: strip_def rstrip_by_def lstrip_by_def is_space_def)
  ultimately show "hello_ok plain_params (h_db (nt_hub demo_net)) demo_hello ''d1'' (hd (devices enrolled_demo))"
    by (auto simp: hello_ok_def demo_hello_def demo_net_def jor_def plain_params_def)
  have s: "strip ''https://a'' = ''https://a''" "rstrip_slash ''https://a'' = ''https://a''"
    by (simp_all add: strip_def rstrip_by_def lstrip_by_def is_space_def rstrip_slash_def)
  show "resolve_public_url plain_params (nt_hub demo_net) = Inr ''https://a''"
    by (simp add: resolve_public_url_def public_url_override_def cfg_get_def fresh_hub_def opt_str_def
        blank_def public_url_file_def demo_net_def s or_str_def)
  show "clean_url ''https://a'' \<noteq> []" by (simp add: clean_url_def s)
qed

text \<open>A connection of another device is entered without touching the registration of \<open>d\<close>.\<close>

lemma other_connects:
  assumes "d' \<noteq> d"
  shows "not_mine d (registry_get d (nt_reg n)) k (snd (ws_accepted X now k fails d' dc n))"
proof -
  let ?v = "registry_get d (nt_reg n)"
  let ?m = "n\<lparr>nt_store := (nt_store n)(k := new_conn d' (dc_owner_id dc) (dc_name dc))\<rparr>"
  have m: "not_mine d ?v k ?m"
    using assms by (simp add: not_mine_def rg_device_def nt_reg_def registry_get_def new_conn_def)
  have reg: "preserves (not_mine d ?v k) (on_reg (register k))"
    using assms by (auto simp: preserves_def not_mine_def register_get)
  have enter: "not_mine d ?v k (snd (ws_enter X now k d' dc n))"
  proof -
    have "preserves (not_mine d ?v k) (thenE (on_reg (register k)) (thenE (touch d' now)
       (bindE (asks (\<lambda>n. resolve_public_url X (nt_hub n))) (\<lambda>u. case u of
          Inl _ \<Rightarrow> ret []
        | Inr url \<Rightarrow> if url = [] then ret []
            else thenE (catch (on_hub (on_db (publish_device_presence d' url now))) (\<lambda>_. ret ())) (ret url)))))"
      by (intro pres reg)
    with m show ?thesis by (simp add: ws_enter_def preserves_def thenE_def bindE_def)
  qed
  have rest: "preserves (not_mine d ?v k) (bindE (\<lambda>m. (fst (ws_enter X now k d' dc n), m))
      (\<lambda>url. catch (bindE (ws_ack X now dc) (\<lambda>ack.
         case fails of Some e \<Rightarrow> raise e | None \<Rightarrow> ret (Serving d' url ack)))
       (\<lambda>_. thenE (on_reg (unregister k)) (ret Lost))))"
    unfolding ws_ack_def by (intro pres) (simp add: preserves_def)
  show ?thesis
    using rest [unfolded preserves_def, rule_format, OF enter]
    unfolding ws_accepted_def bindE_def by (cases "ws_enter X now k d' dc n") simp
qed

text \<open>
  C5: only an enrolled device gets a connection. Whatever a client sends first, whatever follows, and
  however the connection ends, the registry's entry of a device changes only if the hello carried the
  id of that device and the token whose hash its row stores.
\<close>

theorem only_enrolled_devices_connect:
  assumes "answers_reads (h_db (nt_hub n))" and "wf_db (h_db (nt_hub n))"
    and "registry_get d (nt_reg (snd (ws_agent X now k fails hello es n))) \<noteq> registry_get d (nt_reg n)"
  shows "\<exists>r. hello_ok X (h_db (nt_hub n)) hello d r"
proof (rule ccontr)
  assume none: "\<nexists>r. hello_ok X (h_db (nt_hub n)) hello d r"
  let ?v = "registry_get d (nt_reg n)"
  show False
  proof (cases "\<exists>d' r. hello_ok X (h_db (nt_hub n)) hello d' r")
    case False
    then obtain res where "ws_admit X now k fails hello n = (res, n)" "\<forall>did url ack. res \<noteq> Inr (Serving did url ack)"
      using ws_admit_refused [OF assms(1,2)] by blast
    then have "snd (ws_agent X now k fails hello es n) = n"
      by (auto simp: ws_agent_def bindE_def split: sum.split admission.split)
    with assms(3) show False by simp
  next
    case True
    then obtain d' r where ok: "hello_ok X (h_db (nt_hub n)) hello d' r" by blast
    with none have ne: "d' \<noteq> d" by blast
    have loop: "preserves (not_mine d ?v k) (case a of
       Serving did url ack \<Rightarrow> bindE (ws_loop k did es) (\<lambda>ended.
         if ended then thenE (ws_teardown k did url) (ret a) else ret a)
       | _ \<Rightarrow> ret a)" for a
      by (cases a) (simp_all only: admission.case, (intro pres)+)
    have "not_mine d ?v k (snd (ws_agent X now k fails hello es n))"
      using other_connects [OF ne, of n k X now fails "device_cred_of r"] loop
      by (auto simp: ws_agent_def ws_admit_ok [OF assms(1,2) ok] bindE_def preserves_def split: prod.split sum.split)
    with assms(3) show False by (simp add: not_mine_def)
  qed
qed

theorem only_enrolled_devices_connect_witness:
  "\<exists>r. hello_ok plain_params (h_db (nt_hub demo_net)) demo_hello ''d1'' r"
proof (rule only_enrolled_devices_connect)
  show "answers_reads (h_db (nt_hub demo_net))" "wf_db (h_db (nt_hub demo_net))"
    using demo_net_ok by simp_all
  have "snd (ws_agent plain_params 100 7 None demo_hello [] demo_net) =
      entered 100 7 ''d1'' (hd (devices enrolled_demo)) ''https://a'' demo_net"
    using ws_admit_served [OF demo_net_ok, of 100 7] by (auto simp: ws_agent_def bindE_def)
  then show "registry_get ''d1'' (nt_reg (snd (ws_agent plain_params 100 7 None demo_hello [] demo_net))) \<noteq>
      registry_get ''d1'' (nt_reg demo_net)"
    by simp (simp add: nt_reg_def registry_get_def demo_net_def)
qed

text \<open>
  C6: the life of a connection. An enrolled device that says hello is registered and, for ninety
  seconds after the last publication, visible at this node's address to the whole mesh; the
  acknowledgement carries the database credentials exactly when both are configured; and the
  tear-down takes it out of the registry and out of the mesh.
\<close>

theorem connection_lifecycle:
  assumes "answers (h_db (nt_hub n))" and "wf_db (h_db (nt_hub n))"
    and "hello_ok X (h_db (nt_hub n)) hello d r"
    and "resolve_public_url X (nt_hub n) = Inr url" and "clean_url url \<noteq> []"
  shows "\<exists>fields t. ws_admit X now k None hello n = (Inr (Serving d url (JObj fields)), t) \<and>
    registry_get d (nt_reg t) = Some k \<and>
    (\<forall>later. presence_lookup d 90 (h_db (nt_hub t)) later = (if later \<le> now + 90 then Some (clean_url url) else None)) \<and>
    (map_of fields ''sync_token'' \<noteq> None \<longleftrightarrow>
       cfg_get (pSH X) (h_cfg (nt_hub n)) ''VORTEX_SYNC_URL'' None \<noteq> [] \<and>
       cfg_get (pSH X) (h_cfg (nt_hub n)) ''VORTEX_SYNC_TOKEN'' None \<noteq> []) \<and>
    registry_get d (nt_reg (snd (ws_teardown k d url t))) = None \<and>
    (\<forall>later. presence_lookup d 90 (h_db (nt_hub (snd (ws_teardown k d url t)))) later \<noteq> Some (clean_url url))"
proof -
  have r: "r \<in> set (devices (h_db (nt_hub n)))" "d_id r = d" "d \<noteq> []"
    using assms(3) by (auto simp: hello_ok_def)
  let ?t = "entered now k d r url n" and ?q = "snd (touch_device d now (h_db (nt_hub n)))"
  have db: "h_db (nt_hub ?t) = node_publish d url now ?q" by (simp add: entered_def Let_def)
  have pinv: "presence_inv d ?q" by (rule presence_inv_touch [OF assms(1,2) r])
  note pinv' = presence_inv_publish [OF pinv, of url now]
  obtain ns where admit: "ws_admit X now k None hello n = (Inr (Serving d url (JObj ([(''type'', JStr ''auth_ok''),
      (''name'', JStr (d_name r)), (''nodes'', JArr ns)] @ sync_creds X (nt_hub n)))), ?t)"
    using ws_admit_served [OF assms] by blast
  let ?f = "[(''type'', JStr ''auth_ok''), (''name'', JStr (d_name r)), (''nodes'', JArr ns)] @ sync_creds X (nt_hub n)"
  have url: "url \<noteq> []" using assms(5) by (auto simp: clean_url_def strip_def rstrip_slash_def rstrip_by_def lstrip_by_def)
  let ?u = "set_reg (unregister k (nt_reg ?t)) ?t"
  have down: "nt_reg (snd (ws_teardown k d url ?t)) = unregister k (nt_reg ?t)"
    "h_db (nt_hub (snd (ws_teardown k d url ?t))) = node_withdraw d url (h_db (nt_hub ?t))"
    using url by (auto simp: ws_teardown_def thenE_def bindE_def catch_def on_hub_apply on_db_apply node_withdraw_def
        nt_reg_def split: sum.split) (simp_all add: set_reg_def)
  show ?thesis
    by (intro exI [of _ ?f] exI [of _ ?t])
      (use admit url dir.lookup_publish [OF pinv assms(5), of 90 now] dir.withdraw_own [OF pinv', of 90] in
        \<open>simp add: db down unregister_get sync_creds_def Let_def\<close>)
qed

theorem connection_lifecycle_witness:
  "\<exists>a t. ws_admit plain_params 100 7 None demo_hello demo_net = (Inr a, t) \<and> registry_get ''d1'' (nt_reg t) = Some 7 \<and>
    presence_lookup ''d1'' 90 (h_db (nt_hub t)) 150 = Some (clean_url ''https://a'')"
  using connection_lifecycle [OF demo_net_ok, of 100 7] by fastforce

text \<open>
  A connection lost while it is acknowledged stays in the mesh. When the acknowledgement cannot be
  sent, the device is taken out of the registry, but its presence is not withdrawn: the other nodes
  are told for ninety seconds that this node holds a connection it does not hold.
\<close>

theorem failed_ack_leaves_presence:
  assumes "answers (h_db (nt_hub n))" and "wf_db (h_db (nt_hub n))"
    and "hello_ok X (h_db (nt_hub n)) hello d r"
    and "resolve_public_url X (nt_hub n) = Inr url" and "clean_url url \<noteq> []"
  shows "\<exists>t. ws_agent X now k (Some e) hello es n = (Inr Lost, t) \<and> registry_get d (nt_reg t) = None \<and>
    presence_lookup d 90 (h_db (nt_hub t)) (now + 90) = Some (clean_url url)"
proof -
  have r: "r \<in> set (devices (h_db (nt_hub n)))" "d_id r = d" "d \<noteq> []"
    using assms(3) by (auto simp: hello_ok_def)
  let ?t = "entered now k d r url n" and ?q = "snd (touch_device d now (h_db (nt_hub n)))"
  have db: "h_db (nt_hub ?t) = node_publish d url now ?q" by (simp add: entered_def Let_def)
  have pinv: "presence_inv d ?q" by (rule presence_inv_touch [OF assms(1,2) r])
  have ans: "answers (h_db (nt_hub ?t))"
    using presence_inv_publish [OF pinv, of url now] by (simp add: db presence_inv_def)
  let ?u = "set_reg (unregister k (nt_reg ?t)) ?t"
  have "snd (ws_ack X now (device_cred_of r) ?t) = ?t"
    using ans by (simp add: ws_ack_def bindE_def on_hub_apply on_db_apply list_node_endpoints_def)
  then have "ws_admit X now k (Some e) hello n = (Inr Lost, ?u)"
    by (auto simp: ws_admit_ok [OF answers_reads_if [OF assms(1)] assms(2,3)] ws_accepted_def bindE_def catch_def
        thenE_def ws_enter_ok [OF assms(1,2) r assms(4,5)] split: prod.split sum.split)
  then show ?thesis
    by (intro exI [of _ ?u])
      (use dir.lookup_publish [OF pinv assms(5), of 90 now] in
        \<open>simp add: ws_agent_def bindE_def unregister_get db\<close>)
qed

theorem failed_ack_leaves_presence_witness:
  "\<exists>t. ws_agent plain_params 100 7 (Some TypeError) demo_hello [] demo_net = (Inr Lost, t) \<and>
    presence_lookup ''d1'' 90 (h_db (nt_hub t)) (100 + 90) = Some (clean_url ''https://a'')"
  using failed_ack_leaves_presence [OF demo_net_ok, of 100 7 TypeError "[]"] by blast

end
