(* ===== verification/AgentFiles.thy ===== *)
theory AgentFiles
  imports Json "HOL-Library.List_Lexorder"
begin

text \<open>
  The agent's view of the file system (\<^verbatim>\<open>agent/agent.py\<close>): paths below the storage root, the
  operations on files and directories the handlers use, and the two read-only handlers. A path is the
  list of its components; what \<open>Path.resolve\<close> makes of one (links and \<^verbatim>\<open>..\<close>) is the parameter
  \<open>RES\<close>, the guess of a content type \<open>MIME\<close>.
\<close>

section \<open>Files\<close>

type_synonym path = "string list"

datatype node = Dir | File "byte list"

text \<open>What exists, in directory order; the top directory always exists.\<close>

type_synonym fs = "(path \<times> node) list"

definition node_at :: "fs \<Rightarrow> path \<Rightarrow> node option" where
  "node_at s p = (if p = [] then Some Dir else map_of s p)"

definition is_dir :: "fs \<Rightarrow> path \<Rightarrow> bool" where
  "is_dir s p \<longleftrightarrow> node_at s p = Some Dir"

definition file_at :: "fs \<Rightarrow> path \<Rightarrow> byte list option" where
  "file_at s p = (case node_at s p of Some (File bs) \<Rightarrow> Some bs | _ \<Rightarrow> None)"

text \<open>\<open>mkdir(parents=True, exist_ok=True)\<close> of a path given by its reversed components.\<close>

fun mkdirs_rev :: "path \<Rightarrow> (fs, unit) op" where
  "mkdirs_rev [] = ret ()"
| "mkdirs_rev (n # up) = bindE (mkdirs_rev up) (\<lambda>_ s.
     case map_of s (rev (n # up)) of
       None \<Rightarrow> (Inr (), dict_put (rev (n # up)) Dir s)
     | Some Dir \<Rightarrow> (Inr (), s)
     | Some (File _) \<Rightarrow> (Inl (OSError ''File exists''), s))"

definition mkdirs :: "path \<Rightarrow> (fs, unit) op" where
  "mkdirs p = mkdirs_rev (rev p)"

text \<open>\<open>open('wb')\<close>, a write at the end, \<open>os.replace\<close> and \<open>unlink\<close>.\<close>

definition open_wb :: "path \<Rightarrow> (fs, unit) op" where
  "open_wb p s = (if is_dir s p then (Inl (IsADirectoryError ''Is a directory''), s)
     else (Inr (), dict_put p (File []) s))"

definition write_at :: "path \<Rightarrow> byte list \<Rightarrow> (fs, unit) op" where
  "write_at p bs = modify (\<lambda>s. case file_at s p of
     Some old \<Rightarrow> dict_put p (File (old @ bs)) s | None \<Rightarrow> s)"

definition replace :: "path \<Rightarrow> path \<Rightarrow> (fs, unit) op" where
  "replace a b s = (case file_at s a of
     None \<Rightarrow> (Inl (FileNotFoundError ''No such file''), s)
   | Some bs \<Rightarrow> if is_dir s b then (Inl (IsADirectoryError ''Is a directory''), s)
       else (Inr (), dict_put b (File bs) (dict_pop a s)))"

definition unlink :: "path \<Rightarrow> (fs, unit) op" where
  "unlink p s = (case file_at s p of None \<Rightarrow> (Inl (FileNotFoundError ''No such file''), s)
     | Some _ \<Rightarrow> (Inr (), dict_pop p s))"

section \<open>Paths below the root\<close>

definition path_parts :: "string \<Rightarrow> path" where
  "path_parts rel = filter (\<lambda>c. c \<noteq> [] \<and> c \<noteq> ''.'') (split_all (CHR ''/'') rel)"

text \<open>\<open>base / rel\<close>: an absolute right operand replaces the left one.\<close>

definition path_join :: "path \<Rightarrow> string \<Rightarrow> path" where
  "path_join base rel = (if startswith ''/'' rel then path_parts rel else base @ path_parts rel)"

definition below :: "path \<Rightarrow> path \<Rightarrow> bool" where
  "below base p \<longleftrightarrow> take (length base) p = base"

definition safe_resolve :: "(path \<Rightarrow> path) \<Rightarrow> path \<Rightarrow> json \<Rightarrow> exn + path" where
  "safe_resolve RES base rel =
     (case jor rel (JStr []) of
        JStr r \<Rightarrow>
          (let r = lstrip_by (\<lambda>c. c = CHR 0x5C) (lstrip_by (\<lambda>c. c = CHR ''/'') r);
               target = RES (path_join base r)
           in if below base target then Inr target
              else Inl (PermissionError ''Path escapes storage root''))
      | _ \<Rightarrow> Inl AttributeError)"

section \<open>Reading handlers\<close>

definition op_stat :: "(path \<Rightarrow> path) \<Rightarrow> (string \<Rightarrow> string option) \<Rightarrow> path \<Rightarrow> json \<Rightarrow> (fs, json) op" where
  "op_stat RES MIME base args = bindE (liftE (jget_or args ''path'' (JStr []))) (\<lambda>rel.
     bindE (liftE (safe_resolve RES base rel)) (\<lambda>p s.
       case node_at s p of
         None \<Rightarrow> (Inr (JObj [(''exists'', JBool False)]), s)
       | Some Dir \<Rightarrow> (Inr (JObj [(''exists'', JBool True), (''is_dir'', JBool True)]), s)
       | Some (File bs) \<Rightarrow> (Inr (JObj [(''exists'', JBool True), (''is_dir'', JBool False),
           (''size'', JInt (int (length bs))),
           (''content_type'', JStr (or_str (opt_str (MIME (last p))) ''application/octet-stream''))]), s)))"

definition children :: "fs \<Rightarrow> path \<Rightarrow> (string \<times> node) list" where
  "children s p = map (\<lambda>(q, n). (last q, n)) (filter (\<lambda>(q, n). q \<noteq> [] \<and> butlast q = p) s)"

text \<open>Directories first, then by name without case; the sort is stable.\<close>

definition entry_key :: "string \<times> node \<Rightarrow> bool \<times> nat list" where
  "entry_key e = (case e of (name, n) \<Rightarrow> (n \<noteq> Dir, map of_char (lower name)))"

definition entry_json :: "(string \<Rightarrow> string option) \<Rightarrow> string \<times> node \<Rightarrow> json" where
  "entry_json MIME e = (case e of
     (name, Dir) \<Rightarrow> JObj [(''name'', JStr name), (''is_dir'', JBool True)]
   | (name, File bs) \<Rightarrow> JObj ([(''name'', JStr name), (''is_dir'', JBool False),
       (''size'', JInt (int (length bs)))]
       @ (if startswith ''image/'' (opt_str (MIME name)) then [(''is_image'', JBool True)] else [])))"

definition op_list_dir :: "(path \<Rightarrow> path) \<Rightarrow> (string \<Rightarrow> string option) \<Rightarrow> path \<Rightarrow> json \<Rightarrow> (fs, json) op" where
  "op_list_dir RES MIME base args = bindE (liftE (jget_or args ''path'' (JStr []))) (\<lambda>rel.
     bindE (liftE (safe_resolve RES base rel)) (\<lambda>p s.
       if \<not> is_dir s p then (Inl (FileNotFoundError ''Not a directory''), s)
       else (Inr (JObj [(''entries'', JArr (map (entry_json MIME) (order_by entry_key (children s p))))]), s)))"

section \<open>Facts\<close>

lemma safe_resolve_below: "safe_resolve RES base rel = Inr p \<Longrightarrow> below base p"
  by (auto simp: safe_resolve_def Let_def split: json.splits if_splits)

lemma below_append [simp]: "below base (base @ p)"
  by (simp add: below_def)

lemma below_iff: "below base p \<longleftrightarrow> (\<exists>q. p = base @ q)"
  by (metis append_take_drop_id below_append below_def)

lemma below_butlast: "below base p \<Longrightarrow> p \<noteq> base \<Longrightarrow> below base (butlast p)"
  by (auto simp: below_iff butlast_append)

text \<open>What an operation may touch: the paths in \<open>A\<close>.\<close>

definition touches :: "(path \<Rightarrow> bool) \<Rightarrow> (fs, 'a) op \<Rightarrow> bool" where
  "touches A m \<longleftrightarrow> (\<forall>s p. \<not> A p \<longrightarrow> map_of (snd (m s)) p = map_of s p)"

named_theorems touch "what operations touch"

lemma touches_bindE [touch]: "touches A m \<Longrightarrow> (\<And>a. touches A (f a)) \<Longrightarrow> touches A (bindE m f)"
  by (auto simp: touches_def bindE_def split: prod.splits sum.splits) (metis snd_conv)+

lemma touches_pure [touch]: "touches A (ret a)" "touches A (raise e)" "touches A (liftE r)" "touches A (asks f)"
  by (simp_all add: touches_def)

lemma touches_thenE [touch]: "touches A m \<Longrightarrow> touches A k \<Longrightarrow> touches A (thenE m k)"
  by (simp add: thenE_def touches_bindE)

lemma touches_catch [touch]: "touches A m \<Longrightarrow> (\<And>e. touches A (h e)) \<Longrightarrow> touches A (catch m h)"
  by (auto simp: touches_def catch_def split: prod.splits sum.splits) (metis snd_conv)+

lemma touches_open_wb [touch]: "A p \<Longrightarrow> touches A (open_wb p)"
  by (auto simp: touches_def open_wb_def)

lemma touches_write_at [touch]: "A p \<Longrightarrow> touches A (write_at p bs)"
  by (auto simp: touches_def write_at_def split: option.split)

lemma touches_replace [touch]: "A a \<Longrightarrow> A b \<Longrightarrow> touches A (replace a b)"
  by (auto simp: touches_def replace_def split: option.split)

lemma touches_unlink [touch]: "A p \<Longrightarrow> touches A (unlink p)"
  by (auto simp: touches_def unlink_def split: option.split)

text \<open>Creating the directories on the way to a path touches only prefixes of it, and no file.\<close>

lemma file_at_put_dir: "map_of s q = None \<Longrightarrow> file_at (dict_put q Dir s) p = file_at s p"
  by (auto simp: file_at_def node_at_def)

lemma mkdirs_rev_files:
  "file_at (snd (mkdirs_rev r s)) p = file_at s p"
proof (induction r arbitrary: s)
  case Nil
  then show ?case by simp
next
  case (Cons n up)
  obtain x t where t: "mkdirs_rev up s = (x, t)" by (cases "mkdirs_rev up s")
  with Cons.IH [of s] have e: "file_at t p = file_at s p" by simp
  have "snd (mkdirs_rev (n # up) s) \<in> {t} \<or>
      map_of t (rev (n # up)) = None \<and> snd (mkdirs_rev (n # up) s) = dict_put (rev (n # up)) Dir t"
    by (simp add: bindE_def t split: sum.split option.split node.split)
  then show ?case using e file_at_put_dir [of t "rev (n # up)" p] by auto
qed

lemma mkdirs_files [simp]: "file_at (snd (mkdirs d s)) p = file_at s p"
  by (simp add: mkdirs_def mkdirs_rev_files)

lemma mkdirs_rev_keeps: "map_of s p = Some n \<Longrightarrow> map_of (snd (mkdirs_rev r s)) p = Some n"
proof (induction r arbitrary: s)
  case Nil
  then show ?case by simp
next
  case (Cons m up)
  obtain x t where t: "mkdirs_rev up s = (x, t)" by (cases "mkdirs_rev up s")
  with Cons have "map_of t p = Some n" by fastforce
  with t show ?case by (auto simp: bindE_def split: sum.split option.split node.split)
qed

lemma mkdirs_keeps: "map_of s p = Some n \<Longrightarrow> map_of (snd (mkdirs d s)) p = Some n"
  by (simp add: mkdirs_def mkdirs_rev_keeps)

lemma file_at_put [simp]:
  "p \<noteq> [] \<Longrightarrow> file_at (dict_put p (File bs) s) q = (if q = p then Some bs else file_at s q)"
  by (auto simp: file_at_def node_at_def)

lemma file_at_pop [simp]: "file_at (dict_pop p s) q = (if q = p then None else file_at s q)"
  by (auto simp: file_at_def node_at_def)

lemma is_dir_put_file [simp]: "is_dir (dict_put p (File bs) s) q \<longleftrightarrow> (if q = p then p = [] else is_dir s q)"
  by (auto simp: is_dir_def node_at_def)

lemma is_dir_no_file: "is_dir s p \<Longrightarrow> file_at s p = None"
  by (simp add: is_dir_def file_at_def)

text \<open>A listing tells every child, directories first.\<close>

lemma list_dir_sorted: "sorted (map entry_key (order_by entry_key (children s p)))"
  by simp

end
