(* ===== verification/AgentSession.thy ===== *)
theory AgentSession
  imports AgentFiles Demux
begin

text \<open>
  The agent's end of a socket (\<^verbatim>\<open>agent/agent.py\<close>, class \<open>Session\<close>): routing of inbound streams,
  the serve loop, the operations that send or receive streams, and the dispatcher. Sending is the
  list of frames sent. What the event loop does while an operation waits is its argument \<open>during\<close>.
\<close>

section \<open>The session\<close>

datatype revent = RChunk "byte list" | REnd | RAbort string

record session =
  ss_queues :: "(json \<times> revent list) list"
  ss_armed :: json
  ss_out :: "out list"
  ss_tasks :: "msg list"

definition new_session :: session where
  "new_session = \<lparr>ss_queues = [], ss_armed = JNull, ss_out = [], ss_tasks = []\<rparr>"

definition send_text :: "json \<Rightarrow> session \<Rightarrow> session" where
  "send_text msg s = s\<lparr>ss_out := ss_out s @ [OutText msg]\<rparr>"

definition send_chunk :: "json \<Rightarrow> byte list \<Rightarrow> session \<Rightarrow> session" where
  "send_chunk rid data s = s\<lparr>ss_out := ss_out s @ chunk_pair rid data\<rparr>"

definition open_recv :: "json \<Rightarrow> session \<Rightarrow> session" where
  "open_recv rid s = s\<lparr>ss_queues := dict_put rid [] (ss_queues s)\<rparr>"

definition close_recv :: "json \<Rightarrow> session \<Rightarrow> session" where
  "close_recv rid s = s\<lparr>ss_queues := dict_pop rid (ss_queues s)\<rparr>"

definition route_text_frame :: "msg \<Rightarrow> (session, bool) op" where
  "route_text_frame msg s =
     (let rid = jget msg ''id''; mtype = jget msg ''type'' in
      if is_str ''stream_chunk_header'' mtype \<and> truthy rid then (Inr True, s\<lparr>ss_armed := rid\<rparr>)
      else if is_str ''stream_end'' mtype then
        (case id_get rid (ss_queues s) of
           Inl e \<Rightarrow> (Inl e, s)
         | Inr None \<Rightarrow> (Inr False, s)
         | Inr (Some _) \<Rightarrow> (Inr True, s\<lparr>ss_queues := id_update rid (\<lambda>q. q @ [REnd]) (ss_queues s)\<rparr>))
      else (Inr False, s))"

definition route_binary_frame :: "byte list \<Rightarrow> (session, bool) op" where
  "route_binary_frame data s =
     (let rid = ss_armed s; s = s\<lparr>ss_armed := JNull\<rparr> in
      if rid = JNull then (Inr False, s)
      else case id_get rid (ss_queues s) of
         Inl e \<Rightarrow> (Inl e, s)
       | Inr None \<Rightarrow> (Inr False, s)
       | Inr (Some _) \<Rightarrow> (Inr True, s\<lparr>ss_queues := id_update rid (\<lambda>q. q @ [RChunk data]) (ss_queues s)\<rparr>))"

text \<open>One turn of the serve loop; text that does not parse is \<open>None\<close> and skipped.\<close>

datatype inframe = InText "json option" | InBytes "byte list"

definition serve_frame :: "inframe \<Rightarrow> (session, unit) op" where
  "serve_frame f = (case f of
     InBytes d \<Rightarrow> bindE (route_binary_frame d) (\<lambda>_. ret ())
   | InText None \<Rightarrow> ret ()
   | InText (Some (JObj msg)) \<Rightarrow> bindE (route_text_frame msg) (\<lambda>handled.
       if handled then ret ()
       else if is_str ''request'' (jget msg ''type'') then modify (\<lambda>s. s\<lparr>ss_tasks := ss_tasks s @ [msg]\<rparr>)
       else ret ())
   | InText (Some _) \<Rightarrow> raise AttributeError)"

text \<open>The frames of the other end as they arrive.\<close>

fun arrives :: "out \<Rightarrow> inframe" where
  "arrives (OutText j) = InText (Some j)"
| "arrives (OutBytes d) = InBytes d"

definition serve_out :: "out \<Rightarrow> session \<Rightarrow> session" where
  "serve_out f s = snd (serve_frame (arrives f) s)"

section \<open>The state of the agent\<close>

record agent =
  ag_sess :: session
  ag_fs :: fs

definition on_sess :: "(session \<Rightarrow> session) \<Rightarrow> (agent, unit) op" where
  "on_sess f = modify (\<lambda>a. a\<lparr>ag_sess := f (ag_sess a)\<rparr>)"

definition on_fs :: "(fs, 'a) op \<Rightarrow> (agent, 'a) op" where
  "on_fs m = zoom ag_fs (\<lambda>t a. a\<lparr>ag_fs := t\<rparr>) m"

lemma on_fs_apply: "on_fs m a = (fst (m (ag_fs a)), a\<lparr>ag_fs := snd (m (ag_fs a))\<rparr>)"
  by (simp add: on_fs_def zoom_def split: prod.split)

lemma on_sess_apply [simp]: "on_sess f a = (Inr (), a\<lparr>ag_sess := f (ag_sess a)\<rparr>)"
  by (simp add: on_sess_def)

section \<open>Receiving a file\<close>

text \<open>The loop that drains the queue into the temporary file; an empty queue is the timeout.\<close>

fun drain :: "path \<Rightarrow> revent list \<Rightarrow> nat \<Rightarrow> (fs, nat) op" where
  "drain tmp [] n = raise TimeoutError"
| "drain tmp (REnd # es) n = ret n"
| "drain tmp (RChunk d # es) n = thenE (write_at tmp d) (drain tmp es (n + length d))"
| "drain tmp (RAbort r # es) n = raise (OSError (''upload aborted: '' @ r))"

definition part_path :: "path \<Rightarrow> path" where
  "part_path p = butlast p @ [last p @ ''.part'']"

definition json_is_int :: "json \<Rightarrow> int \<Rightarrow> bool" where
  "json_is_int v n \<longleftrightarrow> (case v of JInt i \<Rightarrow> i = n | JFloat q \<Rightarrow> q = of_int n
     | JBool b \<Rightarrow> n = (if b then 1 else 0) | _ \<Rightarrow> False)"

definition queue_of :: "json \<Rightarrow> agent \<Rightarrow> revent list" where
  "queue_of rid a = (case map_of (ss_queues (ag_sess a)) rid of Some q \<Rightarrow> q | None \<Rightarrow> [])"

definition op_write_file ::
  "(path \<Rightarrow> path) \<Rightarrow> path \<Rightarrow> json \<Rightarrow> json \<Rightarrow> (agent \<Rightarrow> agent) \<Rightarrow> (agent, json) op" where
  "op_write_file RES base rid args during =
     bindE (liftE (jget_or args ''path'' (JStr []))) (\<lambda>rel.
     bindE (liftE (jget_or args ''size'' JNull)) (\<lambda>expected.
     bindE (liftE (safe_resolve RES base rel)) (\<lambda>p.
     bindE (asks (\<lambda>a. is_dir (ag_fs a) p)) (\<lambda>dir.
     if dir then raise (IsADirectoryError ''is a directory; refuse to overwrite'')
     else
       thenE (on_fs (mkdirs (butlast p)))
      (thenE (on_sess (open_recv rid))
      (let tmp = part_path p;
           body = thenE (on_fs (open_wb tmp)) (thenE (modify during)
             (bindE (asks (queue_of rid)) (\<lambda>q. bindE (on_fs (drain tmp q 0)) (\<lambda>n.
                thenE (on_fs (replace tmp p)) (ret n)))));
           guarded = catch body (\<lambda>e. thenE (catch (on_fs (unlink tmp)) (\<lambda>_. ret ())) (raise e));
           closed = catch (bindE guarded (\<lambda>n. thenE (on_sess (close_recv rid)) (ret n)))
             (\<lambda>e. thenE (on_sess (close_recv rid)) (raise e))
       in bindE closed (\<lambda>n.
            if expected \<noteq> JNull \<and> \<not> json_is_int expected (int n)
            then ret (JObj [(''path'', rel), (''written'', JInt (int n)), (''expected'', expected),
                   (''warning'', JStr ''size mismatch'')])
            else ret (JObj [(''path'', rel), (''written'', JInt (int n))]))))))))"

section \<open>Sending streams\<close>

definition CHUNK_SIZE :: nat where
  "CHUNK_SIZE = 256 * 1024"

function chunks_of :: "nat \<Rightarrow> byte list \<Rightarrow> byte list list" where
  "chunks_of n bs = (if bs = [] \<or> n = 0 then [] else take n bs # chunks_of n (drop n bs))"
  by auto
termination by (relation "measure (\<lambda>(n, bs). length bs)") auto

declare chunks_of.simps [simp del]

definition stream_end_msg :: "json \<Rightarrow> msg \<Rightarrow> json" where
  "stream_end_msg rid extra = JObj ([(''type'', JStr ''stream_end''), (''id'', rid)] @ extra)"

definition op_read_file_stream ::
  "(path \<Rightarrow> path) \<Rightarrow> (string \<Rightarrow> string option) \<Rightarrow> path \<Rightarrow> json \<Rightarrow> json \<Rightarrow> (agent, unit) op" where
  "op_read_file_stream RES MIME base rid args =
     bindE (liftE (jget_or args ''path'' (JStr []))) (\<lambda>rel.
     bindE (liftE (safe_resolve RES base rel)) (\<lambda>p.
     bindE (asks (\<lambda>a. file_at (ag_fs a) p)) (\<lambda>content.
       case content of None \<Rightarrow> raise (FileNotFoundError ''Not a file'')
       | Some bs \<Rightarrow>
           thenE (on_sess (send_text (JObj [(''type'', JStr ''stream_start''), (''id'', rid),
             (''size'', JInt (int (length bs))),
             (''content_type'', JStr (or_str (opt_str (MIME (last p))) ''application/octet-stream''))])))
          (thenE (on_sess (fold (send_chunk rid) (chunks_of CHUNK_SIZE bs)))
             (on_sess (send_text (stream_end_msg rid [])))))))"

text \<open>
  A source of frames: it is not available, with a message, or delivers some frames and then ends or
  fails. The camera and the screen are forwarded the same way; the end is announced also when the
  source fails.
\<close>

type_synonym source = "string + (byte list list \<times> exn option)"

definition forward_stream :: "source \<Rightarrow> json \<Rightarrow> (agent, unit) op" where
  "forward_stream src rid = (case src of
     Inl m \<Rightarrow> raise (RuntimeError m)
   | Inr (frames, fails) \<Rightarrow>
       thenE (on_sess (send_text (JObj [(''type'', JStr ''stream_start''), (''id'', rid),
          (''content_type'', JStr ''image/jpeg'')])))
      (thenE (on_sess (fold (send_chunk rid) frames))
      (thenE (on_sess (send_text (stream_end_msg rid [(''frames'', JInt (int (length frames)))])))
         (case fails of None \<Rightarrow> ret () | Some e \<Rightarrow> raise e))))"

definition op_camera_stream :: "source \<Rightarrow> json \<Rightarrow> json \<Rightarrow> (agent, unit) op" where
  "op_camera_stream src rid args = forward_stream src rid"

text \<open>\<open>int(args.get(k, d) or d)\<close>.\<close>

definition int_arg :: "json \<Rightarrow> string \<Rightarrow> int \<Rightarrow> exn + int" where
  "int_arg args k d = (case jget_or args k (JInt d) of Inl e \<Rightarrow> Inl e
     | Inr v \<Rightarrow> jint (if truthy v then v else JInt d))"

text \<open>\<open>float(v)\<close>; the number a string denotes is the parameter \<open>FL\<close>.\<close>

fun jfloat :: "(string \<Rightarrow> rat option) \<Rightarrow> json \<Rightarrow> exn + rat" where
  "jfloat FL (JInt i) = Inr (of_int i)"
| "jfloat FL (JBool b) = Inr (if b then 1 else 0)"
| "jfloat FL (JFloat q) = Inr q"
| "jfloat FL (JStr s) = (case FL s of Some q \<Rightarrow> Inr q | None \<Rightarrow> Inl (ValueError ''could not convert string to float''))"
| "jfloat FL JNull = Inl TypeError"
| "jfloat FL (JArr xs) = Inl TypeError"
| "jfloat FL (JObj kvs) = Inl TypeError"

definition float_arg :: "(string \<Rightarrow> rat option) \<Rightarrow> json \<Rightarrow> string \<Rightarrow> rat \<Rightarrow> exn + rat" where
  "float_arg FL args k d = (case jget_or args k (JFloat d) of Inl e \<Rightarrow> Inl e
     | Inr v \<Rightarrow> jfloat FL (if truthy v then v else JFloat d))"

text \<open>
  The screen: on a phone the driver's frames, elsewhere a capture with the quality, the largest
  dimension, the frame rate and the monitor asked for; zero stands for the default of each.
\<close>

definition op_screen_stream ::
  "(string \<Rightarrow> rat option) \<Rightarrow> bool \<Rightarrow> source \<Rightarrow> (int \<Rightarrow> int \<Rightarrow> rat \<Rightarrow> int \<Rightarrow> source) \<Rightarrow> json \<Rightarrow> json \<Rightarrow> (agent, unit) op" where
  "op_screen_stream FL android phone_src pc_src rid args =
     (if android then forward_stream phone_src rid
      else bindE (liftE (int_arg args ''quality'' 60)) (\<lambda>q.
        bindE (liftE (int_arg args ''max_dim'' 0)) (\<lambda>md.
        bindE (liftE (float_arg FL args ''fps_cap'' 10)) (\<lambda>fps.
        bindE (liftE (int_arg args ''monitor'' 1)) (\<lambda>mon.
          forward_stream (pc_src q md fps mon) rid)))))"

section \<open>The dispatcher\<close>

definition op_error :: "exn \<Rightarrow> bool" where
  "op_error e = (case e of PermissionError _ \<Rightarrow> True | FileNotFoundError _ \<Rightarrow> True
     | IsADirectoryError _ \<Rightarrow> True | OSError _ \<Rightarrow> True | ConnectionError _ \<Rightarrow> True
     | ValueError _ \<Rightarrow> True | RuntimeError _ \<Rightarrow> True | TimeoutError \<Rightarrow> True | _ \<Rightarrow> False)"

text \<open>\<open>f"{type(e).__name__}: {e}"\<close> of those.\<close>

definition error_text :: "exn \<Rightarrow> string" where
  "error_text e = (case e of PermissionError m \<Rightarrow> ''PermissionError: '' @ m
     | FileNotFoundError m \<Rightarrow> ''FileNotFoundError: '' @ m
     | IsADirectoryError m \<Rightarrow> ''IsADirectoryError: '' @ m | OSError m \<Rightarrow> ''OSError: '' @ m
     | ConnectionError m \<Rightarrow> ''ConnectionError: '' @ m | ValueError m \<Rightarrow> ''ValueError: '' @ m
     | RuntimeError m \<Rightarrow> ''RuntimeError: '' @ m | TimeoutError \<Rightarrow> ''TimeoutError: '' | _ \<Rightarrow> [])"

definition ok_response :: "json \<Rightarrow> json \<Rightarrow> json" where
  "ok_response rid result = JObj [(''type'', JStr ''response''), (''id'', rid), (''ok'', JBool True),
     (''result'', result)]"

definition fail_response :: "json \<Rightarrow> string \<Rightarrow> json" where
  "fail_response rid err = JObj [(''type'', JStr ''response''), (''id'', rid), (''ok'', JBool False),
     (''error'', JStr err)]"

definition UNARY_OPS :: "string list" where
  "UNARY_OPS = [''stat'', ''list_dir'', ''system_info'', ''device_info'', ''thumbnail'',
     ''camera_info'', ''input'', ''keepawake'']"

definition STREAM_OPS :: "string list" where
  "STREAM_OPS = [''read_file'', ''camera_capture'', ''camera_stream'', ''screen_stream'',
     ''location'', ''record_audio'']"

definition ASYNC_RECV_OPS :: "string list" where
  "ASYNC_RECV_OPS = [''write_file'']"

text \<open>The handlers: of the tables above, by name.\<close>

record handlers =
  hs_unary :: "string \<Rightarrow> json \<Rightarrow> (agent, json) op"
  hs_stream :: "string \<Rightarrow> json \<Rightarrow> json \<Rightarrow> (agent, unit) op"
  hs_recv :: "string \<Rightarrow> json \<Rightarrow> json \<Rightarrow> (agent, json) op"

definition respond :: "json \<Rightarrow> (agent, json) op \<Rightarrow> (agent, unit) op" where
  "respond rid m = bindE (catch (bindE m (\<lambda>r. ret (ok_response rid r)))
       (\<lambda>e. if op_error e then ret (fail_response rid (error_text e)) else raise e))
     (\<lambda>reply. on_sess (send_text reply))"

definition handle_request :: "handlers \<Rightarrow> (json \<Rightarrow> string) \<Rightarrow> msg \<Rightarrow> (agent, unit) op" where
  "handle_request h SH msg =
     (let rid = jget msg ''id''; oper = jget msg ''op''; args = jor (jget msg ''args'') (JObj []) in
      if \<not> hashable oper then raise TypeError
      else case as_str oper of
        Some name \<Rightarrow>
          if name \<in> set UNARY_OPS then respond rid (hs_unary h name args)
          else if name \<in> set STREAM_OPS then
            catch (hs_stream h name rid args)
              (\<lambda>e. if op_error e then on_sess (send_text (fail_response rid (error_text e))) else raise e)
          else if name \<in> set ASYNC_RECV_OPS then respond rid (hs_recv h name rid args)
          else on_sess (send_text (fail_response rid (''unknown op: '' @ name)))
      | None \<Rightarrow> on_sess (send_text (fail_response rid (''unknown op: '' @ py_str SH oper))))"

section \<open>Facts about streams\<close>

definition recv_chunks :: "session \<Rightarrow> json \<Rightarrow> byte list list option" where
  "recv_chunks s rid = map_option (\<lambda>q. concat (map (\<lambda>e. case e of RChunk d \<Rightarrow> [d] | _ \<Rightarrow> []) q))
     (map_of (ss_queues s) rid)"

definition sess_arm :: "json \<Rightarrow> session \<Rightarrow> session" where
  "sess_arm rid s = snd (route_text_frame [(''type'', JStr ''stream_chunk_header''), (''id'', rid)] s)"

definition sess_chunk :: "byte list \<Rightarrow> session \<Rightarrow> session" where
  "sess_chunk d s = snd (route_binary_frame d s)"

definition sess_text :: "msg \<Rightarrow> session \<Rightarrow> session" where
  "sess_text m s = snd (route_text_frame m s)"

definition sess_plain :: "msg \<Rightarrow> bool" where
  "sess_plain m \<longleftrightarrow> \<not> is_str ''stream_chunk_header'' (jget m ''type'')"

lemma id_update_none: "map_of d k = None \<Longrightarrow> id_update k f d = d"
  by (force simp: id_update_def map_of_eq_None_iff intro!: map_idI)

interpretation agent_demux: chunk_demux "\<lambda>r. hashable r \<and> truthy r" sess_plain sess_arm sess_chunk
  sess_text recv_chunks
proof unfold_locales
  fix r q :: json and d :: "byte list" and s :: session and m :: msg
  show "hashable r \<and> truthy r \<Longrightarrow> recv_chunks (sess_chunk d (sess_arm r s)) q =
      (if q = r then map_option (\<lambda>l. l @ [d]) (recv_chunks s r) else recv_chunks s q)"
    by (cases "r = JNull")
      (auto simp: sess_chunk_def sess_arm_def route_text_frame_def route_binary_frame_def recv_chunks_def
        option.map_comp comp_def Let_def split: option.split)
  show "sess_plain m \<Longrightarrow> recv_chunks (sess_text m s) q = recv_chunks s q"
    by (auto simp: sess_text_def route_text_frame_def recv_chunks_def sess_plain_def option.map_comp comp_def
        Let_def split: option.split sum.split)
qed

text \<open>What the queue holds after the frames of an upload.\<close>

lemma serve_chunk_pair:
  assumes "hashable rid" and "truthy rid" and "map_of (ss_queues s) rid = Some q"
  shows "fold serve_out (chunk_pair rid d) s =
    s\<lparr>ss_queues := id_update rid (\<lambda>q. q @ [RChunk d]) (ss_queues s), ss_armed := JNull\<rparr>"
proof -
  have "rid \<noteq> JNull" using assms(2) by auto
  then show ?thesis using assms
    by (simp add: chunk_pair_def serve_out_def serve_frame_def route_text_frame_def route_binary_frame_def
        bindE_def Let_def)
qed

lemma serve_chunks:
  assumes "hashable rid" and "truthy rid"
  shows "map_of (ss_queues s) rid = Some q \<Longrightarrow>
    map_of (ss_queues (fold serve_out (concat (map (chunk_pair rid) cs)) s)) rid = Some (q @ map RChunk cs)"
proof (induction cs arbitrary: s q)
  case Nil
  then show ?case by simp
next
  case (Cons c cs)
  from Cons.IH [of "fold serve_out (chunk_pair rid c) s" "q @ [RChunk c]"] Cons.prems assms
  show ?case by (simp add: serve_chunk_pair)
qed

lemma serve_stream_end:
  assumes "hashable rid" and "map_of (ss_queues s) rid = Some q"
  shows "map_of (ss_queues (serve_out (OutText (stream_end_msg rid [])) s)) rid = Some (q @ [REnd])"
  using assms
  by (simp add: serve_out_def serve_frame_def route_text_frame_def stream_end_msg_def bindE_def Let_def)

text \<open>Draining writes the chunks behind each other.\<close>

lemma drain_chunks:
  assumes "tmp \<noteq> []"
  shows "file_at s tmp = Some old \<Longrightarrow> \<exists>t. drain tmp (map RChunk cs @ REnd # es) n s =
     (Inr (n + length (concat cs)), t) \<and> file_at t tmp = Some (old @ concat cs) \<and>
     (\<forall>q. q \<noteq> tmp \<longrightarrow> map_of t q = map_of s q)"
proof (induction cs arbitrary: s n old)
  case Nil
  then show ?case by simp
next
  case (Cons c cs)
  let ?t = "dict_put tmp (File (old @ c)) s"
  have w: "write_at tmp c s = (Inr (), ?t)" using Cons.prems by (simp add: write_at_def)
  have "file_at ?t tmp = Some (old @ c)" using assms by simp
  from Cons.IH [OF this, of "n + length c"] show ?case
    by (auto simp: thenE_def bindE_def w)
qed

lemma touches_drain: "A tmp \<Longrightarrow> touches A (drain tmp es n)"
  by (induction tmp es n rule: drain.induct) (auto intro!: touch)

lemma concat_chunks_of: "0 < n \<Longrightarrow> concat (chunks_of n bs) = bs"
  by (induction n bs rule: chunks_of.induct) (subst chunks_of.simps, simp)

lemma chunks_of_ne: "c \<in> set (chunks_of n bs) \<Longrightarrow> c \<noteq> [] \<and> length c \<le> n"
proof (induction n bs rule: chunks_of.induct)
  case (1 n bs)
  show ?case
  proof (cases "bs = [] \<or> n = 0")
    case True
    then have "chunks_of n bs = []" by (subst chunks_of.simps) simp
    with 1 show ?thesis by simp
  next
    case False
    then have "chunks_of n bs = take n bs # chunks_of n (drop n bs)" by (subst chunks_of.simps) simp
    with 1 False show ?thesis by auto
  qed
qed

lemma send_chunks_out: "ss_out (fold (send_chunk rid) cs s) = ss_out s @ concat (map (chunk_pair rid) cs)"
  by (induction cs arbitrary: s) (simp_all add: send_chunk_def)

end
