(* ===== verification/FileTransfer.thy ===== *)
theory FileTransfer
  imports WsRouter AgentSession
begin

text \<open>
  Files on their way between a hub and a device: the frames one end sends are the frames the other end
  serves. The operation tables of the agent, the delivery of its frames to the connection, and what
  an upload and a download do from end to end.
\<close>

section \<open>The two ends together\<close>

text \<open>
  The tables of the dispatcher with the file operations in place; the other operations are the
  parameter \<open>oth\<close>, the frames of the camera the parameter \<open>cam\<close>.
\<close>

definition agent_handlers ::
  "(path \<Rightarrow> path) \<Rightarrow> (string \<Rightarrow> string option) \<Rightarrow> path \<Rightarrow> (agent \<Rightarrow> agent) \<Rightarrow> source \<Rightarrow> handlers \<Rightarrow> handlers" where
  "agent_handlers RES MIME base during cam oth =
     \<lparr>hs_unary = (\<lambda>name args.
        if name = ''stat'' then on_fs (op_stat RES MIME base args)
        else if name = ''list_dir'' then on_fs (op_list_dir RES MIME base args)
        else hs_unary oth name args),
      hs_stream = (\<lambda>name rid args.
        if name = ''read_file'' then op_read_file_stream RES MIME base rid args
        else if name = ''camera_stream'' then op_camera_stream cam rid args
        else hs_stream oth name rid args),
      hs_recv = (\<lambda>name rid args. op_write_file RES base rid args during)\<rparr>"

definition request_fields :: "json \<Rightarrow> string \<Rightarrow> msg \<Rightarrow> msg" where
  "request_fields rid oper args = [(''type'', JStr ''request''), (''id'', rid), (''op'', JStr oper), (''args'', JObj args)]"

lemma request_msg_fields: "request_msg rid oper args = JObj (request_fields rid oper args)"
  by (simp add: request_msg_def request_fields_def)

text \<open>What follows the request of an upload.\<close>

definition upload_tail :: "json \<Rightarrow> byte list list \<Rightarrow> out list" where
  "upload_tail rid chunks = chunk_frames rid chunks @ [OutText (stream_end_msg rid [])]"

definition arriving :: "out list \<Rightarrow> agent \<Rightarrow> agent" where
  "arriving fs a = a\<lparr>ag_sess := fold serve_out fs (ag_sess a)\<rparr>"

text \<open>A frame of the agent at the hub: an object or bytes; other texts are skipped.\<close>

definition hub_frame :: "out \<Rightarrow> conn \<Rightarrow> conn" where
  "hub_frame f c = (case f of OutText (JObj m) \<Rightarrow> snd (handle_incoming m c)
     | OutText _ \<Rightarrow> c | OutBytes d \<Rightarrow> snd (handle_incoming_binary d c))"

section \<open>Receiving a file\<close>

lemma part_path_simps [simp]: "part_path p \<noteq> []" "length (part_path p) = Suc (length p - 1)"
  "p \<noteq> [] \<Longrightarrow> part_path p \<noteq> p" "p \<noteq> [] \<Longrightarrow> p \<noteq> part_path p"
proof -
  show "part_path p \<noteq> []" "length (part_path p) = Suc (length p - 1)" by (simp_all add: part_path_def)
  assume "p \<noteq> []"
  then have "part_path p = p \<longleftrightarrow> butlast p @ [last p @ ''.part''] = butlast p @ [last p]"
    by (simp add: part_path_def)
  then have "part_path p \<noteq> p" by simp
  then show "part_path p \<noteq> p" "p \<noteq> part_path p" by auto
qed

lemma touches_mkdirs_rev: "touches (\<lambda>q. length q \<le> length r) (mkdirs_rev r)"
proof (induction r)
  case Nil
  show ?case by (simp add: touches_def)
next
  case (Cons n up)
  have "touches (\<lambda>q. length q \<le> length (n # up)) (mkdirs_rev up)"
    using Cons by (simp add: touches_def)
  then show ?case
    unfolding mkdirs_rev.simps
    by (rule touches_bindE) (auto simp: touches_def split: option.split node.split)
qed

lemma mkdirs_untouched: "length d < length q \<Longrightarrow> map_of (snd (mkdirs d s)) q = map_of s q"
  using touches_mkdirs_rev [of "rev d"] by (simp add: touches_def mkdirs_def)

lemma concat_nonempty [simp]: "concat (filter (\<lambda>d. d \<noteq> []) cs) = concat cs"
  by (induction cs) auto

lemma serve_upload:
  assumes "hashable rid" and "truthy rid" and "map_of (ss_queues s) rid = Some q"
  shows "map_of (ss_queues (fold serve_out (upload_tail rid chunks) s)) rid =
    Some (q @ map RChunk (filter (\<lambda>d. d \<noteq> []) chunks) @ [REnd])"
  using serve_stream_end [OF assms(1) serve_chunks [OF assms]]
  by (simp add: upload_tail_def chunk_frames_def)

lemma serve_out_quiet: "ss_out (serve_out f s) = ss_out s"
proof (cases f)
  case (OutText j)
  then show ?thesis
    by (cases j) (auto simp: serve_out_def serve_frame_def bindE_def route_text_frame_def Let_def
      split: sum.split option.split)
next
  case (OutBytes d)
  then show ?thesis
    by (auto simp: serve_out_def serve_frame_def bindE_def route_binary_frame_def Let_def
      split: sum.split option.split)
qed

lemma serve_quiet [simp]: "ss_out (fold serve_out fs s) = ss_out s"
  by (induction fs arbitrary: s) (simp_all add: serve_out_quiet)

text \<open>The whole operation, when the frames arrive while it waits.\<close>

lemma write_file_ok:
  assumes "safe_resolve RES base (JStr rel) = Inr p" and "\<not> is_dir (ag_fs a) p"
    and "\<not> is_dir (ag_fs a) (part_path p)" and "fst (mkdirs (butlast p) (ag_fs a)) = Inr ()"
    and "hashable rid" and "truthy rid" and "sz = JNull \<or> sz = JInt (int (length (concat chunks)))"
  shows "\<exists>t u. op_write_file RES base rid (JObj [(''path'', JStr rel), (''size'', sz)])
      (arriving (upload_tail rid chunks)) a =
      (Inr (JObj [(''path'', JStr rel), (''written'', JInt (int (length (concat chunks))))]),
       a\<lparr>ag_sess := u, ag_fs := t\<rparr>) \<and> ss_out u = ss_out (ag_sess a) \<and> ss_queues u = dict_pop rid (ss_queues u) \<and>
      file_at t p = Some (concat chunks) \<and> file_at t (part_path p) = None \<and>
      (\<forall>q. q \<noteq> p \<and> q \<noteq> part_path p \<longrightarrow> file_at t q = file_at (ag_fs a) q)"
proof -
  let ?tmp = "part_path p" and ?cs = "filter (\<lambda>d. d \<noteq> []) chunks"
  have ne: "p \<noteq> []" using assms(2) by (auto simp: is_dir_def node_at_def)
  obtain s1 where s1: "mkdirs (butlast p) (ag_fs a) = (Inr (), s1)"
    using assms(4) by (metis prod.collapse)
  have "map_of s1 q = map_of (ag_fs a) q" if "length p \<le> length q" for q
    using mkdirs_untouched [of "butlast p" q "ag_fs a"] that ne
    by (metis diff_less le_trans length_butlast length_greater_0_conv linorder_not_less s1 snd_conv zero_less_one)
  then have nd: "\<not> is_dir s1 p" "\<not> is_dir s1 ?tmp"
    using assms(2,3) ne by (simp_all add: is_dir_def node_at_def)
  have files: "file_at s1 q = file_at (ag_fs a) q" for q
    using mkdirs_files [of "butlast p" "ag_fs a" q] by (simp add: s1)
  define S where "S = fold serve_out (upload_tail rid chunks) (open_recv rid (ag_sess a))"
  have q: "map_of (ss_queues S) rid = Some (map RChunk ?cs @ [REnd])"
    unfolding S_def using serve_upload [OF assms(5,6), of "open_recv rid (ag_sess a)" "[]" chunks]
    by (simp add: open_recv_def)
  obtain s2 where s2: "drain ?tmp (map RChunk ?cs @ [REnd]) 0 (dict_put ?tmp (File []) s1) =
      (Inr (length (concat chunks)), s2)" "file_at s2 ?tmp = Some (concat chunks)"
      "\<forall>q. q \<noteq> ?tmp \<longrightarrow> map_of s2 q = map_of s1 q"
    using drain_chunks [where tmp = ?tmp and old = "[]" and cs = ?cs and es = "[]" and n = 0
        and s = "dict_put ?tmp (File []) s1"] by auto
  have d2: "\<not> is_dir s2 p" using nd(1) s2(3) ne by (auto simp: is_dir_def node_at_def)
  have f2: "file_at s2 q = file_at s1 q" if "q \<noteq> ?tmp" for q
    using s2(3) that by (simp add: file_at_def node_at_def)
  let ?t = "dict_put p (File (concat chunks)) (dict_pop ?tmp s2)"
  have "op_write_file RES base rid (JObj [(''path'', JStr rel), (''size'', sz)])
      (arriving (upload_tail rid chunks)) a =
      (Inr (JObj [(''path'', JStr rel), (''written'', JInt (int (length (concat chunks))))]),
       a\<lparr>ag_sess := close_recv rid S, ag_fs := ?t\<rparr>)"
    using assms(1,2,7) nd d2 s2(1,2) q ne
    by (auto simp: op_write_file_def jget_or_def thenE_def bindE_def catch_def on_fs_apply s1 open_wb_def
        arriving_def S_def [symmetric] queue_of_def replace_def json_is_int_def Let_def)
  moreover have "ss_out (close_recv rid S) = ss_out (ag_sess a)"
    by (simp add: S_def close_recv_def open_recv_def)
  moreover have "ss_queues (close_recv rid S) = dict_pop rid (ss_queues (close_recv rid S))"
    by (simp add: close_recv_def dict_pop_def)
  moreover have "\<forall>q. q \<noteq> p \<and> q \<noteq> ?tmp \<longrightarrow> file_at ?t q = file_at (ag_fs a) q"
    using ne f2 files by simp
  ultimately show ?thesis using ne by (intro exI [of _ ?t] exI [of _ "close_recv rid S"]) simp
qed

section \<open>The hub's side\<close>

lemma hub_frame_out: "cn_out (hub_frame f c) = cn_out c"
  by (auto simp: hub_frame_def handle_incoming_def handle_incoming_binary_def put_stream_def id_get_def Let_def
      split: out.split json.split option.split)

lemma hub_frames_out [simp]: "cn_out (fold hub_frame fs c) = cn_out c"
  by (induction fs arbitrary: c) (simp_all add: hub_frame_out)

lemma upload_answered:
  assumes "hashable rid" and "jget m ''id'' = rid" and "jget m ''type'' = JStr ''response''"
  shows "upload SH rid oper args chunks None (hub_frame (OutText (JObj m))) c =
    (unary_result SH (Some (Result m)),
     c\<lparr>cn_unary := dict_pop rid (id_update rid (\<lambda>_. Result m) (dict_put rid Pending (cn_unary c))),
       cn_out := cn_out c @ OutText (JObj (request_fields rid oper args)) # upload_tail rid chunks\<rparr>)"
  using assms
  by (simp add: upload_def send_def hub_frame_def response_resolves request_msg_fields
      upload_tail_def stream_end_msg_def Let_def)

text \<open>What the queue of a stream holds after the frames of a download.\<close>

lemma hub_chunks:
  assumes "hashable rid" and "rid \<noteq> JNull"
  shows "map_of (cn_stream c) rid = Some q \<Longrightarrow>
    map_of (cn_stream (fold hub_frame (concat (map (chunk_pair rid) cs)) c)) rid = Some (q @ map (Chunk rid) cs)"
proof (induction cs arbitrary: c q)
  case Nil
  then show ?case by simp
next
  case (Cons d cs)
  let ?c = "c\<lparr>cn_armed := JNull, cn_stream := id_update rid (\<lambda>q. q @ [Chunk rid d]) (cn_stream c)\<rparr>"
  have "fold hub_frame (chunk_pair rid d) c = ?c"
    using assms Cons.prems
    by (simp add: chunk_pair_def hub_frame_def handle_incoming_def handle_incoming_binary_def put_stream_def Let_def)
  moreover have "map_of (cn_stream ?c) rid = Some (q @ [Chunk rid d])" using Cons.prems by simp
  ultimately show ?case using Cons.IH [of ?c "q @ [Chunk rid d]"] by simp
qed

lemma hub_stream_text:
  assumes "hashable rid" and "map_of (cn_stream c) rid = Some q" and "jget m ''id'' = rid"
    and "jget m ''type'' = JStr t" and "t = ''stream_start'' \<or> t = ''stream_end''"
  shows "map_of (cn_stream (hub_frame (OutText (JObj m)) c)) rid = Some (q @ [Frame m])"
  using assms by (auto simp: hub_frame_def handle_incoming_def stream_frame_def put_stream_def Let_def)

lemma consume_download:
  assumes "jget m ''type'' = JStr ''stream_start''" and "jget e ''type'' = JStr ''stream_end''"
  shows "consume SH False (Frame m # map (Chunk rid) cs @ Frame e # rest) =
    (Frame m # map (Chunk rid) cs @ [Frame e], Ended)"
proof -
  have "consume SH True (map (Chunk rid) cs @ Frame e # rest) = (map (Chunk rid) cs @ [Frame e], Ended)"
    using assms(2) by (induction cs) simp_all
  then show ?thesis using assms(1) by simp
qed

text \<open>
  What a browser gets: the body of the download, from the items of the stream. Binary chunks are
  passed on, chunks of older agents decoded; an error the agent reports ends the body.
\<close>

definition chunk_text :: "json \<Rightarrow> exn + byte list" where
  "chunk_text v = (case v of
     JStr s \<Rightarrow> (case b64decode s of Some bs \<Rightarrow> Inr bs | None \<Rightarrow> Inl (ValueError ''Incorrect padding''))
   | _ \<Rightarrow> Inl TypeError)"

fun gen_body :: "qitem list \<times> stream_end \<Rightarrow> byte list list \<times> stream_end" where
  "gen_body ([], e) = ([], case e of Raised (AgentError m) \<Rightarrow> Ended | _ \<Rightarrow> e)"
| "gen_body (Closed # q, e) = ([], Ended)"
| "gen_body (Chunk r d # q, e) = (case gen_body (q, e) of (ds, x) \<Rightarrow> (d # ds, x))"
| "gen_body (Frame m # q, e) =
     (let t = jget m ''type'' in
      if is_str ''stream_chunk'' t then
        (if truthy (jget m ''data'') then
           (case chunk_text (jget m ''data'') of
              Inl x \<Rightarrow> ([], Raised x)
            | Inr d \<Rightarrow> (case gen_body (q, e) of (ds, x) \<Rightarrow> (d # ds, x)))
         else gen_body (q, e))
      else if is_str ''stream_end'' t then ([], Ended)
      else gen_body (q, e))"

lemma gen_body_chunks [simp]:
  "gen_body (map (Chunk r) cs @ q, e) = (case gen_body (q, e) of (ds, x) \<Rightarrow> (cs @ ds, x))"
  by (induction cs) (auto split: prod.split)

text \<open>A stream whose agent sends a start, chunks, an end, and perhaps more.\<close>

lemma stream_served:
  assumes "hashable rid" and "rid \<noteq> JNull"
    and "jget m ''id'' = rid" and "jget m ''type'' = JStr ''stream_start''"
    and "jget e ''id'' = rid" and "jget e ''type'' = JStr ''stream_end''"
    and "fs = OutText (JObj m) # concat (map (chunk_pair rid) cs) @ OutText (JObj e) # rest"
    and "\<And>c. \<exists>more. map_of (cn_stream (fold hub_frame rest c)) rid = map_option (\<lambda>q. q @ more) (map_of (cn_stream c) rid)"
  shows "fst (stream SH rid oper args None (fold hub_frame fs) c) =
    Inr (Frame m # map (Chunk rid) cs @ [Frame e], Ended)"
proof -
  define c0 where "c0 = c\<lparr>cn_stream := dict_put rid [] (cn_stream c),
    cn_out := cn_out c @ [OutText (request_msg rid oper args)]\<rparr>"
  have o: "stream_open rid oper args None c = (Inr (), c0)"
    by (simp add: stream_open_def send_def c0_def)
  define c1 where "c1 = hub_frame (OutText (JObj m)) c0"
  have q1: "map_of (cn_stream c1) rid = Some [Frame m]"
    unfolding c1_def using hub_stream_text [of rid c0 "[]" m] assms(1,3,4) by (simp add: c0_def)
  define c2 where "c2 = fold hub_frame (concat (map (chunk_pair rid) cs)) c1"
  have q2: "map_of (cn_stream c2) rid = Some (Frame m # map (Chunk rid) cs)"
    unfolding c2_def using hub_chunks [OF assms(1,2) q1] by simp
  have q3: "map_of (cn_stream (hub_frame (OutText (JObj e)) c2)) rid =
      Some ((Frame m # map (Chunk rid) cs) @ [Frame e])"
    using hub_stream_text [OF assms(1) q2] assms(5,6) by simp
  obtain more where "map_of (cn_stream (fold hub_frame fs c0)) rid =
      Some (Frame m # map (Chunk rid) cs @ Frame e # more)"
    using assms(8) [of "hub_frame (OutText (JObj e)) c2"] q3
    by (auto simp: assms(7) c1_def c2_def)
  moreover note consume_download [OF assms(4,6), of SH rid cs more]
  ultimately show ?thesis by (simp add: stream_def bindE_def o Let_def del: consume.simps)
qed

text \<open>Frames of an upload nobody waits for.\<close>

lemma serve_unwanted:
  assumes "hashable rid" and "truthy rid"
  shows "map_of (ss_queues s) rid = None \<Longrightarrow>
    ss_queues (fold serve_out (upload_tail rid chunks) s) = ss_queues s"
proof -
  have p: "map_of (ss_queues s) rid = None \<Longrightarrow> ss_queues (fold serve_out (chunk_pair rid d) s) = ss_queues s" for s d
    using assms
    by (auto simp: chunk_pair_def serve_out_def serve_frame_def route_text_frame_def route_binary_frame_def
      bindE_def Let_def)
  have "map_of (ss_queues s) rid = None \<Longrightarrow>
      ss_queues (fold serve_out (concat (map (chunk_pair rid) cs)) s) = ss_queues s" for cs s
    by (induction cs arbitrary: s) (simp_all add: p)
  moreover have "map_of (ss_queues s) rid = None \<Longrightarrow>
      ss_queues (serve_out (OutText (stream_end_msg rid [])) s) = ss_queues s" for s
    using assms
    by (simp add: serve_out_def serve_frame_def route_text_frame_def stream_end_msg_def bindE_def Let_def)
  ultimately show "map_of (ss_queues s) rid = None \<Longrightarrow>
      ss_queues (fold serve_out (upload_tail rid chunks) s) = ss_queues s"
    by (simp add: upload_tail_def chunk_frames_def)
qed

lemma write_file_starved:
  assumes "safe_resolve RES base (JStr rel) = Inr p" and "\<not> is_dir (ag_fs a) p"
    and "\<not> is_dir (ag_fs a) (part_path p)" and "fst (mkdirs (butlast p) (ag_fs a)) = Inr ()"
  shows "\<exists>t u. op_write_file RES base rid (JObj [(''path'', JStr rel), (''size'', sz)]) id a =
      (Inl TimeoutError, a\<lparr>ag_sess := u, ag_fs := t\<rparr>) \<and> ss_out u = ss_out (ag_sess a) \<and>
      (\<forall>q. q \<noteq> part_path p \<longrightarrow> file_at t q = file_at (ag_fs a) q)"
proof -
  let ?tmp = "part_path p"
  have ne: "p \<noteq> []" using assms(2) by (auto simp: is_dir_def node_at_def)
  obtain s1 where s1: "mkdirs (butlast p) (ag_fs a) = (Inr (), s1)"
    using assms(4) by (metis prod.collapse)
  have "map_of s1 ?tmp = map_of (ag_fs a) ?tmp"
    using mkdirs_untouched [of "butlast p" ?tmp "ag_fs a"] ne by (simp add: s1)
  then have nd: "\<not> is_dir s1 ?tmp" using assms(3) by (simp add: is_dir_def node_at_def)
  have files: "file_at s1 q = file_at (ag_fs a) q" for q
    using mkdirs_files [of "butlast p" "ag_fs a" q] by (simp add: s1)
  let ?t = "dict_pop ?tmp (dict_put ?tmp (File []) s1)"
  let ?u = "close_recv rid (open_recv rid (ag_sess a))"
  have "op_write_file RES base rid (JObj [(''path'', JStr rel), (''size'', sz)]) id a =
      (Inl TimeoutError, a\<lparr>ag_sess := ?u, ag_fs := ?t\<rparr>)"
    using assms(1,2) nd
    by (simp add: op_write_file_def jget_or_def thenE_def bindE_def catch_def on_fs_apply s1 open_wb_def
        queue_of_def open_recv_def unlink_def Let_def)
  then show ?thesis
    by (intro exI [of _ ?t] exI [of _ ?u]) (simp add: files close_recv_def open_recv_def)
qed

text \<open>A response that comes to a stream.\<close>

lemma hub_late_response:
  assumes "hashable rid" and "jget m ''id'' = rid" and "jget m ''type'' = JStr ''response''"
  shows "\<exists>more. map_of (cn_stream (fold hub_frame [OutText (JObj m)] c)) rid =
    map_option (\<lambda>q. q @ more) (map_of (cn_stream c) rid)"
proof (cases "map_of (cn_unary c) rid = Some Pending")
  case True
  then show ?thesis using assms
    by (intro exI [of _ "[]"]) (simp add: hub_frame_def response_resolves option.map_ident)
next
  case False
  then show ?thesis using assms
    by (intro exI [of _ "[Frame m]"])
      (auto simp: hub_frame_def handle_incoming_def put_stream_def Let_def split: option.split)
qed

lemma stream_refused:
  assumes "hashable rid" and "jget m ''id'' = rid" and "jget m ''type'' = JStr ''response''"
    and "map_of (cn_unary c) rid = None" and "jget_default m ''ok'' (JBool True) = JBool False"
  shows "fst (stream SH rid oper args None (hub_frame (OutText (JObj m))) c) =
    Inr ([], Raised (AgentError (py_str SH (jor (jget m ''error'') (JStr ''agent error'')))))"
  using assms
  by (simp add: stream_def stream_open_def send_def bindE_def hub_frame_def handle_incoming_def put_stream_def Let_def)

lemma stream_sent: "\<exists>x. fst (stream SH rid oper args None d c) = Inr x"
  by (simp add: stream_def stream_open_def send_def bindE_def Let_def split: option.split prod.split)

section \<open>Staying below the root\<close>

definition inside :: "path \<Rightarrow> path \<Rightarrow> bool" where
  "inside base p \<longleftrightarrow> below base p \<and> p \<noteq> base"

definition outside :: "path \<Rightarrow> (path \<Rightarrow> node option) \<Rightarrow> fs \<Rightarrow> bool" where
  "outside base M s \<longleftrightarrow> (\<forall>q. \<not> inside base q \<longrightarrow> map_of s q = M q)"

lemma outside_touches: "touches (inside base) m \<Longrightarrow> preserves (outside base M) m"
  by (simp add: preserves_def outside_def touches_def)

lemma outside_mkdirs:
  assumes "\<And>k. 0 < k \<Longrightarrow> k \<le> length base \<Longrightarrow> M (take k base) = Some Dir"
  shows "below base (rev r) \<or> (\<exists>k \<le> length base. rev r = take k base) \<Longrightarrow>
    preserves (outside base M) (mkdirs_rev r)"
proof (induction r)
  case Nil
  show ?case by (simp add: preserves_def)
next
  case (Cons n up)
  have "below base (rev up) \<or> (\<exists>k \<le> length base. rev up = take k base)"
  proof (cases "\<exists>k \<le> length base. rev (n # up) = take k base")
    case True
    then obtain k where k: "k \<le> length base" "rev up @ [n] = take k base" by auto
    then have "rev up = butlast (take k base)" by (metis butlast_snoc)
    then have "rev up = take (k - 1) base" using k(1) by (simp add: butlast_take)
    moreover have "k - 1 \<le> length base" using k(1) by simp
    ultimately show ?thesis by blast
  next
    case False
    with Cons.prems have "below base (rev (n # up))" by blast
    moreover have "rev (n # up) \<noteq> base" using False by (metis order_refl take_all)
    ultimately show ?thesis using below_butlast [of base "rev (n # up)"] by simp
  qed
  then have up: "preserves (outside base M) (mkdirs_rev up)" by (rule Cons.IH)
  have step: "inside base (rev (n # up))" if "outside base M s" "map_of s (rev (n # up)) = None" for s
  proof (rule ccontr)
    assume out: "\<not> inside base (rev (n # up))"
    then have M: "M (rev (n # up)) = None" using that by (auto simp: outside_def)
    from out Cons.prems have "\<exists>k \<le> length base. rev (n # up) = take k base"
      by (auto simp: inside_def)
    then obtain k where k: "k \<le> length base" "rev (n # up) = take k base" by blast
    then have "0 < k" by (cases k) auto
    with assms k M show False by fastforce
  qed
  show ?case unfolding mkdirs_rev.simps
  proof (rule preserves_bindE [OF up])
    fix u :: unit
    show "preserves (outside base M) (\<lambda>s. case map_of s (rev (n # up)) of
        None \<Rightarrow> (Inr (), dict_put (rev (n # up)) Dir s)
      | Some Dir \<Rightarrow> (Inr (), s)
      | Some (File _) \<Rightarrow> (Inl (OSError ''File exists''), s))"
      using step by (auto simp: preserves_def outside_def split: option.split node.split)
  qed
qed

lemma inside_part: "inside base p \<Longrightarrow> inside base (part_path p)"
  by (auto simp: inside_def part_path_def below_iff butlast_append)

definition agent_outside :: "path \<Rightarrow> (path \<Rightarrow> node option) \<Rightarrow> agent \<Rightarrow> bool" where
  "agent_outside base M a \<longleftrightarrow> outside base M (ag_fs a)"

lemma outside_on_fs [pres]: "preserves (outside base M) m \<Longrightarrow> preserves (agent_outside base M) (on_fs m)"
  by (simp add: preserves_def agent_outside_def on_fs_apply)

lemma outside_on_sess [pres]: "preserves (agent_outside base M) (on_sess f)"
  by (simp add: preserves_def agent_outside_def)

lemma outside_arriving [pres]: "preserves (agent_outside base M) (modify (arriving fs))"
  by (simp add: preserves_def agent_outside_def arriving_def)

lemma outside_write_file:
  assumes "\<And>k. 0 < k \<Longrightarrow> k \<le> length base \<Longrightarrow> M (take k base) = Some Dir"
  shows "preserves (agent_outside base M) (op_write_file RES base rid args (arriving fs))"
proof (rule preservesI)
  fix a assume I: "agent_outside base M a"
  show "agent_outside base M (snd (op_write_file RES base rid args (arriving fs) a))"
  proof (cases "\<exists>rel. jget_or args ''path'' (JStr []) = Inr rel \<and> safe_resolve RES base rel = Inr base")
    case True
    have "is_dir (ag_fs a) base"
      using I assms [of "length base"]
      by (cases base) (auto simp: agent_outside_def outside_def inside_def is_dir_def node_at_def)
    with True I show ?thesis
      by (auto simp: op_write_file_def bindE_def jget_or_def split: json.splits)
  next
    case False
    have w: "preserves (agent_outside base M) (thenE (on_fs (mkdirs (butlast p))) m)"
      if "inside base p" "preserves (agent_outside base M) m" for p and m :: "(agent, json) op"
    proof -
      have "below base (rev (rev (butlast p)))" using that(1) by (simp add: inside_def below_butlast)
      then show ?thesis
        unfolding mkdirs_def using outside_mkdirs [where base = base and M = M, OF assms] that(2)
        by (blast intro: pres)
    qed
    have t: "inside base p \<Longrightarrow> preserves (agent_outside base M) (on_fs (open_wb (part_path p)))"
      "inside base p \<Longrightarrow> preserves (agent_outside base M) (on_fs (unlink (part_path p)))"
      "inside base p \<Longrightarrow> preserves (agent_outside base M) (on_fs (replace (part_path p) p))"
      "inside base p \<Longrightarrow> preserves (agent_outside base M) (on_fs (drain (part_path p) q n))" for p q n
      by (blast intro: outside_on_fs outside_touches touches_open_wb touches_unlink touches_replace
          touches_drain inside_part)+
    have "preserves (agent_outside base M) (\<lambda>a. op_write_file RES base rid args (arriving fs) a)"
    proof (cases "jget_or args ''path'' (JStr [])")
      case (Inr rel)
      show ?thesis
      proof (cases "safe_resolve RES base rel")
        case (Inr p)
        with False \<open>jget_or args ''path'' (JStr []) = Inr rel\<close> have "inside base p"
          using safe_resolve_below [of RES base rel p] by (auto simp: inside_def)
        then show ?thesis
          unfolding op_write_file_def \<open>jget_or args ''path'' (JStr []) = Inr rel\<close>
            bindE_liftE Inr sum.case Let_def
          by (intro pres w t) auto
      qed (simp add: op_write_file_def \<open>jget_or args ''path'' (JStr []) = Inr rel\<close> preserves_def bindE_def split: sum.split)
    qed (simp add: op_write_file_def preserves_def bindE_def)
    then show ?thesis using I by (simp add: preserves_def)
  qed
qed

section \<open>Properties\<close>

text \<open>
  C2: an upload arrives. When the hub uploads a file to a path below the storage root that is not a
  directory and whose directories can be made, and the frames arrive while the operation waits, the
  hub's call returns the path and the number of bytes, the device then holds exactly the bytes of the
  chunks at that path, its \<^verbatim>\<open>.part\<close> sibling is gone, also when the user had such a file, and no
  other file is changed.
\<close>

theorem upload_arrives:
  assumes "safe_resolve RES base (JStr rel) = Inr p" and "\<not> is_dir (ag_fs a) p"
    and "\<not> is_dir (ag_fs a) (part_path p)" and "fst (mkdirs (butlast p) (ag_fs a)) = Inr ()"
    and "r \<noteq> []" and "sz = JNull \<or> sz = JInt (int (length (concat chunks)))" and "ss_out (ag_sess a) = []"
    and "args = [(''path'', JStr rel), (''size'', sz)]"
    and "a' = snd (handle_request (agent_handlers RES MIME base (arriving (upload_tail (JStr r) chunks)) cam oth)
      SH (request_fields (JStr r) ''write_file'' args) a)"
    and "up = upload SH (JStr r) ''write_file'' args chunks None (fold hub_frame (ss_out (ag_sess a')))"
  shows "fst (up c) = Inr (JObj [(''path'', JStr rel), (''written'', JInt (int (length (concat chunks))))]) \<and>
    cn_out (snd (up c)) = cn_out c @ OutText (JObj (request_fields (JStr r) ''write_file'' args))
      # upload_tail (JStr r) chunks \<and>
    file_at (ag_fs a') p = Some (concat chunks) \<and> file_at (ag_fs a') (part_path p) = None \<and>
    (\<forall>q. q \<noteq> p \<and> q \<noteq> part_path p \<longrightarrow> file_at (ag_fs a') q = file_at (ag_fs a) q)"
proof -
  let ?res = "JObj [(''path'', JStr rel), (''written'', JInt (int (length (concat chunks))))]"
  obtain t u where w: "op_write_file RES base (JStr r) (JObj args) (arriving (upload_tail (JStr r) chunks)) a =
      (Inr ?res, a\<lparr>ag_sess := u, ag_fs := t\<rparr>)" "ss_out u = []" "file_at t p = Some (concat chunks)" "file_at t (part_path p) = None"
      "\<forall>q. q \<noteq> p \<and> q \<noteq> part_path p \<longrightarrow> file_at t q = file_at (ag_fs a) q"
    using write_file_ok [OF assms(1-4), of "JStr r" sz chunks] assms(5-8) by auto
  have a': "a' = a\<lparr>ag_sess := send_text (ok_response (JStr r) ?res) u, ag_fs := t\<rparr>"
    unfolding assms(9) using assms(8) w(1)
    by (simp add: handle_request_def request_fields_def agent_handlers_def respond_def bindE_def catch_def
        as_str_def UNARY_OPS_def STREAM_OPS_def ASYNC_RECV_OPS_def jor_def Let_def)
  have "ss_out (ag_sess a') = [OutText (ok_response (JStr r) ?res)]"
    using w(2) by (simp add: a' send_text_def)
  then show ?thesis
    unfolding assms(10) ok_response_def using w(3-5) by (simp add: upload_answered unary_result_def jor_def a')
qed

definition demo_agent :: agent where
  "demo_agent = \<lparr>ag_sess = new_session, ag_fs = [([''home''], Dir), ([''home'', ''old''], File [7, 8])]\<rparr>"

definition no_handlers :: handlers where
  "no_handlers = \<lparr>hs_unary = (\<lambda>_ _. raise TypeError), hs_stream = (\<lambda>_ _ _. raise TypeError),
     hs_recv = (\<lambda>_ _ _. raise TypeError)\<rparr>"

theorem upload_arrives_witness:
  "file_at (ag_fs (snd (handle_request (agent_handlers (\<lambda>p. p) (\<lambda>_. None) [''home'']
       (arriving (upload_tail (JStr ''r'') [[1, 2], [], [3]])) (Inl []) no_handlers) (\<lambda>_. [])
     (request_fields (JStr ''r'') ''write_file'' [(''path'', JStr ''docs/new''), (''size'', JInt 3)]) demo_agent)))
     [''home'', ''docs'', ''new''] = Some [1, 2, 3]"
proof -
  have m: "fst (mkdirs [''home'', ''docs''] (ag_fs demo_agent)) = Inr ()"
    by (simp add: mkdirs_def bindE_def demo_agent_def)
  have s: "safe_resolve (\<lambda>p. p) [''home''] (JStr ''docs/new'') = Inr [''home'', ''docs'', ''new'']"
    by code_simp
  show ?thesis
    using upload_arrives [OF s _ _ _ _ _ _ refl refl refl, where a = demo_agent and r = "''r''" and sz = "JInt 3"
        and chunks = "[[1, 2], [], [3]]"] m
    by (simp add: is_dir_def node_at_def demo_agent_def part_path_def new_session_def)
qed

text \<open>
  C3: a download is the file. When the hub asks for a file the device has, the body it passes on is
  the bytes of the file, no more and no less, ended; the announced size is its length; no chunk is
  empty or longer than the chunk size; and the device's files are as before.
\<close>

theorem download_is_the_file:
  assumes "safe_resolve RES base (JStr rel) = Inr p" and "file_at (ag_fs a) p = Some bs" and "r \<noteq> []"
    and "ss_out (ag_sess a) = []" and "args = [(''path'', JStr rel)]"
    and "a' = snd (handle_request (agent_handlers RES MIME base during cam oth) SH
      (request_fields (JStr r) ''read_file'' args) a)"
    and "fst (stream SH (JStr r) ''read_file'' args None (fold hub_frame (ss_out (ag_sess a'))) c) = Inr items"
  shows "fst (map_prod concat id (gen_body items)) = bs \<and> snd (gen_body items) = Ended \<and>
    (\<exists>m rest. fst items = Frame m # rest \<and> jget m ''size'' = JInt (int (length bs))) \<and>
    (\<forall>d \<in> set (fst (gen_body items)). d \<noteq> [] \<and> length d \<le> CHUNK_SIZE) \<and> ag_fs a' = ag_fs a"
proof -
  define m where "m = [(''type'', JStr ''stream_start''), (''id'', JStr r), (''size'', JInt (int (length bs))),
    (''content_type'', JStr (or_str (opt_str (MIME (last p))) ''application/octet-stream''))]"
  define e where "e = [(''type'', JStr ''stream_end''), (''id'', JStr r)]"
  let ?cs = "chunks_of CHUNK_SIZE bs"
  have "ss_out (ag_sess a') = OutText (JObj m) # concat (map (chunk_pair (JStr r)) ?cs) @ [OutText (JObj e)] \<and>
      ag_fs a' = ag_fs a"
    unfolding assms(6) using assms(1-5)
    by (simp add: handle_request_def request_fields_def agent_handlers_def op_read_file_stream_def thenE_def
        bindE_def catch_def as_str_def UNARY_OPS_def STREAM_OPS_def jor_def jget_or_def Let_def m_def e_def
        stream_end_msg_def send_text_def send_chunks_out [unfolded send_chunk_def] send_chunks_out)
  then have out: "ss_out (ag_sess a') = OutText (JObj m) # concat (map (chunk_pair (JStr r)) ?cs) @ [OutText (JObj e)]"
    and fs: "ag_fs a' = ag_fs a" by auto
  have "\<exists>more. map_of (cn_stream (fold hub_frame [] c)) (JStr r) =
      map_option (\<lambda>q. q @ more) (map_of (cn_stream c) (JStr r))" for c
    by (rule exI [of _ "[]"]) (simp add: option.map_ident)
  from stream_served [where rid = "JStr r" and m = m and e = e and cs = ?cs and rest = "[]", OF _ _ _ _ _ _ out this]
  have "items = (Frame m # map (Chunk (JStr r)) ?cs @ [Frame e], Ended)"
    using assms(7) by (simp add: m_def e_def)
  moreover have "concat ?cs = bs" by (simp add: concat_chunks_of CHUNK_SIZE_def)
  ultimately show ?thesis using fs chunks_of_ne [of _ CHUNK_SIZE bs]
    by (simp add: m_def e_def)
qed

theorem download_is_the_file_witness:
  "fst (map_prod concat id (gen_body (case fst (stream (\<lambda>_. []) (JStr ''r'') ''read_file'' [(''path'', JStr ''old'')] None
     (fold hub_frame (ss_out (ag_sess (snd (handle_request
        (agent_handlers (\<lambda>p. p) (\<lambda>_. None) [''home''] id (Inl []) no_handlers) (\<lambda>_. [])
        (request_fields (JStr ''r'') ''read_file'' [(''path'', JStr ''old'')]) demo_agent)))))
     (new_conn ''d1'' 1 ''phone'')) of Inr x \<Rightarrow> x))) = [7, 8]"
  (is "fst (map_prod concat id (gen_body (case ?run of Inr x \<Rightarrow> x))) = _")
proof -
  have s: "safe_resolve (\<lambda>p. p) [''home''] (JStr ''old'') = Inr [''home'', ''old'']" by code_simp
  have f: "file_at (ag_fs demo_agent) [''home'', ''old''] = Some [7, 8]"
    by (simp add: file_at_def node_at_def demo_agent_def)
  obtain x where x: "?run = Inr x" using stream_sent by blast
  have "ss_out (ag_sess demo_agent) = []" by (simp add: demo_agent_def new_session_def)
  from conjunct1 [OF download_is_the_file [OF s f _ this refl refl x]] show ?thesis unfolding x by simp
qed

text \<open>
  C40: an upload that comes early is lost. When all frames of an upload are served before the
  operation has opened its queue, as happens to frames already received when its task is created,
  the operation waits for frames that have been dropped: the hub's call raises the time-out of the
  agent, and no file but the \<^verbatim>\<open>.part\<close> sibling is changed.
\<close>

theorem early_upload_is_lost:
  assumes "safe_resolve RES base (JStr rel) = Inr p" and "\<not> is_dir (ag_fs a) p"
    and "\<not> is_dir (ag_fs a) (part_path p)" and "fst (mkdirs (butlast p) (ag_fs a)) = Inr ()"
    and "r \<noteq> []" and "map_of (ss_queues (ag_sess a)) (JStr r) = None" and "ss_out (ag_sess a) = []"
    and "args = [(''path'', JStr rel), (''size'', sz)]"
    and "a' = snd (handle_request (agent_handlers RES MIME base id cam oth) SH
      (request_fields (JStr r) ''write_file'' args) (arriving (upload_tail (JStr r) chunks) a))"
  shows "fst (upload SH (JStr r) ''write_file'' args chunks None (fold hub_frame (ss_out (ag_sess a'))) c) =
      Inl (AgentError ''TimeoutError: '') \<and>
    (\<forall>q. q \<noteq> part_path p \<longrightarrow> file_at (ag_fs a') q = file_at (ag_fs a) q)"
proof -
  let ?b = "arriving (upload_tail (JStr r) chunks) a"
  have b: "ag_fs ?b = ag_fs a" "ss_out (ag_sess ?b) = []" by (simp_all add: arriving_def assms(7))
  obtain t u where w: "op_write_file RES base (JStr r) (JObj args) id ?b =
      (Inl TimeoutError, ?b\<lparr>ag_sess := u, ag_fs := t\<rparr>)" "ss_out u = []"
      "\<forall>q. q \<noteq> part_path p \<longrightarrow> file_at t q = file_at (ag_fs a) q"
    using write_file_starved [of RES base rel p ?b "JStr r" sz] assms(1-4,8) b by auto
  have a': "a' = ?b\<lparr>ag_sess := send_text (fail_response (JStr r) ''TimeoutError: '') u, ag_fs := t\<rparr>"
    unfolding assms(9) using w(1)
    by (simp add: handle_request_def request_fields_def agent_handlers_def respond_def bindE_def catch_def
        as_str_def UNARY_OPS_def STREAM_OPS_def ASYNC_RECV_OPS_def jor_def op_error_def error_text_def
        assms(8) Let_def)
  have "ss_out (ag_sess a') = [OutText (fail_response (JStr r) ''TimeoutError: '')]"
    using w(2) by (simp add: a' send_text_def)
  then show ?thesis using w(3)
    by (simp add: upload_answered fail_response_def unary_result_def jor_def a')
qed

theorem early_upload_is_lost_witness:
  "fst (upload (\<lambda>_. []) (JStr ''r'') ''write_file'' [(''path'', JStr ''new''), (''size'', JInt 1)] [[1]] None
     (fold hub_frame (ss_out (ag_sess (snd (handle_request
        (agent_handlers (\<lambda>p. p) (\<lambda>_. None) [''home''] id (Inl []) no_handlers) (\<lambda>_. [])
        (request_fields (JStr ''r'') ''write_file'' [(''path'', JStr ''new''), (''size'', JInt 1)])
        (arriving (upload_tail (JStr ''r'') [[1]]) demo_agent))))))
     (new_conn ''d1'' 1 ''phone'')) = Inl (AgentError ''TimeoutError: '')"
proof -
  have m: "fst (mkdirs [''home''] (ag_fs demo_agent)) = Inr ()"
    by (simp add: mkdirs_def bindE_def demo_agent_def)
  have s: "safe_resolve (\<lambda>p. p) [''home''] (JStr ''new'') = Inr [''home'', ''new'']" by code_simp
  have d: "\<not> is_dir (ag_fs demo_agent) [''home'', ''new'']" "\<not> is_dir (ag_fs demo_agent) (part_path [''home'', ''new''])"
    "ss_out (ag_sess demo_agent) = []" "map_of (ss_queues (ag_sess demo_agent)) (JStr ''r'') = None"
    by (simp_all add: is_dir_def node_at_def demo_agent_def part_path_def new_session_def)
  show ?thesis
    by (rule conjunct1 [OF early_upload_is_lost [OF s d(1,2) _ _ d(4,3) refl refl]]) (simp_all add: m)
qed

text \<open>
  A camera that fails is reported only if it fails at once. A source that is not available makes
  the hub's stream raise the agent's message; a source that breaks after some frames ends it like
  one that is complete, and the error the agent sends after the end is never read.
\<close>

theorem late_camera_failure_unseen:
  assumes "ss_out (ag_sess a) = []" and "op_error e"
    and "run = (\<lambda>cam. snd (handle_request (agent_handlers RES MIME base during cam oth) SH
      (request_fields (JStr r) ''camera_stream'' []) a))"
    and "seen = (\<lambda>cam. fst (stream SH (JStr r) ''camera_stream'' [] None (fold hub_frame (ss_out (ag_sess (run cam)))) c))"
    and "map_of (cn_unary c) (JStr r) = None"
  shows "seen (Inl m) = Inr ([], Raised (AgentError (''RuntimeError: '' @ m))) \<and>
    seen (Inr (frames, Some e)) = seen (Inr (frames, None)) \<and>
    map_sum id gen_body (seen (Inr (frames, Some e))) = Inr (frames, Ended)"
proof -
  have cam: "agent_handlers RES MIME base during cam oth = h \<Longrightarrow>
      hs_stream h ''camera_stream'' (JStr r) (JObj []) = forward_stream cam (JStr r)" for cam h
    by (auto simp: agent_handlers_def op_camera_stream_def)
  have run: "run cam = snd (catch (forward_stream cam (JStr r)) (\<lambda>e. if op_error e
      then on_sess (send_text (fail_response (JStr r) (error_text e))) else raise e) a)" for cam
    by (simp add: assms(3) handle_request_def request_fields_def as_str_def UNARY_OPS_def STREAM_OPS_def
        jor_def cam [OF refl] Let_def)
  define s where "s = [(''type'', JStr ''stream_start''), (''id'', JStr r), (''content_type'', JStr ''image/jpeg'')]"
  define x where "x = [(''type'', JStr ''stream_end''), (''id'', JStr r), (''frames'', JInt (int (length frames)))]"
  define f where "f = [(''type'', JStr ''response''), (''id'', JStr r), (''ok'', JBool False), (''error'', JStr (error_text e))]"
  let ?fs = "OutText (JObj s) # concat (map (chunk_pair (JStr r)) frames) @ OutText (JObj x) # []"
  have o: "ss_out (ag_sess (run (Inr (frames, None)))) = ?fs"
    by (simp add: run forward_stream_def thenE_def bindE_def catch_def send_text_def send_chunks_out assms(1)
        s_def x_def stream_end_msg_def)
  have oe: "ss_out (ag_sess (run (Inr (frames, Some e)))) =
      OutText (JObj s) # concat (map (chunk_pair (JStr r)) frames) @ OutText (JObj x) # [OutText (JObj f)]"
    using assms(2) by (simp add: run forward_stream_def thenE_def bindE_def catch_def send_text_def send_chunks_out
        assms(1) s_def x_def f_def stream_end_msg_def fail_response_def)
  have n: "\<exists>more. map_of (cn_stream (fold hub_frame [] c)) (JStr r) =
      map_option (\<lambda>q. q @ more) (map_of (cn_stream c) (JStr r))" for c
    by (rule exI [of _ "[]"]) (simp add: option.map_ident)
  have l: "\<exists>more. map_of (cn_stream (fold hub_frame [OutText (JObj f)] c)) (JStr r) =
      map_option (\<lambda>q. q @ more) (map_of (cn_stream c) (JStr r))" for c
    by (rule hub_late_response) (simp_all add: f_def)
  have "seen (Inr (frames, None)) = Inr (Frame s # map (Chunk (JStr r)) frames @ [Frame x], Ended)"
    unfolding assms(4) by (rule stream_served [OF _ _ _ _ _ _ o n]) (simp_all add: s_def x_def)
  moreover have "seen (Inr (frames, Some e)) = Inr (Frame s # map (Chunk (JStr r)) frames @ [Frame x], Ended)"
    unfolding assms(4) by (rule stream_served [OF _ _ _ _ _ _ oe l]) (simp_all add: s_def x_def)
  moreover have "seen (Inl m) = Inr ([], Raised (AgentError (''RuntimeError: '' @ m)))"
    using assms(5) by (simp add: assms(4) run forward_stream_def catch_def send_text_def assms(1) fail_response_def
        stream_refused op_error_def error_text_def jor_def)
  ultimately show ?thesis by (simp add: s_def x_def)
qed

theorem late_camera_failure_unseen_witness:
  "map_sum id gen_body (fst (stream (\<lambda>_. []) (JStr ''r'') ''camera_stream'' [] None
     (fold hub_frame (ss_out (ag_sess (snd (handle_request
        (agent_handlers (\<lambda>p. p) (\<lambda>_. None) [] id (Inr ([[1], [2]], Some (OSError ''reset''))) no_handlers) (\<lambda>_. [])
        (request_fields (JStr ''r'') ''camera_stream'' []) demo_agent)))))
     (new_conn ''d1'' 1 ''phone''))) = Inr ([[1], [2]], Ended)"
  by (rule conjunct2 [OF conjunct2 [OF late_camera_failure_unseen [where a = demo_agent and e = "OSError ''reset''",
      OF _ _ refl refl]]]) (simp_all add: demo_agent_def new_session_def op_error_def new_conn_def)



end
