(* ===== verification/HubTheft.thy ===== *)
theory HubTheft
  imports HubEnroll FileTransfer
begin

text \<open>
  Theft mode of \<^verbatim>\<open>hub/app.py\<close>: capturing from a device into the media store with its retention, arming
  and disarming, the periodic round, the dashboard and the media pages. The state is a hub with the
  files of its media store. What a device streams back is a parameter, as are the JSON codec and
  the resolution of paths.
\<close>

section \<open>The state and the parameters\<close>

record vault =
  vt_hub :: hub
  vt_fs :: fs

definition on_vhub :: "(hub, 'a) op \<Rightarrow> (vault, 'a) op" where
  "on_vhub m = zoom vt_hub (\<lambda>t v. v\<lparr>vt_hub := t\<rparr>) m"

definition on_vdb :: "(db, 'a) op \<Rightarrow> (vault, 'a) op" where
  "on_vdb m = on_vhub (on_db m)"

definition on_vfs :: "(fs, 'a) op \<Rightarrow> (vault, 'a) op" where
  "on_vfs m = zoom vt_fs (\<lambda>t v. v\<lparr>vt_fs := t\<rparr>) m"

text \<open>A stream that is over: the items it gave, and the exception it ended with, if any.\<close>

type_synonym finished = "qitem list \<times> exn option"

text \<open>
  Per operation and arguments, what the connection streams; the decoder of JSON bytes, their text,
  the printer and the parser of JSON texts; the resolution of paths; the home directory; the random
  part of a file name.
\<close>

record capture_env =
  ce_stream :: "nat \<Rightarrow> string \<Rightarrow> (string \<times> json) list \<Rightarrow> finished"
  ce_decode :: "byte list \<Rightarrow> json option"
  ce_text :: "byte list \<Rightarrow> string"
  ce_dumps :: "json \<Rightarrow> string"
  ce_loads :: "string \<Rightarrow> json option"
  ce_resolve :: "path \<Rightarrow> path"
  ce_home :: string
  ce_name :: "string \<Rightarrow> string"

section \<open>Capturing\<close>

text \<open>Kind, operation, content type and extension.\<close>

definition THEFT_KINDS :: "(string \<times> string \<times> string \<times> string) list" where
  "THEFT_KINDS = [(''photo'', ''camera_capture'', ''image/jpeg'', ''jpg''),
     (''audio'', ''record_audio'', ''audio/mp4'', ''m4a''),
     (''location'', ''location'', ''application/json'', ''json'')]"

definition media_root :: "params \<Rightarrow> capture_env \<Rightarrow> hub \<Rightarrow> path" where
  "media_root X E s = path_parts (media_dir (pSH X) (ce_home E) (h_cfg s))"

definition norm_location :: "params \<Rightarrow> json \<Rightarrow> json" where
  "norm_location X loc = (case loc of
     JObj kvs \<Rightarrow> JObj [(''lat'', jget kvs ''latitude''), (''lon'', jget kvs ''longitude''),
       (''accuracy'', jget kvs ''accuracy''), (''altitude'', jget kvs ''altitude''),
       (''bearing'', jget kvs ''bearing''), (''speed'', jget kvs ''speed''), (''provider'', jget kvs ''provider'')]
   | _ \<Rightarrow> JObj [(''raw'', JStr (take 300 (py_str (pSH X) loc)))])"

text \<open>The rest of the stream into the buffer.\<close>

fun collect :: "qitem list \<Rightarrow> exn option \<Rightarrow> byte list \<Rightarrow> exn + byte list" where
  "collect [] e buf = (case e of None \<Rightarrow> Inr buf | Some x \<Rightarrow> Inl x)"
| "collect (Chunk r d # q) e buf = collect q e (buf @ d)"
| "collect (Closed # q) e buf = collect q e buf"
| "collect (Frame m # q) e buf =
     (let t = jget m ''type'' in
      if is_str ''stream_chunk'' t then
        (if truthy (jget m ''data'') then
           (case chunk_text (jget m ''data'') of Inl x \<Rightarrow> Inl x | Inr d \<Rightarrow> collect q e (buf @ d))
         else collect q e buf)
      else if is_str ''stream_end'' t then Inr buf
      else collect q e buf)"

definition captured :: "finished \<Rightarrow> exn + byte list" where
  "captured st = (case st of
     ([], None) \<Rightarrow> Inl StopAsyncIteration
   | ([], Some e) \<Rightarrow> Inl e
   | (Frame m # q, e) \<Rightarrow> if is_str ''stream_start'' (jget m ''type'') then collect q e []
       else Inl (AgentError ''Unexpected agent response'')
   | (_ # q, e) \<Rightarrow> Inl (AgentError ''Unexpected agent response''))"

definition capture_args :: "string \<Rightarrow> string \<Rightarrow> int \<Rightarrow> (string \<times> json) list" where
  "capture_args kind camera_id duration =
     (if kind = ''audio'' then [(''duration'', JInt duration)]
      else if kind = ''photo'' then [(''camera_id'', JStr camera_id)] else [])"

definition location_meta :: "params \<Rightarrow> capture_env \<Rightarrow> byte list \<Rightarrow> string" where
  "location_meta X E buf = ce_dumps E (norm_location X (case ce_decode E buf of
     Some loc \<Rightarrow> loc | None \<Rightarrow> JObj [(''raw'', JStr (take 300 (ce_text E buf)))]))"

text \<open>\<open>str(path)\<close>, and the test that a path is in the media store: a prefix of its text.\<close>

definition path_text :: "path \<Rightarrow> string" where
  "path_text p = (if p = [] then ''/'' else concat (map (\<lambda>c. CHR ''/'' # c) p))"

definition in_store :: "params \<Rightarrow> capture_env \<Rightarrow> hub \<Rightarrow> path \<Rightarrow> bool" where
  "in_store X E s p \<longleftrightarrow> startswith (path_text (ce_resolve E (media_root X E s))) (path_text p)"

definition media_path :: "params \<Rightarrow> capture_env \<Rightarrow> hub \<Rightarrow> string \<Rightarrow> path" where
  "media_path X E s rel = ce_resolve E (path_join (media_root X E s) rel)"

text \<open>Unlinking a file of the store; a missing one is fine, other errors are swallowed.\<close>

definition drop_media :: "params \<Rightarrow> capture_env \<Rightarrow> string \<Rightarrow> (vault, unit) op" where
  "drop_media X E rel = bindE (asks (\<lambda>v. (media_path X E (vt_hub v) rel, in_store X E (vt_hub v) (media_path X E (vt_hub v) rel))))
     (\<lambda>(p, inside). if inside then catch (on_vfs (unlink p)) (\<lambda>_. ret ()) else ret ())"

fun drop_all :: "params \<Rightarrow> capture_env \<Rightarrow> string list \<Rightarrow> (vault, unit) op" where
  "drop_all X E [] = ret ()"
| "drop_all X E (p # ps) = thenE (drop_media X E p) (drop_all X E ps)"

text \<open>\<open>write_bytes\<close> of the new file, its directories made first.\<close>

definition store_file :: "path \<Rightarrow> byte list \<Rightarrow> (vault, unit) op" where
  "store_file dest buf = thenE (on_vfs (mkdirs (butlast dest)))
     (thenE (on_vfs (open_wb dest)) (on_vfs (write_at dest buf)))"

definition capture_to_store ::
  "params \<Rightarrow> capture_env \<Rightarrow> int \<Rightarrow> nat \<Rightarrow> string \<Rightarrow> int \<Rightarrow> string \<Rightarrow> string \<Rightarrow> string \<Rightarrow> int \<Rightarrow> (vault, int) op" where
  "capture_to_store X E now k device_id owner_id kind trigger camera_id duration =
     (case map_of THEFT_KINDS kind of None \<Rightarrow> raise KeyError
      | Some (oper, mime, ext) \<Rightarrow>
          bindE (liftE (captured (ce_stream E k oper (capture_args kind camera_id duration)))) (\<lambda>buf.
          let meta = (if kind = ''location'' then Some (location_meta X E buf) else None);
              rel = device_id @ ''/'' @ kind @ ''-'' @ int_str now @ ''-'' @ ce_name E kind @ ''.'' @ ext in
          bindE (asks (\<lambda>v. path_join (media_root X E (vt_hub v)) rel)) (\<lambda>dest.
          thenE (store_file dest buf)
         (bindE (on_vdb (add_theft_media device_id owner_id kind (Some rel) (Some mime)
                   (Some (int (length buf))) meta trigger now)) (\<lambda>mid.
          thenE (on_vdb (record_audit (''capture_'' @ kind) (Some owner_id) None None (Some device_id)
                   (Some (''trigger='' @ trigger @ '' size='' @ nat_str (length buf) @ ''B'')) None True now))
         (bindE (asks (\<lambda>v. theft_retention (pSH X) (h_cfg (vt_hub v)))) (\<lambda>keep.
          bindE (on_vdb (prune_theft_media device_id keep)) (\<lambda>stale.
          thenE (drop_all X E stale) (ret mid)))))))))"

section \<open>Arming\<close>

text \<open>
  The choices of a form. The answers name the devices that are asked to keep awake or not; only those
  with a connection are sent a request, and its outcome is ignored.
\<close>

record arm_form =
  af_interval :: int
  af_photo :: string
  af_audio :: string
  af_location :: string
  af_keepawake :: string
  af_seconds :: int
  af_camera :: string
  af_attest :: string

definition arm_opts :: "arm_form \<Rightarrow> (string \<times> json) list" where
  "arm_opts f = [(''photo'', JBool (af_photo f \<noteq> [])), (''audio'', JBool (af_audio f \<noteq> [])),
     (''location'', JBool (af_location f \<noteq> [])), (''keepawake'', JBool (af_keepawake f \<noteq> [])),
     (''audio_seconds'', JInt (max 1 (min 120 (af_seconds f)))), (''camera_id'', JStr (af_camera f))]"

definition picks_one :: "arm_form \<Rightarrow> bool" where
  "picks_one f \<longleftrightarrow> af_photo f \<noteq> [] \<or> af_audio f \<noteq> [] \<or> af_location f \<noteq> []"

definition arm_detail :: "arm_form \<Rightarrow> string" where
  "arm_detail f = (case (if af_photo f \<noteq> [] then [''photo''] else []) @ (if af_audio f \<noteq> [] then [''audio''] else [])
       @ (if af_location f \<noteq> [] then [''location''] else []) of
     [] \<Rightarrow> [] | k # ks \<Rightarrow> concat (k # map (\<lambda>x. CHR '','' # x) ks))"

definition keepawake_sent :: "hub \<Rightarrow> string \<Rightarrow> bool \<Rightarrow> (string \<times> bool) list" where
  "keepawake_sent s device_id on = (if device_id \<in> online_ids s then [(device_id, on)] else [])"

definition own_theft_device ::
  "params \<Rightarrow> int \<Rightarrow> request \<Rightarrow> string \<Rightarrow> (user_info \<Rightarrow> device_info \<Rightarrow> (vault, 'a) op) \<Rightarrow> (vault, 'a) op" where
  "own_theft_device X now rq device_id f = bindE (on_vhub (own_device X now rq device_id (\<lambda>u d. ret (u, d)))) (\<lambda>(u, d). f u d)"

definition theft_user :: "params \<Rightarrow> int \<Rightarrow> request \<Rightarrow> (user_info \<Rightarrow> (vault, 'a) op) \<Rightarrow> (vault, 'a) op" where
  "theft_user X now rq f = bindE (on_vdb (require_user X now rq)) f"

definition theft_arm ::
  "params \<Rightarrow> capture_env \<Rightarrow> int \<Rightarrow> request \<Rightarrow> string \<Rightarrow> arm_form \<Rightarrow> (vault, response \<times> (string \<times> bool) list) op" where
  "theft_arm X E now rq device_id f = own_theft_device X now rq device_id (\<lambda>u d.
     if af_attest f = [] then raise (HTTPException 400 ''You must confirm you own / are authorised to monitor this device before arming Theft Mode.'')
     else if \<not> picks_one f then raise (HTTPException 400 ''Pick at least one capture type.'')
     else
       thenE (on_vdb (set_theft_armed device_id True (Some (ui_id u)) (max 30 (af_interval f)) (ce_dumps E (JObj (arm_opts f))) now))
      (thenE (on_vdb (record_audit ''theft_arm'' (Some (ui_id u)) (Some (ui_id u)) (Some (ui_username u)) (Some device_id)
          (Some (arm_detail f)) None True now))
      (bindE (asks vt_hub) (\<lambda>s. ret (redirect (''/devices/'' @ device_id @ ''/theft''),
          if af_keepawake f \<noteq> [] then keepawake_sent s device_id True else [])))))"

definition theft_disarm ::
  "params \<Rightarrow> int \<Rightarrow> request \<Rightarrow> string \<Rightarrow> (vault, response \<times> (string \<times> bool) list) op" where
  "theft_disarm X now rq device_id = own_theft_device X now rq device_id (\<lambda>u d.
     thenE (on_vdb (set_theft_armed device_id False None 300 ''{}'' now))
    (thenE (on_vdb (record_audit ''theft_disarm'' (Some (ui_id u)) (Some (ui_id u)) (Some (ui_username u)) (Some device_id)
        None None True now))
    (bindE (asks vt_hub) (\<lambda>s. ret (redirect (''/devices/'' @ device_id @ ''/theft''), keepawake_sent s device_id False)))))"

fun arm_each :: "bool \<Rightarrow> int option \<Rightarrow> int \<Rightarrow> string \<Rightarrow> int \<Rightarrow> string list \<Rightarrow> (vault, unit) op" where
  "arm_each armed by_user interval opts now [] = ret ()"
| "arm_each armed by_user interval opts now (d # ds) =
     thenE (on_vdb (set_theft_armed d armed by_user interval opts now)) (arm_each armed by_user interval opts now ds)"

definition theft_arm_all ::
  "params \<Rightarrow> capture_env \<Rightarrow> int \<Rightarrow> request \<Rightarrow> arm_form \<Rightarrow> (vault, response \<times> (string \<times> bool) list) op" where
  "theft_arm_all X E now rq f = theft_user X now rq (\<lambda>u.
     if af_attest f = [] then raise (HTTPException 400 ''Confirm you own / are authorised to monitor these devices before arming the whole fleet.'')
     else if \<not> picks_one f then raise (HTTPException 400 ''Pick at least one capture type.'')
     else bindE (on_vdb (list_devices (ui_id u))) (\<lambda>devs.
       thenE (arm_each True (Some (ui_id u)) (max 30 (af_interval f)) (ce_dumps E (JObj (arm_opts f))) now (map di_id devs))
      (bindE (asks vt_hub) (\<lambda>s. ret (redirect ''/theft'',
         if af_keepawake f \<noteq> [] then concat (map (\<lambda>d. keepawake_sent s (di_id d) True) devs) else [])))))"

definition theft_disarm_all :: "params \<Rightarrow> int \<Rightarrow> request \<Rightarrow> (vault, response \<times> (string \<times> bool) list) op" where
  "theft_disarm_all X now rq = theft_user X now rq (\<lambda>u.
     bindE (on_vdb (list_devices (ui_id u))) (\<lambda>devs.
       thenE (arm_each False None 300 ''{}'' now (map di_id devs))
      (bindE (asks vt_hub) (\<lambda>s. ret (redirect ''/theft'', concat (map (\<lambda>d. keepawake_sent s (di_id d) False) devs))))))"

section \<open>Captures by hand and by the clock\<close>

definition theft_capture ::
  "params \<Rightarrow> capture_env \<Rightarrow> int \<Rightarrow> request \<Rightarrow> string \<Rightarrow> string \<Rightarrow> int \<Rightarrow> string \<Rightarrow> (vault, json) op" where
  "theft_capture X E now rq device_id kind duration camera_id = own_theft_device X now rq device_id (\<lambda>u d.
     if map_of THEFT_KINDS kind = None then raise (HTTPException 400 ''Unknown capture kind'')
     else bindE (asks (\<lambda>v. map_of (h_conns (vt_hub v)) device_id)) (\<lambda>conn. case conn of
       None \<Rightarrow> bindE (on_vhub (offline_detail X now device_id)) (\<lambda>detail. raise (HTTPException 503 detail))
     | Some k \<Rightarrow> catch
         (bindE (capture_to_store X E now k device_id (ui_id u) kind ''manual'' camera_id duration) (\<lambda>mid.
           ret (JObj [(''ok'', JBool True), (''id'', JInt mid), (''kind'', JStr kind)])))
         (\<lambda>e. case e of AgentError m \<Rightarrow> raise (HTTPException 502 m)
            | TimeoutError \<Rightarrow> raise (HTTPException 504 ''Device did not respond in time'')
            | StopAsyncIteration \<Rightarrow> raise (HTTPException 504 ''Device did not respond in time'')
            | _ \<Rightarrow> raise e)))"

text \<open>One kind of one device in a round; whatever goes wrong with it is swallowed.\<close>

definition auto_capture ::
  "params \<Rightarrow> capture_env \<Rightarrow> int \<Rightarrow> nat \<Rightarrow> armed_device \<Rightarrow> (string \<times> json) list \<Rightarrow> string \<Rightarrow> (vault, unit) op" where
  "auto_capture X E now k st opts kind =
     (if \<not> truthy (jget opts kind) then ret ()
      else catch (bindE (liftE (jint (jget_default opts ''audio_seconds'' (JInt 15)))) (\<lambda>dur.
          bindE (capture_to_store X E now k (ad_device_id st) (ad_owner_id st) kind ''auto''
             (py_str (pSH X) (jget_default opts ''camera_id'' (JStr ''0''))) dur) (\<lambda>_. ret ())))
        (\<lambda>_. ret ()))"

definition ad_interval :: "armed_device \<Rightarrow> int" where
  "ad_interval st = max 30 (if ad_interval_s st = 0 then 300 else ad_interval_s st)"

definition ad_due :: "int \<Rightarrow> armed_device \<Rightarrow> bool" where
  "ad_due now st \<longleftrightarrow> \<not> now - (case ad_last_run st of Some t \<Rightarrow> t | None \<Rightarrow> 0) < ad_interval st"

definition tick_device :: "params \<Rightarrow> capture_env \<Rightarrow> int \<Rightarrow> armed_device \<Rightarrow> (vault, unit) op" where
  "tick_device X E now st =
     (if \<not> ad_due now st then ret ()
      else bindE (asks (\<lambda>v. map_of (h_conns (vt_hub v)) (ad_device_id st))) (\<lambda>conn. case conn of
        None \<Rightarrow> ret ()
      | Some k \<Rightarrow>
          (let opts = (case ce_loads E (or_str (opt_str (ad_opts st)) ''{}'') of None \<Rightarrow> JObj [] | Some j \<Rightarrow> j) in
           thenE (on_vdb (update_theft_last_run (ad_device_id st) now))
             (case opts of
                JObj kvs \<Rightarrow> thenE (auto_capture X E now k st kvs ''location'')
                  (thenE (auto_capture X E now k st kvs ''photo'') (auto_capture X E now k st kvs ''audio''))
              | _ \<Rightarrow> raise AttributeError))))"

fun tick_all :: "params \<Rightarrow> capture_env \<Rightarrow> int \<Rightarrow> armed_device list \<Rightarrow> (vault, unit) op" where
  "tick_all X E now [] = ret ()"
| "tick_all X E now (st # sts) = thenE (tick_device X E now st) (tick_all X E now sts)"

text \<open>One round of the loop, which reads the clock once here.\<close>

definition theft_round :: "params \<Rightarrow> capture_env \<Rightarrow> int \<Rightarrow> (vault, unit) op" where
  "theft_round X E now = catch (bindE (on_vdb armed_devices) (tick_all X E now)) (\<lambda>_. ret ())"

section \<open>Media pages\<close>

text \<open>A missing or unreadable \<open>meta\<close> is shown as an empty object.\<close>

definition media_meta :: "capture_env \<Rightarrow> media_row \<Rightarrow> json" where
  "media_meta E m = (if opt_str (m_meta m) = [] then JObj []
     else case ce_loads E (opt_str (m_meta m)) of None \<Rightarrow> JObj [] | Some j \<Rightarrow> j)"

definition theft_media_list ::
  "params \<Rightarrow> capture_env \<Rightarrow> int \<Rightarrow> request \<Rightarrow> string \<Rightarrow> (vault, bool \<times> bool \<times> (media_row \<times> json) list) op" where
  "theft_media_list X E now rq device_id = own_theft_device X now rq device_id (\<lambda>u d.
     bindE (on_vdb (list_theft_media device_id (ui_id u) 200)) (\<lambda>items.
     bindE (on_vdb (get_theft_state device_id)) (\<lambda>st.
     bindE (asks (\<lambda>v. device_id \<in> online_ids (vt_hub v))) (\<lambda>online.
       ret (case st of None \<Rightarrow> False | Some t \<Rightarrow> t_armed t \<noteq> 0, online,
            map (\<lambda>m. (m, media_meta E m)) items)))))"

definition theft_page ::
  "params \<Rightarrow> int \<Rightarrow> request \<Rightarrow> string \<Rightarrow> (vault, theft_row option \<times> media_row list \<times> bool) op" where
  "theft_page X now rq device_id = own_theft_device X now rq device_id (\<lambda>u d.
     bindE (on_vdb (get_theft_state device_id)) (\<lambda>st.
     bindE (on_vdb (list_theft_media device_id (ui_id u) 200)) (\<lambda>media.
     bindE (asks (\<lambda>v. device_id \<in> online_ids (vt_hub v))) (\<lambda>online. ret (st, media, online)))))"

text \<open>The answer: the bytes, the content type and the announced length.\<close>

definition theft_media_get ::
  "params \<Rightarrow> capture_env \<Rightarrow> int \<Rightarrow> request \<Rightarrow> string \<Rightarrow> int \<Rightarrow> (vault, byte list \<times> string \<times> string) op" where
  "theft_media_get X E now rq device_id media_id = own_theft_device X now rq device_id (\<lambda>u d.
     bindE (on_vdb (get_theft_media media_id (ui_id u))) (\<lambda>row. case row of
       None \<Rightarrow> raise (HTTPException 404 ''Not found'')
     | Some m \<Rightarrow>
         if m_device_id m \<noteq> device_id \<or> opt_str (m_path m) = [] then raise (HTTPException 404 ''Not found'')
         else bindE (asks (\<lambda>v. if in_store X E (vt_hub v) (media_path X E (vt_hub v) (opt_str (m_path m)))
               then file_at (vt_fs v) (media_path X E (vt_hub v) (opt_str (m_path m))) else None)) (\<lambda>content.
           case content of None \<Rightarrow> raise (HTTPException 404 ''File missing'')
           | Some bs \<Rightarrow> ret (bs, or_str (opt_str (m_mime m)) ''application/octet-stream'',
               int_str (case m_size m of Some n \<Rightarrow> n | None \<Rightarrow> 0)))))"

definition theft_media_delete ::
  "params \<Rightarrow> capture_env \<Rightarrow> int \<Rightarrow> request \<Rightarrow> string \<Rightarrow> int \<Rightarrow> (vault, response) op" where
  "theft_media_delete X E now rq device_id media_id = own_theft_device X now rq device_id (\<lambda>u d.
     bindE (on_vdb (delete_theft_media media_id (ui_id u))) (\<lambda>row.
     thenE (case row of None \<Rightarrow> ret ()
            | Some m \<Rightarrow> if opt_str (m_path m) = [] then ret () else drop_media X E (opt_str (m_path m)))
       (ret (redirect (''/devices/'' @ device_id @ ''/theft'')))))"

section \<open>The dashboard\<close>

record fleet_row =
  fr_id :: string
  fr_name :: string
  fr_online :: bool
  fr_elsewhere :: "string option"
  fr_armed :: bool
  fr_interval :: "int option"
  fr_opts :: json
  fr_last_capture :: "int option"
  fr_loc :: "(rat \<times> rat \<times> json \<times> int) option"

text \<open>The position in the newest location of a device: none when it cannot be read.\<close>

definition fleet_loc ::
  "capture_env \<Rightarrow> (string \<Rightarrow> rat option) \<Rightarrow> media_row option \<Rightarrow> exn + (rat \<times> rat \<times> json \<times> int) option" where
  "fleet_loc E FL row = (case row of None \<Rightarrow> Inr None
   | Some m \<Rightarrow>
       if opt_str (m_meta m) = [] then Inr None
       else case ce_loads E (opt_str (m_meta m)) of
         None \<Rightarrow> Inr None
       | Some (JObj kvs) \<Rightarrow>
           if jget kvs ''lat'' = JNull \<or> jget kvs ''lon'' = JNull then Inr None
           else (case (jfloat FL (jget kvs ''lat''), jfloat FL (jget kvs ''lon'')) of
                   (Inr a, Inr b) \<Rightarrow> Inr (Some (a, b, jget kvs ''accuracy'', m_created_at m))
                 | _ \<Rightarrow> Inr None)
       | Some _ \<Rightarrow> Inl AttributeError)"

definition fleet_entry ::
  "capture_env \<Rightarrow> (string \<Rightarrow> rat option) \<Rightarrow> string set \<Rightarrow> (string \<times> string) list \<Rightarrow> (string \<times> theft_row) list \<Rightarrow>
   (string \<rightharpoonup> media_row) \<Rightarrow> (string \<rightharpoonup> int) \<Rightarrow> device_info \<Rightarrow> exn + fleet_row" where
  "fleet_entry E FL online elsewhere states last_loc last_cap d =
     (let st = map_of states (di_id d) in
      case fleet_loc E FL (last_loc (di_id d)) of
        Inl e \<Rightarrow> Inl e
      | Inr loc \<Rightarrow> Inr \<lparr>fr_id = di_id d, fr_name = di_name d, fr_online = di_id d \<in> online,
          fr_elsewhere = map_of elsewhere (di_id d),
          fr_armed = (case st of None \<Rightarrow> False | Some t \<Rightarrow> t_armed t \<noteq> 0),
          fr_interval = map_option t_interval_s st,
          fr_opts = (case ce_loads E (or_str (opt_str (case st of None \<Rightarrow> None | Some t \<Rightarrow> t_opts t)) ''{}'') of
             None \<Rightarrow> JObj [] | Some j \<Rightarrow> j),
          fr_last_capture = last_cap (di_id d), fr_loc = loc\<rparr>)"

text \<open>The rows, the points of the map, the newest media, how many are armed, and who is online.\<close>

definition theft_dashboard_data ::
  "params \<Rightarrow> capture_env \<Rightarrow> (string \<Rightarrow> rat option) \<Rightarrow> int \<Rightarrow> int \<Rightarrow>
   (hub, fleet_row list \<times> (string \<times> string \<times> rat \<times> rat \<times> int) list \<times> media_row list \<times> nat \<times> string set) op" where
  "theft_dashboard_data X E FL now uid =
     bindE (on_db (list_devices uid)) (\<lambda>devs.
     bindE (asks online_ids) (\<lambda>online.
     bindE (elsewhere_map X now uid online) (\<lambda>elsewhere.
     bindE (on_db (theft_states_for_user uid)) (\<lambda>states.
     bindE (on_db (latest_location_per_device uid)) (\<lambda>last_loc.
     bindE (on_db (last_capture_per_device uid)) (\<lambda>last_cap.
     bindE (liftE (mapE (fleet_entry E FL online elsewhere states last_loc last_cap) devs)) (\<lambda>rows.
     bindE (on_db (list_theft_media_all uid 48 None)) (\<lambda>media.
       ret (rows,
            concat (map (\<lambda>r. case fr_loc r of None \<Rightarrow> []
              | Some (a, b, acc, stamp) \<Rightarrow> [(fr_id r, fr_name r, a, b, stamp)]) rows),
            media, length (filter fr_armed rows), online)))))))))"

definition theft_dashboard_feed :: "params \<Rightarrow> int \<Rightarrow> request \<Rightarrow> (hub, int \<times> nat \<times> string set \<times> nat) op" where
  "theft_dashboard_feed X now rq = as_user X now rq (\<lambda>u.
     bindE (on_db (list_theft_media_all (ui_id u) 48 None)) (\<lambda>media.
     bindE (on_db (theft_states_for_user (ui_id u))) (\<lambda>states.
     bindE (asks online_ids) (\<lambda>online.
       ret (case media of [] \<Rightarrow> 0 | m # _ \<Rightarrow> m_id m,
            length (filter (\<lambda>(_, t). t_armed t \<noteq> 0) states), online, length media)))))"

definition api_audit :: "params \<Rightarrow> int \<Rightarrow> request \<Rightarrow> int \<Rightarrow> (hub, audit_row list) op" where
  "api_audit X now rq n = as_user X now rq (\<lambda>u. on_db (list_audit (ui_id u) n))"

section \<open>Invariants of the store\<close>

lemma on_vhub_apply: "on_vhub m v = (fst (m (vt_hub v)), v\<lparr>vt_hub := snd (m (vt_hub v))\<rparr>)"
  by (simp add: on_vhub_def zoom_def split: prod.split)

lemma on_vdb_apply: "on_vdb m v = (fst (m (h_db (vt_hub v))),
    v\<lparr>vt_hub := (vt_hub v)\<lparr>h_db := snd (m (h_db (vt_hub v)))\<rparr>\<rparr>)"
  by (simp add: on_vdb_def on_vhub_apply on_db_apply)

lemma on_vfs_apply: "on_vfs m v = (fst (m (vt_fs v)), v\<lparr>vt_fs := snd (m (vt_fs v))\<rparr>)"
  by (simp add: on_vfs_def zoom_def split: prod.split)

text \<open>What holds of the database while the connections stay the same.\<close>

definition keeps :: "(db \<Rightarrow> bool) \<Rightarrow> (string \<times> nat) list \<Rightarrow> vault \<Rightarrow> bool" where
  "keeps Q hc v \<longleftrightarrow> Q (h_db (vt_hub v)) \<and> h_conns (vt_hub v) = hc"

lemma keeps_on_vdb [pres]: "preserves Q m \<Longrightarrow> preserves (keeps Q hc) (on_vdb m)"
  by (simp add: preserves_def keeps_def on_vdb_apply)

lemma keeps_on_vfs [pres]: "preserves (keeps Q hc) (on_vfs m)"
  by (simp add: preserves_def keeps_def on_vfs_apply)

lemma keeps_drop_media [pres]: "preserves (keeps Q hc) (drop_media X E p)"
  unfolding drop_media_def by (rule preserves_bindE [OF preserves_asks], clarify) (intro pres)

lemma keeps_drop_all [pres]: "preserves (keeps Q hc) (drop_all X E ps)"
  by (induction ps) (simp_all only: drop_all.simps pres)

lemma keeps_capture:
  assumes "\<And>own k p mi sz me tr t. preserves Q (add_theft_media d own k p mi sz me tr t)"
    and "\<And>ac ow ai an dd det nd ok t. preserves Q (record_audit ac ow ai an dd det nd ok t)"
    and "\<And>keep. preserves Q (prune_theft_media d keep)"
  shows "preserves (keeps Q hc) (capture_to_store X E now k d own kind tr cam dur)"
  using assms unfolding capture_to_store_def store_file_def Let_def
  by (auto intro!: pres split: option.split)

text \<open>The rows of a device, and when it last ran.\<close>

definition rows_of :: "string \<Rightarrow> db \<Rightarrow> media_row list" where
  "rows_of d s = select_where (\<lambda>r. m_device_id r = d) (theft_media s)"

definition media_ids :: "db \<Rightarrow> bool" where
  "media_ids s \<longleftrightarrow> uniq m_id (theft_media s) \<and> ids_below m_id (theft_media s) (media_seq s)"

definition rows_same :: "string \<Rightarrow> media_row list \<Rightarrow> db \<Rightarrow> bool" where
  "rows_same d M s \<longleftrightarrow> media_ids s \<and> rows_of d s = M"

definition ran_at :: "string \<Rightarrow> int \<Rightarrow> db \<Rightarrow> bool" where
  "ran_at d now s \<longleftrightarrow> media_ids s \<and> (\<forall>t \<in> set (theft_state s). t_device_id t = d \<longrightarrow> t_last_run t = Some now)"

lemma rows_same_audit [pres]: "preserves (rows_same d M) (record_audit ac ow ai an dd det nd ok t)"
  by (auto simp: preserves_def rows_same_def rows_of_def media_ids_def record_audit_def catch_def db_write_def
      split: option.split)

lemma ran_at_audit [pres]: "preserves (ran_at d now) (record_audit ac ow ai an dd det nd ok t)"
  by (auto simp: preserves_def ran_at_def media_ids_def record_audit_def catch_def db_write_def
      split: option.split)

lemma rows_same_add: "e \<noteq> d \<Longrightarrow> preserves (rows_same d M) (add_theft_media e own k p mi sz me tr t)"
  unfolding add_theft_media_def
  by (intro preserves_db_write preserves_constraint) (auto simp: rows_same_def rows_of_def media_ids_def select_where_def)

lemma ran_at_add: "preserves (ran_at d now) (add_theft_media e own k p mi sz me tr t)"
  unfolding add_theft_media_def
  by (intro preserves_db_write preserves_constraint) (auto simp: ran_at_def media_ids_def)

lemma prune_rows_sets:
  "theft_state (snd (prune_rows old s)) = theft_state s \<and> media_seq (snd (prune_rows old s)) = media_seq s \<and>
   (theft_media (snd (prune_rows old s)) = theft_media s \<or>
    theft_media (snd (prune_rows old s)) = filter (\<lambda>q. m_id q \<notin> m_id ` set old) (theft_media s))"
proof (cases "answers s")
  case True
  then show ?thesis by (simp add: prune_rows_answers)
next
  case False
  show ?thesis
  proof (cases old)
    case (Cons r rs)
    obtain e where "db_write (modify (\<lambda>s. s\<lparr>theft_media := delete_where (\<lambda>q. m_id q = m_id r) (theft_media s)\<rparr>)) s = (Inl e, s)"
      using db_write_refused [OF False] by blast
    with Cons show ?thesis by (simp add: thenE_def bindE_def)
  qed simp
qed

lemma rows_same_prune: "e \<noteq> d \<Longrightarrow> preserves (rows_same d M) (prune_theft_media e keep)"
proof (rule preservesI)
  fix s assume e: "e \<noteq> d" and I: "rows_same d M s"
  define old where "old = drop (nat (max 0 keep)) (newest_first (select_where (\<lambda>r. m_device_id r = e) (theft_media s)))"
  have in_old: "r \<in> set old \<Longrightarrow> r \<in> set (theft_media s) \<and> m_device_id r = e" for r
    using set_drop_subset [of "nat (max 0 keep)" "newest_first (select_where (\<lambda>r. m_device_id r = e) (theft_media s))"]
    by (auto simp: select_where_def old_def)
  have u: "uniq m_id (theft_media s)" using I by (simp add: rows_same_def media_ids_def)
  have other: "m_id q \<notin> m_id ` set old" if "q \<in> set (theft_media s)" "m_device_id q = d" for q
  proof
    assume "m_id q \<in> m_id ` set old"
    then obtain r where r: "r \<in> set old" "m_id q = m_id r" by blast
    from uniqD [OF u that(1) conjunct1 [OF in_old [OF r(1)]] r(2)] in_old [OF r(1)] that(2) e show False by simp
  qed
  have "select_where (\<lambda>r. m_device_id r = d) (filter (\<lambda>q. m_id q \<notin> m_id ` set old) (theft_media s)) =
      select_where (\<lambda>r. m_device_id r = d) (theft_media s)"
    unfolding select_where_def filter_filter using other by (intro filter_cong) blast+
  then have "rows_same d M (snd (prune_rows old s))"
    using prune_rows_sets [of old s] I
    by (auto simp: rows_same_def rows_of_def media_ids_def uniq_filter ids_below_def)
  then show "rows_same d M (snd (prune_theft_media e keep s))"
    using I by (auto simp: prune_theft_media_def bindE_def db_read_def old_def split: option.split)
qed

lemma ran_at_prune: "preserves (ran_at d now) (prune_theft_media e keep)"
proof (rule preservesI)
  fix s assume I: "ran_at d now s"
  have "ran_at d now (snd (prune_rows old s))" for old
    using prune_rows_sets [of old s] I by (auto simp: ran_at_def media_ids_def uniq_filter ids_below_def)
  then show "ran_at d now (snd (prune_theft_media e keep s))"
    using I by (auto simp: prune_theft_media_def bindE_def db_read_def split: option.split)
qed

lemma last_run_other: "e \<noteq> d \<Longrightarrow> preserves (ran_at d now) (update_theft_last_run e t)"
  unfolding update_theft_last_run_def
  by (intro preserves_db_write preserves_modify) (auto simp: ran_at_def media_ids_def set_update_where)

lemma last_run_now: "preserves (ran_at d now) (update_theft_last_run e now)"
  unfolding update_theft_last_run_def
  by (intro preserves_db_write preserves_modify) (auto simp: ran_at_def media_ids_def set_update_where)

lemma last_run_rows: "preserves (rows_same d M) (update_theft_last_run e t)"
  unfolding update_theft_last_run_def
  by (intro preserves_db_write preserves_modify) (auto simp: rows_same_def rows_of_def media_ids_def)

lemma last_run_marks:
  assumes "rows_same d M s \<or> ran_at d now s"
  shows "(\<exists>e. update_theft_last_run d now s = (Inl e, s)) \<or>
    (\<exists>t. update_theft_last_run d now s = (Inr (), t) \<and> ran_at d now t)"
proof (cases "answers s")
  case True
  let ?t = "s\<lparr>theft_state := update_where (\<lambda>r. t_device_id r = d) (\<lambda>r. r\<lparr>t_last_run := Some now\<rparr>) (theft_state s)\<rparr>"
  have "update_theft_last_run d now s = (Inr (), ?t)" using True by (simp add: update_theft_last_run_def)
  moreover have "ran_at d now ?t"
  proof -
    have "media_ids s" using assms by (auto simp only: ran_at_def rows_same_def)
    then show ?thesis by (simp add: ran_at_def media_ids_def)
  qed
  ultimately show ?thesis by blast
next
  case False
  show ?thesis unfolding update_theft_last_run_def using db_write_refused [OF False] by blast
qed

lemma keeps_auto:
  assumes "\<And>own k p mi sz me tr t. preserves Q (add_theft_media (ad_device_id st) own k p mi sz me tr t)"
    and "\<And>ac ow ai an dd det nd ok t. preserves Q (record_audit ac ow ai an dd det nd ok t)"
    and "\<And>keep. preserves Q (prune_theft_media (ad_device_id st) keep)"
  shows "preserves (keeps Q hc) (auto_capture X E now k st opts kind)"
  unfolding auto_capture_def by (intro pres keeps_capture assms)

lemma ran_auto [pres]: "preserves (keeps (ran_at d now) hc) (auto_capture X E t k st opts kind)"
  by (intro keeps_auto ran_at_add ran_at_audit ran_at_prune)

lemma rows_auto: "ad_device_id st \<noteq> d \<Longrightarrow> preserves (keeps (rows_same d M) hc) (auto_capture X E t k st opts kind)"
  by (intro keeps_auto rows_same_add rows_same_audit rows_same_prune)

lemma ran_tick [pres]: "preserves (keeps (ran_at d now) hc) (tick_device X E now st)"
  unfolding tick_device_def Let_def by (auto intro!: pres last_run_now split: option.split json.split)

lemma rows_tick:
  "ad_device_id st \<noteq> d \<Longrightarrow> preserves (keeps (rows_same d M) hc) (tick_device X E now st)"
  unfolding tick_device_def Let_def by (auto intro!: pres rows_auto last_run_rows split: option.split json.split)

text \<open>A device that is looked at: either its rows are as before, or it is marked as run now.\<close>

definition same_or_ran :: "string \<Rightarrow> media_row list \<Rightarrow> int \<Rightarrow> db \<Rightarrow> bool" where
  "same_or_ran d M now s \<longleftrightarrow> rows_same d M s \<or> ran_at d now s"

lemma keeps_disj: "keeps (same_or_ran d M now) hc v \<longleftrightarrow> keeps (rows_same d M) hc v \<or> keeps (ran_at d now) hc v"
  by (auto simp: keeps_def same_or_ran_def)

lemma tick_same_or_ran: "preserves (keeps (same_or_ran d M now) hc) (tick_device X E now st)"
proof (rule preservesI)
  fix v assume I: "keeps (same_or_ran d M now) hc v"
  show "keeps (same_or_ran d M now) hc (snd (tick_device X E now st v))"
  proof (cases "ad_device_id st = d \<and> ad_due now st \<and> (\<exists>k. map_of (h_conns (vt_hub v)) d = Some k)")
    case False
    show ?thesis
    proof (cases "ad_device_id st = d")
      case True
      with False have "snd (tick_device X E now st v) = v"
        by (auto simp: tick_device_def bindE_def split: option.split)
      with I show ?thesis by simp
    next
      case False
      with I rows_tick [OF False] ran_tick show ?thesis
        unfolding keeps_disj preserves_def by blast
    qed
  next
    case True
    then obtain k where k: "ad_device_id st = d" "ad_due now st" "map_of (h_conns (vt_hub v)) d = Some k" by blast
    define opts where "opts = (case ce_loads E (or_str (opt_str (ad_opts st)) ''{}'') of None \<Rightarrow> JObj [] | Some j \<Rightarrow> j)"
    define rest where "rest = (case opts of
       JObj kvs \<Rightarrow> thenE (auto_capture X E now k st kvs ''location'')
         (thenE (auto_capture X E now k st kvs ''photo'') (auto_capture X E now k st kvs ''audio''))
     | _ \<Rightarrow> raise AttributeError)"
    have run: "tick_device X E now st v = thenE (on_vdb (update_theft_last_run d now)) rest v"
      using k by (simp add: tick_device_def bindE_def rest_def opts_def Let_def)
    have keep: "preserves (keeps (ran_at d now) hc) rest"
      unfolding rest_def by (cases opts) (simp_all only: json.case, (intro pres)+)
    from last_run_marks [of d M "h_db (vt_hub v)" now] I
    consider e where "update_theft_last_run d now (h_db (vt_hub v)) = (Inl e, h_db (vt_hub v))"
      | t where "update_theft_last_run d now (h_db (vt_hub v)) = (Inr (), t)" "ran_at d now t"
      by (auto simp: keeps_def same_or_ran_def)
    then show ?thesis
    proof cases
      case 1
      then show ?thesis using I by (simp add: run thenE_def bindE_def on_vdb_apply)
    next
      case 2
      then have "keeps (ran_at d now) hc (v\<lparr>vt_hub := (vt_hub v)\<lparr>h_db := t\<rparr>\<rparr>)"
        using I by (simp add: keeps_def)
      with keep 2 show ?thesis
        by (simp add: run thenE_def bindE_def on_vdb_apply preserves_def keeps_disj)
    qed
  qed
qed

lemma tick_all_same_or_ran: "preserves (keeps (same_or_ran d M now) hc) (tick_all X E now sts)"
  by (induction sts) (simp_all only: tick_all.simps pres preserves_thenE tick_same_or_ran)

text \<open>No entry of the device is due on a live connection: its rows stay.\<close>

lemma tick_all_idle:
  "\<forall>st \<in> set sts. ad_device_id st = d \<longrightarrow> ad_due now st \<longrightarrow> map_of hc d = None \<Longrightarrow>
   preserves (keeps (rows_same d M) hc) (tick_all X E now sts)"
proof (induction sts)
  case Nil
  show ?case by (simp only: tick_all.simps pres)
next
  case (Cons st sts)
  have "preserves (keeps (rows_same d M) hc) (tick_device X E now st)"
  proof (cases "ad_device_id st = d")
    case True
    show ?thesis
    proof (rule preservesI)
      fix v assume I: "keeps (rows_same d M) hc v"
      with True Cons.prems have "snd (tick_device X E now st v) = v"
        by (auto simp: tick_device_def bindE_def keeps_def split: option.split)
      with I show "keeps (rows_same d M) hc (snd (tick_device X E now st v))" by simp
    qed
  qed (rule rows_tick)
  then show ?case using Cons by (simp only: tick_all.simps) (intro preserves_thenE, simp_all)
qed

lemma armed_devices_set:
  "armed_devices s = (Inr sts, t) \<Longrightarrow> st \<in> set sts \<Longrightarrow> \<exists>r \<in> set (theft_state s). t_armed r = 1 \<and>
     t_device_id r = ad_device_id st \<and> t_interval_s r = ad_interval_s st \<and> t_last_run r = ad_last_run st"
  by (auto simp: armed_devices_def db_read_def select_where_def split: option.splits if_splits) blast+

text \<open>A round that changes the media of a device found it armed, due and connected, and marks it.\<close>

lemma round_changes_media:
  assumes "wf_db (h_db (vt_hub v))" and "rows_of d (h_db (vt_hub (snd (theft_round X E now v)))) \<noteq> rows_of d (h_db (vt_hub v))"
  shows "(\<exists>r \<in> set (theft_state (h_db (vt_hub v))). t_device_id r = d \<and> t_armed r = 1 \<and> d \<in> online_ids (vt_hub v) \<and>
      max 30 (if t_interval_s r = 0 then 300 else t_interval_s r) \<le> now - (case t_last_run r of Some t \<Rightarrow> t | None \<Rightarrow> 0)) \<and>
    ran_at d now (h_db (vt_hub (snd (theft_round X E now v))))"
proof -
  let ?hc = "h_conns (vt_hub v)" and ?M = "rows_of d (h_db (vt_hub v))"
  have I: "keeps (rows_same d ?M) ?hc v"
    using assms(1) by (simp add: keeps_def rows_same_def media_ids_def wf_defs)
  have "snd (armed_devices (h_db (vt_hub v))) = h_db (vt_hub v)" by (simp add: armed_devices_def)
  then obtain x where arm: "armed_devices (h_db (vt_hub v)) = (x, h_db (vt_hub v))" by (metis prod.collapse)
  show ?thesis
  proof (cases x)
    case (Inl e)
    then have "snd (theft_round X E now v) = v"
      using arm by (simp add: theft_round_def catch_def bindE_def on_vdb_apply)
    with assms(2) show ?thesis by simp
  next
    case (Inr sts)
    then have run: "snd (theft_round X E now v) = snd (tick_all X E now sts v)"
      using arm by (simp add: theft_round_def catch_def bindE_def on_vdb_apply split: prod.split sum.split)
    have "\<exists>st \<in> set sts. ad_device_id st = d \<and> ad_due now st \<and> map_of ?hc d \<noteq> None"
    proof (rule ccontr)
      assume "\<not> ?thesis"
      then have "keeps (rows_same d ?M) ?hc (snd (tick_all X E now sts v))"
        using tick_all_idle [of sts d now ?hc ?M X E] I by (auto simp: preserves_def)
      with assms(2) run show False by (simp add: keeps_def rows_same_def)
    qed
    then obtain st where st: "st \<in> set sts" "ad_device_id st = d" "ad_due now st" "map_of ?hc d \<noteq> None" by blast
    have "keeps (same_or_ran d ?M now) ?hc (snd (tick_all X E now sts v))"
      using tick_all_same_or_ran [of d ?M now ?hc X E sts] I by (simp add: preserves_def keeps_disj)
    then have ran: "ran_at d now (h_db (vt_hub (snd (theft_round X E now v))))"
      using assms(2) run by (auto simp: keeps_def same_or_ran_def rows_same_def)
    have on: "d \<in> online_ids (vt_hub v)"
      using st(4) by (auto simp: online_ids_def dest!: map_of_SomeD intro: rev_image_eqI)
    obtain r where "r \<in> set (theft_state (h_db (vt_hub v)))" "t_armed r = 1" "t_device_id r = ad_device_id st"
      "t_interval_s r = ad_interval_s st" "t_last_run r = ad_last_run st"
      using armed_devices_set [OF arm [unfolded Inr] st(1)] by blast
    with ran on st(2,3) show ?thesis by (auto simp: ad_due_def ad_interval_def)
  qed
qed

lemma round_wf: "preserves (keeps wf_db hc) (theft_round X E now)"
proof -
  have "preserves (keeps wf_db hc) (auto_capture X E now k st opts kind)" for k st opts kind
    by (intro keeps_auto add_theft_media_wf record_audit_wf prune_theft_media_wf)
  then have "preserves (keeps wf_db hc) (tick_device X E now st)" for st
    unfolding tick_device_def Let_def by (auto intro!: pres split: option.split json.split)
  then have "preserves (keeps wf_db hc) (tick_all X E now sts)" for sts
    by (induction sts) (simp_all only: tick_all.simps pres preserves_thenE)
  then show ?thesis unfolding theft_round_def by (intro pres theft_reads_wf)
qed

text \<open>A capture into a store that is not full.\<close>

lemma store_file_ok:
  assumes "\<not> is_dir (vt_fs v) dest" and "fst (mkdirs (butlast dest) (vt_fs v)) = Inr ()"
  shows "\<exists>t. store_file dest buf v = (Inr (), v\<lparr>vt_fs := t\<rparr>) \<and> file_at t dest = Some buf \<and>
    (\<forall>q. q \<noteq> dest \<longrightarrow> file_at t q = file_at (vt_fs v) q)"
proof -
  have ne: "dest \<noteq> []" using assms(1) by (auto simp: is_dir_def node_at_def)
  obtain s1 where s1: "mkdirs (butlast dest) (vt_fs v) = (Inr (), s1)"
    using assms(2) by (metis prod.collapse)
  have "map_of s1 dest = map_of (vt_fs v) dest"
    using mkdirs_untouched [of "butlast dest" dest "vt_fs v"] ne by (simp add: s1)
  then have nd: "\<not> is_dir s1 dest" using assms(1) ne by (simp add: is_dir_def node_at_def)
  have files: "file_at s1 q = file_at (vt_fs v) q" for q
    using mkdirs_files [of "butlast dest" "vt_fs v" q] by (simp add: s1)
  let ?t = "dict_put dest (File buf) (dict_put dest (File []) s1)"
  have "store_file dest buf v = (Inr (), v\<lparr>vt_fs := ?t\<rparr>)"
    using nd ne by (simp add: store_file_def thenE_def bindE_def on_vfs_apply s1 open_wb_def write_at_def)
  then show ?thesis using ne files by (intro exI [of _ ?t]) simp
qed

lemma filter_no_drop: "length t \<le> n \<Longrightarrow> drop n t = []"
  by simp

lemma capture_ok:
  assumes "answers (h_db (vt_hub v))" and "fk_device d (h_db (vt_hub v))" and "fk_user own (h_db (vt_hub v))"
    and "map_of THEFT_KINDS kind = Some (oper, mime, ext)"
    and "captured (ce_stream E k oper (capture_args kind camera duration)) = Inr buf"
    and "rel = d @ ''/'' @ kind @ ''-'' @ int_str now @ ''-'' @ ce_name E kind @ ''.'' @ ext"
    and "dest = path_join (media_root X E (vt_hub v)) rel"
    and "\<not> is_dir (vt_fs v) dest" and "fst (mkdirs (butlast dest) (vt_fs v)) = Inr ()"
    and "length (rows_of d (h_db (vt_hub v))) < nat (theft_retention (pSH X) (h_cfg (vt_hub v)))"
  shows "\<exists>row t. capture_to_store X E now k d own kind trigger camera duration v = (Inr (m_id row), t) \<and>
    theft_media (h_db (vt_hub t)) = theft_media (h_db (vt_hub v)) @ [row] \<and>
    m_device_id row = d \<and> m_owner_id row = own \<and> m_kind row = kind \<and> m_path row = Some rel \<and>
    m_size row = Some (int (length buf)) \<and>
    file_at (vt_fs t) dest = Some buf \<and> (\<forall>q. q \<noteq> dest \<longrightarrow> file_at (vt_fs t) q = file_at (vt_fs v) q) \<and>
    map au_action (audit_log (h_db (vt_hub t))) = map au_action (audit_log (h_db (vt_hub v))) @ [''capture_'' @ kind]"
proof -
  obtain fs where st: "store_file dest buf v = (Inr (), v\<lparr>vt_fs := fs\<rparr>)" "file_at fs dest = Some buf"
    "\<forall>q. q \<noteq> dest \<longrightarrow> file_at fs q = file_at (vt_fs v) q"
    using store_file_ok [OF assms(8,9), of buf] by blast
  let ?s = "h_db (vt_hub v)"
  let ?meta = "if kind = ''location'' then Some (location_meta X E buf) else None"
  let ?row = "\<lparr>m_id = media_seq ?s + 1, m_device_id = d, m_owner_id = own, m_kind = kind, m_created_at = now,
    m_path = Some rel, m_mime = Some mime, m_size = Some (int (length buf)), m_meta = ?meta, m_trigger = Some trigger\<rparr>"
  let ?s1 = "?s\<lparr>theft_media := theft_media ?s @ [?row], media_seq := media_seq ?s + 1\<rparr>"
  have add: "add_theft_media d own kind (Some rel) (Some mime) (Some (int (length buf))) ?meta trigger now ?s =
      (Inr (m_id ?row), ?s1)"
    using assms(1-3) by (simp add: add_theft_media_def constraint_def)
  let ?det = "Some (''trigger='' @ trigger @ '' size='' @ nat_str (length buf) @ ''B'')"
  obtain ar where aud: "record_audit (''capture_'' @ kind) (Some own) None None (Some d) ?det None True now ?s1 =
      (Inr (), ?s1\<lparr>audit_log := audit_log ?s @ [ar], audit_seq := audit_seq ?s + 1\<rparr>)" "au_action ar = ''capture_'' @ kind"
    using assms(1) by (simp add: record_audit_def catch_def)
  let ?s2 = "?s1\<lparr>audit_log := audit_log ?s @ [ar], audit_seq := audit_seq ?s + 1\<rparr>"
  let ?keep = "theft_retention (pSH X) (h_cfg (vt_hub v))"
  have "length (media_of d ?s2) \<le> nat ?keep"
    using assms(10) by (simp add: media_of_def newest_first_def rows_of_def select_where_def)
  then have pr: "prune_theft_media d ?keep ?s2 = (Inr [], ?s2)"
    using assms(1) by (simp add: prune_answers)
  have "capture_to_store X E now k d own kind trigger camera duration v =
      (Inr (m_id ?row), v\<lparr>vt_fs := fs, vt_hub := (vt_hub v)\<lparr>h_db := ?s2\<rparr>\<rparr>)"
    using assms(4,5) st(1) add aud(1) pr
    by (simp add: capture_to_store_def bindE_def thenE_def assms(6,7) on_vdb_apply Let_def)
  then show ?thesis using st(2,3) aud(2)
    by (intro exI [of _ ?row] exI [of _ "v\<lparr>vt_fs := fs, vt_hub := (vt_hub v)\<lparr>h_db := ?s2\<rparr>\<rparr>"]) simp
qed

lemma own_device_state:
  "(\<And>u i s. snd (f u i s) = s) \<Longrightarrow> snd (own_device X now rq d f s) = s"
  by (auto simp: own_device_def as_user_def bindE_def on_db_apply require_user_def get_device_for_user_def
      split: prod.splits sum.splits option.splits dest: arg_cong [where f = snd])

section \<open>Properties\<close>

text \<open>
  C13: automatic captures keep their distance. When two rounds of the loop, one after the other, both
  change the media of a device, then the device is armed and connected at the second, and at least
  its interval, and never less than thirty seconds, has passed since the first, whatever the device
  sends and whatever fails in between.
\<close>

theorem captures_keep_interval:
  assumes "wf_db (h_db (vt_hub v))" and "v1 = snd (theft_round X E now v)" and "v2 = snd (theft_round X E' later v1)"
    and "wf_db (h_db (vt_hub v1))"
    and "rows_of d (h_db (vt_hub v1)) \<noteq> rows_of d (h_db (vt_hub v))"
    and "rows_of d (h_db (vt_hub v2)) \<noteq> rows_of d (h_db (vt_hub v1))"
  shows "\<exists>r \<in> set (theft_state (h_db (vt_hub v1))). t_device_id r = d \<and> t_armed r = 1 \<and> d \<in> online_ids (vt_hub v1) \<and>
    now + max 30 (if t_interval_s r = 0 then 300 else t_interval_s r) \<le> later"
proof -
  from round_changes_media [OF assms(1), of d X E now] assms(2,5) have "ran_at d now (h_db (vt_hub v1))" by simp
  moreover from round_changes_media [OF assms(4), of d X E' later] assms(3,6) obtain r where
    r: "r \<in> set (theft_state (h_db (vt_hub v1)))" "t_device_id r = d" "t_armed r = 1" "d \<in> online_ids (vt_hub v1)"
      "max 30 (if t_interval_s r = 0 then 300 else t_interval_s r) \<le> later - (case t_last_run r of Some t \<Rightarrow> t | None \<Rightarrow> 0)"
    by auto
  ultimately have "t_last_run r = Some now" by (simp add: ran_at_def)
  with r(5) have "now + max 30 (if t_interval_s r = 0 then 300 else t_interval_s r) \<le> later"
    by (auto split: if_splits)
  with r(1-4) show ?thesis by blast
qed

definition theft_net :: db where
  "theft_net = enrolled_demo\<lparr>theft_state := [\<lparr>t_device_id = ''d1'', t_armed = 1, t_armed_at = Some 0, t_armed_by = Some 1,
     t_interval_s = 30, t_opts = Some ''x'', t_last_run = None\<rparr>]\<rparr>"

definition demo_env :: capture_env where
  "demo_env = \<lparr>ce_stream = (\<lambda>k oper args. ([Frame [(''type'', JStr ''stream_start'')], Chunk (JStr ''r'') [1, 2],
       Frame [(''type'', JStr ''stream_end'')]], None)),
     ce_decode = (\<lambda>_. None), ce_text = (\<lambda>_. []), ce_dumps = (\<lambda>_. ''x''), ce_loads = (\<lambda>_. Some (JObj [(''photo'', JBool True)])),
     ce_resolve = (\<lambda>p. p), ce_home = ''/h'', ce_name = (\<lambda>_. ''n'')\<rparr>"

definition demo_vault :: vault where
  "demo_vault = \<lparr>vt_hub = (fresh_hub theft_net)\<lparr>h_conns := [(''d1'', 0)]\<rparr>, vt_fs = []\<rparr>"

lemma demo_rounds:
  "map m_created_at (rows_of ''d1'' (h_db (vt_hub (snd (theft_round plain_params demo_env 30 demo_vault))))) = [30]"
  "map m_created_at (rows_of ''d1'' (h_db (vt_hub (snd (theft_round plain_params demo_env 60
     (snd (theft_round plain_params demo_env 30 demo_vault))))))) = [30, 60]"
  by code_simp+

lemma theft_net_wf: "answers theft_net" "wf_db theft_net" "rows_of ''d1'' theft_net = []"
  by (simp_all add: theft_net_def wf_defs enrolled_demo_def invite_demo_def refs_def refs_opt_def uniq_def fk_on_def
      answers_def ids_below_def empty_db_def empty_tables_def tables.extend_def rows_of_def select_where_def)

theorem captures_keep_interval_witness:
  "\<exists>r \<in> set (theft_state (h_db (vt_hub (snd (theft_round plain_params demo_env 30 demo_vault))))).
     30 + max 30 (if t_interval_s r = 0 then 300 else t_interval_s r) \<le> 60"
proof -
  have w: "wf_db (h_db (vt_hub demo_vault))" "rows_of ''d1'' (h_db (vt_hub demo_vault)) = []"
    by (simp_all add: demo_vault_def theft_net_wf)
  have w1: "wf_db (h_db (vt_hub (snd (theft_round plain_params demo_env 30 demo_vault))))"
    using round_wf [of "h_conns (vt_hub demo_vault)" plain_params demo_env 30] w(1) by (simp add: preserves_def keeps_def)
  have "rows_of ''d1'' (h_db (vt_hub (snd (theft_round plain_params demo_env 30 demo_vault)))) \<noteq>
      rows_of ''d1'' (h_db (vt_hub demo_vault))"
    "rows_of ''d1'' (h_db (vt_hub (snd (theft_round plain_params demo_env 60 (snd (theft_round plain_params demo_env 30 demo_vault)))))) \<noteq>
      rows_of ''d1'' (h_db (vt_hub (snd (theft_round plain_params demo_env 30 demo_vault))))"
    using demo_rounds w(2) by fastforce+
  from captures_keep_interval [OF w(1) refl refl w1 this] show ?thesis by blast
qed

text \<open>
  C12: a capture is stored. When the user asks for a capture, the device streams it, its file can be
  written and the store is not full, the answer carries the id of a new row; the row has the kind,
  the size and the path of the capture, the file at that path has exactly the bytes the device sent,
  no other file is changed, and the capture is in the audit log.
\<close>

theorem capture_is_stored:
  assumes "answers (h_db (vt_hub v))" and "fk_device d (h_db (vt_hub v))" and "fk_user (ui_id u) (h_db (vt_hub v))"
    and "fst (own_device X now rq d (\<lambda>u d. ret (u, d)) (vt_hub v)) = Inr (u, info)"
    and "map_of THEFT_KINDS kind = Some (oper, mime, ext)" and "map_of (h_conns (vt_hub v)) d = Some k"
    and "captured (ce_stream E k oper (capture_args kind camera duration)) = Inr buf"
    and "rel = d @ ''/'' @ kind @ ''-'' @ int_str now @ ''-'' @ ce_name E kind @ ''.'' @ ext"
    and "dest = path_join (media_root X E (vt_hub v)) rel"
    and "\<not> is_dir (vt_fs v) dest" and "fst (mkdirs (butlast dest) (vt_fs v)) = Inr ()"
    and "length (rows_of d (h_db (vt_hub v))) < nat (theft_retention (pSH X) (h_cfg (vt_hub v)))"
  shows "\<exists>row t. theft_capture X E now rq d kind duration camera v =
      (Inr (JObj [(''ok'', JBool True), (''id'', JInt (m_id row)), (''kind'', JStr kind)]), t) \<and>
    theft_media (h_db (vt_hub t)) = theft_media (h_db (vt_hub v)) @ [row] \<and>
    m_device_id row = d \<and> m_owner_id row = ui_id u \<and> m_kind row = kind \<and> m_path row = Some rel \<and>
    m_size row = Some (int (length buf)) \<and>
    file_at (vt_fs t) dest = Some buf \<and> (\<forall>q. q \<noteq> dest \<longrightarrow> file_at (vt_fs t) q = file_at (vt_fs v) q) \<and>
    map au_action (audit_log (h_db (vt_hub t))) = map au_action (audit_log (h_db (vt_hub v))) @ [''capture_'' @ kind]"
proof -
  have "snd (own_device X now rq d (\<lambda>u d. ret (u, d)) (vt_hub v)) = vt_hub v"
    by (rule own_device_state) simp
  then have own: "on_vhub (own_device X now rq d (\<lambda>u d. ret (u, d))) v = (Inr (u, info), v)"
    using assms(4) by (simp add: on_vhub_apply)
  from capture_ok [OF assms(1-3,5,7-12), of "''manual''"] obtain row t where
    c: "capture_to_store X E now k d (ui_id u) kind ''manual'' camera duration v = (Inr (m_id row), t)"
    "theft_media (h_db (vt_hub t)) = theft_media (h_db (vt_hub v)) @ [row]"
    "m_device_id row = d" "m_owner_id row = ui_id u" "m_kind row = kind" "m_path row = Some rel"
    "m_size row = Some (int (length buf))" "file_at (vt_fs t) dest = Some buf"
    "\<forall>q. q \<noteq> dest \<longrightarrow> file_at (vt_fs t) q = file_at (vt_fs v) q"
    "map au_action (audit_log (h_db (vt_hub t))) = map au_action (audit_log (h_db (vt_hub v))) @ [''capture_'' @ kind]"
    by blast
  then show ?thesis
    by (intro exI [of _ row] exI [of _ t])
      (simp add: theft_capture_def own_theft_device_def bindE_def own assms(5,6) catch_def)
qed

definition owner_vault :: vault where
  "owner_vault = \<lparr>vt_hub = (fresh_hub (theft_net\<lparr>sessions := [\<lparr>s_token_hash = hash_token (\<lambda>bs. bs) ''a'', s_user_id = 1,
     s_created_at = 0, s_expires_at = 900\<rparr>]\<rparr>))\<lparr>h_conns := [(''d1'', 0)]\<rparr>, vt_fs = []\<rparr>"

definition owner_request :: request where
  "owner_request = plain_request\<lparr>rq_cookie := Some ''a''\<rparr>"

lemma owner_vault_device:
  "\<exists>u info. fst (own_device plain_params 30 owner_request ''d1'' (\<lambda>u d. ret (u, d)) (vt_hub owner_vault)) = Inr (u, info) \<and>
     ui_id u = 1"
proof -
  have "case fst (own_device plain_params 30 owner_request ''d1'' (\<lambda>u d. ret (u, d)) (vt_hub owner_vault)) of
      Inr (u, i) \<Rightarrow> ui_id u = 1 | Inl _ \<Rightarrow> False" by code_simp
  then show ?thesis by (auto split: sum.splits)
qed

theorem capture_is_stored_witness:
  "\<exists>(row :: media_row) t. theft_capture plain_params demo_env 30 owner_request ''d1'' ''photo'' 15 ''0'' owner_vault =
      (Inr (JObj [(''ok'', JBool True), (''id'', JInt (m_id row)), (''kind'', JStr ''photo'')]), t) \<and>
    file_at (vt_fs t) [''h'', ''vortex'', ''media'', ''d1'', ''photo-30-n.jpg''] = Some [1, 2]"
proof -
  obtain u info where u: "fst (own_device plain_params 30 owner_request ''d1'' (\<lambda>u d. ret (u, d)) (vt_hub owner_vault)) = Inr (u, info)"
    "ui_id u = 1" using owner_vault_device by blast
  have db1: "answers (h_db (vt_hub owner_vault))" by code_simp
  have db2: "fk_device ''d1'' (h_db (vt_hub owner_vault))" by code_simp
  have db3: "fk_user (ui_id u) (h_db (vt_hub owner_vault))" unfolding u(2) by code_simp
  have k1: "map_of THEFT_KINDS ''photo'' = Some (''camera_capture'', ''image/jpeg'', ''jpg'')" by code_simp
  have k2: "map_of (h_conns (vt_hub owner_vault)) ''d1'' = Some 0" by code_simp
  have k3: "captured (ce_stream demo_env 0 ''camera_capture'' (capture_args ''photo'' ''0'' 15)) = Inr [1, 2]" by code_simp
  have d: "path_join (media_root plain_params demo_env (vt_hub owner_vault))
      (''d1'' @ ''/'' @ ''photo'' @ ''-'' @ int_str 30 @ ''-'' @ ce_name demo_env ''photo'' @ ''.'' @ ''jpg'') =
      [''h'', ''vortex'', ''media'', ''d1'', ''photo-30-n.jpg'']" by code_simp
  have f1: "\<not> is_dir (vt_fs owner_vault) [''h'', ''vortex'', ''media'', ''d1'', ''photo-30-n.jpg'']" by code_simp
  have f2: "fst (mkdirs (butlast [''h'', ''vortex'', ''media'', ''d1'', ''photo-30-n.jpg'']) (vt_fs owner_vault)) = Inr ()"
    by code_simp
  have f3: "length (rows_of ''d1'' (h_db (vt_hub owner_vault))) < nat (theft_retention (pSH plain_params) (h_cfg (vt_hub owner_vault)))"
    by code_simp
  show ?thesis
    using capture_is_stored [OF db1 db2 db3 u(1) k1 k2 k3 refl d [symmetric] f1 f2 f3] by blast
qed

text \<open>Arming changes \<open>theft_state\<close> only, and leaves the other devices armed.\<close>

definition armed_now :: "string \<Rightarrow> theft_row list \<Rightarrow> bool" where
  "armed_now d T \<longleftrightarrow> (\<exists>r \<in> set T. t_device_id r = d \<and> t_armed r = 1)"

lemma armed_upsert:
  assumes "t_armed new = 1" and "\<And>r. upd r = new\<lparr>t_last_run := t_last_run r\<rparr>"
  shows "armed_now (t_device_id new) (upsert t_device_id new upd T)"
    and "armed_now e T \<Longrightarrow> armed_now e (upsert t_device_id new upd T)"
proof -
  show own: "armed_now (t_device_id new) (upsert t_device_id new upd T)"
  proof (cases "has_key t_device_id (t_device_id new) T")
    case True
    then obtain q where "q \<in> set T" "t_device_id q = t_device_id new" by (auto simp: has_key_iff)
    then have "upd q \<in> set (upsert t_device_id new upd T)"
      using True by (auto simp: set_upsert image_iff intro!: bexI [of _ q])
    then show ?thesis unfolding armed_now_def by (rule bexI [rotated]) (simp add: assms)
  qed (auto simp: set_upsert armed_now_def assms)
  assume e: "armed_now e T"
  show "armed_now e (upsert t_device_id new upd T)"
  proof (cases "e = t_device_id new")
    case False
    then obtain r where "r \<in> set T" "t_device_id r = e" "t_armed r = 1" using e by (auto simp: armed_now_def)
    moreover then have "r \<in> set (upsert t_device_id new upd T)" using False by (auto simp: set_upsert image_iff)
    ultimately show ?thesis by (auto simp: armed_now_def)
  qed (use own in simp)
qed

lemma arm_one:
  assumes "answers (h_db (vt_hub v))" and "fk_device d (h_db (vt_hub v))"
  shows "\<exists>T. on_vdb (set_theft_armed d True b i opts now) v =
      (Inr (), v\<lparr>vt_hub := (vt_hub v)\<lparr>h_db := (h_db (vt_hub v))\<lparr>theft_state := T\<rparr>\<rparr>\<rparr>) \<and>
    armed_now d T \<and> (\<forall>e. armed_now e (theft_state (h_db (vt_hub v))) \<longrightarrow> armed_now e T)"
proof -
  define new where "new = \<lparr>t_device_id = d, t_armed = 1, t_armed_at = Some now, t_armed_by = b,
    t_interval_s = max 30 i, t_opts = Some opts, t_last_run = None\<rparr>"
  have new: "t_armed new = 1" "t_device_id new = d" by (simp_all add: new_def)
  have "on_vdb (set_theft_armed d True b i opts now) v =
      (Inr (), v\<lparr>vt_hub := (vt_hub v)\<lparr>h_db := (h_db (vt_hub v))\<lparr>theft_state :=
        upsert t_device_id new (\<lambda>r. new\<lparr>t_last_run := t_last_run r\<rparr>) (theft_state (h_db (vt_hub v)))\<rparr>\<rparr>\<rparr>)"
    using assms by (simp add: on_vdb_apply set_theft_armed_def constraint_def Let_def new_def)
  then show ?thesis using armed_upsert [OF new(1) refl] new(2) by (intro exI conjI) auto
qed

lemma arm_each_all:
  assumes "answers (h_db (vt_hub v))" and "\<forall>d \<in> set ds. fk_device d (h_db (vt_hub v))"
  shows "\<exists>T. arm_each True b i opts now ds v =
      (Inr (), v\<lparr>vt_hub := (vt_hub v)\<lparr>h_db := (h_db (vt_hub v))\<lparr>theft_state := T\<rparr>\<rparr>\<rparr>) \<and>
    (\<forall>e. e \<in> set ds \<or> armed_now e (theft_state (h_db (vt_hub v))) \<longrightarrow> armed_now e T)"
  using assms
proof (induction ds arbitrary: v)
  case Nil
  then show ?case by (intro exI [of _ "theft_state (h_db (vt_hub v))"]) simp
next
  case (Cons d ds)
  obtain T where T: "on_vdb (set_theft_armed d True b i opts now) v =
      (Inr (), v\<lparr>vt_hub := (vt_hub v)\<lparr>h_db := (h_db (vt_hub v))\<lparr>theft_state := T\<rparr>\<rparr>\<rparr>)"
    "armed_now d T" "\<forall>e. armed_now e (theft_state (h_db (vt_hub v))) \<longrightarrow> armed_now e T"
    using arm_one [OF Cons.prems(1), of d b i opts now] Cons.prems(2) by auto
  let ?w = "v\<lparr>vt_hub := (vt_hub v)\<lparr>h_db := (h_db (vt_hub v))\<lparr>theft_state := T\<rparr>\<rparr>\<rparr>"
  have "\<forall>d \<in> set ds. fk_device d (h_db (vt_hub ?w))" "answers (h_db (vt_hub ?w))"
    using Cons.prems by (simp_all add: fk_device_def)
  from Cons.IH [OF this(2,1)] obtain U where "arm_each True b i opts now ds ?w =
      (Inr (), ?w\<lparr>vt_hub := (vt_hub ?w)\<lparr>h_db := (h_db (vt_hub ?w))\<lparr>theft_state := U\<rparr>\<rparr>\<rparr>)"
    "\<forall>e. e \<in> set ds \<or> armed_now e T \<longrightarrow> armed_now e U" by auto
  with T show ?case by (intro exI [of _ U]) (auto simp: thenE_def bindE_def)
qed

text \<open>
  Arming the whole fleet leaves no trace in the audit log. Arming one device records who armed it
  and for what; arming all of them at once arms every device of the user just so and records nothing.
\<close>

theorem fleet_arming_unaudited:
  assumes "answers (h_db (vt_hub v))"
    and "require_user X now rq (h_db (vt_hub v)) = (Inr u, h_db (vt_hub v))"
    and "af_attest f \<noteq> []" and "picks_one f"
    and "\<exists>r \<in> set (devices (h_db (vt_hub v))). owned d (ui_id u) r"
  shows "(\<exists>r T. theft_arm_all X E now rq f v =
        (Inr r, v\<lparr>vt_hub := (vt_hub v)\<lparr>h_db := (h_db (vt_hub v))\<lparr>theft_state := T\<rparr>\<rparr>\<rparr>) \<and> armed_now d T) \<and>
    (\<exists>r T row n. theft_arm X E now rq d f v = (Inr r, v\<lparr>vt_hub := (vt_hub v)\<lparr>h_db := (h_db (vt_hub v))\<lparr>theft_state := T,
        audit_log := audit_log (h_db (vt_hub v)) @ [row], audit_seq := n\<rparr>\<rparr>\<rparr>) \<and> armed_now d T \<and>
      au_action row = ''theft_arm'' \<and> au_actor_id row = Some (ui_id u) \<and> au_device_id row = Some d \<and>
      au_detail row = Some (take 300 (arm_detail f)))"
proof
  let ?s = "h_db (vt_hub v)"
  obtain q where q: "q \<in> set (devices ?s)" "owned d (ui_id u) q" using assms(5) by blast
  have fk: "fk_device d ?s" using q by (auto simp: fk_device_iff owned_def)
  obtain ds where ds: "list_devices (ui_id u) ?s = (Inr ds, ?s)"
    using assms(1) by (simp add: list_devices_def)
  have set_ds: "set ds = device_info_of ` {r \<in> set (devices ?s). d_owner_id r = ui_id u}"
    by (rule list_devices_set [OF _ ds]) (use assms(1) in simp)
  have "\<forall>e \<in> set (map di_id ds). fk_device e ?s" by (auto simp: set_ds fk_device_iff device_info_of_def)
  from arm_each_all [OF assms(1) this, of "Some (ui_id u)" "max 30 (af_interval f)" "ce_dumps E (JObj (arm_opts f))" now]
  obtain T where T: "arm_each True (Some (ui_id u)) (max 30 (af_interval f)) (ce_dumps E (JObj (arm_opts f))) now (map di_id ds) v =
      (Inr (), v\<lparr>vt_hub := (vt_hub v)\<lparr>h_db := ?s\<lparr>theft_state := T\<rparr>\<rparr>\<rparr>)" "\<forall>e \<in> set (map di_id ds). armed_now e T" by blast
  have "d \<in> set (map di_id ds)" using q by (force simp: set_ds owned_def device_info_of_def)
  with T assms(2-4) ds show "\<exists>r T. theft_arm_all X E now rq f v =
        (Inr r, v\<lparr>vt_hub := (vt_hub v)\<lparr>h_db := ?s\<lparr>theft_state := T\<rparr>\<rparr>\<rparr>) \<and> armed_now d T"
    by (intro exI [of _ T] exI [where x = "(redirect ''/theft'', if af_keepawake f \<noteq> []
        then concat (map (\<lambda>i. keepawake_sent (vt_hub v) (di_id i) True) ds) else [])"])
      (auto simp: theft_arm_all_def theft_user_def bindE_def thenE_def on_vdb_apply keepawake_sent_def online_ids_def)
  obtain U where U: "on_vdb (set_theft_armed d True (Some (ui_id u)) (max 30 (af_interval f)) (ce_dumps E (JObj (arm_opts f))) now) v =
      (Inr (), v\<lparr>vt_hub := (vt_hub v)\<lparr>h_db := ?s\<lparr>theft_state := U\<rparr>\<rparr>\<rparr>)" "armed_now d U"
    using arm_one [OF assms(1) fk] by blast
  let ?w = "v\<lparr>vt_hub := (vt_hub v)\<lparr>h_db := ?s\<lparr>theft_state := U\<rparr>\<rparr>\<rparr>"
  define row where "row = \<lparr>au_id = audit_seq ?s + 1, au_ts = now, au_owner_id = Some (ui_id u), au_actor_id = Some (ui_id u),
    au_actor_name = Some (ui_username u), au_device_id = Some d, au_action = ''theft_arm'',
    au_detail = Some (take 300 (arm_detail f)), au_node_url = None, au_ok = (1::int)\<rparr>"
  have "on_vdb (record_audit ''theft_arm'' (Some (ui_id u)) (Some (ui_id u)) (Some (ui_username u)) (Some d)
        (Some (arm_detail f)) None True now) ?w = (Inr (), v\<lparr>vt_hub := (vt_hub v)\<lparr>h_db := ?s\<lparr>theft_state := U,
          audit_log := audit_log ?s @ [row], audit_seq := audit_seq ?s + 1\<rparr>\<rparr>\<rparr>)"
    using assms(1) by (simp add: on_vdb_apply record_audit_def catch_def row_def opt_str_def)
  moreover have "au_action row = ''theft_arm''" "au_actor_id row = Some (ui_id u)" "au_device_id row = Some d"
    "au_detail row = Some (take 300 (arm_detail f))" by (simp_all add: row_def)
  moreover
  obtain i where "get_device_for_user d (ui_id u) ?s = (Inr (Some i), ?s)"
  proof -
    have "select_where (owned d (ui_id u)) (devices ?s) \<noteq> []" using q by (auto simp: select_where_def filter_empty_conv)
    then obtain r where "fetchone (select_where (owned d (ui_id u)) (devices ?s)) = Some r"
      by (cases "select_where (owned d (ui_id u)) (devices ?s)") (auto simp: fetchone_def)
    then show ?thesis using assms(1) that by (simp add: get_device_for_user_def)
  qed
  then have "on_vhub (own_device X now rq d (\<lambda>u d. ret (u, d))) v = (Inr (u, i), v)"
    by (simp add: on_vhub_apply own_device_def as_user_def bindE_def on_db_apply assms(2))
  ultimately show "\<exists>r T row n. theft_arm X E now rq d f v = (Inr r, v\<lparr>vt_hub := (vt_hub v)\<lparr>h_db := ?s\<lparr>theft_state := T,
        audit_log := audit_log ?s @ [row], audit_seq := n\<rparr>\<rparr>\<rparr>) \<and> armed_now d T \<and>
      au_action row = ''theft_arm'' \<and> au_actor_id row = Some (ui_id u) \<and> au_device_id row = Some d \<and>
      au_detail row = Some (take 300 (arm_detail f))"
    using U assms(3,4) by (fastforce simp: theft_arm_def own_theft_device_def bindE_def thenE_def)
qed

definition fleet_form :: arm_form where
  "fleet_form = \<lparr>af_interval = 60, af_photo = ''on'', af_audio = [], af_location = [], af_keepawake = [],
     af_seconds = 5, af_camera = ''0'', af_attest = ''on''\<rparr>"

theorem fleet_arming_unaudited_witness:
  "\<exists>r T. theft_arm_all plain_params demo_env 30 owner_request fleet_form owner_vault =
      (Inr r, owner_vault\<lparr>vt_hub := (vt_hub owner_vault)\<lparr>h_db := (h_db (vt_hub owner_vault))\<lparr>theft_state := T\<rparr>\<rparr>\<rparr>) \<and>
    armed_now ''d1'' T"
proof -
  have db: "answers (h_db (vt_hub owner_vault))" by code_simp
  have req: "require_user plain_params 30 owner_request (h_db (vt_hub owner_vault)) =
      (Inr \<lparr>ui_id = 1, ui_username = ''ann'', ui_is_admin = 1, ui_created_at = 0\<rparr>, h_db (vt_hub owner_vault))" by code_simp
  have form: "af_attest fleet_form \<noteq> []" "picks_one fleet_form" by code_simp+
  have dev: "\<exists>r \<in> set (devices (h_db (vt_hub owner_vault))). owned ''d1'' (ui_id \<lparr>ui_id = 1, ui_username = ''ann'', ui_is_admin = 1, ui_created_at = 0\<rparr>) r"
    by code_simp
  show ?thesis by (rule fleet_arming_unaudited [OF db req form dev, THEN conjunct1])
qed

end
