(* ===== verification/HubSetup.thy ===== *)
theory HubSetup
  imports HubEnroll
begin

text \<open>
  How a hub selects its database (\<^verbatim>\<open>init\<close> of \<^verbatim>\<open>hub/db.py\<close>) and the pages of \<^verbatim>\<open>hub/app.py\<close> that
  change the configuration: the settings of the administrator, the set-up page before any login, the
  connection tests and the invites. What the local file and the remote databases hold is a parameter,
  and so is whether connecting to one succeeds.
\<close>

section \<open>Selecting the backend\<close>

text \<open>
  The outside of \<open>init\<close>: making the directory of a path, the tables of a local file, what the
  embedded replica and the HTTP backend find at an address with a token (nothing when connecting
  raises), and whether the schema script runs. The tables are those after the script.
\<close>

record sites =
  st_mkdir :: "string \<Rightarrow> exn option"
  st_local :: "string \<Rightarrow> tables"
  st_replica :: "string \<Rightarrow> string \<Rightarrow> (tables \<times> bool) option"
  st_http :: "string \<Rightarrow> string \<Rightarrow> (tables \<times> bool) option"
  st_schema :: "backend \<Rightarrow> exn option"

definition choose_backend :: "sites \<Rightarrow> string \<Rightarrow> string \<Rightarrow> string \<Rightarrow> tables \<times> backend" where
  "choose_backend S path url token =
     (if url = [] then (st_local S path, SqliteBackend)
      else case st_replica S url token of
        Some (T, fk) \<Rightarrow> (T, LibsqlBackend True fk)
      | None \<Rightarrow> (case st_http S url token of
          Some (T, fk) \<Rightarrow> (T, TursoHttpBackend True fk)
        | None \<Rightarrow> (st_local S path, SqliteBackend)))"

definition db_init :: "sites \<Rightarrow> environ \<Rightarrow> string \<Rightarrow> string option \<Rightarrow> string option \<Rightarrow> (db, unit) op" where
  "db_init S env path sync_url sync_token s = (case st_mkdir S path of
     Some e \<Rightarrow> (Inl e, s)
   | None \<Rightarrow>
       (let url = strip (case sync_url of None \<Rightarrow> opt_str (env ''VORTEX_SYNC_URL'') | Some u \<Rightarrow> u);
            token = strip (case sync_token of None \<Rightarrow> opt_str (env ''VORTEX_SYNC_TOKEN'') | Some t \<Rightarrow> t) in
        case choose_backend S path url token of (T, b) \<Rightarrow>
          (case st_schema S b of Some e \<Rightarrow> Inl e | None \<Rightarrow> Inr (), tables.extend T \<lparr>db_backend = Some b\<rparr>)))"

text \<open>The columns of \<open>devices\<close> before and after \<open>_migrate\<close>.\<close>

definition migrate :: "string list \<Rightarrow> string list" where
  "migrate cols = (if ''characteristics'' \<in> set cols then cols else cols @ [''characteristics''])"

text \<open>\<open>sync\<close>: whether a real pull ran; a failed one is swallowed.\<close>

definition db_sync :: "db \<Rightarrow> bool" where
  "db_sync s = (case db_backend s of Some (LibsqlBackend up fk) \<Rightarrow> up | _ \<Rightarrow> False)"

definition resolve_db_path :: "params \<Rightarrow> string \<Rightarrow> config \<Rightarrow> string" where
  "resolve_db_path X default_db c = or_str (cfg_get (pSH X) c ''VORTEX_HUB_DB'' None) default_db"

definition reinit_db :: "params \<Rightarrow> sites \<Rightarrow> string \<Rightarrow> (hub, unit) op" where
  "reinit_db X S default_db = bindE (asks h_cfg) (\<lambda>c.
     on_db (db_init S (cf_env c) (resolve_db_path X default_db c)
       (Some (cfg_get (pSH X) c ''VORTEX_SYNC_URL'' None)) (Some (cfg_get (pSH X) c ''VORTEX_SYNC_TOKEN'' None))))"

definition purge_round :: "int \<Rightarrow> (hub, unit) op" where
  "purge_round now = catch (on_db (purge_expired now)) (\<lambda>_. ret ())"

section \<open>Invites and settings\<close>

definition admin_user :: "params \<Rightarrow> int \<Rightarrow> request \<Rightarrow> (user_info \<Rightarrow> (hub, 'a) op) \<Rightarrow> (hub, 'a) op" where
  "admin_user X now rq f = bindE (on_db (require_admin X now rq)) f"

definition admin_invites :: "params \<Rightarrow> int \<Rightarrow> request \<Rightarrow> (hub, invite_info list \<times> string) op" where
  "admin_invites X now rq = admin_user X now rq (\<lambda>u.
     bindE (on_db (list_invites (ui_id u))) (\<lambda>is.
     bindE (hub_public_url X rq) (\<lambda>url. ret (is, url))))"

definition admin_invites_create :: "params \<Rightarrow> int \<Rightarrow> string \<Rightarrow> request \<Rightarrow> (hub, response) op" where
  "admin_invites_create X now code rq = admin_user X now rq (\<lambda>u.
     thenE (on_db (create_invite (ui_id u) code now)) (ret (redirect ''/admin/invites'')))"

text \<open>
  The status of the hub: the name of the backend, the path the database was last selected with, the
  address, the users.
\<close>

definition hub_status ::
  "params \<Rightarrow> string \<Rightarrow> request \<Rightarrow> (hub, string \<times> string \<times> string \<times> nat) op" where
  "hub_status X db_path rq = bindE (asks h_cfg) (\<lambda>c.
     bindE (hub_public_url X rq) (\<lambda>url.
     bindE (on_db user_count) (\<lambda>n.
       ret (if cfg_get (pSH X) c ''VORTEX_SYNC_URL'' None \<noteq> [] then ''libSQL replica'' else ''local SQLite'',
            db_path, url, n))))"

definition settings_page ::
  "params \<Rightarrow> string \<Rightarrow> int \<Rightarrow> request \<Rightarrow>
   (hub, setting_view list \<times> (string \<times> string \<times> string \<times> nat)) op" where
  "settings_page X db_path now rq = admin_user X now rq (\<lambda>u.
     bindE (asks (\<lambda>s. public_view (pSH X) (h_cfg s))) (\<lambda>view.
     bindE (hub_status X db_path rq) (\<lambda>st. ret (view, st))))"

definition form_settings :: "(string \<times> string) list \<Rightarrow> (string \<times> string) list" where
  "form_settings form = filter (\<lambda>(k, v). startswith ''VORTEX_'' k \<or> k \<in> {''APP_PORT'', ''CLOUDFLARE_TUNNEL_TOKEN''}) form"

definition on_cfg :: "(config, 'a) op \<Rightarrow> (hub, 'a) op" where
  "on_cfg m = zoom h_cfg (\<lambda>c s. s\<lparr>h_cfg := c\<rparr>) m"

text \<open>The fields of a form are distinct here; writing \<^verbatim>\<open>config.json\<close> may fail.\<close>

definition settings_save ::
  "params \<Rightarrow> (json \<Rightarrow> string) \<Rightarrow> exn option \<Rightarrow> int \<Rightarrow> request \<Rightarrow> (string \<times> string) list \<Rightarrow> (hub, response) op" where
  "settings_save X print write_fails now rq form = admin_user X now rq (\<lambda>u.
     thenE (on_cfg (set_many print write_fails (form_settings form))) (ret (redirect ''/settings?saved=1'')))"

section \<open>Connection tests\<close>

text \<open>
  Whether the driver of the replica can be imported, and what connecting by it or over HTTP says
  when it fails.
\<close>

record probes =
  pr_wheel :: bool
  pr_replica :: "string \<Rightarrow> string \<Rightarrow> string option"
  pr_http :: "string \<Rightarrow> string \<Rightarrow> string option"

definition run_db_probe :: "probes \<Rightarrow> string \<Rightarrow> string \<Rightarrow> bool \<times> string" where
  "run_db_probe P url token =
     (if url = [] then (False, ''URL is required'')
      else if pr_wheel P then
        (case pr_replica P url token of
           Some err \<Rightarrow> (False, err) | None \<Rightarrow> (True, ''Connected + synced OK (embedded replica).''))
      else
        (case pr_http P url token of
           Some err \<Rightarrow> (False, err @ '' (tried pure-Python Turso HTTP - check URL/token)'')
         | None \<Rightarrow> (True, ''Connected OK over Turso HTTP.'')))"

text \<open>The address and the token to test: the stored token when none is given.\<close>

definition probe_args :: "params \<Rightarrow> json \<Rightarrow> (hub, string \<times> string) op" where
  "probe_args X body =
     bindE (liftE (jget_or body ''url'' (JStr []))) (\<lambda>u.
     bindE (liftE (jget_or body ''token'' (JStr []))) (\<lambda>t.
     bindE (asks h_cfg) (\<lambda>c.
       ret (strip (py_str (pSH X) u), or_str (strip (py_str (pSH X) t)) (cfg_get (pSH X) c ''VORTEX_SYNC_TOKEN'' None)))))"

definition settings_test_db ::
  "params \<Rightarrow> probes \<Rightarrow> int \<Rightarrow> request \<Rightarrow> json option \<Rightarrow> (hub, bool \<times> string) op" where
  "settings_test_db X P now rq body = admin_user X now rq (\<lambda>u. case body of
     None \<Rightarrow> raise (ValueError ''body'')
   | Some b \<Rightarrow> bindE (probe_args X b) (\<lambda>(url, token). ret (run_db_probe P url token)))"

section \<open>Set-up before any login\<close>

definition setup_open :: "(hub, bool) op" where
  "setup_open = catch (bindE (on_db user_count) (\<lambda>n. ret (n = 0))) (\<lambda>_. ret True)"

text \<open>A redirect, or the page with the settings and the status.\<close>

definition setup_get ::
  "params \<Rightarrow> string \<Rightarrow> int \<Rightarrow> request \<Rightarrow>
   (hub, response + (setting_view list \<times> (string \<times> string \<times> string \<times> nat))) op" where
  "setup_get X db_path now rq =
     bindE (on_db (current_user_optional X now rq)) (\<lambda>u.
     if u \<noteq> None then ret (Inl (redirect ''/settings''))
     else bindE setup_open (\<lambda>op.
       bindE (asks h_cfg) (\<lambda>c.
       if \<not> op then
         ret (Inl (redirect (''/login?notice='' @
           (if cfg_get (pSH X) c ''VORTEX_SYNC_URL'' None \<noteq> [] then ''configured'' else ''local_account''))))
       else bindE (hub_status X db_path rq) (\<lambda>st. ret (Inr (public_view (pSH X) c, st))))))"

text \<open>
  Saving the set-up. Applying it runs in a thread that the handler waits 35 seconds for; when it is
  \<open>slow\<close> the handler answers first, and the thread still finishes.
\<close>

definition apply_and_route :: "params \<Rightarrow> sites \<Rightarrow> string \<Rightarrow> (hub, string) op" where
  "apply_and_route X S default_db = thenE (reinit_db X S default_db)
     (bindE (on_db user_count) (\<lambda>n. ret (if 0 < n then ''/login?ready=1'' else ''/register'')))"

definition setup_post ::
  "params \<Rightarrow> sites \<Rightarrow> (json \<Rightarrow> string) \<Rightarrow> exn option \<Rightarrow> bool \<Rightarrow> string \<Rightarrow> (string \<times> string) list \<Rightarrow> (hub, response) op" where
  "setup_post X S print write_fails slow default_db form =
     bindE setup_open (\<lambda>op.
     if \<not> op then raise (HTTPException 403 ''Setup is locked'')
     else
       thenE (on_cfg (set_many print write_fails (form_settings form)))
         (catch (bindE (apply_and_route X S default_db) (\<lambda>dest. if slow then raise TimeoutError else ret (redirect dest)))
           (\<lambda>_. ret (page 200 (Some ''Saved, but could not reach the database in time.'')))))"

definition setup_test_db :: "params \<Rightarrow> probes \<Rightarrow> json option \<Rightarrow> (hub, bool \<times> string) op" where
  "setup_test_db X P body = bindE setup_open (\<lambda>op.
     if \<not> op then raise (HTTPException 403 ''Setup is locked.'')
     else case body of
       None \<Rightarrow> raise (ValueError ''body'')
     | Some b \<Rightarrow> bindE (probe_args X b) (\<lambda>(url, token). ret (run_db_probe P url token)))"

section \<open>Facts\<close>

lemma on_cfg_apply: "on_cfg m s = (fst (m (h_cfg s)), s\<lparr>h_cfg := snd (m (h_cfg s))\<rparr>)"
  by (simp add: on_cfg_def zoom_def split: prod.split)

text \<open>Set-up is open when no account is counted: there is none, or the database does not answer.\<close>

lemma setup_open_iff:
  "setup_open s = (Inr (answers_reads (h_db s) \<longrightarrow> users (h_db s) = []), s)"
proof (cases "answers_reads (h_db s)")
  case True
  then show ?thesis by (simp add: setup_open_def catch_def user_count_def bindE_def)
next
  case False
  then obtain e where "user_count (h_db s) = (Inl e, h_db s)"
    by (auto simp: user_count_def db_read_def answers_reads_def split: option.splits)
  with False show ?thesis by (simp add: setup_open_def catch_def bindE_def on_db_apply)
qed

lemma db_init_tables:
  assumes "st_mkdir S path = None"
  shows "db_init S env path (Some url) (Some token) s =
    (case st_schema S (snd (choose_backend S path (strip url) (strip token))) of Some e \<Rightarrow> Inl e | None \<Rightarrow> Inr (),
     tables.extend (fst (choose_backend S path (strip url) (strip token)))
       \<lparr>db_backend = Some (snd (choose_backend S path (strip url) (strip token)))\<rparr>)"
  using assms by (simp add: db_init_def Let_def split: prod.split)

text \<open>A backend that was just selected answers.\<close>

lemma chosen_answers: "can_write (snd (choose_backend S path url token))"
  by (simp add: choose_backend_def split: option.split prod.split)

lemma migrate_idem: "migrate (migrate cols) = migrate cols"
  by (simp add: migrate_def)

text \<open>Who passes the guard for administrators: a live session of a user with the flag.\<close>

definition admin_session :: "params \<Rightarrow> int \<Rightarrow> request \<Rightarrow> db \<Rightarrow> bool" where
  "admin_session X now rq s \<longleftrightarrow> answers_reads s \<and> (\<exists>tok ses usr. rq_cookie rq = Some tok \<and>
     ses \<in> set (sessions s) \<and> live_session (pH X) tok now ses \<and>
     usr \<in> set (users s) \<and> u_id usr = s_user_id ses \<and> u_is_admin usr \<noteq> 0)"

lemma require_admin_state [simp]: "snd (require_admin X now rq s) = s"
proof -
  have "snd (require_user X now rq s) = s"
    using current_user_state [of X now rq s]
    by (cases "current_user_optional X now rq s") (auto simp: require_user_def bindE_def split: sum.splits option.splits)
  then show ?thesis
    by (cases "require_user X now rq s") (auto simp: require_admin_def bindE_def split: sum.splits)
qed

lemma require_admin_session:
  assumes "require_admin X now rq s = (Inr u, t)"
  shows "admin_session X now rq s"
proof -
  from assms have req: "require_user X now rq s = (Inr u, t)" and adm: "ui_is_admin u \<noteq> 0"
    by (auto simp: require_admin_def bindE_def split: prod.splits sum.splits if_splits)
  then have cur: "current_user_optional X now rq s = (Inr (Some u), t)" by (simp add: require_user_iff)
  then obtain tok where tok: "rq_cookie rq = Some tok" "tok \<noteq> []"
    by (cases "rq_cookie rq") (auto simp: current_user_optional_def opt_str_def split: if_splits)
  have ans: "answers_reads s"
    using cur by (auto simp: current_user_optional_def bindE_def lookup_session_def db_read_def answers_reads_def
        split: if_splits option.splits)
  from cur current_user_cookie [OF ans tok, of X now] obtain i where
    i: "sess_resolve (pH X) tok now s = Some i" "map_option user_info_of (fetchone (select_where (\<lambda>r. u_id r = i) (users s))) = Some u"
    by (auto split: option.splits)
  then obtain ses usr where "fetchone (select_where (live_session (pH X) tok now) (sessions s)) = Some ses" "s_user_id ses = i"
    "fetchone (select_where (\<lambda>r. u_id r = i) (users s)) = Some usr" "u = user_info_of usr"
    by (auto simp: sess_resolve_def lookup_session_answers [OF ans] simp del: fetchone_None)
  then show ?thesis using tok ans adm unfolding admin_session_def
    by (fastforce simp: user_info_of_def select_where_def dest!: fetchone_Some)
qed

lemma admin_user_cases:
  "admin_user X now rq f s = (r, t) \<Longrightarrow>
   (\<exists>u. require_admin X now rq (h_db s) = (Inr u, h_db s) \<and> f u s = (r, t)) \<or> ((\<exists>e. r = Inl e) \<and> t = s)"
  using require_admin_state [of X now rq "h_db s"]
  by (cases "require_admin X now rq (h_db s)") (auto simp: admin_user_def bindE_def on_db_apply split: sum.splits)

section \<open>Properties\<close>

text \<open>
  C28: set-up is closed once there is an account. While the database answers and has a user, the
  set-up page saves nothing, tests nothing and is not shown: it answers 403 or a redirect and leaves
  the hub as it is.
\<close>

theorem setup_closed_with_accounts:
  assumes "answers_reads (h_db s)" and "users (h_db s) \<noteq> []"
  shows "setup_post X S print fails slow dflt form s = (Inl (HTTPException 403 ''Setup is locked''), s) \<and>
    setup_test_db X P body s = (Inl (HTTPException 403 ''Setup is locked.''), s) \<and>
    (\<exists>url. setup_get X path now rq s = (Inr (Inl (redirect url)), s))"
proof -
  have "\<exists>v. current_user_optional X now rq (h_db s) = (Inr v, h_db s)"
  proof (cases "opt_str (rq_cookie rq) = []")
    case False
    then obtain tok where "rq_cookie rq = Some tok" "tok \<noteq> []" by (cases "rq_cookie rq") (auto simp: opt_str_def)
    from current_user_cookie [OF assms(1) this] show ?thesis by blast
  qed (simp add: current_user_optional_def)
  then obtain v where "current_user_optional X now rq (h_db s) = (Inr v, h_db s)" by blast
  then show ?thesis
    using assms by (auto simp: setup_post_def setup_test_db_def setup_get_def bindE_def on_db_apply setup_open_iff)
qed

definition demo_sites :: sites where
  "demo_sites = \<lparr>st_mkdir = (\<lambda>_. None), st_local = (\<lambda>_. empty_tables),
     st_replica = (\<lambda>u t. if u = ''libsql://x'' \<and> t = ''k'' then Some (tables.truncate invite_demo, True) else None),
     st_http = (\<lambda>_ _. None), st_schema = (\<lambda>_. None)\<rparr>"

theorem setup_closed_with_accounts_witness:
  "setup_post plain_params demo_sites (\<lambda>_. []) None False [] [(''VORTEX_SYNC_URL'', ''x'')] (fresh_hub invite_demo) =
    (Inl (HTTPException 403 ''Setup is locked''), fresh_hub invite_demo)"
  using setup_closed_with_accounts [of "fresh_hub invite_demo", THEN conjunct1] invite_demo_ok(1)
  by (simp add: invite_demo_def)

text \<open>
  The settings of a hub change by its administrators only, its set-up page apart. When saving the
  settings changes the configuration, or creating an invite changes the database, the request came
  with the live session of a user who is an administrator.
\<close>

theorem settings_change_by_admin:
  assumes "settings_save X print fails now rq form s = (r, t) \<and> h_cfg t \<noteq> h_cfg s \<or>
    admin_invites_create X now code rq s = (r, t) \<and> h_db t \<noteq> h_db s"
  shows "admin_session X now rq (h_db s)"
  using assms
  by (auto simp: settings_save_def admin_invites_create_def dest!: admin_user_cases intro: require_admin_session)

theorem settings_change_by_admin_witness:
  "admin_session plain_params 150 (plain_request\<lparr>rq_cookie := Some ''a''\<rparr>)
     (h_db (fresh_hub (sess_issue (\<lambda>bs. bs) ''a'' 1 100 300 invite_demo)))"
proof -
  let ?s = "fresh_hub (sess_issue (\<lambda>bs. bs) ''a'' 1 100 300 invite_demo)"
  let ?rq = "plain_request\<lparr>rq_cookie := Some ''a''\<rparr>"
  have "require_admin plain_params 150 ?rq (h_db ?s) =
      (Inr \<lparr>ui_id = 1, ui_username = ''ann'', ui_is_admin = 1, ui_created_at = 0\<rparr>, h_db ?s)" by code_simp
  then have "cf_file (h_cfg (snd (settings_save plain_params (\<lambda>_. []) None 150 ?rq [(''APP_PORT'', ''81'')] ?s))) =
      [(''APP_PORT'', JStr ''81'')]"
    by (simp add: settings_save_def admin_user_def bindE_def thenE_def on_db_apply on_cfg_apply set_many_def Let_def
        form_settings_def set_one_def spec_of_def SPEC_def boot_key_def fresh_hub_def startswith_def)
  moreover have "cf_file (h_cfg ?s) = []" by (simp add: fresh_hub_def)
  ultimately have "h_cfg (snd (settings_save plain_params (\<lambda>_. []) None 150 ?rq [(''APP_PORT'', ''81'')] ?s)) \<noteq> h_cfg ?s" by force
  then obtain r t where "settings_save plain_params (\<lambda>_. []) None 150 ?rq [(''APP_PORT'', ''81'')] ?s = (r, t)" "h_cfg t \<noteq> h_cfg ?s"
    by (metis prod.collapse)
  then show ?thesis by (intro settings_change_by_admin disjI1 conjI)
qed

lemma selected_simps [simp]:
  "answers (tables.extend T \<lparr>db_backend = Some b\<rparr>) = can_write b"
  "users (tables.extend T \<lparr>db_backend = Some b\<rparr>) = users T"
  by (simp_all add: answers_def tables.extend_def)

lemma reinit_answers:
  assumes "reinit_db X S dflt s = (Inr (), t)"
  shows "answers (h_db t) \<and> h_cfg t = h_cfg s"
proof -
  let ?p = "resolve_db_path X dflt (h_cfg s)"
  obtain u k where re: "reinit_db X S dflt s = (fst (db_init S (cf_env (h_cfg s)) ?p (Some u) (Some k) (h_db s)),
      s\<lparr>h_db := snd (db_init S (cf_env (h_cfg s)) ?p (Some u) (Some k) (h_db s))\<rparr>)"
    by (simp add: reinit_db_def on_db_apply)
  with assms have "st_mkdir S ?p = None"
    by (auto simp: db_init_def split: option.splits)
  note init = db_init_tables [OF this]
  show ?thesis using assms re chosen_answers [of S ?p "strip u" "strip k"] unfolding init by auto
qed

text \<open>
  Set-up closes itself when it finds the accounts. When the handler could save the settings and
  the selected database runs its schema, the answer sends the browser to the login page exactly when
  the set-up page is closed from then on, and else to the registration.
\<close>

theorem setup_closes_itself:
  assumes "setup_post X S print None False dflt form s = (Inr resp, t)" and "rs_status resp = 303"
  shows "rs_location resp = Some ''/login?ready=1'' \<and> setup_open t = (Inr False, t) \<or>
    rs_location resp = Some ''/register'' \<and> setup_open t = (Inr True, t)"
proof -
  let ?s = "s\<lparr>h_cfg := snd (set_many print None (form_settings form) (h_cfg s))\<rparr>"
  from assms have run: "catch (bindE (apply_and_route X S dflt) (\<lambda>dest. ret (redirect dest)))
      (\<lambda>_. ret (page 200 (Some ''Saved, but could not reach the database in time.''))) ?s = (Inr resp, t)"
    by (auto simp: setup_post_def bindE_def thenE_def setup_open_iff on_cfg_apply set_many_def Let_def split: if_splits)
  with assms(2) obtain dest where dest: "apply_and_route X S dflt ?s = (Inr dest, t)" "resp = redirect dest"
    by (auto simp: catch_def bindE_def page_def split: sum.splits prod.splits)
  then obtain u where u: "reinit_db X S dflt ?s = (Inr (), u)"
    "bindE (on_db user_count) (\<lambda>n. ret (if 0 < n then ''/login?ready=1'' else ''/register'')) u = (Inr dest, t)"
    by (auto simp: apply_and_route_def thenE_def bindE_def split: sum.splits prod.splits)
  from reinit_answers [OF u(1)] have ans: "answers_reads (h_db u)" by simp
  with u(2) have "t = u" "dest = (if users (h_db u) \<noteq> [] then ''/login?ready=1'' else ''/register'')"
    by (auto simp: user_count_def bindE_def)
  with ans dest(2) show ?thesis by (auto simp: redirect_def setup_open_iff)
qed

theorem setup_closes_itself_witness:
  "\<exists>t. setup_post plain_params demo_sites (\<lambda>_. []) None False ''hub.db'' [] (fresh_hub (empty_db SqliteBackend)) =
      (Inr (redirect ''/register''), t) \<and> setup_open t = (Inr True, t)"
proof -
  let ?p = "setup_post plain_params demo_sites (\<lambda>_. []) None False ''hub.db'' [] (fresh_hub (empty_db SqliteBackend))"
  have d: "spec_default ''VORTEX_SYNC_URL'' = []" by (simp add: spec_default_def spec_of_def SPEC_def boot_key_def)
  have e: "users (empty_db SqliteBackend) = []" "users empty_tables = []"
    by (simp_all add: empty_db_def empty_tables_def tables.extend_def)
  have "fst ?p = Inr (redirect ''/register'')"
    by (simp add: setup_post_def setup_open_iff bindE_def thenE_def on_cfg_apply on_db_apply d e form_settings_def
        catch_def apply_and_route_def reinit_db_def db_init_tables demo_sites_def choose_backend_def user_count_def
        set_many_def Let_def cfg_get_def fresh_hub_def opt_str_def blank_def)
  then obtain t where t: "?p = (Inr (redirect ''/register''), t)" by (cases ?p) auto
  from setup_closes_itself [OF t] show ?thesis by (simp add: t) (simp add: redirect_def)
qed

text \<open>
  C29: an outage opens set-up to anyone. While the database does not answer, a request with no
  credentials that names an address and a token is saved and applied: the hub then runs on whatever
  database it named, with its accounts.
\<close>

theorem outage_hands_over_hub:
  assumes "\<not> answers_reads (h_db s)"
    and "opt_str (cf_env (h_cfg s) ''VORTEX_SYNC_URL'') = []" and "opt_str (cf_env (h_cfg s) ''VORTEX_SYNC_TOKEN'') = []"
    and "strip url = url" and "url \<noteq> []" and "strip tok = tok" and "tok \<noteq> []"
    and "\<forall>path. st_mkdir S path = None" and "st_replica S url tok = Some (T, fk)" and "st_schema S (LibsqlBackend True fk) = None"
    and "users T \<noteq> []"
  shows "\<exists>t. setup_post X S print None False dflt [(''VORTEX_SYNC_URL'', url), (''VORTEX_SYNC_TOKEN'', tok)] s =
      (Inr (redirect ''/login?ready=1''), t) \<and>
    h_db t = tables.extend T \<lparr>db_backend = Some (LibsqlBackend True fk)\<rparr>"
proof -
  let ?form = "[(''VORTEX_SYNC_URL'', url), (''VORTEX_SYNC_TOKEN'', tok)]"
  let ?c = "snd (set_many print None ?form (h_cfg s))"
  have set: "fst (set_many print None ?form (h_cfg s)) = Inr ()" by (simp add: set_many_def Let_def)
  have form: "form_settings ?form = ?form" by (simp add: form_settings_def startswith_def)
  have spec: "spec_of ''VORTEX_SYNC_URL'' = Some (boot_key [] False)" "spec_of ''VORTEX_SYNC_TOKEN'' = Some (boot_key [] True)"
    by (simp_all add: spec_of_def SPEC_def)
  have get: "cfg_get (pSH X) ?c ''VORTEX_SYNC_URL'' None = url" "cfg_get (pSH X) ?c ''VORTEX_SYNC_TOKEN'' None = tok"
    using assms(2,3,5,7) spec jget_fold_set [of ?form _ _ "cf_file (h_cfg s)"]
    by (simp_all add: cfg_get_def set_many_def Let_def assigned_def blank_def del: fold_simps)
  have choose: "choose_backend S p url tok = (T, LibsqlBackend True fk)" for p
    using assms(5,9) by (simp add: choose_backend_def)
  let ?d = "tables.extend T \<lparr>db_backend = Some (LibsqlBackend True fk)\<rparr>"
  have re: "reinit_db X S dflt (s\<lparr>h_cfg := ?c\<rparr>) = (Inr (), s\<lparr>h_cfg := ?c, h_db := ?d\<rparr>)"
    using assms(4,6,8,10) by (simp add: reinit_db_def on_db_apply get db_init_tables choose)
  have d: "answers_reads ?d" by simp
  show ?thesis
    using assms(1,11) form d set re
    by (simp add: setup_post_def bindE_def thenE_def setup_open_iff on_cfg_apply catch_def apply_and_route_def user_count_def)
qed

theorem outage_hands_over_hub_witness:
  "\<exists>t. setup_post plain_params demo_sites (\<lambda>_. []) None False ''hub.db''
      [(''VORTEX_SYNC_URL'', ''libsql://x''), (''VORTEX_SYNC_TOKEN'', ''k'')]
      (fresh_hub (enrolled_demo\<lparr>db_backend := Some (TursoHttpBackend False False)\<rparr>)) = (Inr (redirect ''/login?ready=1''), t) \<and>
    map u_username (users (h_db t)) = [''ann'']"
proof -
  let ?s = "fresh_hub (enrolled_demo\<lparr>db_backend := Some (TursoHttpBackend False False)\<rparr>)"
  have "\<not> answers_reads (h_db ?s)" by (simp add: answers_reads_def)
  moreover have "opt_str (cf_env (h_cfg ?s) k) = []" for k by (simp add: fresh_hub_def opt_str_def)
  moreover have "strip ''libsql://x'' = ''libsql://x''" "strip ''k'' = ''k''" by code_simp+
  ultimately show ?thesis
    using outage_hands_over_hub [of ?s "''libsql://x''" "''k''" demo_sites "tables.truncate invite_demo" True plain_params "\<lambda>_. []" "''hub.db''"]
    by (auto simp: demo_sites_def invite_demo_def tables.truncate_def)
qed

text \<open>
  An outage gives the stored token away. While the database does not answer, a test of a
  connection with no token in the request tries the address it names with the token of the hub.
\<close>

theorem outage_leaks_token:
  assumes "\<not> answers_reads (h_db s)"
  shows "setup_test_db X P (Some (JObj [(''url'', JStr url)])) s =
    (Inr (run_db_probe P (strip url) (cfg_get (pSH X) (h_cfg s) ''VORTEX_SYNC_TOKEN'' None)), s)"
  using assms by (simp add: setup_test_db_def bindE_def setup_open_iff probe_args_def jget_or_def or_str_def)

definition demo_probes :: probes where
  "demo_probes = \<lparr>pr_wheel = True, pr_replica = (\<lambda>u t. if t = ''secret'' then None else Some ''refused''), pr_http = (\<lambda>u t. None)\<rparr>"

theorem outage_leaks_token_witness:
  "setup_test_db plain_params demo_probes (Some (JObj [(''url'', JStr ''https://evil'')]))
      ((fresh_hub (enrolled_demo\<lparr>db_backend := Some (TursoHttpBackend False False)\<rparr>))\<lparr>h_cfg :=
        \<lparr>cf_env = [''VORTEX_SYNC_TOKEN'' \<mapsto> ''secret''], cf_file = [], cf_disk = None\<rparr>\<rparr>) =
    (Inr (run_db_probe demo_probes ''https://evil'' ''secret''),
      (fresh_hub (enrolled_demo\<lparr>db_backend := Some (TursoHttpBackend False False)\<rparr>))\<lparr>h_cfg :=
        \<lparr>cf_env = [''VORTEX_SYNC_TOKEN'' \<mapsto> ''secret''], cf_file = [], cf_disk = None\<rparr>\<rparr>)"
proof -
  have "strip ''https://evil'' = ''https://evil''" by code_simp
  then show ?thesis by (subst outage_leaks_token) (simp_all add: answers_reads_def cfg_get_def opt_str_def)
qed

text \<open>
  The settings page names the configured backend, not the one in use. When neither remote backend
  connects, selecting the database falls back to the local file, and the status still says that it
  is a replica.
\<close>

theorem status_hides_fallback:
  assumes "strip (cfg_get (pSH X) (h_cfg s) ''VORTEX_SYNC_URL'' None) = url" and "url \<noteq> []"
    and "\<forall>token. st_replica S url token = None \<and> st_http S url token = None" and "\<forall>path. st_mkdir S path = None"
    and "st_schema S SqliteBackend = None"
  shows "\<exists>t. reinit_db X S dflt s = (Inr (), t) \<and> db_backend (h_db t) = Some SqliteBackend \<and>
    (\<exists>rest u. hub_status X path rq t = (Inr (''libSQL replica'', rest), u))"
proof -
  let ?d = "tables.extend (st_local S (resolve_db_path X dflt (h_cfg s))) \<lparr>db_backend = Some SqliteBackend\<rparr>"
  have "cfg_get (pSH X) (h_cfg s) ''VORTEX_SYNC_URL'' None \<noteq> []"
  proof
    assume "cfg_get (pSH X) (h_cfg s) ''VORTEX_SYNC_URL'' None = []"
    moreover have "strip [] = []" by code_simp
    ultimately show False using assms(1,2) by simp
  qed
  moreover have "reinit_db X S dflt s = (Inr (), s\<lparr>h_db := ?d\<rparr>)"
    using assms by (simp add: reinit_db_def on_db_apply db_init_tables choose_backend_def)
  moreover have "answers_reads ?d" by simp
  moreover have "db_backend ?d = Some SqliteBackend" by (simp add: tables.extend_def)
  moreover obtain a w where "hub_public_url X rq (s\<lparr>h_db := ?d\<rparr>) = (Inr a, w)" "h_db w = ?d"
  proof -
    have "h_db (snd (hub_public_url X rq t)) = h_db t" "\<exists>url. fst (hub_public_url X rq t) = Inr url" for t
      by (simp_all add: hub_public_url_def Let_def)
    then obtain a where "fst (hub_public_url X rq (s\<lparr>h_db := ?d\<rparr>)) = Inr a" "h_db (snd (hub_public_url X rq (s\<lparr>h_db := ?d\<rparr>))) = ?d" by fastforce
    then show thesis by (intro that) (auto simp: prod_eq_iff)
  qed
  ultimately show ?thesis
    by (intro exI [of _ "s\<lparr>h_db := ?d\<rparr>"]) (simp add: hub_status_def bindE_def user_count_def)
qed

theorem status_hides_fallback_witness:
  "\<exists>t. reinit_db plain_params demo_sites ''hub.db'' ((fresh_hub (empty_db SqliteBackend))\<lparr>h_cfg :=
        \<lparr>cf_env = [''VORTEX_SYNC_URL'' \<mapsto> ''libsql://gone''], cf_file = [], cf_disk = None\<rparr>\<rparr>) = (Inr (), t) \<and>
    db_backend (h_db t) = Some SqliteBackend \<and>
    (\<exists>rest u. hub_status plain_params ''hub.db'' plain_request t = (Inr (''libSQL replica'', rest), u))"
proof -
  have "strip ''libsql://gone'' = ''libsql://gone''" by code_simp
  then show ?thesis
    by (intro status_hides_fallback [where url = "''libsql://gone''"]) (simp_all add: cfg_get_def opt_str_def demo_sites_def)
qed

end
