(* ===== verification/Html.thy ===== *)
theory Html
  imports Json
begin

text \<open>
  How the hub writes text into its pages (\<^verbatim>\<open>hub/templates.py\<close>): escaping for markup, quoting for
  the shell commands it shows, JSON inside a script, percent encoding, ages. Beside each stand the
  readers of the other side - what a browser makes of the references in a text, of a string literal of a
  script, what a POSIX shell makes of a command line - and what of a page is markup. Characters of the
  templates outside Latin-1 stand as the bytes of their UTF-8 encoding.
\<close>

section \<open>Text in markup\<close>

text \<open>\<open>html.escape\<close>, and a browser's reading of the references it writes.\<close>

definition escape_char :: "char \<Rightarrow> string" where
  "escape_char c = (if c = CHR ''&'' then ''&amp;'' else if c = CHR ''<'' then ''&lt;''
     else if c = CHR ''>'' then ''&gt;'' else if c = CHR 0x22 then ''&quot;''
     else if c = CHR 0x27 then ''&#x27;'' else [c])"

definition escape :: "string \<Rightarrow> string" where
  "escape s = concat (map escape_char s)"

function unescape :: "string \<Rightarrow> string" where
  "unescape s = (case s of [] \<Rightarrow> []
   | c # r \<Rightarrow>
       if startswith ''&amp;'' s then CHR ''&'' # unescape (drop 5 s)
       else if startswith ''&lt;'' s then CHR ''<'' # unescape (drop 4 s)
       else if startswith ''&gt;'' s then CHR ''>'' # unescape (drop 4 s)
       else if startswith ''&quot;'' s then CHR 0x22 # unescape (drop 6 s)
       else if startswith ''&#x27;'' s then CHR 0x27 # unescape (drop 6 s)
       else c # unescape r)"
  by auto
termination by (relation "measure length") auto

declare unescape.simps [simp del]

text \<open>The characters of a page that make its markup: brackets and quotes.\<close>

definition markup :: "string \<Rightarrow> string" where
  "markup s = filter (\<lambda>c. c \<in> {CHR ''<'', CHR ''>'', CHR 0x22, CHR 0x27}) s"

text \<open>Characters beyond Latin-1, as the bytes of their UTF-8 encoding.\<close>

definition utf8 :: "nat list \<Rightarrow> string" where
  "utf8 bs = map char_of bs"

section \<open>Numbers and ages\<close>

text \<open>\<open>f\"{n:,}\"\<close>, the digits in groups of three.\<close>

function grouped :: "string \<Rightarrow> string" where
  "grouped ds = (if length ds \<le> 3 then ds
     else grouped (take (length ds - 3) ds) @ CHR '','' # drop (length ds - 3) ds)"
  by auto
termination by (relation "measure length") auto

declare grouped.simps [simp del]

definition with_commas :: "int \<Rightarrow> string" where
  "with_commas n = (if n < 0 then CHR ''-'' # grouped (nat_str (nat (- n))) else grouped (nat_str (nat n)))"

text \<open>\<open>_ago\<close>, the time now as a parameter.\<close>

definition ago :: "int \<Rightarrow> int \<Rightarrow> string" where
  "ago now ts = (let delta = max 0 (now - ts) in
     if delta < 60 then int_str delta @ ''s''
     else if delta < 3600 then int_str (delta div 60) @ ''m''
     else if delta < 86400 then int_str (delta div 3600) @ ''h''
     else int_str (delta div 86400) @ ''d'')"

section \<open>Percent encoding\<close>

text \<open>\<open>urllib.parse.quote\<close>: letters, digits and a few marks as they are, other bytes in hexadecimal.\<close>

definition quote_char :: "nat set \<Rightarrow> byte \<Rightarrow> string" where
  "quote_char safe b = (let n = unat b in
     if 48 \<le> n \<and> n \<le> 57 \<or> 65 \<le> n \<and> n \<le> 90 \<or> 97 \<le> n \<and> n \<le> 122 \<or> n \<in> {45, 46, 95, 126} \<union> safe then [char_of n]
     else CHR ''%'' # map (\<lambda>d. char_of (if d < 10 then 48 + d else 55 + d)) [n div 16, n mod 16])"

definition quote :: "string \<Rightarrow> string" where
  "quote s = concat (map (quote_char {47}) (encode s))"

text \<open>With \<open>safe=''\<close>.\<close>

definition quote_all :: "string \<Rightarrow> string" where
  "quote_all s = concat (map (quote_char {}) (encode s))"

text \<open>A server's reading of a percent-encoded path: its bytes (\<^verbatim>\<open>urllib.parse.unquote_to_bytes\<close>).\<close>

fun percent_decode :: "string \<Rightarrow> byte list" where
  "percent_decode [] = []"
| "percent_decode [c] = utf8_char c"
| "percent_decode [c, d] = utf8_char c @ utf8_char d"
| "percent_decode (c # d # e # s) = (case (c = CHR ''%'', hex_val d, hex_val e) of
     (True, Some a, Some b) \<Rightarrow> word_of_nat (16 * a + b) # percent_decode s
   | _ \<Rightarrow> utf8_char c @ percent_decode (d # e # s))"

section \<open>JSON in a script\<close>

text \<open>\<open>json.dumps\<close> of a text.\<close>

definition json_char :: "char \<Rightarrow> string" where
  "json_char c = (let n = of_char c :: nat in
     if n = 34 then [CHR 0x5C, CHR 0x22] else if n = 92 then [CHR 0x5C, CHR 0x5C]
     else if n = 10 then CHR 0x5C # ''n'' else if n = 13 then CHR 0x5C # ''r'' else if n = 9 then CHR 0x5C # ''t''
     else if n = 12 then CHR 0x5C # ''f'' else if n = 8 then CHR 0x5C # ''b''
     else if 32 \<le> n \<and> n \<le> 126 then [c]
     else CHR 0x5C # ''u00'' @ [hex_digit (n div 16), hex_digit (n mod 16)])"

definition json_dumps :: "string \<Rightarrow> string" where
  "json_dumps s = CHR 0x22 # concat (map json_char s) @ [CHR 0x22]"

definition replace_char :: "char \<Rightarrow> string \<Rightarrow> string \<Rightarrow> string" where
  "replace_char c t s = concat (map (\<lambda>d. if d = c then t else [d]) s)"

text \<open>\<open>_json_dumps_for_html\<close>: the JSON with the characters that mean something to HTML written as escapes.\<close>

definition for_html :: "string \<Rightarrow> string" where
  "for_html s = replace_char (CHR ''&'') (CHR 0x5C # ''u0026'')
     (replace_char (CHR ''>'') (CHR 0x5C # ''u003e'') (replace_char (CHR ''<'') (CHR 0x5C # ''u003c'') s))"

definition json_dumps_for_html :: "string \<Rightarrow> string" where
  "json_dumps_for_html value = for_html (json_dumps value)"

text \<open>
  A script's reading of the rest of a string literal after its opening quote: its text and what follows
  the closing quote; none when the line ends before.
\<close>

definition js_escape :: "char \<Rightarrow> char" where
  "js_escape c = (if c = CHR ''n'' then CHR 0x0A else if c = CHR ''r'' then CHR 0x0D else if c = CHR ''t'' then CHR 0x09
     else if c = CHR ''f'' then CHR 0x0C else if c = CHR ''b'' then CHR 0x08 else c)"

fun hex_nat :: "string \<Rightarrow> nat option" where
  "hex_nat [] = Some 0"
| "hex_nat (c # s) = (case (hex_val c, hex_nat s) of
     (Some d, Some n) \<Rightarrow> Some (d * 16 ^ length s + n) | _ \<Rightarrow> None)"

function js_read :: "char \<Rightarrow> string \<Rightarrow> (string \<times> string) option" where
  "js_read q s = (case s of [] \<Rightarrow> None
   | c # r \<Rightarrow>
       if c = q then Some ([], r)
       else if c = CHR 0x0A \<or> c = CHR 0x0D then None
       else if c \<noteq> CHR 0x5C then map_option (apfst ((#) c)) (js_read q r)
       else (case r of [] \<Rightarrow> None
         | e # t \<Rightarrow>
             if e = CHR ''u'' then
               (if length t < 4 then None
                else case hex_nat (take 4 t) of None \<Rightarrow> None
                | Some n \<Rightarrow> map_option (apfst ((#) (char_of n))) (js_read q (drop 4 t)))
             else map_option (apfst ((#) (js_escape e))) (js_read q t)))"
  by auto
termination by (relation "measure (\<lambda>(q, s). length s)") auto

declare js_read.simps [simp del]

section \<open>The shell\<close>

text \<open>\<open>_shell_quote\<close>.\<close>

definition shell_trigger :: "char \<Rightarrow> bool" where
  "shell_trigger c \<longleftrightarrow> c \<in> {CHR '' '', CHR 0x27, CHR 0x22, CHR ''$'', CHR 0x60, CHR 0x5C, CHR ''!''}"

definition shell_quote :: "string \<Rightarrow> string" where
  "shell_quote s = (if s = [] \<or> (\<exists>c \<in> set s. shell_trigger c)
     then CHR 0x27 # replace_char (CHR 0x27) [CHR 0x27, CHR 0x5C, CHR 0x27, CHR 0x27] s @ [CHR 0x27]
     else s)"

text \<open>
  A shell's reading of a line: the words of its first command and the text after the separator that ends
  it. The word begun so far and the words before it are carried along; none when a quote is left open or a
  character occurs, unquoted, that makes the shell do more than split words.
\<close>

fun till_quote :: "string \<Rightarrow> (string \<times> string) option" where
  "till_quote [] = None"
| "till_quote (c # s) = (if c = CHR 0x27 then Some ([], s) else map_option (apfst ((#) c)) (till_quote s))"

definition end_word :: "string option \<Rightarrow> string list \<Rightarrow> string list" where
  "end_word w ws = (case w of None \<Rightarrow> ws | Some x \<Rightarrow> ws @ [x])"

definition shell_blank :: "char \<Rightarrow> bool" where
  "shell_blank c \<longleftrightarrow> c = CHR '' '' \<or> c = CHR 0x09"

definition shell_separator :: "char \<Rightarrow> bool" where
  "shell_separator c \<longleftrightarrow> c \<in> {CHR '';'', CHR ''&'', CHR ''|'', CHR 0x0A}"

definition shell_other :: "char \<Rightarrow> bool" where
  "shell_other c \<longleftrightarrow> c \<in> set ''<>()*?[]{}#$!'' \<union> {CHR 0x22, CHR 0x60}"

lemma till_quote_shorter: "till_quote s = Some (x, r) \<Longrightarrow> length r < length s"
  by (induction s arbitrary: x) (auto split: if_splits)

function shell_words :: "string option \<Rightarrow> string list \<Rightarrow> string \<Rightarrow> (string list \<times> string) option" where
  "shell_words w ws s = (case s of [] \<Rightarrow> Some (end_word w ws, [])
   | c # r \<Rightarrow>
       if shell_blank c then shell_words None (end_word w ws) r
       else if shell_separator c then Some (end_word w ws, r)
       else if c = CHR 0x27 then
         (case till_quote r of None \<Rightarrow> None | Some (x, t) \<Rightarrow> shell_words (Some (opt_str w @ x)) ws t)
       else if c = CHR 0x5C then
         (case r of [] \<Rightarrow> None | d # t \<Rightarrow> shell_words (Some (opt_str w @ [d])) ws t)
       else if shell_other c then None
       else shell_words (Some (opt_str w @ [c])) ws r)"
  by auto
termination by (relation "measure (\<lambda>(w, ws, s). length s)") (auto dest: till_quote_shorter)

declare shell_words.simps [simp del]

definition shell_line :: "string \<Rightarrow> (string list \<times> string) option" where
  "shell_line s = shell_words None [] s"

section \<open>Escaped text\<close>

lemma unescape_Nil [simp]: "unescape [] = []"
  by (simp add: unescape.simps)

lemma unescape_escape_char: "unescape (escape_char c @ s) = c # unescape s"
  by (simp add: escape_char_def startswith_def unescape.simps [of "_ # _"])

lemma escape_Nil [simp]: "escape [] = []"
  by (simp add: escape_def)

lemma escape_Cons: "escape (c # s) = escape_char c @ escape s"
  by (simp add: escape_def)

lemma escape_append: "escape (s @ t) = escape s @ escape t"
  by (simp add: escape_def)

lemma unescape_escape_append: "unescape (escape s @ t) = s @ unescape t"
  by (induction s) (simp_all add: escape_Cons unescape_escape_char)

lemma unescape_plain: "CHR ''&'' \<notin> set s \<Longrightarrow> unescape (s @ t) = s @ unescape t"
  by (induction s) (auto simp: startswith_def unescape.simps [of "_ # _"])

section \<open>What of a page is markup\<close>

named_theorems inert "texts that put no markup into a page"

lemma markup_Nil [simp, inert]: "markup [] = []"
  by (simp add: markup_def)

lemma markup_append [simp]: "markup (s @ t) = markup s @ markup t"
  by (simp add: markup_def)

lemma markup_Cons: "markup (c # s) = (if c \<in> {CHR ''<'', CHR ''>'', CHR 0x22, CHR 0x27} then c # markup s else markup s)"
  by (simp add: markup_def)

lemma markup_concat: "markup (concat ss) = concat (map markup ss)"
  by (induction ss) simp_all

lemma markup_none: "(\<And>c. c \<in> set s \<Longrightarrow> c \<notin> {CHR ''<'', CHR ''>'', CHR 0x22, CHR 0x27}) \<Longrightarrow> markup s = []"
  by (auto simp: markup_def filter_empty_conv)

lemma markup_escape_char: "markup (escape_char c) = []"
  by (simp add: escape_char_def markup_def)

lemma markup_escape [inert]: "markup (escape s) = []"
  by (induction s) (simp_all add: escape_Cons markup_escape_char)

lemma nat_str_chars:
  assumes "c \<in> set (nat_str n)"
  shows "48 \<le> (of_char c :: nat) \<and> (of_char c :: nat) \<le> 57"
proof -
  obtain ds where "nat_str n = map dec_digit ds" "\<forall>d \<in> set ds. d < 10" using nat_str_digits by blast
  with assms obtain d where "d < 10" "c = dec_digit d" by auto
  then have "(of_char c :: nat) = 48 + d" by (simp add: dec_digit_def)
  with \<open>d < 10\<close> show ?thesis by simp
qed

lemma markup_nat_str [inert]: "markup (nat_str n) = []"
  by (rule markup_none) (auto dest: nat_str_chars)

lemma markup_int_str [inert]: "markup (int_str n) = []"
  by (simp add: int_str_def markup_Cons inert)

lemma markup_grouped: "markup s = [] \<Longrightarrow> markup (grouped s) = []"
proof (induction s rule: grouped.induct)
  case (1 ds)
  have "markup (take n ds) = []" "markup (drop n ds) = []" for n
    using "1.prems" by (auto simp: markup_def filter_empty_conv dest: in_set_takeD in_set_dropD)
  with 1 show ?case by (subst grouped.simps) (simp add: markup_Cons)
qed

lemma markup_with_commas [inert]: "markup (with_commas n) = []"
  by (simp add: with_commas_def markup_Cons inert markup_grouped)

lemma markup_ago [inert]: "markup (ago now ts) = []"
  by (simp add: ago_def Let_def markup_Cons inert)
definition url_code :: "nat set" where
  "url_code = {48..57} \<union> {65..90} \<union> {97..122} \<union> {37, 45, 46, 47, 95, 126}"

lemma hex_upper_code: "(d :: nat) < 16 \<Longrightarrow> (of_char (char_of (if d < 10 then 48 + d else 55 + d) :: char) :: nat) \<in> url_code"
  by (auto simp: url_code_def)

lemma quote_char_code:
  assumes "c \<in> set (quote_char safe b)" and "safe \<subseteq> {47}"
  shows "(of_char c :: nat) \<in> url_code"
proof -
  have lt: "unat b < 256" using unsigned_less [of b, where ?'a = nat] by simp
  have hex: "unat b div 16 < 16" "unat b mod 16 < 16" using lt by (simp_all add: div_less_iff_less_mult)
  have pc: "(of_char (CHR ''%'') :: nat) \<in> url_code" by (simp add: url_code_def)
  show ?thesis
  proof (cases "quote_char safe b = [char_of (unat b)]")
    case True
    then have "unat b \<in> url_code"
      using assms(2) by (auto simp: quote_char_def Let_def url_code_def split: if_splits)
    with True assms(1) lt show ?thesis by simp
  next
    case False
    then have "quote_char safe b = CHR ''%'' # map (\<lambda>d. char_of (if d < 10 then 48 + d else 55 + d)) [unat b div 16, unat b mod 16]"
      by (simp add: quote_char_def Let_def split: if_splits)
    with assms(1) pc hex_upper_code [OF hex(1)] hex_upper_code [OF hex(2)] show ?thesis
      by (simp only: list.simps list.set insert_iff empty_iff) blast
  qed
qed

lemma quote_char_chars:
  assumes "c \<in> set (quote_char safe b)" and "safe \<subseteq> {47}"
  shows "c \<notin> {CHR ''<'', CHR ''>'', CHR 0x22, CHR 0x27, CHR ''&''}"
  using quote_char_code [OF assms] by (auto simp: url_code_def)

lemma markup_quote [inert]: "markup (quote s) = []" "markup (quote_all s) = []"
  by (auto simp: quote_def quote_all_def intro!: markup_none dest: quote_char_chars)

lemma decode_plain: "c \<noteq> CHR ''%'' \<Longrightarrow> percent_decode (c # s) = utf8_char c @ percent_decode s"
  by (cases s; cases "tl s") auto

lemma hex_val_upper: "n < 16 \<Longrightarrow> hex_val (char_of (if n < 10 then 48 + n else 55 + n)) = Some n"
  by (auto simp: hex_val_def Let_def of_char_of)

lemma decode_quote_char:
  assumes "safe \<subseteq> {47}"
  shows "percent_decode (quote_char safe b @ s) = b # percent_decode s"
proof -
  have lt: "unat b < 256" using unsigned_less [of b, where ?'a = nat] by simp
  then have hex: "unat b div 16 < 16" "unat b mod 16 < 16" by (simp_all add: div_less_iff_less_mult)
  show ?thesis
  proof (cases "quote_char safe b = [char_of (unat b)]")
    case True
    then have n: "unat b < 128 \<and> unat b \<noteq> 37"
      using assms by (auto simp: quote_char_def Let_def split: if_splits)
    then have "(of_char (char_of (unat b) :: char) :: nat) \<noteq> of_char (CHR ''%'')" using lt by (simp add: of_char_of)
    then have other: "char_of (unat b) \<noteq> CHR ''%''" by metis
    have "percent_decode (quote_char safe b @ s) = utf8_char (char_of (unat b)) @ percent_decode s"
      unfolding True append.simps by (rule decode_plain [OF other])
    then show ?thesis using n lt by (simp add: utf8_char_def of_char_of)
  next
    case False
    then have "quote_char safe b = CHR ''%'' # map (\<lambda>d. char_of (if d < 10 then 48 + d else 55 + d)) [unat b div 16, unat b mod 16]"
      by (simp add: quote_char_def Let_def split: if_splits)
    then show ?thesis
      by (simp only: list.map append.simps percent_decode.simps hex_val_upper [OF hex(1)] hex_val_upper [OF hex(2)]) simp
  qed
qed

lemma decode_bytes: "safe \<subseteq> {47} \<Longrightarrow> percent_decode (concat (map (quote_char safe) bs) @ s) = bs @ percent_decode s"
  by (induction bs) (simp_all add: decode_quote_char)

lemma decode_quote: "percent_decode (quote s @ t) = encode s @ percent_decode t" "percent_decode (quote_all s @ t) = encode s @ percent_decode t"
  by (simp_all add: quote_def quote_all_def decode_bytes)

lemma markup_replicate_map:
  "length xs = length ys \<Longrightarrow> (\<And>x y. (x, y) \<in> set (zip xs ys) \<Longrightarrow> markup (f x) = markup (g y)) \<Longrightarrow>
    markup (concat (map f xs)) = markup (concat (map g ys))"
  by (induction xs ys rule: list_induct2) auto

section \<open>Text in a script\<close>

lemma json_dumps_for_html_eq:
  "json_dumps_for_html s = CHR 0x22 # replace_char (CHR ''&'') (CHR 0x5C # ''u0026'')
     (replace_char (CHR ''>'') (CHR 0x5C # ''u003e'') (replace_char (CHR ''<'') (CHR 0x5C # ''u003c'')
       (concat (map json_char s)))) @ [CHR 0x22]"
  by (simp add: json_dumps_for_html_def for_html_def json_dumps_def replace_char_def)

lemma replace_char_append: "replace_char c t (xs @ ys) = replace_char c t xs @ replace_char c t ys"
  by (simp add: replace_char_def)

lemma set_replace_char: "set (replace_char c t s) \<subseteq> (set s - {c}) \<union> (if c \<in> set s then set t else {})"
  by (auto simp: replace_char_def)

lemma for_html_safe: "set (for_html s) \<inter> {CHR ''<'', CHR ''>'', CHR ''&''} = {}"
  using set_replace_char [of "CHR ''<''" "CHR 0x5C # ''u003c''" s]
    set_replace_char [of "CHR ''>''" "CHR 0x5C # ''u003e''" "replace_char (CHR ''<'') (CHR 0x5C # ''u003c'') s"]
    set_replace_char [of "CHR ''&''" "CHR 0x5C # ''u0026''" "replace_char (CHR ''>'') (CHR 0x5C # ''u003e'')
      (replace_char (CHR ''<'') (CHR 0x5C # ''u003c'') s)"]
  by (auto simp: for_html_def split: if_splits)

lemma json_for_html_safe: "set (json_dumps_for_html s) \<inter> {CHR ''<'', CHR ''>'', CHR ''&''} = {}"
  unfolding json_dumps_for_html_def by (rule for_html_safe)

definition html_json_char :: "char \<Rightarrow> string" where
  "html_json_char c = replace_char (CHR ''&'') (CHR 0x5C # ''u0026'')
     (replace_char (CHR ''>'') (CHR 0x5C # ''u003e'') (replace_char (CHR ''<'') (CHR 0x5C # ''u003c'') (json_char c)))"

lemma json_dumps_chars: "json_dumps_for_html s = CHR 0x22 # concat (map html_json_char s) @ [CHR 0x22]"
proof -
  have "replace_char (CHR ''&'') (CHR 0x5C # ''u0026'') (replace_char (CHR ''>'') (CHR 0x5C # ''u003e'')
      (replace_char (CHR ''<'') (CHR 0x5C # ''u003c'') (concat (map json_char s)))) = concat (map html_json_char s)"
    by (induction s) (simp_all add: replace_char_append html_json_char_def, simp_all add: replace_char_def)
  then show ?thesis by (simp add: json_dumps_for_html_eq)
qed

lemma js_read_escape:
  "e \<noteq> CHR ''u'' \<Longrightarrow> q \<noteq> CHR 0x5C \<Longrightarrow> js_read q (CHR 0x5C # e # t) = map_option (apfst ((#) (js_escape e))) (js_read q t)"
  by (subst js_read.simps) simp

lemma js_read_unicode:
  "hex_nat [a, b, c, d] = Some n \<Longrightarrow> q \<noteq> CHR 0x5C \<Longrightarrow>
    js_read q (CHR 0x5C # CHR ''u'' # a # b # c # d # t) = map_option (apfst ((#) (char_of n))) (js_read q t)"
  by (subst js_read.simps) simp

lemma js_read_plain:
  "c \<notin> {q, CHR 0x5C, CHR 0x0A, CHR 0x0D} \<Longrightarrow> js_read q (c # t) = map_option (apfst ((#) c)) (js_read q t)"
  by (subst js_read.simps) simp

lemma js_read_end: "q \<notin> {CHR 0x0A, CHR 0x0D} \<Longrightarrow> js_read q (q # t) = Some ([], t)"
  by (subst js_read.simps) simp

lemma json_char_cases:
  obtains (literal) "json_char c = [c]" "c \<notin> {CHR 0x22, CHR 0x5C, CHR 0x0A, CHR 0x0D}"
  | (short) e where "json_char c = [CHR 0x5C, e]" "js_escape e = c" "e \<notin> {CHR ''u'', CHR ''<'', CHR ''>'', CHR ''&''}"
  | (code) "json_char c = CHR 0x5C # ''u00'' @ [hex_digit (of_char c div 16), hex_digit (of_char c mod 16)]"
    "c \<notin> {CHR ''<'', CHR ''>'', CHR ''&''}"
proof (cases "(of_char c :: nat) \<in> {34, 92, 10, 13, 9, 12, 8}")
  case True
  have c: "c = char_of (of_char c :: nat)" by simp
  from True have "\<exists>e. json_char c = [CHR 0x5C, e] \<and> js_escape e = c \<and> e \<notin> {CHR ''u'', CHR ''<'', CHR ''>'', CHR ''&''}"
    by (elim insertE) (subst c, simp add: json_char_def js_escape_def char_of_def bit_0)+
  then show ?thesis using short by blast
next
  case False
  show ?thesis
  proof (cases "32 \<le> (of_char c :: nat) \<and> (of_char c :: nat) \<le> 126")
    case True
    with False have "json_char c = [c]" by (simp add: json_char_def Let_def)
    with False show ?thesis by (intro literal) auto
  next
    case out: False
    with False have "json_char c = CHR 0x5C # ''u00'' @ [hex_digit (of_char c div 16), hex_digit (of_char c mod 16)]"
      by (auto simp: json_char_def Let_def)
    with out show ?thesis by (intro code) auto
  qed
qed

lemma replace_char_id: "c \<notin> set s \<Longrightarrow> replace_char c t s = s"
  by (induction s) (auto simp: replace_char_def)

lemma hex_digit_other: "n < 16 \<Longrightarrow> hex_digit n \<notin> {CHR ''<'', CHR ''>'', CHR ''&''}"
  using hex_digit_alnum [of n] by auto

lemma hex_nat_byte:
  "n < 256 \<Longrightarrow> hex_nat [CHR ''0'', CHR ''0'', hex_digit (n div 16), hex_digit (n mod 16)] = Some n"
proof -
  assume "n < 256"
  then have "n div 16 < 16" "n mod 16 < 16" by (simp_all add: div_less_iff_less_mult)
  moreover have "hex_val (CHR ''0'') = Some 0" by (simp add: hex_val_def)
  ultimately show ?thesis by simp
qed

lemma html_json_char_cases:
  obtains (literal) "html_json_char c = [c]" "c \<notin> {CHR 0x22, CHR 0x5C, CHR 0x0A, CHR 0x0D}"
  | (short) e where "html_json_char c = [CHR 0x5C, e]" "js_escape e = c" "e \<noteq> CHR ''u''"
  | (code) d where "html_json_char c = CHR 0x5C # CHR ''u'' # d" "length d = 4" "hex_nat d = Some (of_char c)"
proof (cases "c \<in> {CHR ''<'', CHR ''>'', CHR ''&''}")
  case True
  then have "\<exists>d. html_json_char c = CHR 0x5C # CHR ''u'' # d \<and> length d = 4 \<and> hex_nat d = Some (of_char c)"
    by (elim insertE) (simp_all add: html_json_char_def json_char_def replace_char_def hex_val_def)
  then show ?thesis using code by blast
next
  case False
  show ?thesis
  proof (cases c rule: json_char_cases)
    case literal
    with False have "html_json_char c = [c]" by (simp add: html_json_char_def replace_char_def)
    with literal show ?thesis using that(1) by blast
  next
    case (short e)
    then have "html_json_char c = [CHR 0x5C, e]" by (simp add: html_json_char_def replace_char_def)
    with short show ?thesis using that(2) by blast
  next
    case code
    have lt: "(of_char c :: nat) < 256" by simp
    then have hex: "(of_char c :: nat) div 16 < 16" "(of_char c :: nat) mod 16 < 16" by (simp_all add: div_less_iff_less_mult)
    from code hex_digit_other [OF hex(1)] hex_digit_other [OF hex(2)]
    have "html_json_char c = json_char c" by (auto simp: html_json_char_def replace_char_id)
    with code hex_nat_byte [OF lt] show ?thesis by (intro that(3)) auto
  qed
qed

lemma js_read_html_char:
  "js_read (CHR 0x22) (html_json_char c @ t) = map_option (apfst ((#) c)) (js_read (CHR 0x22) t)"
proof (cases c rule: html_json_char_cases)
  case literal
  then show ?thesis by (simp add: js_read_plain)
next
  case (short e)
  then show ?thesis by (simp add: js_read_escape)
next
  case (code d)
  then obtain x y z w where "d = [x, y, z, w]" by (auto simp: length_Suc_conv numeral_eq_Suc)
  with code js_read_unicode [of x y z w "of_char c" "CHR 0x22" t] show ?thesis by simp
qed

lemma js_read_json: "js_read (CHR 0x22) (tl (json_dumps_for_html s) @ t) = Some (s, t)"
proof -
  have "js_read (CHR 0x22) (concat (map html_json_char s) @ CHR 0x22 # t) = Some (s, t)"
    by (induction s) (simp_all add: js_read_end js_read_html_char)
  then show ?thesis by (simp add: json_dumps_chars)
qed

section \<open>Text in a command line\<close>

definition shell_plain :: "char \<Rightarrow> bool" where
  "shell_plain c \<longleftrightarrow> \<not> shell_blank c \<and> \<not> shell_separator c \<and> c \<noteq> CHR 0x27 \<and> c \<noteq> CHR 0x5C \<and> \<not> shell_other c"

lemma till_quote_append: "CHR 0x27 \<notin> set u \<Longrightarrow> till_quote (u @ CHR 0x27 # t) = Some (u, t)"
  by (induction u) auto

lemma shell_words_Nil [simp]: "shell_words w ws [] = Some (end_word w ws, [])"
  by (simp add: shell_words.simps)

lemma shell_words_blank [simp]: "shell_words w ws (CHR '' '' # t) = shell_words None (end_word w ws) t"
  by (subst shell_words.simps) (simp add: shell_blank_def)

lemma shell_words_separator: "shell_separator c \<Longrightarrow> shell_words w ws (c # t) = Some (end_word w ws, t)"
  by (subst shell_words.simps) (auto simp: shell_blank_def shell_separator_def)

lemma shell_words_quoted:
  "CHR 0x27 \<notin> set u \<Longrightarrow> shell_words w ws (CHR 0x27 # u @ CHR 0x27 # t) = shell_words (Some (opt_str w @ u)) ws t"
  by (subst shell_words.simps) (simp add: shell_blank_def shell_separator_def till_quote_append)

lemma shell_words_escaped: "shell_words w ws (CHR 0x5C # d # t) = shell_words (Some (opt_str w @ [d])) ws t"
  by (subst shell_words.simps) (simp add: shell_blank_def shell_separator_def)

lemma shell_words_plain_char: "shell_plain c \<Longrightarrow> shell_words w ws (c # t) = shell_words (Some (opt_str w @ [c])) ws t"
  by (subst shell_words.simps) (simp add: shell_plain_def)

lemma opt_str_simps [simp]: "opt_str (Some x) = x" "opt_str None = []"
  by (simp_all add: opt_str_def)

lemma shell_words_plain:
  "\<forall>c \<in> set s. shell_plain c \<Longrightarrow> shell_words (Some x) ws (s @ t) = shell_words (Some (x @ s)) ws t"
  by (induction s arbitrary: x) (simp_all add: shell_words_plain_char)

lemma shell_words_word:
  "\<forall>c \<in> set s. shell_plain c \<Longrightarrow> s \<noteq> [] \<Longrightarrow> shell_words None ws (s @ t) = shell_words (Some s) ws t"
  by (cases s) (simp_all add: shell_words_plain_char shell_words_plain opt_str_def)

lemma shell_words_replaced:
  "shell_words w ws (CHR 0x27 # replace_char (CHR 0x27) [CHR 0x27, CHR 0x5C, CHR 0x27, CHR 0x27] s @ CHR 0x27 # t) =
    shell_words (Some (opt_str w @ s)) ws t"
proof (induction s arbitrary: w rule: length_induct)
  case (1 s)
  show ?case
  proof (cases "CHR 0x27 \<in> set s")
    case False
    then show ?thesis by (simp add: replace_char_id shell_words_quoted)
  next
    case True
    then obtain u v where s: "s = u @ CHR 0x27 # v" "CHR 0x27 \<notin> set u" by (metis split_list_first)
    then have "replace_char (CHR 0x27) [CHR 0x27, CHR 0x5C, CHR 0x27, CHR 0x27] s =
        u @ CHR 0x27 # CHR 0x5C # CHR 0x27 # CHR 0x27 # replace_char (CHR 0x27) [CHR 0x27, CHR 0x5C, CHR 0x27, CHR 0x27] v"
      by (simp add: replace_char_append replace_char_id) (simp add: replace_char_def)
    with s 1 show ?thesis by (simp add: shell_words_quoted shell_words_escaped)
  qed
qed

lemma shell_words_shell_quote:
  "(\<exists>c \<in> set s. shell_trigger c) \<or> (\<forall>c \<in> set s. shell_plain c) \<Longrightarrow>
    shell_words (Some x) ws (shell_quote s @ t) = shell_words (Some (x @ s)) ws t"
  by (auto simp: shell_quote_def shell_words_replaced shell_words_plain)

end
