(* ===== verification/HubFiles.thy ===== *)
theory HubFiles
  imports HubEnroll FileTransfer Html
begin

text \<open>
  The pages of \<^verbatim>\<open>hub/app.py\<close> that act on a device of the user: browsing, downloading and uploading
  files, thumbnails, remote input, the camera and the screen. What a device answers is a parameter;
  for the file pages it is related below to what the agent's own operations give.
\<close>

section \<open>Requests to a device\<close>

text \<open>
  What a call, an upload and a stream to a connection come to, and the address a connection has
  announced for direct access.
\<close>

record remote =
  rm_call :: agent_call
  rm_upload :: "nat \<Rightarrow> (string \<times> json) list \<Rightarrow> byte list list \<Rightarrow> exn + json"
  rm_stream :: "nat \<Rightarrow> string \<Rightarrow> (string \<times> json) list \<Rightarrow> qitem list \<times> stream_end"
  rm_direct :: "nat \<Rightarrow> (json \<times> json \<times> json) option"

text \<open>The connection of a device of the user, or 404 or 503.\<close>

definition own_conn ::
  "params \<Rightarrow> int \<Rightarrow> request \<Rightarrow> string \<Rightarrow> (user_info \<Rightarrow> nat \<Rightarrow> (hub, 'a) op) \<Rightarrow> (hub, 'a) op" where
  "own_conn X now rq device_id f = own_device X now rq device_id (\<lambda>u d.
     bindE (asks (\<lambda>s. map_of (h_conns s) device_id)) (\<lambda>conn. case conn of
       None \<Rightarrow> bindE (offline_detail X now device_id) (\<lambda>detail. raise (HTTPException 503 detail))
     | Some k \<Rightarrow> f u k))"

definition device_thumb ::
  "params \<Rightarrow> int \<Rightarrow> remote \<Rightarrow> request \<Rightarrow> string \<Rightarrow> string \<Rightarrow> int \<Rightarrow> (hub, byte list \<times> json) op" where
  "device_thumb X now R rq device_id rel sz = own_conn X now rq device_id (\<lambda>u k.
     case rm_call R k ''thumbnail'' [(''path'', JStr rel), (''size'', JInt sz)] of
       Inl (AgentError m) \<Rightarrow> raise (HTTPException 404 m)
     | Inl e \<Rightarrow> raise e
     | Inr result \<Rightarrow>
         bindE (liftE (jget_or result ''data_b64'' (JStr []))) (\<lambda>d.
         bindE (liftE (chunk_text d)) (\<lambda>content.
         bindE (liftE (jget_or result ''content_type'' (JStr ''image/jpeg''))) (\<lambda>ct. ret (content, ct)))))"

section \<open>Files\<close>

text \<open>
  An error page with its status, a listing, a redirect to the address with a slash, or a download
  with its content type and announced length.
\<close>

datatype files_page =
    FilesError int string
  | Listing json
  | AddSlash string
  | Download json "string option" "byte list list \<times> stream_end"

definition stream_file :: "remote \<Rightarrow> nat \<Rightarrow> string \<Rightarrow> json \<Rightarrow> exn + files_page" where
  "stream_file R k rel info =
     (case (jget_or info ''content_type'' JNull, jget_or info ''size'' JNull) of
        (Inr ct, Inr sz) \<Rightarrow>
          (case (if sz = JNull then Inr None else case jint sz of Inl e \<Rightarrow> Inl e | Inr n \<Rightarrow> Inr (Some (int_str n))) of
             Inl e \<Rightarrow> Inl e
           | Inr len \<Rightarrow> Inr (Download (jor ct (JStr ''application/octet-stream'')) len
               (gen_body (rm_stream R k ''read_file'' [(''path'', JStr rel)]))))
      | (Inl e, _) \<Rightarrow> Inl e
      | (_, Inl e) \<Rightarrow> Inl e)"

definition browse_device :: "params \<Rightarrow> int \<Rightarrow> remote \<Rightarrow> string \<Rightarrow> string \<Rightarrow> bool \<Rightarrow> (hub, files_page) op" where
  "browse_device X now R device_id rel is_dir_hint =
     bindE (asks (\<lambda>s. map_of (h_conns s) device_id)) (\<lambda>conn. case conn of
       None \<Rightarrow> bindE (offline_detail X now device_id) (\<lambda>detail. ret (FilesError 503 detail))
     | Some k \<Rightarrow>
         (case rm_call R k ''stat'' [(''path'', JStr rel)] of
            Inl (AgentError m) \<Rightarrow> ret (FilesError 502 (''Agent error: '' @ m))
          | Inl e \<Rightarrow> raise e
          | Inr info \<Rightarrow>
              bindE (liftE (jget_or info ''exists'' JNull)) (\<lambda>ex.
              bindE (liftE (jget_or info ''is_dir'' JNull)) (\<lambda>dir.
              if \<not> truthy ex then raise (HTTPException 404 ''Not found'')
              else if truthy dir then
                (if rel \<noteq> [] \<and> \<not> is_dir_hint then
                   ret (AddSlash (''/devices/'' @ device_id @ ''/files/'' @ quote rel @ ''/''))
                 else case rm_call R k ''list_dir'' [(''path'', JStr rel)] of
                   Inl (AgentError m) \<Rightarrow> ret (FilesError 502 (''Agent error: '' @ m))
                 | Inl e \<Rightarrow> raise e
                 | Inr listing \<Rightarrow> bindE (liftE (jget_or listing ''entries'' (JArr []))) (\<lambda>es. ret (Listing es)))
              else liftE (stream_file R k rel info)))))"

definition browse_or_download ::
  "params \<Rightarrow> int \<Rightarrow> remote \<Rightarrow> request \<Rightarrow> string \<Rightarrow> string \<Rightarrow> bool \<Rightarrow> (hub, files_page) op" where
  "browse_or_download X now R rq device_id rel is_dir_hint =
     own_device X now rq device_id (\<lambda>u d. browse_device X now R device_id rel is_dir_hint)"

text \<open>The address with a slash at its end is taken for a directory.\<close>

definition device_files_path ::
  "params \<Rightarrow> int \<Rightarrow> remote \<Rightarrow> request \<Rightarrow> string \<Rightarrow> string \<Rightarrow> (hub, files_page) op" where
  "device_files_path X now R rq device_id rel =
     browse_or_download X now R rq device_id rel (endswith ''/'' (rq_path rq))"

definition device_files_root :: "params \<Rightarrow> int \<Rightarrow> remote \<Rightarrow> request \<Rightarrow> string \<Rightarrow> (hub, files_page) op" where
  "device_files_root X now R rq device_id = browse_or_download X now R rq device_id [] True"

text \<open>The body of the request in chunks; empty ones are skipped.\<close>

definition device_upload ::
  "params \<Rightarrow> int \<Rightarrow> remote \<Rightarrow> request \<Rightarrow> string \<Rightarrow> string \<Rightarrow> byte list list \<Rightarrow> (hub, json) op" where
  "device_upload X now R rq device_id rel body = own_conn X now rq device_id (\<lambda>u k.
     if rel = [] \<or> endswith ''/'' rel then raise (HTTPException 400 ''PUT target must be a file path'')
     else
       (let sz = (case py_int (header rq ''content-length'') of Some n \<Rightarrow> JInt n | None \<Rightarrow> JNull);
            audit = (\<lambda>ok. on_db (record_audit ''file_write'' (Some (ui_id u)) (Some (ui_id u)) (Some (ui_username u))
              (Some device_id) (Some rel) None ok now)) in
        case rm_upload R k [(''path'', JStr rel), (''size'', sz)] (filter (\<lambda>c. c \<noteq> []) body) of
          Inl (AgentError m) \<Rightarrow> thenE (audit False) (raise (HTTPException 502 m))
        | Inl TimeoutError \<Rightarrow> raise (HTTPException 504 ''Agent did not finish in time'')
        | Inl e \<Rightarrow> raise e
        | Inr result \<Rightarrow> thenE (audit True) (ret (JObj [(''ok'', JBool True), (''result'', result)]))))"

section \<open>Remote input\<close>

text \<open>The addresses and the ticket for direct access; none when the device announced none.\<close>

definition device_direct ::
  "params \<Rightarrow> int \<Rightarrow> remote \<Rightarrow> request \<Rightarrow> string \<Rightarrow> (hub, string list \<times> json) op" where
  "device_direct X now R rq device_id = own_device X now rq device_id (\<lambda>u d.
     bindE (asks (\<lambda>s. map_of (h_conns s) device_id)) (\<lambda>conn.
       case (case conn of None \<Rightarrow> None | Some k \<Rightarrow> rm_direct R k) of
         None \<Rightarrow> ret ([], JNull)
       | Some (port, hosts, ticket) \<Rightarrow>
           if \<not> truthy port \<or> \<not> truthy hosts then ret ([], JNull)
           else (case hosts of
               JArr hs \<Rightarrow> ret (map (\<lambda>h. ''ws://'' @ py_str (pSH X) h @ '':'' @ py_str (pSH X) port @ ''/'') hs, ticket)
             | JStr cs \<Rightarrow> ret (map (\<lambda>c. ''ws://'' @ [c] @ '':'' @ py_str (pSH X) port @ ''/'') cs, ticket)
             | JObj kvs \<Rightarrow> ret (map (\<lambda>(k, v). ''ws://'' @ k @ '':'' @ py_str (pSH X) port @ ''/'') kvs, ticket)
             | _ \<Rightarrow> raise TypeError)))"

definition device_input ::
  "params \<Rightarrow> int \<Rightarrow> remote \<Rightarrow> request \<Rightarrow> string \<Rightarrow> json option \<Rightarrow> (hub, json) op" where
  "device_input X now R rq device_id body = own_conn X now rq device_id (\<lambda>u k. case body of
     None \<Rightarrow> raise (HTTPException 400 ''Body must be JSON'')
   | Some cmd \<Rightarrow>
       (case cmd of
          JObj kvs \<Rightarrow>
            if map_of kvs ''type'' = None then raise (HTTPException 400 ''Body must be a JSON object with a 'type' field'')
            else (case rm_call R k ''input'' [(''command'', cmd)] of
                Inl (AgentError m) \<Rightarrow> raise (HTTPException 502 m)
              | Inl TimeoutError \<Rightarrow> raise (HTTPException 504 ''Agent did not respond in time'')
              | Inl e \<Rightarrow> raise e
              | Inr result \<Rightarrow> ret (JObj [(''ok'', JBool True), (''result'', result)]))
        | _ \<Rightarrow> raise (HTTPException 400 ''Body must be a JSON object with a 'type' field'')))"

definition api_device_screen_size ::
  "params \<Rightarrow> int \<Rightarrow> remote \<Rightarrow> request \<Rightarrow> string \<Rightarrow> (hub, json) op" where
  "api_device_screen_size X now R rq device_id = own_conn X now rq device_id (\<lambda>u k.
     case rm_call R k ''input'' [(''command'', JObj [(''type'', JStr ''screen_size'')])] of
       Inl (AgentError m) \<Rightarrow> ret (failed_json m)
     | Inl TimeoutError \<Rightarrow> raise (HTTPException 504 ''Agent did not respond'')
     | Inl e \<Rightarrow> raise e
     | Inr result \<Rightarrow> ret (JObj [(''ok'', JBool True), (''result'', result)]))"

definition api_device_cameras ::
  "params \<Rightarrow> int \<Rightarrow> remote \<Rightarrow> request \<Rightarrow> string \<Rightarrow> (hub, json) op" where
  "api_device_cameras X now R rq device_id = own_conn X now rq device_id (\<lambda>u k.
     case rm_call R k ''camera_info'' [] of
       Inl (AgentError m) \<Rightarrow> ret (JObj [(''error'', JStr m), (''cameras'', JArr [])])
     | Inl e \<Rightarrow> raise e
     | Inr result \<Rightarrow> ret result)"

section \<open>Camera and screen\<close>

text \<open>The first item of a stream, waited for before the response starts.\<close>

fun first_frame :: "string \<Rightarrow> qitem list \<times> stream_end \<Rightarrow> exn + (msg \<times> (qitem list \<times> stream_end))" where
  "first_frame late (Frame m # q, e) =
     (if is_str ''stream_start'' (jget m ''type'') then Inr (m, (q, e))
      else Inl (HTTPException 502 ''Unexpected agent response''))"
| "first_frame late (Chunk r d # q, e) = Inl (HTTPException 502 ''Unexpected agent response'')"
| "first_frame late (Closed # q, e) = Inl (HTTPException 504 late)"
| "first_frame late ([], Raised x) = Inl (case x of AgentError m \<Rightarrow> HTTPException 502 m
     | TimeoutError \<Rightarrow> HTTPException 504 late | _ \<Rightarrow> x)"
| "first_frame late ([], Ended) = Inl (HTTPException 504 late)"
| "first_frame late ([], Waiting) = Inl (HTTPException 504 late)"

text \<open>One part of the live body, and its closing mark.\<close>

definition crlf :: "byte list" where
  "crlf = [13, 10]"

definition part_head :: "byte list" where
  "part_head = encode ''--vortexframe'' @ crlf @ encode ''Content-Type: image/jpeg'' @ crlf @ encode ''Content-Length: ''"

definition mjpeg_part :: "byte list \<Rightarrow> byte list" where
  "mjpeg_part jpeg = part_head @ encode (nat_str (length jpeg)) @ crlf @ crlf @ jpeg @ crlf"

definition mjpeg_close :: "byte list" where
  "mjpeg_close = encode ''--vortexframe--'' @ crlf"

text \<open>
  The generator of the live body: one part per image, empty ones skipped; whatever ends the stream, the
  closing mark follows; a stream that waits has not come to it.
\<close>

fun mjpeg :: "qitem list \<Rightarrow> stream_end \<Rightarrow> byte list list \<times> stream_end" where
  "mjpeg [] e = (case e of Waiting \<Rightarrow> ([], Waiting) | Raised (AgentError m) \<Rightarrow> ([mjpeg_close], Ended) | _ \<Rightarrow> ([mjpeg_close], e))"
| "mjpeg (Closed # q) e = ([mjpeg_close], Ended)"
| "mjpeg (Chunk r d # q) e =
     (if d = [] then mjpeg q e else (case mjpeg q e of (ps, x) \<Rightarrow> (mjpeg_part d # ps, x)))"
| "mjpeg (Frame m # q) e =
     (let t = jget m ''type'' in
      if is_str ''stream_chunk'' t then
        (if truthy (jget m ''data'') then
           (case chunk_text (jget m ''data'') of
              Inl x \<Rightarrow> ([mjpeg_close], Raised x)
            | Inr d \<Rightarrow> if d = [] then mjpeg q e else (case mjpeg q e of (ps, x) \<Rightarrow> (mjpeg_part d # ps, x)))
         else mjpeg q e)
      else if is_str ''stream_end'' t then ([mjpeg_close], Ended)
      else mjpeg q e)"

definition screen_args :: "request \<Rightarrow> (string \<times> json) list" where
  "screen_args rq = (case py_int (query_param rq ''monitor'') of
     Some n \<Rightarrow> if 0 \<le> n then [(''monitor'', JInt n)] else [] | None \<Rightarrow> [])"

definition live_view ::
  "params \<Rightarrow> int \<Rightarrow> remote \<Rightarrow> request \<Rightarrow> string \<Rightarrow> string \<Rightarrow> (string \<times> json) list \<Rightarrow> string \<Rightarrow>
   (hub, byte list list \<times> stream_end) op" where
  "live_view X now R rq device_id oper args late = own_conn X now rq device_id (\<lambda>u k.
     bindE (liftE (first_frame late (rm_stream R k oper args))) (\<lambda>(m, q, e). ret (mjpeg q e)))"

definition device_screen_live ::
  "params \<Rightarrow> int \<Rightarrow> remote \<Rightarrow> request \<Rightarrow> string \<Rightarrow> (hub, byte list list \<times> stream_end) op" where
  "device_screen_live X now R rq device_id =
     live_view X now R rq device_id ''screen_stream'' (screen_args rq) ''No screen frames arrived.''"

definition device_camera_live ::
  "params \<Rightarrow> int \<Rightarrow> remote \<Rightarrow> request \<Rightarrow> string \<Rightarrow> (hub, byte list list \<times> stream_end) op" where
  "device_camera_live X now R rq device_id =
     live_view X now R rq device_id ''camera_stream'' [] ''Driver APK did not respond.''"

text \<open>A single picture: the content type, the announced length, the body.\<close>

definition device_camera_capture ::
  "params \<Rightarrow> int \<Rightarrow> remote \<Rightarrow> request \<Rightarrow> string \<Rightarrow> string \<Rightarrow>
   (hub, json \<times> string option \<times> (byte list list \<times> stream_end)) op" where
  "device_camera_capture X now R rq device_id camera_id = own_conn X now rq device_id (\<lambda>u k.
     bindE (liftE (first_frame ''Camera capture timed out''
       (rm_stream R k ''camera_capture'' [(''camera_id'', JStr camera_id)]))) (\<lambda>(m, st).
     bindE (liftE (if jget m ''size'' = JNull then Inr None
         else case jint (jget m ''size'') of Inl e \<Rightarrow> Inl e | Inr n \<Rightarrow> Inr (Some (int_str n)))) (\<lambda>len.
       ret (jget_default m ''content_type'' (JStr ''image/jpeg''), len, gen_body st))))"

section \<open>Only the owner\<close>

definition owns_device :: "params \<Rightarrow> int \<Rightarrow> request \<Rightarrow> string \<Rightarrow> hub \<Rightarrow> bool" where
  "owns_device X now rq d s \<longleftrightarrow> (\<exists>u r. fst (require_user X now rq (h_db s)) = Inr u \<and>
     r \<in> set (devices (h_db s)) \<and> owned d (ui_id u) r)"

text \<open>The error of a request for a device that is not the user's.\<close>

definition refusal :: "params \<Rightarrow> int \<Rightarrow> request \<Rightarrow> string \<Rightarrow> hub \<Rightarrow> exn" where
  "refusal X now rq d s = (case fst (require_user X now rq (h_db s)) of
     Inl e \<Rightarrow> e
   | Inr u \<Rightarrow> (case fst (get_device_for_user d (ui_id u) (h_db s)) of Inl e \<Rightarrow> e
       | Inr _ \<Rightarrow> HTTPException 404 ''Device not found''))"

lemma require_user_state [simp]: "snd (require_user X now rq s) = s"
  using current_user_state [of X now rq s]
  by (cases "current_user_optional X now rq s") (auto simp: require_user_def bindE_def split: sum.splits option.splits)

lemma own_device_refused:
  assumes "\<not> owns_device X now rq d s"
  shows "own_device X now rq d f s = (Inl (refusal X now rq d s), s)"
proof (cases "fst (require_user X now rq (h_db s))")
  case (Inl e)
  then show ?thesis by (simp add: own_device_def as_user_def bindE_def on_db_apply refusal_def)
next
  case (Inr u)
  with assms have none: "select_where (owned d (ui_id u)) (devices (h_db s)) = []"
    by (auto simp: owns_device_def select_where_def filter_empty_conv)
  have "get_device_for_user d (ui_id u) (h_db s) = (case fst (get_device_for_user d (ui_id u) (h_db s)) of
      Inl e \<Rightarrow> (Inl e, h_db s) | Inr _ \<Rightarrow> (Inr None, h_db s))"
    using none by (auto simp: get_device_for_user_def db_read_def fetchone_def split: option.split)
  with Inr show ?thesis
    by (cases "fst (get_device_for_user d (ui_id u) (h_db s))")
      (simp_all add: own_device_def as_user_def bindE_def on_db_apply refusal_def)
qed


section \<open>The live body\<close>

text \<open>A reader of the body that goes by the announced lengths.\<close>

definition strip_bytes :: "byte list \<Rightarrow> byte list \<Rightarrow> byte list option" where
  "strip_bytes p bs = (if take (length p) bs = p then Some (drop (length p) bs) else None)"

definition digit_byte :: "byte \<Rightarrow> bool" where
  "digit_byte b \<longleftrightarrow> 48 \<le> unat b \<and> unat b \<le> 57"

definition bytes_nat :: "byte list \<Rightarrow> nat" where
  "bytes_nat ds = foldl (\<lambda>n b. 10 * n + (unat b - 48)) 0 ds"

lemma strip_bytes_append [simp]: "strip_bytes p (p @ r) = Some r"
  by (simp add: strip_bytes_def)

lemma strip_bytes_length: "strip_bytes p bs = Some r \<Longrightarrow> length bs = length p + length r"
  by (auto simp: strip_bytes_def dest!: arg_cong [where f = length] split: if_splits)

function read_parts :: "byte list \<Rightarrow> byte list list option" where
  "read_parts bs = (if bs = mjpeg_close then Some []
     else case strip_bytes part_head bs of None \<Rightarrow> None
     | Some r \<Rightarrow>
         (case strip_bytes (crlf @ crlf) (dropWhile digit_byte r) of None \<Rightarrow> None
          | Some body \<Rightarrow>
              (let n = bytes_nat (takeWhile digit_byte r) in
               case strip_bytes crlf (drop n body) of None \<Rightarrow> None
               | Some rest \<Rightarrow> map_option (\<lambda>ps. take n body # ps) (read_parts rest))))"
  by pat_completeness simp

termination
proof (relation "measure length")
  fix bs r body :: "byte list" and n rest
  assume h: "strip_bytes part_head bs = Some r" "strip_bytes (crlf @ crlf) (dropWhile digit_byte r) = Some body"
    "strip_bytes crlf (drop n body) = Some rest"
  have "length (dropWhile digit_byte r) \<le> length r" by (simp add: length_dropWhile_le)
  with h [THEN strip_bytes_length] show "(rest, bs) \<in> measure length"
    by (simp add: part_head_def crlf_def)
qed simp

declare read_parts.simps [simp del]

lemma dec_digit_byte:
  assumes d: "d < 10"
  shows "utf8_char (dec_digit d) = [word_of_nat (48 + d)] \<and> unat (word_of_nat (48 + d) :: byte) = 48 + d"
proof
  from d show "utf8_char (dec_digit d) = [word_of_nat (48 + d)]"
    by (simp add: utf8_char_def dec_digit_def of_char_char_of_small)
  have "n < 256 \<Longrightarrow> unat (word_of_nat n :: byte) = n" for n
    by (simp add: unsigned_of_nat take_bit_nat_eq_self)
  from this [of "48 + d"] d show "unat (word_of_nat (48 + d) :: byte) = 48 + d" by linarith
qed

lemma digit_bytes: "list_all digit_byte (encode (nat_str n)) \<and> bytes_nat (encode (nat_str n)) = n"
proof (induction n rule: nat_str.induct)
  case (1 n)
  show ?case
  proof (cases "n < 10")
    case True
    then show ?thesis using dec_digit_byte [of n]
      by (subst (1 2) nat_str.simps) (simp add: encode_def digit_byte_def bytes_nat_def)
  next
    case False
    have "encode (nat_str n) = encode (nat_str (n div 10)) @ [word_of_nat (48 + n mod 10)]"
      using False dec_digit_byte [of "n mod 10"] by (subst nat_str.simps) (simp add: encode_def)
    with 1 [OF False] dec_digit_byte [of "n mod 10"] show ?thesis
      by (simp add: digit_byte_def bytes_nat_def)
  qed
qed

lemma read_close [simp]: "read_parts mjpeg_close = Some []"
  by (subst read_parts.simps) simp

lemma read_part: "read_parts (mjpeg_part d @ rest) = map_option (\<lambda>ps. d # ps) (read_parts rest)"
proof -
  let ?n = "encode (nat_str (length d))" and ?tail = "d @ crlf @ rest"
  have "(mjpeg_part d @ rest) ! 13 \<noteq> mjpeg_close ! 13"
    by (simp add: mjpeg_part_def part_head_def mjpeg_close_def encode_def utf8_char_def crlf_def)
  then have ne: "mjpeg_part d @ rest \<noteq> mjpeg_close" by metis
  have "\<not> digit_byte (hd (crlf @ crlf @ ?tail))" by (simp add: crlf_def digit_byte_def)
  then have t: "takeWhile digit_byte (?n @ crlf @ crlf @ ?tail) = ?n" "dropWhile digit_byte (?n @ crlf @ crlf @ ?tail) = (crlf @ crlf) @ ?tail"
    using digit_bytes [of "length d"] by (auto simp: takeWhile_append dropWhile_append crlf_def list_all_iff)
  have "mjpeg_part d @ rest = part_head @ (?n @ crlf @ crlf @ ?tail)" by (simp add: mjpeg_part_def)
  then show ?thesis
    using ne t digit_bytes [of "length d"] by (subst read_parts.simps) (simp add: strip_bytes_append [of "crlf @ crlf", simplified])
qed

lemma mjpeg_gen:
  "mjpeg q e = (map mjpeg_part (filter (\<lambda>d. d \<noteq> []) (fst (gen_body (q, e))))
     @ (if snd (gen_body (q, e)) = Waiting then [] else [mjpeg_close]), snd (gen_body (q, e)))"
  by (induction q e rule: mjpeg.induct) (auto simp: Let_def split: prod.split sum.split stream_end.split exn.split)

lemma no_ret: "bindE m (\<lambda>a. raise (g a)) s \<noteq> (Inr b, t)"
  by (auto simp: bindE_def split: prod.splits sum.splits)

text \<open>
  A browser can read the live view. What the screen and the camera page send, once the stream is
  over, is a sequence of parts from which a reader that goes by the announced lengths gets exactly
  the non-empty images that the device sent, in their order.
\<close>

theorem live_view_readable:
  assumes "device_screen_live X now R rq d s = (Inr (body, x), t) \<or> device_camera_live X now R rq d s = (Inr (body, x), t)"
    and "x \<noteq> Waiting"
  shows "\<exists>k oper args m q e. rm_stream R k oper args = (Frame m # q, e) \<and>
    read_parts (concat body) = Some (filter (\<lambda>j. j \<noteq> []) (fst (gen_body (q, e))))"
proof -
  obtain oper args late where live: "live_view X now R rq d oper args late s = (Inr (body, x), t)"
    using assms(1) by (auto simp: device_screen_live_def device_camera_live_def)
  have own: "own_device X now rq d f s = (Inr b, t) \<Longrightarrow> \<exists>u i w. f u i w = (Inr b, t)" for f and b :: 'b
    by (auto simp: own_device_def as_user_def bindE_def split: prod.splits sum.splits option.splits)
  from live obtain k w where "bindE (liftE (first_frame late (rm_stream R k oper args))) (\<lambda>(m, q, e). ret (mjpeg q e)) w = (Inr (body, x), t)"
    by (auto simp: live_view_def own_conn_def no_ret split: option.splits dest!: own)
  then obtain m q e where first: "first_frame late (rm_stream R k oper args) = Inr (m, q, e)" and run: "mjpeg q e = (body, x)"
    by (auto simp: bindE_def split: sum.splits)
  have st: "rm_stream R k oper args = (Frame m # q, e)"
    using first by (cases "(late, rm_stream R k oper args)" rule: first_frame.cases) (auto split: if_splits)
  have "read_parts (concat (map mjpeg_part js) @ mjpeg_close) = Some js" for js
    by (induction js) (simp_all add: read_part)
  with run assms(2) have "read_parts (concat body) = Some (filter (\<lambda>j. j \<noteq> []) (fst (gen_body (q, e))))"
    by (auto simp: mjpeg_gen)
  with st show ?thesis by blast
qed

section \<open>The agent's own answers\<close>

text \<open>A call to an agent: the request at one end, the handler at the other, the answer back.\<close>

definition device_call ::
  "(path \<Rightarrow> path) \<Rightarrow> (string \<Rightarrow> string option) \<Rightarrow> path \<Rightarrow> (json \<Rightarrow> string) \<Rightarrow> string \<Rightarrow> agent \<Rightarrow> conn \<Rightarrow> agent_call" where
  "device_call RES MIME base SH rid a c k oper args = fst (WsRouter.request SH (JStr rid) oper args None
     (fold hub_frame (ss_out (ag_sess (snd (handle_request (agent_handlers RES MIME base id (Inl []) no_handlers) SH
       (request_fields (JStr rid) oper args) a))))) c)"

definition answer_of :: "exn + json \<Rightarrow> exn + json" where
  "answer_of r = (case r of Inr v \<Rightarrow> Inr (jor v (JObj []))
     | Inl e \<Rightarrow> if op_error e then Inl (AgentError (error_text e)) else Inl TimeoutError)"

lemma error_text_ne: "op_error e \<Longrightarrow> error_text e \<noteq> []"
  by (auto simp: op_error_def error_text_def split: exn.splits)

lemma request_answered:
  "fst (WsRouter.request SH (JStr rid) oper args None (fold hub_frame [OutText (ok_response (JStr rid) v)]) c) = Inr (jor v (JObj []))"
  "err \<noteq> [] \<Longrightarrow> fst (WsRouter.request SH (JStr rid) oper args None (fold hub_frame [OutText (fail_response (JStr rid) err)]) c) =
    Inl (AgentError err)"
  "fst (WsRouter.request SH (JStr rid) oper args None (fold hub_frame []) c) = Inl TimeoutError"
  by (simp_all add: WsRouter.request_def send_def hub_frame_def response_resolves [of "JStr rid"] ok_response_def fail_response_def
      unary_result_def jor_def Let_def)

lemma respond_reads:
  assumes "ss_out (ag_sess a) = []"
  shows "ss_out (ag_sess (snd (respond rid (on_fs m) a))) = (case fst (m (ag_fs a)) of
      Inr v \<Rightarrow> [OutText (ok_response rid v)]
    | Inl e \<Rightarrow> if op_error e then [OutText (fail_response rid (error_text e))] else [])"
proof (cases "m (ag_fs a)")
  case (Pair r t)
  then show ?thesis
    using assms by (cases r) (simp_all add: respond_def bindE_def catch_def on_fs_apply on_sess_def zoom_def send_text_def)
qed

lemma device_call_reads:
  assumes "ss_out (ag_sess a) = []" and "args \<noteq> []" and "oper = ''stat'' \<or> oper = ''list_dir''"
  shows "device_call RES MIME base SH rid a c k oper args = answer_of
    (fst ((if oper = ''stat'' then op_stat RES MIME base (JObj args) else op_list_dir RES MIME base (JObj args)) (ag_fs a)))"
proof -
  define m where "m = (if oper = ''stat'' then op_stat RES MIME base (JObj args) else op_list_dir RES MIME base (JObj args))"
  have "handle_request (agent_handlers RES MIME base id (Inl []) no_handlers) SH (request_fields (JStr rid) oper args) a =
      respond (JStr rid) (on_fs m) a"
    using assms(2,3)
    by (auto simp: m_def handle_request_def request_fields_def agent_handlers_def as_str_def UNARY_OPS_def jor_def Let_def)
  then show ?thesis
    using request_answered [where SH = SH] error_text_ne
    by (auto simp: device_call_def answer_of_def respond_reads [OF assms(1)] simp flip: m_def split: sum.split)
qed

text \<open>A page of a device that is the user's.\<close>

lemma own_device_run:
  assumes "fst (own_device X now rq d (\<lambda>u i. ret (u, i)) s) = Inr (u, i)"
  shows "own_device X now rq d f s = f u i s"
proof -
  have [simp]: "snd (get_device_for_user d own t) = t" for own t by (simp add: get_device_for_user_def)
  show ?thesis using assms
    by (subst (asm) own_device_def, subst own_device_def)
      (auto simp: as_user_def bindE_def on_db_apply split: sum.splits option.splits)
qed

text \<open>
  Browsing shows what the device has. For a device of the user that answers with the operations
  of the agent, the page of a path is a 404 when there is nothing, the listing of its entries when it
  is a directory (or a redirect to the address with a slash), the announced length and the stream of
  the bytes when it is a file, and an error page when it leads out of the storage root.
\<close>

theorem browse_shows_device:
  assumes "fst (own_device X now rq d (\<lambda>u i. ret (u, i)) s) = Inr (u, i)" and "map_of (h_conns s) d = Some k"
    and "rm_call R k = device_call RES MIME base SH rid a c k" and "ss_out (ag_sess a) = []"
  shows "browse_or_download X now R rq d rel hint s = (case safe_resolve RES base (JStr rel) of
      Inl e \<Rightarrow> Inr (FilesError 502 (''Agent error: '' @ error_text e))
    | Inr p \<Rightarrow> (case node_at (ag_fs a) p of
        None \<Rightarrow> Inl (HTTPException 404 ''Not found'')
      | Some Dir \<Rightarrow>
          if rel \<noteq> [] \<and> \<not> hint then Inr (AddSlash (''/devices/'' @ d @ ''/files/'' @ quote rel @ ''/''))
          else Inr (Listing (JArr (map (entry_json MIME) (order_by entry_key (children (ag_fs a) p)))))
      | Some (File bs) \<Rightarrow> Inr (Download (JStr (or_str (opt_str (MIME (last p))) ''application/octet-stream''))
          (Some (nat_str (length bs))) (gen_body (rm_stream R k ''read_file'' [(''path'', JStr rel)])))), s)"
proof -
  have call: "rm_call R k oper [(''path'', JStr r)] = answer_of (fst ((if oper = ''stat'' then op_stat RES MIME base (JObj [(''path'', JStr r)])
      else op_list_dir RES MIME base (JObj [(''path'', JStr r)])) (ag_fs a)))" if "oper = ''stat'' \<or> oper = ''list_dir''" for oper r
    unfolding assms(3) by (rule device_call_reads) (use assms(4) that in auto)
  show ?thesis
  proof (cases "safe_resolve RES base (JStr rel)")
    case (Inl e)
    then have "\<exists>m. e = PermissionError m" by (auto simp: safe_resolve_def jor_def Let_def split: if_splits json.splits)
    with Inl show ?thesis
      by (auto simp: browse_or_download_def browse_device_def own_device_run [OF assms(1)] assms(2) call answer_of_def op_stat_def jget_or_def
          bindE_def op_error_def)
  next
    case (Inr p)
    then show ?thesis
      by (auto simp: browse_or_download_def browse_device_def own_device_run [OF assms(1)] assms(2) call answer_of_def op_stat_def jget_or_def
          op_list_dir_def jor_def is_dir_def stream_file_def int_str_def or_str_def bindE_def split: option.split node.split)
  qed
qed

text \<open>The hub after an upload has been recorded.\<close>

definition upload_logged :: "user_info \<Rightarrow> string \<Rightarrow> string \<Rightarrow> int \<Rightarrow> int \<Rightarrow> hub \<Rightarrow> hub" where
  "upload_logged u d rel now ok s = s\<lparr>h_db := (h_db s)\<lparr>audit_log := audit_log (h_db s) @
     [\<lparr>au_id = audit_seq (h_db s) + 1, au_ts = now, au_owner_id = Some (ui_id u), au_actor_id = Some (ui_id u),
       au_actor_name = Some (ui_username u), au_device_id = Some d, au_action = ''file_write'',
       au_detail = Some (take 300 rel), au_node_url = None, au_ok = ok\<rparr>], audit_seq := audit_seq (h_db s) + 1\<rparr>\<rparr>"

text \<open>
  Uploads are in the audit log, but for those that time out. An upload the device has finished is
  recorded with its path, one that the device refused is recorded as failed; one that ran out of
  time, which may have replaced the file all the same, leaves no entry.
\<close>

theorem uploads_audited:
  assumes "fst (own_device X now rq d (\<lambda>u i. ret (u, i)) s) = Inr (u, i)" and "map_of (h_conns s) d = Some k"
    and "answers (h_db s)" and "rel \<noteq> []" and "\<not> endswith ''/'' rel"
  shows "device_upload X now R rq d rel body s =
    (case rm_upload R k [(''path'', JStr rel), (''size'', case py_int (header rq ''content-length'') of Some n \<Rightarrow> JInt n | None \<Rightarrow> JNull)]
        (filter (\<lambda>c. c \<noteq> []) body) of
       Inr v \<Rightarrow> (Inr (JObj [(''ok'', JBool True), (''result'', v)]), upload_logged u d rel now 1 s)
     | Inl (AgentError m) \<Rightarrow> (Inl (HTTPException 502 m), upload_logged u d rel now 0 s)
     | Inl TimeoutError \<Rightarrow> (Inl (HTTPException 504 ''Agent did not finish in time''), s)
     | Inl e \<Rightarrow> (Inl e, s))"
proof -
  have audit: "on_db (record_audit ''file_write'' (Some (ui_id u)) (Some (ui_id u)) (Some (ui_username u)) (Some d) (Some rel) None ok now) s =
      (Inr (), upload_logged u d rel now (if ok then 1 else 0) s)" for ok
    using assms(3) by (simp add: on_db_apply record_audit_def catch_def upload_logged_def opt_str_def)
  show ?thesis
    using assms(4,5)
    by (auto simp: device_upload_def own_conn_def own_device_run [OF assms(1)] assms(2) thenE_def bindE_def audit Let_def
        split: sum.split exn.split)
qed

definition signed_in :: hub where
  "signed_in = (fresh_hub (sess_issue (\<lambda>bs. bs) ''a'' 1 100 300 enrolled_demo))\<lparr>h_conns := [(''d1'', 0)]\<rparr>"

definition signed_request :: request where
  "signed_request = plain_request\<lparr>rq_cookie := Some ''a''\<rparr>"

definition demo_remote :: remote where
  "demo_remote = \<lparr>rm_call = device_call (\<lambda>p. p) (\<lambda>_. None) [''home''] (\<lambda>_. []) ''r'' demo_agent (new_conn ''d1'' 1 ''phone''),
     rm_upload = (\<lambda>_ _ _. Inl TimeoutError),
     rm_stream = (\<lambda>_ _ _. ([Frame [(''type'', JStr ''stream_start'')], Chunk (JStr ''r'') [1, 2], Chunk (JStr ''r'') [],
       Chunk (JStr ''r'') [3], Frame [(''type'', JStr ''stream_end'')]], Ended)),
     rm_direct = (\<lambda>_. None)\<rparr>"

lemma signed_in_owner:
  "\<exists>u i. fst (own_device plain_params 150 signed_request ''d1'' (\<lambda>u i. ret (u, i)) signed_in) = Inr (u, i) \<and> ui_id u = 1"
proof -
  have "case fst (own_device plain_params 150 signed_request ''d1'' (\<lambda>u i. ret (u, i)) signed_in) of
      Inr (u, i) \<Rightarrow> ui_id u = 1 | Inl _ \<Rightarrow> False" by code_simp
  then show ?thesis by (auto split: sum.splits)
qed


theorem live_view_readable_witness:
  "\<exists>body t k oper args m q e. device_screen_live plain_params 150 demo_remote signed_request ''d1'' signed_in = (Inr (body, Ended), t) \<and>
    rm_stream demo_remote k oper args = (Frame m # q, e) \<and>
    read_parts (concat body) = Some (filter (\<lambda>j. j \<noteq> []) (fst (gen_body (q, e))))"
proof -
  have "case fst (device_screen_live plain_params 150 demo_remote signed_request ''d1'' signed_in) of
      Inr (body, x) \<Rightarrow> (case x of Ended \<Rightarrow> True | _ \<Rightarrow> False) | Inl _ \<Rightarrow> False" by code_simp
  then obtain body t where r: "device_screen_live plain_params 150 demo_remote signed_request ''d1'' signed_in = (Inr (body, Ended), t)"
    by (cases "device_screen_live plain_params 150 demo_remote signed_request ''d1'' signed_in")
      (auto split: sum.splits stream_end.splits; metis stream_end.exhaust)
  from live_view_readable [OF disjI1 [OF r]] r show ?thesis by blast
qed

theorem browse_shows_device_witness:
  "fst (browse_or_download plain_params 150 demo_remote signed_request ''d1'' ''old'' True signed_in) =
    Inr (Download (JStr ''application/octet-stream'') (Some ''2'') ([[1, 2], [], [3]], Ended))"
proof -
  obtain u i where u: "fst (own_device plain_params 150 signed_request ''d1'' (\<lambda>u i. ret (u, i)) signed_in) = Inr (u, i)"
    using signed_in_owner by blast
  have k: "map_of (h_conns signed_in) ''d1'' = Some 0" by (simp add: signed_in_def)
  have c: "rm_call demo_remote 0 = device_call (\<lambda>p. p) (\<lambda>_. None) [''home''] (\<lambda>_. []) ''r'' demo_agent (new_conn ''d1'' 1 ''phone'') 0"
    by (simp add: demo_remote_def)
  have o: "ss_out (ag_sess demo_agent) = []" by (simp add: demo_agent_def new_session_def)
  have s: "safe_resolve (\<lambda>p. p) [''home''] (JStr ''old'') = Inr [''home'', ''old'']" by code_simp
  have n: "node_at (ag_fs demo_agent) [''home'', ''old''] = Some (File [7, 8])" by (simp add: node_at_def demo_agent_def)
  have l: "nat_str 2 = ''2''" by code_simp
  show ?thesis
    unfolding browse_shows_device [OF u k c o] by (simp add: s n l demo_remote_def or_str_def opt_str_def numeral_2_eq_2 [symmetric])
qed

theorem uploads_audited_witness:
  "fst (device_upload plain_params 150 demo_remote signed_request ''d1'' ''f'' [[1]] signed_in) =
    Inl (HTTPException 504 ''Agent did not finish in time'')"
proof -
  obtain u i where u: "fst (own_device plain_params 150 signed_request ''d1'' (\<lambda>u i. ret (u, i)) signed_in) = Inr (u, i)"
    using signed_in_owner by blast
  have k: "map_of (h_conns signed_in) ''d1'' = Some 0" by (simp add: signed_in_def)
  have a: "answers (h_db signed_in)" "\<not> endswith ''/'' ''f''" by code_simp+
  show ?thesis unfolding uploads_audited [OF u k a(1) _ a(2), simplified] by (simp add: demo_remote_def)
qed

end
