(* ===== verification/AgentConnect.thy ===== *)
theory AgentConnect
  imports AgentSession
begin

text \<open>
  How the agent finds a hub and stays connected (\<^verbatim>\<open>agent/agent.py\<close>): the order of the nodes it
  tries, one connection from the hello to its end, the node list it learns, the loop with its
  growing pauses, the server for direct connections and the row it publishes for its peers. What the
  network does in each attempt is a parameter. The pauses are rationals here.
\<close>

section \<open>The stored configuration\<close>

text \<open>The dictionary in memory and the one in the file.\<close>

record agent_cfg =
  ac_mem :: "(string \<times> json) list"
  ac_disk :: "(string \<times> json) list"

text \<open>\<open>(d.get(k) or '')\<close> as a text, and \<open>(d.get(k) or [])\<close> as something to iterate over.\<close>

definition text_or_empty :: "(string \<times> json) list \<Rightarrow> string \<Rightarrow> exn + string" where
  "text_or_empty d k = (case jor (jget d k) (JStr []) of JStr s \<Rightarrow> Inr s | _ \<Rightarrow> Inl AttributeError)"

definition items_or_empty :: "(string \<times> json) list \<Rightarrow> string \<Rightarrow> exn + json list" where
  "items_or_empty d k = (case jor (jget d k) (JArr []) of
     JArr xs \<Rightarrow> Inr xs | JStr s \<Rightarrow> Inr (map (\<lambda>c. JStr [c]) s) | JObj kvs \<Rightarrow> Inr (map (\<lambda>kv. JStr (fst kv)) kvs)
   | _ \<Rightarrow> Inl TypeError)"

definition node_urls :: "(json \<Rightarrow> string) \<Rightarrow> json list \<Rightarrow> string list" where
  "node_urls SH xs = map (\<lambda>n. rstrip_slash (py_str SH n)) xs"

text \<open>Non-empty addresses in order, each once.\<close>

fun dedup_urls :: "string set \<Rightarrow> string list \<Rightarrow> string list" where
  "dedup_urls seen [] = []"
| "dedup_urls seen (u # us) =
     (if u \<noteq> [] \<and> u \<notin> seen then u # dedup_urls (insert u seen) us else dedup_urls seen us)"

text \<open>The candidates of a round: the override, the last good address, the known nodes.\<close>

definition candidate_urls :: "(json \<Rightarrow> string) \<Rightarrow> string \<Rightarrow> (string \<times> json) list \<Rightarrow> exn + string list" where
  "candidate_urls SH hub_env cfg = (case text_or_empty cfg ''hub_url'' of
     Inl e \<Rightarrow> Inl e
   | Inr h \<Rightarrow> (case items_or_empty cfg ''nodes'' of
       Inl e \<Rightarrow> Inl e
     | Inr ns \<Rightarrow> Inr (dedup_urls {} ([rstrip_slash hub_env, rstrip_slash h] @ node_urls SH ns))))"

text \<open>The override is also written to the configuration when the agent starts, if writing works.\<close>

definition apply_env_overrides :: "bool \<Rightarrow> string \<Rightarrow> (agent_cfg, unit) op" where
  "apply_env_overrides saves hub_env c =
     (let u = rstrip_slash hub_env in
      if u \<noteq> [] \<and> JStr u \<noteq> jor (jget (ac_mem c) ''hub_url'') (JStr []) then
        (let d = dict_put ''hub_url'' (JStr u) (ac_mem c) in
         if saves then (Inr (), \<lparr>ac_mem = d, ac_disk = d\<rparr>) else (Inl (OSError ''cannot write''), c\<lparr>ac_mem := d\<rparr>))
      else (Inr (), c))"

section \<open>One connection\<close>

text \<open>
  How a served connection ends: quietly, closed by the other side with a code, lost, or by an exception
  that is none of the network's. What an attempt comes to: no connection, a connection closed with a code before the answer to the hello, or
  an answer (decoded, unless it is not JSON), whether the configuration can be saved, and the end.
\<close>

datatype ending = Quiet | ClosedWith int | Lost | Failing exn

datatype dial = NoLink | Dropped int | Answered "json option" bool ending

definition closed_result :: "int \<Rightarrow> bool option" where
  "closed_result code = (if code = 4001 then Some False else None)"

definition ending_result :: "ending \<Rightarrow> exn + bool option" where
  "ending_result e = (case e of Quiet \<Rightarrow> Inr (Some True) | ClosedWith code \<Rightarrow> Inr (closed_result code)
     | Lost \<Rightarrow> Inr None | Failing x \<Rightarrow> Inl x)"

definition ws_url :: "string \<Rightarrow> string option" where
  "ws_url hub = (if startswith ''https://'' hub then Some (''wss://'' @ drop 8 hub @ ''/ws/agent'')
     else if startswith ''http://'' hub then Some (''ws://'' @ drop 7 hub @ ''/ws/agent'') else None)"

text \<open>Saving: the file is replaced, or writing it fails and only the memory is new.\<close>

definition save_config :: "bool \<Rightarrow> (string \<times> json) list \<Rightarrow> agent_cfg \<Rightarrow> agent_cfg" where
  "save_config saves d c = (if saves then \<lparr>ac_mem = d, ac_disk = d\<rparr> else c\<lparr>ac_mem := d\<rparr>)"

text \<open>
  The node list after a successful hello: this node, those of the answer, those known before. An answer
  that cannot be read changes nothing.
\<close>

definition merged_nodes :: "(json \<Rightarrow> string) \<Rightarrow> string \<Rightarrow> json list \<Rightarrow> json list \<Rightarrow> string list" where
  "merged_nodes SH base new old = dedup_urls {} (base # node_urls SH new @ node_urls SH old)"

definition remember_nodes ::
  "(json \<Rightarrow> string) \<Rightarrow> bool \<Rightarrow> string \<Rightarrow> (string \<times> json) list \<Rightarrow> agent_cfg \<Rightarrow> agent_cfg" where
  "remember_nodes SH saves base ack c =
     (case (items_or_empty ack ''nodes'', items_or_empty (ac_mem c) ''nodes'') of
        (Inr new, Inr old) \<Rightarrow>
          (let ns = JArr (map JStr (merged_nodes SH base new old)) in
           if jget (ac_mem c) ''hub_url'' \<noteq> JStr base \<or> jget (ac_mem c) ''nodes'' \<noteq> ns
           then save_config saves (dict_put ''nodes'' ns (dict_put ''hub_url'' (JStr base) (ac_mem c))) c
           else c)
      | _ \<Rightarrow> c)"

definition remember_creds :: "bool \<Rightarrow> (string \<times> json) list \<Rightarrow> agent_cfg \<Rightarrow> agent_cfg" where
  "remember_creds saves ack c =
     (case (text_or_empty ack ''sync_url'', text_or_empty ack ''sync_token'') of
        (Inr su, Inr st) \<Rightarrow>
          (let su = strip su; st = strip st in
           if su \<noteq> [] \<and> st \<noteq> [] \<and> (jget (ac_mem c) ''sync_url'' \<noteq> JStr su \<or> jget (ac_mem c) ''sync_token'' \<noteq> JStr st)
           then save_config saves (dict_put ''sync_token'' (JStr st) (dict_put ''sync_url'' (JStr su) (ac_mem c))) c
           else c)
      | _ \<Rightarrow> c)"

fun has_sub :: "string \<Rightarrow> string \<Rightarrow> bool" where
  "has_sub p [] = (p = [])"
| "has_sub p (c # s) = (startswith p (c # s) \<or> has_sub p s)"

text \<open>The answer to the hello: what it says when it is not a welcome.\<close>

definition refused :: "(string \<times> json) list \<Rightarrow> exn + bool option" where
  "refused ack = (let err = jget_default ack ''error'' (JStr ''unknown'') in
     if \<not> truthy err then Inr None
     else case err of JStr s \<Rightarrow> Inr (if has_sub ''credentials'' (lower s) then Some False else None)
     | _ \<Rightarrow> Inl AttributeError)"

text \<open>\<open>Some True\<close>, \<open>Some False\<close> and \<open>None\<close> are the three results of \<open>_connect_once\<close>.\<close>

definition connect_once ::
  "(json \<Rightarrow> string) \<Rightarrow> string \<Rightarrow> dial \<Rightarrow> (agent_cfg, bool option) op" where
  "connect_once SH base att c =
     (if ws_url base = None then (Inr None, c)
      else case att of
        NoLink \<Rightarrow> (Inr None, c)
      | Dropped code \<Rightarrow>
          if map_of (ac_mem c) ''device_id'' = None \<or> map_of (ac_mem c) ''token'' = None then (Inl KeyError, c)
          else (Inr (closed_result code), c)
      | Answered ack saves e \<Rightarrow>
          if map_of (ac_mem c) ''device_id'' = None \<or> map_of (ac_mem c) ''token'' = None then (Inl KeyError, c)
          else (case ack of
            None \<Rightarrow> (Inr None, c)
          | Some (JObj kvs) \<Rightarrow>
              if jget kvs ''type'' \<noteq> JStr ''auth_ok'' then (refused kvs, c)
              else (ending_result e, remember_creds saves kvs (remember_nodes SH saves base kvs c))
          | Some _ \<Rightarrow> (Inl AttributeError, c)))"

section \<open>The loop\<close>

datatype verdict = Fatal | Served string | AllDown

fun try_nodes :: "(json \<Rightarrow> string) \<Rightarrow> (string \<Rightarrow> dial) \<Rightarrow> string list \<Rightarrow> (agent_cfg, verdict) op" where
  "try_nodes SH att [] = ret AllDown"
| "try_nodes SH att (u # us) = bindE (connect_once SH u (att u)) (\<lambda>r.
     if r = Some False then ret Fatal else if r = Some True then ret (Served u) else try_nodes SH att us)"

text \<open>Running with a pause so far and a total of pauses, stopped with an exit code, or crashed.\<close>

datatype run_state = Running agent_cfg rat rat | Stopped int | Crashed exn

definition grow :: "rat \<Rightarrow> rat" where
  "grow b = min (b * 17 / 10) 60"

definition one_round :: "(json \<Rightarrow> string) \<Rightarrow> string \<Rightarrow> (string \<Rightarrow> dial) \<Rightarrow> run_state \<Rightarrow> run_state" where
  "one_round SH hub_env att s = (case s of
     Running c b slept \<Rightarrow>
       (case candidate_urls SH hub_env (ac_mem c) of
          Inl e \<Rightarrow> Crashed e
        | Inr [] \<Rightarrow> Running c (grow b) (slept + grow b)
        | Inr us \<Rightarrow> (case try_nodes SH att us c of
              (Inl e, _) \<Rightarrow> Crashed e
            | (Inr Fatal, _) \<Rightarrow> Stopped 2
            | (Inr (Served u), c) \<Rightarrow> Running c 1 slept
            | (Inr AllDown, c) \<Rightarrow> Running c (grow b) (slept + grow b)))
   | _ \<Rightarrow> s)"

text \<open>The state after a number of rounds; the attempts of a round are those of its number.\<close>

primrec run_forever :: "(json \<Rightarrow> string) \<Rightarrow> string \<Rightarrow> (nat \<Rightarrow> string \<Rightarrow> dial) \<Rightarrow> agent_cfg \<Rightarrow> nat \<Rightarrow> run_state" where
  "run_forever SH hub_env att c 0 = Running c 1 0"
| "run_forever SH hub_env att c (Suc n) = one_round SH hub_env (att n) (run_forever SH hub_env att c n)"

section \<open>Direct connections\<close>

text \<open>The addresses announced for direct access: no loopback and no link-local ones, sorted.\<close>

definition local_hosts :: "string list \<Rightarrow> string list" where
  "local_hosts found = order_by (\<lambda>h. map of_char h :: nat list)
     (filter (\<lambda>h. h \<noteq> [] \<and> \<not> startswith ''127.'' h \<and> \<not> startswith ''169.254.'' h) (remdups found))"

definition direct_info_msg :: "int \<Rightarrow> string list \<Rightarrow> string \<Rightarrow> json" where
  "direct_info_msg port found ticket = JObj [(''type'', JStr ''direct_info''), (''port'', JInt port),
     (''hosts'', JArr (map JStr (local_hosts found))), (''ticket'', JStr ticket)]"

text \<open>
  The first message of a direct connection, if one came in time and is JSON: closed, refused and
  closed, or accepted and then served like the connection to a hub.
\<close>

text \<open>
  The server for direct access is started once, and not at all without a port: whether it has been
  started, and whether this call does.
\<close>

definition ensure_direct_server :: "int \<Rightarrow> bool \<Rightarrow> bool \<times> bool" where
  "ensure_direct_server port started = (if started \<or> port \<le> 0 then (started, False) else (True, True))"

datatype direct = DirectClosed | DirectRefused json | DirectServed json

definition direct_handler :: "string \<Rightarrow> json option \<Rightarrow> direct" where
  "direct_handler ticket first = (case first of
     None \<Rightarrow> DirectClosed
   | Some (JObj kvs) \<Rightarrow>
       if jget kvs ''type'' = JStr ''hello'' \<and> jget kvs ''ticket'' = JStr ticket
       then DirectServed (JObj [(''type'', JStr ''hello_ok'')])
       else DirectRefused (JObj [(''type'', JStr ''hello_fail'')])
   | Some _ \<Rightarrow> DirectRefused (JObj [(''type'', JStr ''hello_fail'')]))"

section \<open>The row for the peers\<close>

definition agent_sync_creds :: "string \<Rightarrow> string \<Rightarrow> (string \<times> json) list \<Rightarrow> exn + (string \<times> string) option" where
  "agent_sync_creds env_url env_tok cfg =
     (case (if env_url \<noteq> [] then Inr env_url else text_or_empty cfg ''sync_url'') of
        Inl e \<Rightarrow> Inl e
      | Inr u \<Rightarrow> (case (if env_tok \<noteq> [] then Inr env_tok else text_or_empty cfg ''sync_token'') of
          Inl e \<Rightarrow> Inl e
        | Inr t \<Rightarrow> Inr (if strip u \<noteq> [] \<and> strip t \<noteq> [] then Some (strip u, strip t) else None)))"

text \<open>Whether the publisher is started now: once, with a direct server, with credentials.\<close>

definition ensure_peer_publisher :: "bool \<Rightarrow> int \<Rightarrow> string \<Rightarrow> string \<Rightarrow> (string \<times> json) list \<Rightarrow> exn + (string \<times> string) option" where
  "ensure_peer_publisher started port env_url env_tok cfg =
     (if started \<or> port \<le> 0 then Inr None else agent_sync_creds env_url env_tok cfg)"

record peer_row =
  pr_device :: string
  pr_hosts :: "string list"
  pr_port :: int
  pr_ticket :: string
  pr_updated :: int

text \<open>
  One turn of the publisher: the table is created unless it is known to be there, then the row is
  put. The first two flags say whether the two statements reach the database; the table is \<open>None\<close>
  while it does not exist. The result says whether the table is known to be there.
\<close>

definition peer_tick ::
  "bool \<Rightarrow> bool \<Rightarrow> peer_row \<Rightarrow> bool \<times> peer_row list option \<Rightarrow> bool \<times> peer_row list option" where
  "peer_tick up1 up2 row st = (case st of (schema_ok, table) \<Rightarrow>
     let table = (if \<not> schema_ok \<and> up1 then Some (case table of None \<Rightarrow> [] | Some t \<Rightarrow> t) else table) in
     if \<not> schema_ok \<and> \<not> up1 then (False, table)
     else if \<not> up2 then (False, table)
     else (case table of None \<Rightarrow> (False, None) | Some t \<Rightarrow> (True, Some (upsert pr_device row (\<lambda>_. row) t))))"

definition peer_row_of :: "string \<Rightarrow> string list \<Rightarrow> int \<Rightarrow> string \<Rightarrow> int \<Rightarrow> peer_row" where
  "peer_row_of device_id found port ticket now = \<lparr>pr_device = device_id,
     pr_hosts = map (\<lambda>h. h @ '':'' @ int_str port) (local_hosts found), pr_port = port, pr_ticket = ticket, pr_updated = now\<rparr>"

text \<open>When the publisher ends it takes its row back, if it can.\<close>

definition peer_retract :: "bool \<Rightarrow> string \<Rightarrow> peer_row list option \<Rightarrow> peer_row list option" where
  "peer_retract up device_id table = (if up then map_option (delete_where (\<lambda>r. pr_device r = device_id)) table else table)"

section \<open>Addresses\<close>

lemma dedup_set [simp]: "set (dedup_urls seen us) = {u \<in> set us. u \<noteq> [] \<and> u \<notin> seen}"
  by (induction seen us rule: dedup_urls.induct) auto

lemma dedup_distinct [simp]: "distinct (dedup_urls seen us)"
  by (induction seen us rule: dedup_urls.induct) auto

text \<open>The nodes a configuration knows.\<close>

definition known :: "(json \<Rightarrow> string) \<Rightarrow> (string \<times> json) list \<Rightarrow> string set" where
  "known SH d = (case items_or_empty d ''nodes'' of Inl e \<Rightarrow> {} | Inr ns \<Rightarrow> {u \<in> set (node_urls SH ns). u \<noteq> []})"

lemma node_urls_strs: "node_urls SH (map JStr us) = map rstrip_slash us"
  by (simp add: node_urls_def)

lemma items_arr [simp]: "jget d k = JArr xs \<Longrightarrow> items_or_empty d k = Inr xs"
  by (simp add: items_or_empty_def jor_def)

lemma node_url_stripped: "u \<in> set (node_urls SH ns) \<Longrightarrow> rstrip_slash u = u"
  by (auto simp: node_urls_def)

lemma save_config_mem [simp]: "ac_mem (save_config saves d c) = d"
  by (simp add: save_config_def)

lemma remember_known:
  assumes "u \<in> known SH (ac_mem c)"
  shows "u \<in> known SH (ac_mem (remember_creds s2 a2 (remember_nodes SH saves base ack c)))"
proof -
  have creds: "jget (ac_mem (remember_creds s2 a2 d)) ''nodes'' = jget (ac_mem d) ''nodes''" for d
    by (simp add: remember_creds_def Let_def split: sum.split)
  have "u \<in> known SH (ac_mem (remember_nodes SH saves base ack c))"
  proof (cases "items_or_empty ack ''nodes''")
    case (Inr new)
    obtain old where old: "items_or_empty (ac_mem c) ''nodes'' = Inr old" "u \<in> set (node_urls SH old)" "u \<noteq> []"
      using assms by (auto simp: known_def split: sum.splits)
    have "u \<in> set (merged_nodes SH base new old)" using old(2,3) by (simp add: merged_nodes_def)
    then have "u \<in> rstrip_slash ` set (merged_nodes SH base new old)"
      using node_url_stripped [OF old(2)] by (metis image_eqI)
    then show ?thesis
      using Inr old assms by (auto simp: remember_nodes_def known_def Let_def node_urls_strs)
  qed (use assms in \<open>simp add: remember_nodes_def\<close>)
  then show ?thesis by (simp add: known_def items_or_empty_def creds)
qed

lemma connect_known: "u \<in> known SH (ac_mem c) \<Longrightarrow> u \<in> known SH (ac_mem (snd (connect_once SH base att c)))"
  by (auto simp: connect_once_def remember_known split: dial.split json.split option.split)

section \<open>Rounds\<close>

text \<open>A configuration that the agent can work with and that knows a node.\<close>

definition usable :: "(json \<Rightarrow> string) \<Rightarrow> string \<Rightarrow> agent_cfg \<Rightarrow> bool" where
  "usable SH u c \<longleftrightarrow> u \<in> known SH (ac_mem c) \<and> (\<exists>h. text_or_empty (ac_mem c) ''hub_url'' = Inr h) \<and>
     map_of (ac_mem c) ''device_id'' \<noteq> None \<and> map_of (ac_mem c) ''token'' \<noteq> None"

text \<open>An attempt that neither ends the agent nor makes it give up.\<close>

definition greeted :: "(string \<times> json) list \<Rightarrow> bool" where
  "greeted kvs \<longleftrightarrow> jget kvs ''type'' = JStr ''auth_ok''"

definition harmless :: "dial \<Rightarrow> bool" where
  "harmless att = (case att of NoLink \<Rightarrow> True | Dropped code \<Rightarrow> code \<noteq> 4001
     | Answered None saves e \<Rightarrow> True
     | Answered (Some (JObj kvs)) saves e \<Rightarrow> greeted kvs \<and> (e = Quiet \<or> e = Lost \<or> (\<exists>code. e = ClosedWith code \<and> code \<noteq> 4001))
     | _ \<Rightarrow> False)"

lemma remember_usable:
  assumes "usable SH u c"
  shows "usable SH u (remember_creds s2 a2 (remember_nodes SH saves base ack c))"
proof -
  have "text_or_empty (ac_mem (remember_creds s2 a2 d)) ''hub_url'' = text_or_empty (ac_mem d) ''hub_url''" for d
    by (simp add: remember_creds_def text_or_empty_def Let_def split: sum.split json.split)
  moreover have "\<exists>h. text_or_empty (ac_mem (remember_nodes SH saves base ack c)) ''hub_url'' = Inr h"
    using assms by (auto simp: remember_nodes_def usable_def text_or_empty_def jor_def Let_def split: sum.splits)
  moreover have "map_of (ac_mem (remember_creds s2 a2 (remember_nodes SH saves base ack c))) k = map_of (ac_mem c) k"
    if "k = ''device_id'' \<or> k = ''token''" for k
    using that by (auto simp: remember_creds_def remember_nodes_def Let_def split: sum.split)
  ultimately show ?thesis using assms remember_known by (simp add: usable_def)
qed

lemma harmless_connect:
  assumes "usable SH u c" and "harmless att"
  shows "\<exists>r d. connect_once SH base att c = (Inr r, d) \<and> r \<noteq> Some False \<and> usable SH u d"
  using assms remember_usable [OF assms(1)]
  by (auto simp: connect_once_def harmless_def usable_def closed_result_def ending_result_def greeted_def
      split: dial.splits option.splits json.splits)

lemma harmless_nodes:
  assumes "usable SH u c" and "\<forall>v. harmless (att v)"
  shows "\<exists>r d. try_nodes SH att us c = (Inr r, d) \<and> r \<noteq> Fatal \<and> usable SH u d"
  using assms(1)
proof (induction us arbitrary: c)
  case (Cons v us)
  obtain r d where "connect_once SH v (att v) c = (Inr r, d)" "r \<noteq> Some False" "usable SH u d"
    using harmless_connect [OF Cons.prems, of "att v" v] assms(2) by blast
  with Cons.IH show ?case by (auto simp: bindE_def)
qed simp

lemma candidates_known:
  assumes "usable SH u c"
  shows "\<exists>us. candidate_urls SH hub_env (ac_mem c) = Inr us \<and> u \<in> set us"
  using assms by (auto simp: usable_def candidate_urls_def known_def split: sum.splits)

lemma grow_bounds: "1 \<le> b \<Longrightarrow> b \<le> 60 \<Longrightarrow> 1 \<le> grow b \<and> grow b \<le> 60"
  by (simp add: grow_def)

lemma rounds_bounded:
  assumes "run_forever SH hub_env att c n = Running d b slept"
  shows "1 \<le> b \<and> b \<le> 60 \<and> 0 \<le> slept \<and> slept \<le> 60 * of_nat n"
  using assms
proof (induction n arbitrary: d b slept)
  case (Suc n)
  then obtain d' b' slept' where p: "run_forever SH hub_env att c n = Running d' b' slept'"
    by (cases "run_forever SH hub_env att c n") (auto simp: one_round_def)
  from Suc.IH [OF p] have IH: "1 \<le> b'" "b' \<le> 60" "0 \<le> slept'" "slept' \<le> 60 * of_nat n" by auto
  with grow_bounds have g: "1 \<le> grow b'" "grow b' \<le> 60" by auto
  have "(b = 1 \<and> slept = slept') \<or> (b = grow b' \<and> slept = slept' + grow b')"
    using Suc.prems p by (auto simp: one_round_def split: sum.splits list.splits prod.splits verdict.splits)
  then show ?case using IH g by (auto simp: algebra_simps)
qed simp

text \<open>
  The pauses stay between one second and a minute. After any number of rounds, whatever the network
  does, the next pause starts from one second at least and a minute at most, and the agent has paused at
  most a minute per round.
\<close>

theorem backoff_bounded:
  assumes "run_forever SH hub_env att c n = Running d b slept"
  shows "1 \<le> b \<and> b \<le> 60 \<and> 0 \<le> slept \<and> slept \<le> 60 * of_nat n"
  using assms by (rule rounds_bounded)

lemma all_down:
  assumes "\<And>v. v \<in> set us \<Longrightarrow> att v = NoLink"
  shows "try_nodes SH att (us @ vs) c = try_nodes SH att vs c"
  using assms by (induction us) (simp_all add: bindE_def connect_once_def)


definition demo_cfg :: agent_cfg where
  "demo_cfg = (let d = [(''device_id'', JStr ''d1''), (''token'', JStr ''t''), (''nodes'', JArr [JStr ''http://a/'', JStr ''http://b''])]
     in \<lparr>ac_mem = d, ac_disk = d\<rparr>)"

definition demo_net :: "nat \<Rightarrow> string \<Rightarrow> dial" where
  "demo_net i v = (if i = 2 \<and> v = ''http://b'' then Answered (Some (JObj [(''type'', JStr ''auth_ok'')])) True Quiet else NoLink)"


text \<open>Attempts that tell the agent to go.\<close>

definition turned_away :: "dial \<Rightarrow> bool" where
  "turned_away att = (case att of Dropped code \<Rightarrow> code = 4001
     | Answered (Some (JObj kvs)) saves e \<Rightarrow>
         if greeted kvs then e = ClosedWith 4001 else refused kvs = Inr (Some False)
     | _ \<Rightarrow> False)"

lemma fatal_connect: "connect_once SH u att c = (Inr (Some False), d) \<Longrightarrow> turned_away att"
  by (auto simp: connect_once_def turned_away_def closed_result_def ending_result_def greeted_def
      split: dial.splits option.splits json.splits ending.splits if_splits)

lemma fatal_nodes: "try_nodes SH att us c = (Inr Fatal, d) \<Longrightarrow> \<exists>u. turned_away (att u)"
  by (induction us arbitrary: c) (auto simp: bindE_def split: prod.splits sum.splits if_splits dest: fatal_connect)



theorem backoff_bounded_witness:
  "\<exists>d b slept. run_forever (\<lambda>_. []) [] (\<lambda>i v. NoLink) demo_cfg 2 = Running d b slept \<and> b \<le> 60 \<and> slept \<le> 60 * of_nat 2"
proof -
  have "case run_forever (\<lambda>_. []) [] (\<lambda>i v. NoLink) demo_cfg 2 of Running d b slept \<Rightarrow> True | _ \<Rightarrow> False" by code_simp
  then obtain d b slept where r: "run_forever (\<lambda>_. []) [] (\<lambda>i v. NoLink) demo_cfg 2 = Running d b slept"
    by (cases "run_forever (\<lambda>_. []) [] (\<lambda>i v. NoLink) demo_cfg 2") auto
  from backoff_bounded [OF r] r show ?thesis by auto
qed

text \<open>
  A welcome forgets the configured address. When an agent that was configured with one address is
  served by a node with another, and no node list names the first, the first is gone from the
  configuration: it is no candidate any more.
\<close>

theorem configured_address_forgotten:
  assumes "jget (ac_mem c) ''hub_url'' = JStr old" and "jget (ac_mem c) ''nodes'' = JNull" and "items_or_empty ack ''nodes'' = Inr new"
    and "rstrip_slash old \<noteq> base" and "rstrip_slash base = base" and "base \<noteq> []" and "rstrip_slash old \<notin> set (node_urls SH new)"
    and "ws_url base \<noteq> None" and "greeted ack" and "map_of (ac_mem c) ''device_id'' \<noteq> None"
    and "map_of (ac_mem c) ''token'' \<noteq> None" and "rstrip_slash hub_env \<noteq> rstrip_slash old"
  shows "\<exists>d us. connect_once SH base (Answered (Some (JObj ack)) saves Quiet) c = (Inr (Some True), d) \<and>
    candidate_urls SH hub_env (ac_mem d) = Inr us \<and> rstrip_slash old \<notin> set us"
proof -
  let ?ns = "JArr (map JStr (merged_nodes SH base new []))"
  let ?d = "dict_put ''nodes'' ?ns (dict_put ''hub_url'' (JStr base) (ac_mem c))"
  have none: "items_or_empty (ac_mem c) ''nodes'' = Inr []" using assms(2) by (simp add: items_or_empty_def jor_def)
  have "old \<noteq> base" using assms(4,5) by blast
  then have "ac_mem (remember_nodes SH saves base ack c) = ?d"
    using assms(1,3) none by (simp add: remember_nodes_def Let_def)
  moreover have "jget (ac_mem (remember_creds saves ack x)) k = jget (ac_mem x) k" if "k = ''hub_url'' \<or> k = ''nodes''" for x k
    using that by (auto simp: remember_creds_def Let_def split: sum.split)
  ultimately have m: "jget (ac_mem (remember_creds saves ack (remember_nodes SH saves base ack c))) ''hub_url'' = JStr base"
    "jget (ac_mem (remember_creds saves ack (remember_nodes SH saves base ack c))) ''nodes'' = ?ns" by simp_all
  have "set (node_urls SH (map JStr (merged_nodes SH base new []))) \<subseteq> insert base (set (node_urls SH new))"
    using assms(5) by (auto simp: merged_nodes_def node_urls_strs node_urls_def)
  moreover have "text_or_empty d ''hub_url'' = Inr base" if "jget d ''hub_url'' = JStr base" for d
    using that assms(6) by (simp add: text_or_empty_def jor_def)
  ultimately have "\<exists>us. candidate_urls SH hub_env (ac_mem (remember_creds saves ack (remember_nodes SH saves base ack c))) = Inr us \<and>
      rstrip_slash old \<notin> set us"
    using m assms(4,5,7,12) by (auto simp: candidate_urls_def)
  then show ?thesis
    using assms(8-11) by (auto simp: connect_once_def greeted_def ending_result_def)
qed

theorem configured_address_forgotten_witness:
  "\<exists>d us. connect_once (\<lambda>_. []) ''http://new'' (Answered (Some (JObj [(''type'', JStr ''auth_ok'')])) True Quiet)
      \<lparr>ac_mem = [(''device_id'', JStr ''d1''), (''token'', JStr ''t''), (''hub_url'', JStr ''http://old'')], ac_disk = []\<rparr> = (Inr (Some True), d) \<and>
    candidate_urls (\<lambda>_. []) ''http://new'' (ac_mem d) = Inr us \<and> ''http://old'' \<notin> set us"
proof -
  have r: "rstrip_slash ''http://old'' = ''http://old''" "rstrip_slash ''http://new'' = ''http://new''"
    by (simp_all add: rstrip_slash_def rstrip_by_def)
  show ?thesis
    using configured_address_forgotten [of "\<lparr>ac_mem = [(''device_id'', JStr ''d1''), (''token'', JStr ''t''),
        (''hub_url'', JStr ''http://old'')], ac_disk = []\<rparr>" "''http://old''" "[(''type'', JStr ''auth_ok'')]" "[]" "''http://new''"
        "\<lambda>_. []" "''http://new''" True]
    by (simp add: r items_or_empty_def jor_def greeted_def ws_url_def startswith_def node_urls_def)
qed

text \<open>
  An answer that is no object ends the agent. When a node answers the hello with JSON that is not an
  object, the agent stops with an exception instead of trying the next node.
\<close>

theorem odd_answer_crashes:
  assumes "candidate_urls SH hub_env (ac_mem c) = Inr (u # us)" and "ws_url u \<noteq> None"
    and "map_of (ac_mem c) ''device_id'' \<noteq> None" and "map_of (ac_mem c) ''token'' \<noteq> None"
    and "att 0 u = Answered (Some v) saves e" and "\<forall>kvs. v \<noteq> JObj kvs"
  shows "run_forever SH hub_env att c (Suc n) = Crashed AttributeError"
proof -
  have "connect_once SH u (att 0 u) c = (Inl AttributeError, c)"
    using assms by (auto simp: connect_once_def split: json.split)
  then have "run_forever SH hub_env att c 1 = Crashed AttributeError"
    using assms(1) by (simp add: one_round_def bindE_def)
  moreover have "run_forever SH hub_env att c (Suc n) = Crashed AttributeError" if "run_forever SH hub_env att c 1 = Crashed AttributeError"
    using that by (induction n) (simp_all add: one_round_def)
  ultimately show ?thesis by blast
qed

theorem odd_answer_crashes_witness:
  "run_forever (\<lambda>_. []) [] (\<lambda>i v. Answered (Some (JArr [])) True Quiet) demo_cfg 1 = Crashed AttributeError"
proof -
  have c: "candidate_urls (\<lambda>_. []) [] (ac_mem demo_cfg) = Inr [''http://a'', ''http://b'']"
    by (simp add: candidate_urls_def demo_cfg_def text_or_empty_def items_or_empty_def jor_def Let_def node_urls_def
        rstrip_slash_def rstrip_by_def)
  show ?thesis
    using odd_answer_crashes [OF c, of "\<lambda>i v. Answered (Some (JArr [])) True Quiet" "JArr []" True Quiet 0]
    by (simp add: ws_url_def startswith_def demo_cfg_def Let_def)
qed

lemma select_one: "uniq key t \<Longrightarrow> has_key key k t \<Longrightarrow> \<exists>q. key q = k \<and> select_where (\<lambda>r. key r = k) t = [q]"
proof (induction t)
  case (Cons a t)
  show ?case
  proof (cases "key a = k")
    case True
    then have "key q \<noteq> k" if "q \<in> set t" for q
      using Cons.prems(1) imageI [OF that, of key] by (auto simp: uniq_def)
    then have "select_where (\<lambda>r. key r = k) t = []" by (auto simp: select_where_def filter_empty_conv)
    with True show ?thesis by (simp add: select_where_def)
  next
    case False
    with Cons show ?thesis by (auto simp: uniq_def has_key_def select_where_def)
  qed
qed (simp add: has_key_def)

lemma select_upsert:
  assumes "uniq key t"
  shows "select_where (\<lambda>q. key q = key r) (upsert key r (\<lambda>_. r) t) = [r]"
proof (cases "has_key key (key r) t")
  case True
  have "select_where (\<lambda>q. key q = key r) (update_where (\<lambda>q. key q = key r) (\<lambda>_. r) t) =
      map (\<lambda>_. r) (select_where (\<lambda>q. key q = key r) t)"
    by (induction t) (simp_all add: select_where_def update_where_def)
  with select_one [OF assms True] True show ?thesis by (auto simp: upsert_def)
next
  case False
  then have "key q \<noteq> key r" if "q \<in> set t" for q using imageI [OF that, of key] by (auto simp: has_key_def)
  then have "select_where (\<lambda>q. key q = key r) t = []" by (auto simp: select_where_def filter_empty_conv)
  with False show ?thesis by (simp add: upsert_def) (simp add: select_where_def)
qed

text \<open>
  The peers' table heals. Whatever state the table and the publisher are in, after two turns in which
  the database answers the table holds exactly one row of the device, the newest.
\<close>

theorem peer_row_heals:
  assumes "pr_device r1 = pr_device r2" and "\<forall>t. snd st = Some t \<longrightarrow> uniq pr_device t"
  shows "\<exists>t. peer_tick True True r2 (peer_tick True True r1 st) = (True, Some t) \<and>
    select_where (\<lambda>r. pr_device r = pr_device r2) t = [r2]"
proof (cases "fst st \<and> snd st = None")
  case True
  then have "peer_tick True True r1 st = (False, None)" by (cases st) (simp add: peer_tick_def)
  then show ?thesis using select_upsert [of pr_device "[]" r2] by (simp add: peer_tick_def)
next
  case False
  let ?t = "case snd st of None \<Rightarrow> [] | Some t \<Rightarrow> t"
  have t: "peer_tick True True r1 st = (True, Some (upsert pr_device r1 (\<lambda>_. r1) ?t))"
    using False by (cases st; cases "snd st") (auto simp: peer_tick_def)
  have "uniq pr_device (upsert pr_device r1 (\<lambda>_. r1) ?t)" using assms(2) by (cases "snd st") simp_all
  from select_upsert [OF this, of r2] t show ?thesis by (simp add: peer_tick_def)
qed

theorem peer_row_heals_witness:
  "\<exists>t. peer_tick True True (peer_row_of ''d1'' [] 1 ''k'' 60) (peer_tick True True (peer_row_of ''d1'' [] 1 ''k'' 0) (True, None)) = (True, Some t) \<and>
    select_where (\<lambda>r. pr_device r = ''d1'') t = [peer_row_of ''d1'' [] 1 ''k'' 60]"
  using peer_row_heals [of "peer_row_of ''d1'' [] 1 ''k'' 0" "peer_row_of ''d1'' [] 1 ''k'' 60" "(True, None)"]
  by (simp add: peer_row_of_def)

end
