(* ===== verification/AgentProbes.thy ===== *)
theory AgentProbes
  imports AgentConnect
begin

text \<open>
  What the agent tells about its machine and does with it (\<^verbatim>\<open>agent/agent.py\<close>): the system and
  device information, thumbnails, the camera, the location, the microphone, the wake lock and remote
  input. The machine is a parameter: its files, the commands it can run and what they answer.
\<close>

section \<open>The machine\<close>

text \<open>
  The environment, the text of a file (none when opening it fails), the entries of a directory, whether
  a path exists, whether a command is found, what running one comes to (the exit code and the two
  outputs, or the exception), and the facts the standard library gives. The decoders of JSON and of
  numbers are part of it.
\<close>

record machine =
  mc_env :: "string \<Rightarrow> string option"
  mc_file :: "string \<Rightarrow> string option"
  mc_listdir :: "string \<Rightarrow> string list option"
  mc_exists :: "string \<Rightarrow> bool"
  mc_which :: "string \<Rightarrow> bool"
  mc_run :: "string list \<Rightarrow> exn + (int \<times> string \<times> string)"
  mc_json :: "string \<Rightarrow> json option"
  mc_float :: "string \<Rightarrow> rat option"
  mc_host :: string
  mc_platform :: string
  mc_arch :: string
  mc_cores :: "int option"
  mc_disk :: "(int \<times> int) option"
  mc_ip :: "string option"

definition os_error :: "exn \<Rightarrow> bool" where
  "os_error e = (case e of OSError _ \<Rightarrow> True | FileNotFoundError _ \<Rightarrow> True | PermissionError _ \<Rightarrow> True
     | IsADirectoryError _ \<Rightarrow> True | ConnectionError _ \<Rightarrow> True | _ \<Rightarrow> False)"

text \<open>What the probes catch of a command that could not be run.\<close>

definition run_error :: "exn \<Rightarrow> bool" where
  "run_error e \<longleftrightarrow> e = TimeoutExpired \<or> os_error e"

definition is_android :: "machine \<Rightarrow> bool" where
  "is_android M =
     (if opt_str (mc_env M ''VORTEX_FORCE_DESKTOP'') \<noteq> [] then False
      else if opt_str (mc_env M ''TERMUX_VERSION'') \<noteq> [] then True
      else if has_sub ''com.termux'' (opt_str (mc_env M ''PREFIX'')) then True
      else mc_exists M ''/data/data/com.termux/files'')"

text \<open>\<open>EXP\<close> expands a leading tilde, \<open>RES\<close> resolves a path.\<close>

fun first_existing :: "machine \<Rightarrow> string list \<Rightarrow> string option" where
  "first_existing M [] = None"
| "first_existing M (c # cs) = (if mc_exists M c then Some c else first_existing M cs)"

definition storage_root :: "(string \<Rightarrow> string) \<Rightarrow> (string \<Rightarrow> path) \<Rightarrow> machine \<Rightarrow> path" where
  "storage_root EXP RES M =
     (if opt_str (mc_env M ''STORAGE_ROOT'') \<noteq> [] then RES (EXP (opt_str (mc_env M ''STORAGE_ROOT'')))
      else case first_existing M [EXP ''~/storage/shared'', ''/sdcard'', EXP ''~''] of
        Some c \<Rightarrow> RES c | None \<Rightarrow> RES (EXP ''~''))"

section \<open>Texts\<close>

fun words_acc :: "string \<Rightarrow> string \<Rightarrow> string list" where
  "words_acc cur [] = (if cur = [] then [] else [cur])"
| "words_acc cur (c # s) =
     (if is_space c then (if cur = [] then words_acc [] s else cur # words_acc [] s) else words_acc (cur @ [c]) s)"

definition words :: "string \<Rightarrow> string list" where
  "words s = words_acc [] s"

text \<open>Up to the first occurrence of a text, and after it.\<close>

fun cut_at :: "string \<Rightarrow> string \<Rightarrow> (string \<times> string) option" where
  "cut_at p [] = (if p = [] then Some ([], []) else None)"
| "cut_at p (c # s) = (if startswith p (c # s) then Some ([], drop (length p) (c # s))
     else map_option (\<lambda>(a, b). (c # a, b)) (cut_at p s))"

text \<open>\<open>upper\<close> of a text in ASCII.\<close>

definition upper_ascii :: "string \<Rightarrow> string" where
  "upper_ascii s = map (\<lambda>c. let n = of_char c :: nat in if 97 \<le> n \<and> n \<le> 122 then char_of (n - 32) else c) s"

definition opt_json :: "('a \<Rightarrow> json) \<Rightarrow> 'a option \<Rightarrow> json" where
  "opt_json f v = (case v of None \<Rightarrow> JNull | Some a \<Rightarrow> f a)"

section \<open>System information\<close>

text \<open>The lines of \<^verbatim>\<open>/proc/meminfo\<close> that count kilobytes, in order; later ones win.\<close>

definition meminfo_line :: "string \<Rightarrow> (string \<times> int) option" where
  "meminfo_line l = (case partition_at (CHR '':'') l of (key, rest) \<Rightarrow>
     let r = strip (opt_str rest) in
     if endswith '' kB'' r then
       (case py_int (take (length r - 3) r) of None \<Rightarrow> None | Some kb \<Rightarrow> Some (strip key, kb * 1024))
     else None)"

definition meminfo :: "machine \<Rightarrow> (string \<times> json) list" where
  "meminfo M = (case mc_file M ''/proc/meminfo'' of
     None \<Rightarrow> []
   | Some t \<Rightarrow>
       (let m = fold (\<lambda>l d. case meminfo_line l of None \<Rightarrow> d | Some (k, v) \<Rightarrow> dict_put k v d) (split_all (CHR 0x0A) t) [];
            get = (\<lambda>k. opt_json JInt (map_of m k)) in
        [(''total'', get ''MemTotal''), (''available'', jor (get ''MemAvailable'') (get ''MemFree''))]))"

definition uptime_seconds :: "machine \<Rightarrow> json" where
  "uptime_seconds M = (case mc_file M ''/proc/uptime'' of None \<Rightarrow> JNull
     | Some t \<Rightarrow> (case words t of [] \<Rightarrow> JNull | w # _ \<Rightarrow> opt_json JFloat (mc_float M w)))"

definition loadavg :: "machine \<Rightarrow> json" where
  "loadavg M = (case mc_file M ''/proc/loadavg'' of None \<Rightarrow> JNull
     | Some t \<Rightarrow> (case words t of
         a # b # c # _ \<Rightarrow> (case (mc_float M a, mc_float M b, mc_float M c) of
             (Some x, Some y, Some z) \<Rightarrow> JArr [JFloat x, JFloat y, JFloat z] | _ \<Rightarrow> JNull)
       | _ \<Rightarrow> JNull))"

text \<open>A command of Termux that answers JSON: the object, nothing, or an answer that is no object.\<close>

definition termux_json :: "machine \<Rightarrow> string \<Rightarrow> exn + (string \<times> json) list option" where
  "termux_json M cmd = (case mc_run M [cmd] of
     Inl e \<Rightarrow> if run_error e then Inr None else Inl e
   | Inr (code, out, err) \<Rightarrow>
       if code \<noteq> 0 \<or> strip out = [] then Inr None
       else (case mc_json M out of None \<Rightarrow> Inr None | Some (JObj kvs) \<Rightarrow> Inr (Some kvs) | Some _ \<Rightarrow> Inl AttributeError))"

fun supplies :: "machine \<Rightarrow> string list \<Rightarrow> json" where
  "supplies M [] = JNull"
| "supplies M (entry # es) =
     (let base = ''/sys/class/power_supply/'' @ entry in
      case mc_file M (base @ ''/type'') of None \<Rightarrow> supplies M es
      | Some t \<Rightarrow>
          if strip t \<noteq> ''Battery'' then supplies M es
          else
            (let pct = (case mc_file M (base @ ''/capacity'') of None \<Rightarrow> None | Some c \<Rightarrow> py_int (strip c));
                 status = map_option (\<lambda>c. upper_ascii (strip c)) (mc_file M (base @ ''/status'')) in
             if pct \<noteq> None \<or> status \<noteq> None
             then JObj [(''percentage'', opt_json JInt pct), (''status'', opt_json JStr status)]
             else supplies M es))"

definition battery :: "machine \<Rightarrow> exn + json" where
  "battery M = (case termux_json M ''termux-battery-status'' of
     Inl e \<Rightarrow> Inl e
   | Inr (Some kvs) \<Rightarrow> Inr (JObj [(''percentage'', jget kvs ''percentage''), (''status'', jget kvs ''status''),
       (''plugged'', jget kvs ''plugged''), (''temperature'', jget kvs ''temperature'')])
   | Inr None \<Rightarrow> Inr (case mc_listdir M ''/sys/class/power_supply'' of None \<Rightarrow> JNull | Some es \<Rightarrow> supplies M es))"

definition op_system_info :: "string \<Rightarrow> string \<Rightarrow> machine \<Rightarrow> exn + (string \<times> json) list" where
  "op_system_info version store M = (case battery M of Inl e \<Rightarrow> Inl e
   | Inr b \<Rightarrow> Inr [(''agent_version'', JStr version), (''hostname'', JStr (mc_host M)), (''platform'', JStr (mc_platform M)),
       (''storage'', opt_json (\<lambda>(total, free). JObj [(''root'', JStr store), (''total'', JInt total), (''free'', JInt free)]) (mc_disk M)),
       (''memory'', jor (JObj (meminfo M)) JNull), (''uptime_s'', uptime_seconds M), (''loadavg'', loadavg M), (''battery'', b)])"

section \<open>Device information\<close>

text \<open>The lines of \<open>getprop\<close>, a key and a value in brackets, for the keys asked for.\<close>

definition getprop_line :: "string list \<Rightarrow> string \<Rightarrow> (string \<times> string) option" where
  "getprop_line keys l = (case cut_at '']: ['' l of None \<Rightarrow> None
   | Some (a, b) \<Rightarrow>
       (let k = strip (lstrip_by (\<lambda>c. c = CHR ''['') a); v = strip (rstrip_by (\<lambda>c. c = CHR '']'') b) in
        if k \<in> set keys then Some (k, v) else None))"

definition getprop_many :: "machine \<Rightarrow> string list \<Rightarrow> exn + (string \<times> string) list" where
  "getprop_many M keys = (case mc_run M [''getprop''] of
     Inl e \<Rightarrow> if run_error e then Inr [] else Inl e
   | Inr (code, out, err) \<Rightarrow>
       if code \<noteq> 0 then Inr []
       else Inr (fold (\<lambda>l d. case getprop_line keys l of None \<Rightarrow> d | Some (k, v) \<Rightarrow> dict_put k v d) (splitlines out) []))"

fun first_value :: "string list \<Rightarrow> string \<Rightarrow> string option" where
  "first_value [] needle = None"
| "first_value (l # ls) needle =
     (if startswith needle l then
        (let v = strip (opt_str (snd (partition_at (CHR '':'') l))) in if v \<noteq> [] then Some v else first_value ls needle)
      else first_value ls needle)"

fun first_of :: "string list \<Rightarrow> string list \<Rightarrow> string option" where
  "first_of ls [] = None"
| "first_of ls (n # ns) = (case first_value ls n of Some v \<Rightarrow> Some v | None \<Rightarrow> first_of ls ns)"

definition cpu :: "machine \<Rightarrow> (string \<times> json) list" where
  "cpu M = [(''architecture'', opt_json JStr (str_or_none (mc_arch M))), (''cores'', opt_json JInt (mc_cores M))] @
     (case mc_file M ''/proc/cpuinfo'' of None \<Rightarrow> []
      | Some t \<Rightarrow>
          (case first_of (splitlines t) [''Hardware'', ''Processor'', ''model name''] of None \<Rightarrow> [] | Some v \<Rightarrow> [(''model'', JStr v)]) @
          (case mc_file M ''/sys/devices/system/cpu/cpu0/cpufreq/cpuinfo_max_freq'' of None \<Rightarrow> []
           | Some f \<Rightarrow> (case py_int (strip f) of None \<Rightarrow> [] | Some khz \<Rightarrow> [(''max_freq_mhz'', JInt (khz div 1000))])))"

definition strip_quotes :: "string \<Rightarrow> string" where
  "strip_quotes s = rstrip_by (\<lambda>c. c = CHR 0x22) (lstrip_by (\<lambda>c. c = CHR 0x22) s)"

definition wifi :: "(string \<times> json) list \<Rightarrow> exn + (string \<times> json) list" where
  "wifi d =
     (let ssid = jget d ''ssid'';
          rest = concat (map (\<lambda>(k, short, name).
            let v = (if map_of d k \<noteq> None then jget d k else jget d short) in if v = JNull then [] else [(name, v)])
            [(''rssi'', ''rssi'', ''wifi_rssi''), (''link_speed_mbps'', ''link_speed'', ''wifi_link_speed''),
             (''frequency_mhz'', ''frequency_mhz'', ''wifi_frequency'')]) in
      if truthy ssid \<and> ssid \<noteq> JStr ''<unknown ssid>'' then
        (case ssid of JStr s \<Rightarrow> Inr ((''wifi_ssid'', JStr (strip_quotes s)) # rest) | _ \<Rightarrow> Inl AttributeError)
      else Inr rest)"

definition network :: "machine \<Rightarrow> exn + (string \<times> json) list" where
  "network M =
     (let ip = (case mc_ip M of None \<Rightarrow> [] | Some a \<Rightarrow> [(''ip'', JStr a)]) in
      case termux_json M ''termux-wifi-connectioninfo'' of
        Inl e \<Rightarrow> Inl e
      | Inr None \<Rightarrow> Inr ip
      | Inr (Some d) \<Rightarrow> (case wifi d of Inl e \<Rightarrow> Inl e | Inr ws \<Rightarrow> Inr (ip @ ws)))"

definition kernel :: "machine \<Rightarrow> json" where
  "kernel M = (case mc_file M ''/proc/version'' of None \<Rightarrow> JNull
     | Some t \<Rightarrow> (case split_max (CHR '' '') 3 (strip t) of a # b # c # _ \<Rightarrow> JStr (a @ '' '' @ c) | _ \<Rightarrow> JNull))"

definition info_keys :: "string list" where
  "info_keys = [''ro.product.model'', ''ro.product.manufacturer'', ''ro.product.brand'', ''ro.product.name'',
     ''ro.build.version.release'', ''ro.build.version.sdk'', ''ro.build.fingerprint'', ''ro.board.platform'',
     ''ro.hardware'', ''ro.soc.manufacturer'', ''ro.soc.model'']"

definition soc_name :: "(string \<times> string) list \<Rightarrow> json" where
  "soc_name props =
     (let get = (\<lambda>k. opt_str (map_of props k));
          parts = filter (\<lambda>p. p \<noteq> []) [get ''ro.soc.manufacturer'', get ''ro.soc.model''];
          soc = (case parts of [] \<Rightarrow> [] | p # ps \<Rightarrow> p @ concat (map (\<lambda>q. CHR '' '' # q) ps)) in
      if soc \<noteq> [] then JStr soc
      else if get ''ro.board.platform'' \<noteq> [] then JStr (get ''ro.board.platform'')
      else opt_json JStr (map_of props ''ro.hardware''))"

definition op_device_info :: "string \<Rightarrow> string \<Rightarrow> machine \<Rightarrow> exn + (string \<times> json) list" where
  "op_device_info version store M = (case op_system_info version store M of Inl e \<Rightarrow> Inl e
   | Inr out \<Rightarrow> (case getprop_many M info_keys of Inl e \<Rightarrow> Inl e
     | Inr props \<Rightarrow>
         (let get = (\<lambda>k. opt_json JStr (map_of props k)) in
          case network M of Inl e \<Rightarrow> Inl e
          | Inr net \<Rightarrow> Inr (out @ [(''device'', JObj [(''model'', get ''ro.product.model''),
               (''manufacturer'', get ''ro.product.manufacturer''), (''brand'', get ''ro.product.brand''),
               (''android_version'', get ''ro.build.version.release''),
               (''android_sdk'', opt_json JInt (case map_of props ''ro.build.version.sdk'' of None \<Rightarrow> None | Some s \<Rightarrow> if s = [] then None else py_int s)),
               (''soc'', soc_name props), (''build_fingerprint'', get ''ro.build.fingerprint''), (''kernel'', kernel M)]),
              (''cpu'', JObj (cpu M)), (''network'', JObj net)]))))"

section \<open>Thumbnails\<close>

text \<open>
  Whether the imaging library is there, the key of the cache for a file and a size (made of the path,
  the times and lengths of the file and the size), the rendering, and whether the cache can be written.
\<close>

record thumbs =
  th_pil :: bool
  th_key :: "path \<Rightarrow> byte list \<Rightarrow> int \<Rightarrow> string"
  th_render :: "byte list \<Rightarrow> int \<Rightarrow> exn + byte list"
  th_writes :: bool

definition thumb_size :: "json \<Rightarrow> exn + int" where
  "thumb_size args = (case jget_or args ''size'' (JInt 256) of Inl e \<Rightarrow> Inl e
     | Inr v \<Rightarrow> (case jint v of
         Inr n \<Rightarrow> Inr (max 32 (min n 1024))
       | Inl (ValueError m) \<Rightarrow> Inr 256 | Inl TypeError \<Rightarrow> Inr 256 | Inl e \<Rightarrow> Inl e))"

definition thumb_answer :: "byte list \<Rightarrow> json" where
  "thumb_answer d = JObj [(''data_b64'', JStr (b64encode d)), (''content_type'', JStr ''image/jpeg''), (''size'', JInt (int (length d)))]"

text \<open>The state is the cache; the files are an argument.\<close>

definition op_thumbnail ::
  "(path \<Rightarrow> path) \<Rightarrow> path \<Rightarrow> thumbs \<Rightarrow> fs \<Rightarrow> json \<Rightarrow> ((string \<times> byte list) list, json) op" where
  "op_thumbnail RES base T fs args =
     bindE (liftE (jget_or args ''path'' (JStr []))) (\<lambda>rel.
     bindE (liftE (thumb_size args)) (\<lambda>size.
     bindE (liftE (safe_resolve RES base rel)) (\<lambda>p.
       case file_at fs p of
         None \<Rightarrow> raise (FileNotFoundError ''Not a file'')
       | Some bs \<Rightarrow>
           if \<not> th_pil T then raise (RuntimeError ''Pillow not installed on agent'')
           else bindE (asks (\<lambda>c. map_of c (th_key T p bs size))) (\<lambda>hit. case hit of
               Some d \<Rightarrow> ret (thumb_answer d)
             | None \<Rightarrow> bindE (liftE (th_render T bs size)) (\<lambda>d.
                 thenE (modify (\<lambda>c. if th_writes T then dict_put (th_key T p bs size) d c else c)) (ret (thumb_answer d)))))))"

section \<open>Camera, location and microphone\<close>

definition have_termux_camera :: "machine \<Rightarrow> bool" where
  "have_termux_camera M \<longleftrightarrow> mc_which M ''termux-camera-info'' \<and> mc_which M ''termux-camera-photo''"

definition camera_entry :: "(json \<Rightarrow> string) \<Rightarrow> json \<Rightarrow> exn + json" where
  "camera_entry SH c = (case c of
     JObj kvs \<Rightarrow> Inr (JObj [(''id'', JStr (py_str SH (jget_default kvs ''id'' (JStr [])))), (''facing'', jget kvs ''facing''),
       (''resolutions'', jor (jor (jget kvs ''output_sizes'') (jget kvs ''photo_sizes'')) (JArr []))])
   | _ \<Rightarrow> Inl AttributeError)"

fun all_or_error :: "('a \<Rightarrow> exn + 'b) \<Rightarrow> 'a list \<Rightarrow> exn + 'b list" where
  "all_or_error f [] = Inr []"
| "all_or_error f (a # as) = (case f a of Inl e \<Rightarrow> Inl e
     | Inr b \<Rightarrow> (case all_or_error f as of Inl e \<Rightarrow> Inl e | Inr bs \<Rightarrow> Inr (b # bs)))"

text \<open>The text of a failure is cut; its wording is not modelled further.\<close>

definition op_camera_info :: "(json \<Rightarrow> string) \<Rightarrow> machine \<Rightarrow> exn + json" where
  "op_camera_info SH M =
     (if \<not> have_termux_camera M then Inl (RuntimeError ''termux-camera-* not available.'')
      else case mc_run M [''termux-camera-info''] of
        Inl (FileNotFoundError m) \<Rightarrow> Inl (RuntimeError ''termux-camera-info failed'')
      | Inl TimeoutExpired \<Rightarrow> Inl (RuntimeError ''termux-camera-info failed'')
      | Inl e \<Rightarrow> Inl e
      | Inr (code, out, err) \<Rightarrow>
          if code \<noteq> 0 then Inl (RuntimeError (''termux-camera-info exit '' @ int_str code @ '': '' @ take 200 (strip (or_str err out))))
          else case mc_json M out of
            None \<Rightarrow> Inl (RuntimeError ''termux-camera-info malformed JSON'')
          | Some (JArr cs) \<Rightarrow> (case all_or_error (camera_entry SH) cs of Inl e \<Rightarrow> Inl e | Inr es \<Rightarrow> Inr (JObj [(''cameras'', JArr es)]))
          | Some _ \<Rightarrow> Inr (JObj [(''cameras'', JArr [])]))"

text \<open>A start that announces the size, the chunks, the end.\<close>

definition send_stream :: "json \<Rightarrow> string \<Rightarrow> byte list list \<Rightarrow> (agent, unit) op" where
  "send_stream rid ctype chunks =
     thenE (on_sess (send_text (JObj [(''type'', JStr ''stream_start''), (''id'', rid),
       (''size'', JInt (int (length (concat chunks)))), (''content_type'', JStr ctype)])))
    (thenE (on_sess (fold (send_chunk rid) chunks)) (on_sess (send_text (stream_end_msg rid []))))"

text \<open>
  One picture. The command writes a temporary file, whose content after it has run is the argument
  \<open>shot\<close>; the file is removed in the end.
\<close>

definition op_camera_capture ::
  "(json \<Rightarrow> string) \<Rightarrow> machine \<Rightarrow> byte list \<Rightarrow> json \<Rightarrow> json \<Rightarrow> (agent, unit) op" where
  "op_camera_capture SH M shot rid args =
     (if \<not> have_termux_camera M then raise (RuntimeError ''termux-camera-* not available.'')
      else bindE (liftE (jget_or args ''camera_id'' (JStr ''0''))) (\<lambda>c.
        case mc_run M [''termux-camera-photo'', ''-c'', py_str SH c, ''tmp''] of
          Inl e \<Rightarrow> raise e
        | Inr (code, out, err) \<Rightarrow>
            if code \<noteq> 0 then raise (RuntimeError (''termux-camera-photo exit '' @ int_str code @ '': '' @ take 200 (strip (or_str err out))))
            else if shot = [] then raise (RuntimeError ''Camera produced an empty file.'')
            else send_stream rid ''image/jpeg'' (chunks_of CHUNK_SIZE shot)))"

definition op_location :: "(json \<Rightarrow> string) \<Rightarrow> machine \<Rightarrow> json \<Rightarrow> json \<Rightarrow> (agent, unit) op" where
  "op_location SH M rid args =
     (if \<not> mc_which M ''termux-location'' then raise (RuntimeError ''termux-location not available.'')
      else bindE (liftE (jget_or args ''provider'' (JStr []))) (\<lambda>p.
        let provider = strip (py_str SH p);
            cmd = [''termux-location'', ''-r'', ''once''] @
              (if provider \<in> {''gps'', ''network'', ''passive''} then [''-p'', provider] else []) in
        case mc_run M cmd of
          Inl e \<Rightarrow> raise e
        | Inr (code, out, err) \<Rightarrow>
            (let out = strip out in
             if code \<noteq> 0 \<or> out = [] then
               raise (RuntimeError (''termux-location failed ('' @ int_str code @ ''): '' @
                 take 200 (strip (or_str err (or_str out ''no fix'')))))
             else send_stream rid ''application/json'' [encode out])))"

definition audio_seconds :: "json \<Rightarrow> exn + int" where
  "audio_seconds args = (case jget_or args ''duration'' (JInt 15) of Inl e \<Rightarrow> Inl e
     | Inr v \<Rightarrow> (case jint v of
         Inr n \<Rightarrow> Inr (max 1 (min 120 n))
       | Inl (ValueError m) \<Rightarrow> Inr 15 | Inl TypeError \<Rightarrow> Inr 15 | Inl e \<Rightarrow> Inl e))"

definition op_record_audio :: "machine \<Rightarrow> byte list \<Rightarrow> json \<Rightarrow> json \<Rightarrow> (agent, unit) op" where
  "op_record_audio M clip rid args =
     (if \<not> mc_which M ''termux-microphone-record'' then raise (RuntimeError ''termux-microphone-record not available.'')
      else bindE (liftE (audio_seconds args)) (\<lambda>dur.
        case mc_run M [''termux-microphone-record'', ''-f'', ''tmp'', ''-l'', int_str dur] of
          Inl e \<Rightarrow> raise e
        | Inr _ \<Rightarrow> (case mc_run M [''termux-microphone-record'', ''-q''] of
            Inl e \<Rightarrow> raise e
          | Inr _ \<Rightarrow>
              if clip = [] then raise (RuntimeError ''Recording produced an empty file.'')
              else send_stream rid ''audio/mp4'' (chunks_of CHUNK_SIZE clip))))"

section \<open>Wake lock and input\<close>

definition op_keepawake :: "machine \<Rightarrow> json \<Rightarrow> exn + json" where
  "op_keepawake M args = (case jget_or args ''on'' (JBool True) of Inl e \<Rightarrow> Inl e
   | Inr v \<Rightarrow>
       (let on = truthy v; cmd = (if on then ''termux-wake-lock'' else ''termux-wake-unlock'') in
        if \<not> mc_which M cmd then Inl (RuntimeError (cmd @ '' not available (Termux only).''))
        else case mc_run M [cmd] of
          Inl e \<Rightarrow> if run_error e then Inl (RuntimeError (cmd @ '' failed'')) else Inl e
        | Inr (code, out, err) \<Rightarrow>
            if code \<noteq> 0 then Inl (RuntimeError (cmd @ '' exit '' @ int_str code @ '': '' @ take 160 (strip (or_str err out))))
            else Inr (JObj [(''keepawake'', JBool on), (''best_effort'', JBool True)])))"

text \<open>
  The driver a command is handed to, on a phone or on a desktop: it raises (that it is not available,
  or rejects the command, is a runtime error with a message), or answers.
\<close>

definition op_input ::
  "machine \<Rightarrow> ((string \<times> json) list \<Rightarrow> exn + json) \<Rightarrow> ((string \<times> json) list \<Rightarrow> exn + json) \<Rightarrow> json \<Rightarrow> exn + json" where
  "op_input M desktop phone args = (case jget_or args ''command'' JNull of Inl e \<Rightarrow> Inl e
   | Inr (JObj cmd) \<Rightarrow>
       (case (if is_android M then phone cmd else desktop cmd) of
          Inl e \<Rightarrow> Inl e
        | Inr JNull \<Rightarrow> Inr (JObj [(''acked'', JBool True)])
        | Inr r \<Rightarrow> Inr r)
   | Inr _ \<Rightarrow> Inl (ValueError ''op_input expects args.command to be an object''))"

section \<open>In the dispatcher\<close>

text \<open>
  The tables of the dispatcher with these operations in place. What the drivers, the camera file and the
  recording come to are arguments, as the machine is; the rest is \<open>oth\<close>.
\<close>

definition probe_handlers ::
  "(json \<Rightarrow> string) \<Rightarrow> string \<Rightarrow> string \<Rightarrow> machine \<Rightarrow> byte list \<Rightarrow> byte list \<Rightarrow>
   ((string \<times> json) list \<Rightarrow> exn + json) \<Rightarrow> ((string \<times> json) list \<Rightarrow> exn + json) \<Rightarrow> handlers \<Rightarrow> handlers" where
  "probe_handlers SH version store M shot clip desktop phone oth =
     \<lparr>hs_unary = (\<lambda>name args.
        if name = ''system_info'' then liftE (case op_system_info version store M of Inl e \<Rightarrow> Inl e | Inr kvs \<Rightarrow> Inr (JObj kvs))
        else if name = ''device_info'' then liftE (case op_device_info version store M of Inl e \<Rightarrow> Inl e | Inr kvs \<Rightarrow> Inr (JObj kvs))
        else if name = ''camera_info'' then liftE (op_camera_info SH M)
        else if name = ''keepawake'' then liftE (op_keepawake M args)
        else if name = ''input'' then liftE (op_input M desktop phone args)
        else hs_unary oth name args),
      hs_stream = (\<lambda>name rid args.
        if name = ''camera_capture'' then op_camera_capture SH M shot rid args
        else if name = ''location'' then op_location SH M rid args
        else if name = ''record_audio'' then op_record_audio M clip rid args
        else hs_stream oth name rid args),
      hs_recv = hs_recv oth\<rparr>"

section \<open>Properties\<close>

text \<open>A machine whose commands fail as commands do, and whose Termux answers are objects.\<close>

definition polite :: "machine \<Rightarrow> bool" where
  "polite M \<longleftrightarrow> (\<forall>cmd e. mc_run M cmd = Inl e \<longrightarrow> run_error e) \<and>
     (\<forall>cmd \<in> {''termux-battery-status'', ''termux-wifi-connectioninfo''}. \<forall>out err j.
        mc_run M [cmd] = Inr (0, out, err) \<longrightarrow> mc_json M out = Some j \<longrightarrow>
        (\<exists>kvs. j = JObj kvs \<and> (truthy (jget kvs ''ssid'') \<longrightarrow> (\<exists>s. jget kvs ''ssid'' = JStr s))))"

lemma termux_polite:
  assumes "polite M" and "cmd = ''termux-battery-status'' \<or> cmd = ''termux-wifi-connectioninfo''"
  shows "\<exists>d. termux_json M cmd = Inr d \<and> (\<forall>kvs. d = Some kvs \<longrightarrow> truthy (jget kvs ''ssid'') \<longrightarrow> (\<exists>s. jget kvs ''ssid'' = JStr s))"
proof (cases "mc_run M [cmd]")
  case (Inl e)
  then show ?thesis using assms(1) by (simp add: polite_def termux_json_def)
next
  case (Inr r)
  obtain code out err where r: "r = (code, out, err)" by (cases r) auto
  have "mc_json M out = Some j \<Longrightarrow> code = 0 \<Longrightarrow>
      \<exists>kvs. j = JObj kvs \<and> (truthy (jget kvs ''ssid'') \<longrightarrow> (\<exists>s. jget kvs ''ssid'' = JStr s))" for j
    using assms Inr r unfolding polite_def by blast
  then show ?thesis using Inr r by (auto simp: termux_json_def split: option.split)
qed

lemma wifi_answers: "(truthy (jget d ''ssid'') \<longrightarrow> (\<exists>s. jget d ''ssid'' = JStr s)) \<Longrightarrow> \<exists>ws. wifi d = Inr ws"
  by (auto simp: wifi_def Let_def)

text \<open>
  C37: the device information is always complete. On a machine whose commands fail as commands do and
  whose Termux answers are objects, the operation answers, with each of its sections, whatever files and
  commands are missing.
\<close>

theorem device_info_complete:
  assumes "polite M"
  shows "\<exists>kvs. op_device_info version store M = Inr kvs \<and> map fst kvs = [''agent_version'', ''hostname'', ''platform'',
    ''storage'', ''memory'', ''uptime_s'', ''loadavg'', ''battery'', ''device'', ''cpu'', ''network'']"
proof -
  obtain d where "termux_json M ''termux-battery-status'' = Inr d"
    using termux_polite [OF assms, of "''termux-battery-status''"] by blast
  then obtain b where "battery M = Inr b" by (cases d) (simp_all add: battery_def)
  then have "\<exists>out. op_system_info version store M = Inr out \<and> map fst out = [''agent_version'', ''hostname'', ''platform'',
      ''storage'', ''memory'', ''uptime_s'', ''loadavg'', ''battery'']" by (simp add: op_system_info_def)
  moreover have "\<exists>props. getprop_many M info_keys = Inr props"
    using assms by (auto simp: getprop_many_def polite_def split: sum.split)
  moreover have "\<exists>net. network M = Inr net"
    using termux_polite [OF assms, of "''termux-wifi-connectioninfo''"] wifi_answers
    by (fastforce simp: network_def Let_def split: option.split sum.split)
  ultimately show ?thesis by (auto simp: op_device_info_def Let_def)
qed

definition bare_machine :: machine where
  "bare_machine = \<lparr>mc_env = (\<lambda>_. None), mc_file = (\<lambda>_. None), mc_listdir = (\<lambda>_. None), mc_exists = (\<lambda>_. False), mc_which = (\<lambda>_. False),
     mc_run = (\<lambda>_. Inl (FileNotFoundError ''no such command'')), mc_json = (\<lambda>_. None), mc_float = (\<lambda>_. None), mc_host = ''pc'',
     mc_platform = ''Linux 6'', mc_arch = ''x86_64'', mc_cores = None, mc_disk = None, mc_ip = None\<rparr>"

theorem device_info_complete_witness:
  "\<exists>kvs. op_device_info ''1'' ''/h'' bare_machine = Inr kvs \<and> map fst kvs = [''agent_version'', ''hostname'', ''platform'',
    ''storage'', ''memory'', ''uptime_s'', ''loadavg'', ''battery'', ''device'', ''cpu'', ''network'']"
  by (rule device_info_complete) (simp add: polite_def bare_machine_def run_error_def os_error_def)

text \<open>
  A thumbnail is made once. When a thumbnail has been made and the cache can be written, asking for it
  again gives the same answer and renders nothing, whatever rendering would give by then; the size asked of
  the renderer is between 32 and 1024.
\<close>

theorem thumbnail_made_once:
  assumes "op_thumbnail RES base T fs args c = (Inr v, c')" and "th_writes T"
    and "th_pil T'" and "th_key T' = th_key T"
  shows "op_thumbnail RES base T' fs args c' = (Inr v, c') \<and>
    (\<exists>n. thumb_size args = Inr n \<and> 32 \<le> n \<and> n \<le> 1024)"
proof -
  obtain rel where rel: "jget_or args ''path'' (JStr []) = Inr rel"
    using assms(1) by (cases "jget_or args ''path'' (JStr [])") (auto simp: op_thumbnail_def)
  obtain n where n: "thumb_size args = Inr n"
    using assms(1) rel by (cases "thumb_size args") (auto simp: op_thumbnail_def)
  obtain p where p: "safe_resolve RES base rel = Inr p"
    using assms(1) rel n by (cases "safe_resolve RES base rel") (auto simp: op_thumbnail_def)
  obtain bs where bs: "file_at fs p = Some bs"
    using assms(1) rel n p by (cases "file_at fs p") (auto simp: op_thumbnail_def)
  have size: "32 \<le> n \<and> n \<le> 1024"
    using n by (auto simp: thumb_size_def split: sum.splits exn.splits)
  show ?thesis
  proof (cases "map_of c (th_key T p bs n)")
    case (Some d)
    with assms rel n p bs size show ?thesis by (auto simp: op_thumbnail_def split: if_splits)
  next
    case None
    then obtain d where "th_render T bs n = Inr d" "v = thumb_answer d" "c' = dict_put (th_key T p bs n) d c"
      using assms(1,2) rel n p bs
      by (cases "th_render T bs n") (auto simp: op_thumbnail_def thenE_def split: if_splits)
    with assms(3,4) rel n p bs size show ?thesis by (auto simp: op_thumbnail_def)
  qed
qed

theorem thumbnail_made_once_witness:
  "\<exists>c. op_thumbnail (\<lambda>p. p) [''h''] \<lparr>th_pil = True, th_key = (\<lambda>_ _ _. ''k''), th_render = (\<lambda>_ _. Inl TypeError), th_writes = True\<rparr>
      [([''h'', ''a''], File [1])] (JObj [(''path'', JStr ''a''), (''size'', JInt 64)]) c = (Inr (thumb_answer [9]), c)"
proof -
  let ?run = "\<lambda>R. op_thumbnail (\<lambda>p. p) [''h''] \<lparr>th_pil = True, th_key = (\<lambda>_ _ _. ''k''), th_render = R, th_writes = True\<rparr>
      [([''h'', ''a''], File [1])] (JObj [(''path'', JStr ''a''), (''size'', JInt 64)])"
  have s: "safe_resolve (\<lambda>p. p) [''h''] (JStr ''a'') = Inr [''h'', ''a'']" by code_simp
  have "?run (\<lambda>_ _. Inr [9]) [] = (Inr (thumb_answer [9]), [(''k'', [9])])"
    by (simp add: op_thumbnail_def s thumb_size_def jget_or_def file_at_def node_at_def thenE_def)
  from thumbnail_made_once [OF this, of "\<lparr>th_pil = True, th_key = (\<lambda>_ _ _. ''k''), th_render = (\<lambda>_ _. Inl TypeError), th_writes = True\<rparr>"]
  show ?thesis by auto
qed

end

