(* ===== verification/AgentDrivers.thy ===== *)
theory AgentDrivers
  imports AgentProbes
begin

text \<open>
  Where frames and input commands come from and go to (\<^verbatim>\<open>agent/camera_bridge.py\<close>,
  \<^verbatim>\<open>agent/screen_bridge.py\<close>, \<^verbatim>\<open>agent/input_bridge.py\<close>, \<^verbatim>\<open>agent/pc_screen_bridge.py\<close>,
  \<^verbatim>\<open>agent/pc_input_bridge.py\<close>): the framing on the sockets of the driver app, the call of its input
  socket, and the capture and the injection on a desktop. The driver, the desktop and the JSON codec are
  parameters.
\<close>

section \<open>Sockets\<close>

text \<open>
  What a socket will deliver: pieces in the order they arrive, and then its end: closed by the other
  side, or an error. \<open>recv\<close> takes from one piece at a time and returns nothing when the socket is closed.
\<close>

type_synonym sock = "byte list list \<times> exn option"

definition recv :: "nat \<Rightarrow> sock \<Rightarrow> exn + byte list \<times> sock" where
  "recv n s = (case s of
     ([], None) \<Rightarrow> Inr ([], s)
   | ([], Some e) \<Rightarrow> Inl e
   | (piece # ps, e) \<Rightarrow> Inr (take n piece, (if drop n piece = [] then ps else drop n piece # ps, e)))"

function read_exact :: "string \<Rightarrow> nat \<Rightarrow> sock \<Rightarrow> exn + byte list \<times> sock" where
  "read_exact gone n s = (if n = 0 then Inr ([], s) else case recv n s of
     Inl e \<Rightarrow> Inl e
   | Inr (c, s') \<Rightarrow>
       if c = [] then Inl (ConnectionError gone)
       else (case read_exact gone (n - length c) s' of Inl e \<Rightarrow> Inl e | Inr (r, t) \<Rightarrow> Inr (c @ r, t)))"
  by auto
termination by (relation "measure (\<lambda>(gone, n, s). n)") auto

declare read_exact.simps [simp del]

text \<open>A length as four bytes, the most significant first.\<close>

definition be32 :: "nat \<Rightarrow> byte list" where
  "be32 n = map word_of_nat [n div 2 ^ 24, n div 2 ^ 16, n div 2 ^ 8, n]"

definition of_be32 :: "byte list \<Rightarrow> nat" where
  "of_be32 bs = fold (\<lambda>b n. n * 256 + unat b) bs 0"

definition frame :: "byte list \<Rightarrow> byte list" where
  "frame b = be32 (length b) @ b"

text \<open>What a socket raises.\<close>

definition sock_error :: "exn \<Rightarrow> bool" where
  "sock_error e \<longleftrightarrow> e = TimeoutError \<or> os_error e"

lemma recv_bytes: "recv n s = Inr (c, t) \<Longrightarrow> concat (fst s) = c @ concat (fst t) \<and> snd t = snd s"
  by (auto simp: recv_def split: prod.splits list.splits option.splits if_splits)

lemma read_exact_bytes:
  "read_exact gone n s = Inr (b, t) \<Longrightarrow> length b = n \<and> concat (fst s) = b @ concat (fst t) \<and> snd t = snd s"
proof (induction gone n s arbitrary: b t rule: read_exact.induct)
  case (1 gone n s)
  show ?case
  proof (cases "n = 0")
    case False
    with "1.prems" obtain c s' r where c: "recv n s = Inr (c, s')" "c \<noteq> []"
      and r: "read_exact gone (n - length c) s' = Inr (r, t)" "b = c @ r"
      by (subst (asm) read_exact.simps) (auto split: sum.splits prod.splits if_splits)
    have "length c \<le> n" using c by (auto simp: recv_def split: prod.splits list.splits option.splits if_splits)
    with "1.IH" [OF False c(1) refl c(2) r(1)] recv_bytes [OF c(1)] r show ?thesis by auto
  qed (use "1.prems" in \<open>subst (asm) read_exact.simps, simp\<close>)
qed

section \<open>Frames of the driver\<close>

definition MAX_FRAME_BYTES :: nat where
  "MAX_FRAME_BYTES = 8 * 1024 * 1024"

text \<open>The frames until the socket fails, which ends the stream, or raises something else.\<close>

function stream_from_socket :: "sock \<Rightarrow> byte list list \<times> exn option" where
  "stream_from_socket s =
     (let ends = (\<lambda>e. ([], if sock_error e then None else Some e)) in
      case read_exact ''Driver closed the socket mid-frame'' 4 s of
        Inl e \<Rightarrow> ends e
      | Inr (header, s') \<Rightarrow>
          (let n = of_be32 header in
           if n = 0 then stream_from_socket s'
           else if n > MAX_FRAME_BYTES then ends (ConnectionError ''Frame too large'')
           else (case read_exact ''Driver closed the socket mid-frame'' n s' of
               Inl e \<Rightarrow> ends e
             | Inr (b, t) \<Rightarrow> (case stream_from_socket t of (bs, e) \<Rightarrow> (b # bs, e)))))"
  by auto
termination
  by (relation "measure (\<lambda>s. length (concat (fst s)))") (auto dest!: read_exact_bytes)

declare stream_from_socket.simps [simp del]

text \<open>Connecting fails with a message, or gives the socket; the camera and the screen differ in the port.\<close>

definition open_stream :: "string + sock \<Rightarrow> source" where
  "open_stream conn = (case conn of
     Inl m \<Rightarrow> Inl (''Could not reach Vortex Driver: '' @ m) | Inr s \<Rightarrow> Inr (stream_from_socket s))"

definition open_screen :: "string + sock \<Rightarrow> source" where
  "open_screen conn = (case conn of
     Inl m \<Rightarrow> Inl (''Could not reach Vortex Driver screen socket: '' @ m) | Inr s \<Rightarrow> Inr (stream_from_socket s))"

section \<open>The input socket\<close>

definition MAX_FRAME :: nat where
  "MAX_FRAME = 64 * 1024"

text \<open>
  The driver is not reachable, with a message, or answers what is written to its socket. \<open>DUMPS\<close> and
  \<open>LOADS\<close> are the codec.
\<close>

definition send_command ::
  "(json \<Rightarrow> string) \<Rightarrow> (json \<Rightarrow> byte list) \<Rightarrow> (byte list \<Rightarrow> json option) \<Rightarrow> string + (byte list \<Rightarrow> sock) \<Rightarrow> (string \<times> json) list \<Rightarrow> exn + json" where
  "send_command SH DUMPS LOADS drv cmd =
     (let payload = DUMPS (JObj cmd) in
      if length payload > MAX_FRAME then Inl (ValueError ''Command exceeds byte cap'')
      else case drv of
        Inl m \<Rightarrow> Inl (RuntimeError (''Could not reach Vortex Driver input socket: '' @ m))
      | Inr answers \<Rightarrow>
          (case read_exact ''driver closed mid-frame'' 4 (answers (be32 (length payload) @ payload)) of
             Inl e \<Rightarrow> Inl e
           | Inr (header, s) \<Rightarrow>
               (let n = of_be32 header in
                if n = 0 \<or> n > MAX_FRAME then Inl (ConnectionError ''Bogus response length'')
                else case read_exact ''driver closed mid-frame'' n s of
                  Inl e \<Rightarrow> Inl e
                | Inr (body, _) \<Rightarrow>
                    (case LOADS body of
                       None \<Rightarrow> Inl (RuntimeError ''Driver returned malformed JSON'')
                     | Some (JObj resp) \<Rightarrow>
                         if \<not> truthy (jget resp ''ok'')
                         then Inl (RuntimeError (py_str SH (jor (jget resp ''error'') (JStr ''driver reported failure''))))
                         else Inr (jget resp ''result'')
                     | Some _ \<Rightarrow> Inl AttributeError))))"

section \<open>Input on a desktop\<close>

text \<open>What is done to the pointer and the keyboard.\<close>

datatype action =
    MoveTo rat rat
  | MouseDown
  | Sleep rat
  | MouseUp
  | Click rat rat
  | DragTo rat rat rat
  | Scroll int
  | HScroll int
  | Hotkey "string list"
  | Press string
  | Write string

text \<open>
  The desktop: whether its libraries can be loaded (a message when not), the size of the screen, whether
  the wheel can go sideways, the monitors, and the numbers strings denote.
\<close>

record monitor =
  mo_left :: int
  mo_top :: int
  mo_width :: int
  mo_height :: int

record desktop =
  dk_gui :: "string option"
  dk_mss :: "string option"
  dk_pil :: "string option"
  dk_size :: "int \<times> int"
  dk_hscroll :: bool
  dk_mons :: "monitor list"
  dk_float :: "string \<Rightarrow> rat option"

definition gui :: "desktop \<Rightarrow> (action list, unit) op" where
  "gui D = (case dk_gui D of None \<Rightarrow> ret () | Some m \<Rightarrow> raise (RuntimeError (''pyautogui not available: '' @ m)))"

definition act :: "action \<Rightarrow> (action list, unit) op" where
  "act a = modify (\<lambda>past. past @ [a])"

definition num :: "desktop \<Rightarrow> json \<Rightarrow> (action list, rat) op" where
  "num D v = liftE (jfloat (dk_float D) v)"

definition monitor_json :: "nat \<Rightarrow> monitor \<Rightarrow> json" where
  "monitor_json i m = JObj [(''index'', JInt (int i)),
     (''label'', JStr (if i = 0 then ''All displays'' else ''Display '' @ int_str (int i))),
     (''width'', JInt (mo_width m)), (''height'', JInt (mo_height m)), (''left'', JInt (mo_left m)), (''top'', JInt (mo_top m)),
     (''primary'', JBool (i = 1))]"

definition list_monitors :: "desktop \<Rightarrow> exn + json list" where
  "list_monitors D = (case dk_mss D of
     Some m \<Rightarrow> Inl (RuntimeError (''mss not available: '' @ m))
   | None \<Rightarrow> Inr (map (\<lambda>i. monitor_json i (dk_mons D ! i)) [0..<length (dk_mons D)]))"

text \<open>The seconds a gesture lasts.\<close>

definition seconds :: "desktop \<Rightarrow> (string \<times> json) list \<Rightarrow> int \<Rightarrow> (action list, rat) op" where
  "seconds D cmd d = bindE (num D (jget_default cmd ''duration_ms'' (JInt d))) (\<lambda>ms. ret (max (ms / 1000) 0))"

definition touch :: "desktop \<Rightarrow> bool \<Rightarrow> (string \<times> json) list \<Rightarrow> (action list, unit) op" where
  "touch D long cmd = thenE (gui D)
     (bindE (num D (jget_default cmd ''x'' (JInt (-1)))) (\<lambda>x. bindE (num D (jget_default cmd ''y'' (JInt (-1)))) (\<lambda>y.
      if x < 0 \<or> y < 0 then raise (ValueError ''Missing/invalid x or y'')
      else if long then
        bindE (seconds D cmd 600) (\<lambda>dur.
          thenE (act (MoveTo x y)) (thenE (act MouseDown) (thenE (act (Sleep dur)) (act MouseUp))))
      else act (Click x y))))"

definition pair_of :: "json \<Rightarrow> (json \<times> json) option" where
  "pair_of v = (case v of JArr (a # b # _) \<Rightarrow> Some (a, b) | _ \<Rightarrow> None)"

definition swipe :: "desktop \<Rightarrow> (string \<times> json) list \<Rightarrow> (action list, unit) op" where
  "swipe D cmd = (case (pair_of (jget cmd ''from''), pair_of (jget cmd ''to'')) of
     (Some (a, b), Some (c, d)) \<Rightarrow> thenE (gui D)
       (bindE (seconds D cmd 300) (\<lambda>dur.
        bindE (num D a) (\<lambda>x. bindE (num D b) (\<lambda>y. thenE (act (MoveTo x y))
        (bindE (num D c) (\<lambda>u. bindE (num D d) (\<lambda>v. act (DragTo u v dur))))))))
   | _ \<Rightarrow> raise (ValueError ''Missing/invalid from or to''))"

text \<open>The wheel: the pointer is moved first, if both coordinates are there and are numbers.\<close>

definition scroll :: "desktop \<Rightarrow> (string \<times> json) list \<Rightarrow> (action list, unit) op" where
  "scroll D cmd = thenE (gui D)
     (thenE (if jget cmd ''x'' \<noteq> JNull \<and> jget cmd ''y'' \<noteq> JNull then
         catch (bindE (num D (jget cmd ''x'')) (\<lambda>x. bindE (num D (jget cmd ''y'')) (\<lambda>y. act (MoveTo x y))))
           (\<lambda>e. case e of TypeError \<Rightarrow> ret () | ValueError _ \<Rightarrow> ret () | _ \<Rightarrow> raise e)
       else ret ())
     (bindE (num D (jor (jget_default cmd ''dy'' (JInt 0)) (JInt 0))) (\<lambda>dy.
      bindE (num D (jor (jget_default cmd ''dx'' (JInt 0)) (JInt 0))) (\<lambda>dx.
        thenE (if py_round dy \<noteq> 0 then act (Scroll (py_round dy)) else ret ())
          (if py_round dx \<noteq> 0 \<and> dk_hscroll D then act (HScroll (py_round dx)) else ret ())))))"

definition key_press :: "(json \<Rightarrow> string) \<Rightarrow> desktop \<Rightarrow> (string \<times> json) list \<Rightarrow> (action list, unit) op" where
  "key_press SH D cmd = thenE (gui D) (bindE (liftE (text_or_empty cmd ''key'')) (\<lambda>k.
     let key = lower (strip k) in
     if key = [] then raise (ValueError ''key command needs a non-empty key name'')
     else case jor (jget cmd ''modifiers'') (JArr []) of
       JArr ms \<Rightarrow> (let mods = filter (\<lambda>m. m \<noteq> []) (map (\<lambda>m. lower (strip (py_str SH m))) ms) in
         if mods \<noteq> [] then act (Hotkey (mods @ [key])) else act (Press key))
     | _ \<Rightarrow> raise (ValueError ''modifiers must be a list'')))"

definition dispatch :: "(json \<Rightarrow> string) \<Rightarrow> desktop \<Rightarrow> (string \<times> json) list \<Rightarrow> (action list, json) op" where
  "dispatch SH D cmd = bindE (liftE (text_or_empty cmd ''type'')) (\<lambda>ty.
     let t = strip ty; quietly = (\<lambda>m. thenE m (ret JNull)) in
     if t = ''screen_size'' then
       thenE (gui D) (ret (JObj [(''w'', JInt (fst (dk_size D))), (''h'', JInt (snd (dk_size D))), (''os'', JStr ''desktop'')]))
     else if t = ''a11y_state'' then ret (JObj [(''enabled'', JBool True)])
     else if t = ''monitors'' then bindE (liftE (list_monitors D)) (\<lambda>ms. ret (JObj [(''monitors'', JArr ms)]))
     else if t = ''tap'' then quietly (touch D False cmd)
     else if t = ''long_press'' then quietly (touch D True cmd)
     else if t = ''swipe'' then quietly (swipe D cmd)
     else if t = ''scroll'' then quietly (scroll D cmd)
     else if t = ''key'' then quietly (key_press SH D cmd)
     else if t = ''text'' then
       (case jget cmd ''text'' of
          JStr s \<Rightarrow> quietly (if s \<noteq> [] then thenE (gui D) (act (Write s)) else ret ())
        | _ \<Rightarrow> raise (ValueError ''text command needs a string''))
     else if t \<in> {''back'', ''home'', ''recents'', ''notifications''} then
       raise (RuntimeError (t @ '' is an Android navigation button''))
     else raise (RuntimeError (''Unknown input command type: '' @ t)))"

section \<open>The screen of a desktop\<close>

definition clamp_quality :: "int \<Rightarrow> int" where
  "clamp_quality q = max 10 (min (if q = 0 then 60 else q) 95)"

text \<open>The monitor wanted, or the primary one, or all of them when there is no other.\<close>

definition pick_monitor :: "'m list \<Rightarrow> int \<Rightarrow> 'm" where
  "pick_monitor mons want = (if 0 \<le> want \<and> want < int (length mons) then mons ! nat want
     else if length mons > 1 then mons ! 1 else mons ! 0)"

definition scaled :: "int \<Rightarrow> int \<times> int \<Rightarrow> int \<times> int" where
  "scaled cap dims = (case dims of (w, h) \<Rightarrow>
     if cap \<noteq> 0 \<and> max w h > cap then
       (let f = (\<lambda>n. max 1 (trunc_rat (of_int n * (of_int cap / of_int (max w h))))) in (f w, f h))
     else (w, h))"

text \<open>The pause after a frame that took \<open>dt\<close> seconds; zero stands for ten frames a second.\<close>

definition frame_pause :: "rat \<Rightarrow> rat \<Rightarrow> rat" where
  "frame_pause fps_cap dt =
     (let fps = (if fps_cap = 0 then 10 else fps_cap); min_dt = (if fps > 0 then 1 / fps else 0) in
      if min_dt \<noteq> 0 \<and> dt < min_dt then min_dt - dt else 0)"

text \<open>
  The frames of a capture: \<open>shots\<close> are the pictures of a monitor until grabbing fails (with an exception)
  or the viewer is gone, \<open>JPEG\<close> encodes a picture in a size and a quality.
\<close>

definition open_pc ::
  "desktop \<Rightarrow> (monitor \<Rightarrow> 'i list \<times> exn option) \<Rightarrow> ('i \<Rightarrow> int \<times> int) \<Rightarrow> ('i \<Rightarrow> int \<times> int \<Rightarrow> int \<Rightarrow> byte list) \<Rightarrow>
   int \<Rightarrow> int \<Rightarrow> rat \<Rightarrow> int \<Rightarrow> source" where
  "open_pc D shots dims JPEG quality max_dim fps_cap want =
     (case dk_mss D of Some m \<Rightarrow> Inl (''mss not available: '' @ m)
      | None \<Rightarrow> (case dk_pil D of Some m \<Rightarrow> Inl (''Pillow not available: '' @ m)
        | None \<Rightarrow> (case shots (pick_monitor (dk_mons D) want) of (imgs, e) \<Rightarrow>
            Inr (map (\<lambda>i. JPEG i (scaled max_dim (dims i)) (clamp_quality quality)) imgs, e))))"

section \<open>Reading does not depend on the pieces\<close>

text \<open>A socket that delivers no empty piece, and what it delivers in all.\<close>

definition lively :: "sock \<Rightarrow> bool" where
  "lively s \<longleftrightarrow> [] \<notin> set (fst s)"

definition ended :: "string \<Rightarrow> exn option \<Rightarrow> exn" where
  "ended gone e = (case e of None \<Rightarrow> ConnectionError gone | Some x \<Rightarrow> x)"

lemma recv_lively:
  assumes "lively s" and "0 < n"
  shows "(fst s = [] \<and> recv n s = (case snd s of None \<Rightarrow> Inr ([], s) | Some x \<Rightarrow> Inl x)) \<or>
    (\<exists>c t. recv n s = Inr (c, t) \<and> c \<noteq> [] \<and> length c \<le> n \<and> lively t)"
  using assms by (cases s; cases "fst s") (auto simp: recv_def lively_def split: option.split)

lemma read_exact_lively:
  assumes "lively s" and "n \<le> length (concat (fst s))"
  shows "\<exists>t. read_exact gone n s = Inr (take n (concat (fst s)), t) \<and> lively t \<and>
    concat (fst t) = drop n (concat (fst s)) \<and> snd t = snd s"
  using assms
proof (induction gone n s rule: read_exact.induct)
  case (1 gone n s)
  show ?case
  proof (cases "n = 0")
    case False
    then obtain c t where c: "recv n s = Inr (c, t)" "c \<noteq> []" "length c \<le> n" "lively t"
      using recv_lively [OF "1.prems"(1), of n] "1.prems"(2) by auto
    have b: "concat (fst s) = c @ concat (fst t)" "snd t = snd s" using recv_bytes [OF c(1)] by auto
    have "n - length c \<le> length (concat (fst t))" using "1.prems"(2) b(1) by simp
    from "1.IH" [OF False c(1) refl c(2) c(4) this] c b show ?thesis
      by (subst read_exact.simps) (auto simp: False)
  qed (use "1.prems" in \<open>simp add: read_exact.simps\<close>)
qed

lemma read_exact_short:
  assumes "lively s" and "length (concat (fst s)) < n"
  shows "read_exact gone n s = Inl (ended gone (snd s))"
  using assms
proof (induction gone n s rule: read_exact.induct)
  case (1 gone n s)
  then have n: "n \<noteq> 0" by auto
  from recv_lively [OF "1.prems"(1), of n] n consider
      "fst s = []" "recv n s = (case snd s of None \<Rightarrow> Inr ([], s) | Some x \<Rightarrow> Inl x)"
    | c t where "recv n s = Inr (c, t)" "c \<noteq> []" "length c \<le> n" "lively t" by auto
  then show ?case
  proof cases
    case 1
    then show ?thesis using n by (subst read_exact.simps) (simp add: ended_def split: option.split)
  next
    case (2 c t)
    with recv_bytes [OF 2(1)] "1.prems"(2) have "length (concat (fst t)) < n - length c" "snd t = snd s" by auto
    with "1.IH" [OF n 2(1) refl 2(2) 2(4)] 2 n show ?thesis by (subst read_exact.simps) simp
  qed
qed

lemma of_be32:
  assumes "n < 2 ^ 32"
  shows "of_be32 (be32 n) = n"
proof -
  have d: "n div 2 ^ 8 = n div 256" "n div 2 ^ 16 = n div 256 div 256" "n div 2 ^ 24 = n div 256 div 256 div 256"
    by (simp_all add: div_mult2_eq [symmetric])
  have "n div 256 div 256 div 256 < 256" using assms by (simp add: less_mult_imp_div_less)
  then show ?thesis unfolding of_be32_def be32_def d by (simp add: unat_of_nat)
qed

lemma length_be32 [simp]: "length (be32 n) = 4"
  by (simp add: be32_def)

text \<open>What is left of a frame that does not come to its end.\<close>

definition broken_off :: "byte list \<Rightarrow> bool" where
  "broken_off bs \<longleftrightarrow> length bs < 4 \<or>
     (0 < of_be32 (take 4 bs) \<and> of_be32 (take 4 bs) \<le> MAX_FRAME_BYTES \<and> length bs - 4 < of_be32 (take 4 bs))"

lemma stream_step:
  assumes "lively s" and "concat (fst s) = frame b @ later" and "b \<noteq> []" and "length b \<le> MAX_FRAME_BYTES"
  shows "\<exists>t. lively t \<and> concat (fst t) = later \<and> snd t = snd s \<and>
    stream_from_socket s = (b # fst (stream_from_socket t), snd (stream_from_socket t))"
proof -
  obtain h where h: "read_exact ''Driver closed the socket mid-frame'' 4 s = Inr (be32 (length b), h)"
      "lively h" "concat (fst h) = b @ later" "snd h = snd s"
    using read_exact_lively [OF assms(1), of 4 "''Driver closed the socket mid-frame''"] assms(2) by (auto simp: frame_def)
  obtain t where t: "read_exact ''Driver closed the socket mid-frame'' (length b) h = Inr (b, t)"
      "lively t" "concat (fst t) = later" "snd t = snd s"
    using read_exact_lively [OF h(2), of "length b" "''Driver closed the socket mid-frame''"] h(3,4) by auto
  have n: "of_be32 (be32 (length b)) = length b" using assms(4) by (intro of_be32) (simp add: MAX_FRAME_BYTES_def)
  show ?thesis using t assms(3,4) h(1) n
    by (intro exI [of _ t], subst stream_from_socket.simps) (simp add: Let_def split: prod.split)
qed

lemma stream_stops:
  assumes "lively s" and "broken_off (concat (fst s))" and "\<And>x. snd s = Some x \<Longrightarrow> sock_error x"
  shows "stream_from_socket s = ([], None)"
proof -
  have e: "sock_error (ended m (snd s))" for m
    using assms(3) by (cases "snd s") (auto simp: ended_def sock_error_def os_error_def)
  show ?thesis
  proof (cases "length (concat (fst s)) < 4")
    case True
    with read_exact_short [OF assms(1)] e show ?thesis by (subst stream_from_socket.simps) simp
  next
    case False
    then obtain h where h: "read_exact ''Driver closed the socket mid-frame'' 4 s = Inr (take 4 (concat (fst s)), h)"
        "lively h" "concat (fst h) = drop 4 (concat (fst s))" "snd h = snd s"
      using read_exact_lively [OF assms(1), of 4] False by (metis not_less)
    moreover have "length (concat (fst h)) < of_be32 (take 4 (concat (fst s)))"
      using False assms(2) h(3) by (simp add: broken_off_def)
    ultimately show ?thesis using read_exact_short [OF h(2)] e assms(2) False
      by (subst stream_from_socket.simps) (simp add: Let_def broken_off_def)
  qed
qed

lemma frames_read:
  assumes "[] \<notin> set pieces" and "concat pieces = concat (map frame bs) @ rest" and "broken_off rest"
    and "\<forall>b \<in> set bs. b \<noteq> [] \<and> length b \<le> MAX_FRAME_BYTES" and "\<And>x. e = Some x \<Longrightarrow> sock_error x"
  shows "open_stream (Inr (pieces, e)) = Inr (bs, None) \<and> open_screen (Inr (pieces, e)) = Inr (bs, None)"
proof -
  have "stream_from_socket s = (bs, None)"
    if "lively s" "concat (fst s) = concat (map frame bs) @ rest" "snd s = e" for s
    using that assms(4)
  proof (induction bs arbitrary: s)
    case Nil
    then show ?case using assms(3,5) by (intro stream_stops) auto
  next
    case (Cons b bs)
    then obtain t where "lively t" "concat (fst t) = concat (map frame bs) @ rest" "snd t = e"
        "stream_from_socket s = (b # fst (stream_from_socket t), snd (stream_from_socket t))"
      using stream_step [of s b "concat (map frame bs) @ rest"] by auto
    with Cons.IH [of t] Cons.prems(4) show ?case by simp
  qed
  then show ?thesis using assms(1,2) by (simp add: open_stream_def open_screen_def lively_def)
qed

text \<open>
  The frames of the driver arrive however the network cuts them. Whatever the pieces in which the
  socket delivers the frames and wherever in the last one it breaks off, the source of the camera or of
  the screen is exactly the complete frames, in order, and ends without an error.
\<close>

theorem frames_survive_cutting:
  assumes "[] \<notin> set pieces" and "concat pieces = concat (map frame bs) @ rest" and "broken_off rest"
    and "\<forall>b \<in> set bs. b \<noteq> [] \<and> length b \<le> MAX_FRAME_BYTES" and "\<And>x. e = Some x \<Longrightarrow> sock_error x"
  shows "open_stream (Inr (pieces, e)) = Inr (bs, None) \<and> open_screen (Inr (pieces, e)) = Inr (bs, None)"
  using assms by (rule frames_read)

text \<open>Two frames of one and two bytes, cut inside a header, and the first byte of a third.\<close>

theorem frames_survive_cutting_witness:
  "open_stream (Inr ([[0, 0, 0], [1, 7, 0], [0, 0, 2, 8, 9, 0]], None)) = Inr ([[7], [8, 9]], None) \<and>
   open_screen (Inr ([[0, 0, 0], [1, 7, 0], [0, 0, 2, 8, 9, 0]], None)) = Inr ([[7], [8, 9]], None)"
  by (rule frames_survive_cutting [where rest = "[0]"])
    (simp_all add: frame_def be32_def broken_off_def MAX_FRAME_BYTES_def)

section \<open>The call of the input socket\<close>

text \<open>
  Input reaches the driver and its answer comes back. When the driver on the phone answers the framed
  command with a framed object, in whatever pieces, the operation returns the driver's result, or that it
  is done when there is none, and fails with the driver's own message when the driver says so.
\<close>

theorem input_reaches_driver:
  assumes "is_android M" and "length (DUMPS (JObj cmd)) \<le> MAX_FRAME"
    and "answers (frame (DUMPS (JObj cmd))) = (pieces, e)" and "[] \<notin> set pieces"
    and "concat pieces = frame (DUMPS (JObj resp))" and "DUMPS (JObj resp) \<noteq> []" and "length (DUMPS (JObj resp)) \<le> MAX_FRAME"
    and "LOADS (DUMPS (JObj resp)) = Some (JObj resp)"
  shows "op_input M (send_desktop) (send_command SH DUMPS LOADS (Inr answers)) (JObj [(''command'', JObj cmd)]) =
    (if truthy (jget resp ''ok'')
     then Inr (case jget resp ''result'' of JNull \<Rightarrow> JObj [(''acked'', JBool True)] | v \<Rightarrow> v)
     else Inl (RuntimeError (py_str SH (jor (jget resp ''error'') (JStr ''driver reported failure'')))))"
proof -
  let ?b = "DUMPS (JObj resp)"
  have l: "lively (pieces, e)" using assms(4) by (simp add: lively_def)
  obtain h where h: "read_exact ''driver closed mid-frame'' 4 (pieces, e) = Inr (be32 (length ?b), h)"
      "lively h" "concat (fst h) = ?b"
    using read_exact_lively [OF l, of 4 "''driver closed mid-frame''"] assms(5) by (auto simp: frame_def)
  obtain t where t: "read_exact ''driver closed mid-frame'' (length ?b) h = Inr (?b, t)"
    using read_exact_lively [OF h(2), of "length ?b" "''driver closed mid-frame''"] h(3) by auto
  have n: "of_be32 (be32 (length ?b)) = length ?b" using assms(7) by (intro of_be32) (simp add: MAX_FRAME_def)
  have "send_command SH DUMPS LOADS (Inr answers) cmd = (if truthy (jget resp ''ok'') then Inr (jget resp ''result'')
     else Inl (RuntimeError (py_str SH (jor (jget resp ''error'') (JStr ''driver reported failure'')))))"
    using assms h(1) t n by (simp add: send_command_def Let_def frame_def)
  then show ?thesis using assms(1) by (simp add: op_input_def jget_or_def split: json.split)
qed

definition demo_phone :: machine where
  "demo_phone = bare_machine\<lparr>mc_env := (\<lambda>k. if k = ''TERMUX_VERSION'' then Some ''1'' else None)\<rparr>"

theorem input_reaches_driver_witness:
  "op_input demo_phone (\<lambda>_. Inl TypeError) (send_command (\<lambda>_. []) (\<lambda>v. if v = JObj [(''ok'', JBool True)] then [1] else [2])
     (\<lambda>_. Some (JObj [(''ok'', JBool True)])) (Inr (\<lambda>_. ([[0, 0], [0, 1, 1]], None)))) (JObj [(''command'', JObj [(''type'', JStr ''home'')])]) =
   (if truthy (jget [(''ok'', JBool True)] ''ok'')
     then Inr (case jget [(''ok'', JBool True)] ''result'' of JNull \<Rightarrow> JObj [(''acked'', JBool True)] | v \<Rightarrow> v)
     else Inl (RuntimeError (py_str (\<lambda>_. []) (jor (jget [(''ok'', JBool True)] ''error'') (JStr ''driver reported failure'')))))"
  by (rule input_reaches_driver [where pieces = "[[0, 0], [0, 1, 1]]" and e = None])
    (simp_all add: demo_phone_def bare_machine_def is_android_def opt_str_def MAX_FRAME_def frame_def be32_def)

section \<open>Commands on a desktop\<close>

definition held :: "action list \<Rightarrow> bool" where
  "held past = fold (\<lambda>a h. case a of MouseDown \<Rightarrow> True | MouseUp \<Rightarrow> False | _ \<Rightarrow> h) past False"

definition moves :: "action list \<Rightarrow> bool" where
  "moves past \<longleftrightarrow> (\<forall>a \<in> set past. \<exists>x y. a = MoveTo x y)"

definition carried_out :: "action list \<Rightarrow> action list \<Rightarrow> bool" where
  "carried_out past l \<longleftrightarrow> (\<exists>new. l = past @ new \<and> \<not> held new \<and> length new \<le> 4)"

definition turned_down :: "action list \<Rightarrow> action list \<Rightarrow> bool" where
  "turned_down past l \<longleftrightarrow> (\<exists>new. l = past @ new \<and> moves new)"

lemma outcome_simps [simp]:
  "carried_out past past" "turned_down past past" "turned_down past (past @ [MoveTo x y])"
  by (auto simp: carried_out_def turned_down_def moves_def held_def)

lemma carried_simps [simp]:
  "carried_out past (past @ new) \<longleftrightarrow> \<not> held new \<and> length new \<le> 4"
  by (simp add: carried_out_def)

lemma wp_desktop [wps]:
  "wp (gui D) Q R l = (case dk_gui D of None \<Rightarrow> Q () l | Some m \<Rightarrow> R (RuntimeError (''pyautogui not available: '' @ m)) l)"
  "wp (act a) Q R l = Q () (l @ [a])"
  by (simp_all add: gui_def act_def wps split: option.split)

lemma wp_num [wps]: "wp (num D v) Q R l = (case jfloat (dk_float D) v of Inl e \<Rightarrow> R e l | Inr q \<Rightarrow> Q q l)"
  by (simp add: num_def wps)

lemma wp_seconds [wps]:
  "wp (seconds D cmd d) Q R l = (case jfloat (dk_float D) (jget_default cmd ''duration_ms'' (JInt d)) of Inl e \<Rightarrow> R e l | Inr ms \<Rightarrow> Q (max (ms / 1000) 0) l)"
  by (simp add: seconds_def wps split: sum.split)

lemma wp_ret_fun: "wp (ret a) Q R = Q a"
  by (rule ext) (simp add: wps)

lemma gestures:
  "wp (touch D long cmd) (\<lambda>_. carried_out past) (\<lambda>_. turned_down past) past"
  "wp (swipe D cmd) (\<lambda>_. carried_out past) (\<lambda>_. turned_down past) past"
  "wp (scroll D cmd) (\<lambda>_. carried_out past) (\<lambda>_. turned_down past) past"
  "wp (key_press SH D cmd) (\<lambda>_. carried_out past) (\<lambda>_. turned_down past) past"
     apply (auto simp: touch_def wps wp_if held_def split: sum.split option.split)[1]
    apply (auto simp: swipe_def wps wp_if held_def split: sum.split option.split)[1]
   apply (auto simp: scroll_def wps wp_if held_def Let_def split: sum.split option.split exn.split)[1]
  apply (auto simp: key_press_def wps wp_if held_def Let_def split: sum.split option.split json.split)[1]
  done


definition demo_pc :: desktop where
  "demo_pc = \<lparr>dk_gui = None, dk_mss = None, dk_pil = None, dk_size = (100, 80), dk_hscroll = False,
     dk_mons = [\<lparr>mo_left = 0, mo_top = 0, mo_width = 200, mo_height = 80\<rparr>, \<lparr>mo_left = 0, mo_top = 0, mo_width = 100, mo_height = 80\<rparr>],
     dk_float = (\<lambda>_. None)\<rparr>"


section \<open>Captures\<close>

lemma trunc_share:
  assumes "0 < n" and "n \<le> m" and "0 < c" and "c < m"
  shows "trunc_rat (of_int n * (of_int c / of_int m)) \<le> c \<and> trunc_rat (of_int n * (of_int c / of_int m)) \<le> n"
proof -
  let ?q = "(of_int n * (of_int c / of_int m)) :: rat"
  have "0 \<le> ?q" using assms by simp
  moreover have "?q \<le> of_int c" using assms by (simp add: field_simps)
  moreover have "?q \<le> of_int n" using assms by (simp add: field_simps)
  ultimately show ?thesis by (simp add: trunc_rat_def) linarith
qed

lemma scaled_bounds:
  assumes "0 < w" and "0 < h" and "0 \<le> cap" and "scaled cap (w, h) = (u, v)"
  shows "1 \<le> u \<and> u \<le> w \<and> 1 \<le> v \<and> v \<le> h \<and> (0 < cap \<longrightarrow> u \<le> cap \<and> v \<le> cap)"
proof (cases "cap \<noteq> 0 \<and> max w h > cap")
  case True
  then show ?thesis
    using assms trunc_share [of w "max w h" cap] trunc_share [of h "max w h" cap] by (auto simp: scaled_def Let_def)
next
  case False
  then show ?thesis using assms by (auto simp: scaled_def)
qed

text \<open>
  A capture keeps within its bounds. Every frame is encoded with a quality from 10 to 95 and is at
  least one pixel and at most as large as the picture in both directions; when a largest dimension is
  given, neither direction is longer.
\<close>

theorem capture_within_bounds:
  assumes "open_pc D shots dims JPEG quality max_dim fps_cap want = Inr (frames, e)"
    and "\<And>i. 0 < fst (dims i) \<and> 0 < snd (dims i)" and "0 \<le> max_dim" and "f \<in> set frames"
  shows "\<exists>i w h q. f = JPEG i (w, h) q \<and> 10 \<le> q \<and> q \<le> 95 \<and> 1 \<le> w \<and> w \<le> fst (dims i) \<and> 1 \<le> h \<and> h \<le> snd (dims i) \<and>
    (0 < max_dim \<longrightarrow> w \<le> max_dim \<and> h \<le> max_dim)"
proof -
  obtain i where i: "f = JPEG i (scaled max_dim (dims i)) (clamp_quality quality)"
    using assms(1,4) by (auto simp: open_pc_def split: option.splits prod.splits)
  obtain w h where wh: "scaled max_dim (dims i) = (w, h)" by (cases "scaled max_dim (dims i)")
  have "10 \<le> clamp_quality quality \<and> clamp_quality quality \<le> 95" by (simp add: clamp_quality_def)
  moreover note scaled_bounds [of "fst (dims i)" "snd (dims i)" max_dim w h]
  ultimately show ?thesis using i wh assms(2) [of i] assms(3) by auto
qed

theorem capture_within_bounds_witness:
  "\<exists>frames e f i w h q. open_pc demo_pc (\<lambda>_. ([()], None)) (\<lambda>_. (200, 100)) (\<lambda>i (w, h) q. [of_int w, of_int h, of_int q]) 500 50 0 1 =
      Inr (frames, e) \<and> f \<in> set frames \<and> f = (\<lambda>i (w, h) q. [of_int w, of_int h, of_int q]) i (w, h) q \<and> q \<le> 95 \<and> w \<le> 50 \<and> h \<le> (50::int)"
proof -
  define J :: "unit \<Rightarrow> int \<times> int \<Rightarrow> int \<Rightarrow> byte list" where "J = (\<lambda>i (w, h) q. [of_int w, of_int h, of_int q])"
  have o: "open_pc demo_pc (\<lambda>_. ([()], None)) (\<lambda>_. (200, 100)) J 500 50 0 1 = Inr ([J () (scaled 50 (200, 100)) (clamp_quality 500)], None)"
    by (simp add: open_pc_def demo_pc_def)
  from capture_within_bounds [OF o, of "J () (scaled 50 (200, 100)) (clamp_quality 500)"] o show ?thesis
    unfolding J_def by force
qed

end
