(* ===== verification/AgentPairing.thy ===== *)
theory AgentPairing
  imports AgentConnect
begin

text \<open>
  How an agent comes to its configuration (\<^verbatim>\<open>agent/pairing.py\<close>) and how it starts (\<open>main\<close> of
  \<^verbatim>\<open>agent/agent.py\<close>): the stored configuration and the draft of a failed attempt, the pairing with a
  code, the enrollment with an account token, waiting for the browser, and the choice between them. The
  environment, what the user types and what the hub answers are parameters.
\<close>

section \<open>The files\<close>

text \<open>A file of the agent: not there, not readable as JSON, or holding a value.\<close>

datatype stored = Absent | Unreadable | Holds json

text \<open>
  The configuration, the draft beside it, the lines the user will type, and the requests made so far.
\<close>

record pairing =
  pg_config :: stored
  pg_draft :: stored
  pg_typed :: "string list"
  pg_sent :: "(string \<times> json) list"

text \<open>
  What a request comes to: no connection, another failure of the transport, or a status with the decoded
  body (none when it is not JSON) and its text.
\<close>

datatype reply = NoRoute string | Broken string | Reply int "json option" string

record surroundings =
  su_env :: "string \<Rightarrow> string option"
  su_tty :: bool
  su_writes :: bool
  su_post :: "string \<Rightarrow> json \<Rightarrow> reply"

definition env_text :: "surroundings \<Rightarrow> string \<Rightarrow> string" where
  "env_text E k = opt_str (su_env E k)"

definition load_config :: "stored \<Rightarrow> exn + (string \<times> json) list option" where
  "load_config f = (case f of Absent \<Rightarrow> Inr None | Unreadable \<Rightarrow> Inr None
   | Holds (JObj d) \<Rightarrow>
       Inr (if \<not> truthy (jget d ''device_id'') \<or> \<not> truthy (jget d ''token'') then None
         else if \<not> truthy (jget d ''hub_url'') \<and> \<not> truthy (jget d ''nodes'') then None
         else Some d)
   | Holds _ \<Rightarrow> Inl AttributeError)"

definition load_draft :: "stored \<Rightarrow> (string \<times> json) list" where
  "load_draft f = (case f of Holds (JObj d) \<Rightarrow> d | _ \<Rightarrow> [])"

text \<open>A file is replaced, or writing fails and it stays as it was.\<close>

definition atomic_write :: "surroundings \<Rightarrow> (pairing \<Rightarrow> pairing) \<Rightarrow> (pairing, unit) op" where
  "atomic_write E put = (if su_writes E then modify put else raise (OSError ''cannot write''))"

definition write_config :: "surroundings \<Rightarrow> (string \<times> json) list \<Rightarrow> (pairing, unit) op" where
  "write_config E d = atomic_write E (\<lambda>s. s\<lparr>pg_config := Holds (JObj d)\<rparr>)"

text \<open>Updates of the draft that are not false are merged into it.\<close>

definition merge_draft :: "(string \<times> json) list \<Rightarrow> (string \<times> json) list \<Rightarrow> (string \<times> json) list" where
  "merge_draft updates d = fold (\<lambda>(k, v) d. if truthy v then dict_put k v d else d) updates d"

definition save_draft :: "surroundings \<Rightarrow> (string \<times> json) list \<Rightarrow> (pairing, unit) op" where
  "save_draft E updates =
     atomic_write E (\<lambda>s. s\<lparr>pg_draft := Holds (JObj (merge_draft updates (load_draft (pg_draft s))))\<rparr>)"

definition clear_draft :: "surroundings \<Rightarrow> (pairing, unit) op" where
  "clear_draft E = modify (\<lambda>s. if su_writes E then s\<lparr>pg_draft := Absent\<rparr> else s)"

section \<open>Asking\<close>

text \<open>At the end of the input a line is empty, and a hidden entry raises.\<close>

definition prompt :: "surroundings \<Rightarrow> bool \<Rightarrow> string \<Rightarrow> (pairing, string) op" where
  "prompt E secret label =
     (if \<not> su_tty E then raise (RuntimeError (label @ '' required (non-interactive: set the env var)''))
      else (\<lambda>s. case pg_typed s of
          [] \<Rightarrow> (if secret then Inl EOFError else Inr [], s)
        | l # ls \<Rightarrow> (Inr (strip l), s\<lparr>pg_typed := ls\<rparr>)))"

text \<open>\<open>(argument or environment or draft or '')\<close>, as a text.\<close>

definition field_of :: "surroundings \<Rightarrow> string \<Rightarrow> string \<Rightarrow> (string \<times> json) list \<Rightarrow> string \<Rightarrow> exn + string" where
  "field_of E arg var draft key =
     (if or_str arg (env_text E var) \<noteq> [] then Inr (or_str arg (env_text E var)) else text_or_empty draft key)"

definition is_url :: "string \<Rightarrow> bool" where
  "is_url u \<longleftrightarrow> startswith ''http://'' u \<or> startswith ''https://'' u"

text \<open>The address of the hub, asked for when it is not known, and kept in the draft.\<close>

definition ask_url :: "surroundings \<Rightarrow> string \<Rightarrow> string \<Rightarrow> (pairing, string) op" where
  "ask_url E label url0 =
     bindE (if url0 = [] then bindE (prompt E False label) (\<lambda>u. ret (rstrip_slash u)) else ret url0) (\<lambda>url.
     thenE (save_draft E [(''hub_url'', JStr url)]) (ret url))"

section \<open>Pairing with a code\<close>

text \<open>A request is made; what fails on the way or is refused by the hub becomes a message.\<close>

definition post_json :: "(json \<Rightarrow> string) \<Rightarrow> surroundings \<Rightarrow> string \<Rightarrow> string \<Rightarrow> json \<Rightarrow> (pairing, json option) op" where
  "post_json SH E failed url body =
     thenE (modify (\<lambda>s. s\<lparr>pg_sent := pg_sent s @ [(url, body)]\<rparr>))
       (case su_post E url body of
          NoRoute m \<Rightarrow> raise (RuntimeError (''Could not reach '' @ url @ '': '' @ m))
        | Broken m \<Rightarrow> raise (RuntimeError (''Network error talking to '' @ url @ '': '' @ m))
        | Reply status j t \<Rightarrow>
            if status = 200 then ret j
            else bindE (case j of None \<Rightarrow> ret (JStr t) | Some d \<Rightarrow> liftE (jget_or d ''detail'' (JStr t))) (\<lambda>detail.
              raise (RuntimeError (failed @ '' failed ('' @ int_str status @ ''): '' @ py_str SH detail))))"

text \<open>\<open>data['k']\<close> of the answer.\<close>

definition item :: "(string \<times> json) list \<Rightarrow> string \<Rightarrow> exn + json" where
  "item d k = (case map_of d k of None \<Rightarrow> Inl KeyError | Some v \<Rightarrow> Inr v)"

text \<open>The name of the device: asked for only when something else has been.\<close>

definition ask_name :: "surroundings \<Rightarrow> bool \<Rightarrow> (string \<times> json) list \<Rightarrow> json \<Rightarrow> (pairing, json) op" where
  "ask_name E asked draft name =
     (if \<not> truthy name \<and> asked \<and> su_tty E then
        bindE (prompt E False ''Device name'') (\<lambda>entered.
          ret (if entered \<noteq> [] then JStr entered else jget_default draft ''device_name'' (JStr [])))
      else ret name)"

definition named_body :: "string \<Rightarrow> string \<Rightarrow> json \<Rightarrow> json" where
  "named_body key v name = JObj ((key, JStr v) # (if truthy name then [(''device_name'', name)] else []))"

text \<open>The checks, the request, and what is kept of the answer.\<close>

definition submit_code :: "(json \<Rightarrow> string) \<Rightarrow> surroundings \<Rightarrow> string \<Rightarrow> string \<Rightarrow> json \<Rightarrow> (pairing, (string \<times> json) list) op" where
  "submit_code SH E url code name =
     (if \<not> is_url url then raise (ValueError ''HUB_URL must be http:// or https://'')
      else if code = [] \<or> \<not> isdigit code \<or> length code \<noteq> 6 then raise (ValueError ''Pairing code must be exactly 6 digits'')
      else bindE (post_json SH E ''Pairing'' (url @ ''/api/pair'') (named_body ''code'' code name)) (\<lambda>answer.
        case answer of
          None \<Rightarrow> raise (ValueError ''not JSON'')
        | Some (JObj data) \<Rightarrow>
            bindE (liftE (item data ''device_id'')) (\<lambda>did.
            bindE (liftE (item data ''token'')) (\<lambda>tok.
            let cfg = [(''device_id'', did), (''token'', tok), (''hub_url'', JStr url),
                       (''name'', jget_default data ''name'' (jor name (JStr ''Unnamed'')))] in
            thenE (write_config E cfg) (thenE (clear_draft E) (ret cfg))))
        | Some _ \<Rightarrow> raise TypeError))"

definition pair_now :: "(json \<Rightarrow> string) \<Rightarrow> surroundings \<Rightarrow> string \<Rightarrow> string \<Rightarrow> string \<Rightarrow> (pairing, (string \<times> json) list) op" where
  "pair_now SH E arg_url arg_code arg_name =
     bindE (asks (\<lambda>s. load_draft (pg_draft s))) (\<lambda>draft.
     bindE (liftE (field_of E arg_url ''HUB_URL'' draft ''hub_url'')) (\<lambda>u.
     let url0 = rstrip_slash u;
         code0 = or_str arg_code (env_text E ''PAIRING_CODE'');
         given = or_str arg_name (env_text E ''DEVICE_NAME'');
         name0 = (if given \<noteq> [] then JStr given else jor (jget draft ''device_name'') (JStr [])) in
     bindE (ask_url E ''Hub URL'' url0) (\<lambda>url.
     bindE (if code0 = [] then prompt E False ''Pairing code (6 digits)'' else ret code0) (\<lambda>code.
     bindE (ask_name E (url0 = [] \<or> code0 = []) draft name0) (\<lambda>name.
     thenE (if truthy name then save_draft E [(''device_name'', name)] else ret ())
       (submit_code SH E url code name))))))"

section \<open>Enrollment with an account token\<close>

text \<open>\<open>if hub_url not in nodes: nodes = [hub_url] + nodes\<close>.\<close>

definition with_hub :: "string \<Rightarrow> json \<Rightarrow> exn + json" where
  "with_hub url nodes = (case nodes of
     JArr xs \<Rightarrow> Inr (if JStr url \<in> set xs then nodes else JArr (JStr url # xs))
   | JStr s \<Rightarrow> if has_sub url s then Inr nodes else Inl TypeError
   | JObj kvs \<Rightarrow> if url \<in> fst ` set kvs then Inr nodes else Inl TypeError
   | _ \<Rightarrow> Inl TypeError)"

definition submit_token :: "(json \<Rightarrow> string) \<Rightarrow> surroundings \<Rightarrow> string \<Rightarrow> string \<Rightarrow> string \<Rightarrow> (pairing, (string \<times> json) list) op" where
  "submit_token SH E url token name =
     (if \<not> is_url url then raise (ValueError ''HUB_URL must be http:// or https://'')
      else if token = [] then raise (ValueError ''An account enrollment token is required'')
      else bindE (post_json SH E ''Enrollment'' (url @ ''/api/enroll'') (named_body ''account_token'' token (JStr name))) (\<lambda>answer.
        case answer of
          None \<Rightarrow> raise (ValueError ''not JSON'')
        | Some (JObj data) \<Rightarrow>
            bindE (liftE (with_hub url (jor (jget data ''nodes'') (JArr [])))) (\<lambda>nodes.
            bindE (liftE (item data ''device_id'')) (\<lambda>did.
            bindE (liftE (item data ''token'')) (\<lambda>tok.
            let cfg = [(''device_id'', did), (''token'', tok), (''hub_url'', JStr url), (''nodes'', nodes),
                       (''name'', jget_default data ''name'' (JStr (or_str name ''Unnamed''))), (''account_token'', JStr token)] in
            thenE (write_config E cfg) (thenE (clear_draft E) (ret cfg)))))
        | Some _ \<Rightarrow> raise AttributeError))"

definition enroll_now :: "(json \<Rightarrow> string) \<Rightarrow> surroundings \<Rightarrow> string \<Rightarrow> string \<Rightarrow> string \<Rightarrow> (pairing, (string \<times> json) list) op" where
  "enroll_now SH E arg_url arg_token arg_name =
     bindE (asks (\<lambda>s. load_draft (pg_draft s))) (\<lambda>draft.
     bindE (liftE (field_of E arg_url ''HUB_URL'' draft ''hub_url'')) (\<lambda>u.
     bindE (liftE (field_of E arg_token ''VORTEX_ACCOUNT_TOKEN'' draft ''account_token'')) (\<lambda>t.
     bindE (liftE (field_of E arg_name ''DEVICE_NAME'' draft ''device_name'')) (\<lambda>n.
     bindE (ask_url E ''Hub URL'' (rstrip_slash u)) (\<lambda>url.
     bindE (if strip t = [] then prompt E True ''Account enrollment token'' else ret (strip t)) (\<lambda>token.
     submit_token SH E url token (strip n)))))))"

section \<open>Waiting, and the choice\<close>

text \<open>
  The file is looked at again and again; \<open>files i\<close> is what it is at the \<open>i\<close>-th look. Without a
  configuration ever the wait does not end.
\<close>

partial_function (option) wait_for_config ::
  "(nat \<Rightarrow> stored) \<Rightarrow> nat \<Rightarrow> (exn + (string \<times> json) list) option" where
  "wait_for_config files i = (case load_config (files i) of
     Inl e \<Rightarrow> Some (Inl e)
   | Inr c \<Rightarrow> (case c of Some d \<Rightarrow> Some (Inr d) | None \<Rightarrow> wait_for_config files (Suc i)))"

text \<open>\<open>None\<close> as a value is the wait that does not end.\<close>

definition ensure_paired ::
  "(json \<Rightarrow> string) \<Rightarrow> surroundings \<Rightarrow> (nat \<Rightarrow> stored) \<Rightarrow> bool \<Rightarrow> (pairing, (string \<times> json) list option) op" where
  "ensure_paired SH E files wait =
     bindE (asks (\<lambda>s. load_config (pg_config s))) (\<lambda>l. bindE (liftE l) (\<lambda>c. case c of
       Some d \<Rightarrow> ret (Some d)
     | None \<Rightarrow>
         if env_text E ''PAIRING_CODE'' \<noteq> [] then bindE (pair_now SH E [] [] []) (\<lambda>d. ret (Some d))
         else if env_text E ''VORTEX_ACCOUNT_TOKEN'' \<noteq> [] then bindE (enroll_now SH E [] [] []) (\<lambda>d. ret (Some d))
         else if wait then (case wait_for_config files 0 of None \<Rightarrow> ret None | Some r \<Rightarrow> bindE (liftE r) (\<lambda>d. ret (Some d)))
         else bindE (enroll_now SH E [] [] []) (\<lambda>d. ret (Some d))))"

section \<open>The start\<close>

datatype start = Exits int | Waits | Runs run_state | Fails exn

text \<open>
  The state of the agent a number of rounds after its start, with the files then. A configuration that
  is to be wiped and cannot be is an exception nobody catches; any failure of the pairing is exit code 1.
\<close>

definition agent_main ::
  "(json \<Rightarrow> string) \<Rightarrow> surroundings \<Rightarrow> (nat \<Rightarrow> stored) \<Rightarrow> (nat \<Rightarrow> string \<Rightarrow> dial) \<Rightarrow> nat \<Rightarrow> pairing \<Rightarrow> start \<times> pairing" where
  "agent_main SH E files att n s =
     (if env_text E ''VORTEX_RESET'' \<noteq> [] \<and> pg_config s \<noteq> Absent \<and> \<not> su_writes E then (Fails (OSError ''cannot remove''), s)
      else
        (let s = (if env_text E ''VORTEX_RESET'' \<noteq> [] then s\<lparr>pg_config := Absent\<rparr> else s);
             wait = (env_text E ''VORTEX_SELFREG_WAIT'' \<noteq> [] \<and> env_text E ''PAIRING_CODE'' = []) in
         case ensure_paired SH E files wait s of
           (Inl e, s) \<Rightarrow> (Exits 1, s)
         | (Inr None, s) \<Rightarrow> (Waits, s)
         | (Inr (Some d), s) \<Rightarrow>
             (case apply_env_overrides (su_writes E) (env_text E ''HUB_URL'') \<lparr>ac_mem = d, ac_disk = d\<rparr> of
                (Inl e, c) \<Rightarrow> (Exits 1, s)
              | (Inr _, c) \<Rightarrow>
                  (Runs (run_forever SH (env_text E ''HUB_URL'') att c n), s\<lparr>pg_config := Holds (JObj (ac_disk c))\<rparr>))))"

section \<open>Outcomes\<close>

text \<open>What an attempt may have asked of a hub.\<close>

definition valid_request :: "string \<times> json \<Rightarrow> bool" where
  "valid_request rq \<longleftrightarrow> (\<exists>url name.
     is_url url \<and> ((\<exists>code. rq = (url @ ''/api/pair'', named_body ''code'' code name) \<and> isdigit code \<and> length code = 6) \<or>
       (\<exists>token. rq = (url @ ''/api/enroll'', named_body ''account_token'' token name) \<and> token \<noteq> [])))"

text \<open>The configuration and the requests are as they were, and so is the draft apart from some keys.\<close>

definition draft_keys :: "pairing \<Rightarrow> string set" where
  "draft_keys s = fst ` set (load_draft (pg_draft s))"

definition still :: "pairing \<Rightarrow> pairing \<Rightarrow> bool" where
  "still s t \<longleftrightarrow> pg_config t = pg_config s \<and> pg_sent t = pg_sent s \<and>
     draft_keys t \<subseteq> draft_keys s \<union> {''hub_url'', ''device_name''}"

lemma still_refl [simp]: "still s s"
  by (auto simp: still_def)

lemma still_trans: "still s t \<Longrightarrow> still t u \<Longrightarrow> still s u"
  by (auto simp: still_def)

lemma keys_put: "fst ` set (dict_put k v d) = insert k (fst ` set d)"
  by (induction k v d rule: dict_put.induct) auto

lemma wp_prompt [wps]:
  "wp (prompt E secret label) Q R s \<longleftrightarrow>
    (if \<not> su_tty E then R (RuntimeError (label @ '' required (non-interactive: set the env var)'')) s
     else case pg_typed s of [] \<Rightarrow> if secret then R EOFError s else Q [] s
       | l # ls \<Rightarrow> Q (strip l) (s\<lparr>pg_typed := ls\<rparr>))"
  by (simp add: prompt_def wp_def split: list.split)

lemma wp_save_draft [wps]:
  "wp (save_draft E updates) Q R s \<longleftrightarrow>
    (if su_writes E then Q () (s\<lparr>pg_draft := Holds (JObj (merge_draft updates (load_draft (pg_draft s))))\<rparr>)
     else R (OSError ''cannot write'') s)"
  by (simp add: save_draft_def atomic_write_def wps)

lemma still_typed [simp]: "still s (t\<lparr>pg_typed := ls\<rparr>) = still s t"
  by (simp add: still_def draft_keys_def)

lemma still_draft:
  "still s t \<Longrightarrow> k = ''hub_url'' \<or> k = ''device_name'' \<Longrightarrow>
    still s (t\<lparr>pg_draft := Holds (JObj (merge_draft [(k, v)] (load_draft (pg_draft t))))\<rparr>)"
  by (auto simp: still_def draft_keys_def load_draft_def merge_draft_def keys_put)

text \<open>The questions change nothing but the draft and what is left to be read.\<close>

lemma wp_ask:
  assumes "still s t" and "\<And>a u. still s u \<Longrightarrow> Q a u" and "\<And>e u. still s u \<Longrightarrow> R e u"
  shows "wp (prompt E secret label) Q R t"
  using assms by (simp add: wps split: list.split)

lemma wp_save:
  assumes "still s t" and "\<And>u. still s u \<Longrightarrow> Q () u" and "\<And>e u. still s u \<Longrightarrow> R e u"
    and "k = ''hub_url'' \<or> k = ''device_name''"
  shows "wp (save_draft E [(k, v)]) Q R t"
  using assms still_draft [of s t k v] by (simp add: wps)

lemma wp_ask_url:
  assumes "still s t" and "\<And>url u. still s u \<Longrightarrow> Q url u" and "\<And>e u. still s u \<Longrightarrow> R e u"
  shows "wp (ask_url E label url0) Q R t"
proof -
  have keep: "wp (thenE (save_draft E [(''hub_url'', JStr url)]) (ret url)) Q R u" if "still s u" for url u
    unfolding wp_thenE by (rule wp_save [OF that]) (simp_all add: wps assms)
  show ?thesis
    unfolding ask_url_def wp_bindE wp_if by (auto simp: wp_steps wp_bindE keep assms intro!: wp_ask [where s = s])
qed

lemma wp_ask_name:
  assumes "still s t" and "\<And>a u. still s u \<Longrightarrow> Q a u" and "\<And>e u. still s u \<Longrightarrow> R e u"
  shows "wp (ask_name E asked draft name) Q R t"
  using assms by (simp add: ask_name_def wp_if wps split: list.split)

text \<open>How an attempt ends, from the state \<open>s\<close>.\<close>

definition unsettled :: "pairing \<Rightarrow> exn \<Rightarrow> pairing \<Rightarrow> bool" where
  "unsettled s e t \<longleftrightarrow> pg_config t = pg_config s \<and> draft_keys t \<subseteq> draft_keys s \<union> {''hub_url'', ''device_name''} \<and>
     (pg_sent t = pg_sent s \<or> (\<exists>rq. valid_request rq \<and> pg_sent t = pg_sent s @ [rq]))"

definition settled :: "pairing \<Rightarrow> (string \<times> json) list \<Rightarrow> pairing \<Rightarrow> bool" where
  "settled s cfg t \<longleftrightarrow> pg_config t = Holds (JObj cfg) \<and> pg_draft t = Absent \<and>
     (\<exists>url path body. pg_sent t = pg_sent s @ [(url @ path, body)] \<and> valid_request (url @ path, body) \<and>
        jget cfg ''hub_url'' = JStr url \<and> is_url url)"

lemma still_unsettled: "still s t \<Longrightarrow> unsettled s e t"
  by (simp add: still_def unsettled_def)

lemma wp_post:
  assumes "still s t" and "valid_request (url, body)"
    and "\<And>j u. pg_config u = pg_config s \<Longrightarrow> draft_keys u \<subseteq> draft_keys s \<union> {''hub_url'', ''device_name''} \<Longrightarrow>
      pg_sent u = pg_sent s @ [(url, body)] \<Longrightarrow> Q j u"
  shows "wp (post_json SH E failed url body) Q (unsettled s) t"
  using assms
  by (auto simp: post_json_def wps wp_if still_def unsettled_def draft_keys_def split: reply.split option.split sum.split)

lemma wp_settle:
  assumes "pg_config u = pg_config s" and "draft_keys u \<subseteq> draft_keys s \<union> {''hub_url'', ''device_name''}"
    and "pg_sent u = pg_sent s @ [(url @ path, body)]" and "valid_request (url @ path, body)" and "is_url url"
    and "jget cfg ''hub_url'' = JStr url"
  shows "wp (thenE (write_config E cfg) (thenE (clear_draft E) (ret cfg))) (settled s) (unsettled s) u"
  using assms unfolding write_config_def clear_draft_def atomic_write_def
  by (auto simp: wps unsettled_def settled_def)

lemma named_pair: "is_url url \<Longrightarrow> isdigit code \<Longrightarrow> length code = 6 \<Longrightarrow> valid_request (url @ ''/api/pair'', named_body ''code'' code name)"
  by (auto simp: valid_request_def)

lemma named_enroll: "is_url url \<Longrightarrow> token \<noteq> [] \<Longrightarrow> valid_request (url @ ''/api/enroll'', named_body ''account_token'' token name)"
  by (auto simp: valid_request_def)

lemma unsettled_raise:
  "pg_config u = pg_config s \<Longrightarrow> draft_keys u \<subseteq> draft_keys s \<union> {''hub_url'', ''device_name''} \<Longrightarrow>
    pg_sent u = pg_sent s @ [rq] \<Longrightarrow> valid_request rq \<Longrightarrow> unsettled s e u"
  unfolding unsettled_def by blast

lemma wp_submit_code:
  assumes "still s t"
  shows "wp (submit_code SH E url code name) (settled s) (unsettled s) t"
  unfolding submit_code_def wp_if wp_bindE Let_def using assms
  by (auto simp: wps still_unsettled intro!: wp_post named_pair wp_settle unsettled_raise
      split: option.split json.split sum.split simp del: wp_thenE)

lemma wp_submit_token:
  assumes "still s t"
  shows "wp (submit_token SH E url token name) (settled s) (unsettled s) t"
  unfolding submit_token_def wp_if wp_bindE Let_def using assms
  by (auto simp: wps still_unsettled intro!: wp_post named_enroll wp_settle unsettled_raise
      split: option.split json.split sum.split simp del: wp_thenE)

lemmas attempt_rules = wp_ask_url [where R = "unsettled s" and s = s] wp_ask [where R = "unsettled s" and s = s]
  wp_ask_name [where R = "unsettled s" and s = s] wp_save [where R = "unsettled s" and s = s]
  wp_submit_code wp_submit_token still_unsettled for s

lemma wp_pair_now: "wp (pair_now SH E arg_url arg_code arg_name) (settled s) (unsettled s) s"
  unfolding pair_now_def Let_def wp_bindE wp_thenE wp_if
  by (auto simp: wp_steps intro!: attempt_rules [of s] split: sum.split)

lemma wp_enroll_now: "wp (enroll_now SH E arg_url arg_token arg_name) (settled s) (unsettled s) s"
  unfolding enroll_now_def wp_bindE wp_if
  by (auto simp: wp_steps intro!: attempt_rules [of s] split: sum.split)

section \<open>Properties\<close>

text \<open>
  C32: enrolling is all or nothing. Whatever the user types, the files hold and the hub answers, an
  attempt to pair or to enroll sends at most one request, to an address that is an \<open>http\<close> or \<open>https\<close> one
  and with a six-digit code or a token; when it fails the stored configuration is the one before, and
  when it succeeds the configuration is stored with the address that was asked, and the draft is gone. A
  failure leaves no new key in the draft but the address and the name: no code and no token is kept.
\<close>

theorem enrollment_all_or_nothing:
  assumes "attempt = pair_now SH E u c n \<or> attempt = enroll_now SH E u c n" and "attempt s = (r, t)"
  shows "case r of Inl e \<Rightarrow> unsettled s e t | Inr cfg \<Rightarrow> settled s cfg t"
  using assms wpI [OF wp_pair_now] wpI [OF wp_enroll_now] by metis

text \<open>A phone whose user types an address with a slash, a code and no name, and a hub that answers.\<close>

definition typed_in :: pairing where
  "typed_in = \<lparr>pg_config = Absent, pg_draft = Absent, pg_typed = [''http://h/'', ''123456'', [], ''654321''], pg_sent = []\<rparr>"

definition demo_hub :: "(string \<Rightarrow> json \<Rightarrow> reply) \<Rightarrow> surroundings" where
  "demo_hub f = \<lparr>su_env = (\<lambda>_. None), su_tty = True, su_writes = True, su_post = f\<rparr>"

definition demo_answer :: "string \<Rightarrow> json \<Rightarrow> reply" where
  "demo_answer url body = Reply 200 (Some (JObj [(''device_id'', JStr ''d''), (''token'', JStr ''t'')])) []"

theorem enrollment_all_or_nothing_witness:
  "\<exists>cfg (t :: pairing). pair_now (\<lambda>_. []) (demo_hub demo_answer) [] [] [] typed_in = (Inr cfg, t) \<and> settled typed_in cfg t \<and>
    pg_sent t = [(''http://h/api/pair'', JObj [(''code'', JStr ''123456'')])]"
proof -
  have "case pair_now (\<lambda>_. []) (demo_hub demo_answer) [] [] [] typed_in of
      (Inr cfg, t) \<Rightarrow> pg_sent t = [(''http://h/api/pair'', JObj [(''code'', JStr ''123456'')])] | _ \<Rightarrow> False" by code_simp
  then obtain cfg t where p: "pair_now (\<lambda>_. []) (demo_hub demo_answer) [] [] [] typed_in = (Inr cfg, t)"
      and sent: "pg_sent t = [(''http://h/api/pair'', JObj [(''code'', JStr ''123456'')])]"
    by (cases "pair_now (\<lambda>_. []) (demo_hub demo_answer) [] [] [] typed_in") (auto split: sum.splits)
  from enrollment_all_or_nothing [OF disjI1 [OF refl] p] sent p show ?thesis by auto
qed

text \<open>
  Enrolled once is enrolled. After a successful attempt whose answer has an identity, every later
  start of the agent takes the stored configuration as it is: whatever the environment says (a new code,
  a new token, no network, nobody at the keyboard), it asks for nothing, sends nothing and writes nothing.
\<close>

theorem enrolled_once_is_enrolled:
  assumes "attempt = pair_now SH E u c n \<or> attempt = enroll_now SH E u c n" and "attempt s = (Inr cfg, t)"
    and "truthy (jget cfg ''device_id'')" and "truthy (jget cfg ''token'')"
  shows "ensure_paired SH E' files w t = (Inr (Some cfg), t)"
proof -
  have "settled s cfg t" using assms(1,2) wpI [OF wp_pair_now] wpI [OF wp_enroll_now] by fastforce
  then have "load_config (pg_config t) = Inr (Some cfg)"
    using assms(3,4) by (auto simp: settled_def load_config_def is_url_def startswith_def)
  then show ?thesis by (simp add: ensure_paired_def)
qed

theorem enrolled_once_is_enrolled_witness:
  "\<exists>cfg (t :: pairing). pair_now (\<lambda>_. []) (demo_hub demo_answer) [] [] [] typed_in = (Inr cfg, t) \<and>
    ensure_paired (\<lambda>_. []) (demo_hub (\<lambda>_ _. NoRoute [])) (\<lambda>_. Absent) True t = (Inr (Some cfg), t)"
proof -
  have "case pair_now (\<lambda>_. []) (demo_hub demo_answer) [] [] [] typed_in of
      (Inr cfg, t) \<Rightarrow> truthy (jget cfg ''device_id'') \<and> truthy (jget cfg ''token'') | _ \<Rightarrow> False" by code_simp
  then obtain cfg t where p: "pair_now (\<lambda>_. []) (demo_hub demo_answer) [] [] [] typed_in = (Inr cfg, t)"
      and id: "truthy (jget cfg ''device_id'')" "truthy (jget cfg ''token'')"
    by (cases "pair_now (\<lambda>_. []) (demo_hub demo_answer) [] [] [] typed_in") (auto split: sum.splits)
  from enrolled_once_is_enrolled [OF disjI1 [OF refl] p id] p show ?thesis by blast
qed

text \<open>The wait, up to the first look that ends it.\<close>

lemma wait_skips:
  assumes "\<And>j. j < k \<Longrightarrow> load_config (files (i + j)) = Inr None"
  shows "wait_for_config files i = wait_for_config files (i + k)"
  using assms
proof (induction k)
  case (Suc k)
  then have "wait_for_config files i = wait_for_config files (i + k)" by simp
  also have "\<dots> = wait_for_config files (i + Suc k)"
    using Suc.prems [of k] by (subst wait_for_config.simps) simp
  finally show ?case .
qed simp

lemma wait_ends:
  assumes "wait_for_config files i = Some r"
  shows "\<exists>k \<ge> i. load_config (files k) \<noteq> Inr None"
proof (rule wait_for_config.raw_induct [where P = "\<lambda>f i r. \<exists>k \<ge> i. load_config (f k) \<noteq> Inr None", OF _ assms])
  fix wait f i r
  assume IH: "\<And>f i r. wait f i = Some r \<Longrightarrow> \<exists>k \<ge> i. load_config (f k) \<noteq> Inr None"
    and r: "(case load_config (f i) of Inl e \<Rightarrow> Some (Inl e) | Inr c \<Rightarrow> (case c of Some d \<Rightarrow> Some (Inr d) | None \<Rightarrow> wait f (Suc i)))
      = Some r"
  show "\<exists>k \<ge> i. load_config (f k) \<noteq> Inr None"
  proof (cases "load_config (f i) = Inr None")
    case True
    with r have "wait f (Suc i) = Some r" by simp
    from IH [OF this] show ?thesis by (metis Suc_leD)
  qed blast
qed

definition settles :: "stored \<Rightarrow> bool" where
  "settles f \<longleftrightarrow> load_config f \<noteq> Inr None"


lemma post_down:
  assumes "\<And>url body. \<exists>m. su_post E url body = NoRoute m"
  shows "\<exists>m. post_json SH E failed url body s = (Inl (RuntimeError m), s\<lparr>pg_sent := pg_sent s @ [(url, body)]\<rparr>)"
proof -
  obtain m where "su_post E url body = NoRoute m" using assms by blast
  then show ?thesis by (simp add: post_json_def thenE_def)
qed

lemma submit_down:
  assumes "\<And>url body. \<exists>m. su_post E url body = NoRoute m" and "is_url url" and "isdigit code" and "length code = 6"
  shows "\<exists>m. submit_code SH E url code name s = (Inl (RuntimeError m),
    s\<lparr>pg_sent := pg_sent s @ [(url @ ''/api/pair'', named_body ''code'' code name)]\<rparr>)"
proof -
  have "code \<noteq> []" using assms(3) by (auto simp: isdigit_def)
  moreover obtain m where "post_json SH E ''Pairing'' (url @ ''/api/pair'') (named_body ''code'' code name) s =
      (Inl (RuntimeError m), s\<lparr>pg_sent := pg_sent s @ [(url @ ''/api/pair'', named_body ''code'' code name)]\<rparr>)"
    using post_down [OF assms(1)] by blast
  ultimately show ?thesis using assms(2-4) by (simp add: submit_code_def bindE_def)
qed

lemma post_sent: "post_json SH E failed url body s = (r, t) \<Longrightarrow> t = s\<lparr>pg_sent := pg_sent s @ [(url, body)]\<rparr>"
  by (auto simp: post_json_def thenE_def bindE_def liftE_def split: reply.splits option.splits sum.splits if_splits prod.splits)

text \<open>A valid code is submitted in one request, which nothing else of the submission repeats or undoes.\<close>

lemma submit_sent:
  assumes "is_url url" and "isdigit code" and "length code = 6"
  shows "\<exists>r t. submit_code SH E url code name s = (r, t) \<and> pg_typed t = pg_typed s \<and>
    pg_sent t = pg_sent s @ [(url @ ''/api/pair'', named_body ''code'' code name)]"
proof -
  let ?sent = "pg_sent s @ [(url @ ''/api/pair'', named_body ''code'' code name)]"
  have "wp (post_json SH E failed p b) (\<lambda>_ t. t = s\<lparr>pg_sent := pg_sent s @ [(p, b)]\<rparr>) (\<lambda>_ t. t = s\<lparr>pg_sent := pg_sent s @ [(p, b)]\<rparr>) s"
    for failed p b unfolding wp_def by (auto split: prod.split sum.split dest: post_sent)
  note post = wp_mono [OF this]
  have c: "code \<noteq> []" using assms(2) by (auto simp: isdigit_def)
  have "wp (submit_code SH E url code name) (\<lambda>_ t. pg_typed t = pg_typed s \<and> pg_sent t = ?sent) (\<lambda>_ t. pg_typed t = pg_typed s \<and> pg_sent t = ?sent) s"
    unfolding submit_code_def wp_if wp_bindE Let_def write_config_def clear_draft_def atomic_write_def
    using assms c by (auto intro!: post simp: wps wp_if split: option.split json.split sum.split)
  then show ?thesis by (cases "submit_code SH E url code name s") (auto simp: wp_def split: sum.splits)
qed

text \<open>
  A failed attempt need not be typed again. When the hub cannot be reached, the attempt fails with
  the address and the name in the draft; the next attempt asks for the code only, and pairs with the
  same address and name.
\<close>

theorem retry_asks_for_code_only:
  assumes env: "su_env E = (\<lambda>_. None)" "su_tty E" "su_writes E" and down: "\<And>url body. \<exists>m. su_post E url body = NoRoute m"
    and s: "pg_draft s = Absent" "pg_typed s = url # code # name # again # rest"
    and url: "is_url (rstrip_slash (strip url))" and name: "strip name \<noteq> []"
    and codes: "isdigit (strip code)" "length (strip code) = 6" "isdigit (strip again)" "length (strip again) = 6"
  shows "\<exists>m r t t'. pair_now SH E [] [] [] s = (Inl (RuntimeError m), t) \<and>
    pair_now SH (E\<lparr>su_post := f\<rparr>) [] [] [] t = (r, t') \<and> pg_typed t' = rest \<and>
    pg_sent t' = pg_sent t @ [(rstrip_slash (strip url) @ ''/api/pair'', named_body ''code'' (strip again) (JStr (strip name)))]"
proof -
  let ?u = "rstrip_slash (strip url)"
  let ?d = "[(''hub_url'', JStr ?u), (''device_name'', JStr (strip name))]"
  have u: "?u \<noteq> []" using url by (auto simp: is_url_def startswith_def)
  have c: "strip code \<noteq> []" using codes by (auto simp: isdigit_def)
  let ?t = "s\<lparr>pg_typed := again # rest, pg_draft := Holds (JObj ?d)\<rparr>"
  obtain m where post: "submit_code SH E ?u (strip code) (JStr (strip name)) ?t = (Inl (RuntimeError m),
      ?t\<lparr>pg_sent := pg_sent s @ [(?u @ ''/api/pair'', named_body ''code'' (strip code) (JStr (strip name)))]\<rparr>)"
    using submit_down [OF down url codes(1,2), of SH "JStr (strip name)" ?t] by auto
  have first: "pair_now SH E [] [] [] s = submit_code SH E ?u (strip code) (JStr (strip name)) ?t"
    using env s u name
    by (simp add: pair_now_def field_of_def env_text_def opt_str_def or_str_def load_draft_def text_or_empty_def jor_def
        ask_url_def ask_name_def prompt_def save_draft_def atomic_write_def merge_draft_def thenE_def bindE_def Let_def)
  let ?t1 = "?t\<lparr>pg_sent := pg_sent s @ [(?u @ ''/api/pair'', named_body ''code'' (strip code) (JStr (strip name)))]\<rparr>"
  let ?t2 = "s\<lparr>pg_sent := pg_sent s @ [(?u @ ''/api/pair'', named_body ''code'' (strip code) (JStr (strip name)))],
    pg_typed := rest, pg_draft := Holds (JObj ?d)\<rparr>"
  have second: "pair_now SH (E\<lparr>su_post := f\<rparr>) [] [] [] ?t1 =
      submit_code SH (E\<lparr>su_post := f\<rparr>) ?u (strip again) (JStr (strip name)) ?t2"
    using env s u name
    by (simp add: pair_now_def field_of_def env_text_def opt_str_def or_str_def load_draft_def text_or_empty_def jor_def
        ask_url_def ask_name_def prompt_def save_draft_def atomic_write_def merge_draft_def thenE_def bindE_def Let_def)
  from submit_sent [OF url codes(3,4), of SH "E\<lparr>su_post := f\<rparr>" "JStr (strip name)" ?t2]
  obtain r t' where "pair_now SH (E\<lparr>su_post := f\<rparr>) [] [] [] ?t1 = (r, t')" "pg_typed t' = rest"
      "pg_sent t' = pg_sent ?t1 @ [(?u @ ''/api/pair'', named_body ''code'' (strip again) (JStr (strip name)))]"
    by (auto simp: second)
  with first post show ?thesis by (metis (no_types, lifting))
qed

theorem retry_asks_for_code_only_witness:
  "\<exists>m r (t :: pairing) (t' :: pairing).
    pair_now (\<lambda>_. []) (demo_hub (\<lambda>_ _. NoRoute [])) [] [] [] (typed_in\<lparr>pg_typed := [''http://h/'', ''123456'', ''pc'', ''654321'']\<rparr>) = (Inl (RuntimeError m), t) \<and>
    pair_now (\<lambda>_. []) (demo_hub (\<lambda>_ _. NoRoute [])\<lparr>su_post := demo_answer\<rparr>) [] [] [] t = (r, t') \<and> pg_typed t' = [] \<and>
    pg_sent t' = pg_sent t @ [(rstrip_slash (strip ''http://h/'') @ ''/api/pair'', named_body ''code'' (strip ''654321'') (JStr (strip ''pc'')))]"
proof (rule retry_asks_for_code_only)
  show "is_url (rstrip_slash (strip ''http://h/''))" by code_simp
  show "strip ''pc'' \<noteq> []" by code_simp
  show "isdigit (strip ''123456'')" "length (strip ''123456'') = 6" "isdigit (strip ''654321'')" "length (strip ''654321'') = 6"
    by code_simp+
qed (simp_all add: demo_hub_def typed_in_def)

end
