(* ===== verification/Pages.thy ===== *)
theory Pages
  imports Html Devices Pairing ConfigStore
begin

text \<open>
  The pages of the hub (\<^verbatim>\<open>hub/templates.py\<close>), as the text they are: the frame around every page, the
  account pages, the cards of the dashboard, adding a device, tokens and pairing codes with the commands
  they show, managing a device, its files, the settings, invites and the audit log. The style sheet, the
  time, the clock's print of a time and the QR code library are the record \<open>site\<close>. The lemmas say
  that no text of a user, of a device or of an agent makes markup in a page, that the commands come out
  of a shell's reading as written, and where the page falls short.
\<close>

record site =
  st_css :: string
  st_now :: int
  st_qr :: "(string \<Rightarrow> string) option"
  st_clock :: "int \<Rightarrow> string"

definition hub_version :: string where
  "hub_version = ''5.32''"

section \<open>The frame\<close>

definition qr_svg ::
  "site \<Rightarrow> string \<Rightarrow> string" where
  "qr_svg S t =
     (case st_qr S of None \<Rightarrow>
     ''<p style=\"color:var(--muted);font-size:.8rem\">(QR unavailable: install <code>qrcode</code> in the hub venv)</p>''
   | Some draw \<Rightarrow> draw t)"

definition nav_items :: "user_info option \<Rightarrow> (string \<times> string) list" where
  "nav_items user = [(''/'', ''Dashboard''), (''/pair'', ''Add Device''), (''/theft'', ''Theft''), (''/audit'', ''Audit'')] @
     (case user of None \<Rightarrow> [] | Some u \<Rightarrow>
       if ui_is_admin u \<noteq> 0 then [(''/admin/invites'', ''Invites''), (''/settings'', ''Settings'')] else [])"

definition nav_link ::
  "string \<Rightarrow> string \<times> string \<Rightarrow> string" where
  "nav_link active item =
     (case item of (href, label) \<Rightarrow>
     ''<a class=\"'' @ (if href = active then ''active'' else []) @ ''\" href=\"'' @ href @ ''\">'' @ escape label @ ''</a>'')"

definition page ::
  "site \<Rightarrow> string \<Rightarrow> string \<Rightarrow> user_info option \<Rightarrow> string \<Rightarrow> bool \<Rightarrow> string" where
  "page S title body user active chrome =
     (let links = concat (map (nav_link active) (nav_items user));
     user_chunk = (case user of None \<Rightarrow> [] | Some u \<Rightarrow>
       ''<span class=\"user\">'' @ escape (ui_username u) @ ''</span><a href=\"/logout\" style=\"margin-left:1rem;font-size:0.7rem\">Logout</a>'');
     inner = (if chrome then
       ''<header class=\"topbar\">\<newline>'' @
       ''  <div class=\"brand\">\<newline>'' @
       ''    <span class=\"logo\"></span>\<newline>'' @
       ''    <h1>Vortex<span class=\"accent\">Hub</span></h1>\<newline>'' @
       ''  </div>\<newline>'' @
       ''  <input type=\"checkbox\" id=\"navtoggle\" class=\"navtoggle\" hidden>\<newline>'' @
       ''  <label for=\"navtoggle\" class=\"hamburger\" aria-label=\"Menu\">\<newline>'' @
       ''    <span></span><span></span><span></span>\<newline>'' @
       ''  </label>\<newline>'' @
       ''  <nav>'' @ links @ user_chunk @ ''</nav>\<newline>'' @
       ''</header>\<newline>'' @
       ''<main>'' @ body @ ''</main>\<newline>'' @
       ''<footer>VORTEX HUB V'' @ hub_version @ ''</footer>''
       else body)
   in
     ''<!doctype html>\<newline>'' @
     ''<html lang=\"en\"><head><meta charset=\"utf-8\">\<newline>'' @
     ''<meta name=\"viewport\" content=\"width=device-width, initial-scale=1\">\<newline>'' @
     ''<title>'' @ escape title @ '' '' @ utf8 [0xE2, 0x80, 0x94] @ '' Vortex Hub</title>\<newline>'' @
     ''<style>'' @ st_css S @ ''</style>\<newline>'' @
     ''</head><body>'' @ inner @ ''</body></html>'')"

section \<open>Accounts\<close>

definition flash_error ::
  "string option \<Rightarrow> string" where
  "flash_error error =
     (if opt_str error = [] then [] else ''<div class=\"flash error\">'' @ escape (opt_str error) @ ''</div>'')"

definition login_page ::
  "site \<Rightarrow> string option \<Rightarrow> string \<Rightarrow> string option \<Rightarrow> string" where
  "login_page S error next_url notice =
     (let note = (if opt_str notice = [] then [] else ''<div class=\"flash info\">'' @ escape (opt_str notice) @ ''</div>'') in
   page S ''Sign in'' (
     ''<div class=\"center-wrap\"><div class=\"auth-card\">\<newline>'' @
     ''  <div class=\"brand-large\">\<newline>'' @
     ''    <div class=\"logo\"></div>\<newline>'' @
     ''    <h1>Vortex<span class=\"accent\">Hub</span></h1>\<newline>'' @
     ''    <p class=\"subtitle\">Sign in</p>\<newline>'' @
     ''  </div>\<newline>'' @
     ''  '' @ note @ flash_error error @ ''\<newline>'' @
     ''  <form method=\"post\" action=\"/login\">\<newline>'' @
     ''    <input type=\"hidden\" name=\"next\" value=\"'' @ escape next_url @ ''\">\<newline>'' @
     ''    <label>Username <input name=\"username\" autocomplete=\"username\" required autofocus></label>\<newline>'' @
     ''    <label>Password <input name=\"password\" type=\"password\" autocomplete=\"current-password\" required></label>\<newline>'' @
     ''    <button type=\"submit\" class=\"btn btn-primary\" style=\"margin-top:.75rem\">Sign In</button>\<newline>'' @
     ''  </form>\<newline>'' @
     ''  <div class=\"footer-link\">\<newline>'' @
     ''    Have an invite code? <a href=\"/register\">Create account</a><br>\<newline>'' @
     ''    New device, no account here? <a href=\"/setup\">Set up remote database</a>\<newline>'' @
     ''  </div>\<newline>'' @
     ''</div></div>'') None [] False)"

definition register_page ::
  "site \<Rightarrow> string option \<Rightarrow> string \<Rightarrow> string \<Rightarrow> bool \<Rightarrow> string" where
  "register_page S error invite username open_mode =
     (let invite_field = (if open_mode then ''<input type=\"hidden\" name=\"invite\" value=\"'' @ escape invite @ ''\">''
     else ''<label>Invite code <input name=\"invite\" value=\"'' @ escape invite @ ''\" required autofocus></label>'') in
   page S ''Register'' (
     ''<div class=\"center-wrap\"><div class=\"auth-card\">\<newline>'' @
     ''  <div class=\"brand-large\">\<newline>'' @
     ''    <div class=\"logo\"></div>\<newline>'' @
     ''    <h1>Vortex<span class=\"accent\">Hub</span></h1>\<newline>'' @
     ''    <p class=\"subtitle\">Create account</p>\<newline>'' @
     ''  </div>\<newline>'' @
     ''  '' @ flash_error error @ ''\<newline>'' @
     ''  <form method=\"post\" action=\"/register\">\<newline>'' @
     ''    '' @ invite_field @ ''\<newline>'' @
     ''    <label>Username <input name=\"username\" value=\"'' @ escape username @ ''\" autocomplete=\"username\" required maxlength=\"40\"></label>\<newline>'' @
     ''    <label>Password <input name=\"password\" type=\"password\" autocomplete=\"new-password\" required minlength=\"8\"></label>\<newline>'' @
     ''    <label>Confirm <input name=\"password2\" type=\"password\" autocomplete=\"new-password\" required minlength=\"8\"></label>\<newline>'' @
     ''    <button type=\"submit\" class=\"btn btn-primary\" style=\"margin-top:.75rem\">Register</button>\<newline>'' @
     ''  </form>\<newline>'' @
     ''  <div class=\"footer-link\">\<newline>'' @
     ''    Already have an account? <a href=\"/login\">Sign in</a>\<newline>'' @
     ''  </div>\<newline>'' @
     ''</div></div>'') None [] False)"

definition registration_closed_page ::
  "site \<Rightarrow> string" where
  "registration_closed_page S =
     page S ''Registration closed'' (
     ''<div class=\"center-wrap\"><div class=\"auth-card\">\<newline>'' @
     ''  <div class=\"brand-large\">\<newline>'' @
     ''    <div class=\"logo\"></div>\<newline>'' @
     ''    <h1>Vortex<span class=\"accent\">Hub</span></h1>\<newline>'' @
     ''    <p class=\"subtitle\">Registration closed</p>\<newline>'' @
     ''  </div>\<newline>'' @
     ''  <div class=\"flash error\">\<newline>'' @
     ''    New account registration is currently disabled by the administrator.\<newline>'' @
     ''  </div>\<newline>'' @
     ''  <div class=\"footer-link\">\<newline>'' @
     ''    Already have an account? <a href=\"/login\">Sign in</a>\<newline>'' @
     ''  </div>\<newline>'' @
     ''</div></div>'') None [] False"

definition first_run_page ::
  "site \<Rightarrow> string option \<Rightarrow> string" where
  "first_run_page S error =
     page S ''First-run'' (
     ''<div class=\"center-wrap\"><div class=\"auth-card\">\<newline>'' @
     ''  <div class=\"brand-large\">\<newline>'' @
     ''    <div class=\"logo\"></div>\<newline>'' @
     ''    <h1>Vortex<span class=\"accent\">Hub</span></h1>\<newline>'' @
     ''    <p class=\"subtitle\">First-run setup</p>\<newline>'' @
     ''  </div>\<newline>'' @
     ''  <div class=\"flash info\">No users yet. Create the admin account.</div>\<newline>'' @
     ''  '' @ flash_error error @ ''\<newline>'' @
     ''  <form method=\"post\" action=\"/register\">\<newline>'' @
     ''    <input type=\"hidden\" name=\"invite\" value=\"__bootstrap__\">\<newline>'' @
     ''    <label>Username <input name=\"username\" autocomplete=\"username\" required maxlength=\"40\" autofocus></label>\<newline>'' @
     ''    <label>Password <input name=\"password\" type=\"password\" autocomplete=\"new-password\" required minlength=\"8\"></label>\<newline>'' @
     ''    <label>Confirm <input name=\"password2\" type=\"password\" autocomplete=\"new-password\" required minlength=\"8\"></label>\<newline>'' @
     ''    <button type=\"submit\" class=\"btn btn-primary\" style=\"margin-top:.75rem\">Create Admin</button>\<newline>'' @
     ''  </form>\<newline>'' @
     ''  <div class=\"footer-link\">\<newline>'' @
     ''    Accounts already exist in a remote database?\<newline>'' @
     ''    <a href=\"/setup\">Connect to it '' @ utf8 [0xE2, 0x86, 0x92] @ ''</a>\<newline>'' @
     ''  </div>\<newline>'' @
     ''</div></div>'') None [] False"

section \<open>The dashboard\<close>

text \<open>The badge of a device: connected here, known to be connected to another node, or neither.\<close>

definition device_card ::
  "int \<Rightarrow> string set \<Rightarrow> (string \<times> string) list \<Rightarrow> device_info \<Rightarrow> string" where
  "device_card now online elsewhere d =
     (let did = escape (di_id d); name = escape (di_name d);
        other = opt_str (map_of elsewhere (di_id d));
        badge = (if di_id d \<in> online then (''online'', ''Online'')
          else if other \<noteq> [] then (''online'', ''On its node'') else (''offline'', ''Offline''));
        last_seen = (case di_last_seen d of None \<Rightarrow> ''never''
          | Some t \<Rightarrow> if t = 0 then ''never'' else ''never'');
        actions =
     ''<div class=\"actions compact\" data-actions><a class=\"btn btn-primary\" href=\"/devices/'' @ did @ ''/files/\">Browse</a><a class=\"btn\" href=\"/devices/'' @ did @ ''/camera\">Camera</a><a class=\"btn\" href=\"/devices/'' @ did @ ''/screen\">Screen</a></div>'';
        kebab =
     ''<details class=\"kebab\"><summary title=\"More\">'' @ utf8 [0xE2, 0x8B, 0xAE] @ ''</summary><div class=\"menu\"><a href=\"/devices/'' @ did @ ''/theft\">'' @ utf8 [0xF0, 0x9F, 0x9B, 0xA1] @ '' Theft Mode</a><a href=\"/devices/'' @ did @ ''\">'' @ utf8 [0xE2, 0x9A, 0x99] @ '' Manage / Rename</a><form method=\"post\" action=\"/devices/'' @ did @ ''/delete\" style=\"margin:0\"><button class=\"danger\" type=\"submit\" onclick=\"return confirm('Unpair '' @ name @ ''? This cannot be undone '' @ utf8 [0xE2, 0x80, 0x94] @ '' you will need to re-pair to control it again.')\">Unpair</button></form></div></details>''
    in
     ''<div class=\"card\" data-device-id=\"'' @ did @ ''\" data-device-name=\"'' @ name @ ''\" data-elsewhere=\"'' @ escape other @ ''\">\<newline>'' @
     ''  <div style=\"display:flex;justify-content:space-between;align-items:start;margin-bottom:.5rem;gap:.6rem\">\<newline>'' @
     ''    <h3 style=\"margin:0;flex:1;min-width:0;overflow:hidden;text-overflow:ellipsis\">'' @ name @ ''</h3>\<newline>'' @
     ''    <div class=\"status-col\">\<newline>'' @
     ''      <span class=\"badge '' @ fst badge @ ''\" data-status>'' @ snd badge @ ''</span>\<newline>'' @
     ''      '' @ kebab @ ''\<newline>'' @
     ''    </div>\<newline>'' @
     ''  </div>\<newline>'' @
     ''  <p class=\"meta\">id: '' @ did @ ''\<newline>'' @
     ''    <button class=\"icon-btn info\" type=\"button\" data-info-btn title=\"Device info\">\<newline>'' @
     ''      <svg viewBox=\"0 0 24 24\" fill=\"none\" stroke=\"currentColor\" stroke-width=\"2\"\<newline>'' @
     ''           stroke-linecap=\"round\" stroke-linejoin=\"round\">\<newline>'' @
     ''        <circle cx=\"12\" cy=\"12\" r=\"10\"/>\<newline>'' @
     ''        <line x1=\"12\" y1=\"16\" x2=\"12\" y2=\"12\"/>\<newline>'' @
     ''        <circle cx=\"12\" cy=\"8\" r=\"0.5\" fill=\"currentColor\"/>\<newline>'' @
     ''      </svg>\<newline>'' @
     ''    </button>\<newline>'' @
     ''  </p>\<newline>'' @
     ''  <p class=\"meta\" data-last-seen>last seen: '' @ escape last_seen @ ''</p>\<newline>'' @
     ''  <div class=\"stats\" data-stats hidden></div>\<newline>'' @
     ''  '' @ actions @ ''\<newline>'' @
     ''</div>'')"

definition dashboard_script ::
  "string" where
  "dashboard_script =
     ''\<newline>'' @
     ''\<newline>'' @
     ''<!-- V5.1 device-info modal. One per page; populated on demand. -->\<newline>'' @
     ''<div class=\"modal-backdrop\" id=\"device-info-modal\" hidden>\<newline>'' @
     ''  <div class=\"modal\" role=\"dialog\" aria-labelledby=\"dim-title\">\<newline>'' @
     ''    <div class=\"modal-head\">\<newline>'' @
     ''      <h3 id=\"dim-title\">// Device Info</h3>\<newline>'' @
     ''      <button class=\"close\" type=\"button\" data-dim-close aria-label=\"Close\">'' @ utf8 [0xE2, 0x9C, 0x95] @ ''</button>\<newline>'' @
     ''    </div>\<newline>'' @
     ''    <div class=\"modal-body\" id=\"dim-body\">\<newline>'' @
     ''      <div class=\"info-section\"><span class=\"muted\">Loading'' @ utf8 [0xE2, 0x80, 0xA6] @ ''</span></div>\<newline>'' @
     ''    </div>\<newline>'' @
     ''  </div>\<newline>'' @
     ''</div>\<newline>'' @
     ''\<newline>'' @
     ''<script>\<newline>'' @
     ''function fmtBytes(n) {\<newline>'' @
     ''  if (n == null) return '?';\<newline>'' @
     ''  const u = ['B','KB','MB','GB','TB'];\<newline>'' @
     ''  let i = 0;\<newline>'' @
     ''  while (n >= 1024 && i < u.length - 1) { n /= 1024; i++; }\<newline>'' @
     ''  return n.toFixed(n < 10 && i > 0 ? 1 : 0) + ' ' + u[i];\<newline>'' @
     ''}\<newline>'' @
     ''function fmtUptime(s) {\<newline>'' @
     ''  if (s == null) return '?';\<newline>'' @
     ''  const d = Math.floor(s / 86400); s -= d * 86400;\<newline>'' @
     ''  const h = Math.floor(s / 3600);  s -= h * 3600;\<newline>'' @
     ''  const m = Math.floor(s / 60);\<newline>'' @
     ''  if (d) return d + 'd ' + h + 'h';\<newline>'' @
     ''  if (h) return h + 'h ' + m + 'm';\<newline>'' @
     ''  return m + 'm';\<newline>'' @
     ''}\<newline>'' @
     ''function bar(usedFrac, label, valueText) {\<newline>'' @
     ''  const pct = Math.max(0, Math.min(1, usedFrac));\<newline>'' @
     ''  const cls = pct > 0.9 ? 'crit' : pct > 0.75 ? 'warn' : '' @ [CHR 0x27] @ [CHR 0x27] @ '';\<newline>'' @
     ''  return `<div class=\"stat\"><span class=\"label\">${label}</span>` +\<newline>'' @
     ''         `<div class=\"bar ${cls}\"><i style=\"width:${(pct*100).toFixed(0)}%\"></i></div>` +\<newline>'' @
     ''         `<span>${valueText}</span></div>`;\<newline>'' @
     ''}\<newline>'' @
     ''function renderStats(card, s) {\<newline>'' @
     ''  const el = card.querySelector('[data-stats]');\<newline>'' @
     ''  if (!el) return;\<newline>'' @
     ''  if (!s) { el.hidden = true; el.innerHTML = '' @ [CHR 0x27] @ [CHR 0x27] @ ''; return; }\<newline>'' @
     ''  const parts = [];\<newline>'' @
     ''  if (s.battery && s.battery.percentage != null) {\<newline>'' @
     ''    const p = s.battery.percentage;\<newline>'' @
     ''    const charging = (s.battery.status || '' @ [CHR 0x27] @ [CHR 0x27] @ '').toUpperCase().includes('CHARG');\<newline>'' @
     ''    const arrow = charging ? '' @ [CHR 0x27] @ utf8 [0xE2, 0x9A, 0xA1] @ [CHR 0x27] @ '' : '' @ [CHR 0x27] @ [CHR 0x27] @ '';\<newline>'' @
     ''    parts.push(bar(1 - p / 100, 'Battery', `${p}% ${arrow}`));\<newline>'' @
     ''  }\<newline>'' @
     ''  if (s.storage && s.storage.total) {\<newline>'' @
     ''    const used = s.storage.total - s.storage.free;\<newline>'' @
     ''    parts.push(bar(used / s.storage.total, 'Disk',\<newline>'' @
     ''                   `${fmtBytes(s.storage.free)} free`));\<newline>'' @
     ''  }\<newline>'' @
     ''  if (s.memory && s.memory.total) {\<newline>'' @
     ''    const free = s.memory.available || 0;\<newline>'' @
     ''    const used = s.memory.total - free;\<newline>'' @
     ''    parts.push(bar(used / s.memory.total, 'RAM',\<newline>'' @
     ''                   `${fmtBytes(free)} free`));\<newline>'' @
     ''  }\<newline>'' @
     ''  if (s.uptime_s != null) {\<newline>'' @
     ''    parts.push(`<div class=\"stat\"><span class=\"label\">Up</span><span>${fmtUptime(s.uptime_s)}</span></div>`);\<newline>'' @
     ''  }\<newline>'' @
     ''  el.innerHTML = parts.join('' @ [CHR 0x27] @ [CHR 0x27] @ '');\<newline>'' @
     ''  el.hidden = parts.length === 0;\<newline>'' @
     ''}\<newline>'' @
     ''\<newline>'' @
     ''async function pollOnline() {\<newline>'' @
     ''  try {\<newline>'' @
     ''    const r = await fetch('/api/online', {cache: 'no-store'});\<newline>'' @
     ''    if (!r.ok) return;\<newline>'' @
     ''    const data = await r.json();\<newline>'' @
     ''    const online = new Set(data.online || []);\<newline>'' @
     ''    const elsewhere = data.elsewhere || {};\<newline>'' @
     ''    document.querySelectorAll('[data-device-id]').forEach(card => {\<newline>'' @
     ''      const id = card.dataset.deviceId;\<newline>'' @
     ''      const badge = card.querySelector('[data-status]');\<newline>'' @
     ''      if (!badge) return;\<newline>'' @
     ''      if (online.has(id)) { badge.className = 'badge online'; badge.textContent = 'Online'; }\<newline>'' @
     ''      else if (elsewhere[id]) {\<newline>'' @
     ''        // Live on another node '' @ utf8 [0xE2, 0x80, 0x94] @ '' relay handles control; don't lie 'Offline'.\<newline>'' @
     ''        badge.className = 'badge online'; badge.textContent = 'On its node';\<newline>'' @
     ''      }\<newline>'' @
     ''      else {\<newline>'' @
     ''        badge.className = 'badge offline'; badge.textContent = 'Offline';\<newline>'' @
     ''        renderStats(card, null);\<newline>'' @
     ''      }\<newline>'' @
     ''    });\<newline>'' @
     ''  } catch (e) {}\<newline>'' @
     ''}\<newline>'' @
     ''\<newline>'' @
     ''async function pollStats() {\<newline>'' @
     ''  try {\<newline>'' @
     ''    const r = await fetch('/api/devices/stats', {cache: 'no-store'});\<newline>'' @
     ''    if (!r.ok) return;\<newline>'' @
     ''    const stats = (await r.json()).stats || {};\<newline>'' @
     ''    document.querySelectorAll('[data-device-id]').forEach(card => {\<newline>'' @
     ''      renderStats(card, stats[card.dataset.deviceId]);\<newline>'' @
     ''    });\<newline>'' @
     ''  } catch (e) {}\<newline>'' @
     ''}\<newline>'' @
     ''pollOnline(); pollStats();\<newline>'' @
     ''setInterval(pollOnline, 5000);\<newline>'' @
     ''setInterval(pollStats, 15000);\<newline>'' @
     ''\<newline>'' @
     ''// ---- V5.1: device-info modal ----\<newline>'' @
     ''(function() {\<newline>'' @
     ''  const backdrop = document.getElementById('device-info-modal');\<newline>'' @
     ''  const body = document.getElementById('dim-body');\<newline>'' @
     ''  const titleEl = document.getElementById('dim-title');\<newline>'' @
     ''  if (!backdrop || !body) return;\<newline>'' @
     ''\<newline>'' @
     ''  function open(deviceId, deviceName) {\<newline>'' @
     ''    titleEl.textContent = '// ' + deviceName;\<newline>'' @
     ''    body.innerHTML = '<div class=\"info-section\"><span class=\"muted\">Loading device info'' @ utf8 [0xE2, 0x80, 0xA6] @ ''</span></div>';\<newline>'' @
     ''    backdrop.hidden = false;\<newline>'' @
     ''    backdrop.classList.add('open');\<newline>'' @
     ''    document.addEventListener('keydown', onKey);\<newline>'' @
     ''    fetchInfo(deviceId);\<newline>'' @
     ''  }\<newline>'' @
     ''  function close() {\<newline>'' @
     ''    backdrop.classList.remove('open');\<newline>'' @
     ''    backdrop.hidden = true;\<newline>'' @
     ''    document.removeEventListener('keydown', onKey);\<newline>'' @
     ''  }\<newline>'' @
     ''  function onKey(e) { if (e.key === 'Escape') close(); }\<newline>'' @
     ''\<newline>'' @
     ''  backdrop.addEventListener('click', (e) => {\<newline>'' @
     ''    if (e.target === backdrop) close();\<newline>'' @
     ''  });\<newline>'' @
     ''  backdrop.querySelector('[data-dim-close]').addEventListener('click', close);\<newline>'' @
     ''\<newline>'' @
     ''  document.querySelectorAll('[data-info-btn]').forEach(btn => {\<newline>'' @
     ''    btn.addEventListener('click', () => {\<newline>'' @
     ''      const card = btn.closest('[data-device-id]');\<newline>'' @
     ''      if (!card) return;\<newline>'' @
     ''      open(card.dataset.deviceId, card.dataset.deviceName || 'Device');\<newline>'' @
     ''    });\<newline>'' @
     ''  });\<newline>'' @
     ''\<newline>'' @
     ''  async function fetchInfo(deviceId) {\<newline>'' @
     ''    try {\<newline>'' @
     ''      const r = await fetch(`/api/devices/${encodeURIComponent(deviceId)}/info`,\<newline>'' @
     ''                            {cache: 'no-store'});\<newline>'' @
     ''      const data = await r.json();\<newline>'' @
     ''      if (!data.ok) {\<newline>'' @
     ''        body.innerHTML = `<div class=\"err-banner\">${escapeHtml(data.error || 'Unknown error')}</div>`;\<newline>'' @
     ''        return;\<newline>'' @
     ''      }\<newline>'' @
     ''      body.innerHTML = renderInfo(data.result);\<newline>'' @
     ''    } catch (e) {\<newline>'' @
     ''      body.innerHTML = `<div class=\"err-banner\">Fetch failed: ${escapeHtml(e.message)}</div>`;\<newline>'' @
     ''    }\<newline>'' @
     ''  }\<newline>'' @
     ''\<newline>'' @
     ''  function escapeHtml(s) {\<newline>'' @
     ''    if (s == null) return '' @ [CHR 0x27] @ [CHR 0x27] @ '';\<newline>'' @
     ''    return String(s).replace(/[&<>\"']/g, c => ({\<newline>'' @
     ''      '&': '&amp;', '<': '&lt;', '>': '&gt;', '\"': '&quot;', \"'\": '&#39;'\<newline>'' @
     ''    }[c]));\<newline>'' @
     ''  }\<newline>'' @
     ''\<newline>'' @
     ''  function row(k, v, opts) {\<newline>'' @
     ''    if (v == null || v === '' @ [CHR 0x27] @ [CHR 0x27] @ '' || v === undefined) {\<newline>'' @
     ''      return `<div class=\"k\">${escapeHtml(k)}</div><div class=\"v muted\">unknown</div>`;\<newline>'' @
     ''    }\<newline>'' @
     ''    const cls = (opts && opts.cls) ? ' ' + opts.cls : '' @ [CHR 0x27] @ [CHR 0x27] @ '';\<newline>'' @
     ''    return `<div class=\"k\">${escapeHtml(k)}</div><div class=\"v${cls}\">${escapeHtml(v)}</div>`;\<newline>'' @
     ''  }\<newline>'' @
     ''\<newline>'' @
     ''  function section(title, rows) {\<newline>'' @
     ''    if (!rows || rows.length === 0) return '' @ [CHR 0x27] @ [CHR 0x27] @ '';\<newline>'' @
     ''    return `<div class=\"info-section\"><h4>${escapeHtml(title)}</h4>` +\<newline>'' @
     ''           `<div class=\"info-grid\">${rows.join('' @ [CHR 0x27] @ [CHR 0x27] @ '')}</div></div>`;\<newline>'' @
     ''  }\<newline>'' @
     ''\<newline>'' @
     ''  function fmtBytesLocal(n) {\<newline>'' @
     ''    if (n == null) return null;\<newline>'' @
     ''    return fmtBytes(n);\<newline>'' @
     ''  }\<newline>'' @
     ''\<newline>'' @
     ''  function pct(used, total) {\<newline>'' @
     ''    if (!used || !total) return null;\<newline>'' @
     ''    return Math.round(used / total * 100) + '%';\<newline>'' @
     ''  }\<newline>'' @
     ''\<newline>'' @
     ''  function renderInfo(d) {\<newline>'' @
     ''    const dev = d.device || {};\<newline>'' @
     ''    const cpu = d.cpu || {};\<newline>'' @
     ''    const mem = d.memory || {};\<newline>'' @
     ''    const sto = d.storage || {};\<newline>'' @
     ''    const bat = d.battery || {};\<newline>'' @
     ''    const net = d.network || {};\<newline>'' @
     ''\<newline>'' @
     ''    const memTotal = mem.total;\<newline>'' @
     ''    const memAvail = mem.available;\<newline>'' @
     ''    const memUsed = (memTotal && memAvail) ? memTotal - memAvail : null;\<newline>'' @
     ''\<newline>'' @
     ''    const stoTotal = sto.total;\<newline>'' @
     ''    const stoFree = sto.free;\<newline>'' @
     ''    const stoUsed = (stoTotal && stoFree != null) ? stoTotal - stoFree : null;\<newline>'' @
     ''\<newline>'' @
     ''    const sections = [\<newline>'' @
     ''      section('Device', [\<newline>'' @
     ''        row('Model', dev.model),\<newline>'' @
     ''        row('Manufacturer', dev.manufacturer),\<newline>'' @
     ''        row('Brand', dev.brand),\<newline>'' @
     ''        row('Android', dev.android_version\<newline>'' @
     ''          ? dev.android_version + (dev.android_sdk ? ` (SDK ${dev.android_sdk})` : '' @ [CHR 0x27] @ [CHR 0x27] @ '')\<newline>'' @
     ''          : null),\<newline>'' @
     ''        row('SoC', dev.soc),\<newline>'' @
     ''        row('Kernel', dev.kernel),\<newline>'' @
     ''        row('Hostname', d.hostname),\<newline>'' @
     ''        row('Platform', d.platform),\<newline>'' @
     ''      ]),\<newline>'' @
     ''      section('CPU', [\<newline>'' @
     ''        row('Model', cpu.model),\<newline>'' @
     ''        row('Architecture', cpu.architecture),\<newline>'' @
     ''        row('Cores', cpu.cores),\<newline>'' @
     ''        row('Max Freq', cpu.max_freq_mhz ? cpu.max_freq_mhz + ' MHz' : null),\<newline>'' @
     ''      ]),\<newline>'' @
     ''      section('Memory', [\<newline>'' @
     ''        row('Total', fmtBytesLocal(memTotal)),\<newline>'' @
     ''        row('Available', fmtBytesLocal(memAvail)),\<newline>'' @
     ''        row('Used', memUsed != null\<newline>'' @
     ''          ? `${fmtBytesLocal(memUsed)} (${pct(memUsed, memTotal)})`\<newline>'' @
     ''          : null),\<newline>'' @
     ''      ]),\<newline>'' @
     ''      section('Storage', [\<newline>'' @
     ''        row('Root', sto.root),\<newline>'' @
     ''        row('Total', fmtBytesLocal(stoTotal)),\<newline>'' @
     ''        row('Free', fmtBytesLocal(stoFree)),\<newline>'' @
     ''        row('Used', stoUsed != null\<newline>'' @
     ''          ? `${fmtBytesLocal(stoUsed)} (${pct(stoUsed, stoTotal)})`\<newline>'' @
     ''          : null),\<newline>'' @
     ''      ]),\<newline>'' @
     ''      section('Battery', [\<newline>'' @
     ''        row('Level', bat.percentage != null ? bat.percentage + '%' : null),\<newline>'' @
     ''        row('Status', bat.status),\<newline>'' @
     ''        row('Plugged', bat.plugged),\<newline>'' @
     ''        row('Temperature', bat.temperature != null ? bat.temperature + ' '' @ [CHR 0xB0] @ ''C' : null),\<newline>'' @
     ''      ]),\<newline>'' @
     ''      section('Network', [\<newline>'' @
     ''        row('IP', net.ip),\<newline>'' @
     ''        row('WiFi SSID', net.wifi_ssid),\<newline>'' @
     ''        row('WiFi RSSI', net.wifi_rssi != null ? net.wifi_rssi + ' dBm' : null),\<newline>'' @
     ''        row('WiFi Link', net.wifi_link_speed != null ? net.wifi_link_speed + ' Mbps' : null),\<newline>'' @
     ''        row('WiFi Freq', net.wifi_frequency != null ? net.wifi_frequency + ' MHz' : null),\<newline>'' @
     ''      ]),\<newline>'' @
     ''      section('System', [\<newline>'' @
     ''        row('Agent ver', d.agent_version),\<newline>'' @
     ''        row('Uptime', d.uptime_s != null ? fmtUptime(d.uptime_s) : null),\<newline>'' @
     ''        row('Load 1/5/15m', d.loadavg ? d.loadavg.map(x => x.toFixed(2)).join(', ') : null),\<newline>'' @
     ''      ]),\<newline>'' @
     ''    ];\<newline>'' @
     ''    if (dev.build_fingerprint) {\<newline>'' @
     ''      sections.push(section('Build', [\<newline>'' @
     ''        row('Fingerprint', dev.build_fingerprint, {cls: 'fp'}),\<newline>'' @
     ''      ]));\<newline>'' @
     ''    }\<newline>'' @
     ''    return sections.join('' @ [CHR 0x27] @ [CHR 0x27] @ '');\<newline>'' @
     ''  }\<newline>'' @
     ''})();\<newline>'' @
     ''</script>\<newline>''"

definition dashboard_page ::
  "site \<Rightarrow> user_info \<Rightarrow> device_info list \<Rightarrow> string set \<Rightarrow> bool \<Rightarrow> (string \<times> string) list \<Rightarrow> string" where
  "dashboard_page S user ds online selfreg elsewhere =
     (let cards = map (device_card (st_now S) online elsewhere) ds;
     grid = (if cards \<noteq> [] then ''<div class=\"grid\">'' @ concat cards @ ''</div>''
       else ''<div class=\"empty\">\<newline>'' @
       ''  <h3>No devices yet</h3>\<newline>'' @
       ''  <p>If this machine runs <code>serve.sh</code>, click\<newline>'' @
       ''  '' @ utf8 [0xE2, 0x80, 0x9C] @ ''+ Self-Register this device'' @ utf8 [0xE2, 0x80, 0x9D] @ ''. To enroll a different phone, use\<newline>'' @
       ''  '' @ utf8 [0xE2, 0x80, 0x9C] @ ''Pair remote device'' @ utf8 [0xE2, 0x80, 0x9D] @ ''.</p>\<newline>'' @
       ''</div>'');
     flash = (if selfreg then ''<div class=\"flash success\">This device was registered to your account. If it'' @ utf8 [0xE2, 0x80, 0x99] @ ''s running <code>serve.sh</code> it will come online within a few seconds.</div>''
       else []) in
   page S ''Dashboard'' (
     ''\<newline>'' @
     flash @ ''\<newline>'' @
     ''<div class=\"section-head\">\<newline>'' @
     ''  <h2>// Your Devices</h2>\<newline>'' @
     ''  <div style=\"display:flex;gap:.6rem\">\<newline>'' @
     ''    <a class=\"btn btn-primary\" href=\"/self-register\">+ Self-Register this device</a>\<newline>'' @
     ''    <a class=\"btn\" href=\"/pair\">Pair remote device</a>\<newline>'' @
     ''  </div>\<newline>'' @
     ''</div>\<newline>'' @
     grid @ dashboard_script) (Some user) ''/'' True)"

section \<open>Adding a device\<close>

definition self_register_page ::
  "site \<Rightarrow> user_info \<Rightarrow> string \<Rightarrow> string \<Rightarrow> string \<Rightarrow> string" where
  "self_register_page S user default_name default_characteristics agent_config =
     page S ''Self-Register'' (
     ''\<newline>'' @
     ''<div class=\"section-head\"><h2>// Self-Register This Device</h2></div>\<newline>'' @
     ''<div class=\"card\" style=\"max-width:620px\">\<newline>'' @
     ''  <p style=\"margin-top:0;color:var(--muted);font-size:.85rem\">\<newline>'' @
     ''    Register <strong>the machine running this hub</strong> to your\<newline>'' @
     ''    account. No pairing code needed '' @ utf8 [0xE2, 0x80, 0x94] @ '' you'' @ utf8 [0xE2, 0x80, 0x99] @ ''re already signed in. The\<newline>'' @
     ''    credentials are written to\<newline>'' @
     ''    <code style=\"color:var(--cyan)\">'' @ escape agent_config @ ''</code>; a\<newline>'' @
     ''    <code>serve.sh</code>-launched agent picks them up and the device\<newline>'' @
     ''    comes online within seconds.\<newline>'' @
     ''  </p>\<newline>'' @
     ''  <form method=\"post\" action=\"/self-register\">\<newline>'' @
     ''    <label>Device name\<newline>'' @
     ''      <input name=\"device_name\" value=\"'' @ escape default_name @ ''\"\<newline>'' @
     ''             placeholder=\"e.g. Living-room Pixel\" maxlength=\"80\" required autofocus>\<newline>'' @
     ''    </label>\<newline>'' @
     ''    <label>Characteristics (free-form '' @ utf8 [0xE2, 0x80, 0x94] @ '' auto-detected, edit freely)\<newline>'' @
     ''      <textarea name=\"characteristics\" rows=\"6\"\<newline>'' @
     ''                style=\"resize:vertical;min-height:6rem\"\<newline>'' @
     ''                placeholder=\"OS, model, role, location, notes'' @ utf8 [0xE2, 0x80, 0xA6] @ ''\">'' @ escape default_characteristics @ ''</textarea>\<newline>'' @
     ''    </label>\<newline>'' @
     ''    <button type=\"submit\" class=\"btn btn-primary\" style=\"align-self:flex-start;margin-top:.5rem\">\<newline>'' @
     ''      Register this device\<newline>'' @
     ''    </button>\<newline>'' @
     ''  </form>\<newline>'' @
     ''</div>\<newline>'' @
     ''<p style=\"margin-top:1rem;color:var(--muted);font-size:.78rem;max-width:620px\">\<newline>'' @
     ''  Wrong machine? This always registers the device the hub process runs\<newline>'' @
     ''  on '' @ utf8 [0xE2, 0x80, 0x94] @ '' not the browser you'' @ utf8 [0xE2, 0x80, 0x99] @ ''re viewing from. To enroll a separate phone,\<newline>'' @
     ''  use <a href=\"/pair\">Pair remote device</a> instead.\<newline>'' @
     ''</p>'') (Some user) ''/self-register'' True"

definition pair_start_page ::
  "site \<Rightarrow> user_info \<Rightarrow> string" where
  "pair_start_page S user =
     page S ''Add Device'' (
     ''\<newline>'' @
     ''<div class=\"section-head\"><h2>// Add a Device</h2></div>\<newline>'' @
     ''<p style=\"color:var(--muted);font-size:.85rem;max-width:620px;margin-top:0\">\<newline>'' @
     ''  Devices enrol into <strong>your account</strong>, not a specific hub.\<newline>'' @
     ''  Pick whichever fits '' @ utf8 [0xE2, 0x80, 0x94] @ '' no per-hub pairing code needed.\<newline>'' @
     ''</p>\<newline>'' @
     ''\<newline>'' @
     ''<div class=\"card\" style=\"max-width:620px\">\<newline>'' @
     ''  <h3 style=\"margin:0 0 .35rem;color:var(--cyan)\">'' @ utf8 [0xE2, 0x91, 0xA0] @ '' Self-register (simplest)</h3>\<newline>'' @
     ''  <p style=\"margin:0 0 .75rem;color:var(--muted);font-size:.82rem\">\<newline>'' @
     ''    On the device itself: run <code>serve.sh</code>, open the UI, sign\<newline>'' @
     ''    in, click the button. No code, no token, no URL.\<newline>'' @
     ''  </p>\<newline>'' @
     ''  <a class=\"btn btn-primary\" href=\"/self-register\" style=\"align-self:flex-start\">\<newline>'' @
     ''    + Self-Register this device\<newline>'' @
     ''  </a>\<newline>'' @
     ''</div>\<newline>'' @
     ''\<newline>'' @
     ''<div class=\"card\" style=\"max-width:620px;margin-top:1.25rem\">\<newline>'' @
     ''  <h3 style=\"margin:0 0 .35rem;color:var(--cyan)\">'' @ utf8 [0xE2, 0x91, 0xA1] @ '' Reusable account token (headless / many devices)</h3>\<newline>'' @
     ''  <p style=\"margin:0 0 .75rem;color:var(--muted);font-size:.82rem\">\<newline>'' @
     ''    Mint one token, reuse it for <em>every</em> device. It enrols\<newline>'' @
     ''    against any node and the agent discovers where to connect by\<newline>'' @
     ''    itself. Revoke anytime.\<newline>'' @
     ''  </p>\<newline>'' @
     ''  <a class=\"btn btn-primary\" href=\"/enroll-tokens\" style=\"align-self:flex-start\">\<newline>'' @
     ''    Manage enrollment tokens '' @ utf8 [0xE2, 0x86, 0x92] @ ''\<newline>'' @
     ''  </a>\<newline>'' @
     ''</div>\<newline>'' @
     ''\<newline>'' @
     ''<details style=\"max-width:620px;margin-top:1.25rem\">\<newline>'' @
     ''  <summary style=\"cursor:pointer;color:var(--muted);font-size:.82rem\">\<newline>'' @
     ''    '' @ utf8 [0xE2, 0x91, 0xA2] @ '' Legacy: one-time 6-digit code (enrol a remote phone from here)\<newline>'' @
     ''  </summary>\<newline>'' @
     ''  <div class=\"card\" style=\"margin-top:.75rem\">\<newline>'' @
     ''    <p style=\"margin:0 0 .5rem;color:var(--muted);font-size:.82rem\">\<newline>'' @
     ''      Single-use, expires in 10 min. Superseded by the reusable token '' @ utf8 [0xE2, 0x80, 0x94] @ ''\<newline>'' @
     ''      kept for back-compat.\<newline>'' @
     ''    </p>\<newline>'' @
     ''    <form method=\"post\" action=\"/pair\">\<newline>'' @
     ''      <label>Device name (optional)\<newline>'' @
     ''        <input name=\"device_name\" placeholder=\"e.g. Pixel 8 Pro\" maxlength=\"80\">\<newline>'' @
     ''      </label>\<newline>'' @
     ''      <button type=\"submit\" class=\"btn\" style=\"align-self:flex-start;margin-top:.5rem\">\<newline>'' @
     ''        Generate Code\<newline>'' @
     ''      </button>\<newline>'' @
     ''    </form>\<newline>'' @
     ''  </div>\<newline>'' @
     ''</details>'') (Some user) ''/pair'' True"

definition token_row ::
  "int \<Rightarrow> account_token_info \<Rightarrow> string" where
  "token_row now t =
     (let label = escape (or_str (opt_str (ai_label t)) (utf8 [0xE2, 0x80, 0x94]));
        created = escape (ago now (ai_created_at t) @ '' ago'');
        used = (case ai_last_used t of None \<Rightarrow> ''never''
          | Some u \<Rightarrow> if u = 0 then ''never'' else ago now u @ '' ago'') in
     ''<div class=\"row\">\<newline>'' @
     ''  <span class=\"invite-code\">#'' @ int_str (ai_id t) @ '' '' @ [CHR 0xB7] @ '' '' @ label @ ''</span>\<newline>'' @
     ''  <span class=\"status\">created '' @ created @ '' '' @ [CHR 0xB7] @ '' used '' @ escape used @ ''</span>\<newline>'' @
     ''  <form method=\"post\" action=\"/enroll-tokens/'' @ int_str (ai_id t) @ ''/delete\"\<newline>'' @
     ''        style=\"margin-left:auto\">\<newline>'' @
     ''    <button class=\"btn btn-small btn-danger\" type=\"submit\"\<newline>'' @
     ''            onclick=\"return confirm('Revoke token #'' @ int_str (ai_id t) @ ''? Devices already enrolled keep working; new enrollments with it stop.')\">\<newline>'' @
     ''      Revoke\<newline>'' @
     ''    </button>\<newline>'' @
     ''  </form>\<newline>'' @
     ''</div>'')"

definition enroll_tokens_page ::
  "site \<Rightarrow> user_info \<Rightarrow> account_token_info list \<Rightarrow> string \<Rightarrow> string" where
  "enroll_tokens_page S user tokens hub_url =
     (let rows = (if tokens \<noteq> [] then concat (map (token_row (st_now S)) tokens) else
     ''<div class=\"empty\"><p>No enrollment tokens yet. Create one below.</p></div>'') in
   page S ''Enrollment Tokens'' (
     ''\<newline>'' @
     ''<div class=\"section-head\"><h2>// Enrollment Tokens</h2></div>\<newline>'' @
     ''<p style=\"color:var(--muted);font-size:.85rem;max-width:620px;margin-top:0\">\<newline>'' @
     ''  A reusable, revocable <strong>account</strong> credential. One token\<newline>'' @
     ''  enrols any number of devices into your account against any node '' @ utf8 [0xE2, 0x80, 0x94] @ ''\<newline>'' @
     ''  there's no per-hub code and the agent finds a node on its own.\<newline>'' @
     ''  Revoking a token does not unpair devices already enrolled with it.\<newline>'' @
     ''</p>\<newline>'' @
     ''<div class=\"invites-list\" style=\"max-width:620px\">'' @ rows @ ''</div>\<newline>'' @
     ''\<newline>'' @
     ''<div class=\"card\" style=\"max-width:480px;margin-top:1rem\">\<newline>'' @
     ''  <form method=\"post\" action=\"/enroll-tokens\">\<newline>'' @
     ''    <label>Label (optional)\<newline>'' @
     ''      <input name=\"label\" placeholder=\"e.g. my phones\" maxlength=\"60\">\<newline>'' @
     ''    </label>\<newline>'' @
     ''    <button type=\"submit\" class=\"btn btn-primary\" style=\"align-self:flex-start;margin-top:.5rem\">\<newline>'' @
     ''      Create token\<newline>'' @
     ''    </button>\<newline>'' @
     ''  </form>\<newline>'' @
     ''</div>'') (Some user) ''/pair'' True)"

text \<open>The command lines the pages show, and the link of the driver.\<close>

definition enroll_command ::
  "string \<Rightarrow> string \<Rightarrow> string" where
  "enroll_command token hub_url =
     ''MODE=agent VORTEX_ACCOUNT_TOKEN='' @ token @ '' HUB_URL='' @ shell_quote hub_url @ '' bash ~/server/serve.sh''"

definition apk_link ::
  "string \<Rightarrow> string \<Rightarrow> string" where
  "apk_link token hub_url =
     ''vortex://enroll?token='' @ quote_all token @ ''&hub='' @ quote_all hub_url"

definition enroll_token_created_page ::
  "site \<Rightarrow> user_info \<Rightarrow> string \<Rightarrow> string \<Rightarrow> string option \<Rightarrow> string" where
  "enroll_token_created_page S user token hub_url label =
     (let one_liner = enroll_command token hub_url; link = apk_link token hub_url in
   page S ''Token Created'' (
     ''\<newline>'' @
     ''<div class=\"section-head\"><h2>// Token Created</h2></div>\<newline>'' @
     ''<div style=\"max-width:760px\">\<newline>'' @
     ''  <div class=\"flash error\" style=\"margin-bottom:1rem\">\<newline>'' @
     ''    Copy this now '' @ utf8 [0xE2, 0x80, 0x94] @ '' it'' @ utf8 [0xE2, 0x80, 0x99] @ ''s shown <strong>once</strong> and stored hashed.\<newline>'' @
     ''    It'' @ utf8 [0xE2, 0x80, 0x99] @ ''s reusable for <em>all</em> your devices; revoke it anytime on\<newline>'' @
     ''    the Enrollment Tokens page.\<newline>'' @
     ''  </div>\<newline>'' @
     ''  <div class=\"card\" style=\"padding:1rem\">\<newline>'' @
     ''    <code style=\"font-family:ui-monospace,Menlo,Consolas,monospace;font-size:.9rem;color:var(--cyan);word-break:break-all;user-select:all;display:block\">'' @ escape token @ ''</code>\<newline>'' @
     ''  </div>\<newline>'' @
     ''\<newline>'' @
     ''  <div class=\"qr-row\" style=\"margin-top:1.5rem\">\<newline>'' @
     ''    <div class=\"qr-card\">'' @ qr_svg S link @ ''</div>\<newline>'' @
     ''    <div class=\"qr-side\">\<newline>'' @
     ''      <h4>// Vortex Driver APK (Android '' @ utf8 [0xE2, 0x80, 0x94] @ '' easiest)</h4>\<newline>'' @
     ''      <ol>\<newline>'' @
     ''        <li>Install Vortex Driver on the phone (see <code>driver/</code> CI artifact).</li>\<newline>'' @
     ''        <li>Open the phone's <strong>Camera</strong> (or any QR scanner)\<newline>'' @
     ''            and point it at this QR.</li>\<newline>'' @
     ''        <li>Tap the <code>vortex://enroll</code> link '' @ utf8 [0xE2, 0x80, 0x94] @ '' Vortex Driver\<newline>'' @
     ''            opens, all fields are pre-filled, and it enrols itself\<newline>'' @
     ''            against this hub. No typing, no Termux.</li>\<newline>'' @
     ''      </ol>\<newline>'' @
     ''      <p style=\"margin:0;color:var(--muted);font-size:.7rem\">\<newline>'' @
     ''        Reusable across all your Android devices; revoke the token to\<newline>'' @
     ''        cut off enrollment.\<newline>'' @
     ''      </p>\<newline>'' @
     ''    </div>\<newline>'' @
     ''  </div>\<newline>'' @
     ''  <h3 style=\"margin-top:1rem;font-size:.85rem;letter-spacing:.18em;text-transform:uppercase;color:var(--muted)\">\<newline>'' @
     ''    Or open this link on the phone directly:\<newline>'' @
     ''    <button class=\"copy-btn\" id=\"copy-apk-link\">Copy link</button>\<newline>'' @
     ''  </h3>\<newline>'' @
     ''  <div class=\"card\" style=\"padding:1rem\">\<newline>'' @
     ''    <code id=\"apk-link\" style=\"font-family:ui-monospace,Menlo,Consolas,monospace;font-size:.78rem;color:var(--cyan);word-break:break-all;user-select:all;display:block\">'' @ escape link @ ''</code>\<newline>'' @
     ''  </div>\<newline>'' @
     ''\<newline>'' @
     ''  <details style=\"margin-top:1.25rem\">\<newline>'' @
     ''    <summary style=\"cursor:pointer;color:var(--muted);font-size:.85rem\">\<newline>'' @
     ''      Termux-based phone instead? (legacy one-liner)\<newline>'' @
     ''    </summary>\<newline>'' @
     ''    <div class=\"qr-row\" style=\"margin-top:.75rem\">\<newline>'' @
     ''      <div class=\"qr-card\">'' @ qr_svg S one_liner @ ''</div>\<newline>'' @
     ''      <div class=\"qr-side\">\<newline>'' @
     ''        <h4>// One-liner (Termux)</h4>\<newline>'' @
     ''        <ol>\<newline>'' @
     ''          <li>Scan the QR (or copy below).</li>\<newline>'' @
     ''          <li>Paste into Termux, hit enter.</li>\<newline>'' @
     ''        </ol>\<newline>'' @
     ''      </div>\<newline>'' @
     ''    </div>\<newline>'' @
     ''  </details>\<newline>'' @
     ''\<newline>'' @
     ''  <h3 style=\"margin-top:1.5rem;font-size:.85rem;letter-spacing:.18em;text-transform:uppercase;color:var(--muted)\">\<newline>'' @
     ''    Or paste this manually:\<newline>'' @
     ''    <button class=\"copy-btn\" id=\"copy-cmd\">Copy command</button>\<newline>'' @
     ''  </h3>\<newline>'' @
     ''  <div class=\"card\" style=\"padding:1rem\">\<newline>'' @
     ''    <code id=\"pair-cmd\" style=\"font-family:ui-monospace,Menlo,Consolas,monospace;font-size:.78rem;color:var(--cyan);word-break:break-all;user-select:all;display:block\">'' @ escape one_liner @ ''</code>\<newline>'' @
     ''  </div>\<newline>'' @
     ''  <p style=\"margin-top:1.25rem\">\<newline>'' @
     ''    <a class=\"btn\" href=\"/enroll-tokens\">'' @ utf8 [0xE2, 0x86, 0x90] @ '' Back to tokens</a>\<newline>'' @
     ''  </p>\<newline>'' @
     ''</div>\<newline>'' @
     ''<script>\<newline>'' @
     ''(function() {\<newline>'' @
     ''  const wire = (id, value) => {\<newline>'' @
     ''    const b = document.getElementById(id);\<newline>'' @
     ''    if (!b) return;\<newline>'' @
     ''    b.addEventListener('click', async () => {\<newline>'' @
     ''      try { await navigator.clipboard.writeText(value);\<newline>'' @
     ''             b.textContent = 'Copied '' @ utf8 [0xE2, 0x9C, 0x93] @ [CHR 0x27] @ ''; b.classList.add('ok'); }\<newline>'' @
     ''      catch (e) { b.textContent = 'Copy failed'; }\<newline>'' @
     ''    });\<newline>'' @
     ''  };\<newline>'' @
     ''  wire('copy-cmd', '' @ json_dumps_for_html one_liner @ '');\<newline>'' @
     ''  wire('copy-apk-link', '' @ json_dumps_for_html link @ '');\<newline>'' @
     ''})();\<newline>'' @
     ''</script>'') (Some user) ''/pair'' True)"

definition pair_command ::
  "string \<Rightarrow> string \<Rightarrow> string option \<Rightarrow> string" where
  "pair_command code hub_url device_name =
     (let name_arg = (if opt_str device_name = [] then [] else '' DEVICE_NAME='' @ shell_quote (opt_str device_name)) in
     ''MODE=agent PAIRING_CODE='' @ code @ '' HUB_URL='' @ shell_quote hub_url @ name_arg @ '' bash ~/server/serve.sh'')"

definition pair_code_page ::
  "site \<Rightarrow> user_info \<Rightarrow> string \<Rightarrow> string \<Rightarrow> string option \<Rightarrow> string" where
  "pair_code_page S user code hub_url device_name =
     (let cmd = pair_command code hub_url device_name in
   page S ''Pairing'' (
     ''\<newline>'' @
     ''<div class=\"section-head\"><h2>// Pairing Code</h2></div>\<newline>'' @
     ''<div style=\"max-width:760px\">\<newline>'' @
     ''  <div class=\"code-display\">'' @ escape code @ ''</div>\<newline>'' @
     ''  <p style=\"color:var(--muted);font-size:.85rem;text-align:center\">\<newline>'' @
     ''    Code expires in 10 minutes. Single use.\<newline>'' @
     ''  </p>\<newline>'' @
     ''\<newline>'' @
     ''  <div class=\"qr-row\">\<newline>'' @
     ''    <div class=\"qr-card\">'' @ qr_svg S cmd @ ''</div>\<newline>'' @
     ''    <div class=\"qr-side\">\<newline>'' @
     ''      <h4>// Scan with phone</h4>\<newline>'' @
     ''      <ol>\<newline>'' @
     ''        <li>Open your phone's camera (or any QR-scanner app).</li>\<newline>'' @
     ''        <li>Point it at this QR '' @ utf8 [0xE2, 0x80, 0x94] @ '' your scanner will offer to copy the text.</li>\<newline>'' @
     ''        <li>Tap to copy, switch to Termux, paste, hit enter.</li>\<newline>'' @
     ''      </ol>\<newline>'' @
     ''      <p style=\"margin:0;color:var(--muted);font-size:.7rem\">\<newline>'' @
     ''        The QR encodes the literal one-liner shell command '' @ utf8 [0xE2, 0x80, 0x94] @ '' no app required.\<newline>'' @
     ''      </p>\<newline>'' @
     ''    </div>\<newline>'' @
     ''  </div>\<newline>'' @
     ''\<newline>'' @
     ''  <h3 style=\"margin-top:2rem;font-size:.85rem;letter-spacing:.18em;text-transform:uppercase;color:var(--muted)\">\<newline>'' @
     ''    Or paste this manually:\<newline>'' @
     ''    <button class=\"copy-btn\" id=\"copy-cmd\">Copy command</button>\<newline>'' @
     ''  </h3>\<newline>'' @
     ''  <div class=\"card\" style=\"padding:1rem\">\<newline>'' @
     ''    <code id=\"pair-cmd\" style=\"font-family:ui-monospace,Menlo,Consolas,monospace;font-size:.78rem;color:var(--cyan);word-break:break-all;user-select:all;display:block\">'' @ escape cmd @ ''</code>\<newline>'' @
     ''  </div>\<newline>'' @
     ''\<newline>'' @
     ''  <p style=\"margin-top:1.5rem;color:var(--muted);font-size:.78rem\">\<newline>'' @
     ''    Or set the code interactively when the agent prompts.\<newline>'' @
     ''  </p>\<newline>'' @
     ''  <p style=\"font-size:.85rem\">\<newline>'' @
     ''    Once paired, the device appears on your <a href=\"/\">dashboard</a>.\<newline>'' @
     ''  </p>\<newline>'' @
     ''</div>\<newline>'' @
     ''<script>\<newline>'' @
     ''(function() {\<newline>'' @
     ''  const cmd = '' @ json_dumps_for_html cmd @ '';\<newline>'' @
     ''  const btn = document.getElementById('copy-cmd');\<newline>'' @
     ''  if (!btn) return;\<newline>'' @
     ''  btn.addEventListener('click', async () => {\<newline>'' @
     ''    try {\<newline>'' @
     ''      await navigator.clipboard.writeText(cmd);\<newline>'' @
     ''      const orig = btn.textContent;\<newline>'' @
     ''      btn.textContent = 'Copied!';\<newline>'' @
     ''      btn.classList.add('ok');\<newline>'' @
     ''      setTimeout(() => {\<newline>'' @
     ''        btn.textContent = orig;\<newline>'' @
     ''        btn.classList.remove('ok');\<newline>'' @
     ''      }, 1400);\<newline>'' @
     ''    } catch (e) {\<newline>'' @
     ''      // Fallback: select the code element so the user can Ctrl-C\<newline>'' @
     ''      const el = document.getElementById('pair-cmd');\<newline>'' @
     ''      const sel = window.getSelection();\<newline>'' @
     ''      const r = document.createRange();\<newline>'' @
     ''      r.selectNodeContents(el);\<newline>'' @
     ''      sel.removeAllRanges(); sel.addRange(r);\<newline>'' @
     ''    }\<newline>'' @
     ''  });\<newline>'' @
     ''})();\<newline>'' @
     ''</script>'') (Some user) ''/pair'' True)"

section \<open>A device and its files\<close>

text \<open>The handler of the button that removes a device, the value of its \<^verbatim>\<open>onclick\<close>.\<close>

definition unpair_handler :: "string \<Rightarrow> string" where
  "unpair_handler name = ''return confirm('' @ CHR 0x27 # ''Unpair '' @ escape name @
     ''? You will need to re-pair to control it again.'' @ CHR 0x27 # '')''"

definition device_manage_page ::
  "site \<Rightarrow> user_info \<Rightarrow> device_info \<Rightarrow> bool \<Rightarrow> string" where
  "device_manage_page S user d online =
     (let badge = (if online then (''online'', ''Online'') else (''offline'', ''Offline''));
        seen = (case di_last_seen d of None \<Rightarrow> ''never''
          | Some t \<Rightarrow> if t = 0 then ''never'' else ago (st_now S) t @ '' ago'') in
   page S (di_name d) (
     ''\<newline>'' @
     ''<div class=\"section-head\" style=\"align-items:center\">\<newline>'' @
     ''  <h2>// '' @ escape (di_name d) @ ''</h2>\<newline>'' @
     ''  <span class=\"badge '' @ fst badge @ ''\">'' @ snd badge @ ''</span>\<newline>'' @
     ''</div>\<newline>'' @
     ''<div class=\"card\" style=\"max-width:560px\">\<newline>'' @
     ''  <p class=\"meta\">id: '' @ escape (di_id d) @ ''</p>\<newline>'' @
     ''  <p class=\"meta\">paired: '' @ escape (ago (st_now S) (di_paired_at d)) @ '' ago</p>\<newline>'' @
     ''  <p class=\"meta\">last seen: '' @ escape seen @ ''</p>\<newline>'' @
     ''\<newline>'' @
     ''  <h3 style=\"margin-top:1rem;font-size:.78rem;letter-spacing:.18em;text-transform:uppercase;color:var(--muted)\">Rename</h3>\<newline>'' @
     ''  <form method=\"post\" action=\"/devices/'' @ escape (di_id d) @ ''/rename\" class=\"inline\">\<newline>'' @
     ''    <input name=\"name\" value=\"'' @ escape (di_name d) @ ''\" required maxlength=\"80\">\<newline>'' @
     ''    <button type=\"submit\" class=\"btn\">Save</button>\<newline>'' @
     ''  </form>\<newline>'' @
     ''\<newline>'' @
     ''  <div class=\"actions\" style=\"margin-top:1.5rem\">\<newline>'' @
     ''    <a class=\"btn btn-primary\" href=\"/devices/'' @ escape (di_id d) @ ''/files/\">Browse Files</a>\<newline>'' @
     ''    <a class=\"btn\" href=\"/devices/'' @ escape (di_id d) @ ''/camera\">Camera</a>\<newline>'' @
     ''    <a class=\"btn\" href=\"/devices/'' @ escape (di_id d) @ ''/screen\">Screen</a>\<newline>'' @
     ''    <a class=\"btn btn-danger\" href=\"/devices/'' @ escape (di_id d) @ ''/theft\">'' @ utf8 [0xF0, 0x9F, 0x9B, 0xA1] @ '' Theft Mode</a>\<newline>'' @
     ''    <form method=\"post\" action=\"/devices/'' @ escape (di_id d) @ ''/delete\" style=\"display:inline;margin:0\">\<newline>'' @
     ''      <button class=\"btn btn-danger\" type=\"submit\"\<newline>'' @
     ''              onclick=\"'' @ unpair_handler (di_name d) @ ''\">\<newline>'' @
     ''        Unpair\<newline>'' @
     ''      </button>\<newline>'' @
     ''    </form>\<newline>'' @
     ''  </div>\<newline>'' @
     ''</div>'') (Some user) ''/'' True)"

text \<open>What the page needs of an entry of a listing: its name, its size as it is printed, whether it is a directory or an image.\<close>

record entry =
  ls_name :: string
  ls_dir :: bool
  ls_size :: "string option"
  ls_image :: bool

definition file_row ::
  "string \<Rightarrow> string \<Rightarrow> entry \<Rightarrow> string" where
  "file_row did rel_prefix e =
     (let name = ls_name e @ (if ls_dir e then ''/'' else []);
        href = quote (ls_name e) @ (if ls_dir e then ''/'' else []);
        size = (if ls_dir e then [] else case ls_size e of None \<Rightarrow> [] | Some n \<Rightarrow> n @ '' bytes'');
        thumb_url = ''/devices/'' @ quote did @ ''/thumb/'' @ quote (rel_prefix @ ls_name e) @ ''?size=80'';
        thumb = (if \<not> ls_dir e \<and> ls_image e then ''<img class=\"thumb\" loading=\"lazy\" decoding=\"async\" src=\"'' @ thumb_url @ ''\" alt=\"\">'' else []) in
     ''<li>'' @ thumb @ ''<a href=\"'' @ href @ ''\">'' @ escape name @ ''</a><span class=\"size\">'' @ size @ ''</span></li>'')"

definition files_page ::
  "site \<Rightarrow> user_info \<Rightarrow> device_info \<Rightarrow> string \<Rightarrow> entry list \<Rightarrow> string" where
  "files_page S user d rel entries =
     (let rel_prefix = (if rel \<noteq> [] then rstrip_slash rel @ ''/'' else []);
        rows = (if rel \<noteq> [] then ''<li><a href=\"../\">../</a><span class=\"size\"></span></li>'' else []) @
          concat (map (file_row (di_id d) rel_prefix) entries);
        title_path = CHR ''/'' # rel in
   page S (''Files '' @ title_path) (
     ''\<newline>'' @
     ''<div class=\"breadcrumbs\">\<newline>'' @
     ''  <span class=\"device-pill\">'' @ escape (di_name d) @ ''</span>\<newline>'' @
     ''  <span class=\"sep\">'' @ [CHR 0xB7] @ ''</span>\<newline>'' @
     ''  <a href=\"/devices/'' @ escape (di_id d) @ ''\">manage</a>\<newline>'' @
     ''  <span class=\"sep\">'' @ [CHR 0xB7] @ ''</span>\<newline>'' @
     ''  <span>'' @ escape title_path @ ''</span>\<newline>'' @
     ''</div>\<newline>'' @
     ''\<newline>'' @
     ''<div class=\"upload-zone\" id=\"upload-zone\">\<newline>'' @
     ''  <span class=\"hint\">Drop files here to upload to <code>'' @ escape title_path @ ''</code>, or\<newline>'' @
     ''    <a href=\"#\" id=\"upload-pick\" style=\"color:var(--cyan)\">choose files</a>.\<newline>'' @
     ''  </span>\<newline>'' @
     ''  <input type=\"file\" id=\"upload-input\" multiple>\<newline>'' @
     ''</div>\<newline>'' @
     ''<div class=\"upload-progress\" id=\"upload-progress\"></div>\<newline>'' @
     ''\<newline>'' @
     ''<ul class=\"dirlist\">'' @ rows @ ''</ul>\<newline>'' @
     ''\<newline>'' @
     ''<script>\<newline>'' @
     ''(function() {\<newline>'' @
     ''  const did = '' @ json_dumps_for_html (di_id d) @ '';\<newline>'' @
     ''  const dir = '' @ json_dumps_for_html rel_prefix @ '';\<newline>'' @
     ''  const zone = document.getElementById('upload-zone');\<newline>'' @
     ''  const input = document.getElementById('upload-input');\<newline>'' @
     ''  const pick = document.getElementById('upload-pick');\<newline>'' @
     ''  const progress = document.getElementById('upload-progress');\<newline>'' @
     ''\<newline>'' @
     ''  pick.addEventListener('click', e => { e.preventDefault(); input.click(); });\<newline>'' @
     ''  input.addEventListener('change', () => {\<newline>'' @
     ''    if (input.files && input.files.length) uploadFiles(input.files);\<newline>'' @
     ''    input.value = '' @ [CHR 0x27] @ [CHR 0x27] @ '';\<newline>'' @
     ''  });\<newline>'' @
     ''\<newline>'' @
     ''  ['dragenter', 'dragover'].forEach(ev => zone.addEventListener(ev, e => {\<newline>'' @
     ''    e.preventDefault(); e.stopPropagation(); zone.classList.add('drag');\<newline>'' @
     ''  }));\<newline>'' @
     ''  ['dragleave', 'drop'].forEach(ev => zone.addEventListener(ev, e => {\<newline>'' @
     ''    e.preventDefault(); e.stopPropagation(); zone.classList.remove('drag');\<newline>'' @
     ''  }));\<newline>'' @
     ''  zone.addEventListener('drop', e => {\<newline>'' @
     ''    if (e.dataTransfer && e.dataTransfer.files.length)\<newline>'' @
     ''      uploadFiles(e.dataTransfer.files);\<newline>'' @
     ''  });\<newline>'' @
     ''\<newline>'' @
     ''  function makeRow(name) {\<newline>'' @
     ''    const r = document.createElement('div');\<newline>'' @
     ''    r.className = 'row';\<newline>'' @
     ''    r.innerHTML = `<span class=\"name\">${escapeHtml(name)}</span>` +\<newline>'' @
     ''                  `<div class=\"bar\"><i></i></div>` +\<newline>'' @
     ''                  `<span class=\"pct\">0%</span>`;\<newline>'' @
     ''    return r;\<newline>'' @
     ''  }\<newline>'' @
     ''  function escapeHtml(s) {\<newline>'' @
     ''    const d = document.createElement('div');\<newline>'' @
     ''    d.textContent = s;\<newline>'' @
     ''    return d.innerHTML;\<newline>'' @
     ''  }\<newline>'' @
     ''\<newline>'' @
     ''  async function uploadFiles(files) {\<newline>'' @
     ''    progress.classList.add('active');\<newline>'' @
     ''    let allOk = true;\<newline>'' @
     ''    for (const f of files) {\<newline>'' @
     ''      const row = makeRow(f.name);\<newline>'' @
     ''      progress.appendChild(row);\<newline>'' @
     ''      const bar = row.querySelector('.bar > i');\<newline>'' @
     ''      const pct = row.querySelector('.pct');\<newline>'' @
     ''\<newline>'' @
     ''      try {\<newline>'' @
     ''        await new Promise((resolve, reject) => {\<newline>'' @
     ''          const xhr = new XMLHttpRequest();\<newline>'' @
     ''          const url = `/devices/${encodeURIComponent(did)}/files/` +\<newline>'' @
     ''                      encodeURIComponent(dir + f.name);\<newline>'' @
     ''          xhr.open('PUT', url);\<newline>'' @
     ''          xhr.upload.onprogress = e => {\<newline>'' @
     ''            if (!e.lengthComputable) return;\<newline>'' @
     ''            const p = Math.round(e.loaded / e.total * 100);\<newline>'' @
     ''            bar.style.width = p + '%';\<newline>'' @
     ''            pct.textContent = p + '%';\<newline>'' @
     ''          };\<newline>'' @
     ''          xhr.onload = () => {\<newline>'' @
     ''            if (xhr.status >= 200 && xhr.status < 300) resolve();\<newline>'' @
     ''            else reject(new Error('HTTP ' + xhr.status + ': ' + xhr.responseText));\<newline>'' @
     ''          };\<newline>'' @
     ''          xhr.onerror = () => reject(new Error('network error'));\<newline>'' @
     ''          xhr.send(f);\<newline>'' @
     ''        });\<newline>'' @
     ''        row.classList.add('done');\<newline>'' @
     ''        bar.style.width = '100%';\<newline>'' @
     ''        pct.textContent = 'done';\<newline>'' @
     ''      } catch (e) {\<newline>'' @
     ''        row.classList.add('error');\<newline>'' @
     ''        pct.textContent = 'error';\<newline>'' @
     ''        row.title = e.message;\<newline>'' @
     ''        allOk = false;\<newline>'' @
     ''      }\<newline>'' @
     ''    }\<newline>'' @
     ''    if (allOk) {\<newline>'' @
     ''      // Reload after a short pause so the user sees the green ticks first.\<newline>'' @
     ''      setTimeout(() => location.reload(), 500);\<newline>'' @
     ''    }\<newline>'' @
     ''  }\<newline>'' @
     ''})();\<newline>'' @
     ''</script>'') (Some user) ''/'' True)"

definition files_error_page ::
  "site \<Rightarrow> user_info \<Rightarrow> device_info \<Rightarrow> string \<Rightarrow> string" where
  "files_error_page S user d message =
     page S (''Files '' @ utf8 [0xE2, 0x80, 0x94] @ '' '' @ di_name d) (
     ''<div class=\"breadcrumbs\">\<newline>'' @
     ''  <span class=\"device-pill\">'' @ escape (di_name d) @ ''</span>\<newline>'' @
     ''  <span class=\"sep\">'' @ [CHR 0xB7] @ ''</span>\<newline>'' @
     ''  <a href=\"/devices/'' @ escape (di_id d) @ ''\">manage</a>\<newline>'' @
     ''</div>\<newline>'' @
     ''<div class=\"empty\">\<newline>'' @
     ''  <h3>Unavailable</h3>\<newline>'' @
     ''  <p>'' @ escape message @ ''</p>\<newline>'' @
     ''  <p style=\"margin-top:1rem\"><a class=\"btn\" href=\"/\">Back to dashboard</a></p>\<newline>'' @
     ''</div>'') (Some user) ''/'' True"

section \<open>Invites and the audit log\<close>

definition invite_row_html ::
  "invite_info \<Rightarrow> string" where
  "invite_row_html i =
     (let status = (case ii_used_by i of None \<Rightarrow> ''<span class=\"status\">Unused</span>'' | Some u \<Rightarrow>
          if u = 0 then ''<span class=\"status\">Unused</span>'' else ''<span class=\"status used\">Used</span>'') in
     ''<div class=\"row\">\<newline>'' @
     ''  <span class=\"invite-code\">'' @ escape (ii_code i) @ ''</span>\<newline>'' @
     ''  '' @ status @ ''\<newline>'' @
     ''  <a class=\"btn btn-small\" href=\"/register?invite='' @ escape (ii_code i) @ ''\" style=\"margin-left:auto\">Open Link</a>\<newline>'' @
     ''</div>'')"

definition admin_invites_page ::
  "site \<Rightarrow> user_info \<Rightarrow> invite_info list \<Rightarrow> string \<Rightarrow> string" where
  "admin_invites_page S user invs hub_url =
     (let rows = (if invs \<noteq> [] then concat (map invite_row_html invs) else
     ''<div class=\"empty\"><p>No invites yet. Generate one below.</p></div>'') in
   page S ''Invites'' (
     ''\<newline>'' @
     ''<div class=\"section-head\"><h2>// Invite Codes</h2></div>\<newline>'' @
     ''<div class=\"invites-list\">'' @ rows @ ''</div>\<newline>'' @
     ''\<newline>'' @
     ''<div class=\"card\" style=\"max-width:480px\">\<newline>'' @
     ''  <form method=\"post\" action=\"/admin/invites\">\<newline>'' @
     ''    <p style=\"margin:0;color:var(--muted);font-size:.85rem\">\<newline>'' @
     ''      Generate a one-time invite code. Recipients can self-register at\<newline>'' @
     ''      <code style=\"color:var(--cyan)\">/register?invite=...</code>.\<newline>'' @
     ''    </p>\<newline>'' @
     ''    <button type=\"submit\" class=\"btn btn-primary\" style=\"align-self:flex-start;margin-top:.5rem\">\<newline>'' @
     ''      Generate Invite\<newline>'' @
     ''    </button>\<newline>'' @
     ''  </form>\<newline>'' @
     ''</div>'') (Some user) ''/admin/invites'' True)"

definition audit_row_html ::
  "site \<Rightarrow> audit_row \<Rightarrow> string" where
  "audit_row_html S e =
     (let when = st_clock S (au_ts e);
        actor = escape (or_str (opt_str (au_actor_name e)) (utf8 [0xE2, 0x80, 0x94]));
        dev = escape (or_str (opt_str (au_device_id e)) (utf8 [0xE2, 0x80, 0x94]));
        action = escape (au_action e); detail = escape (opt_str (au_detail e));
        fail = (if au_ok e \<noteq> 0 then [] else ''ok'') in
     ''<tr'' @ fail @ ''><td style=\"white-space:nowrap;color:var(--muted)\">'' @ when @ ''</td><td>'' @ actor @ ''</td><td><code>'' @ action @ ''</code></td><td>'' @ dev @ ''</td><td style=\"color:var(--muted)\">'' @ detail @ ''</td></tr>'')"

definition audit_page ::
  "site \<Rightarrow> user_info \<Rightarrow> audit_row list \<Rightarrow> string" where
  "audit_page S user events =
     (let rows = (if events \<noteq> [] then concat (map (audit_row_html S) events) else
     ''<tr><td colspan=\"5\" class=\"empty\">No audit events yet.</td></tr>'') in
   page S ''Audit'' (
     ''\<newline>'' @
     ''<div class=\"section-head\"><h2>// Audit Log</h2></div>\<newline>'' @
     ''<p style=\"color:var(--muted);font-size:.85rem;max-width:640px\">\<newline>'' @
     ''  Sensitive actions on your account: covert captures (camera / audio /\<newline>'' @
     ''  location), Theft-Mode arm &amp; disarm, and file writes to a device.\<newline>'' @
     ''  High-frequency input (taps / keystrokes / scroll) is deliberately not\<newline>'' @
     ''  logged per-event. Newest first.\<newline>'' @
     ''</p>\<newline>'' @
     ''<div class=\"card\" style=\"overflow-x:auto\">\<newline>'' @
     ''  <table style=\"width:100%;border-collapse:collapse;font-size:.85rem\">\<newline>'' @
     ''    <thead><tr style=\"text-align:left;color:var(--muted);border-bottom:1px solid var(--surface-2)\">\<newline>'' @
     ''      <th style=\"padding:.4rem\">Time</th><th style=\"padding:.4rem\">Who</th>\<newline>'' @
     ''      <th style=\"padding:.4rem\">Action</th><th style=\"padding:.4rem\">Device</th>\<newline>'' @
     ''      <th style=\"padding:.4rem\">Detail</th>\<newline>'' @
     ''    </tr></thead>\<newline>'' @
     ''    <tbody>'' @ rows @ ''</tbody>\<newline>'' @
     ''  </table>\<newline>'' @
     ''</div>'') (Some user) ''/audit'' True)"

section \<open>Settings\<close>

definition SETTINGS_META :: "(string \<times> string \<times> string) list" where
  "SETTINGS_META = [
     (''VORTEX_SYNC_URL'', ''Remote database URL'',
      ''libsql://'' @ utf8 [0xE2, 0x80, 0xA6] @ '' Turso / libSQL replica endpoint. Blank = local SQLite only.''),
     (''VORTEX_SYNC_TOKEN'', ''Remote database token'',
      ''libSQL auth token (JWT). Write-only '' @ utf8 [0xE2, 0x80, 0x94] @ '' leave blank to keep the stored one.''),
     (''VORTEX_HUB_DB'', ''Local database path'',
      ''Where the local SQLite / replica file lives. Blank = default (~/vortex/hub.db).''),
     (''APP_PORT'', ''Hub port'',
      ''TCP port uvicorn binds to. Default 8000.''),
     (''CLOUDFLARE_TUNNEL_TOKEN'', ''Cloudflare tunnel token'',
      ''Named-tunnel token for a stable public URL. Write-only '' @ utf8 [0xE2, 0x80, 0x94] @ '' blank keeps it.''),
     (''VORTEX_HUB_PUBLIC_URL'', ''Public URL override'',
      ''Forces the URL shown in pair links & invites (e.g. https://hub.example.com).''),
     (''VORTEX_LOCK_TTL'', ''Device lock TTL (seconds)'',
      ''How long an in-use lock survives without a heartbeat. Minimum 5.''),
     (''VORTEX_SESSION_TTL'', ''Session TTL (seconds)'',
      ''Login cookie lifetime. Minimum 300. Default = 30 days.''),
     (''VORTEX_REGISTRATION_MODE'', ''Registration mode'',
      ''open = anyone may sign up '' @ [CHR 0xB7] @ '' invite = code required '' @ [CHR 0xB7] @ '' closed = no new accounts.'')]"

definition TIER_A :: "string list" where
  "TIER_A = [''VORTEX_SYNC_URL'', ''VORTEX_SYNC_TOKEN'', ''VORTEX_HUB_DB'', ''APP_PORT'', ''CLOUDFLARE_TUNNEL_TOKEN'']"

definition TIER_B :: "string list" where
  "TIER_B = [''VORTEX_HUB_PUBLIC_URL'', ''VORTEX_LOCK_TTL'', ''VORTEX_SESSION_TTL'', ''VORTEX_REGISTRATION_MODE'']"

text \<open>The hint of a secret, as the view prints it.\<close>

definition hint_text :: "hint \<Rightarrow> string" where
  "hint_text h = (case h of NoHint \<Rightarrow> [] | IsSet \<Rightarrow> ''set '' @ utf8 [0xE2, 0x9C, 0x93] | IsSetEnding e \<Rightarrow> ''set '' @ utf8 [0xE2, 0x9C, 0x93] @ '' ('' @ utf8 [0xE2, 0x80, 0xA6] @ e @ '')'')"

definition mode_option :: "string \<Rightarrow> string \<Rightarrow> string" where
  "mode_option cur m = ''<option value=\"'' @ m @ ''\"'' @ (if m = cur then '' selected'' else []) @ ''>'' @ m @ ''</option>''"

definition settings_field ::
  "setting_view \<Rightarrow> string" where
  "settings_field s =
     (let key = sv_key s;
        meta = (case map_of SETTINGS_META key of None \<Rightarrow> (key, []) | Some m \<Rightarrow> m);
        overridden = (sv_source s = FromEnv);
        dis = (if overridden then '' disabled'' else []);
        hs = ''text-transform:none;letter-spacing:0;color:var(--muted);font-size:.72rem;line-height:1.4'';
        ctrl = (if key = ''VORTEX_REGISTRATION_MODE'' then
            (let cur = or_str (sv_value s) ''invite'';
                 opts = concat (map (mode_option cur) [''open'', ''invite'', ''closed'']) in
              ''<select name=\"'' @ key @ ''\"'' @ dis @ ''>'' @ opts @ ''</select>'')
          else if sv_secret s then
            (let ph = escape (or_str (hint_text (sv_hint s)) ''not set'') in
              ''<input type=\"password\" name=\"'' @ key @ ''\" value=\"\" placeholder=\"'' @ ph @ ''\" autocomplete=\"new-password\"'' @ dis @ ''>'')
          else
              ''<input type=\"text\" name=\"'' @ key @ ''\" value=\"'' @ escape (sv_value s) @ ''\"'' @ dis @ ''>'');
        notes = ''<small style=\"'' @ hs @ ''\">'' @ escape (snd meta) @ ''</small>'' @
          (if sv_secret s then ''<small style=\"'' @ hs @ ''\">Write-only '' @ utf8 [0xE2, 0x80, 0x94] @ '' leave blank to keep the current value.</small>'' else []) @
          (if overridden then ''<small style=\"'' @ hs @ '';color:var(--cyan)\">Overridden by an environment variable; edit the env to change this.</small>'' else []) in
     ''<label>'' @ escape (fst meta) @ ctrl @ notes @ ''</label>'')"

definition db_test_js ::
  "string \<Rightarrow> string" where
  "db_test_js endpoint =
     ''\<newline>'' @
     ''<script>\<newline>'' @
     ''(function(){\<newline>'' @
     ''  var btn=document.getElementById('testdb');\<newline>'' @
     ''  if(!btn)return;\<newline>'' @
     ''  var out=document.getElementById('testdb-result');\<newline>'' @
     ''  btn.addEventListener('click',async function(){\<newline>'' @
     ''    var u=document.querySelector('[name=VORTEX_SYNC_URL]');\<newline>'' @
     ''    var t=document.querySelector('[name=VORTEX_SYNC_TOKEN]');\<newline>'' @
     ''    var url=(u?u.value:'' @ [CHR 0x27] @ [CHR 0x27] @ '').trim();\<newline>'' @
     ''    var token=(t?t.value:'' @ [CHR 0x27] @ [CHR 0x27] @ '').trim();\<newline>'' @
     ''    out.style.display='block';out.className='flash info';\<newline>'' @
     ''    out.textContent='Testing connection'' @ utf8 [0xE2, 0x80, 0xA6] @ [CHR 0x27] @ '';\<newline>'' @
     ''    btn.disabled=true;\<newline>'' @
     ''    try{\<newline>'' @
     ''      var r=await fetch('' @ [CHR 0x27] @ endpoint @ [CHR 0x27] @ '',{method:'POST',\<newline>'' @
     ''        headers:{'Content-Type':'application/json'},\<newline>'' @
     ''        body:JSON.stringify({url:url,token:token})});\<newline>'' @
     ''      var j=await r.json();\<newline>'' @
     ''      if(j.ok){out.className='flash success';\<newline>'' @
     ''        out.textContent=j.message||'Connected OK.';}\<newline>'' @
     ''      else{out.className='flash error';out.textContent=j.error||'Failed.';}\<newline>'' @
     ''    }catch(e){out.className='flash error';out.textContent=String(e);}\<newline>'' @
     ''    btn.disabled=false;\<newline>'' @
     ''  });\<newline>'' @
     ''})();\<newline>'' @
     ''</script>''"

text \<open>
  The fields of a tier, in its order. A dictionary keeps the last view of a key.
\<close>

definition tier_fields :: "setting_view list \<Rightarrow> string list \<Rightarrow> string" where
  "tier_fields settings tier = concat (map (\<lambda>k.
     case map_of (rev (map (\<lambda>s. (sv_key s, s)) settings)) k of None \<Rightarrow> [] | Some s \<Rightarrow> settings_field s) tier)"

text \<open>The status as \<open>_hub_status\<close> gives it: all texts, the number of users apart.\<close>

record hub_state =
  hs_version :: string
  hs_backend :: string
  hs_db_path :: string
  hs_public_url :: string
  hs_config_path :: string
  hs_env_files :: "string list"
  hs_users :: int

definition join_comma :: "string list \<Rightarrow> string" where
  "join_comma ss = (case ss of [] \<Rightarrow> [] | s # r \<Rightarrow> s @ concat (map (\<lambda>t. '', '' @ t) r))"

definition status_row ::
  "string \<times> string \<Rightarrow> string" where
  "status_row kv =
     (case kv of (k, v) \<Rightarrow>
     ''<div class=\"row\"><span class=\"k\">'' @ escape k @ ''</span><span class=\"v\">'' @ escape v @ ''</span></div>'')"

definition settings_page ::
  "site \<Rightarrow> user_info \<Rightarrow> setting_view list \<Rightarrow> hub_state \<Rightarrow> bool \<Rightarrow> string" where
  "settings_page S user settings status saved =
     (let flash = (if saved then ''<div class=\"flash success\">Settings saved. Restart-required changes apply after the next hub restart.</div>'' else []);
        rows = concat (map status_row [
          (''Version'', CHR ''V'' # hs_version status), (''DB backend'', hs_backend status),
          (''Local DB path'', hs_db_path status), (''Public URL'', hs_public_url status),
          (''Config file'', hs_config_path status),
          (''.env files read'', if hs_env_files status \<noteq> [] then join_comma (hs_env_files status) else ''none''),
          (''User accounts'', int_str (hs_users status))]) in
   page S ''Settings'' (
     ''\<newline>'' @
     ''<div class=\"section-head\"><h2>// Settings</h2></div>\<newline>'' @
     flash @ ''\<newline>'' @
     ''\<newline>'' @
     ''<div class=\"card\" style=\"max-width:640px\">\<newline>'' @
     ''  <h3 style=\"margin:0 0 .25rem;color:var(--cyan)\">Hub status</h3>\<newline>'' @
     ''  <div class=\"kv\">'' @ rows @ ''</div>\<newline>'' @
     ''</div>\<newline>'' @
     ''\<newline>'' @
     ''<form method=\"post\" action=\"/settings\" id=\"tierA\">\<newline>'' @
     ''<div class=\"card\" style=\"max-width:640px;margin-top:1.25rem\">\<newline>'' @
     ''  <h3 style=\"margin:0 0 .25rem;color:var(--purple)\">Connection &amp; database</h3>\<newline>'' @
     ''  <div class=\"flash info\" style=\"margin:.5rem 0 1rem\">\<newline>'' @
     ''    These are read once at boot '' @ utf8 [0xE2, 0x80, 0x94] @ '' changes apply only after a hub restart.\<newline>'' @
     ''  </div>\<newline>'' @
     ''  '' @ tier_fields settings TIER_A @ ''\<newline>'' @
     ''  <div style=\"display:flex;gap:.6rem;align-items:center;margin-top:.5rem\">\<newline>'' @
     ''    <button type=\"submit\" class=\"btn btn-primary\">Save</button>\<newline>'' @
     ''    <button type=\"button\" class=\"btn\" id=\"testdb\">Test connection</button>\<newline>'' @
     ''  </div>\<newline>'' @
     ''  <div id=\"testdb-result\" class=\"flash\" style=\"display:none;margin-top:.75rem\"></div>\<newline>'' @
     ''</div>\<newline>'' @
     ''</form>\<newline>'' @
     ''\<newline>'' @
     ''<form method=\"post\" action=\"/settings\">\<newline>'' @
     ''<div class=\"card\" style=\"max-width:640px;margin-top:1.25rem\">\<newline>'' @
     ''  <h3 style=\"margin:0 0 .25rem;color:var(--purple)\">Behaviour</h3>\<newline>'' @
     ''  <div class=\"flash info\" style=\"margin:.5rem 0 1rem\">\<newline>'' @
     ''    These apply immediately '' @ utf8 [0xE2, 0x80, 0x94] @ '' no restart needed.\<newline>'' @
     ''  </div>\<newline>'' @
     ''  '' @ tier_fields settings TIER_B @ ''\<newline>'' @
     ''  <div style=\"margin-top:.5rem\">\<newline>'' @
     ''    <button type=\"submit\" class=\"btn btn-primary\">Save</button>\<newline>'' @
     ''  </div>\<newline>'' @
     ''</div>\<newline>'' @
     ''</form>\<newline>'' @
     db_test_js ''/api/settings/test-db'' @ ''\<newline>'' @
     ''<style>\<newline>'' @
     ''.kv .row { display:flex; justify-content:space-between; gap:1rem;\<newline>'' @
     ''  padding:.4rem 0; border-bottom:1px solid var(--border); font-size:.85rem; }\<newline>'' @
     ''.kv .row:last-child { border-bottom:none; }\<newline>'' @
     ''.kv .row .k { color:var(--muted); text-transform:uppercase;\<newline>'' @
     ''  letter-spacing:.08em; font-size:.7rem; }\<newline>'' @
     ''.kv .row .v { color:var(--text); word-break:break-all; text-align:right; }\<newline>'' @
     ''</style>'') (Some user) ''/settings'' True)"

definition setup_page ::
  "site \<Rightarrow> setting_view list \<Rightarrow> hub_state \<Rightarrow> bool \<Rightarrow> string \<Rightarrow> string" where
  "setup_page S settings status saved error =
     (let flash = (if error \<noteq> [] then ''<div class=\"flash error\">'' @ escape error @ ''</div>''
          else if saved then ''<div class=\"flash success\">Saved &amp; reconnected. If your account lives in the remote database you can sign in now.</div>'' else []) in
   page S ''Setup'' (
     ''\<newline>'' @
     ''<div class=\"center-wrap\" style=\"align-items:flex-start;padding:2rem 1rem\">\<newline>'' @
     ''<div style=\"width:100%;max-width:640px;margin:0 auto\">\<newline>'' @
     ''  <div class=\"brand-large\" style=\"text-align:center;margin-bottom:1.5rem\">\<newline>'' @
     ''    <div class=\"logo\" style=\"margin:0 auto 1rem\"></div>\<newline>'' @
     ''    <h1 style=\"margin:0\">Vortex<span class=\"accent\">Hub</span></h1>\<newline>'' @
     ''    <p class=\"subtitle\">First-run setup</p>\<newline>'' @
     ''  </div>\<newline>'' @
     ''  '' @ flash @ ''\<newline>'' @
     ''  <div class=\"flash info\">\<newline>'' @
     ''    This device has no account yet. If your accounts live in a\<newline>'' @
     ''    <strong>remote database</strong>, enter its URL + token below '' @ utf8 [0xE2, 0x80, 0x94] @ '' it\<newline>'' @
     ''    applies immediately, then you can sign in. Settings are stored in\<newline>'' @
     ''    <code>'' @ escape (hs_config_path status) @ ''</code>. Currently using: <strong>'' @ escape (hs_backend status) @ ''</strong>.\<newline>'' @
     ''  </div>\<newline>'' @
     ''\<newline>'' @
     ''<form method=\"post\" action=\"/setup\" id=\"tierA\">\<newline>'' @
     ''<div class=\"card\" style=\"margin-top:1.25rem\">\<newline>'' @
     ''  <h3 style=\"margin:0 0 .25rem;color:var(--purple)\">Connection &amp; database</h3>\<newline>'' @
     ''  '' @ tier_fields settings TIER_A @ ''\<newline>'' @
     ''  <div style=\"display:flex;gap:.6rem;align-items:center;margin-top:.5rem\">\<newline>'' @
     ''    <button type=\"submit\" class=\"btn btn-primary\">Save &amp; connect</button>\<newline>'' @
     ''    <button type=\"button\" class=\"btn\" id=\"testdb\">Test connection</button>\<newline>'' @
     ''  </div>\<newline>'' @
     ''  <div id=\"testdb-result\" class=\"flash\" style=\"display:none;margin-top:.75rem\"></div>\<newline>'' @
     ''</div>\<newline>'' @
     ''</form>\<newline>'' @
     ''\<newline>'' @
     ''<form method=\"post\" action=\"/setup\">\<newline>'' @
     ''<div class=\"card\" style=\"margin-top:1.25rem\">\<newline>'' @
     ''  <h3 style=\"margin:0 0 .25rem;color:var(--purple)\">Behaviour</h3>\<newline>'' @
     ''  '' @ tier_fields settings TIER_B @ ''\<newline>'' @
     ''  <div style=\"margin-top:.5rem\">\<newline>'' @
     ''    <button type=\"submit\" class=\"btn btn-primary\">Save</button>\<newline>'' @
     ''  </div>\<newline>'' @
     ''</div>\<newline>'' @
     ''</form>\<newline>'' @
     ''\<newline>'' @
     ''  <div class=\"footer-link\" style=\"text-align:center;margin-top:1.5rem\">\<newline>'' @
     ''    Already configured? <a href=\"/login\">Sign in</a>\<newline>'' @
     ''  </div>\<newline>'' @
     ''</div>\<newline>'' @
     ''</div>\<newline>'' @
     db_test_js ''/api/setup/test-db'' @ ''\<newline>'' @
     ''<script>\<newline>'' @
     ''(function() {\<newline>'' @
     ''  // Immediate feedback: connecting to a remote DB can take a few\<newline>'' @
     ''  // seconds over mobile data '' @ utf8 [0xE2, 0x80, 0x94] @ '' show it instead of looking dead.\<newline>'' @
     ''  document.querySelectorAll('form[action=\"/setup\"]').forEach(function(f) {\<newline>'' @
     ''    f.addEventListener('submit', function() {\<newline>'' @
     ''      var b = f.querySelector('button[type=submit]');\<newline>'' @
     ''      if (b) { b.disabled = true;\<newline>'' @
     ''               b.textContent = 'Connecting'' @ utf8 [0xE2, 0x80, 0xA6] @ '' (up to ~30s)'; }\<newline>'' @
     ''    });\<newline>'' @
     ''  });\<newline>'' @
     ''})();\<newline>'' @
     ''</script>'') None [] False)"

section \<open>No text makes markup\<close>

definition blank :: "string \<Rightarrow> string" where
  "blank s = (if s = [] then [] else ''x'')"

definition blank_user :: "user_info \<Rightarrow> user_info" where
  "blank_user u = u\<lparr>ui_username := []\<rparr>"

definition blank_device :: "device_info \<Rightarrow> device_info" where
  "blank_device d = d\<lparr>di_id := [], di_name := []\<rparr>"

lemma blank_iff [simp]: "blank s = [] \<longleftrightarrow> s = []"
  by (simp add: blank_def)

lemma opt_str_blank: "opt_str (map_option blank e) = [] \<longleftrightarrow> opt_str e = []"
  by (cases e) (simp_all add: opt_str_def)

lemma blank_records [simp]:
  "ui_is_admin (blank_user u) = ui_is_admin u" "ui_username (blank_user u) = []"
  "di_id (blank_device d) = []" "di_name (blank_device d) = []"
  "di_last_seen (blank_device d) = di_last_seen d" "di_paired_at (blank_device d) = di_paired_at d"
  by (simp_all add: blank_user_def blank_device_def)

lemma if_markup: "markup (if b then s else t) = (if b then markup s else markup t)"
  by simp

lemma markup_case_option: "markup (case x of None \<Rightarrow> s | Some y \<Rightarrow> f y) = (case x of None \<Rightarrow> markup s | Some y \<Rightarrow> markup (f y))"
  by (cases x) simp_all

lemma badge_texts [inert]:
  "markup ''online'' = []" "markup ''Online'' = []" "markup ''On its node'' = []"
  "markup ''offline'' = []" "markup ''Offline'' = []" "markup ''/'' = []" "markup '' disabled'' = []" "markup '' selected'' = []"
  by (simp_all add: markup_def)

lemmas page_markup = markup_append inert if_markup markup_case_option Let_def append_Nil append_Nil2

lemma markup_flash_error: "markup (flash_error (map_option blank e)) = markup (flash_error e)"
  by (simp only: flash_error_def page_markup opt_str_blank)

lemma nav_items_blank: "nav_items (Some (blank_user u)) = nav_items (Some u)"
  by (simp add: nav_items_def)

lemma markup_page:
  "markup body = markup body' \<Longrightarrow> markup (page S title body None active chrome) = markup (page S title' body' None active chrome)"
  "markup body = markup body' \<Longrightarrow>
    markup (page S title body (Some u) active chrome) = markup (page S title' body' (Some (blank_user u)) active chrome)"
  by (simp_all only: page_def page_markup nav_items_blank option.case)

lemma markup_login_page:
  "markup (login_page S error next_url notice) = markup (login_page S (map_option blank error) [] (map_option blank notice))"
  by (simp only: login_page_def Let_def, rule markup_page) (simp only: page_markup markup_flash_error opt_str_blank)

lemma markup_register_page:
  "markup (register_page S error invite username open_mode) = markup (register_page S (map_option blank error) [] [] open_mode)"
  by (simp only: register_page_def Let_def, rule markup_page) (simp only: page_markup markup_flash_error)

lemma markup_first_run_page: "markup (first_run_page S error) = markup (first_run_page S (map_option blank error))"
  by (simp only: first_run_page_def, rule markup_page) (simp only: page_markup markup_flash_error)

lemma fst_if: "fst (if b then p else q) = (if b then fst p else fst q)"
  and snd_if: "snd (if b then p else q) = (if b then snd p else snd q)"
  by simp_all

lemmas card_markup = page_markup fst_if snd_if fst_conv snd_conv if_cancel

lemma markup_device_card:
  "markup (device_card now online elsewhere d) = markup (device_card now online' elsewhere' (blank_device d))"
  by (simp only: device_card_def card_markup blank_records cong: if_cong)

lemma markup_map:
  "(\<And>x. x \<in> set xs \<Longrightarrow> markup (f x) = markup (g (b x))) \<Longrightarrow> markup (concat (map f xs)) = markup (concat (map g (map b xs)))"
  by (induction xs) simp_all

lemma map_is_Nil: "map f xs = [] \<longleftrightarrow> xs = []"
  by simp

lemma markup_dashboard_page:
  "markup (dashboard_page S u ds online selfreg elsewhere) =
    markup (dashboard_page S (blank_user u) (map blank_device ds) online' selfreg elsewhere')"
proof -
  have "markup (concat (map (device_card (st_now S) online elsewhere) ds)) =
      markup (concat (map (device_card (st_now S) online' elsewhere') (map blank_device ds)))"
    by (rule markup_map) (rule markup_device_card)
  then show ?thesis
    by (simp only: dashboard_page_def Let_def, intro markup_page) (simp only: page_markup map_is_Nil)
qed

lemma markup_self_register_page:
  "markup (self_register_page S u name chars path) = markup (self_register_page S (blank_user u) [] [] [])"
  by (simp only: self_register_page_def, rule markup_page) (simp only: page_markup escape_Nil)

definition blank_token :: "account_token_info \<Rightarrow> account_token_info" where
  "blank_token t = t\<lparr>ai_label := None\<rparr>"

lemma blank_token_simps [simp]:
  "ai_id (blank_token t) = ai_id t" "ai_created_at (blank_token t) = ai_created_at t"
  "ai_last_used (blank_token t) = ai_last_used t"
  by (simp_all add: blank_token_def)

lemma markup_enroll_tokens_page:
  "markup (enroll_tokens_page S u ts url) = markup (enroll_tokens_page S (blank_user u) (map blank_token ts) [])"
proof -
  have "markup (token_row now t) = markup (token_row now (blank_token t))" for now t
    by (simp only: token_row_def card_markup blank_token_simps)
  then have "markup (concat (map (token_row (st_now S)) ts)) = markup (concat (map (token_row (st_now S)) (map blank_token ts)))"
    by (intro markup_map)
  then show ?thesis
    by (simp only: enroll_tokens_page_def Let_def, intro markup_page) (simp only: page_markup map_is_Nil)
qed

lemma markup_unpair_handler: "markup (unpair_handler name) = markup (unpair_handler [])"
  by (simp add: unpair_handler_def inert markup_Cons)

lemma markup_device_manage_page:
  "markup (device_manage_page S u d online) = markup (device_manage_page S (blank_user u) (blank_device d) online')"
  by (simp only: device_manage_page_def Let_def, rule markup_page)
    (simp only: card_markup markup_unpair_handler [of "di_name d"] blank_records cong: if_cong)

lemma markup_files_error_page:
  "markup (files_error_page S u d message) = markup (files_error_page S (blank_user u) (blank_device d) [])"
  by (simp only: files_error_page_def, rule markup_page) (simp only: page_markup)

definition blank_invite :: "invite_info \<Rightarrow> invite_info" where
  "blank_invite i = i\<lparr>ii_code := []\<rparr>"

lemma markup_admin_invites_page:
  "markup (admin_invites_page S u is url) = markup (admin_invites_page S (blank_user u) (map blank_invite is) [])"
proof -
  have used: "ii_used_by (blank_invite i) = ii_used_by i" for i by (simp add: blank_invite_def)
  have "markup (invite_row_html i) = markup (invite_row_html (blank_invite i))" for i
    by (simp only: invite_row_html_def card_markup used)
  then have "markup (concat (map invite_row_html is)) = markup (concat (map invite_row_html (map blank_invite is)))"
    by (intro markup_map)
  then show ?thesis
    by (simp only: admin_invites_page_def Let_def, intro markup_page) (simp only: page_markup map_is_Nil)
qed

definition blank_event :: "audit_row \<Rightarrow> audit_row" where
  "blank_event e = e\<lparr>au_actor_name := None, au_device_id := None, au_action := [], au_detail := None\<rparr>"

lemma markup_audit_page:
  "markup (audit_page S u es) = markup (audit_page S (blank_user u) (map blank_event es))"
proof -
  have kept: "au_ok (blank_event e) = au_ok e" "au_ts (blank_event e) = au_ts e" for e by (simp_all add: blank_event_def)
  have "markup (audit_row_html S e) = markup (audit_row_html S (blank_event e))" for e
    by (simp only: audit_row_html_def card_markup kept)
  then have "markup (concat (map (audit_row_html S) es)) = markup (concat (map (audit_row_html S) (map blank_event es)))"
    by (intro markup_map)
  then show ?thesis
    by (simp only: audit_page_def Let_def, intro markup_page) (simp only: page_markup map_is_Nil)
qed

definition blank_view :: "setting_view \<Rightarrow> setting_view" where
  "blank_view v = v\<lparr>sv_value := [], sv_hint := NoHint\<rparr>"

lemma blank_view_simps [simp]:
  "sv_key (blank_view v) = sv_key v" "sv_secret (blank_view v) = sv_secret v" "sv_source (blank_view v) = sv_source v"
  by (simp_all add: blank_view_def)

lemma markup_mode_option: "markup (mode_option cur m) = markup (mode_option cur' m)"
  by (simp only: mode_option_def card_markup cong: if_cong)

lemma markup_settings_field: "markup (settings_field v) = markup (settings_field (blank_view v))"
proof -
  have modes: "markup (concat (map (mode_option cur) ms)) = markup (concat (map (mode_option cur') ms))" for cur cur' ms
    by (induction ms) (simp_all add: markup_mode_option [of cur _ cur'])
  show ?thesis
    by (simp only: settings_field_def card_markup blank_view_simps modes [of "or_str (sv_value v) ''invite''" _ "''''"]
        modes [of "or_str (sv_value (blank_view v)) ''invite''" _ "''''"] cong: if_cong)
qed

definition blank_state :: "hub_state \<Rightarrow> hub_state" where
  "blank_state s = s\<lparr>hs_backend := [], hs_db_path := [], hs_public_url := [], hs_config_path := [], hs_env_files := []\<rparr>"

lemma map_of_blank:
  "map_of (map (\<lambda>s. (sv_key s, s)) (map blank_view vs)) = map_option blank_view \<circ> map_of (map (\<lambda>s. (sv_key s, s)) vs)"
  by (induction vs) auto

lemma markup_tier_fields: "markup (tier_fields vs tier) = markup (tier_fields (map blank_view vs) tier)"
proof -
  let ?at = "\<lambda>vs k. map_of (rev (map (\<lambda>s. (sv_key s, s)) vs)) k"
  have "?at (map blank_view vs) k = map_option blank_view (?at vs k)" for k
    using map_of_blank [of "rev vs"] by (simp add: rev_map)
  then have "markup (case ?at vs k of None \<Rightarrow> [] | Some s \<Rightarrow> settings_field s) =
      markup (case ?at (map blank_view vs) k of None \<Rightarrow> [] | Some s \<Rightarrow> settings_field s)" for k
    using markup_settings_field by (simp split: option.split)
  then show ?thesis
    by (induction tier) (simp_all add: tier_fields_def)
qed

lemma markup_settings_page:
  "markup (settings_page S u vs st saved) = markup (settings_page S (blank_user u) (map blank_view vs) (blank_state st) saved)"
proof -
  have kept: "hs_version (blank_state st) = hs_version st" "hs_users (blank_state st) = hs_users st"
    by (simp_all add: blank_state_def)
  show ?thesis
    by (simp only: settings_page_def Let_def, intro markup_page)
      (simp only: page_markup markup_tier_fields [of vs] concat.simps list.map status_row_def prod.case kept cong: if_cong)
qed

lemma markup_setup_page:
  "markup (setup_page S vs st saved error) = markup (setup_page S (map blank_view vs) (blank_state st) saved (blank error))"
  by (simp only: setup_page_def Let_def, intro markup_page)
    (simp only: page_markup markup_tier_fields [of vs] blank_iff cong: if_cong)

section \<open>The listing of a directory\<close>

text \<open>The brackets of a page. Its script holds texts between quotes, without a bracket.\<close>

definition tags :: "string \<Rightarrow> string" where
  "tags s = filter (\<lambda>c. c \<in> {CHR ''<'', CHR ''>''}) (markup s)"

lemma tags_append: "tags (s @ t) = tags s @ tags t"
  by (simp add: tags_def)

lemma tags_markup: "markup s = markup t \<Longrightarrow> tags s = tags t"
  by (simp add: tags_def)

lemma tags_inert: "markup s = [] \<Longrightarrow> tags s = []"
  by (simp add: tags_def)

lemma tags_json: "tags (json_dumps_for_html s) = []"
  using json_for_html_safe [of s] by (auto simp: tags_def markup_def filter_empty_conv)

definition blank_entry :: "entry \<Rightarrow> entry" where
  "blank_entry e = e\<lparr>ls_name := []\<rparr>"

lemma blank_entry_simps [simp]:
  "ls_dir (blank_entry e) = ls_dir e" "ls_size (blank_entry e) = ls_size e" "ls_image (blank_entry e) = ls_image e"
  by (simp_all add: blank_entry_def)

lemma markup_file_row: "markup (file_row did prefix e) = markup (file_row did' prefix' (blank_entry e))"
  by (simp only: file_row_def page_markup blank_entry_simps cong: if_cong option.case_cong)

lemma markup_file_rows:
  "\<exists>m. \<forall>did prefix. markup (concat (map (file_row did prefix) es)) = m \<and>
    markup (concat (map (file_row did prefix) (map blank_entry es))) = m"
proof -
  have "markup (file_row did prefix (blank_entry e)) = markup (file_row [] [] (blank_entry e))" for did prefix e
    using markup_file_row [of did prefix "blank_entry e" "[]" "[]"] by (simp add: blank_entry_def)
  then have "markup (concat (map (file_row did prefix) (map blank_entry es))) = markup (concat (map (file_row [] []) (map blank_entry es)))" for did prefix
    by (induction es) simp_all
  moreover have "markup (concat (map (file_row did prefix) es)) = markup (concat (map (file_row [] []) (map blank_entry es)))" for did prefix
    by (rule markup_map) (rule markup_file_row)
  ultimately show ?thesis by blast
qed

lemma tags_page:
  "tags body = tags body' \<Longrightarrow>
    tags (page S title body (Some u) active chrome) = tags (page S title' body' (Some (blank_user u)) active chrome)"
  by (simp only: page_def Let_def tags_append if_distrib [where f = tags] nav_items_blank option.case inert [THEN tags_inert])

lemma tags_files_page:
  "tags (files_page S u d rel es) = tags (files_page S (blank_user u) (blank_device d) (blank rel) (map blank_entry es))"
proof -
  obtain m where "\<forall>did prefix. markup (concat (map (file_row did prefix) es)) = m \<and>
      markup (concat (map (file_row did prefix) (map blank_entry es))) = m"
    using markup_file_rows by blast
  then have rows: "tags (concat (map (file_row did prefix) es)) = filter (\<lambda>c. c \<in> {CHR ''<'', CHR ''>''}) m"
    "tags (concat (map (file_row did prefix) (map blank_entry es))) = filter (\<lambda>c. c \<in> {CHR ''<'', CHR ''>''}) m" for did prefix
    by (simp_all only: tags_def)
  show ?thesis
    by (simp only: files_page_def Let_def, intro tags_page)
      (simp only: tags_append tags_json if_distrib [where f = tags] blank_iff inert [THEN tags_inert] rows)
qed


section \<open>The commands\<close>

text \<open>What of a shell's line passes through quoting: text that is quoted, or that needs no quotes.\<close>

definition shell_safe :: "string \<Rightarrow> bool" where
  "shell_safe s \<longleftrightarrow> (\<exists>c \<in> set s. shell_trigger c) \<or> (\<forall>c \<in> set s. shell_plain c)"

definition shell_bare :: "string \<Rightarrow> bool" where
  "shell_bare s \<longleftrightarrow> (\<forall>c \<in> set s. shell_plain c \<and> \<not> shell_trigger c)"

lemma plain_chars:
  "shell_plain c \<Longrightarrow> shell_words None ws (c # t) = shell_words (Some [c]) ws t"
  by (simp add: shell_words_plain_char opt_str_def)

lemmas shell_eval = shell_words_plain_char plain_chars shell_plain_def shell_blank_def shell_separator_def shell_other_def end_word_def opt_str_def

lemma pair_command_read:
  assumes "\<forall>c \<in> set code. shell_plain c" and "shell_safe hub" and "name \<noteq> []"
  shows "shell_line (pair_command code hub (Some name)) =
    shell_words (Some ''DEVICE_NAME='') [''MODE=agent'', ''PAIRING_CODE='' @ code, ''HUB_URL='' @ hub]
      (shell_quote name @ '' bash ~/server/serve.sh'')"
proof -
  have code: "shell_words (Some w) ws (code @ t) = shell_words (Some (w @ code)) ws t" for w ws t
    using assms(1) by (rule shell_words_plain)
  have hub: "shell_words (Some w) ws (shell_quote hub @ t) = shell_words (Some (w @ hub)) ws t" for w ws t
    using assms(2) by (intro shell_words_shell_quote) (simp add: shell_safe_def)
  show ?thesis
    using assms(3) by (simp add: pair_command_def shell_line_def shell_eval code hub)
qed

lemma words_tail: "shell_words (Some w) ws '' bash ~/server/serve.sh'' = Some (ws @ [w, ''bash'', ''~/server/serve.sh''], [])"
  by (simp add: shell_eval)



text \<open>
  An unquoted separator splits the pairing command. A device name with a semicolon, an ampersand, a bar
  or a line end, and none of the characters the quoting looks for, ends the command there: the shell runs
  it with the text before as the name, and what follows is a command of its own.
\<close>

theorem separator_splits_command:
  assumes "\<forall>c \<in> set code. shell_plain c" and "shell_safe hub" and "shell_bare a" and "shell_separator c"
    and "\<not> (\<exists>x \<in> set b. shell_trigger x)"
  shows "shell_line (pair_command code hub (Some (a @ c # b))) =
    Some ([''MODE=agent'', ''PAIRING_CODE='' @ code, ''HUB_URL='' @ hub, ''DEVICE_NAME='' @ a],
      b @ '' bash ~/server/serve.sh'')"
proof -
  have "\<not> shell_trigger c" using assms(4) by (auto simp: shell_separator_def shell_trigger_def)
  with assms(3,5) have quote: "shell_quote (a @ c # b) = a @ c # b"
    by (auto simp: shell_quote_def shell_bare_def)
  have "\<forall>c \<in> set a. shell_plain c" using assms(3) by (simp add: shell_bare_def)
  then show ?thesis
    using assms(4) by (subst pair_command_read [OF assms(1,2)])
      (simp_all add: quote shell_words_plain shell_words_separator end_word_def)
qed

theorem separator_splits_command_witness:
  "shell_line (pair_command ''123456'' ''https://h'' (Some ''x;reboot'')) =
    Some ([''MODE=agent'', ''PAIRING_CODE=123456'', ''HUB_URL=https://h'', ''DEVICE_NAME=x''], ''reboot bash ~/server/serve.sh'')"
proof -
  have "\<forall>c \<in> set ''123456''. shell_plain c" "shell_safe ''https://h''" "shell_bare ''x''" "shell_separator (CHR '';'')"
    "\<not> (\<exists>x \<in> set ''reboot''. shell_trigger x)"
    by (simp_all add: shell_safe_def shell_bare_def shell_plain_def shell_trigger_def shell_blank_def shell_separator_def shell_other_def)
  from separator_splits_command [OF this] show ?thesis by simp
qed

section \<open>The question before a device goes\<close>

lemma js_read_prefix:
  "\<forall>c \<in> set s. c \<notin> {q, CHR 0x5C, CHR 0x0A, CHR 0x0D} \<Longrightarrow> js_read q (s @ t) = map_option (apfst ((@) s)) (js_read q t)"
proof (induction s)
  case Nil
  show ?case by (cases "js_read q t") auto
next
  case (Cons c s)
  from Cons.prems have "c \<notin> {q, CHR 0x5C, CHR 0x0A, CHR 0x0D}" by (rule bspec) (rule list.set_intros)
  then have "js_read q ((c # s) @ t) = map_option (apfst ((#) c)) (js_read q (s @ t))"
    unfolding append_Cons by (rule js_read_plain)
  also have "js_read q (s @ t) = map_option (apfst ((@) s)) (js_read q t)"
    using Cons.prems by (intro Cons.IH ballI) (drule bspec, erule list.set_intros)
  also have "map_option (apfst ((#) c)) (map_option (apfst ((@) s)) (js_read q t)) = map_option (apfst ((@) (c # s))) (js_read q t)"
    by (cases "js_read q t") auto
  finally show ?case .
qed

lemma unpair_handler_read:
  "unescape (unpair_handler name) = ''return confirm('' @ CHR 0x27 # ''Unpair '' @ name @
     ''? You will need to re-pair to control it again.'' @ CHR 0x27 # '')''"
proof -
  have "unescape (''return confirm('' @ CHR 0x27 # ''Unpair '' @ t) = ''return confirm('' @ CHR 0x27 # ''Unpair '' @ unescape t" for t
    using unescape_plain [of "''return confirm('' @ CHR 0x27 # ''Unpair ''" t] by simp
  moreover have "unescape (''? You will need to re-pair to control it again.'' @ CHR 0x27 # '')'') =
      ''? You will need to re-pair to control it again.'' @ CHR 0x27 # '')''"
    using unescape_plain [of "''? You will need to re-pair to control it again.'' @ CHR 0x27 # '')''" "[]"] by simp
  ultimately show ?thesis by (simp only: unpair_handler_def unescape_escape_append)
qed

definition asked :: "string \<Rightarrow> (string \<times> string) option" where
  "asked name = js_read (CHR 0x27) (drop (length ''return confirm(''  + 1) (unescape (unpair_handler name)))"

lemma asked_eq: "asked name = js_read (CHR 0x27) (''Unpair '' @ name @ ''? You will need to re-pair to control it again.'' @ CHR 0x27 # '')'')"
  by (simp add: asked_def unpair_handler_read)

text \<open>
  An apostrophe breaks the question. The escaping of the name is undone before the handler runs, so
  the script sees the name inside a text between apostrophes: a name without apostrophe, backslash and line
  end is asked for in full; of a name with an apostrophe the question ends there, and the rest of the
  name is script.
\<close>

theorem apostrophe_ends_question:
  assumes "\<forall>c \<in> set a. c \<notin> {CHR 0x27, CHR 0x5C, CHR 0x0A, CHR 0x0D}"
  shows "asked a = Some (''Unpair '' @ a @ ''? You will need to re-pair to control it again.'', '')'') \<and>
    asked (a @ CHR 0x27 # b) = Some (''Unpair '' @ a, b @ ''? You will need to re-pair to control it again.'' @ CHR 0x27 # '')'')"
proof -
  let ?ok = "\<lambda>s. \<forall>c \<in> set s. c \<notin> {CHR 0x27, CHR 0x5C, CHR 0x0A, CHR 0x0D}"
  have "?ok (''Unpair '' @ a)" "?ok (''Unpair '' @ a @ ''? You will need to re-pair to control it again.'')"
    using assms by auto
  from js_read_prefix [OF this(1), of "CHR 0x27 # b @ ''? You will need to re-pair to control it again.'' @ CHR 0x27 # '')''"]
    js_read_prefix [OF this(2), of "CHR 0x27 # '')''"]
  show ?thesis by (simp add: asked_eq js_read_end)
qed

theorem apostrophe_ends_question_witness:
  "asked (''Ann'' @ CHR 0x27 # ''s phone'') = Some (''Unpair Ann'', ''s phone'' @ ''? You will need to re-pair to control it again.'' @ CHR 0x27 # '')'')"
  using apostrophe_ends_question [of "''Ann''" "''s phone''"] by simp

end
