(* ===== verification/PagesLive.thy ===== *)
theory PagesLive
  imports Pages
begin

text \<open>
  The pages that show a device live (\<^verbatim>\<open>hub/templates.py\<close>): its camera and its screen, with the scripts they
  hand to the browser as they are in the source. What the scripts do in the browser is not modelled; the
  lemmas say that the name and the id of the device make no tag in the pages, which would end the scripts,
  and that each script is handed the id (and the name) unchanged.
\<close>

section \<open>The camera\<close>

text \<open>The script for direct connections, shared by the two pages.\<close>

definition DIRECT_WS_JS ::
  "string" where
  "DIRECT_WS_JS =
     ''\<newline>'' @
     ''  let _directWS = null, _directNextId = 1;\<newline>'' @
     ''  const _directPending = new Map();\<newline>'' @
     ''  const _directStreams = new Map();\<newline>'' @
     ''  let _directBinaryRid = null;\<newline>'' @
     ''  let _directBinaryHeader = null;   // B5: kf/pts threaded to frame()\<newline>'' @
     ''\<newline>'' @
     ''  function _directOnMessage(ev) {\<newline>'' @
     ''    if (ev.data instanceof ArrayBuffer) {\<newline>'' @
     ''      const rid = _directBinaryRid; const hdr = _directBinaryHeader;\<newline>'' @
     ''      _directBinaryRid = null; _directBinaryHeader = null;\<newline>'' @
     ''      const h = rid && _directStreams.get(rid);\<newline>'' @
     ''      if (h && h.frame) { try { h.frame(ev.data, hdr); } catch (_) {} }\<newline>'' @
     ''      return;\<newline>'' @
     ''    }\<newline>'' @
     ''    let m; try { m = JSON.parse(ev.data); } catch (_) { return; }\<newline>'' @
     ''    if (m.type === 'stream_chunk_header' && m.id) {\<newline>'' @
     ''      _directBinaryRid = m.id; _directBinaryHeader = m; return;\<newline>'' @
     ''    }\<newline>'' @
     ''    if (m.type === 'stream_start' && m.id && _directStreams.has(m.id)) {\<newline>'' @
     ''      try { _directStreams.get(m.id).start && _directStreams.get(m.id).start(m); } catch (_) {}\<newline>'' @
     ''      return;\<newline>'' @
     ''    }\<newline>'' @
     ''    if (m.type === 'stream_chunk' && m.id && _directStreams.has(m.id)) {\<newline>'' @
     ''      if (m.data) {\<newline>'' @
     ''        try {\<newline>'' @
     ''          const bin = atob(m.data); const u8 = new Uint8Array(bin.length);\<newline>'' @
     ''          for (let i = 0; i < bin.length; i++) u8[i] = bin.charCodeAt(i);\<newline>'' @
     ''          _directStreams.get(m.id).frame && _directStreams.get(m.id).frame(u8.buffer);\<newline>'' @
     ''        } catch (_) {}\<newline>'' @
     ''      }\<newline>'' @
     ''      return;\<newline>'' @
     ''    }\<newline>'' @
     ''    if (m.type === 'stream_end' && m.id && _directStreams.has(m.id)) {\<newline>'' @
     ''      try { _directStreams.get(m.id).end && _directStreams.get(m.id).end(null); } catch (_) {}\<newline>'' @
     ''      _directStreams.delete(m.id); return;\<newline>'' @
     ''    }\<newline>'' @
     ''    if (m.type === 'response' && m.id) {\<newline>'' @
     ''      if (_directPending.has(m.id)) {\<newline>'' @
     ''        const e = _directPending.get(m.id);\<newline>'' @
     ''        clearTimeout(e.timeout); _directPending.delete(m.id);\<newline>'' @
     ''        e.resolve(m); return;\<newline>'' @
     ''      }\<newline>'' @
     ''      if (_directStreams.has(m.id) && !m.ok) {\<newline>'' @
     ''        try { _directStreams.get(m.id).end && _directStreams.get(m.id).end(m); } catch (_) {}\<newline>'' @
     ''        _directStreams.delete(m.id);\<newline>'' @
     ''      }\<newline>'' @
     ''    }\<newline>'' @
     ''  }\<newline>'' @
     ''\<newline>'' @
     ''  async function _connectDirect() {\<newline>'' @
     ''    let info;\<newline>'' @
     ''    try {\<newline>'' @
     ''      const r = await fetch(`/devices/${encodeURIComponent(did)}/direct`,\<newline>'' @
     ''                            {cache:'no-store'});\<newline>'' @
     ''      if (!r.ok) return; info = await r.json();\<newline>'' @
     ''    } catch (e) { return; }\<newline>'' @
     ''    if (!info || !info.ticket || !(info.ws || []).length) return;\<newline>'' @
     ''    const tries = info.ws.map(url => new Promise(resolve => {\<newline>'' @
     ''      let s; try { s = new WebSocket(url); } catch (e) { resolve(null); return; }\<newline>'' @
     ''      try { s.binaryType = 'arraybuffer'; } catch (_) {}\<newline>'' @
     ''      const to = setTimeout(() => { try { s.close(); } catch (_) {} resolve(null); }, 1500);\<newline>'' @
     ''      s.onopen = () => s.send(JSON.stringify({type:'hello', ticket: info.ticket}));\<newline>'' @
     ''      s.onerror = () => { clearTimeout(to); resolve(null); };\<newline>'' @
     ''      s.onmessage = ev => {\<newline>'' @
     ''        let m; try { m = JSON.parse(ev.data); } catch (_) { return; }\<newline>'' @
     ''        if (m.type === 'hello_ok') { clearTimeout(to); resolve(s); }\<newline>'' @
     ''        else if (m.type === 'hello_fail') { clearTimeout(to); try { s.close(); } catch (_) {} resolve(null); }\<newline>'' @
     ''      };\<newline>'' @
     ''    }));\<newline>'' @
     ''    const winner = (await Promise.all(tries)).find(s => s);\<newline>'' @
     ''    if (!winner) return;\<newline>'' @
     ''    _directWS = winner;\<newline>'' @
     ''    winner.onmessage = _directOnMessage;\<newline>'' @
     ''    winner.onclose = () => {\<newline>'' @
     ''      _directWS = null; _directBinaryRid = null;\<newline>'' @
     ''      _directPending.clear();\<newline>'' @
     ''      _directStreams.forEach(h => { try { h.end && h.end({ok:false,error:'closed'}); } catch (_) {} });\<newline>'' @
     ''      _directStreams.clear();\<newline>'' @
     ''    };\<newline>'' @
     ''    try { setStatus && setStatus('direct connect ok'); } catch (_) {}\<newline>'' @
     ''  }\<newline>'' @
     ''  _connectDirect();\<newline>'' @
     ''\<newline>'' @
     ''  function _directInput(cmd, timeoutMs) {\<newline>'' @
     ''    return new Promise((resolve, reject) => {\<newline>'' @
     ''      if (!_directWS || _directWS.readyState !== 1) return reject('no-direct');\<newline>'' @
     ''      const id = String(_directNextId++);\<newline>'' @
     ''      const timeout = setTimeout(() => {\<newline>'' @
     ''        _directPending.delete(id); reject('timeout');\<newline>'' @
     ''      }, timeoutMs);\<newline>'' @
     ''      _directPending.set(id, {resolve, timeout});\<newline>'' @
     ''      try {\<newline>'' @
     ''        _directWS.send(JSON.stringify({type:'request', id, op:'input',\<newline>'' @
     ''                                        args:{command: cmd}}));\<newline>'' @
     ''      } catch (e) {\<newline>'' @
     ''        clearTimeout(timeout); _directPending.delete(id); reject(e);\<newline>'' @
     ''      }\<newline>'' @
     ''    });\<newline>'' @
     ''  }\<newline>'' @
     ''\<newline>'' @
     ''  function _directStream(op, args, handlers) {\<newline>'' @
     ''    if (!_directWS || _directWS.readyState !== 1) return null;\<newline>'' @
     ''    const id = String(_directNextId++);\<newline>'' @
     ''    _directStreams.set(id, handlers || {});\<newline>'' @
     ''    try {\<newline>'' @
     ''      _directWS.send(JSON.stringify({type:'request', id, op, args: args||{}}));\<newline>'' @
     ''      return id;\<newline>'' @
     ''    } catch (e) {\<newline>'' @
     ''      _directStreams.delete(id); return null;\<newline>'' @
     ''    }\<newline>'' @
     ''  }\<newline>''"

definition camera_script ::
  "string" where
  "camera_script =
     '').replace(/'' @ [CHR 0x5C] @ ''W+/g, '_').slice(0, 60) || 'device';\<newline>'' @
     ''  save.addEventListener('click', () => {\<newline>'' @
     ''    if (!lastBlobUrl) return;\<newline>'' @
     ''    const a = document.createElement('a');\<newline>'' @
     ''    a.href = lastBlobUrl;\<newline>'' @
     ''    a.download = `${safeName}-${Date.now()}.jpg`;\<newline>'' @
     ''    document.body.appendChild(a); a.click(); a.remove();\<newline>'' @
     ''  });\<newline>'' @
     ''\<newline>'' @
     ''  loadCameras();\<newline>'' @
     ''})();\<newline>'' @
     ''</script>''"

definition device_camera_page ::
  "site \<Rightarrow> user_info \<Rightarrow> device_info \<Rightarrow> string" where
  "device_camera_page S user d =
     page S (di_name d @ '' '' @ [CHR 0xB7] @ '' Camera'') (
     ''\<newline>'' @
     ''<div class=\"section-head\" style=\"align-items:center\">\<newline>'' @
     ''  <h2>// '' @ escape (di_name d) @ '' '' @ [CHR 0xB7] @ '' Camera</h2>\<newline>'' @
     ''  <a class=\"btn btn-small\" href=\"/devices/'' @ escape (di_id d) @ ''\">'' @ utf8 [0xE2, 0x86, 0x90] @ '' Manage</a>\<newline>'' @
     ''</div>\<newline>'' @
     ''\<newline>'' @
     ''<div class=\"cam-toolbar\">\<newline>'' @
     ''  <select class=\"cam-pick\" id=\"cam-pick\" disabled>\<newline>'' @
     ''    <option>loading'' @ utf8 [0xE2, 0x80, 0xA6] @ ''</option>\<newline>'' @
     ''  </select>\<newline>'' @
     ''  <button class=\"btn\" id=\"cam-shoot\">Capture</button>\<newline>'' @
     ''  <label class=\"btn\" style=\"cursor:pointer\">\<newline>'' @
     ''    <input type=\"checkbox\" id=\"cam-live\" style=\"vertical-align:middle;margin-right:.4rem\">\<newline>'' @
     ''    Auto-refresh\<newline>'' @
     ''  </label>\<newline>'' @
     ''  <button class=\"btn btn-primary\" id=\"cam-stream\">'' @ utf8 [0xE2, 0x96, 0xB6] @ '' Live stream</button>\<newline>'' @
     ''  <button class=\"btn btn-small\" id=\"cam-save\" disabled>Save image</button>\<newline>'' @
     ''  <span class=\"cam-status\" id=\"cam-status\">idle</span>\<newline>'' @
     ''</div>\<newline>'' @
     ''\<newline>'' @
     ''<div class=\"cam-stage\" id=\"cam-stage\">\<newline>'' @
     ''  <div class=\"placeholder\" id=\"cam-placeholder\">\<newline>'' @
     ''    No image yet '' @ utf8 [0xE2, 0x80, 0x94] @ '' pick a camera and hit <b>Capture</b>.\<newline>'' @
     ''  </div>\<newline>'' @
     ''  <div class=\"spinner\" id=\"cam-spinner\"></div>\<newline>'' @
     ''</div>\<newline>'' @
     ''\<newline>'' @
     ''<p style=\"margin-top:1rem;color:var(--muted);font-size:.75rem\">\<newline>'' @
     ''  <strong>Capture / Auto-refresh</strong> use <code style=\"color:var(--cyan)\">termux-camera-photo</code>\<newline>'' @
     ''  via the Termux:API app from F-Droid. One-shot snapshots; auto-refresh polls every 6 s.\<newline>'' @
     ''  Phone screen must be unlocked.<br>\<newline>'' @
     ''  <strong>Live stream</strong> uses the Vortex Driver APK (V5.0) for real-time MJPEG video\<newline>'' @
     ''  at the camera's native frame rate. Install the APK from the\<newline>'' @
     ''  <a href=\"https://github.com/JasonHaddad88/VortexPortal/actions/workflows/driver-build.yml\" target=\"_blank\">latest GitHub Actions artifact</a>,\<newline>'' @
     ''  open it on the phone, tap <em>Start service</em>, grant the camera permission.\<newline>'' @
     ''</p>\<newline>'' @
     ''\<newline>'' @
     ''<script>\<newline>'' @
     ''(function() {\<newline>'' @
     ''  const did = '' @ json_dumps_for_html (di_id d) @ '';\<newline>'' @
     ''  const pick = document.getElementById('cam-pick');\<newline>'' @
     ''  const shoot = document.getElementById('cam-shoot');\<newline>'' @
     ''  const live = document.getElementById('cam-live');\<newline>'' @
     ''  const save = document.getElementById('cam-save');\<newline>'' @
     ''  const status = document.getElementById('cam-status');\<newline>'' @
     ''  const stage = document.getElementById('cam-stage');\<newline>'' @
     ''  const placeholder = document.getElementById('cam-placeholder');\<newline>'' @
     ''  const spinner = document.getElementById('cam-spinner');\<newline>'' @
     ''\<newline>'' @
     ''  let liveTimer = null;\<newline>'' @
     ''  let inFlight = false;\<newline>'' @
     ''  let lastBlobUrl = null;\<newline>'' @
     ''\<newline>'' @
     ''  function setStatus(s) { status.textContent = s; }\<newline>'' @
     ''\<newline>'' @
     ''  // V5.21: shared direct-WS client (input + streams). Same protocol as\<newline>'' @
     ''  // the screen page's inline copy; exposes _connectDirect / _directWS\<newline>'' @
     ''  // / _directStream / _directInput in this IIFE's scope.\<newline>'' @
     DIRECT_WS_JS @ ''\<newline>'' @
     ''\<newline>'' @
     ''  async function loadCameras() {\<newline>'' @
     ''    setStatus('loading cameras'' @ utf8 [0xE2, 0x80, 0xA6] @ [CHR 0x27] @ '');\<newline>'' @
     ''    try {\<newline>'' @
     ''      const r = await fetch(`/api/devices/${encodeURIComponent(did)}/cameras`,\<newline>'' @
     ''                            {cache: 'no-store'});\<newline>'' @
     ''      const data = await r.json();\<newline>'' @
     ''      pick.innerHTML = '' @ [CHR 0x27] @ [CHR 0x27] @ '';\<newline>'' @
     ''      if (data.error || !data.cameras || !data.cameras.length) {\<newline>'' @
     ''        const opt = document.createElement('option');\<newline>'' @
     ''        opt.textContent = '(none)';\<newline>'' @
     ''        pick.appendChild(opt);\<newline>'' @
     ''        showError(data.error || 'No cameras reported by agent');\<newline>'' @
     ''        return;\<newline>'' @
     ''      }\<newline>'' @
     ''      for (const cam of data.cameras) {\<newline>'' @
     ''        const opt = document.createElement('option');\<newline>'' @
     ''        opt.value = cam.id;\<newline>'' @
     ''        const facing = cam.facing ? ` (${cam.facing})` : '' @ [CHR 0x27] @ [CHR 0x27] @ '';\<newline>'' @
     ''        opt.textContent = `Camera ${cam.id}${facing}`;\<newline>'' @
     ''        pick.appendChild(opt);\<newline>'' @
     ''      }\<newline>'' @
     ''      pick.disabled = false;\<newline>'' @
     ''      setStatus('ready');\<newline>'' @
     ''    } catch (e) {\<newline>'' @
     ''      showError('Could not list cameras: ' + e.message);\<newline>'' @
     ''    }\<newline>'' @
     ''  }\<newline>'' @
     ''\<newline>'' @
     ''  function showError(msg) {\<newline>'' @
     ''    placeholder.style.display = 'none';\<newline>'' @
     ''    let err = stage.querySelector('.err');\<newline>'' @
     ''    if (!err) {\<newline>'' @
     ''      err = document.createElement('div');\<newline>'' @
     ''      err.className = 'err';\<newline>'' @
     ''      stage.appendChild(err);\<newline>'' @
     ''    }\<newline>'' @
     ''    err.textContent = msg;\<newline>'' @
     ''    setStatus('error');\<newline>'' @
     ''  }\<newline>'' @
     ''\<newline>'' @
     ''  function showImage(blob) {\<newline>'' @
     ''    placeholder.style.display = 'none';\<newline>'' @
     ''    const err = stage.querySelector('.err');\<newline>'' @
     ''    if (err) err.remove();\<newline>'' @
     ''    let img = stage.querySelector('img');\<newline>'' @
     ''    if (!img) {\<newline>'' @
     ''      img = document.createElement('img');\<newline>'' @
     ''      stage.appendChild(img);\<newline>'' @
     ''    }\<newline>'' @
     ''    if (lastBlobUrl) URL.revokeObjectURL(lastBlobUrl);\<newline>'' @
     ''    lastBlobUrl = URL.createObjectURL(blob);\<newline>'' @
     ''    img.src = lastBlobUrl;\<newline>'' @
     ''    save.disabled = false;\<newline>'' @
     ''  }\<newline>'' @
     ''\<newline>'' @
     ''  async function capture() {\<newline>'' @
     ''    if (inFlight) return;\<newline>'' @
     ''    inFlight = true;\<newline>'' @
     ''    spinner.classList.add('on');\<newline>'' @
     ''    setStatus('capturing'' @ utf8 [0xE2, 0x80, 0xA6] @ [CHR 0x27] @ '');\<newline>'' @
     ''    const t0 = performance.now();\<newline>'' @
     ''    try {\<newline>'' @
     ''      const camId = pick.value || '0';\<newline>'' @
     ''      const r = await fetch(\<newline>'' @
     ''        `/devices/${encodeURIComponent(did)}/camera/capture` +\<newline>'' @
     ''        `?camera_id=${encodeURIComponent(camId)}` +\<newline>'' @
     ''        `&t=${Date.now()}`,  // bust any intermediary cache\<newline>'' @
     ''        {cache: 'no-store'}\<newline>'' @
     ''      );\<newline>'' @
     ''      if (!r.ok) {\<newline>'' @
     ''        const text = await r.text();\<newline>'' @
     ''        throw new Error(`HTTP ${r.status}: ${text.slice(0, 200)}`);\<newline>'' @
     ''      }\<newline>'' @
     ''      const blob = await r.blob();\<newline>'' @
     ''      showImage(blob);\<newline>'' @
     ''      const ms = Math.round(performance.now() - t0);\<newline>'' @
     ''      setStatus(`captured in ${ms} ms '' @ [CHR 0xB7] @ '' ${(blob.size/1024).toFixed(1)} KB`);\<newline>'' @
     ''    } catch (e) {\<newline>'' @
     ''      showError(e.message);\<newline>'' @
     ''      // Stop auto-refresh on error so we don't spam.\<newline>'' @
     ''      live.checked = false;\<newline>'' @
     ''      stopLive();\<newline>'' @
     ''    } finally {\<newline>'' @
     ''      inFlight = false;\<newline>'' @
     ''      spinner.classList.remove('on');\<newline>'' @
     ''    }\<newline>'' @
     ''  }\<newline>'' @
     ''\<newline>'' @
     ''  function startLive() {\<newline>'' @
     ''    if (liveTimer) return;\<newline>'' @
     ''    liveTimer = setInterval(capture, 6000);\<newline>'' @
     ''  }\<newline>'' @
     ''  function stopLive() {\<newline>'' @
     ''    if (liveTimer) { clearInterval(liveTimer); liveTimer = null; }\<newline>'' @
     ''  }\<newline>'' @
     ''\<newline>'' @
     ''  shoot.addEventListener('click', capture);\<newline>'' @
     ''  live.addEventListener('change', () => {\<newline>'' @
     ''    if (live.checked) { capture(); startLive(); }\<newline>'' @
     ''    else { stopLive(); }\<newline>'' @
     ''  });\<newline>'' @
     ''\<newline>'' @
     ''  // ----- V5.0 M1: real-time MJPEG live stream from the Driver APK -----\<newline>'' @
     ''  // V5.21: prefer the direct WS (LAN/mesh, no hub hop); fall back to\<newline>'' @
     ''  // hub MJPEG if direct isn't up.\<newline>'' @
     ''  const stream = document.getElementById('cam-stream');\<newline>'' @
     ''  let streaming = false;\<newline>'' @
     ''  let _camDirectRid = null, _camLastUrl = null;\<newline>'' @
     ''  let _camDecoder = null, _camCanvas = null;\<newline>'' @
     ''\<newline>'' @
     ''  function _startDirectCam(img) {\<newline>'' @
     ''    let firstFrame = true;\<newline>'' @
     ''    let mode = null;\<newline>'' @
     ''    let canvas = null, ctx = null;\<newline>'' @
     ''    const wantCodec = (typeof window.VideoDecoder === 'function') ? 'h264' : 'mjpeg';\<newline>'' @
     ''\<newline>'' @
     ''    function setupH264(m) {\<newline>'' @
     ''      // Replace the <img> with a <canvas> sized to the encoder output.\<newline>'' @
     ''      const w = m.width || 1280;\<newline>'' @
     ''      const h = m.height || 720;\<newline>'' @
     ''      canvas = document.createElement('canvas');\<newline>'' @
     ''      canvas.width = w; canvas.height = h;\<newline>'' @
     ''      canvas.style.maxWidth = '100%';\<newline>'' @
     ''      canvas.style.maxHeight = '100%';\<newline>'' @
     ''      canvas.style.objectFit = 'contain';\<newline>'' @
     ''      if (img.parentNode) {\<newline>'' @
     ''        img.parentNode.replaceChild(canvas, img);\<newline>'' @
     ''      }\<newline>'' @
     ''      ctx = canvas.getContext('2d', {alpha: false, desynchronized: true});\<newline>'' @
     ''      _camCanvas = canvas;\<newline>'' @
     ''      let description = null;\<newline>'' @
     ''      try {\<newline>'' @
     ''        const bin = atob(m.csd_base64 || '' @ [CHR 0x27] @ [CHR 0x27] @ '');\<newline>'' @
     ''        description = new Uint8Array(bin.length);\<newline>'' @
     ''        for (let i = 0; i < bin.length; i++) description[i] = bin.charCodeAt(i);\<newline>'' @
     ''      } catch (e) {}\<newline>'' @
     ''      const decoder = new VideoDecoder({\<newline>'' @
     ''        output: frame => {\<newline>'' @
     ''          try { ctx.drawImage(frame, 0, 0, canvas.width, canvas.height); }\<newline>'' @
     ''          finally { frame.close(); }\<newline>'' @
     ''        },\<newline>'' @
     ''        error: e => setStatus('decoder error: ' + e.message),\<newline>'' @
     ''      });\<newline>'' @
     ''      try {\<newline>'' @
     ''        decoder.configure({\<newline>'' @
     ''          codec: m.codec || 'avc1.42E01E',\<newline>'' @
     ''          description: description || undefined,\<newline>'' @
     ''          optimizeForLatency: true,\<newline>'' @
     ''        });\<newline>'' @
     ''      } catch (e) { setStatus('h264 unsupported: ' + e.message); return false; }\<newline>'' @
     ''      _camDecoder = decoder;\<newline>'' @
     ''      return true;\<newline>'' @
     ''    }\<newline>'' @
     ''\<newline>'' @
     ''    /** B5.2: apply the APK-reported camera sensor rotation. The\<newline>'' @
     ''     *  rotation field is the SENSOR_ORIENTATION value (0/90/180/270);\<newline>'' @
     ''     *  we apply it directly because that's exactly how much CW\<newline>'' @
     ''     *  rotation makes the captured frame upright on the user's\<newline>'' @
     ''     *  screen. Inline styles win over both the CSS rule and the\<newline>'' @
     ''     *  inline maxWidth:100% setupH264 puts on the canvas. */\<newline>'' @
     ''    function applyRotation(target, m) {\<newline>'' @
     ''      const r = (m && Number.isInteger(m.rotation)) ? m.rotation : 0;\<newline>'' @
     ''      if (r === 90 || r === 180 || r === 270) {\<newline>'' @
     ''        target.style.transform = 'rotate(' + r + 'deg)';\<newline>'' @
     ''        if (r === 90 || r === 270) {\<newline>'' @
     ''          // Rotated visual is taller than wide -- swap so it fits\<newline>'' @
     ''          // the cam-stage's bounding box without spilling out.\<newline>'' @
     ''          target.style.width = 'auto';\<newline>'' @
     ''          target.style.height = 'auto';\<newline>'' @
     ''          target.style.maxWidth = '70vh';\<newline>'' @
     ''          target.style.maxHeight = '100%';\<newline>'' @
     ''        }\<newline>'' @
     ''      } else {\<newline>'' @
     ''        target.style.transform = '' @ [CHR 0x27] @ [CHR 0x27] @ '';\<newline>'' @
     ''      }\<newline>'' @
     ''    }\<newline>'' @
     ''\<newline>'' @
     ''    const rid = _directStream('camera_stream', {codec: wantCodec}, {\<newline>'' @
     ''      start: m => {\<newline>'' @
     ''        if (m && m.content_type === 'video/h264') {\<newline>'' @
     ''          mode = setupH264(m) ? 'h264' : null;\<newline>'' @
     ''          if (mode === 'h264' && canvas) applyRotation(canvas, m);\<newline>'' @
     ''        } else {\<newline>'' @
     ''          mode = 'mjpeg';\<newline>'' @
     ''          applyRotation(img, m);\<newline>'' @
     ''        }\<newline>'' @
     ''      },\<newline>'' @
     ''      frame: (ab, hdr) => {\<newline>'' @
     ''        if (mode === 'h264' && _camDecoder) {\<newline>'' @
     ''          const kf = !!(hdr && hdr.kf);\<newline>'' @
     ''          const pts = (hdr && typeof hdr.pts === 'number')\<newline>'' @
     ''                          ? hdr.pts : Math.round(performance.now() * 1000);\<newline>'' @
     ''          try {\<newline>'' @
     ''            _camDecoder.decode(new EncodedVideoChunk({\<newline>'' @
     ''              type: kf ? 'key' : 'delta',\<newline>'' @
     ''              timestamp: pts,\<newline>'' @
     ''              data: new Uint8Array(ab),\<newline>'' @
     ''            }));\<newline>'' @
     ''          } catch (e) { setStatus('decode err: ' + e.message); }\<newline>'' @
     ''          if (firstFrame) { firstFrame = false; setStatus('streaming (direct h264)'); }\<newline>'' @
     ''          return;\<newline>'' @
     ''        }\<newline>'' @
     ''        const blob = new Blob([ab], {type:'image/jpeg'});\<newline>'' @
     ''        const u = URL.createObjectURL(blob);\<newline>'' @
     ''        const old = _camLastUrl; _camLastUrl = u; img.src = u;\<newline>'' @
     ''        if (old) setTimeout(() => URL.revokeObjectURL(old), 0);\<newline>'' @
     ''        if (firstFrame) { firstFrame = false; setStatus('streaming (direct)'); }\<newline>'' @
     ''      },\<newline>'' @
     ''      end: m => {\<newline>'' @
     ''        if (_camLastUrl) { URL.revokeObjectURL(_camLastUrl); _camLastUrl = null; }\<newline>'' @
     ''        if (_camDecoder) { try { _camDecoder.close(); } catch (_) {} _camDecoder = null; }\<newline>'' @
     ''        _camDirectRid = null;\<newline>'' @
     ''        if (m && !m.ok) {\<newline>'' @
     ''          showError('Direct camera stream failed: '\<newline>'' @
     ''              + String(m.error || '' @ [CHR 0x27] @ [CHR 0x27] @ '').slice(0, 200) + ' '' @ utf8 [0xE2, 0x80, 0x94] @ '' falling back to hub.');\<newline>'' @
     ''        }\<newline>'' @
     ''      },\<newline>'' @
     ''    });\<newline>'' @
     ''    return rid;\<newline>'' @
     ''  }\<newline>'' @
     ''\<newline>'' @
     ''  function startStream() {\<newline>'' @
     ''    // Stop snapshot polling while streaming -- they share the camera\<newline>'' @
     ''    // hardware and the agent can only host one camera-using op at a time.\<newline>'' @
     ''    live.checked = false;\<newline>'' @
     ''    stopLive();\<newline>'' @
     ''    placeholder.style.display = 'none';\<newline>'' @
     ''    const err = stage.querySelector('.err');\<newline>'' @
     ''    if (err) err.remove();\<newline>'' @
     ''    let img = stage.querySelector('img');\<newline>'' @
     ''    if (!img) {\<newline>'' @
     ''      img = document.createElement('img');\<newline>'' @
     ''      stage.appendChild(img);\<newline>'' @
     ''    }\<newline>'' @
     ''    if (lastBlobUrl) { URL.revokeObjectURL(lastBlobUrl); lastBlobUrl = null; }\<newline>'' @
     ''    // Try direct first; fallback to hub MJPEG.\<newline>'' @
     ''    const rid = _startDirectCam(img);\<newline>'' @
     ''    if (rid) {\<newline>'' @
     ''      _camDirectRid = rid;\<newline>'' @
     ''      img.onerror = () => {};\<newline>'' @
     ''      streaming = true;\<newline>'' @
     ''      stream.textContent = '' @ [CHR 0x27] @ utf8 [0xE2, 0x96, 0xA0] @ '' Stop stream';\<newline>'' @
     ''      stream.classList.remove('btn-primary');\<newline>'' @
     ''      setStatus('streaming (direct)');\<newline>'' @
     ''      save.disabled = true;\<newline>'' @
     ''      return;\<newline>'' @
     ''    }\<newline>'' @
     ''    // Bust intermediary caches; a t= query param forces a fresh stream.\<newline>'' @
     ''    img.src = `/devices/${encodeURIComponent(did)}/camera/live?t=${Date.now()}`;\<newline>'' @
     ''    img.onerror = () => {\<newline>'' @
     ''      showError('Stream failed. Is the Vortex Driver APK installed and \"Start service\" tapped?');\<newline>'' @
     ''      streaming = false;\<newline>'' @
     ''      stream.textContent = '' @ [CHR 0x27] @ utf8 [0xE2, 0x96, 0xB6] @ '' Live stream';\<newline>'' @
     ''      stream.classList.add('btn-primary');\<newline>'' @
     ''    };\<newline>'' @
     ''    streaming = true;\<newline>'' @
     ''    stream.textContent = '' @ [CHR 0x27] @ utf8 [0xE2, 0x96, 0xA0] @ '' Stop stream';\<newline>'' @
     ''    stream.classList.remove('btn-primary');\<newline>'' @
     ''    setStatus('streaming (via hub)');\<newline>'' @
     ''    // Save isn't meaningful during a live stream (the <img> isn't a single frame).\<newline>'' @
     ''    save.disabled = true;\<newline>'' @
     ''  }\<newline>'' @
     ''  function stopStream() {\<newline>'' @
     ''    streaming = false;\<newline>'' @
     ''    stream.textContent = '' @ [CHR 0x27] @ utf8 [0xE2, 0x96, 0xB6] @ '' Live stream';\<newline>'' @
     ''    stream.classList.add('btn-primary');\<newline>'' @
     ''    if (_camDirectRid) {\<newline>'' @
     ''      try { _directWS && _directWS.close(); } catch (e) {}\<newline>'' @
     ''      _camDirectRid = null;\<newline>'' @
     ''    }\<newline>'' @
     ''    if (_camLastUrl) { URL.revokeObjectURL(_camLastUrl); _camLastUrl = null; }\<newline>'' @
     ''    if (_camDecoder) { try { _camDecoder.close(); } catch (_) {} _camDecoder = null; }\<newline>'' @
     ''    if (_camCanvas && _camCanvas.parentNode) {\<newline>'' @
     ''      const fresh = document.createElement('img');\<newline>'' @
     ''      _camCanvas.parentNode.replaceChild(fresh, _camCanvas);\<newline>'' @
     ''      _camCanvas = null;\<newline>'' @
     ''    }\<newline>'' @
     ''    const img = stage.querySelector('img');\<newline>'' @
     ''    if (img) img.src = '' @ [CHR 0x27] @ [CHR 0x27] @ '';\<newline>'' @
     ''    setStatus('stopped');\<newline>'' @
     ''  }\<newline>'' @
     ''  stream.addEventListener('click', () => {\<newline>'' @
     ''    if (streaming) stopStream();\<newline>'' @
     ''    else startStream();\<newline>'' @
     ''  });\<newline>'' @
     ''  const safeName = ('' @ json_dumps_for_html (di_name d) @ camera_script) (Some user) ''/'' True"

section \<open>The screen\<close>

definition screen_script ::
  "string" where
  "screen_script =
     '';\<newline>'' @
     ''  const btn = document.getElementById('scr-stream');\<newline>'' @
     ''  const status = document.getElementById('scr-status');\<newline>'' @
     ''  const stage = document.getElementById('scr-stage');\<newline>'' @
     ''  const placeholder = document.getElementById('scr-placeholder');\<newline>'' @
     ''\<newline>'' @
     ''  let streaming = false;\<newline>'' @
     ''  // Phone's REAL screen size in pixels. Filled in via /api/.../screen-size\<newline>'' @
     ''  // once the Driver responds. Until then, taps fall back to using the\<newline>'' @
     ''  // <img>'s naturalWidth/Height (the captured frame size, not the real\<newline>'' @
     ''  // screen) which is approximately correct -- ScreenEngine downscales\<newline>'' @
     ''  // proportionally so the relative ratios match.\<newline>'' @
     ''  let realScreen = null;\<newline>'' @
     ''  let _peerIsDesktop = false;   // V5.34: true once screen_size reports os==\"desktop\"\<newline>'' @
     ''  // V5.40: \"second screen\" display selection.\<newline>'' @
     ''  let _monitors = [];           // [{index,label,width,height,left,top,primary}]\<newline>'' @
     ''  let _monitor = 1;             // which display to stream (1 = primary)\<newline>'' @
     ''  let _monOffset = {left: 0, top: 0};  // virtual-desktop origin of _monitor\<newline>'' @
     ''\<newline>'' @
     ''  async function loadScreenSize() {\<newline>'' @
     ''    try {\<newline>'' @
     ''      const r = await fetch(`/api/devices/${encodeURIComponent(did)}/screen-size`,\<newline>'' @
     ''                            {cache: 'no-store'});\<newline>'' @
     ''      const data = await r.json();\<newline>'' @
     ''      if (data.ok && data.result && data.result.w && data.result.h) {\<newline>'' @
     ''        realScreen = {w: data.result.w, h: data.result.h};\<newline>'' @
     ''        _peerIsDesktop = (data.result.os === 'desktop');\<newline>'' @
     ''        if (_peerIsDesktop) setStatus('desktop peer '' @ utf8 [0xE2, 0x80, 0x94] @ '' click the screen, then type / scroll');\<newline>'' @
     ''        // Don't clobber a non-primary \"second screen\" selection with the\<newline>'' @
     ''        // primary size; re-assert the chosen display's geometry.\<newline>'' @
     ''        if (_monitor !== 1 && _monitors.length) applyMonitorGeometry();\<newline>'' @
     ''      }\<newline>'' @
     ''    } catch (e) {}\<newline>'' @
     ''  }\<newline>'' @
     ''\<newline>'' @
     ''  function setStatus(s) { status.textContent = s; }\<newline>'' @
     ''  function showError(msg) {\<newline>'' @
     ''    placeholder.style.display = 'none';\<newline>'' @
     ''    let err = stage.querySelector('.err');\<newline>'' @
     ''    if (!err) { err = document.createElement('div'); err.className = 'err'; stage.appendChild(err); }\<newline>'' @
     ''    err.textContent = msg;\<newline>'' @
     ''    setStatus('error');\<newline>'' @
     ''  }\<newline>'' @
     ''\<newline>'' @
     ''  // V5.21: track active direct screen stream rid + last blob URL so we\<newline>'' @
     ''  // can shut down cleanly and not leak ObjectURLs.\<newline>'' @
     ''  // B5: also track WebCodecs decoder + canvas when negotiating H.264.\<newline>'' @
     ''  // B11.11: also track AAC AudioDecoder + AudioContext + next-play\<newline>'' @
     ''  // timestamp for the optional multiplexed audio track.\<newline>'' @
     ''  let _screenDirectRid = null, _screenLastUrl = null;\<newline>'' @
     ''  let _screenDecoder = null, _screenCanvas = null;\<newline>'' @
     ''  let _screenAudioDec = null, _screenAudioCtx = null;\<newline>'' @
     ''  let _screenAudioNext = 0;          // monotonic playback cursor (seconds)\<newline>'' @
     ''  let _screenAudioMuted = false;\<newline>'' @
     ''  const _muteBtn = document.getElementById('scr-mute');\<newline>'' @
     ''\<newline>'' @
     ''  function _stopScreenAudio() {\<newline>'' @
     ''    if (_screenAudioDec) {\<newline>'' @
     ''      try { _screenAudioDec.close(); } catch (_) {}\<newline>'' @
     ''      _screenAudioDec = null;\<newline>'' @
     ''    }\<newline>'' @
     ''    if (_screenAudioCtx) {\<newline>'' @
     ''      try { _screenAudioCtx.close(); } catch (_) {}\<newline>'' @
     ''      _screenAudioCtx = null;\<newline>'' @
     ''    }\<newline>'' @
     ''    _screenAudioNext = 0;\<newline>'' @
     ''    if (_muteBtn) {\<newline>'' @
     ''      _muteBtn.style.display = 'none';\<newline>'' @
     ''      _muteBtn.textContent = '' @ [CHR 0x27] @ utf8 [0xF0, 0x9F, 0x94, 0x8A] @ '' Audio on';\<newline>'' @
     ''    }\<newline>'' @
     ''  }\<newline>'' @
     ''\<newline>'' @
     ''  /** B11.11 / B11.13: AAC decoder + AudioContext sink for the peer's\<newline>'' @
     ''   *  audio. Same shape works for both the multiplexed\<newline>'' @
     ''   *  `screen_stream.audio` sub-object and the standalone\<newline>'' @
     ''   *  `audio_stream` top-level meta. */\<newline>'' @
     ''  function setupAudio(a) {\<newline>'' @
     ''    if (!a || typeof window.AudioDecoder !== 'function') return false;\<newline>'' @
     ''    let description = null;\<newline>'' @
     ''    try {\<newline>'' @
     ''      const bin = atob(a.csd_base64 || '' @ [CHR 0x27] @ [CHR 0x27] @ '');\<newline>'' @
     ''      description = new Uint8Array(bin.length);\<newline>'' @
     ''      for (let i = 0; i < bin.length; i++) description[i] = bin.charCodeAt(i);\<newline>'' @
     ''    } catch (e) {}\<newline>'' @
     ''    if (!description || !description.length) return false;\<newline>'' @
     ''    let ctx;\<newline>'' @
     ''    try {\<newline>'' @
     ''      ctx = new (window.AudioContext || window.webkitAudioContext)({\<newline>'' @
     ''        sampleRate: a.sample_rate || 48000,\<newline>'' @
     ''        latencyHint: 'interactive',\<newline>'' @
     ''      });\<newline>'' @
     ''    } catch (e) { return false; }\<newline>'' @
     ''    _screenAudioCtx = ctx;\<newline>'' @
     ''    _screenAudioNext = 0;\<newline>'' @
     ''    // Each decoded AudioData lands here -- copy out as planar\<newline>'' @
     ''    // Float32s, allocate an AudioBuffer of the right shape, and\<newline>'' @
     ''    // schedule it at the running play cursor.\<newline>'' @
     ''    const dec = new AudioDecoder({\<newline>'' @
     ''      output: ad => {\<newline>'' @
     ''        try {\<newline>'' @
     ''          if (_screenAudioMuted) { ad.close(); return; }\<newline>'' @
     ''          const channels = ad.numberOfChannels;\<newline>'' @
     ''          const frames   = ad.numberOfFrames;\<newline>'' @
     ''          const sr       = ad.sampleRate;\<newline>'' @
     ''          const buf = ctx.createBuffer(channels, frames, sr);\<newline>'' @
     ''          for (let c = 0; c < channels; c++) {\<newline>'' @
     ''            const dst = buf.getChannelData(c);\<newline>'' @
     ''            ad.copyTo(dst, {planeIndex: c, format: 'f32-planar'});\<newline>'' @
     ''          }\<newline>'' @
     ''          const src = ctx.createBufferSource();\<newline>'' @
     ''          src.buffer = buf;\<newline>'' @
     ''          src.connect(ctx.destination);\<newline>'' @
     ''          // Schedule at max(ctx.currentTime, _screenAudioNext) so\<newline>'' @
     ''          // late frames don't backdate, and a small initial cushion\<newline>'' @
     ''          // hides decode jitter on the first few frames.\<newline>'' @
     ''          const now = ctx.currentTime;\<newline>'' @
     ''          const cushion = 0.05;\<newline>'' @
     ''          const startAt = Math.max(_screenAudioNext, now + cushion);\<newline>'' @
     ''          src.start(startAt);\<newline>'' @
     ''          _screenAudioNext = startAt + buf.duration;\<newline>'' @
     ''          // If the cursor has drifted way ahead of real time the\<newline>'' @
     ''          // user is probably mid-stutter; resync.\<newline>'' @
     ''          if (_screenAudioNext - now > 0.5) _screenAudioNext = now + cushion;\<newline>'' @
     ''        } catch (e) { /* one-frame glitch; skip */ }\<newline>'' @
     ''        finally { try { ad.close(); } catch (_) {} }\<newline>'' @
     ''      },\<newline>'' @
     ''      error: e => { /* non-fatal -- video keeps playing */ },\<newline>'' @
     ''    });\<newline>'' @
     ''    try {\<newline>'' @
     ''      dec.configure({\<newline>'' @
     ''        codec: a.codec || 'mp4a.40.2',\<newline>'' @
     ''        sampleRate: a.sample_rate || 48000,\<newline>'' @
     ''        numberOfChannels: a.channels || 2,\<newline>'' @
     ''        description,\<newline>'' @
     ''      });\<newline>'' @
     ''    } catch (e) {\<newline>'' @
     ''      try { dec.close(); } catch (_) {}\<newline>'' @
     ''      try { ctx.close(); } catch (_) {}\<newline>'' @
     ''      _screenAudioCtx = null;\<newline>'' @
     ''      return false;\<newline>'' @
     ''    }\<newline>'' @
     ''    _screenAudioDec = dec;\<newline>'' @
     ''    if (_muteBtn) {\<newline>'' @
     ''      _muteBtn.style.display = '' @ [CHR 0x27] @ [CHR 0x27] @ '';\<newline>'' @
     ''      _muteBtn.textContent = _screenAudioMuted ? '' @ [CHR 0x27] @ utf8 [0xF0, 0x9F, 0x94, 0x87] @ '' Audio off' : '' @ [CHR 0x27] @ utf8 [0xF0, 0x9F, 0x94, 0x8A] @ '' Audio on';\<newline>'' @
     ''    }\<newline>'' @
     ''    return true;\<newline>'' @
     ''  }\<newline>'' @
     ''\<newline>'' @
     ''  if (_muteBtn) {\<newline>'' @
     ''    _muteBtn.addEventListener('click', () => {\<newline>'' @
     ''      _screenAudioMuted = !_screenAudioMuted;\<newline>'' @
     ''      if (_screenAudioCtx) {\<newline>'' @
     ''        try {\<newline>'' @
     ''          if (_screenAudioMuted) _screenAudioCtx.suspend();\<newline>'' @
     ''          else                   _screenAudioCtx.resume();\<newline>'' @
     ''        } catch (_) {}\<newline>'' @
     ''      }\<newline>'' @
     ''      _muteBtn.textContent = _screenAudioMuted ? '' @ [CHR 0x27] @ utf8 [0xF0, 0x9F, 0x94, 0x87] @ '' Audio off' : '' @ [CHR 0x27] @ utf8 [0xF0, 0x9F, 0x94, 0x8A] @ '' Audio on';\<newline>'' @
     ''    });\<newline>'' @
     ''  }\<newline>'' @
     ''\<newline>'' @
     ''  // ---- B11.12: push-to-talk mic upstream (browser -> peer speakers) ----\<newline>'' @
     ''  //\<newline>'' @
     ''  // Requires WebCodecs AudioEncoder + MediaStreamTrackProcessor (both\<newline>'' @
     ''  // Chrome 94+). On older browsers the '' @ utf8 [0xF0, 0x9F, 0x8E, 0xA4] @ '' button stays hidden.\<newline>'' @
     ''  // Wire shape uses the same direct WS the input fast-path already\<newline>'' @
     ''  // owns -- three unary ops the peer side handles:\<newline>'' @
     ''  //   mic_open({sample_rate, channels, codec, csd_base64}) -> {ok}\<newline>'' @
     ''  //   mic_chunk({b64_data, pts})                            -> {ok}\<newline>'' @
     ''  //   mic_close()                                           -> {ok}\<newline>'' @
     ''  let _micStream = null, _micProcessor = null, _micReader = null;\<newline>'' @
     ''  let _micEncoder = null, _micOpenSent = false;\<newline>'' @
     ''  const _micBtn = document.getElementById('scr-mic');\<newline>'' @
     ''  const _hasMicSupport = (typeof window.AudioEncoder === 'function' &&\<newline>'' @
     ''                          typeof window.MediaStreamTrackProcessor === 'function');\<newline>'' @
     ''  if (_micBtn && _hasMicSupport) _micBtn.style.display = '' @ [CHR 0x27] @ [CHR 0x27] @ '';\<newline>'' @
     ''\<newline>'' @
     ''  function _b64FromUint8(u8) {\<newline>'' @
     ''    // Avoid String.fromCharCode.apply(null, u8) -- blows the stack on\<newline>'' @
     ''    // large buffers. AAC frames are small (~200 B) but be defensive.\<newline>'' @
     ''    let bin = '' @ [CHR 0x27] @ [CHR 0x27] @ '';\<newline>'' @
     ''    for (let i = 0; i < u8.length; i++) bin += String.fromCharCode(u8[i]);\<newline>'' @
     ''    return btoa(bin);\<newline>'' @
     ''  }\<newline>'' @
     ''\<newline>'' @
     ''  async function _startMic() {\<newline>'' @
     ''    if (!_hasMicSupport) return;\<newline>'' @
     ''    if (_micStream) return;  // already on\<newline>'' @
     ''    if (_micBtn) {\<newline>'' @
     ''      _micBtn.textContent = '' @ [CHR 0x27] @ utf8 [0xF0, 0x9F, 0x94, 0xB4] @ '' Talking'' @ utf8 [0xE2, 0x80, 0xA6] @ [CHR 0x27] @ '';\<newline>'' @
     ''      _micBtn.classList.add('btn-danger');\<newline>'' @
     ''    }\<newline>'' @
     ''    try {\<newline>'' @
     ''      _micStream = await navigator.mediaDevices.getUserMedia({\<newline>'' @
     ''        audio: {\<newline>'' @
     ''          sampleRate: 48000, channelCount: 1,\<newline>'' @
     ''          echoCancellation: true, noiseSuppression: true,\<newline>'' @
     ''        },\<newline>'' @
     ''      });\<newline>'' @
     ''    } catch (e) {\<newline>'' @
     ''      _resetMicBtn();\<newline>'' @
     ''      setStatus('mic permission denied');\<newline>'' @
     ''      return;\<newline>'' @
     ''    }\<newline>'' @
     ''    const track = _micStream.getAudioTracks()[0];\<newline>'' @
     ''    if (!track) { _stopMic(); return; }\<newline>'' @
     ''    _micProcessor = new MediaStreamTrackProcessor({track});\<newline>'' @
     ''    _micReader = _micProcessor.readable.getReader();\<newline>'' @
     ''    _micOpenSent = false;\<newline>'' @
     ''\<newline>'' @
     ''    _micEncoder = new AudioEncoder({\<newline>'' @
     ''      output: (chunk, metadata) => {\<newline>'' @
     ''        // First chunk's metadata has the AAC AudioSpecificConfig the\<newline>'' @
     ''        // peer's decoder needs. Send mic_open BEFORE any mic_chunk.\<newline>'' @
     ''        try {\<newline>'' @
     ''          if (!_micOpenSent && metadata && metadata.decoderConfig) {\<newline>'' @
     ''            const desc = metadata.decoderConfig.description;\<newline>'' @
     ''            const csd = desc ? new Uint8Array(\<newline>'' @
     ''                desc instanceof ArrayBuffer ? desc : desc.buffer) : null;\<newline>'' @
     ''            if (csd && csd.length) {\<newline>'' @
     ''              _directOp('mic_open', {\<newline>'' @
     ''                sample_rate: metadata.decoderConfig.sampleRate || 48000,\<newline>'' @
     ''                channels:    metadata.decoderConfig.numberOfChannels || 1,\<newline>'' @
     ''                codec:       metadata.decoderConfig.codec || 'mp4a.40.2',\<newline>'' @
     ''                csd_base64:  _b64FromUint8(csd),\<newline>'' @
     ''              }, 4000).then(() => { _micOpenSent = true; }).catch(() => {});\<newline>'' @
     ''            }\<newline>'' @
     ''          }\<newline>'' @
     ''          if (_micOpenSent) {\<newline>'' @
     ''            // Copy the encoded chunk into a fresh Uint8Array.\<newline>'' @
     ''            const buf = new Uint8Array(chunk.byteLength);\<newline>'' @
     ''            chunk.copyTo(buf);\<newline>'' @
     ''            _directOp('mic_chunk', {\<newline>'' @
     ''              b64_data: _b64FromUint8(buf),\<newline>'' @
     ''              pts: chunk.timestamp | 0,\<newline>'' @
     ''            }, 2000).catch(() => {});  // fire-and-forget\<newline>'' @
     ''          }\<newline>'' @
     ''        } catch (_) {}\<newline>'' @
     ''      },\<newline>'' @
     ''      error: e => { setStatus('mic encoder err: ' + e.message); _stopMic(); },\<newline>'' @
     ''    });\<newline>'' @
     ''    try {\<newline>'' @
     ''      _micEncoder.configure({\<newline>'' @
     ''        codec: 'mp4a.40.2',\<newline>'' @
     ''        sampleRate: 48000, numberOfChannels: 1, bitrate: 64000,\<newline>'' @
     ''      });\<newline>'' @
     ''    } catch (e) { setStatus('mic codec unsupported: ' + e.message); _stopMic(); return; }\<newline>'' @
     ''\<newline>'' @
     ''    // Drain AudioData frames from the track into the encoder.\<newline>'' @
     ''    (async () => {\<newline>'' @
     ''      try {\<newline>'' @
     ''        while (true) {\<newline>'' @
     ''          const {value, done} = await _micReader.read();\<newline>'' @
     ''          if (done) break;\<newline>'' @
     ''          try { _micEncoder.encode(value); } catch (_) {}\<newline>'' @
     ''          value.close();\<newline>'' @
     ''        }\<newline>'' @
     ''      } catch (_) { /* shutdown */ }\<newline>'' @
     ''    })();\<newline>'' @
     ''  }\<newline>'' @
     ''\<newline>'' @
     ''  async function _stopMic() {\<newline>'' @
     ''    _resetMicBtn();\<newline>'' @
     ''    try { _micReader && _micReader.cancel(); } catch (_) {}\<newline>'' @
     ''    _micReader = null;\<newline>'' @
     ''    try { _micEncoder && _micEncoder.close(); } catch (_) {}\<newline>'' @
     ''    _micEncoder = null;\<newline>'' @
     ''    _micProcessor = null;\<newline>'' @
     ''    if (_micStream) {\<newline>'' @
     ''      _micStream.getTracks().forEach(t => { try { t.stop(); } catch (_) {} });\<newline>'' @
     ''      _micStream = null;\<newline>'' @
     ''    }\<newline>'' @
     ''    const wasOpen = _micOpenSent;\<newline>'' @
     ''    _micOpenSent = false;\<newline>'' @
     ''    if (wasOpen) {\<newline>'' @
     ''      try { await _directOp('mic_close', {}, 2000); } catch (_) {}\<newline>'' @
     ''    }\<newline>'' @
     ''  }\<newline>'' @
     ''\<newline>'' @
     ''  function _resetMicBtn() {\<newline>'' @
     ''    if (!_micBtn) return;\<newline>'' @
     ''    _micBtn.textContent = '' @ [CHR 0x27] @ utf8 [0xF0, 0x9F, 0x8E, 0xA4] @ '' Hold to talk';\<newline>'' @
     ''    _micBtn.classList.remove('btn-danger');\<newline>'' @
     ''  }\<newline>'' @
     ''\<newline>'' @
     ''  if (_micBtn) {\<newline>'' @
     ''    // mousedown / mouseup for desktop; touchstart / touchend for mobile.\<newline>'' @
     ''    // preventDefault so a hold-and-drag doesn't kick off a text selection.\<newline>'' @
     ''    _micBtn.addEventListener('mousedown',  e => { e.preventDefault(); _startMic(); });\<newline>'' @
     ''    _micBtn.addEventListener('mouseup',    e => { e.preventDefault(); _stopMic(); });\<newline>'' @
     ''    _micBtn.addEventListener('mouseleave', () => { if (_micStream) _stopMic(); });\<newline>'' @
     ''    _micBtn.addEventListener('touchstart', e => { e.preventDefault(); _startMic(); }, {passive:false});\<newline>'' @
     ''    _micBtn.addEventListener('touchend',   e => { e.preventDefault(); _stopMic(); }, {passive:false});\<newline>'' @
     ''    _micBtn.addEventListener('touchcancel', () => { if (_micStream) _stopMic(); });\<newline>'' @
     ''  }\<newline>'' @
     ''\<newline>'' @
     ''  /** B11.13: audio-only stream. Same downstream path as B11.11's\<newline>'' @
     ''   *  multiplexed audio (reuses _screenAudio* state + the '' @ utf8 [0xF0, 0x9F, 0x94, 0x8A] @ ''/'' @ utf8 [0xF0, 0x9F, 0x94, 0x87] @ ''\<newline>'' @
     ''   *  mute button), but driven by the standalone `audio_stream` op\<newline>'' @
     ''   *  instead of being a sub-track of `screen_stream`. ~16 KB/s\<newline>'' @
     ''   *  downstream vs ~250 KB/s for H.264. */\<newline>'' @
     ''  function _startDirectAudioOnly() {\<newline>'' @
     ''    let firstFrame = true;\<newline>'' @
     ''    const rid = _directStream('audio_stream', {}, {\<newline>'' @
     ''      start: m => {\<newline>'' @
     ''        if (!m || m.content_type !== 'audio/aac') {\<newline>'' @
     ''          setStatus('peer did not send audio'); return;\<newline>'' @
     ''        }\<newline>'' @
     ''        // The audio_stream wire shape matches the nested\<newline>'' @
     ''        // screen_stream meta.audio shape we already handle, so\<newline>'' @
     ''        // setupAudio can take it as-is.\<newline>'' @
     ''        const ok = setupAudio(m);\<newline>'' @
     ''        if (!ok) { setStatus('audio decoder setup failed'); return; }\<newline>'' @
     ''        setStatus('streaming (audio only)');\<newline>'' @
     ''      },\<newline>'' @
     ''      frame: (ab, hdr) => {\<newline>'' @
     ''        if (!_screenAudioDec) return;\<newline>'' @
     ''        const pts = (hdr && typeof hdr.pts === 'number')\<newline>'' @
     ''                      ? hdr.pts : Math.round(performance.now() * 1000);\<newline>'' @
     ''        try {\<newline>'' @
     ''          _screenAudioDec.decode(new EncodedAudioChunk({\<newline>'' @
     ''            type: 'key', timestamp: pts, data: new Uint8Array(ab),\<newline>'' @
     ''          }));\<newline>'' @
     ''        } catch (_) {}\<newline>'' @
     ''        if (firstFrame) { firstFrame = false; }\<newline>'' @
     ''      },\<newline>'' @
     ''      end: m => {\<newline>'' @
     ''        _stopScreenAudio();\<newline>'' @
     ''        _screenDirectRid = null;\<newline>'' @
     ''        if (m && !m.ok) showError('Audio stream ended: '\<newline>'' @
     ''            + String(m.error || '' @ [CHR 0x27] @ [CHR 0x27] @ '').slice(0, 200));\<newline>'' @
     ''      },\<newline>'' @
     ''    });\<newline>'' @
     ''    return rid;\<newline>'' @
     ''  }\<newline>'' @
     ''\<newline>'' @
     ''  function _startDirectScreen(img) {\<newline>'' @
     ''    let firstFrame = true;\<newline>'' @
     ''    let mode = null;     // 'mjpeg' or 'h264' or 'audio-only'\<newline>'' @
     ''    let canvas = null, ctx = null;\<newline>'' @
     ''\<newline>'' @
     ''    // Negotiate: ask for H.264 if WebCodecs is available, else MJPEG.\<newline>'' @
     ''    // The APK falls back to MJPEG silently if it can't honour h264 too.\<newline>'' @
     ''    const wantCodec = (typeof window.VideoDecoder === 'function') ? 'h264' : 'mjpeg';\<newline>'' @
     ''    // B11.11: opt in to multiplexed system audio if AudioDecoder is\<newline>'' @
     ''    // available. APKs older than B11.10 ignore the flag, and we\<newline>'' @
     ''    // silently fall back to video-only.\<newline>'' @
     ''    const wantAudio = (typeof window.AudioDecoder === 'function');\<newline>'' @
     ''    // B11.13: audio-only mode. Checkbox in the toolbar; when on, we\<newline>'' @
     ''    // open audio_stream instead of screen_stream so no video is\<newline>'' @
     ''    // encoded on the peer.\<newline>'' @
     ''    const audioOnlyCb = document.getElementById('scr-audio-only');\<newline>'' @
     ''    const audioOnly   = !!(audioOnlyCb && audioOnlyCb.checked &&\<newline>'' @
     ''                            typeof window.AudioDecoder === 'function');\<newline>'' @
     ''    if (audioOnly) return _startDirectAudioOnly();\<newline>'' @
     ''\<newline>'' @
     ''    function setupH264(m) {\<newline>'' @
     ''      // Replace the <img> with a <canvas> sized to the encoder output.\<newline>'' @
     ''      const w = m.width || img.naturalWidth || 1080;\<newline>'' @
     ''      const h = m.height || img.naturalHeight || 2400;\<newline>'' @
     ''      canvas = document.createElement('canvas');\<newline>'' @
     ''      canvas.width = w; canvas.height = h;\<newline>'' @
     ''      canvas.style.maxWidth = '100%';\<newline>'' @
     ''      canvas.style.maxHeight = '100%';\<newline>'' @
     ''      canvas.style.objectFit = 'contain';\<newline>'' @
     ''      if (img.parentNode) {\<newline>'' @
     ''        img.parentNode.replaceChild(canvas, img);\<newline>'' @
     ''        attachInput(canvas);\<newline>'' @
     ''      }\<newline>'' @
     ''      ctx = canvas.getContext('2d', {alpha: false, desynchronized: true});\<newline>'' @
     ''      _screenCanvas = canvas;\<newline>'' @
     ''      let description = null;\<newline>'' @
     ''      try {\<newline>'' @
     ''        const bin = atob(m.csd_base64 || '' @ [CHR 0x27] @ [CHR 0x27] @ '');\<newline>'' @
     ''        description = new Uint8Array(bin.length);\<newline>'' @
     ''        for (let i = 0; i < bin.length; i++) description[i] = bin.charCodeAt(i);\<newline>'' @
     ''      } catch (e) {}\<newline>'' @
     ''      const decoder = new VideoDecoder({\<newline>'' @
     ''        output: frame => {\<newline>'' @
     ''          try { ctx.drawImage(frame, 0, 0, canvas.width, canvas.height); }\<newline>'' @
     ''          finally { frame.close(); }\<newline>'' @
     ''        },\<newline>'' @
     ''        error: e => setStatus('decoder error: ' + e.message),\<newline>'' @
     ''      });\<newline>'' @
     ''      const cfg = {\<newline>'' @
     ''        codec: m.codec || 'avc1.42E01E',\<newline>'' @
     ''        // WebCodecs accepts an annex-B SPS+PPS blob as `description` for AVC.\<newline>'' @
     ''        description: description || undefined,\<newline>'' @
     ''        optimizeForLatency: true,\<newline>'' @
     ''      };\<newline>'' @
     ''      try { decoder.configure(cfg); } catch (e) {\<newline>'' @
     ''        setStatus('h264 unsupported: ' + e.message); return false;\<newline>'' @
     ''      }\<newline>'' @
     ''      _screenDecoder = decoder;\<newline>'' @
     ''      return true;\<newline>'' @
     ''    }\<newline>'' @
     ''\<newline>'' @
     ''    const rid = _directStream('screen_stream',\<newline>'' @
     ''        {codec: wantCodec, audio: wantAudio, monitor: _monitor}, {\<newline>'' @
     ''      start: m => {\<newline>'' @
     ''        if (m && m.content_type === 'video/h264') {\<newline>'' @
     ''          mode = setupH264(m) ? 'h264' : null;\<newline>'' @
     ''          // B11.11: bring up audio only if the peer multiplexed it.\<newline>'' @
     ''          // Old APKs omit m.audio; the call is a no-op.\<newline>'' @
     ''          if (mode === 'h264' && m.audio) setupAudio(m.audio);\<newline>'' @
     ''        } else {\<newline>'' @
     ''          mode = 'mjpeg';\<newline>'' @
     ''        }\<newline>'' @
     ''      },\<newline>'' @
     ''      frame: (ab, hdr) => {\<newline>'' @
     ''        if (mode === 'h264' && _screenDecoder) {\<newline>'' @
     ''          // B11.11: route on header.track. Audio chunks (\"a\") feed\<newline>'' @
     ''          // the AAC decoder; everything else (default \"v\") feeds the\<newline>'' @
     ''          // existing video decoder.\<newline>'' @
     ''          const track = (hdr && hdr.track) || 'v';\<newline>'' @
     ''          if (track === 'a') {\<newline>'' @
     ''            if (!_screenAudioDec) return;\<newline>'' @
     ''            const pts = (hdr && typeof hdr.pts === 'number')\<newline>'' @
     ''                          ? hdr.pts : Math.round(performance.now() * 1000);\<newline>'' @
     ''            try {\<newline>'' @
     ''              _screenAudioDec.decode(new EncodedAudioChunk({\<newline>'' @
     ''                type: 'key',         // AAC has no inter-frame deps\<newline>'' @
     ''                timestamp: pts,\<newline>'' @
     ''                data: new Uint8Array(ab),\<newline>'' @
     ''              }));\<newline>'' @
     ''            } catch (e) { /* one-frame glitch */ }\<newline>'' @
     ''            return;\<newline>'' @
     ''          }\<newline>'' @
     ''          const kf = !!(hdr && hdr.kf);\<newline>'' @
     ''          const ptsMicros = (hdr && typeof hdr.pts === 'number')\<newline>'' @
     ''                              ? hdr.pts : Math.round(performance.now() * 1000);\<newline>'' @
     ''          try {\<newline>'' @
     ''            _screenDecoder.decode(new EncodedVideoChunk({\<newline>'' @
     ''              type: kf ? 'key' : 'delta',\<newline>'' @
     ''              timestamp: ptsMicros,\<newline>'' @
     ''              data: new Uint8Array(ab),\<newline>'' @
     ''            }));\<newline>'' @
     ''          } catch (e) { setStatus('decode err: ' + e.message); }\<newline>'' @
     ''          if (firstFrame) {\<newline>'' @
     ''            firstFrame = false;\<newline>'' @
     ''            setStatus(_screenAudioDec ? 'streaming (direct h264 + audio)'\<newline>'' @
     ''                                       : 'streaming (direct h264)');\<newline>'' @
     ''          }\<newline>'' @
     ''          return;\<newline>'' @
     ''        }\<newline>'' @
     ''        // MJPEG path (default, and fallback if h264 setup failed).\<newline>'' @
     ''        const blob = new Blob([ab], {type:'image/jpeg'});\<newline>'' @
     ''        const u = URL.createObjectURL(blob);\<newline>'' @
     ''        const old = _screenLastUrl; _screenLastUrl = u; img.src = u;\<newline>'' @
     ''        if (old) setTimeout(() => URL.revokeObjectURL(old), 0);\<newline>'' @
     ''        if (firstFrame) { firstFrame = false; setStatus('streaming (direct)'); }\<newline>'' @
     ''      },\<newline>'' @
     ''      end: m => {\<newline>'' @
     ''        if (_screenLastUrl) { URL.revokeObjectURL(_screenLastUrl); _screenLastUrl = null; }\<newline>'' @
     ''        if (_screenDecoder) {\<newline>'' @
     ''          try { _screenDecoder.close(); } catch (_) {}\<newline>'' @
     ''          _screenDecoder = null;\<newline>'' @
     ''        }\<newline>'' @
     ''        _stopScreenAudio();\<newline>'' @
     ''        _screenDirectRid = null;\<newline>'' @
     ''        if (m && !m.ok) showError('Direct screen stream failed: '\<newline>'' @
     ''            + String(m.error || '' @ [CHR 0x27] @ [CHR 0x27] @ '').slice(0, 200) + ' '' @ utf8 [0xE2, 0x80, 0x94] @ '' falling back to hub.');\<newline>'' @
     ''      },\<newline>'' @
     ''    });\<newline>'' @
     ''    return rid;\<newline>'' @
     ''  }\<newline>'' @
     ''\<newline>'' @
     ''  function startStream() {\<newline>'' @
     ''    placeholder.style.display = 'none';\<newline>'' @
     ''    const err = stage.querySelector('.err'); if (err) err.remove();\<newline>'' @
     ''    let img = stage.querySelector('img');\<newline>'' @
     ''    if (!img) { img = document.createElement('img'); stage.appendChild(img); attachInput(img); }\<newline>'' @
     ''    // Prefer the direct WS (LAN/mesh, no hub hop). If direct isn't up\<newline>'' @
     ''    // (or sending fails), fall back to the hub MJPEG path.\<newline>'' @
     ''    const rid = _startDirectScreen(img);\<newline>'' @
     ''    if (rid) {\<newline>'' @
     ''      _screenDirectRid = rid;\<newline>'' @
     ''      img.onerror = () => {};   // direct uses blob URLs, no upstream error\<newline>'' @
     ''      streaming = true;\<newline>'' @
     ''      btn.textContent = '' @ [CHR 0x27] @ utf8 [0xE2, 0x96, 0xA0] @ '' Stop stream'; btn.classList.remove('btn-primary');\<newline>'' @
     ''      setStatus('streaming (direct)');\<newline>'' @
     ''      loadScreenSize();\<newline>'' @
     ''      return;\<newline>'' @
     ''    }\<newline>'' @
     ''    // Hub MJPEG fallback.\<newline>'' @
     ''    img.src = `/devices/${encodeURIComponent(did)}/screen/live?t=${Date.now()}&monitor=${_monitor}`;\<newline>'' @
     ''    img.onerror = () => {\<newline>'' @
     ''      showError('Stream failed. Make sure the Vortex Driver APK is installed, the service is started, and screen sharing is armed.');\<newline>'' @
     ''      streaming = false;\<newline>'' @
     ''      btn.textContent = '' @ [CHR 0x27] @ utf8 [0xE2, 0x96, 0xB6] @ '' Live stream';\<newline>'' @
     ''      btn.classList.add('btn-primary');\<newline>'' @
     ''    };\<newline>'' @
     ''    streaming = true;\<newline>'' @
     ''    btn.textContent = '' @ [CHR 0x27] @ utf8 [0xE2, 0x96, 0xA0] @ '' Stop stream';\<newline>'' @
     ''    btn.classList.remove('btn-primary');\<newline>'' @
     ''    setStatus('streaming (via hub)');\<newline>'' @
     ''    loadScreenSize();\<newline>'' @
     ''  }\<newline>'' @
     ''  function stopStream() {\<newline>'' @
     ''    streaming = false;\<newline>'' @
     ''    btn.textContent = '' @ [CHR 0x27] @ utf8 [0xE2, 0x96, 0xB6] @ '' Live stream';\<newline>'' @
     ''    btn.classList.add('btn-primary');\<newline>'' @
     ''    if (_screenDirectRid) {\<newline>'' @
     ''      // Closing the direct WS terminates the agent's streaming task\<newline>'' @
     ''      // (there's no in-band 'abort'). Input fast-path will re-establish\<newline>'' @
     ''      // on next interaction; if not, postInput silently falls back.\<newline>'' @
     ''      try { _directWS && _directWS.close(); } catch (e) {}\<newline>'' @
     ''      _screenDirectRid = null;\<newline>'' @
     ''    }\<newline>'' @
     ''    const img = stage.querySelector('img');\<newline>'' @
     ''    if (img) img.src = '' @ [CHR 0x27] @ [CHR 0x27] @ '';\<newline>'' @
     ''    if (_screenLastUrl) { URL.revokeObjectURL(_screenLastUrl); _screenLastUrl = null; }\<newline>'' @
     ''    if (_screenDecoder) {\<newline>'' @
     ''      try { _screenDecoder.close(); } catch (_) {}\<newline>'' @
     ''      _screenDecoder = null;\<newline>'' @
     ''    }\<newline>'' @
     ''    _stopScreenAudio();\<newline>'' @
     ''    if (_screenCanvas && _screenCanvas.parentNode) {\<newline>'' @
     ''      // Restore an empty <img> so the next startStream() finds one.\<newline>'' @
     ''      const fresh = document.createElement('img');\<newline>'' @
     ''      _screenCanvas.parentNode.replaceChild(fresh, _screenCanvas);\<newline>'' @
     ''      attachInput(fresh);\<newline>'' @
     ''      _screenCanvas = null;\<newline>'' @
     ''    }\<newline>'' @
     ''    setStatus('stopped');\<newline>'' @
     ''  }\<newline>'' @
     ''  btn.addEventListener('click', () => {\<newline>'' @
     ''    if (streaming) stopStream(); else startStream();\<newline>'' @
     ''  });\<newline>'' @
     ''\<newline>'' @
     ''  // ---- M3: input ----\<newline>'' @
     ''\<newline>'' @
     ''  /** Translate a (clientX, clientY) on the <img> into phone-pixel coords. */\<newline>'' @
     ''  function toPhoneCoords(img, evt) {\<newline>'' @
     ''    const rect = img.getBoundingClientRect();\<newline>'' @
     ''    const xFrac = (evt.clientX - rect.left) / rect.width;\<newline>'' @
     ''    const yFrac = (evt.clientY - rect.top) / rect.height;\<newline>'' @
     ''    if (xFrac < 0 || xFrac > 1 || yFrac < 0 || yFrac > 1) return null;\<newline>'' @
     ''    const w = (realScreen && realScreen.w) || img.naturalWidth || 1080;\<newline>'' @
     ''    const h = (realScreen && realScreen.h) || img.naturalHeight || 2400;\<newline>'' @
     ''    // V5.40: add the selected display's virtual-desktop origin so clicks\<newline>'' @
     ''    // land on the right monitor (pyautogui uses absolute desktop coords).\<newline>'' @
     ''    const ox = (_monOffset && _monOffset.left) || 0;\<newline>'' @
     ''    const oy = (_monOffset && _monOffset.top) || 0;\<newline>'' @
     ''    return [Math.round(ox + xFrac * w), Math.round(oy + yFrac * h)];\<newline>'' @
     ''  }\<newline>'' @
     ''\<newline>'' @
     ''  // V5.16: race a direct WebSocket to the agent (LAN / mesh) so input\<newline>'' @
     ''  // bypasses the hub. V5.21: also carries STREAMS (screen_stream\<newline>'' @
     ''  // frames) so the visible video latency drops too '' @ utf8 [0xE2, 0x80, 0x94] @ '' JPEG bytes go\<newline>'' @
     ''  // straight from the device to this browser. Falls back to the hub\<newline>'' @
     ''  // POST/MJPEG if no direct route.\<newline>'' @
     ''  let _directWS = null, _directNextId = 1;\<newline>'' @
     ''  const _directPending = new Map();   // rid -> resolve+timeout       (unary)\<newline>'' @
     ''  const _directStreams = new Map();   // rid -> {start,frame,end}   (streams)\<newline>'' @
     ''  let _directBinaryRid = null;        // tag for the next binary frame\<newline>'' @
     ''  let _directBinaryHeader = null;     // B5: full chunk_header msg (kf/pts for h264)\<newline>'' @
     ''\<newline>'' @
     ''  function _directOnMessage(ev) {\<newline>'' @
     ''    if (ev.data instanceof ArrayBuffer) {\<newline>'' @
     ''      const rid = _directBinaryRid; const hdr = _directBinaryHeader;\<newline>'' @
     ''      _directBinaryRid = null; _directBinaryHeader = null;\<newline>'' @
     ''      const h = rid && _directStreams.get(rid);\<newline>'' @
     ''      if (h && h.frame) { try { h.frame(ev.data, hdr); } catch (_) {} }\<newline>'' @
     ''      return;\<newline>'' @
     ''    }\<newline>'' @
     ''    let m; try { m = JSON.parse(ev.data); } catch (_) { return; }\<newline>'' @
     ''    if (m.type === 'stream_chunk_header' && m.id) {\<newline>'' @
     ''      _directBinaryRid = m.id; _directBinaryHeader = m; return;\<newline>'' @
     ''    }\<newline>'' @
     ''    if (m.type === 'stream_start' && m.id && _directStreams.has(m.id)) {\<newline>'' @
     ''      try { _directStreams.get(m.id).start && _directStreams.get(m.id).start(m); } catch (_) {}\<newline>'' @
     ''      return;\<newline>'' @
     ''    }\<newline>'' @
     ''    if (m.type === 'stream_chunk' && m.id && _directStreams.has(m.id)) {\<newline>'' @
     ''      // Legacy/JSON chunk fallback (base64). Modern agent sends binary.\<newline>'' @
     ''      if (m.data) {\<newline>'' @
     ''        try {\<newline>'' @
     ''          const bin = atob(m.data); const u8 = new Uint8Array(bin.length);\<newline>'' @
     ''          for (let i = 0; i < bin.length; i++) u8[i] = bin.charCodeAt(i);\<newline>'' @
     ''          _directStreams.get(m.id).frame && _directStreams.get(m.id).frame(u8.buffer);\<newline>'' @
     ''        } catch (_) {}\<newline>'' @
     ''      }\<newline>'' @
     ''      return;\<newline>'' @
     ''    }\<newline>'' @
     ''    if (m.type === 'stream_end' && m.id && _directStreams.has(m.id)) {\<newline>'' @
     ''      try { _directStreams.get(m.id).end && _directStreams.get(m.id).end(null); } catch (_) {}\<newline>'' @
     ''      _directStreams.delete(m.id);\<newline>'' @
     ''      return;\<newline>'' @
     ''    }\<newline>'' @
     ''    if (m.type === 'response' && m.id) {\<newline>'' @
     ''      if (_directPending.has(m.id)) {\<newline>'' @
     ''        const e = _directPending.get(m.id);\<newline>'' @
     ''        clearTimeout(e.timeout); _directPending.delete(m.id);\<newline>'' @
     ''        e.resolve(m); return;\<newline>'' @
     ''      }\<newline>'' @
     ''      if (_directStreams.has(m.id) && !m.ok) {\<newline>'' @
     ''        try { _directStreams.get(m.id).end && _directStreams.get(m.id).end(m); } catch (_) {}\<newline>'' @
     ''        _directStreams.delete(m.id);\<newline>'' @
     ''      }\<newline>'' @
     ''    }\<newline>'' @
     ''  }\<newline>'' @
     ''\<newline>'' @
     ''  async function _connectDirect() {\<newline>'' @
     ''    let info;\<newline>'' @
     ''    try {\<newline>'' @
     ''      const r = await fetch(`/devices/${encodeURIComponent(did)}/direct`,\<newline>'' @
     ''                            {cache:'no-store'});\<newline>'' @
     ''      if (!r.ok) return; info = await r.json();\<newline>'' @
     ''    } catch (e) { return; }\<newline>'' @
     ''    if (!info || !info.ticket || !(info.ws || []).length) return;\<newline>'' @
     ''    const tries = info.ws.map(url => new Promise(resolve => {\<newline>'' @
     ''      let s; try { s = new WebSocket(url); } catch (e) { resolve(null); return; }\<newline>'' @
     ''      try { s.binaryType = 'arraybuffer'; } catch (_) {}\<newline>'' @
     ''      const to = setTimeout(() => { try { s.close(); } catch (_) {} resolve(null); }, 1500);\<newline>'' @
     ''      s.onopen = () => s.send(JSON.stringify({type:'hello', ticket: info.ticket}));\<newline>'' @
     ''      s.onerror = () => { clearTimeout(to); resolve(null); };\<newline>'' @
     ''      s.onmessage = ev => {\<newline>'' @
     ''        let m; try { m = JSON.parse(ev.data); } catch (_) { return; }\<newline>'' @
     ''        if (m.type === 'hello_ok') { clearTimeout(to); resolve(s); }\<newline>'' @
     ''        else if (m.type === 'hello_fail') { clearTimeout(to); try { s.close(); } catch (_) {} resolve(null); }\<newline>'' @
     ''      };\<newline>'' @
     ''    }));\<newline>'' @
     ''    const winner = (await Promise.all(tries)).find(s => s);\<newline>'' @
     ''    if (!winner) return;\<newline>'' @
     ''    _directWS = winner;\<newline>'' @
     ''    winner.onmessage = _directOnMessage;\<newline>'' @
     ''    winner.onclose = () => {\<newline>'' @
     ''      _directWS = null; _directBinaryRid = null;\<newline>'' @
     ''      _directPending.clear();\<newline>'' @
     ''      _directStreams.forEach(h => { try { h.end && h.end({ok:false,error:'closed'}); } catch (_) {} });\<newline>'' @
     ''      _directStreams.clear();\<newline>'' @
     ''    };\<newline>'' @
     ''    setStatus('direct connect ok');\<newline>'' @
     ''  }\<newline>'' @
     ''  _connectDirect();\<newline>'' @
     ''\<newline>'' @
     ''  function _directInput(cmd, timeoutMs) {\<newline>'' @
     ''    return _directOp('input', {command: cmd}, timeoutMs);\<newline>'' @
     ''  }\<newline>'' @
     ''\<newline>'' @
     ''  /** B11.12: generalised unary RPC over the direct WS. Same wire\<newline>'' @
     ''   *  shape _directInput used to build inline; pulled out so the\<newline>'' @
     ''   *  push-to-talk mic_open / mic_chunk / mic_close calls (and any\<newline>'' @
     ''   *  future op) don't need to duplicate the request/reply plumbing. */\<newline>'' @
     ''  function _directOp(op, args, timeoutMs) {\<newline>'' @
     ''    return new Promise((resolve, reject) => {\<newline>'' @
     ''      if (!_directWS || _directWS.readyState !== 1) return reject('no-direct');\<newline>'' @
     ''      const id = String(_directNextId++);\<newline>'' @
     ''      const timeout = setTimeout(() => {\<newline>'' @
     ''        _directPending.delete(id); reject('timeout');\<newline>'' @
     ''      }, timeoutMs || 4000);\<newline>'' @
     ''      _directPending.set(id, {resolve, timeout});\<newline>'' @
     ''      try {\<newline>'' @
     ''        _directWS.send(JSON.stringify({type:'request', id, op, args: args || {}}));\<newline>'' @
     ''      } catch (e) {\<newline>'' @
     ''        clearTimeout(timeout); _directPending.delete(id); reject(e);\<newline>'' @
     ''      }\<newline>'' @
     ''    });\<newline>'' @
     ''  }\<newline>'' @
     ''\<newline>'' @
     ''  /** Open a stream over the direct WS. handlers = {start,frame,end}.\<newline>'' @
     ''   *  Returns rid (string) on success, null if direct WS isn't up. */\<newline>'' @
     ''  function _directStream(op, args, handlers) {\<newline>'' @
     ''    if (!_directWS || _directWS.readyState !== 1) return null;\<newline>'' @
     ''    const id = String(_directNextId++);\<newline>'' @
     ''    _directStreams.set(id, handlers || {});\<newline>'' @
     ''    try {\<newline>'' @
     ''      _directWS.send(JSON.stringify({type:'request', id, op, args: args||{}}));\<newline>'' @
     ''      return id;\<newline>'' @
     ''    } catch (e) {\<newline>'' @
     ''      _directStreams.delete(id); return null;\<newline>'' @
     ''    }\<newline>'' @
     ''  }\<newline>'' @
     ''\<newline>'' @
     ''  async function postInput(cmd) {\<newline>'' @
     ''    // Try direct first (lowest latency); fall back to hub POST.\<newline>'' @
     ''    try {\<newline>'' @
     ''      const m = await _directInput(cmd, 1500);\<newline>'' @
     ''      if (m && m.ok) { setStatus(`${cmd.type} ok (direct)`); return; }\<newline>'' @
     ''      if (m && !m.ok) {\<newline>'' @
     ''        setStatus('input error: ' + String(m.error || '' @ [CHR 0x27] @ [CHR 0x27] @ '').slice(0,120));\<newline>'' @
     ''        return;\<newline>'' @
     ''      }\<newline>'' @
     ''    } catch (e) { /* fall through to hub path */ }\<newline>'' @
     ''    try {\<newline>'' @
     ''      const r = await fetch(`/devices/${encodeURIComponent(did)}/input`, {\<newline>'' @
     ''        method: 'POST',\<newline>'' @
     ''        headers: {'Content-Type': 'application/json'},\<newline>'' @
     ''        body: JSON.stringify(cmd),\<newline>'' @
     ''      });\<newline>'' @
     ''      if (!r.ok) {\<newline>'' @
     ''        const text = await r.text();\<newline>'' @
     ''        const detail = (() => {\<newline>'' @
     ''          try { return JSON.parse(text).detail; } catch (_) { return text; }\<newline>'' @
     ''        })();\<newline>'' @
     ''        setStatus('input error: ' + detail.slice(0, 120));\<newline>'' @
     ''      } else {\<newline>'' @
     ''        setStatus(`${cmd.type} ok`);\<newline>'' @
     ''      }\<newline>'' @
     ''    } catch (e) {\<newline>'' @
     ''      setStatus('input failed: ' + e.message);\<newline>'' @
     ''    }\<newline>'' @
     ''  }\<newline>'' @
     ''\<newline>'' @
     ''  // Drag-vs-tap detection: distinguish a click from a swipe by total\<newline>'' @
     ''  // pixel movement during the press. Below DRAG_THRESHOLD = a tap;\<newline>'' @
     ''  // above = a swipe from down-coords to up-coords.\<newline>'' @
     ''  const DRAG_THRESHOLD_PX = 8;\<newline>'' @
     ''  function attachInput(img) {\<newline>'' @
     ''    let downCoords = null;\<newline>'' @
     ''    let downAt = 0;\<newline>'' @
     ''\<newline>'' @
     ''    img.addEventListener('mousedown', (evt) => {\<newline>'' @
     ''      if (evt.button !== 0 && evt.button !== 2) return;  // only left + right\<newline>'' @
     ''      const c = toPhoneCoords(img, evt);\<newline>'' @
     ''      if (!c) return;\<newline>'' @
     ''      // Grab keyboard focus so a desktop peer receives our keystrokes;\<newline>'' @
     ''      // harmless for phones (the keydown handler no-ops unless desktop).\<newline>'' @
     ''      try { stage.focus(); } catch (_) {}\<newline>'' @
     ''      downCoords = c;\<newline>'' @
     ''      downAt = performance.now();\<newline>'' @
     ''    });\<newline>'' @
     ''\<newline>'' @
     ''    img.addEventListener('mouseup', (evt) => {\<newline>'' @
     ''      if (!downCoords) return;\<newline>'' @
     ''      const upCoords = toPhoneCoords(img, evt);\<newline>'' @
     ''      if (!upCoords) { downCoords = null; return; }\<newline>'' @
     ''      const dx = upCoords[0] - downCoords[0];\<newline>'' @
     ''      const dy = upCoords[1] - downCoords[1];\<newline>'' @
     ''      const dist = Math.hypot(dx, dy);\<newline>'' @
     ''      const elapsed = performance.now() - downAt;\<newline>'' @
     ''      if (dist >= DRAG_THRESHOLD_PX) {\<newline>'' @
     ''        postInput({\<newline>'' @
     ''          type: 'swipe',\<newline>'' @
     ''          from: downCoords,\<newline>'' @
     ''          to: upCoords,\<newline>'' @
     ''          duration_ms: Math.max(80, Math.min(800, Math.round(elapsed))),\<newline>'' @
     ''        });\<newline>'' @
     ''      } else if (evt.button === 2) {\<newline>'' @
     ''        postInput({type: 'long_press', x: downCoords[0], y: downCoords[1], duration_ms: 600});\<newline>'' @
     ''      } else {\<newline>'' @
     ''        postInput({type: 'tap', x: downCoords[0], y: downCoords[1]});\<newline>'' @
     ''      }\<newline>'' @
     ''      downCoords = null;\<newline>'' @
     ''    });\<newline>'' @
     ''\<newline>'' @
     ''    // Suppress the browser's right-click context menu so right-click can\<newline>'' @
     ''    // mean long-press without the menu popping up.\<newline>'' @
     ''    img.addEventListener('contextmenu', (evt) => evt.preventDefault());\<newline>'' @
     ''\<newline>'' @
     ''    // B11.14: wheel handling.\<newline>'' @
     ''    //   Plain wheel  -> short swipe on the peer (scroll the controlled\<newline>'' @
     ''    //                   app). Direction is INVERTED -- wheel-down on\<newline>'' @
     ''    //                   the viewer means \"see content below,\" which is\<newline>'' @
     ''    //                   a swipe-UP on the phone.\<newline>'' @
     ''    //   Ctrl+wheel   -> local CSS zoom of the stream view.\<newline>'' @
     ''    img.addEventListener('wheel', (evt) => {\<newline>'' @
     ''      evt.preventDefault();\<newline>'' @
     ''      if (evt.ctrlKey || evt.metaKey) {\<newline>'' @
     ''        const dz = evt.deltaY < 0 ? 1.1 : (1 / 1.1);\<newline>'' @
     ''        _scrZoom = Math.min(5, Math.max(1, (_scrZoom || 1) * dz));\<newline>'' @
     ''        img.style.transform = 'scale(' + _scrZoom + ')';\<newline>'' @
     ''        img.style.transformOrigin = 'center center';\<newline>'' @
     ''        return;\<newline>'' @
     ''      }\<newline>'' @
     ''      const c = toPhoneCoords(img, evt);\<newline>'' @
     ''      if (!c) return;\<newline>'' @
     ''      if (_peerIsDesktop) {\<newline>'' @
     ''        // Desktop peer: real wheel scroll (a swipe here would left-drag\<newline>'' @
     ''        // and select/move things). pyautogui treats +dy as scroll-up, so\<newline>'' @
     ''        // wheel-up (deltaY<0) -> +notches keeps direction natural.\<newline>'' @
     ''        postInput({type: 'scroll', x: c[0], y: c[1],\<newline>'' @
     ''                    dy: (evt.deltaY < 0 ? 1 : -1) * 3});\<newline>'' @
     ''        return;\<newline>'' @
     ''      }\<newline>'' @
     ''      // Phone peer: emulate a scroll via a short swipe. ~60 px per notch,\<newline>'' @
     ''      // capped. Negate so wheel-down scrolls content up on the peer.\<newline>'' @
     ''      const stepPx = Math.max(40, Math.min(200, Math.abs(evt.deltaY)));\<newline>'' @
     ''      const dy = (evt.deltaY < 0 ? 1 : -1) * stepPx;\<newline>'' @
     ''      postInput({\<newline>'' @
     ''        type: 'swipe',\<newline>'' @
     ''        from: c,\<newline>'' @
     ''        to: [c[0], c[1] + dy],\<newline>'' @
     ''        duration_ms: 120,\<newline>'' @
     ''      });\<newline>'' @
     ''    }, {passive: false});\<newline>'' @
     ''  }\<newline>'' @
     ''\<newline>'' @
     ''  // B11.14: page-scoped zoom state. Lives outside attachInput because\<newline>'' @
     ''  // the stream view (img or canvas) gets swapped when H.264 negotiates,\<newline>'' @
     ''  // but the zoom level shouldn't reset on the swap.\<newline>'' @
     ''  let _scrZoom = 1;\<newline>'' @
     ''\<newline>'' @
     ''  // Nav buttons. These work even without screen sharing armed -- they\<newline>'' @
     ''  // only need the AccessibilityService.\<newline>'' @
     ''  document.getElementById('nav-back').addEventListener('click', () => postInput({type: 'back'}));\<newline>'' @
     ''  document.getElementById('nav-home').addEventListener('click', () => postInput({type: 'home'}));\<newline>'' @
     ''  document.getElementById('nav-recents').addEventListener('click', () => postInput({type: 'recents'}));\<newline>'' @
     ''  document.getElementById('nav-notifs').addEventListener('click', () => postInput({type: 'notifications'}));\<newline>'' @
     ''\<newline>'' @
     ''  // V5.34: desktop keyboard passthrough. Scoped to the stage's keyboard\<newline>'' @
     ''  // focus so we never hijack the rest of the dashboard -- click the\<newline>'' @
     ''  // screen to grab the keyboard, click away to release it. Only active\<newline>'' @
     ''  // for a desktop peer (phones have no key/text command types).\<newline>'' @
     ''  function _keyToCmd(evt) {\<newline>'' @
     ''    const mods = [];\<newline>'' @
     ''    if (evt.ctrlKey) mods.push('ctrl');\<newline>'' @
     ''    if (evt.altKey) mods.push('alt');\<newline>'' @
     ''    if (evt.shiftKey) mods.push('shift');\<newline>'' @
     ''    if (evt.metaKey) mods.push('win');\<newline>'' @
     ''    const k = evt.key;\<newline>'' @
     ''    // A lone printable char (no ctrl/alt/meta) -> type it verbatim so\<newline>'' @
     ''    // shifted symbols stay correct without re-mapping the layout.\<newline>'' @
     ''    if (k.length === 1 && !evt.ctrlKey && !evt.altKey && !evt.metaKey) {\<newline>'' @
     ''      return {type: 'text', text: k};\<newline>'' @
     ''    }\<newline>'' @
     ''    const SPECIAL = {\<newline>'' @
     ''      'ArrowUp':'up','ArrowDown':'down','ArrowLeft':'left','ArrowRight':'right',\<newline>'' @
     ''      'Enter':'enter','Backspace':'backspace','Tab':'tab','Escape':'esc',\<newline>'' @
     ''      ' ':'space','Delete':'delete','Home':'home','End':'end',\<newline>'' @
     ''      'PageUp':'pageup','PageDown':'pagedown'\<newline>'' @
     ''    };\<newline>'' @
     ''    const key = SPECIAL[k] || k.toLowerCase();\<newline>'' @
     ''    return {type: 'key', key: key, modifiers: mods};\<newline>'' @
     ''  }\<newline>'' @
     ''  try { stage.tabIndex = 0; stage.style.outline = 'none'; } catch (_) {}\<newline>'' @
     ''  stage.addEventListener('keydown', (evt) => {\<newline>'' @
     ''    if (!_peerIsDesktop) return;\<newline>'' @
     ''    // Leave the operator's refresh / devtools accelerators alone.\<newline>'' @
     ''    if (evt.key === 'F5' ||\<newline>'' @
     ''        (evt.ctrlKey && evt.shiftKey && (evt.key === 'I' || evt.key === 'J'))) return;\<newline>'' @
     ''    evt.preventDefault();\<newline>'' @
     ''    postInput(_keyToCmd(evt));\<newline>'' @
     ''  });\<newline>'' @
     ''\<newline>'' @
     ''  // ---- V5.40: \"second screen\" display picker + full-screen mode ----\<newline>'' @
     ''  async function queryInput(cmd) {\<newline>'' @
     ''    // Unary input query returning the op result (direct first, hub POST\<newline>'' @
     ''    // fallback). Used to enumerate the peer's displays.\<newline>'' @
     ''    try {\<newline>'' @
     ''      const m = await _directInput(cmd, 2000);\<newline>'' @
     ''      if (m && m.ok) return m.result || {};\<newline>'' @
     ''    } catch (e) {}\<newline>'' @
     ''    try {\<newline>'' @
     ''      const r = await fetch(`/devices/${encodeURIComponent(did)}/input`, {\<newline>'' @
     ''        method: 'POST', headers: {'Content-Type': 'application/json'},\<newline>'' @
     ''        body: JSON.stringify(cmd),\<newline>'' @
     ''      });\<newline>'' @
     ''      if (r.ok) { const j = await r.json(); return j.result || {}; }\<newline>'' @
     ''    } catch (e) {}\<newline>'' @
     ''    return null;\<newline>'' @
     ''  }\<newline>'' @
     ''\<newline>'' @
     ''  function applyMonitorGeometry() {\<newline>'' @
     ''    const m = _monitors.find(x => x.index === _monitor);\<newline>'' @
     ''    if (m) {\<newline>'' @
     ''      realScreen = {w: m.width, h: m.height};\<newline>'' @
     ''      _monOffset = {left: m.left || 0, top: m.top || 0};\<newline>'' @
     ''    }\<newline>'' @
     ''  }\<newline>'' @
     ''\<newline>'' @
     ''  async function loadMonitors() {\<newline>'' @
     ''    const sel = document.getElementById('scr-monitor');\<newline>'' @
     ''    const fs = document.getElementById('scr-fs');\<newline>'' @
     ''    const res = await queryInput({type: 'monitors'});\<newline>'' @
     ''    const list = (res && res.monitors) || [];\<newline>'' @
     ''    _monitors = list;\<newline>'' @
     ''    // Full-screen helps on any desktop view (monitors only enumerates on\<newline>'' @
     ''    // a desktop peer, so a non-empty list means it's a PC).\<newline>'' @
     ''    if (fs && list.length) fs.style.display = '' @ [CHR 0x27] @ [CHR 0x27] @ '';\<newline>'' @
     ''    if (!sel) return;\<newline>'' @
     ''    const real = list.filter(m => m.index >= 1);  // skip index 0 = \"All\"\<newline>'' @
     ''    if (real.length <= 1) { sel.style.display = 'none'; return; }  // one screen: no picker\<newline>'' @
     ''    sel.innerHTML = '' @ [CHR 0x27] @ [CHR 0x27] @ '';\<newline>'' @
     ''    real.forEach(m => {\<newline>'' @
     ''      const o = document.createElement('option');\<newline>'' @
     ''      o.value = String(m.index);\<newline>'' @
     ''      o.textContent = `${m.label} (${m.width}x${m.height})`;\<newline>'' @
     ''      if (m.index === _monitor) o.selected = true;\<newline>'' @
     ''      sel.appendChild(o);\<newline>'' @
     ''    });\<newline>'' @
     ''    sel.style.display = '' @ [CHR 0x27] @ [CHR 0x27] @ '';\<newline>'' @
     ''    applyMonitorGeometry();\<newline>'' @
     ''  }\<newline>'' @
     ''\<newline>'' @
     ''  (function wireSecondScreen() {\<newline>'' @
     ''    const sel = document.getElementById('scr-monitor');\<newline>'' @
     ''    if (sel) sel.addEventListener('change', () => {\<newline>'' @
     ''      _monitor = parseInt(sel.value, 10) || 1;\<newline>'' @
     ''      applyMonitorGeometry();\<newline>'' @
     ''      if (streaming) { stopStream(); startStream(); }  // restart on the new display\<newline>'' @
     ''    });\<newline>'' @
     ''    const fs = document.getElementById('scr-fs');\<newline>'' @
     ''    if (fs) fs.addEventListener('click', () => {\<newline>'' @
     ''      const el = stage;\<newline>'' @
     ''      if (!document.fullscreenElement) {\<newline>'' @
     ''        (el.requestFullscreen || el.webkitRequestFullscreen || function () {}).call(el);\<newline>'' @
     ''      } else {\<newline>'' @
     ''        document.exitFullscreen();\<newline>'' @
     ''      }\<newline>'' @
     ''    });\<newline>'' @
     ''  })();\<newline>'' @
     ''\<newline>'' @
     ''  // Pre-warm the screen-size lookup on page load so taps work even before\<newline>'' @
     ''  // streaming starts (e.g., user just wants to fire a Back press).\<newline>'' @
     ''  loadScreenSize();\<newline>'' @
     ''  loadMonitors();\<newline>'' @
     ''})();\<newline>'' @
     ''</script>''"

definition device_screen_page ::
  "site \<Rightarrow> user_info \<Rightarrow> device_info \<Rightarrow> string" where
  "device_screen_page S user d =
     page S (di_name d @ '' '' @ [CHR 0xB7] @ '' Screen'') (
     ''\<newline>'' @
     ''<div class=\"section-head\" style=\"align-items:center\">\<newline>'' @
     ''  <h2>// '' @ escape (di_name d) @ '' '' @ [CHR 0xB7] @ '' Screen</h2>\<newline>'' @
     ''  <a class=\"btn btn-small\" href=\"/devices/'' @ escape (di_id d) @ ''\">'' @ utf8 [0xE2, 0x86, 0x90] @ '' Manage</a>\<newline>'' @
     ''</div>\<newline>'' @
     ''\<newline>'' @
     ''<div class=\"cam-toolbar\">\<newline>'' @
     ''  <button class=\"btn btn-primary\" id=\"scr-stream\">'' @ utf8 [0xE2, 0x96, 0xB6] @ '' Live stream</button>\<newline>'' @
     ''  <!-- B11.13: audio-only toggle. When checked, Live stream opens\<newline>'' @
     ''       the audio_stream op instead of screen_stream -- no video\<newline>'' @
     ''       encoder runs on the peer, ~16 KB/s downstream. -->\<newline>'' @
     ''  <label class=\"cam-toggle\" title=\"Stream the peer's system audio only (no video)\"\<newline>'' @
     ''         style=\"display:inline-flex;align-items:center;gap:.35rem;\<newline>'' @
     ''                margin-left:.5rem;color:var(--muted);font-size:.85rem\">\<newline>'' @
     ''    <input type=\"checkbox\" id=\"scr-audio-only\"> '' @ utf8 [0xF0, 0x9F, 0x8E, 0xB5] @ '' Audio only\<newline>'' @
     ''  </label>\<newline>'' @
     ''  <button class=\"btn\" id=\"nav-back\" title=\"Hardware back button\">'' @ utf8 [0xE2, 0x97, 0x80] @ '' Back</button>\<newline>'' @
     ''  <button class=\"btn\" id=\"nav-home\" title=\"Home\">'' @ utf8 [0xE2, 0x8C, 0x82] @ '' Home</button>\<newline>'' @
     ''  <button class=\"btn\" id=\"nav-recents\" title=\"Recent apps\">'' @ utf8 [0xE2, 0x96, 0xA3] @ '' Recents</button>\<newline>'' @
     ''  <button class=\"btn\" id=\"nav-notifs\" title=\"Pull down notification shade\">'' @ utf8 [0xE2, 0xA4, 0x93] @ '' Notifs</button>\<newline>'' @
     ''  <!-- B11.11: peer's system audio (multiplexed into screen_stream).\<newline>'' @
     ''       Hidden until the stream actually starts and the peer signals\<newline>'' @
     ''       it's sending an audio track. Defaults to ON. -->\<newline>'' @
     ''  <button class=\"btn\" id=\"scr-mute\" title=\"Mute / unmute peer audio\"\<newline>'' @
     ''          style=\"display:none\">'' @ utf8 [0xF0, 0x9F, 0x94, 0x8A] @ '' Audio on</button>\<newline>'' @
     ''  <!-- B11.12: push-to-talk. Hold to capture mic and ship to peer\<newline>'' @
     ''       speakers; release to stop. Hidden unless WebCodecs +\<newline>'' @
     ''       MediaStreamTrackProcessor are available (Chrome 94+). -->\<newline>'' @
     ''  <button class=\"btn\" id=\"scr-mic\"\<newline>'' @
     ''          title=\"Hold to talk through this device's microphone\"\<newline>'' @
     ''          style=\"display:none\">'' @ utf8 [0xF0, 0x9F, 0x8E, 0xA4] @ '' Hold to talk</button>\<newline>'' @
     ''  <!-- V5.40: \"second screen\" display picker. Shown only when the peer is a\<newline>'' @
     ''       desktop with more than one display. Selecting one streams just that\<newline>'' @
     ''       monitor -- point your current device at the host's extended display\<newline>'' @
     ''       and it becomes that screen. -->\<newline>'' @
     ''  <select class=\"btn\" id=\"scr-monitor\" title=\"Which display to show\"\<newline>'' @
     ''          style=\"display:none\"></select>\<newline>'' @
     ''  <button class=\"btn\" id=\"scr-fs\" title=\"Full-screen this view (second screen)\"\<newline>'' @
     ''          style=\"display:none\">'' @ utf8 [0xE2, 0x9B, 0xB6] @ '' Full screen</button>\<newline>'' @
     ''  <span class=\"cam-status\" id=\"scr-status\">idle</span>\<newline>'' @
     ''</div>\<newline>'' @
     ''\<newline>'' @
     ''<div class=\"cam-stage\" id=\"scr-stage\" style=\"cursor:crosshair\">\<newline>'' @
     ''  <div class=\"placeholder\" id=\"scr-placeholder\">\<newline>'' @
     ''    Tap <b>'' @ utf8 [0xE2, 0x96, 0xB6] @ '' Live stream</b> to mirror the phone's screen here.<br>\<newline>'' @
     ''    For remote control: install <strong>Vortex Driver</strong>, tap\<newline>'' @
     ''    <em>Arm screen sharing</em> (consent dialog), AND enable\<newline>'' @
     ''    <em>Vortex Driver</em> in <strong>Settings '' @ utf8 [0xE2, 0x86, 0x92] @ '' Accessibility</strong>.\<newline>'' @
     ''  </div>\<newline>'' @
     ''</div>\<newline>'' @
     ''\<newline>'' @
     ''<p style=\"margin-top:1rem;color:var(--muted);font-size:.75rem\">\<newline>'' @
     ''  <strong>Click</strong> on the stream to tap there. <strong>Click and drag</strong> to swipe.\<newline>'' @
     ''  <strong>Right-click</strong> for a long-press.\<newline>'' @
     ''  Coordinates are translated from the rendered image size to real\<newline>'' @
     ''  phone-screen pixels; the phone's actual display resolution is fetched\<newline>'' @
     ''  from the Driver APK on page load.\<newline>'' @
     ''</p>\<newline>'' @
     ''\<newline>'' @
     ''<script>\<newline>'' @
     ''(function() {\<newline>'' @
     ''  const did = '' @ json_dumps_for_html (di_id d) @ screen_script) (Some user) ''/'' True"
section \<open>No text makes a tag\<close>

lemma tags_device_camera_page: "tags (device_camera_page S u d) = tags (device_camera_page S (blank_user u) (blank_device d))"
  by (simp only: device_camera_page_def, intro tags_page)
    (simp only: tags_append tags_json inert [THEN tags_inert])

lemma tags_device_screen_page: "tags (device_screen_page S u d) = tags (device_screen_page S (blank_user u) (blank_device d))"
  by (simp only: device_screen_page_def, intro tags_page)
    (simp only: tags_append tags_json inert [THEN tags_inert])

end
