(* ===== verification/PagesTheft.thy ===== *)
theory PagesTheft
  imports PagesLive HubTheft
begin

text \<open>
  The pages of theft mode (\<^verbatim>\<open>hub/templates.py\<close>): a capture, the fleet, one device; and the handlers that
  serve the fleet and the audit log. How a float is printed in full, JSON and the reading of a float from
  a text are the record \<open>printing\<close>; a float with a number of places is written out. The lemmas say that
  no text of a user, of a device or of a capture makes a tag in them, and that what the periodic round or
  a request has stored is offered by the pages.
\<close>

record printing =
  pr_loads :: "string \<Rightarrow> json option"
  pr_float :: "string \<Rightarrow> rat option"
  pr_repr :: "rat \<Rightarrow> string"
  pr_str :: "json \<Rightarrow> string"

section \<open>Numbers\<close>

text \<open>\<open>f"{q:.nf}"\<close>: rounded to the places, a half to the even neighbour, with zeros before and after.\<close>

definition float_places :: "nat \<Rightarrow> rat \<Rightarrow> string" where
  "float_places n q = (let k = nat (py_round (\<bar>q\<bar> * 10 ^ n)); frac = nat_str (k mod 10 ^ n) in
     (if q < 0 then ''-'' else []) @ nat_str (k div 10 ^ n) @ ''.'' @ replicate (n - length frac) (CHR ''0'') @ frac)"

text \<open>\<open>int(v or n)\<close> of an optional number.\<close>

definition or_int :: "int option \<Rightarrow> int \<Rightarrow> int" where
  "or_int v n = (case v of None \<Rightarrow> n | Some i \<Rightarrow> if i = 0 then n else i)"

section \<open>A capture\<close>

text \<open>The address of a capture.\<close>

definition media_url ::
  "string \<Rightarrow> int \<Rightarrow> string" where
  "media_url did mid =
     ''/devices/'' @ escape did @ ''/theft/media/'' @ int_str mid"

text \<open>What was noted with a capture; nothing when it cannot be read.\<close>

definition card_meta :: "printing \<Rightarrow> media_row \<Rightarrow> json" where
  "card_meta P m = (if opt_str (m_meta m) = [] then JObj []
     else case pr_loads P (opt_str (m_meta m)) of None \<Rightarrow> JObj [] | Some j \<Rightarrow> j)"

definition location_text ::
  "printing \<Rightarrow> rat \<Rightarrow> rat \<Rightarrow> string \<Rightarrow> string" where
  "location_text P lat lon acc =
     (let osm = ''https://www.openstreetmap.org/?mlat='' @ pr_repr P lat @ ''&mlon='' @ pr_repr P lon @ ''#map=17/'' @ pr_repr P lat @ ''/'' @ pr_repr P lon;
      gm = ''https://www.google.com/maps?q='' @ pr_repr P lat @ '','' @ pr_repr P lon in
     ''<div class=\"loc\">'' @ utf8 [0xF0, 0x9F, 0x93, 0x8D] @ '' '' @ float_places 5 lat @ '', '' @ float_places 5 lon @ escape acc @ ''<br><a href=\"'' @ osm @ ''\" target=\"_blank\" rel=\"noopener\">OpenStreetMap</a> '' @ [CHR 0xB7] @ '' <a href=\"'' @ gm @ ''\" target=\"_blank\" rel=\"noopener\">Google&nbsp;Maps</a></div>'')"

definition accuracy_text ::
  "printing \<Rightarrow> json \<Rightarrow> exn + string" where
  "accuracy_text P acc =
     (if acc = JNull \<or> is_str [] acc then Inr []
      else case jfloat (pr_float P) acc of Inl e \<Rightarrow> Inl e | Inr q \<Rightarrow> Inr ('' '' @ [CHR 0xB1] @ int_str (trunc_rat q) @ ''m''))"

text \<open>A position is shown when its numbers are numbers; an error of the conversion is "no fix".\<close>

definition location_inner ::
  "printing \<Rightarrow> json \<Rightarrow> exn + string" where
  "location_inner P meta =
     (case meta of
        JObj kvs \<Rightarrow> (case (jfloat (pr_float P) (jget kvs ''lat''), jfloat (pr_float P) (jget kvs ''lon''),
            accuracy_text P (jget kvs ''accuracy'')) of
          (Inr lat, Inr lon, Inr acc) \<Rightarrow> Inr (location_text P lat lon acc)
        | _ \<Rightarrow> Inr (''<div class=\"loc\">no fix</div>''))
      | _ \<Rightarrow> Inl AttributeError)"

definition media_inner ::
  "printing \<Rightarrow> string \<Rightarrow> media_row \<Rightarrow> exn + string" where
  "media_inner P did m =
     (let url = media_url did (m_id m) in
      if m_kind m = ''photo'' then Inr (''<a href=\"'' @ url @ ''\" target=\"_blank\" rel=\"noopener\"><img loading=\"lazy\" src=\"'' @ url @ ''\" alt=\"covert photo\"></a>'')
      else if m_kind m = ''audio'' then Inr (''<audio controls preload=\"none\" src=\"'' @ url @ ''\"></audio>'')
      else location_inner P (card_meta P m))"

definition theft_media_card ::
  "printing \<Rightarrow> int \<Rightarrow> string \<Rightarrow> string \<Rightarrow> media_row \<Rightarrow> exn + string" where
  "theft_media_card P now label did m =
     (case media_inner P did m of Inl e \<Rightarrow> Inl e | Inr inner \<Rightarrow> Inr (
     ''<div class=\"tm-card\">\<newline>'' @
     ''  <div class=\"tm-body tm-'' @ escape (m_kind m) @ ''\">'' @ inner @ ''</div>\<newline>'' @
     ''  <div class=\"tm-meta\">\<newline>'' @
     ''    <span class=\"kind\">'' @ escape (m_kind m) @ ''</span>\<newline>'' @
     ''    '' @ (if label = [] then [] else ''<span class=\"devlbl\">'' @ escape label @ ''</span>'') @ ''\<newline>'' @
     ''    <span class=\"status\">'' @ escape (opt_str (m_trigger m)) @ ''</span>\<newline>'' @
     ''    <span class=\"when\">'' @ escape (ago now (m_created_at m) @ '' ago'') @ ''</span>\<newline>'' @
     ''    <form method=\"post\" action=\"/devices/'' @ escape did @ ''/theft/media/'' @ int_str (m_id m) @ ''/delete\"\<newline>'' @
     ''          style=\"margin:0 0 0 auto\">\<newline>'' @
     ''      <button class=\"icon-btn danger\" type=\"submit\" title=\"Delete\"\<newline>'' @
     ''              onclick=\"return confirm('Delete this '' @ escape (m_kind m) @ ''?')\">'' @ utf8 [0xE2, 0x9C, 0x95] @ ''</button>\<newline>'' @
     ''    </form>\<newline>'' @
     ''  </div>\<newline>'' @
     ''</div>''))"

section \<open>The fleet\<close>

text \<open>The picks of an armed device, its interval, its badge and its button.\<close>

definition picks_text ::
  "json \<Rightarrow> exn + string" where
  "picks_text opts =
     (case opts of
        JObj o' \<Rightarrow> Inr (or_str ((if truthy (jget o' ''location'') then utf8 [0xF0, 0x9F, 0x93, 0x8D] else []) @
          (if truthy (jget o' ''photo'') then utf8 [0xF0, 0x9F, 0x93, 0xB7] else []) @ (if truthy (jget o' ''audio'') then utf8 [0xF0, 0x9F, 0x8E, 0x99] else [])) (utf8 [0xE2, 0x80, 0x94]))
      | _ \<Rightarrow> Inl AttributeError)"

definition interval_text ::
  "int option \<Rightarrow> string" where
  "interval_text v =
     (let iv = or_int v 300 in if iv \<ge> 60 then int_str (iv div 60) @ ''m'' else int_str iv @ ''s'')"

definition armed_badge ::
  "fleet_row \<Rightarrow> exn + string" where
  "armed_badge r =
     (if \<not> fr_armed r then Inr (''<span class=\"badge offline\">disarmed</span>'')
      else case picks_text (fr_opts r) of Inl e \<Rightarrow> Inl e | Inr kinds \<Rightarrow>
        (let iv_s = interval_text (fr_interval r) in Inr (
     ''<span class=\"badge online\" title=\"every '' @ iv_s @ ''\">'' @ utf8 [0xF0, 0x9F, 0x9B, 0xA1] @ '' '' @ kinds @ '' '' @ [CHR 0xB7] @ '' '' @ iv_s @ ''</span>'')))"

definition arm_button ::
  "string \<Rightarrow> bool \<Rightarrow> string" where
  "arm_button did armed =
     (if armed then
     ''<form method=\"post\" action=\"/devices/'' @ did @ ''/theft/disarm\" style=\"margin:0\"><button class=\"btn btn-small\" type=\"submit\">Disarm</button></form>''
   else
     ''<a class=\"btn btn-small\" href=\"/devices/'' @ did @ ''/theft\">Arm'' @ utf8 [0xE2, 0x80, 0xA6] @ ''</a>'')"

definition conn_badge ::
  "bool \<Rightarrow> string option \<Rightarrow> string" where
  "conn_badge online elsewhere =
     (if online then ''<span class=\"badge online\">Online</span>''
      else if opt_str elsewhere \<noteq> [] then ''<span class=\"badge online\" title=\"'' @ escape (opt_str elsewhere) @ ''\">On its node</span>''
      else ''<span class=\"badge offline\">Offline</span>'')"

definition fleet_place ::
  "printing \<Rightarrow> int \<Rightarrow> (rat \<times> rat \<times> json \<times> int) option \<Rightarrow> string" where
  "fleet_place P now loc =
     (case loc of None \<Rightarrow> utf8 [0xE2, 0x80, 0x94]
   | Some (lat, lon, acc, stamp) \<Rightarrow>
     (let osm = ''https://www.openstreetmap.org/?mlat='' @ pr_repr P lat @ ''&mlon='' @ pr_repr P lon @ ''#map=17/'' @ pr_repr P lat @ ''/'' @ pr_repr P lon in
     ''<a href=\"'' @ osm @ ''\" target=\"_blank\" rel=\"noopener\">'' @ float_places 4 lat @ '','' @ float_places 4 lon @ ''</a> <span style=\"color:var(--muted)\">'' @ (if stamp = 0 then [] else escape (ago now stamp @ '' ago'')) @ ''</span>''))"

definition fleet_line ::
  "printing \<Rightarrow> int \<Rightarrow> fleet_row \<Rightarrow> exn + string" where
  "fleet_line P now r =
     (case armed_badge r of Inl e \<Rightarrow> Inl e | Inr armb \<Rightarrow>
     (let did = escape (fr_id r); nm = escape (fr_name r);
          onb = conn_badge (fr_online r) (fr_elsewhere r);
          theft_href = ''/devices/'' @ did @ ''/theft'';
          act = arm_button did (fr_armed r);
          cap = (if or_int (fr_last_capture r) 0 = 0 then utf8 [0xE2, 0x80, 0x94] else escape (ago now (or_int (fr_last_capture r) 0) @ '' ago''));
          loc = fleet_place P now (fr_loc r) in Inr (
     ''<tr>\<newline>'' @
     ''  <td><a href=\"'' @ theft_href @ ''\">'' @ nm @ ''</a></td>\<newline>'' @
     ''  <td>'' @ onb @ ''</td><td>'' @ armb @ ''</td>\<newline>'' @
     ''  <td>'' @ cap @ ''</td><td>'' @ loc @ ''</td>\<newline>'' @
     ''  <td style=\"text-align:right\">'' @ act @ ''\<newline>'' @
     ''    <a class=\"btn btn-small\" href=\"'' @ theft_href @ ''\">Manage</a></td>\<newline>'' @
     ''</tr>'')))"

text \<open>A point of the map: device, name, position and time; and the newest, the first of the newest.\<close>

type_synonym map_point = "string \<times> string \<times> rat \<times> rat \<times> int"

definition point_json :: "printing \<Rightarrow> map_point \<Rightarrow> string" where
  "point_json P p = (case p of (did, name, lat, lon, stamp) \<Rightarrow>
     ''{'' @ json_dumps ''device_id'' @ '': '' @ json_dumps did @ '', '' @ json_dumps ''name'' @ '': '' @ json_dumps name @ '', '' @
     json_dumps ''lat'' @ '': '' @ pr_repr P lat @ '', '' @ json_dumps ''lon'' @ '': '' @ pr_repr P lon @ '', '' @
     json_dumps ''at'' @ '': '' @ int_str stamp @ ''}'')"

definition points_json :: "printing \<Rightarrow> map_point list \<Rightarrow> string" where
  "points_json P ps = for_html (''['' @ join_comma (map (point_json P) ps) @ '']'')"

fun newest_point :: "map_point \<Rightarrow> map_point list \<Rightarrow> map_point" where
  "newest_point p [] = p"
| "newest_point p (q # qs) = newest_point (if snd (snd (snd (snd q))) > snd (snd (snd (snd p))) then q else p) qs"

definition pin_button ::
  "nat \<times> map_point \<Rightarrow> string" where
  "pin_button ip =
     (case ip of (i, did, name, _) \<Rightarrow>
     ''<button class=\"btn btn-small\" type=\"button\" onclick=\"vxFocus('' @ nat_str i @ '')\">'' @ utf8 [0xF0, 0x9F, 0x93, 0x8D] @ '' '' @ escape name @ ''</button>'')"

definition map_src ::
  "printing \<Rightarrow> map_point \<Rightarrow> string" where
  "map_src P p =
     (case p of (did, name, la, lo, stamp) \<Rightarrow>
      (let d = 2 / 100;
           bbox = pr_repr P (lo - d) @ '','' @ pr_repr P (la - d) @ '','' @ pr_repr P (lo + d) @ '','' @ pr_repr P (la + d) in
     ''https://www.openstreetmap.org/export/embed.html?bbox='' @ bbox @ ''&layer=mapnik&marker='' @ pr_repr P la @ '','' @ pr_repr P lo))"

definition fleet_map ::
  "printing \<Rightarrow> map_point list \<Rightarrow> string" where
  "fleet_map P pts =
     (case pts of [] \<Rightarrow>
     ''<div class=\"empty\"><p>No locations captured yet. Arm <em>Location</em> on a device, or use '' @ utf8 [0xE2, 0x80, 0x9C] @ ''Locate now'' @ utf8 [0xE2, 0x80, 0x9D] @ '' on its Theft page.</p></div>''
   | p # ps \<Rightarrow>
     (let src = map_src P (newest_point p ps);
          pin_btns = concat (map pin_button (enumerate 0 pts)) in
     ''\<newline>'' @
     ''  <iframe id=\"fleet-map\" title=\"fleet map\" src=\"'' @ src @ ''\"\<newline>'' @
     ''          style=\"width:100%;height:340px;border:0;border-radius:10px;\<newline>'' @
     ''                 background:var(--surface-2)\"></iframe>\<newline>'' @
     ''  <div class=\"pin-row\">'' @ pin_btns @ ''</div>\<newline>'' @
     ''  <p style=\"color:var(--muted);font-size:.7rem;margin:.5rem 0 0\">\<newline>'' @
     ''    OpenStreetMap embed '' @ utf8 [0xE2, 0x80, 0x94] @ '' one marker at a time; tap a device to recenter.\<newline>'' @
     ''    Each row also links straight to OSM/Google Maps.\<newline>'' @
     ''  </p>''))"

text \<open>The newest captures of all devices, each with the name of its device.\<close>

definition fleet_feed ::
  "string \<Rightarrow> string" where
  "fleet_feed cards =
     (if cards \<noteq> [] then ''<div class=\"tm-grid\">'' @ cards @ ''</div>''
      else ''<div class=\"empty\"><p>No captures yet.</p></div>'')"

definition newest_id ::
  "media_row list \<Rightarrow> int" where
  "newest_id media =
     (case media of [] \<Rightarrow> 0 | m # _ \<Rightarrow> m_id m)"

definition theft_dashboard_page ::
  "site \<Rightarrow> printing \<Rightarrow> user_info \<Rightarrow> fleet_row list \<Rightarrow> media_row list \<Rightarrow> map_point list \<Rightarrow> exn + string" where
  "theft_dashboard_page S P user rows media map_pts =
     (let name_by_id = map_of (rev (map (\<lambda>r. (fr_id r, fr_name r)) rows));
        armed_n = length (filter fr_armed rows); total = length rows;
        newest = newest_id media in
   case mapE (fleet_line P (st_now S)) rows of Inl e \<Rightarrow> Inl e | Inr trs \<Rightarrow>
   case mapE (\<lambda>m. theft_media_card P (st_now S) (opt_str (name_by_id (m_device_id m))) (m_device_id m) m) media of
     Inl e \<Rightarrow> Inl e
   | Inr cards \<Rightarrow> Inr (
   (let table = (if trs \<noteq> [] then concat trs else
       ''<tr><td colspan=\"6\" style=\"color:var(--muted)\">No devices yet.</td></tr>'') in
   Pages.page S ''Theft Dashboard'' (
     ''\<newline>'' @
     ''<div class=\"section-head\" style=\"align-items:center\">\<newline>'' @
     ''  <h2>// Theft Dashboard</h2>\<newline>'' @
     ''  <span class=\"badge '' @ (if armed_n \<noteq> 0 then ''online'' else ''offline'') @ ''\"\<newline>'' @
     ''        style=\"margin-left:.5rem\">'' @ nat_str armed_n @ ''/'' @ nat_str total @ '' armed</span>\<newline>'' @
     ''</div>\<newline>'' @
     ''\<newline>'' @
     ''<div class=\"card\" style=\"margin-top:0\">\<newline>'' @
     ''  <h3 style=\"margin:0 0 .6rem;color:var(--cyan)\">Fleet location</h3>\<newline>'' @
     ''  '' @ fleet_map P map_pts @ ''\<newline>'' @
     ''</div>\<newline>'' @
     ''\<newline>'' @
     ''<div class=\"card\" style=\"margin-top:1.25rem\">\<newline>'' @
     ''  <h3 style=\"margin:0 0 .6rem;color:var(--cyan)\">Devices</h3>\<newline>'' @
     ''  <div style=\"overflow-x:auto\">\<newline>'' @
     ''  <table class=\"tm-table\">\<newline>'' @
     ''    <thead><tr><th>Device</th><th>Conn</th><th>Theft</th>\<newline>'' @
     ''      <th>Last capture</th><th>Last location</th><th></th></tr></thead>\<newline>'' @
     ''    <tbody>'' @ table @ ''</tbody>\<newline>'' @
     ''  </table>\<newline>'' @
     ''  </div>\<newline>'' @
     ''</div>\<newline>'' @
     ''\<newline>'' @
     ''<div class=\"card\" style=\"margin-top:1.25rem;max-width:640px\">\<newline>'' @
     ''  <h3 style=\"margin:0 0 .6rem;color:var(--purple)\">Bulk controls</h3>\<newline>'' @
     ''  <form method=\"post\" action=\"/theft/arm-all\">\<newline>'' @
     ''    <div class=\"bulk-ck\">\<newline>'' @
     ''      <label><input type=\"checkbox\" name=\"location\" value=\"1\" checked> '' @ utf8 [0xF0, 0x9F, 0x93, 0x8D] @ '' Location</label>\<newline>'' @
     ''      <label><input type=\"checkbox\" name=\"photo\" value=\"1\"> '' @ utf8 [0xF0, 0x9F, 0x93, 0xB7] @ '' Photo</label>\<newline>'' @
     ''      <label><input type=\"checkbox\" name=\"audio\" value=\"1\"> '' @ utf8 [0xF0, 0x9F, 0x8E, 0x99] @ '' Audio</label>\<newline>'' @
     ''      <label><input type=\"checkbox\" name=\"keepawake\" value=\"1\"> Keep-awake</label>\<newline>'' @
     ''    </div>\<newline>'' @
     ''    <label>Interval\<newline>'' @
     ''      <select name=\"interval\">\<newline>'' @
     ''        <option value=\"60\">every 1 min</option>\<newline>'' @
     ''        <option value=\"300\" selected>every 5 min</option>\<newline>'' @
     ''        <option value=\"900\">every 15 min</option>\<newline>'' @
     ''        <option value=\"1800\">every 30 min</option>\<newline>'' @
     ''        <option value=\"3600\">every 1 hour</option>\<newline>'' @
     ''      </select>\<newline>'' @
     ''    </label>\<newline>'' @
     ''    <label>Audio length (s)\<newline>'' @
     ''      <input type=\"number\" name=\"audio_seconds\" value=\"15\" min=\"1\" max=\"120\"></label>\<newline>'' @
     ''    <label>Camera id <input name=\"camera_id\" value=\"0\" maxlength=\"2\"></label>\<newline>'' @
     ''    <label style=\"flex-direction:row;align-items:flex-start;gap:.5rem;text-transform:none;color:var(--text)\">\<newline>'' @
     ''      <input type=\"checkbox\" name=\"attest\" value=\"1\" required\<newline>'' @
     ''             style=\"width:auto;margin-top:.2rem\">\<newline>'' @
     ''      I own / am authorised to monitor <strong>all</strong> these\<newline>'' @
     ''      devices, and accept covert recording is regulated.\<newline>'' @
     ''    </label>\<newline>'' @
     ''    <button class=\"btn btn-primary\" type=\"submit\"\<newline>'' @
     ''            style=\"align-self:flex-start\">Arm ALL devices</button>\<newline>'' @
     ''  </form>\<newline>'' @
     ''  <form method=\"post\" action=\"/theft/disarm-all\" style=\"margin-top:1rem\">\<newline>'' @
     ''    <button class=\"btn\" type=\"submit\"\<newline>'' @
     ''            onclick=\"return confirm('Disarm Theft Mode on every device?')\">\<newline>'' @
     ''      Disarm all\<newline>'' @
     ''    </button>\<newline>'' @
     ''  </form>\<newline>'' @
     ''</div>\<newline>'' @
     ''\<newline>'' @
     ''<div class=\"section-head\" style=\"margin-top:1.5rem\">\<newline>'' @
     ''  <h2>// Recent captures</h2>\<newline>'' @
     ''  <span style=\"color:var(--muted);font-size:.75rem\">newest across all devices</span>\<newline>'' @
     ''</div>\<newline>'' @
     fleet_feed (concat cards) @ ''\<newline>'' @
     ''\<newline>'' @
     ''<style>\<newline>'' @
     ''.tm-table { width:100%; border-collapse:collapse; font-size:.85rem; }\<newline>'' @
     ''.tm-table th { text-align:left; color:var(--muted); font-size:.68rem;\<newline>'' @
     ''  text-transform:uppercase; letter-spacing:.06em; padding:.4rem .5rem;\<newline>'' @
     ''  border-bottom:1px solid var(--border); }\<newline>'' @
     ''.tm-table td { padding:.5rem .5rem; border-bottom:1px solid var(--border);\<newline>'' @
     ''  vertical-align:middle; }\<newline>'' @
     ''.tm-table tr:last-child td { border-bottom:none; }\<newline>'' @
     ''.pin-row { display:flex; flex-wrap:wrap; gap:.4rem; margin-top:.6rem; }\<newline>'' @
     ''.bulk-ck { display:flex; flex-wrap:wrap; gap:.75rem 1.25rem; }\<newline>'' @
     ''.bulk-ck label { flex-direction:row; align-items:center; gap:.4rem;\<newline>'' @
     ''  text-transform:none; color:var(--text); }\<newline>'' @
     ''.bulk-ck input { width:auto; }\<newline>'' @
     ''.tm-meta .devlbl { color:var(--text); }\<newline>'' @
     ''</style>\<newline>'' @
     ''<script>\<newline>'' @
     ''(function() {\<newline>'' @
     ''  const PTS = '' @ points_json P map_pts @ '';\<newline>'' @
     ''  window.vxFocus = function(i) {\<newline>'' @
     ''    const p = PTS[i]; if (!p) return;\<newline>'' @
     ''    const d = 0.02, lo = p.lon, la = p.lat;\<newline>'' @
     ''    const bbox = (lo-d)+','+(la-d)+','+(lo+d)+','+(la+d);\<newline>'' @
     ''    const f = document.getElementById('fleet-map');\<newline>'' @
     ''    if (f) f.src = 'https://www.openstreetmap.org/export/embed.html?bbox='\<newline>'' @
     ''      + bbox + '&layer=mapnik&marker=' + la + ',' + lo;\<newline>'' @
     ''  };\<newline>'' @
     ''  let newest = '' @ int_str newest @ '', armed = '' @ nat_str armed_n @ '';\<newline>'' @
     ''  setInterval(async () => {\<newline>'' @
     ''    try {\<newline>'' @
     ''      const r = await fetch('/theft/feed', {cache:'no-store'});\<newline>'' @
     ''      if (!r.ok) return;\<newline>'' @
     ''      const j = await r.json();\<newline>'' @
     ''      if (j.newest !== newest || j.armed !== armed) location.reload();\<newline>'' @
     ''    } catch (e) {}\<newline>'' @
     ''  }, 8000);\<newline>'' @
     ''})();\<newline>'' @
     ''</script>'') (Some user) ''/theft'' True)))"

section \<open>One device\<close>

text \<open>What the device is armed with.\<close>

definition armed_opts :: "printing \<Rightarrow> theft_row option \<Rightarrow> json" where
  "armed_opts P st = (case pr_loads P (or_str (opt_str (case st of None \<Rightarrow> None | Some t \<Rightarrow> t_opts t)) ''{}'') of
     None \<Rightarrow> JObj [] | Some j \<Rightarrow> j)"

definition picked_names :: "(string \<times> json) list \<Rightarrow> string" where
  "picked_names opts = or_str (join_comma (filter (\<lambda>k. truthy (jget opts k)) [''location'', ''photo'', ''audio''])) ''nothing''"

definition checked :: "(string \<times> json) list \<Rightarrow> string \<Rightarrow> string" where
  "checked opts name = (if truthy (jget opts name) then '' checked'' else [])"

definition selected :: "int \<Rightarrow> int \<Rightarrow> string" where
  "selected interval v = (if interval = v then '' selected'' else [])"

definition armed_status ::
  "string \<Rightarrow> (string \<times> json) list \<Rightarrow> int \<Rightarrow> string" where
  "armed_status did opts interval =
     (let ka = (if truthy (jget opts ''keepawake'') then '' + keep-awake'' else []) in
     ''<div class=\"flash error\" style=\"margin:0\">\<newline>'' @
     ''      <strong>'' @ utf8 [0xF0, 0x9F, 0x9B, 0xA1] @ '' ARMED</strong> '' @ utf8 [0xE2, 0x80, 0x94] @ '' capturing '' @ escape (picked_names opts) @ escape ka @ ''\<newline>'' @
     ''      every '' @ int_str (if interval div 60 = 0 then 1 else interval div 60) @ '' min'' @ (if interval div 60 \<noteq> 1 then ''s'' else []) @ ''\<newline>'' @
     ''      while online.\<newline>'' @
     ''    </div>\<newline>'' @
     ''    <form method=\"post\" action=\"/devices/'' @ escape did @ ''/theft/disarm\"\<newline>'' @
     ''          style=\"margin-top:1rem\">\<newline>'' @
     ''      <button class=\"btn btn-primary\" type=\"submit\">Disarm</button>\<newline>'' @
     ''    </form>'')"

definition arming_form ::
  "string \<Rightarrow> (string \<times> json) list \<Rightarrow> int \<Rightarrow> int \<Rightarrow> string \<Rightarrow> string" where
  "arming_form did opts interval aud_secs cam_id =
     ''<div class=\"flash info\" style=\"margin:0\">\<newline>'' @
     ''      Theft Mode is <strong>off</strong>. Arm it to auto-capture on a\<newline>'' @
     ''      schedule, or use the on-demand actions below.\<newline>'' @
     ''    </div>\<newline>'' @
     ''    <form method=\"post\" action=\"/devices/'' @ escape did @ ''/theft/arm\"\<newline>'' @
     ''          style=\"margin-top:1rem\">\<newline>'' @
     ''      <label style=\"flex-direction:row;align-items:center;gap:.5rem;text-transform:none\">\<newline>'' @
     ''        <input type=\"checkbox\" name=\"location\" value=\"1\"'' @ checked opts ''location'' @ ''\<newline>'' @
     ''               style=\"width:auto\"> Location\<newline>'' @
     ''      </label>\<newline>'' @
     ''      <label style=\"flex-direction:row;align-items:center;gap:.5rem;text-transform:none\">\<newline>'' @
     ''        <input type=\"checkbox\" name=\"photo\" value=\"1\"'' @ checked opts ''photo'' @ ''\<newline>'' @
     ''               style=\"width:auto\"> Discreet photo\<newline>'' @
     ''      </label>\<newline>'' @
     ''      <label style=\"flex-direction:row;align-items:center;gap:.5rem;text-transform:none\">\<newline>'' @
     ''        <input type=\"checkbox\" name=\"audio\" value=\"1\"'' @ checked opts ''audio'' @ ''\<newline>'' @
     ''               style=\"width:auto\"> Audio clip\<newline>'' @
     ''      </label>\<newline>'' @
     ''      <label style=\"flex-direction:row;align-items:center;gap:.5rem;text-transform:none\">\<newline>'' @
     ''        <input type=\"checkbox\" name=\"keepawake\" value=\"1\"'' @ checked opts ''keepawake'' @ ''\<newline>'' @
     ''               style=\"width:auto\"> Best-effort keep-awake\<newline>'' @
     ''      </label>\<newline>'' @
     ''      <label>Interval\<newline>'' @
     ''        <select name=\"interval\">\<newline>'' @
     ''          <option value=\"60\"'' @ selected interval 60 @ ''>every 1 min</option>\<newline>'' @
     ''          <option value=\"300\"'' @ selected interval 300 @ ''>every 5 min</option>\<newline>'' @
     ''          <option value=\"900\"'' @ selected interval 900 @ ''>every 15 min</option>\<newline>'' @
     ''          <option value=\"1800\"'' @ selected interval 1800 @ ''>every 30 min</option>\<newline>'' @
     ''          <option value=\"3600\"'' @ selected interval 3600 @ ''>every 1 hour</option>\<newline>'' @
     ''        </select>\<newline>'' @
     ''      </label>\<newline>'' @
     ''      <label>Audio length (seconds)\<newline>'' @
     ''        <input type=\"number\" name=\"audio_seconds\" value=\"'' @ int_str aud_secs @ ''\"\<newline>'' @
     ''               min=\"1\" max=\"120\">\<newline>'' @
     ''      </label>\<newline>'' @
     ''      <label>Camera id (0 = back, 1 = front)\<newline>'' @
     ''        <input name=\"camera_id\" value=\"'' @ cam_id @ ''\" maxlength=\"2\">\<newline>'' @
     ''      </label>\<newline>'' @
     ''      <label style=\"flex-direction:row;align-items:flex-start;gap:.5rem;text-transform:none;color:var(--text)\">\<newline>'' @
     ''        <input type=\"checkbox\" name=\"attest\" value=\"1\" required\<newline>'' @
     ''               style=\"width:auto;margin-top:.2rem\">\<newline>'' @
     ''        I confirm I own this device or am legally authorised to monitor\<newline>'' @
     ''        it, and accept that covert recording is regulated in many places.\<newline>'' @
     ''      </label>\<newline>'' @
     ''      <button class=\"btn btn-primary\" type=\"submit\"\<newline>'' @
     ''              style=\"align-self:flex-start\">Arm Theft Mode</button>\<newline>'' @
     ''    </form>''"

definition theft_body ::
  "device_info \<Rightarrow> bool \<Rightarrow> string \<Rightarrow> int \<Rightarrow> string \<Rightarrow> int \<Rightarrow> string" where
  "theft_body d online status_html aud_secs gallery newest =
     ''\<newline>'' @
     ''<div class=\"section-head\" style=\"align-items:center\">\<newline>'' @
     ''  <h2>// '' @ escape (di_name d) @ '' '' @ [CHR 0xB7] @ '' Theft Mode</h2>\<newline>'' @
     ''  <span class=\"badge '' @ (if online then ''online'' else ''offline'') @ ''\">'' @ (if online then ''Online'' else ''Offline'') @ ''</span>\<newline>'' @
     ''  <a class=\"btn btn-small\" href=\"/devices/'' @ escape (di_id d) @ ''\" style=\"margin-left:auto\">'' @ utf8 [0xE2, 0x86, 0x90] @ '' Manage</a>\<newline>'' @
     ''</div>\<newline>'' @
     ''\<newline>'' @
     ''<div class=\"card\" style=\"max-width:620px\">\<newline>'' @
     ''  '' @ status_html @ ''\<newline>'' @
     ''</div>\<newline>'' @
     ''\<newline>'' @
     ''<div class=\"card\" style=\"max-width:620px;margin-top:1.25rem\">\<newline>'' @
     ''  <h3 style=\"margin:0 0 .75rem;color:var(--cyan)\">On-demand</h3>\<newline>'' @
     ''  <div class=\"actions\" style=\"flex-wrap:wrap\">\<newline>'' @
     ''    <button class=\"btn\" data-cap=\"location\">'' @ utf8 [0xF0, 0x9F, 0x93, 0x8D] @ '' Locate now</button>\<newline>'' @
     ''    <button class=\"btn\" data-cap=\"photo\">'' @ utf8 [0xF0, 0x9F, 0x93, 0xB7] @ '' Photo now</button>\<newline>'' @
     ''    <button class=\"btn\" data-cap=\"audio\">'' @ utf8 [0xF0, 0x9F, 0x8E, 0x99] @ '' Record\<newline>'' @
     ''      <input id=\"cap-secs\" type=\"number\" value=\"'' @ int_str aud_secs @ ''\" min=\"1\" max=\"120\"\<newline>'' @
     ''             onclick=\"event.stopPropagation()\"\<newline>'' @
     ''             style=\"width:3.4rem;padding:.2rem .3rem;margin-left:.3rem\"> s\<newline>'' @
     ''    </button>\<newline>'' @
     ''  </div>\<newline>'' @
     ''  <div id=\"cap-status\" class=\"flash info\" style=\"display:none;margin:.75rem 0 0\"></div>\<newline>'' @
     ''  <p style=\"color:var(--muted);font-size:.72rem;margin:.75rem 0 0\">\<newline>'' @
     ''    Needs <code>termux-api</code> + the Termux:API app, with Camera /\<newline>'' @
     ''    Microphone / Location granted. Android 12+ shows a privacy dot\<newline>'' @
     ''    while the camera/mic is active '' @ utf8 [0xE2, 0x80, 0x94] @ '' truly invisible capture isn't\<newline>'' @
     ''    possible on stock Android. '' @ utf8 [0xE2, 0x80, 0x9C] @ ''Keep-awake'' @ utf8 [0xE2, 0x80, 0x9D] @ '' is a CPU wake-lock only; it\<newline>'' @
     ''    can'' @ utf8 [0xE2, 0x80, 0x99] @ ''t block the lock screen or a hardware power-off.\<newline>'' @
     ''  </p>\<newline>'' @
     ''</div>\<newline>'' @
     ''\<newline>'' @
     ''<div class=\"section-head\" style=\"margin-top:1.5rem\">\<newline>'' @
     ''  <h2>// Captures</h2>\<newline>'' @
     ''  <span style=\"color:var(--muted);font-size:.75rem\">saved to your account</span>\<newline>'' @
     ''</div>\<newline>'' @
     gallery @ ''\<newline>'' @
     ''\<newline>'' @
     ''<style>\<newline>'' @
     ''.tm-grid { display:grid; gap:1rem;\<newline>'' @
     ''  grid-template-columns:repeat(auto-fill,minmax(220px,1fr)); }\<newline>'' @
     ''.tm-card { background:var(--surface); border:1px solid var(--border);\<newline>'' @
     ''  border-radius:10px; overflow:hidden; }\<newline>'' @
     ''.tm-body { display:flex; align-items:center; justify-content:center;\<newline>'' @
     ''  min-height:140px; background:var(--surface-2); }\<newline>'' @
     ''.tm-body img { width:100%; height:auto; display:block; }\<newline>'' @
     ''.tm-body audio { width:100%; padding:.6rem; }\<newline>'' @
     ''.tm-body .loc { padding:1rem; font-size:.82rem; text-align:center;\<newline>'' @
     ''  font-family:ui-monospace,Menlo,Consolas,monospace; }\<newline>'' @
     ''.tm-meta { display:flex; align-items:center; gap:.5rem;\<newline>'' @
     ''  padding:.5rem .7rem; font-size:.68rem; text-transform:uppercase;\<newline>'' @
     ''  letter-spacing:.06em; color:var(--muted); }\<newline>'' @
     ''.tm-meta .kind { color:var(--cyan); }\<newline>'' @
     ''.tm-meta .status { color:var(--purple); }\<newline>'' @
     ''.icon-btn.danger { background:none; border:none; color:var(--danger);\<newline>'' @
     ''  cursor:pointer; font-size:.9rem; }\<newline>'' @
     ''</style>\<newline>'' @
     ''<script>\<newline>'' @
     ''(function() {\<newline>'' @
     ''  const DID = '' @ json_dumps_for_html (di_id d) @ '';\<newline>'' @
     ''  let newest = '' @ int_str newest @ '';\<newline>'' @
     ''  const statusEl = document.getElementById('cap-status');\<newline>'' @
     ''\<newline>'' @
     ''  function setStatus(msg, cls) {\<newline>'' @
     ''    statusEl.style.display = 'block';\<newline>'' @
     ''    statusEl.className = 'flash ' + (cls || 'info');\<newline>'' @
     ''    statusEl.textContent = msg;\<newline>'' @
     ''  }\<newline>'' @
     ''\<newline>'' @
     ''  async function capture(kind) {\<newline>'' @
     ''    const body = new URLSearchParams();\<newline>'' @
     ''    body.set('kind', kind);\<newline>'' @
     ''    if (kind === 'audio') {\<newline>'' @
     ''      const s = parseInt(document.getElementById('cap-secs').value || '15', 10);\<newline>'' @
     ''      body.set('duration', String(s));\<newline>'' @
     ''    }\<newline>'' @
     ''    setStatus('Capturing ' + kind + '' @ [CHR 0x27] @ utf8 [0xE2, 0x80, 0xA6] @ '' (device must be online)', 'info');\<newline>'' @
     ''    try {\<newline>'' @
     ''      const r = await fetch(`/devices/${encodeURIComponent(DID)}/theft/capture`, {\<newline>'' @
     ''        method: 'POST',\<newline>'' @
     ''        headers: {'Content-Type': 'application/x-www-form-urlencoded'},\<newline>'' @
     ''        body: body.toString(),\<newline>'' @
     ''      });\<newline>'' @
     ''      if (r.ok) {\<newline>'' @
     ''        setStatus(kind + ' captured '' @ utf8 [0xE2, 0x9C, 0x93] @ '' '' @ utf8 [0xE2, 0x80, 0x94] @ '' refreshing'' @ utf8 [0xE2, 0x80, 0xA6] @ [CHR 0x27] @ '', 'success');\<newline>'' @
     ''        setTimeout(() => location.reload(), 900);\<newline>'' @
     ''      } else {\<newline>'' @
     ''        let d = 'HTTP ' + r.status;\<newline>'' @
     ''        try { d = (await r.json()).detail || d; } catch (_) {}\<newline>'' @
     ''        setStatus(kind + ' failed: ' + d, 'error');\<newline>'' @
     ''      }\<newline>'' @
     ''    } catch (e) { setStatus('error: ' + e.message, 'error'); }\<newline>'' @
     ''  }\<newline>'' @
     ''\<newline>'' @
     ''  document.querySelectorAll('[data-cap]').forEach(b =>\<newline>'' @
     ''    b.addEventListener('click', () => capture(b.dataset.cap)));\<newline>'' @
     ''\<newline>'' @
     ''  // Live refresh: reload when a new capture lands (armed loop or another tab).\<newline>'' @
     ''  setInterval(async () => {\<newline>'' @
     ''    try {\<newline>'' @
     ''      const r = await fetch(`/devices/${encodeURIComponent(DID)}/theft/media`,\<newline>'' @
     ''                            {cache: 'no-store'});\<newline>'' @
     ''      if (!r.ok) return;\<newline>'' @
     ''      const j = await r.json();\<newline>'' @
     ''      const top = (j.media && j.media[0]) ? j.media[0].id : 0;\<newline>'' @
     ''      if (top !== newest) { newest = top; location.reload(); }\<newline>'' @
     ''    } catch (e) {}\<newline>'' @
     ''  }, 8000);\<newline>'' @
     ''})();\<newline>'' @
     ''</script>''"

definition theft_page ::
  "site \<Rightarrow> printing \<Rightarrow> user_info \<Rightarrow> device_info \<Rightarrow> theft_row option \<Rightarrow> media_row list \<Rightarrow> bool \<Rightarrow> exn + string" where
  "theft_page S P user d st media online =
     (case armed_opts P st of
        JObj opts \<Rightarrow>
          (let armed = (case st of None \<Rightarrow> False | Some t \<Rightarrow> t_armed t \<noteq> 0);
               interval = or_int (map_option t_interval_s st) 300;
               cam_id = escape (py_str (pr_str P) (jor (jget opts ''camera_id'') (JStr ''0''))) in
           case jint (jor (jget opts ''audio_seconds'') (JInt 15)) of Inl e \<Rightarrow> Inl e | Inr aud_secs \<Rightarrow>
           case mapE (theft_media_card P (st_now S) [] (di_id d)) media of Inl e \<Rightarrow> Inl e | Inr cards \<Rightarrow>
             Inr (Pages.page S (''Theft '' @ utf8 [0xE2, 0x80, 0x94] @ '' '' @ di_name d) (theft_body d online
               (if armed then armed_status (di_id d) opts interval else arming_form (di_id d) opts interval aud_secs cam_id)
               aud_secs (fleet_feed (concat cards)) (newest_id media)) (Some user) ''/'' True))
      | _ \<Rightarrow> Inl AttributeError)"

section \<open>The handlers\<close>

definition theft_dashboard ::
  "site \<Rightarrow> printing \<Rightarrow> params \<Rightarrow> capture_env \<Rightarrow> int \<Rightarrow> request \<Rightarrow> (hub, string) op" where
  "theft_dashboard S P X E now rq = as_user X now rq (\<lambda>u.
     bindE (theft_dashboard_data X E (pr_float P) now (ui_id u)) (\<lambda>(rows, map_pts, media, armed, online).
       liftE (theft_dashboard_page S P u rows media map_pts)))"

definition audit_view :: "site \<Rightarrow> params \<Rightarrow> int \<Rightarrow> request \<Rightarrow> (hub, string) op" where
  "audit_view S X now rq = as_user X now rq (\<lambda>u.
     bindE (on_db (list_audit (ui_id u) 200)) (\<lambda>events. ret (audit_page S u events)))"
section \<open>No text makes a tag\<close>

definition blank_media :: "media_row \<Rightarrow> media_row" where
  "blank_media m = m\<lparr>m_trigger := None\<rparr>"

definition blank_row :: "fleet_row \<Rightarrow> fleet_row" where
  "blank_row r = r\<lparr>fr_name := blank (fr_name r), fr_elsewhere := map_option blank (fr_elsewhere r)\<rparr>"

definition blank_point :: "map_point \<Rightarrow> map_point" where
  "blank_point p = (case p of (did, name, pos) \<Rightarrow> ([], [], pos))"

lemma blank_media_simps [simp]:
  "m_id (blank_media m) = m_id m" "m_kind (blank_media m) = m_kind m" "m_meta (blank_media m) = m_meta m"
  "m_created_at (blank_media m) = m_created_at m" "m_device_id (blank_media m) = m_device_id m"
  "m_trigger (blank_media m) = None"
  by (simp_all add: blank_media_def)

lemma blank_row_simps [simp]:
  "fr_id (blank_row r) = fr_id r" "fr_name (blank_row r) = blank (fr_name r)" "fr_online (blank_row r) = fr_online r"
  "fr_elsewhere (blank_row r) = map_option blank (fr_elsewhere r)" "fr_armed (blank_row r) = fr_armed r"
  "fr_interval (blank_row r) = fr_interval r" "fr_opts (blank_row r) = fr_opts r"
  "fr_last_capture (blank_row r) = fr_last_capture r" "fr_loc (blank_row r) = fr_loc r"
  by (simp_all add: blank_row_def)

lemma markup_replicate_digit: "markup (replicate n (CHR ''0'')) = []"
  by (rule markup_none) auto

lemma float_signs: "markup ''-'' = []" "markup ''.'' = []"
  by (simp_all add: markup_def)

lemma markup_float_places [inert]: "markup (float_places n q) = []"
  by (simp only: float_places_def card_markup float_signs markup_replicate_digit)

lemma markup_media_url [inert]: "markup (media_url did mid) = []"
proof -
  have "markup ''/devices/'' = []" "markup ''/theft/media/'' = []" by (simp_all add: markup_def)
  then show ?thesis by (simp only: media_url_def card_markup)
qed

text \<open>A result up to the markup, or the tags, of its text.\<close>

abbreviation markups :: "exn + string \<Rightarrow> exn + string" where
  "markups r \<equiv> map_sum id markup r"

lemma markups_media_inner: "markups (media_inner P did m) = markups (media_inner P did' (blank_media m))"
proof -
  have "card_meta P (blank_media m) = card_meta P m" by (simp add: card_meta_def)
  then show ?thesis by (simp only: media_inner_def Let_def blank_media_simps if_distrib [where f = markups] map_sum.simps id_apply
      markup_append markup_media_url)
qed

lemma results_then:
  assumes "map_sum id F r = map_sum id F r'"
    and "\<And>x y. r = Inr x \<Longrightarrow> r' = Inr y \<Longrightarrow> F x = F y \<Longrightarrow> map_sum id G (f x) = map_sum id G (g y)"
  shows "map_sum id G (case r of Inl e \<Rightarrow> Inl e | Inr x \<Rightarrow> f x) = map_sum id G (case r' of Inl e \<Rightarrow> Inl e | Inr x \<Rightarrow> g x)"
  using assms by (cases r; cases r') auto

lemma markups_card: "markups (theft_media_card P now label did m) = markups (theft_media_card P now (blank label) did' (blank_media m))"
  by (simp only: theft_media_card_def, rule results_then, rule markups_media_inner)
    (simp only: map_sum.simps card_markup blank_media_simps blank_iff cong: if_cong)

lemma markups_cards:
  "map_sum id (\<lambda>ss. markup (concat ss)) (mapE f xs) = map_sum id (\<lambda>ss. markup (concat ss)) (mapE g (map b xs))" 
  if "\<And>x. x \<in> set xs \<Longrightarrow> markups (f x) = markups (g (b x))"
  using that
proof (induction xs)
  case (Cons x xs)
  have "markups (f x) = markups (g (b x))" by (rule Cons.prems) simp
  then show ?case using Cons by (cases "f x"; cases "g (b x)"; cases "mapE f xs"; cases "mapE g (map b xs)") auto
qed simp

lemma markups_fleet_line: "markups (fleet_line P now r) = markups (fleet_line P now (blank_row r))"
proof -
  have "armed_badge (blank_row r) = armed_badge r" by (simp only: armed_badge_def blank_row_simps cong: sum.case_cong)
  moreover have "markup (conn_badge on e) = markup (conn_badge on (map_option blank e))" for on e
    by (simp only: conn_badge_def card_markup opt_str_blank)
  ultimately show ?thesis
    by (simp only: fleet_line_def blank_row_simps, intro results_then refl) 
      (simp only: map_sum.simps card_markup blank_row_simps)
qed

lemma tags_points_json: "tags (points_json P ps) = []"
  using for_html_safe [of "''['' @ join_comma (map (point_json P) ps) @ '']''"]
  by (auto simp: points_json_def tags_def markup_def filter_empty_conv)

lemma newest_blank: "newest_point (blank_point p) (map blank_point ps) = blank_point (newest_point p ps)"
proof (induction ps arbitrary: p)
  case (Cons q ps)
  have "snd (snd (snd (snd (blank_point p)))) = snd (snd (snd (snd p)))" for p by (simp add: blank_point_def split: prod.split)
  then show ?case by (simp add: Cons [symmetric])
qed simp

lemma markup_pin_button: "markup (pin_button (i, p)) = markup (pin_button (i, blank_point p))"
  by (cases p) (simp only: pin_button_def blank_point_def prod.case card_markup)

lemma markup_pins: "markup (concat (map pin_button (enumerate n ps))) = markup (concat (map pin_button (enumerate n (map blank_point ps))))"
  by (induction ps arbitrary: n) (simp_all only: enumerate_simps list.map concat.simps markup_append, metis markup_pin_button)

lemma markup_fleet_map: "markup (fleet_map P ps) = markup (fleet_map P (map blank_point ps))"
proof (cases ps)
  case (Cons p qs)
  have "map_src P (blank_point q) = map_src P q" for q by (simp add: map_src_def blank_point_def split: prod.split)
  then show ?thesis
    unfolding fleet_map_def Cons list.map list.case newest_blank Let_def
    by (simp only: card_markup markup_pins [of 0 "p # qs"] list.map)
qed simp

lemma mapE_Inr: "mapE f xs = Inr ys \<Longrightarrow> list_all2 (\<lambda>x y. f x = Inr y) xs ys"
  by (induction xs arbitrary: ys) (auto split: sum.splits)

lemma card_text: "theft_media_card P now label did m = Inr c \<Longrightarrow> c \<noteq> []"
  by (auto simp: theft_media_card_def split: sum.splits)

lemma no_cards:
  assumes "mapE f ms = Inr cards" and "\<And>m c. f m = Inr c \<Longrightarrow> c \<noteq> []"
  shows "concat cards = [] \<longleftrightarrow> ms = []"
  using mapE_Inr [OF assms(1)] assms(2) by (cases ms; cases cards) auto

lemma markup_feed:
  assumes "markup s = markup t" and "s = [] \<longleftrightarrow> t = []"
  shows "markup (fleet_feed s) = markup (fleet_feed t)"
  using assms by (simp only: fleet_feed_def card_markup)

lemma label_blank:
  "opt_str (map_of (rev (map (\<lambda>r. (fr_id r, fr_name r)) (map blank_row rows))) k) =
    blank (opt_str (map_of (rev (map (\<lambda>r. (fr_id r, fr_name r)) rows)) k))"
proof -
  have "map_of (map (\<lambda>r. (fr_id r, fr_name r)) (map blank_row rows)) k =
      map_option blank (map_of (map (\<lambda>r. (fr_id r, fr_name r)) rows) k)" for rows
    by (induction rows) auto
  from this [of "rev rows"] show ?thesis
    by (simp add: rev_map) (simp add: opt_str_def blank_def split: option.split)
qed

text \<open>The captures of a page, and whether it shows any.\<close>

lemma feeds_alike:
  assumes "mapE f ms = Inr cs" and "mapE g (map b ms) = Inr ds" and "markup (concat cs) = markup (concat ds)"
    and "\<And>m c. f m = Inr c \<Longrightarrow> c \<noteq> []" and "\<And>m c. g m = Inr c \<Longrightarrow> c \<noteq> []"
  shows "markup (fleet_feed (concat cs)) = markup (fleet_feed (concat ds))"
proof (rule markup_feed [OF assms(3)])
  have "concat cs = [] \<longleftrightarrow> ms = []" by (rule no_cards [OF assms(1,4)])
  also have "\<dots> \<longleftrightarrow> concat ds = []" using no_cards [OF assms(2,5)] by simp
  finally show "concat cs = [] \<longleftrightarrow> concat ds = []" .
qed

lemma mapE_Nil: "mapE f xs = Inr ys \<Longrightarrow> ys = [] \<longleftrightarrow> xs = []"
  by (drule mapE_Inr) auto

lemma tags_theft_dashboard_page:
  "map_sum id tags (theft_dashboard_page S P u rows media points) =
    map_sum id tags (theft_dashboard_page S P (blank_user u) (map blank_row rows) (map blank_media media) (map blank_point points))"
proof -
  let ?name = "\<lambda>rows k. opt_str (map_of (rev (map (\<lambda>r. (fr_id r, fr_name r)) rows)) k)"
  let ?card = "\<lambda>rows m. theft_media_card P (st_now S) (?name rows (m_device_id m)) (m_device_id m) m"
  have lines: "map_sum id (\<lambda>ss. markup (concat ss)) (mapE (fleet_line P (st_now S)) rows) =
      map_sum id (\<lambda>ss. markup (concat ss)) (mapE (fleet_line P (st_now S)) (map blank_row rows))"
    by (rule markups_cards) (rule markups_fleet_line)
  have cards: "map_sum id (\<lambda>ss. markup (concat ss)) (mapE (?card rows) media) =
      map_sum id (\<lambda>ss. markup (concat ss)) (mapE (?card (map blank_row rows)) (map blank_media media))"
    by (rule markups_cards) (simp only: label_blank blank_media_simps, rule markups_card)
  have same: "length (filter fr_armed (map blank_row rows)) = length (filter fr_armed rows)"
    "newest_id (map blank_media media) = newest_id media"
    by (simp_all add: filter_map o_def newest_id_def split: list.split)
  show ?thesis
    unfolding theft_dashboard_page_def Let_def
  proof (rule results_then [OF lines], rule results_then [OF cards], goal_cases)
    case (1 trs trs' cs cs')
    have "markup (fleet_feed (concat cs)) = markup (fleet_feed (concat cs'))"
      by (rule feeds_alike [OF 1(4,5,6)]) (erule card_text)+
    note alike = this [THEN tags_markup] 1(3) [THEN tags_markup] markup_fleet_map [of P points, THEN tags_markup]
    show ?case
      using mapE_Nil [OF 1(1)] mapE_Nil [OF 1(2)]
      by (simp only: map_sum.simps id_apply, intro arg_cong [where f = Inr] tags_page)
        (simp only: tags_append tags_points_json inert [THEN tags_inert] same length_map alike
          if_distrib [where f = tags] map_is_Nil)
  qed
qed

lemma markup_armed_status: "markup (armed_status did opts i) = markup (armed_status did' opts i)"
  by (simp only: armed_status_def card_markup)

lemma markup_arming_form: "markup (arming_form did opts i a (escape cam)) = markup (arming_form did' opts i a (escape cam'))"
  by (simp only: arming_form_def card_markup)

lemma tags_theft_body:
  assumes "markup status = markup status'" and "markup feed = markup feed'"
  shows "tags (theft_body d on status a feed n) = tags (theft_body (blank_device d) on status' a feed' n)"
  by (simp only: theft_body_def tags_append tags_json inert [THEN tags_inert] assms [THEN tags_markup] if_distrib [where f = tags])

lemma tags_theft_page:
  "map_sum id tags (theft_page S P u d st media on) =
    map_sum id tags (theft_page S P (blank_user u) (blank_device d) st (map blank_media media) on)"
proof (cases "armed_opts P st")
  case (JObj opts)
  have cards: "map_sum id (\<lambda>ss. markup (concat ss)) (mapE (theft_media_card P (st_now S) [] (di_id d)) media) =
      map_sum id (\<lambda>ss. markup (concat ss)) (mapE (theft_media_card P (st_now S) [] (di_id (blank_device d))) (map blank_media media))"
    using markups_card [of P "st_now S" "[]"] by (intro markups_cards) (simp add: blank_def)
  have newest: "newest_id (map blank_media media) = newest_id media" by (simp add: newest_id_def split: list.split)
  show ?thesis
    unfolding theft_page_def JObj json.case Let_def
  proof (rule results_then [where F = "\<lambda>a. a", OF refl], rule results_then [OF cards], goal_cases)
    case (1 a a' cs cs')
    have "markup (fleet_feed (concat cs)) = markup (fleet_feed (concat cs'))"
      by (rule feeds_alike [OF 1(4,5,6)]) (erule card_text)+
    with 1(3) show ?case
      unfolding map_sum.simps id_apply newest
      by (auto intro!: arg_cong [where f = Inr] tags_page tags_theft_body intro: markup_armed_status markup_arming_form)
  qed
qed (simp_all add: theft_page_def)


end
