(* ===== verification/HubViews.thy ===== *)
theory HubViews
  imports PagesTheft HubFiles HubSetup
begin

text \<open>
  What a browser is shown: the handlers of \<^verbatim>\<open>hub/app.py\<close> with the pages of \<^verbatim>\<open>hub/templates.py\<close> they
  answer with. The entries of a listing come from a device and are read from its JSON. The lemmas say
  that a listing is the directory of the device, each of its links leading to the file it names, and what
  one request does to the address of the node.
\<close>

section \<open>Pages of an account\<close>

definition dashboard_view :: "site \<Rightarrow> params \<Rightarrow> int \<Rightarrow> request \<Rightarrow> string \<Rightarrow> (hub, string) op" where
  "dashboard_view S X now rq selfreg = as_user X now rq (\<lambda>u.
     bindE (on_db (list_devices (ui_id u))) (\<lambda>devs.
     bindE (asks online_ids) (\<lambda>online.
     bindE (elsewhere_map X now (ui_id u) online) (\<lambda>elsewhere.
       ret (dashboard_page S u devs online (selfreg \<noteq> []) elsewhere)))))"

definition pair_get :: "site \<Rightarrow> params \<Rightarrow> int \<Rightarrow> request \<Rightarrow> (hub, string) op" where
  "pair_get S X now rq = as_user X now rq (\<lambda>u. ret (pair_start_page S u))"

text \<open>Where the agent beside the hub keeps its credentials, as the page shows it.\<close>

definition agent_config_path :: "(string \<Rightarrow> string option) \<Rightarrow> string \<Rightarrow> string" where
  "agent_config_path env home = or_str (opt_str (env ''VORTEX_AGENT_CONFIG'')) (home @ ''/.vortex_agent/config.json'')"

definition self_register_get ::
  "site \<Rightarrow> params \<Rightarrow> int \<Rightarrow> platform \<Rightarrow> (string \<Rightarrow> string option) \<Rightarrow> string \<Rightarrow> request \<Rightarrow> (hub, string) op" where
  "self_register_get S X now pf env home rq = as_user X now rq (\<lambda>u.
     ret (self_register_page S u (or_str (pf_node pf) ''This device'') (host_characteristics pf) (agent_config_path env home)))"

definition enroll_tokens_view :: "site \<Rightarrow> params \<Rightarrow> int \<Rightarrow> request \<Rightarrow> (hub, string) op" where
  "enroll_tokens_view S X now rq = as_user X now rq (\<lambda>u.
     bindE (on_db (list_account_tokens (ui_id u))) (\<lambda>ts.
     bindE (hub_public_url X rq) (\<lambda>url. ret (enroll_tokens_page S u ts url))))"

definition device_view :: "site \<Rightarrow> params \<Rightarrow> int \<Rightarrow> request \<Rightarrow> string \<Rightarrow> (hub, string) op" where
  "device_view S X now rq device_id = own_device X now rq device_id (\<lambda>u d.
     bindE (asks online_ids) (\<lambda>online. ret (device_manage_page S u d (device_id \<in> online))))"

definition camera_view :: "site \<Rightarrow> params \<Rightarrow> int \<Rightarrow> request \<Rightarrow> string \<Rightarrow> (hub, string) op" where
  "camera_view S X now rq device_id = own_device X now rq device_id (\<lambda>u d. ret (device_camera_page S u d))"

definition screen_view :: "site \<Rightarrow> params \<Rightarrow> int \<Rightarrow> request \<Rightarrow> string \<Rightarrow> (hub, string) op" where
  "screen_view S X now rq device_id = own_device X now rq device_id (\<lambda>u d. ret (device_screen_page S u d))"

text \<open>Two answers that ask nobody: that the hub is up, and the address of a listing without its slash.\<close>

definition health :: json where
  "health = JObj [(''status'', JStr ''up''), (''version'', JStr hub_version)]"

definition device_files_no_slash :: "string \<Rightarrow> response" where
  "device_files_no_slash device_id = (redirect (''/devices/'' @ device_id @ ''/files/''))\<lparr>rs_status := 307\<rparr>"

section \<open>The listing of a device\<close>

text \<open>
  An entry as the page reads it from the device's JSON, with the print of a float as an argument. The name
  has to be a text, the size a number; a size is not looked at for a directory.
\<close>

definition size_text :: "(rat \<Rightarrow> string) \<Rightarrow> json \<Rightarrow> exn + string" where
  "size_text FC v = (case v of
     JInt n \<Rightarrow> Inr (with_commas n)
   | JBool b \<Rightarrow> Inr (if b then ''1'' else ''0'')
   | JFloat q \<Rightarrow> Inr (FC q)
   | JStr s \<Rightarrow> Inl (ValueError ''Cannot specify ',' with 's'.'')
   | _ \<Rightarrow> Inl TypeError)"

definition entry_of :: "(rat \<Rightarrow> string) \<Rightarrow> json \<Rightarrow> exn + entry" where
  "entry_of FC j = (case j of
     JObj kvs \<Rightarrow> (case map_of kvs ''name'' of
         None \<Rightarrow> Inl KeyError
       | Some (JStr name) \<Rightarrow>
           (let dir = truthy (jget kvs ''is_dir'');
                new = (\<lambda>sz. \<lparr>ls_name = name, ls_dir = dir, ls_size = sz, ls_image = truthy (jget kvs ''is_image'')\<rparr>) in
            if dir \<or> jget kvs ''size'' = JNull then Inr (new None)
            else case size_text FC (jget kvs ''size'') of Inl e \<Rightarrow> Inl e | Inr t \<Rightarrow> Inr (new (Some t)))
       | Some _ \<Rightarrow> Inl TypeError)
   | _ \<Rightarrow> Inl AttributeError)"

definition entries_of :: "(rat \<Rightarrow> string) \<Rightarrow> json \<Rightarrow> exn + entry list" where
  "entries_of FC j = bindS (jiter j) (mapE (entry_of FC))"

text \<open>A page with its status, or an answer that is none.\<close>

datatype view = Shown int string | Passed files_page

definition files_view ::
  "site \<Rightarrow> (rat \<Rightarrow> string) \<Rightarrow> params \<Rightarrow> int \<Rightarrow> remote \<Rightarrow> request \<Rightarrow> string \<Rightarrow> string \<Rightarrow> bool \<Rightarrow> (hub, view) op" where
  "files_view S FC X now R rq device_id rel hint = own_device X now rq device_id (\<lambda>u d.
     bindE (browse_device X now R device_id rel hint) (\<lambda>r. case r of
       FilesError code m \<Rightarrow> ret (Shown code (files_error_page S u d m))
     | Listing es \<Rightarrow> bindE (liftE (entries_of FC es)) (\<lambda>es. ret (Shown 200 (Pages.files_page S u d rel es)))
     | other \<Rightarrow> ret (Passed other)))"

section \<open>A listing is the directory\<close>

text \<open>The entry a page makes of a child of a directory.\<close>

definition listed :: "(string \<Rightarrow> string option) \<Rightarrow> string \<times> node \<Rightarrow> entry" where
  "listed MIME c = (case c of
     (name, Dir) \<Rightarrow> \<lparr>ls_name = name, ls_dir = True, ls_size = None, ls_image = False\<rparr>
   | (name, File bs) \<Rightarrow> \<lparr>ls_name = name, ls_dir = False, ls_size = Some (with_commas (int (length bs))),
       ls_image = startswith ''image/'' (opt_str (MIME name))\<rparr>)"

lemma entry_of_json: "entry_of FC (entry_json MIME c) = Inr (listed MIME c)"
  by (auto simp: entry_of_def entry_json_def listed_def jget_def size_text_def split: prod.split node.split)

lemma entries_of_json: "entries_of FC (JArr (map (entry_json MIME) cs)) = Inr (map (listed MIME) cs)"
  by (simp add: entries_of_def jiter_def mapE_map_arg entry_of_json mapE_map [where g = "listed MIME"])

text \<open>The link of a row and the text it shows, as a browser reads them.\<close>

definition row_name :: "entry \<Rightarrow> string" where
  "row_name e = ls_name e @ (if ls_dir e then ''/'' else [])"

definition row_link :: "entry \<Rightarrow> string" where
  "row_link e = quote (ls_name e) @ (if ls_dir e then ''/'' else [])"

lemma file_row_link:
  "\<exists>before after. file_row did prefix e =
    before @ ''<a href=\"'' @ row_link e @ ''\">'' @ escape (row_name e) @ ''</a><span class=\"size\">'' @ after"
proof -
  obtain thumb size where "file_row did prefix e = ''<li>'' @ thumb @ ''<a href=\"'' @ row_link e @ ''\">'' @
      escape (row_name e) @ ''</a><span class=\"size\">'' @ size @ ''</span></li>''"
    unfolding file_row_def row_link_def row_name_def Let_def by blast
  then show ?thesis
    by (intro exI [of _ "''<li>'' @ thumb"] exI [of _ "size @ ''</span></li>''"]) (simp only: append_assoc)
qed

lemma row_link_reads:
  "percent_decode (row_link (listed MIME (name, n))) = encode (name @ (if n = Dir then ''/'' else [])) \<and>
   unescape (escape (row_name (listed MIME (name, n)))) = name @ (if n = Dir then ''/'' else [])"
proof -
  have "percent_decode (if d then ''/'' else []) = encode (if d then ''/'' else [])" for d by (simp add: encode_def)
  then show ?thesis
    using unescape_escape_append [of _ "[]"]
    by (auto simp: row_link_def row_name_def listed_def decode_quote encode_def split: node.split)
qed

text \<open>
  C24: a listing is the directory. For a device of the user that answers with the operations of the agent,
  the page of a directory is the listing of its children in the device's order, directories first; what
  is not there is a 404, what leads out of the storage root an error page, a file is passed on, and a
  directory without a slash at its end is sent to the address with one. In the row of a child, whatever
  its name, the link decodes to the name and the text shown is the name, with a slash for a directory.
\<close>

theorem listing_is_directory:
  assumes "fst (own_device X now rq d (\<lambda>u i. ret (u, i)) s) = Inr (u, i)" and "map_of (h_conns s) d = Some k"
    and "rm_call R k = device_call RES MIME base SH rid a c k" and "ss_out (ag_sess a) = []"
  shows "files_view S FC X now R rq d rel hint s = (case safe_resolve RES base (JStr rel) of
      Inl e \<Rightarrow> Inr (Shown 502 (files_error_page S u i (''Agent error: '' @ error_text e)))
    | Inr p \<Rightarrow> (case node_at (ag_fs a) p of
        None \<Rightarrow> Inl (HTTPException 404 ''Not found'')
      | Some Dir \<Rightarrow>
          if rel \<noteq> [] \<and> \<not> hint then Inr (Passed (AddSlash (''/devices/'' @ d @ ''/files/'' @ quote rel @ ''/'')))
          else Inr (Shown 200 (Pages.files_page S u i rel (map (listed MIME) (order_by entry_key (children (ag_fs a) p)))))
      | Some (File bs) \<Rightarrow> Inr (Passed (Download (JStr (or_str (opt_str (MIME (last p))) ''application/octet-stream''))
          (Some (nat_str (length bs))) (gen_body (rm_stream R k ''read_file'' [(''path'', JStr rel)]))))), s) \<and>
    (\<exists>before after. file_row did prefix (listed MIME (name, n)) = before @ ''<a href=\"'' @ row_link (listed MIME (name, n)) @
        ''\">'' @ escape (row_name (listed MIME (name, n))) @ ''</a><span class=\"size\">'' @ after) \<and>
    percent_decode (row_link (listed MIME (name, n))) = encode (name @ (if n = Dir then ''/'' else [])) \<and>
      unescape (escape (row_name (listed MIME (name, n)))) = name @ (if n = Dir then ''/'' else [])"
proof (intro conjI file_row_link row_link_reads [THEN conjunct1] row_link_reads [THEN conjunct2], goal_cases)
  case 1
  note browse = browse_shows_device [OF assms, unfolded browse_or_download_def own_device_run [OF assms(1)]]
  show ?case
    by (auto simp: files_view_def own_device_run [OF assms(1)] bindE_def browse entries_of_json
        split: sum.split option.split node.split)
qed

definition demo_site :: site where
  "demo_site = \<lparr>st_css = [], st_now = 150, st_qr = None, st_clock = int_str\<rparr>"

theorem listing_is_directory_witness:
  "\<exists>u i. fst (files_view demo_site (\<lambda>_. []) plain_params 150 demo_remote signed_request ''d1'' [] True signed_in) =
    Inr (Shown 200 (Pages.files_page demo_site u i [] [\<lparr>ls_name = ''old'', ls_dir = False, ls_size = Some ''2'', ls_image = False\<rparr>]))"
proof -
  obtain u i where u: "fst (own_device plain_params 150 signed_request ''d1'' (\<lambda>u i. ret (u, i)) signed_in) = Inr (u, i)"
    using signed_in_owner by blast
  have k: "map_of (h_conns signed_in) ''d1'' = Some 0" by (simp add: signed_in_def)
  have c: "rm_call demo_remote 0 = device_call (\<lambda>p. p) (\<lambda>_. None) [''home''] (\<lambda>_. []) ''r'' demo_agent (new_conn ''d1'' 1 ''phone'') 0"
    by (simp add: demo_remote_def)
  have o: "ss_out (ag_sess demo_agent) = []" by (simp add: demo_agent_def new_session_def)
  have s: "safe_resolve (\<lambda>p. p) [''home''] (JStr []) = Inr [''home'']" by code_simp
  have n: "node_at (ag_fs demo_agent) [''home''] = Some Dir"
    "map (listed (\<lambda>_. None)) (order_by entry_key (children (ag_fs demo_agent) [''home''])) =
      [\<lparr>ls_name = ''old'', ls_dir = False, ls_size = Some ''2'', ls_image = False\<rparr>]" by code_simp+
  from listing_is_directory [OF u k c o, of demo_site "\<lambda>_. []" "[]" True] show ?thesis by (auto simp: s n)
qed

section \<open>One request moves the node\<close>

text \<open>The database lists a node under the address, last seen then.\<close>

definition knows_node :: "string \<Rightarrow> int \<Rightarrow> hub \<Rightarrow> bool" where
  "knows_node url seen h \<longleftrightarrow> (\<exists>r \<in> set (node_endpoints (h_db h)). n_url r = url \<and> n_last_seen r = seen)"

lemma knows_node_db: "node_endpoints (snd (m (h_db h))) = node_endpoints (h_db h) \<Longrightarrow> knows_node url seen h \<Longrightarrow>
    knows_node url seen (snd (on_db m h))"
  by (simp add: knows_node_def on_db_apply)

lemma presence_keeps_nodes: "node_endpoints (snd (publish_device_presence d w now s)) = node_endpoints s"
  by (auto simp: publish_device_presence_def Let_def db_write_def constraint_def ret_def split: option.split if_split)

lemma publish_keeps: "preserves (knows_node url seen) (publish_all w now ds)"
proof (induction ds)
  case (Cons d ds)
  have "preserves (knows_node url seen) (on_db (publish_device_presence d w now))"
    by (intro preservesI knows_node_db presence_keeps_nodes)
  with Cons show ?case by (simp only: publish_all.simps) (intro pres preserves_thenE preserves_catch)
qed (simp only: publish_all.simps preserves_ret)

lemma authenticate_keeps: "snd (authenticate_device H d tok s) = s"
  by (auto simp: authenticate_device_def get_device_def bindE_def db_read_def ret_def split: option.splits)

lemma live_nodes_known:
  assumes "knows_node url seen h" and "now - seen \<le> 180" and "fst (live_node_urls X now rq h) = Inr urls"
  shows "url \<in> set urls"
proof -
  obtain r where r: "r \<in> set (node_endpoints (h_db h))" "n_url r = url" "n_last_seen r = seen"
    using assms(1) by (auto simp: knows_node_def)
  obtain ns h' where ns: "on_db (list_node_endpoints 180 now) h = (Inr ns, h')"
    using assms(3) by (cases "on_db (list_node_endpoints 180 now) h"; cases "fst (on_db (list_node_endpoints 180 now) h)")
      (auto simp: live_node_urls_def bindE_def)
  then have "r \<in> set ns"
    using r assms(2) by (auto simp: on_db_apply list_node_endpoints_def db_read_def select_where_def split: option.splits if_splits)
  then have "url \<in> n_url ` set ns" using r(2) by blast
  have moved: "w \<notin> set (remove1 v ws) \<Longrightarrow> w \<in> set ws \<Longrightarrow> w = v" for w v :: string and ws
    by (metis in_set_remove1)
  with assms(3) \<open>url \<in> n_url ` set ns\<close> show ?thesis
    by (auto simp: live_node_urls_def bindE_def ns ret_def Let_def split: prod.splits sum.splits option.splits if_splits dest!: moved)
qed

lemma upsert_new: "r \<in> set (upsert key r (\<lambda>_. r) t)"
  by (auto simp: set_upsert upsert_def has_key_def set_update_where)

lemma heartbeat_publishes:
  assumes "answers (h_db h)" and "resolve_public_url X h = Inr url" and "rstrip_slash (strip url) = url" and "url \<noteq> []"
  shows "knows_node url now (snd (heartbeat_round X v now h))"
proof -
  let ?new = "\<lparr>n_url = url, n_label = clean_label (Some (''v'' @ v)), n_last_seen = now\<rparr>"
  obtain t where pub: "on_db (publish_node_endpoint url (Some (''v'' @ v)) now) h = (Inr (), t)"
    and new: "node_endpoints (h_db t) = upsert n_url ?new (\<lambda>_. ?new) (node_endpoints (h_db h))"
    using assms by (simp add: publish_node_endpoint_def on_db_apply modify_def Let_def)
  have "knows_node url now t"
    using upsert_new [of ?new n_url "node_endpoints (h_db h)"] unfolding knows_node_def new by (intro bexI [of _ ?new]) simp_all
  then have "knows_node url now (snd (publish_all url now (map fst (h_conns t)) t))"
    using publish_keeps by (auto simp: preserves_def)
  moreover have "snd (heartbeat_round X v now h) = snd (publish_all url now (map fst (h_conns t)) t)"
    using assms(2,4) pub
    by (cases "publish_all url now (map fst (h_conns t)) t")
      (auto simp: heartbeat_round_def catch_def bindE_def thenE_def asks_def ret_def split: sum.split)
  ultimately show ?thesis by simp
qed
text \<open>
  C23: one request moves the node. On a node whose address is neither configured nor written by the
  launcher, any signed-in user's visit to the token page makes the host its request names the node's
  address, unless it is a loopback one: the next heartbeat publishes it to the whole mesh, and for three
  minutes every device that asks for the nodes, whatever its account, is given it as one to connect to and
  to show its token to.
\<close>

theorem host_header_moves_node:
  assumes "answers (h_db h)" and "fst (require_user X now rq (h_db h)) = Inr u"
    and "public_url_override (pSH X) (h_cfg h) = []" and "public_url_file h = Inr []"
    and "header rq ''x-forwarded-host'' = host" and "host \<noteq> []" and "\<not> is_loopback_host host"
    and "url = or_str (header rq ''x-forwarded-proto'') (rq_scheme rq) @ ''://'' @ host" and "rstrip_slash (strip url) = url"
    and "h2 = snd (heartbeat_round X v later (snd (enroll_tokens_get X now rq h)))"
    and "fst (api_nodes X now' rq' h2) = Inr nodes" and "now' - later \<le> 180"
  shows "url \<in> set nodes"
proof -
  let ?t = "h\<lparr>h_url_cache := url\<rparr>"
  have "snd (enroll_tokens_get X now rq h) = ?t"
    using assms(1-7) unfolding assms(8) by (simp add: enroll_tokens_get_def as_user_def bindE_def on_db_apply list_account_tokens_def
        hub_public_url_def or_str_def ret_def Let_def)
  moreover have "resolve_public_url X ?t = Inr url"
    using assms(3,4,8) by (simp add: resolve_public_url_def public_url_file_def or_str_def Let_def)
  ultimately have "knows_node url later h2"
    unfolding assms(10) using assms(1,8,9) by (intro heartbeat_publishes) simp_all
  moreover have "fst (live_node_urls X now' (Some rq') h2) = Inr nodes"
    using assms(11) by (auto simp: api_nodes_def as_device_def bindE_def on_db_apply authenticate_keeps raise_def ret_def
        split: prod.splits sum.splits option.splits if_splits)
  ultimately show ?thesis using assms(12) by (intro live_nodes_known)
qed

definition stray_request :: request where
  "stray_request = signed_request\<lparr>rq_headers := [(''x-forwarded-host'', ''other.example'')]\<rparr>"

definition device_request :: request where
  "device_request = plain_request\<lparr>rq_headers := [(''x-vortex-device'', ''d1''), (''x-vortex-token'', ''t'')]\<rparr>"

theorem host_header_moves_node_witness:
  "\<exists>nodes. fst (api_nodes plain_params 170 device_request (snd (heartbeat_round plain_params ''1'' 160
      (snd (enroll_tokens_get plain_params 150 stray_request signed_in))))) = Inr nodes \<and>
    ''http://other.example'' \<in> set nodes"
proof -
  let ?t = "snd (heartbeat_round plain_params ''1'' 160 (snd (enroll_tokens_get plain_params 150 stray_request signed_in)))"
  have "case fst (api_nodes plain_params 170 device_request ?t) of Inr _ \<Rightarrow> True | Inl _ \<Rightarrow> False" by code_simp
  then obtain nodes where n: "fst (api_nodes plain_params 170 device_request ?t) = Inr nodes" by (auto split: sum.splits)
  have u: "\<exists>u. fst (require_user plain_params 150 stray_request (h_db signed_in)) = Inr u"
  proof -
    have "case fst (require_user plain_params 150 stray_request (h_db signed_in)) of Inr _ \<Rightarrow> True | Inl _ \<Rightarrow> False" by code_simp
    then show ?thesis by (auto split: sum.splits)
  qed
  then obtain u where u: "fst (require_user plain_params 150 stray_request (h_db signed_in)) = Inr u" ..
  have f: "answers (h_db signed_in)" "public_url_override (pSH plain_params) (h_cfg signed_in) = []" "public_url_file signed_in = Inr []"
    "header stray_request ''x-forwarded-host'' = ''other.example''" "''other.example'' \<noteq> []" "\<not> is_loopback_host ''other.example''"
    "''http://other.example'' = or_str (header stray_request ''x-forwarded-proto'') (rq_scheme stray_request) @ ''://'' @ ''other.example''"
    "rstrip_slash (strip ''http://other.example'') = ''http://other.example''"
    by code_simp+
  have "''http://other.example'' \<in> set nodes"
    by (rule host_header_moves_node [OF f(1) u f(2-8) refl n]) simp
  with n show ?thesis by blast
qed

end
