(* ===== verification/DbReach.thy ===== *)
theory DbReach
  imports Mesh TheftDb
begin

text \<open>
  The database as a state machine: one step per operation of \<^verbatim>\<open>hub/db.py\<close> that writes, one for
  the remote of a replica coming and going. Every reachable database is well-formed.
\<close>

inductive db_step :: "db \<Rightarrow> db \<Rightarrow> bool" where
  create_user: "db_step s (snd (create_user P u pw adm salt now s))"
| create_invite: "db_step s (snd (create_invite own code now s))"
| consume_invite: "db_step s (snd (consume_invite code uid now s))"
| create_device: "db_step s (snd (create_device H d own n tok ch now s))"
| update_device_name: "db_step s (snd (update_device_name d own n s))"
| update_device: "db_step s (snd (update_device d own n c s))"
| delete_device: "db_step s (snd (delete_device d own s))"
| touch_device: "db_step s (snd (touch_device d now s))"
| create_pairing_code: "db_step s (snd (create_pairing_code uid dn k t1 t2 s))"
| consume_pairing_code: "db_step s (snd (consume_pairing_code code now s))"
| create_session: "db_step s (snd (create_session H uid tok now ttl s))"
| delete_session: "db_step s (snd (delete_session H tok s))"
| acquire_lock: "db_step s (snd (acquire_lock d h l f ttl now s))"
| refresh_lock: "db_step s (snd (refresh_lock d h ttl now s))"
| release_lock: "db_step s (snd (release_lock d h s))"
| set_theft_armed: "db_step s (snd (set_theft_armed d a b i opts now s))"
| update_theft_last_run: "db_step s (snd (update_theft_last_run d ts s))"
| add_theft_media: "db_step s (snd (add_theft_media d own k p mi sz me tr now s))"
| delete_theft_media: "db_step s (snd (delete_theft_media i own s))"
| prune_theft_media: "db_step s (snd (prune_theft_media d keep s))"
| record_audit: "db_step s (snd (record_audit ac ow ai an d det nd ok now s))"
| create_account_token: "db_step s (snd (create_account_token H uid l tok now s))"
| revoke_account_token: "db_step s (snd (revoke_account_token i uid s))"
| account_token_user: "db_step s (snd (account_token_user H tok now s))"
| publish_node_endpoint: "db_step s (snd (publish_node_endpoint u l now s))"
| publish_device_presence: "db_step s (snd (publish_device_presence d u now s))"
| clear_device_presence: "db_step s (snd (clear_device_presence d u s))"
| purge_expired: "db_step s (snd (purge_expired now s))"
| remote_libsql: "db_backend s = Some (LibsqlBackend up fk) \<Longrightarrow>
    db_step s (s\<lparr>db_backend := Some (LibsqlBackend up' fk)\<rparr>)"
| remote_http: "db_backend s = Some (TursoHttpBackend up fk) \<Longrightarrow>
    db_step s (s\<lparr>db_backend := Some (TursoHttpBackend up' fk)\<rparr>)"

inductive_cases db_stepE: "db_step s t"

lemma wf_same_fk:
  "db_backend s = Some b \<Longrightarrow> enforces_fk b' = enforces_fk b \<Longrightarrow> wf_db (s\<lparr>db_backend := Some b'\<rparr>) \<longleftrightarrow> wf_db s"
  by (simp add: wf_defs fk_on_def)

lemma preserves_step: "preserves I m \<Longrightarrow> I s \<Longrightarrow> I (snd (m s))"
  by (simp add: preserves_def)

lemmas operations_wf = create_user_wf create_invite_wf consume_invite_wf create_device_wf
  update_device_name_wf update_device_wf delete_device_wf touch_device_wf create_pairing_code_wf
  consume_pairing_code_wf create_session_wf delete_session_wf acquire_lock_wf refresh_lock_wf
  release_lock_wf set_theft_armed_wf update_theft_last_run_wf add_theft_media_wf
  delete_theft_media_wf prune_theft_media_wf record_audit_wf create_account_token_wf
  revoke_account_token_wf account_token_user_wf publish_node_endpoint_wf
  publish_device_presence_wf clear_device_presence_wf purge_expired_wf

lemma db_step_wf: "db_step s t \<Longrightarrow> wf_db s \<Longrightarrow> wf_db t"
  by (induction rule: db_step.induct)
    (simp_all only: wf_same_fk enforces_fk.simps preserves_step [OF operations_wf(1)]
      preserves_step [OF operations_wf(2)] operations_wf [THEN preserves_step])

text \<open>
  C1: every database the hub can reach is well-formed. Starting from the empty database on any
  backend, after any sequence of operations, interrupted or not by losses of the remote, the keys are
  unique, the counters are above the ids, and with foreign keys enforced every reference has a row.
\<close>

theorem reachable_db_wf:
  assumes "db_step\<^sup>*\<^sup>* (empty_db b) s"
  shows "wf_db s"
  using assms by (induction rule: rtranclp_induct) (auto intro: db_step_wf)

theorem reachable_db_wf_witness:
  "wf_db (snd (create_user (\<lambda>_ _ _. []) ''ann'' ''pw'' True [] 5 (empty_db SqliteBackend)))"
  by (rule reachable_db_wf [of SqliteBackend], rule r_into_rtranclp, rule db_step.create_user)

end
