(* ===== verification/HubIsolation.thy ===== *)
theory HubIsolation
  imports HubViews DbReach
begin

text \<open>
  Accounts do not see each other. The pages of an account are the same from any two states of the hub that
  agree on what the account owns, and the operations of \<^verbatim>\<open>hub/db.py\<close> that other accounts cause
  keep it: whatever they do, the pages stay, to the letter, what they were.
\<close>

section \<open>Accounts do not see each other\<close>

text \<open>
  Two states of the hub that may differ in whatever other accounts own: an account's devices, captures,
  tokens, events, armed states and presences, which of its devices are connected, and what the node knows
  of its own address are the same.
\<close>

definition owned_ids :: "int \<Rightarrow> db \<Rightarrow> string set" where
  "owned_ids uid s = d_id ` set (select_where (\<lambda>r. d_owner_id r = uid) (devices s))"

definition same_account :: "int \<Rightarrow> hub \<Rightarrow> hub \<Rightarrow> bool" where
  "same_account uid h h' \<longleftrightarrow>
     (let s = h_db h; t = h_db h' in
      db_backend s = db_backend t \<and>
      select_where (\<lambda>r. d_owner_id r = uid) (devices s) = select_where (\<lambda>r. d_owner_id r = uid) (devices t) \<and>
      select_where (\<lambda>r. m_owner_id r = uid) (theft_media s) = select_where (\<lambda>r. m_owner_id r = uid) (theft_media t) \<and>
      select_where (\<lambda>r. a_user_id r = uid) (account_tokens s) = select_where (\<lambda>r. a_user_id r = uid) (account_tokens t) \<and>
      select_where (\<lambda>r. au_owner_id r = Some uid) (audit_log s) = select_where (\<lambda>r. au_owner_id r = Some uid) (audit_log t) \<and>
      select_where (\<lambda>r. owner_of s (t_device_id r) = Some uid) (theft_state s) =
        select_where (\<lambda>r. owner_of t (t_device_id r) = Some uid) (theft_state t) \<and>
      select_where (\<lambda>r. owned_by uid s (pr_device_id r)) (device_presence s) =
        select_where (\<lambda>r. owned_by uid t (pr_device_id r)) (device_presence t)) \<and>
     (\<forall>d \<in> owned_ids uid (h_db h). d \<in> online_ids h \<longleftrightarrow> d \<in> online_ids h') \<and>
     h_cfg h = h_cfg h' \<and> h_url_file h = h_url_file h' \<and> h_url_cache h = h_url_cache h'"

text \<open>Both serve the request to the same user, whose devices are \<open>D\<close>.\<close>

definition both :: "params \<Rightarrow> int \<Rightarrow> request \<Rightarrow> user_info \<Rightarrow> string set \<Rightarrow> hub \<Rightarrow> hub \<Rightarrow> bool" where
  "both X now rq u D h h' \<longleftrightarrow> same_account (ui_id u) h h' \<and> D = owned_ids (ui_id u) (h_db h) \<and>
     fst (require_user X now rq (h_db h)) = Inr u \<and> fst (require_user X now rq (h_db h')) = Inr u"

text \<open>
  Two operations from related states end in related states, with the same error or related results.
\<close>

definition alike :: "('s \<Rightarrow> 's \<Rightarrow> bool) \<Rightarrow> ('a \<Rightarrow> 'b \<Rightarrow> bool) \<Rightarrow> ('s, 'a) op \<Rightarrow> ('s, 'b) op \<Rightarrow> bool" where
  "alike I R m m' \<longleftrightarrow> (\<forall>h h'. I h h' \<longrightarrow> rel_sum (=) R (fst (m h)) (fst (m' h')) \<and> I (snd (m h)) (snd (m' h')))"

named_theorems alike "rules for pairs of operations"

lemma alike_ret [alike]: "R a b \<Longrightarrow> alike I R (ret a) (ret b)"
  by (simp add: alike_def)

lemma alike_raise [alike]: "alike I R (raise e) (raise e)"
  by (simp add: alike_def)

lemma alike_liftE [alike]: "rel_sum (=) R r r' \<Longrightarrow> alike I R (liftE r) (liftE r')"
  by (simp add: alike_def)

lemma alike_asks: "(\<And>h h'. I h h' \<Longrightarrow> R (f h) (g h')) \<Longrightarrow> alike I R (asks f) (asks g)"
  by (simp add: alike_def)

lemma alike_bind:
  assumes "alike I Q m m'" and "\<And>x y. Q x y \<Longrightarrow> alike I R (f x) (g y)"
  shows "alike I R (bindE m f) (bindE m' g)"
  unfolding alike_def
proof (intro allI impI)
  fix h h' assume "I h h'"
  with assms(1) have "rel_sum (=) Q (fst (m h)) (fst (m' h'))" "I (snd (m h)) (snd (m' h'))" by (auto simp: alike_def)
  with assms(2) show "rel_sum (=) R (fst (bindE m f h)) (fst (bindE m' g h')) \<and> I (snd (bindE m f h)) (snd (bindE m' g h'))"
    by (cases "m h"; cases "m' h'") (auto simp: bindE_def alike_def elim!: rel_sum.cases)
qed

lemma alike_catch:
  assumes "alike I R m m'" and "\<And>e. alike I R (f e) (g e)"
  shows "alike I R (catch m f) (catch m' g)"
  unfolding alike_def
proof (intro allI impI)
  fix h h' assume "I h h'"
  with assms(1) have "rel_sum (=) R (fst (m h)) (fst (m' h'))" "I (snd (m h)) (snd (m' h'))" by (auto simp: alike_def)
  with assms(2) show "rel_sum (=) R (fst (catch m f h)) (fst (catch m' g h')) \<and> I (snd (catch m f h)) (snd (catch m' g h'))"
    by (cases "m h"; cases "m' h'") (auto simp: catch_def alike_def elim!: rel_sum.cases)
qed

lemma alike_read:
  assumes "\<And>h h'. both X now rq u D h h' \<Longrightarrow> R (f (h_db h)) (g (h_db h'))"
  shows "alike (both X now rq u D) R (on_db (db_read f)) (on_db (db_read g))"
  unfolding alike_def
proof (intro allI impI)
  fix h h' assume b: "both X now rq u D h h'"
  then have "db_backend (h_db h) = db_backend (h_db h')" by (simp add: both_def same_account_def Let_def)
  with assms [OF b] b show "rel_sum (=) R (fst (on_db (db_read f) h)) (fst (on_db (db_read g) h')) \<and>
      both X now rq u D (snd (on_db (db_read f) h)) (snd (on_db (db_read g) h'))"
    by (auto simp: on_db_apply db_read_def split: option.split)
qed

lemma alike_user:
  assumes "alike (both X now rq u D) R (f u) (g u)"
  shows "alike (both X now rq u D) R (as_user X now rq f) (as_user X now rq g)"
  unfolding as_user_def
proof (rule alike_bind [where Q = "\<lambda>x y. x = u \<and> y = u"])
  show "alike (both X now rq u D) (\<lambda>x y. x = u \<and> y = u) (on_db (require_user X now rq)) (on_db (require_user X now rq))"
    by (auto simp: alike_def both_def on_db_apply)
qed (use assms in auto)

text \<open>What an account reads.\<close>

lemma select_both: "select_where (\<lambda>r. A r \<and> K r) t = select_where K (select_where A t)"
  by (simp add: select_where_def conj_commute)

lemma alike_own_reads [alike]:
  assumes "uid = ui_id u"
  shows "alike (both X now rq u D) (\<lambda>x y. x = y \<and> di_id ` set x \<subseteq> D) (on_db (list_devices uid)) (on_db (list_devices uid))"
    and "alike (both X now rq u D) (=) (on_db (theft_states_for_user uid)) (on_db (theft_states_for_user uid))"
    and "alike (both X now rq u D) (=) (on_db (list_theft_media_all uid n None)) (on_db (list_theft_media_all uid n None))"
    and "alike (both X now rq u D) (=) (on_db (list_account_tokens uid)) (on_db (list_account_tokens uid))"
    and "alike (both X now rq u D) (=) (on_db (list_audit uid k)) (on_db (list_audit uid k))"
  unfolding list_devices_def theft_states_for_user_def list_theft_media_all_def list_account_tokens_def list_audit_def assms
  by (rule alike_read; auto simp: both_def same_account_def Let_def owned_ids_def device_info_of_def opt_str_def)+

lemma alike_own_rollups [alike]:
  assumes "uid = ui_id u"
  shows "alike (both X now rq u D) (=) (on_db (latest_location_per_device uid)) (on_db (latest_location_per_device uid))"
    and "alike (both X now rq u D) (=) (on_db (last_capture_per_device uid)) (on_db (last_capture_per_device uid))"
    and "alike (both X now rq u D) (rel_option (\<lambda>x y. x = y \<and> di_id x = d \<and> d \<in> D))
      (on_db (get_device_for_user d uid)) (on_db (get_device_for_user d uid))"
proof -
  have one: "latest_location_per_device uid = db_read (\<lambda>s. first_per_device (newest_first
      (select_where (\<lambda>r. m_owner_id r = uid \<and> m_kind r = ''location'') (theft_media s))))"
    by (rule ext) (simp add: latest_location_per_device_def bindE_def db_read_def split: option.split)
  have two: "owned d uid = (\<lambda>r. d_owner_id r = uid \<and> d_id r = d)" by (auto simp: owned_def)
  show "alike (both X now rq u D) (=) (on_db (latest_location_per_device uid)) (on_db (latest_location_per_device uid))"
    unfolding one unfolding select_both assms by (rule alike_read) (simp add: both_def same_account_def Let_def)
  show "alike (both X now rq u D) (=) (on_db (last_capture_per_device uid)) (on_db (last_capture_per_device uid))"
    unfolding last_capture_per_device_def select_both assms by (rule alike_read) (simp add: both_def same_account_def Let_def)
  show "alike (both X now rq u D) (rel_option (\<lambda>x y. x = y \<and> di_id x = d \<and> d \<in> D))
      (on_db (get_device_for_user d uid)) (on_db (get_device_for_user d uid))"
    unfolding get_device_for_user_def two unfolding select_both assms
  proof (rule alike_read)
    fix h h' assume "both X now rq u D h h'"
    then have "select_where (\<lambda>r. d_owner_id r = ui_id u) (devices (h_db h')) = select_where (\<lambda>r. d_owner_id r = ui_id u) (devices (h_db h))"
      and "D = owned_ids (ui_id u) (h_db h)" by (auto simp: both_def same_account_def Let_def)
    then show "rel_option (\<lambda>x y. x = y \<and> di_id x = d \<and> d \<in> D)
        (map_option device_info_of (fetchone (select_where (\<lambda>r. d_id r = d) (select_where (\<lambda>r. d_owner_id r = ui_id u) (devices (h_db h))))))
        (map_option device_info_of (fetchone (select_where (\<lambda>r. d_id r = d) (select_where (\<lambda>r. d_owner_id r = ui_id u) (devices (h_db h'))))))"
      by (cases "select_where (\<lambda>r. d_id r = d) (select_where (\<lambda>r. d_owner_id r = ui_id u) (devices (h_db h)))")
        (auto simp: fetchone_def device_info_of_def owned_ids_def select_where_def filter_eq_Cons_iff)
  qed
qed

lemma alike_online [alike]:
  "alike (both X now rq u D) (\<lambda>on on'. \<forall>d \<in> D. d \<in> on \<longleftrightarrow> d \<in> on') (asks online_ids) (asks online_ids)"
  by (rule alike_asks) (simp add: both_def same_account_def)

lemma alike_url [alike]: "alike (both X now rq u D) (=) (hub_public_url X rq') (hub_public_url X rq')"
  by (auto simp: alike_def hub_public_url_def Let_def both_def same_account_def online_ids_def)

lemma alike_resolve: "alike (both X now rq u D) (=) (\<lambda>s. (resolve_public_url X s, s)) (\<lambda>s. (resolve_public_url X s, s))"
  by (auto simp: alike_def resolve_public_url_def public_url_file_def Let_def both_def same_account_def sum.rel_eq split: sum.split)

lemma alike_presence: "alike (both X now rq u D) (\<lambda>x y. x = y \<and> fst ` set x \<subseteq> D)
    (on_db (presence_for_user (ui_id u) n now')) (on_db (presence_for_user (ui_id u) n now'))"
  unfolding presence_for_user_def select_both
proof (rule alike_read)
  fix h h' assume b: "both X now rq u D h h'"
  then have "select_where (\<lambda>r. owned_by (ui_id u) (h_db h') (pr_device_id r)) (device_presence (h_db h')) =
      select_where (\<lambda>r. owned_by (ui_id u) (h_db h) (pr_device_id r)) (device_presence (h_db h))" and "D = owned_ids (ui_id u) (h_db h)"
    by (auto simp: both_def same_account_def Let_def)
  moreover have "owned_by own t d \<Longrightarrow> d \<in> owned_ids own t" for own t d
    by (auto simp: owned_by_def list_ex_iff owned_def owned_ids_def select_where_def)
  ultimately show "(\<lambda>x y. x = y \<and> fst ` set x \<subseteq> D)
      (map (\<lambda>r. (pr_device_id r, pr_node_url r)) (select_where (\<lambda>r. now' - max 45 n \<le> pr_last_seen r)
        (select_where (\<lambda>r. owned_by (ui_id u) (h_db h) (pr_device_id r)) (device_presence (h_db h)))))
      (map (\<lambda>r. (pr_device_id r, pr_node_url r)) (select_where (\<lambda>r. now' - max 45 n \<le> pr_last_seen r)
        (select_where (\<lambda>r. owned_by (ui_id u) (h_db h') (pr_device_id r)) (device_presence (h_db h')))))"
    by (auto simp: select_where_def)
qed

lemma alike_elsewhere:
  assumes "\<forall>d \<in> D. d \<in> on \<longleftrightarrow> d \<in> on'"
  shows "alike (both X now rq u D) (=) (elsewhere_map X now' (ui_id u) on) (elsewhere_map X now' (ui_id u) on')"
  unfolding elsewhere_map_def
proof (rule alike_bind [OF alike_resolve], rule alike_catch, rule alike_bind [OF alike_presence])
  fix url url' :: string and x y :: "(string \<times> string) list" assume "url = url'" and xy: "x = y \<and> fst ` set x \<subseteq> D"
  have "filter (\<lambda>(did, _). did \<notin> on) x = filter (\<lambda>(did, _). did \<notin> on') x"
    using assms xy by (intro filter_cong) auto
  with \<open>url = url'\<close> xy show "alike (both X now rq u D) (=)
      (ret (filter (\<lambda>(did, w). w \<noteq> [] \<and> w \<noteq> rstrip_slash url) (map (\<lambda>(did, w). (did, rstrip_slash w)) (filter (\<lambda>(did, _). did \<notin> on) x))))
      (ret (filter (\<lambda>(did, w). w \<noteq> [] \<and> w \<noteq> rstrip_slash url') (map (\<lambda>(did, w). (did, rstrip_slash w)) (filter (\<lambda>(did, _). did \<notin> on') y))))"
    by (simp add: alike_ret)
qed (rule alike_ret, rule refl)

text \<open>Pages that ask of a set of connections only about the account's devices.\<close>

lemma alike_own_device:
  assumes "\<And>d. di_id d = device_id \<Longrightarrow> device_id \<in> D \<Longrightarrow> alike (both X now rq u D) R (f u d) (f u d)"
  shows "alike (both X now rq u D) R (own_device X now rq device_id f) (own_device X now rq device_id f)"
  unfolding own_device_def
  by (rule alike_user, rule alike_bind [OF alike_own_rollups(3) [OF refl]])
    (use assms in \<open>auto intro: alike_raise split: option.split elim!: option.rel_cases\<close>)

lemma dashboard_page_online:
  assumes "di_id ` set ds \<subseteq> D" and "\<forall>d \<in> D. d \<in> on \<longleftrightarrow> d \<in> on'"
  shows "dashboard_page S u ds on selfreg els = dashboard_page S u ds on' selfreg els"
proof -
  have "device_card now on els d = device_card now on' els d" if "d \<in> set ds" for now d
  proof -
    have "di_id d \<in> on \<longleftrightarrow> di_id d \<in> on'" using assms that by auto
    then show ?thesis by (simp only: device_card_def)
  qed
  then have cards: "map (device_card now on els) ds = map (device_card now on' els) ds" for now by simp
  show ?thesis unfolding dashboard_page_def cards ..
qed

lemma fleet_rows_online:
  assumes "di_id ` set ds \<subseteq> D" and "\<forall>d \<in> D. d \<in> on \<longleftrightarrow> d \<in> on'"
  shows "mapE (fleet_entry E FL on els st loc cap) ds = mapE (fleet_entry E FL on' els st loc cap) ds"
  using assms(1) by (induction ds) (use assms(2) in \<open>auto simp: fleet_entry_def Let_def split: sum.split\<close>)

lemma alike_dashboard: "alike (both X now rq u D) (=) (dashboard_view S X now rq selfreg) (dashboard_view S X now rq selfreg)"
  unfolding dashboard_view_def
proof (rule alike_user, rule alike_bind [OF alike_own_reads(1) [OF refl]], rule alike_bind [OF alike_online], goal_cases)
  case (1 ds ds' on on')
  show ?case
  proof (rule alike_bind [OF alike_elsewhere [OF 1(2)]])
    fix els els' :: "(string \<times> string) list" assume "els = els'"
    with 1 dashboard_page_online [of ds D on on' S u "selfreg \<noteq> []" els]
    show "alike (both X now rq u D) (=) (ret (dashboard_page S u ds on (selfreg \<noteq> []) els)) (ret (dashboard_page S u ds' on' (selfreg \<noteq> []) els'))"
      by (auto intro: alike_ret)
  qed
qed

lemma alike_fleet:
  "alike (both X now rq u D) (\<lambda>(rows, pts, media, n, _) (rows', pts', media', n', _). rows = rows' \<and> pts = pts' \<and> media = media' \<and> n = n')
    (theft_dashboard_data X E FL now' (ui_id u)) (theft_dashboard_data X E FL now' (ui_id u))"
  unfolding theft_dashboard_data_def
proof (rule alike_bind [OF alike_own_reads(1) [OF refl]], rule alike_bind [OF alike_online], goal_cases)
  case (1 ds ds' on on')
  show ?case
  proof (rule alike_bind [OF alike_elsewhere [OF 1(2)]], rule alike_bind [OF alike_own_reads(2) [OF refl]],
      rule alike_bind [OF alike_own_rollups(1) [OF refl]], rule alike_bind [OF alike_own_rollups(2) [OF refl]], goal_cases)
    case (1 els els' st st' loc loc' cap cap')
    have "mapE (fleet_entry E FL on els st loc cap) ds = mapE (fleet_entry E FL on' els' st' loc' cap') ds'"
      using \<open>ds = ds' \<and> _\<close> 1 fleet_rows_online [OF _ \<open>\<forall>d \<in> D. _ d\<close>, of ds] by auto
    then have "alike (both X now rq u D) (=) (liftE (mapE (fleet_entry E FL on els st loc cap) ds)) (liftE (mapE (fleet_entry E FL on' els' st' loc' cap') ds'))"
      by (intro alike_liftE) (simp add: sum.rel_eq)
    then show ?case
      by (rule alike_bind) (rule alike_bind [OF alike_own_reads(3) [OF refl]], simp add: alike_ret)
  qed
qed

lemma alike_theft_dashboard: "alike (both X now rq u D) (=) (theft_dashboard S P X E now rq) (theft_dashboard S P X E now rq)"
  unfolding theft_dashboard_def
  by (rule alike_user, rule alike_bind [OF alike_fleet]) (auto intro: alike_liftE simp: sum.rel_eq)

lemma alike_small_views:
  "alike (both X now rq u D) (=) (audit_view S X now rq) (audit_view S X now rq)"
  "alike (both X now rq u D) (=) (enroll_tokens_view S X now rq) (enroll_tokens_view S X now rq)"
  "alike (both X now rq u D) (=) (device_view S X now rq d) (device_view S X now rq d)"
  "alike (both X now rq u D) (=) (camera_view S X now rq d) (camera_view S X now rq d)"
  "alike (both X now rq u D) (=) (screen_view S X now rq d) (screen_view S X now rq d)"
  unfolding audit_view_def enroll_tokens_view_def device_view_def camera_view_def screen_view_def
proof -
  show "alike (both X now rq u D) (=) (as_user X now rq (\<lambda>u. bindE (on_db (list_audit (ui_id u) 200)) (\<lambda>events. ret (audit_page S u events))))
      (as_user X now rq (\<lambda>u. bindE (on_db (list_audit (ui_id u) 200)) (\<lambda>events. ret (audit_page S u events))))"
    by (rule alike_user, rule alike_bind [OF alike_own_reads(5) [OF refl]]) (simp add: alike_ret)
  show "alike (both X now rq u D) (=) (as_user X now rq (\<lambda>u. bindE (on_db (list_account_tokens (ui_id u)))
      (\<lambda>ts. bindE (hub_public_url X rq) (\<lambda>url. ret (enroll_tokens_page S u ts url)))))
      (as_user X now rq (\<lambda>u. bindE (on_db (list_account_tokens (ui_id u)))
      (\<lambda>ts. bindE (hub_public_url X rq) (\<lambda>url. ret (enroll_tokens_page S u ts url)))))"
    by (rule alike_user, rule alike_bind [OF alike_own_reads(4) [OF refl]], rule alike_bind [OF alike_url]) (simp add: alike_ret)
  show "alike (both X now rq u D) (=) (own_device X now rq d (\<lambda>u i. bindE (asks online_ids) (\<lambda>online. ret (device_manage_page S u i (d \<in> online)))))
      (own_device X now rq d (\<lambda>u i. bindE (asks online_ids) (\<lambda>online. ret (device_manage_page S u i (d \<in> online)))))"
    by (rule alike_own_device, rule alike_bind [OF alike_online], rule alike_ret) (drule bspec, assumption, simp only:)
qed (intro alike_own_device alike_ret refl)+

lemma views_same:
  assumes "same_account (ui_id u) h h'"
    and "fst (require_user X now rq (h_db h)) = Inr u" and "fst (require_user X now rq (h_db h')) = Inr u"
  shows "fst (dashboard_view S X now rq selfreg h) = fst (dashboard_view S X now rq selfreg h') \<and>
    fst (theft_dashboard S P X E now rq h) = fst (theft_dashboard S P X E now rq h') \<and>
    fst (audit_view S X now rq h) = fst (audit_view S X now rq h') \<and>
    fst (enroll_tokens_view S X now rq h) = fst (enroll_tokens_view S X now rq h') \<and>
    fst (device_view S X now rq d h) = fst (device_view S X now rq d h') \<and>
    fst (camera_view S X now rq d h) = fst (camera_view S X now rq d h') \<and>
    fst (screen_view S X now rq d h) = fst (screen_view S X now rq d h')"
proof -
  have "both X now rq u (owned_ids (ui_id u) (h_db h)) h h'"
    using assms by (simp add: both_def)
  then have same: "fst (m h) = fst (m h')" if "alike (both X now rq u (owned_ids (ui_id u) (h_db h))) (=) m m" for m :: "(hub, string) op"
    using that by (auto simp: alike_def sum.rel_eq)
  show ?thesis
    by (intro conjI same alike_dashboard alike_theft_dashboard alike_small_views)
qed

section \<open>What other accounts do\<close>

text \<open>
  A step that is another account's, or nobody's: accounts and sessions come and go, devices are enrolled,
  renamed and removed, codes and tokens made and used, theft mode armed, captures stored, forgotten and
  pruned, locks taken, nodes and devices announced, events logged. A step that writes rows of a device or
  an owner writes none of account \<open>uid\<close>.
\<close>

inductive other_step :: "int \<Rightarrow> db \<Rightarrow> db \<Rightarrow> bool" for uid :: int where
  signs_up: "other_step uid s (snd (create_user P u pw adm salt now s))"
| invites: "other_step uid s (snd (create_invite own code now s))"
| invited: "other_step uid s (snd (consume_invite code v now s))"
| signs_in: "other_step uid s (snd (create_session H v tok now ttl s))"
| signs_out: "other_step uid s (snd (delete_session H tok s))"
| shows_code: "other_step uid s (snd (create_pairing_code v dn k t1 t2 s))"
| uses_code: "other_step uid s (snd (consume_pairing_code code now s))"
| enrolls: "v \<noteq> uid \<Longrightarrow> other_step uid s (snd (create_device H d v n tok ch now s))"
| renames: "v \<noteq> uid \<Longrightarrow> other_step uid s (snd (update_device_name d v n s))"
| edits: "v \<noteq> uid \<Longrightarrow> other_step uid s (snd (update_device d v n ch s))"
| removes: "v \<noteq> uid \<Longrightarrow> \<forall>m \<in> set (theft_media s). m_device_id m = d \<longrightarrow> m_owner_id m \<noteq> uid \<Longrightarrow>
    other_step uid s (snd (delete_device d v s))"
| is_seen: "d \<notin> owned_ids uid s \<Longrightarrow> other_step uid s (snd (touch_device d now s))"
| locks: "other_step uid s (snd (acquire_lock d hl l f ttl now s))"
| relocks: "other_step uid s (snd (refresh_lock d hl ttl now s))"
| unlocks: "other_step uid s (snd (release_lock d hl s))"
| mints: "v \<noteq> uid \<Longrightarrow> other_step uid s (snd (create_account_token H v l tok now s))"
| revokes: "v \<noteq> uid \<Longrightarrow> other_step uid s (snd (revoke_account_token i v s))"
| uses_token: "\<forall>r \<in> set (account_tokens s). a_token_hash r = hash_token H tok \<longrightarrow> a_user_id r \<noteq> uid \<Longrightarrow>
    other_step uid s (snd (account_token_user H tok now s))"
| arms: "d \<notin> owned_ids uid s \<Longrightarrow> other_step uid s (snd (set_theft_armed d a b i opts now s))"
| runs: "d \<notin> owned_ids uid s \<Longrightarrow> other_step uid s (snd (update_theft_last_run d now s))"
| captures: "v \<noteq> uid \<Longrightarrow> other_step uid s (snd (add_theft_media d v k p mi sz me tr now s))"
| forgets: "v \<noteq> uid \<Longrightarrow> other_step uid s (snd (delete_theft_media i v s))"
| prunes: "\<forall>m \<in> set (theft_media s). m_device_id m = d \<longrightarrow> m_owner_id m \<noteq> uid \<Longrightarrow>
    other_step uid s (snd (prune_theft_media d keep s))"
| node_up: "other_step uid s (snd (publish_node_endpoint u nl now s))"
| appears: "d \<notin> owned_ids uid s \<Longrightarrow> other_step uid s (snd (publish_device_presence d u now s))"
| vanishes: "d \<notin> owned_ids uid s \<Longrightarrow> other_step uid s (snd (clear_device_presence d u s))"
| is_logged: "own \<noteq> Some uid \<Longrightarrow> other_step uid s (snd (record_audit act own ai an dev det nd ok now s))"

lemma other_step_db: "other_step uid s t \<Longrightarrow> db_step s t"
  by (induction rule: other_step.induct) (rule db_step.intros)+

text \<open>The rows of an account whose devices are \<open>D\<close>.\<close>

definition own_rows :: "int \<Rightarrow> string set \<Rightarrow> db \<Rightarrow> _" where
  "own_rows uid D s = (db_backend s,
     select_where (\<lambda>r. d_owner_id r = uid) (devices s), select_where (\<lambda>r. m_owner_id r = uid) (theft_media s),
     select_where (\<lambda>r. a_user_id r = uid) (account_tokens s),
     select_where (\<lambda>r. au_owner_id r = Some uid) (audit_log s),
     select_where (\<lambda>r. t_device_id r \<in> D) (theft_state s), select_where (\<lambda>r. pr_device_id r \<in> D) (device_presence s))"

lemma own_rows_ids: "own_rows uid D s = own_rows uid D t \<Longrightarrow> owned_ids uid s = owned_ids uid t"
  by (simp add: own_rows_def owned_ids_def)

lemma set_select_where: "set (select_where P t) = {r \<in> set t. P r}"
  by (simp add: select_where_def)

lemma select_others:
  "(\<And>r. r \<in> set t \<Longrightarrow> Q r \<Longrightarrow> \<not> P r) \<Longrightarrow> select_where P (delete_where Q t) = select_where P t"
  "(\<And>r. r \<in> set t \<Longrightarrow> Q r \<Longrightarrow> \<not> P r) \<Longrightarrow> (\<And>r. r \<in> set t \<Longrightarrow> Q r \<Longrightarrow> \<not> P (f r)) \<Longrightarrow> select_where P (update_where Q f t) = select_where P t"
  "\<not> P q \<Longrightarrow> select_where P (t @ [q]) = select_where P t"
  by (induction t) (auto simp: select_where_def delete_where_def update_where_def)

lemma upsert_others:
  "\<not> P q \<Longrightarrow> (\<And>r. r \<in> set t \<Longrightarrow> key r = key q \<Longrightarrow> \<not> P r \<and> \<not> P (f r)) \<Longrightarrow>
   select_where P (upsert key q f t) = select_where P t"
  by (simp add: upsert_def select_others)

lemmas kept = own_rows_def owned_def
lemmas others_out = select_others upsert_others

text \<open>Operations on tables the pages of an account are not made of, and on rows that are not the account's.\<close>

lemma elsewhere_keeps:
  "preserves (\<lambda>t. own_rows uid D t = R) (create_user P u pw adm salt now)"
  "preserves (\<lambda>t. own_rows uid D t = R) (create_invite own code now)"
  "preserves (\<lambda>t. own_rows uid D t = R) (consume_invite code v now)"
  "preserves (\<lambda>t. own_rows uid D t = R) (create_session H v tok now ttl)"
  "preserves (\<lambda>t. own_rows uid D t = R) (delete_session H tok)"
  "preserves (\<lambda>t. own_rows uid D t = R) (create_pairing_code v dn k t1 t2)"
  "preserves (\<lambda>t. own_rows uid D t = R) (consume_pairing_code code now)"
  "preserves (\<lambda>t. own_rows uid D t = R) (acquire_lock d hl l f ttl now)"
  "preserves (\<lambda>t. own_rows uid D t = R) (refresh_lock d hl ttl now)"
  "preserves (\<lambda>t. own_rows uid D t = R) (release_lock d hl)"
  "preserves (\<lambda>t. own_rows uid D t = R) (publish_node_endpoint u nl now)"
  unfolding create_user_def create_invite_def consume_invite_def create_session_def delete_session_def
    create_pairing_code_def consume_pairing_code_def acquire_lock_def refresh_lock_def release_lock_def
    publish_node_endpoint_def Let_def
  by (intro pres preserves_constraint preserves_modify; auto simp: preserves_def own_rows_def pairing_mark_def Let_def)+

lemma others_keep:
  assumes "v \<noteq> uid"
  shows "preserves (\<lambda>t. own_rows uid D t = R) (create_device H d v n tok ch now)"
    and "preserves (\<lambda>t. own_rows uid D t = R) (update_device_name d v n)"
    and "preserves (\<lambda>t. own_rows uid D t = R) (update_device d v n ch)"
    and "preserves (\<lambda>t. own_rows uid D t = R) (create_account_token H v l tok now)"
    and "preserves (\<lambda>t. own_rows uid D t = R) (revoke_account_token i v)"
    and "preserves (\<lambda>t. own_rows uid D t = R) (add_theft_media d v k p mi sz me tr now)"
    and "preserves (\<lambda>t. own_rows uid D t = R) (delete_theft_media i v)"
  using assms unfolding create_device_def update_device_name_def update_device_def create_account_token_def
    revoke_account_token_def add_theft_media_def delete_theft_media_def get_theft_media_def
  by (intro pres preserves_constraint preserves_modify; auto simp: preserves_def kept own_media_def intro!: others_out)+

lemma other_devices_keep:
  assumes "d \<notin> D"
  shows "preserves (\<lambda>t. own_rows uid D t = R) (set_theft_armed d a b i opts now)"
    and "preserves (\<lambda>t. own_rows uid D t = R) (update_theft_last_run d now)"
    and "preserves (\<lambda>t. own_rows uid D t = R) (publish_device_presence d u now)"
    and "preserves (\<lambda>t. own_rows uid D t = R) (clear_device_presence d u)"
  using assms unfolding set_theft_armed_def update_theft_last_run_def publish_device_presence_def
    clear_device_presence_def Let_def
  by (intro pres preserves_constraint preserves_modify; auto simp: kept intro!: others_out)+

lemma logged_keeps:
  "own \<noteq> Some uid \<Longrightarrow> preserves (\<lambda>t. own_rows uid D t = R) (record_audit act own ai an dev det nd ok now)"
  unfolding record_audit_def by (intro pres preserves_modify) (auto simp: kept intro!: others_out)

lemma seen_keeps:
  "d \<notin> owned_ids uid s \<Longrightarrow> own_rows uid D (snd (touch_device d now s)) = own_rows uid D s"
  by (auto simp: touch_device_def catch_def db_write_def kept owned_ids_def set_select_where intro!: others_out split: option.split)

lemma token_keeps:
  assumes "\<forall>r \<in> set (account_tokens s). a_token_hash r = hash_token H tok \<longrightarrow> a_user_id r \<noteq> uid" and "wf_db s"
  shows "own_rows uid D (snd (account_token_user H tok now s)) = own_rows uid D s"
proof -
  have "a_user_id q \<noteq> uid" if "fetchone (select_where (\<lambda>r. a_token_hash r = hash_token H tok) (account_tokens s)) = Some r"
    "q \<in> set (account_tokens s)" "a_id q = a_id r" for q r
    using fetchone_Some [OF that(1)] that(2,3) assms by (auto simp: wf_db_def wf_keys_def uniq_def distinct_map dest: inj_onD)
  note other = this
  show ?thesis
    by (auto dest: other simp: account_token_user_def bindE_def thenE_def db_read_def catch_def db_write_def kept intro!: others_out split: option.splits prod.splits)
qed

lemma prune_rows_keep:
  assumes "\<And>r q. r \<in> set old \<Longrightarrow> q \<in> set (theft_media s) \<Longrightarrow> m_id q = m_id r \<Longrightarrow> m_owner_id q \<noteq> uid"
  shows "own_rows uid D (snd (prune_rows old s)) = own_rows uid D s"
  using assms
proof (induction old arbitrary: s)
  case (Cons r old)
  let ?s = "s\<lparr>theft_media := delete_where (\<lambda>q. m_id q = m_id r) (theft_media s)\<rparr>"
  have "own_rows uid D (snd (prune_rows old ?s)) = own_rows uid D ?s"
    by (rule Cons.IH) (use Cons.prems in auto)
  moreover have "own_rows uid D ?s = own_rows uid D s"
    using Cons.prems [of r] by (auto simp: kept intro!: others_out)
  ultimately show ?case
    by (auto simp: thenE_def bindE_def db_write_def split: option.splits prod.splits sum.splits)
qed simp

lemma same_id: "wf_db s \<Longrightarrow> q \<in> set (theft_media s) \<Longrightarrow> r \<in> set (theft_media s) \<Longrightarrow> m_id q = m_id r \<Longrightarrow> q = r"
  by (simp add: wf_db_def wf_keys_def uniq_def distinct_map inj_on_def)

lemma prune_keeps:
  assumes "\<forall>m \<in> set (theft_media s). m_device_id m = d \<longrightarrow> m_owner_id m \<noteq> uid" and "wf_db s"
  shows "own_rows uid D (snd (prune_theft_media d keep s)) = own_rows uid D s"
proof -
  let ?old = "drop (nat (max 0 keep)) (newest_first (select_where (\<lambda>r. m_device_id r = d) (theft_media s)))"
  have "set ?old \<subseteq> {r \<in> set (theft_media s). m_device_id r = d}"
    by (auto simp: select_where_def dest!: in_set_dropD)
  then have "m_owner_id q \<noteq> uid" if "r \<in> set ?old" "q \<in> set (theft_media s)" "m_id q = m_id r" for r q
    using that assms(1) same_id [OF assms(2)] by blast
  then show ?thesis
    by (auto simp: prune_theft_media_def bindE_def db_read_def prune_rows_keep split: option.splits)
qed

lemma removed_keeps:
  assumes "v \<noteq> uid" and "\<forall>m \<in> set (theft_media s). m_device_id m = d \<longrightarrow> m_owner_id m \<noteq> uid" and "wf_db s"
  shows "own_rows uid (owned_ids uid s) (snd (delete_device d v s)) = own_rows uid (owned_ids uid s) s"
proof (cases "0 < rowcount (owned d v) (devices s)")
  case True
  then have "d \<notin> owned_ids uid s"
    using assms by (auto simp: rowcount_def owned_ids_def select_where_def owned_def filter_empty_conv wf_db_def wf_keys_def uniq_def distinct_map dest: inj_onD)
  with True assms(1,2) show ?thesis
    by (auto simp: delete_device_def db_write_def cascade_device_def kept intro!: others_out split: option.split)
qed (simp add: delete_device_def db_write_def split: option.split)

lemma kept_step:
  "preserves (\<lambda>t. own_rows uid D t = own_rows uid D s) m \<Longrightarrow> own_rows uid D (snd (m s)) = own_rows uid D s"
  by (simp add: preserves_def)

lemma other_step_rows:
  assumes "other_step uid s t" and "wf_db s"
  shows "own_rows uid (owned_ids uid s) t = own_rows uid (owned_ids uid s) s"
  using assms
  by (cases rule: other_step.cases) (simp_all add: removed_keeps seen_keeps token_keeps prune_keeps
  elsewhere_keeps [THEN kept_step] others_keep [THEN kept_step] other_devices_keep [THEN kept_step] logged_keeps [THEN kept_step])

lemma other_steps_rows:
  assumes "(other_step uid)\<^sup>*\<^sup>* s t" and "wf_db s"
  shows "wf_db t \<and> own_rows uid (owned_ids uid s) t = own_rows uid (owned_ids uid s) s"
  using assms
proof (induction rule: rtranclp_induct)
  case (step t r)
  then have wf: "wf_db t" and same: "own_rows uid (owned_ids uid s) t = own_rows uid (owned_ids uid s) s" by blast+
  have "own_rows uid (owned_ids uid s) r = own_rows uid (owned_ids uid s) t"
    using other_step_rows [OF step(2) wf] own_rows_ids [OF same] by simp
  with same other_step_db [OF step(2), THEN db_step_wf, OF wf] show ?case by simp
qed simp

text \<open>In a well-formed database the devices of an account are those its rows list.\<close>

lemma owners_listed:
  assumes "wf_db s"
  shows "owned_by uid s d \<longleftrightarrow> d \<in> owned_ids uid s" and "owner_of s d = Some uid \<longleftrightarrow> d \<in> owned_ids uid s"
proof -
  show "owned_by uid s d \<longleftrightarrow> d \<in> owned_ids uid s"
    by (auto simp: owned_by_def owned_ids_def select_where_def owned_def list_ex_iff)
  have found: "fetchone (select_where (\<lambda>r. d_id r = d_id q) (devices s)) = Some q" if "q \<in> set (devices s)" for q
    using assms that by (intro fetchone_uniq [where key = d_id]) (simp_all add: wf_db_def wf_keys_def)
  show "owner_of s d = Some uid \<longleftrightarrow> d \<in> owned_ids uid s"
    unfolding owner_of_def owned_ids_def set_select_where by (auto simp: found dest!: fetchone_Some)
qed

lemma others_same_account:
  assumes "wf_db (h_db h)" and "(other_step uid)\<^sup>*\<^sup>* (h_db h) (h_db h')"
    and "\<forall>d \<in> owned_ids uid (h_db h). d \<in> online_ids h \<longleftrightarrow> d \<in> online_ids h'"
    and "h_cfg h = h_cfg h'" "h_url_file h = h_url_file h'" "h_url_cache h = h_url_cache h'"
  shows "same_account uid h h'"
proof -
  have wf: "wf_db (h_db h')" and rows: "own_rows uid (owned_ids uid (h_db h)) (h_db h') = own_rows uid (owned_ids uid (h_db h)) (h_db h)"
    using other_steps_rows [OF assms(2,1)] by blast+
  note ids = own_rows_ids [OF rows]
  show ?thesis
    using rows assms(3-) unfolding same_account_def Let_def owners_listed [OF wf] owners_listed [OF assms(1)] ids
    by (simp add: own_rows_def)
qed


text \<open>The hub of the examples after bob signed up and enrolled a device, which connected and wrote a file.\<close>

definition bob_joined :: db where
  "bob_joined = snd (create_user (\<lambda>pw salt n. pw) ''bob'' ''pw'' False [] 120 (h_db signed_in))"

definition bob_enrolled :: db where
  "bob_enrolled = snd (create_device (\<lambda>bs. bs) ''d9'' 2 ''tablet'' ''t9'' None 130 bob_joined)"

definition crowded :: hub where
  "crowded = signed_in\<lparr>h_db := snd (record_audit ''file_write'' (Some 2) (Some 2) (Some ''bob'') (Some ''d9'') None None
       True 140 bob_enrolled), h_conns := (''d9'', 1) # h_conns signed_in\<rparr>"

lemma crowded_by_others: "(other_step 1)\<^sup>*\<^sup>* (h_db signed_in) (h_db crowded)"
proof -
  have "other_step 1 (h_db signed_in) bob_joined" unfolding bob_joined_def by (rule signs_up)
  moreover have "other_step 1 bob_joined bob_enrolled" unfolding bob_enrolled_def by (rule enrolls) simp
  moreover have "other_step 1 bob_enrolled (h_db crowded)" by (simp add: crowded_def is_logged)
  ultimately show ?thesis by (meson converse_rtranclp_into_rtranclp r_into_rtranclp)
qed

text \<open>The same, evaluated but for the hash \<open>ph\<close> of bob's password.\<close>

definition crowd :: "string \<Rightarrow> hub" where
  "crowd ph = signed_in\<lparr>h_db := (h_db signed_in)\<lparr>
     users := users (h_db signed_in) @ [\<lparr>u_id = 2, u_username = ''bob'', u_password_hash = ph, u_is_admin = 0, u_created_at = 120\<rparr>],
     user_seq := 2,
     devices := devices (h_db signed_in) @ [\<lparr>d_id = ''d9'', d_owner_id = 2, d_name = ''tablet'',
       d_token_hash = hash_token (\<lambda>bs. bs) ''t9'', d_paired_at = 130, d_last_seen = None, d_characteristics = None\<rparr>],
     audit_log := audit_log (h_db signed_in) @ [\<lparr>au_id = 1, au_ts = 140, au_owner_id = Some 2,
       au_actor_id = Some 2, au_actor_name = Some ''bob'', au_device_id = Some ''d9'', au_action = ''file_write'',
       au_detail = Some [], au_node_url = None, au_ok = 1\<rparr>], audit_seq := 1\<rparr>, h_conns := (''d9'', 1) # h_conns signed_in\<rparr>"

lemma crowded_eval: "crowded = crowd (hash_password (\<lambda>pw salt n. pw) ''pw'' [])"
proof -
  have demo: "answers (h_db signed_in)" "\<not> has_key u_username ''bob'' (users (h_db signed_in))" "user_seq (h_db signed_in) = 1"
    "\<not> has_key d_id ''d9'' (devices (h_db signed_in))" "audit_seq (h_db signed_in) = 0" by code_simp+
  then have bob: "bob_enrolled = (h_db signed_in)\<lparr>users := users (h_db (crowd (hash_password (\<lambda>pw salt n. pw) ''pw'' []))),
      user_seq := 2, devices := devices (h_db (crowd []))\<rparr>"
    by (auto simp: bob_enrolled_def bob_joined_def create_user_def create_device_def db_write_def constraint_def answers_def
      fk_user_def has_key_def Let_def crowd_def split: option.splits)
  show ?thesis
    using demo(1,5) unfolding crowded_def bob by (auto simp: record_audit_def catch_def db_write_def answers_def opt_str_def crowd_def split: option.splits)
qed


end
