(* ===== verification/PortalAuth.thy ===== *)
theory PortalAuth
  imports RateLimit Crypto Json
begin

text \<open>
  The single-user portal (\<^verbatim>\<open>app_v1.py\<close>), its door: the settings read from an \<^verbatim>\<open>.env\<close> file at start, the
  password, the limiter of failed attempts with its loops as they are written, and \<open>require_auth\<close>. The
  limiter is shown to be the one of the hub.
\<close>

section \<open>Settings\<close>

text \<open>\<open>_load_env\<close> on the text of the file, if there is one; the last line of a key counts.\<close>

definition env_line :: "string \<Rightarrow> (string \<times> string) list \<Rightarrow> (string \<times> string) list" where
  "env_line line d = (if line = [] \<or> startswith ''#'' line then d
     else case partition_at (CHR ''='') line of (k, None) \<Rightarrow> d | (k, Some v) \<Rightarrow> dict_put (strip k) v d)"

definition load_env :: "string option \<Rightarrow> (string \<times> string) list" where
  "load_env file = (case file of None \<Rightarrow> [] | Some t \<Rightarrow> fold env_line (splitlines t) [])"

text \<open>The settings; \<open>locate\<close> is the path a text resolves to, \<open>home\<close> the default of the storage root.\<close>

record 'p portal_env =
  AUTH_USER :: string
  AUTH_HASH :: string
  AUTH_PASS :: string
  LOCAL_NAME :: string
  STORAGE_ROOT :: 'p

definition env_or :: "(string \<times> string) list \<Rightarrow> string \<Rightarrow> string \<Rightarrow> string" where
  "env_or env k dflt = (case map_of env k of None \<Rightarrow> dflt | Some v \<Rightarrow> v)"

definition portal_settings :: "(string \<Rightarrow> 'p) \<Rightarrow> string \<Rightarrow> string option \<Rightarrow> 'p portal_env" where
  "portal_settings locate home file = (let env = load_env file in
     \<lparr>AUTH_USER = env_or env ''AUTH_USER'' [], AUTH_HASH = env_or env ''AUTH_HASH'' [],
      AUTH_PASS = env_or env ''AUTH_PASS'' [], LOCAL_NAME = env_or env ''LOCAL_NAME'' ''This Device'',
      STORAGE_ROOT = locate (or_str (env_or env ''STORAGE_ROOT'' []) home)\<rparr>)"

section \<open>The password\<close>

text \<open>The \<open>try\<close> covers the parsing of the stored hash, not the derivation.\<close>

definition portal_verify :: "kdf_fn \<Rightarrow> 'p portal_env \<Rightarrow> string \<Rightarrow> exn + bool" where
  "portal_verify P c password =
     (if AUTH_HASH c \<noteq> [] then
        (case split_max (CHR ''$'') 3 (AUTH_HASH c) of
           [algo, iters_s, salt_b64, digest_b64] \<Rightarrow>
             if algo \<noteq> ''pbkdf2_sha256'' then Inr False
             else (case py_int iters_s of None \<Rightarrow> Inr False
               | Some iters \<Rightarrow> (case b64decode salt_b64 of None \<Rightarrow> Inr False
                 | Some salt \<Rightarrow> (case b64decode digest_b64 of None \<Rightarrow> Inr False
                   | Some expected \<Rightarrow> (case pbkdf2_hmac P (encode password) salt iters of
                       Inl e \<Rightarrow> Inl e | Inr candidate \<Rightarrow> Inr (candidate = expected)))))
         | _ \<Rightarrow> Inr False)
      else if AUTH_PASS c \<noteq> [] then Inr (encode password = encode (AUTH_PASS c))
      else Inr False)"

section \<open>The limiter\<close>

definition portal_rate_check :: "string \<Rightarrow> rat \<Rightarrow> rate \<Rightarrow> rat \<times> rate" where
  "portal_rate_check ip now s = (case map_of (block_until s) ip of
     None \<Rightarrow> (0, s)
   | Some u \<Rightarrow> if u > now then (u - now, s)
       else (0, s\<lparr>block_until := dict_pop ip (block_until s), fail_log := dict_pop ip (fail_log s)\<rparr>))"

text \<open>The bodies of the two loops of the clean-up.\<close>

definition sweep_log :: "rat \<Rightarrow> string \<Rightarrow> rate \<Rightarrow> rate" where
  "sweep_log cutoff k s = (let l = drop_old cutoff (log_of s k) in
     if l = [] then s\<lparr>fail_log := dict_pop k (fail_log s)\<rparr> else s\<lparr>fail_log := dict_put k l (fail_log s)\<rparr>)"

definition sweep_block :: "rat \<Rightarrow> string \<times> rat \<Rightarrow> rate \<Rightarrow> rate" where
  "sweep_block now ku s = (if snd ku \<le> now then s\<lparr>block_until := dict_pop (fst ku) (block_until s)\<rparr> else s)"

definition portal_rate_fail :: "string \<Rightarrow> rat \<Rightarrow> rate \<Rightarrow> rate" where
  "portal_rate_fail ip now s =
     (let s = (if length (fail_log s) > MAX_TRACKED
               then (let t = fold (sweep_log (now - RATE_WINDOW)) (map fst (fail_log s)) s
                     in fold (sweep_block now) (block_until t) t)
               else s);
          log = drop_old (now - RATE_WINDOW) (log_of s ip) @ [now]
      in if RATE_MAX \<le> length log
         then s\<lparr>block_until := dict_put ip (now + RATE_BLOCK) (block_until s), fail_log := dict_put ip [] (fail_log s)\<rparr>
         else s\<lparr>fail_log := dict_put ip log (fail_log s)\<rparr>)"

definition portal_rate_clear :: "string \<Rightarrow> rate \<Rightarrow> rate" where
  "portal_rate_clear ip s = s\<lparr>fail_log := dict_pop ip (fail_log s), block_until := dict_pop ip (block_until s)\<rparr>"

section \<open>The door\<close>

text \<open>
  What \<open>require_auth\<close> comes to: let in, refused with the seconds to wait in \<^verbatim>\<open>Retry-After\<close>, or refused.
\<close>

datatype gate = Enter | TooMany int | Unauthorized

definition require_auth ::
  "kdf_fn \<Rightarrow> 'p portal_env \<Rightarrow> string \<Rightarrow> rat \<Rightarrow> (string \<times> string) option \<Rightarrow> (rate, gate) op" where
  "require_auth P c ip now creds s = (case portal_rate_check ip now s of (retry, s) \<Rightarrow>
     if 0 < retry then (Inr (TooMany (\<lfloor>retry\<rfloor> + 1)), s)
     else case creds of None \<Rightarrow> (Inr Unauthorized, s)
     | Some (user, password) \<Rightarrow>
         if AUTH_USER c = [] then (Inr Unauthorized, s)
         else (case portal_verify P c password of
             Inl e \<Rightarrow> (Inl e, s)
           | Inr pass_ok \<Rightarrow>
               if \<not> (user = AUTH_USER c \<and> pass_ok) then (Inr Unauthorized, portal_rate_fail ip now s)
               else (Inr Enter, portal_rate_clear ip s)))"

section \<open>The limiter is the hub's\<close>

lemma dict_pop_here:
  "k \<notin> fst ` set pre \<Longrightarrow> k \<notin> fst ` set r \<Longrightarrow> dict_pop k (pre @ (k, v) # r) = pre @ r"
proof -
  have "filter (\<lambda>(j, _). j \<noteq> k) d = d" if "k \<notin> fst ` set d" for d :: "('a \<times> 'b) list"
    using that by (induction d) auto
  then show "k \<notin> fst ` set pre \<Longrightarrow> k \<notin> fst ` set r \<Longrightarrow> dict_pop k (pre @ (k, v) # r) = pre @ r"
    by (simp add: dict_pop_def)
qed

lemma dict_put_here:
  "k \<notin> fst ` set pre \<Longrightarrow> dict_put k w (pre @ (k, v) # r) = pre @ (k, w) # r"
  by (induction pre) auto

lemma sweep_log_all:
  "fail_log s = pre @ r \<Longrightarrow> distinct (map fst (pre @ r)) \<Longrightarrow>
    fold (sweep_log cutoff) (map fst r) s =
      s\<lparr>fail_log := pre @ filter (\<lambda>(_, l). l \<noteq> []) (map (\<lambda>(k, l). (k, drop_old cutoff l)) r)\<rparr>"
proof (induction r arbitrary: pre s)
  case Nil
  then show ?case by simp
next
  case (Cons kl r)
  obtain k l where kl: "kl = (k, l)" by (cases kl)
  have new: "k \<notin> fst ` set pre" "k \<notin> fst ` set r" using Cons.prems(2) kl by auto
  then have "map_of pre k = None" by (simp add: map_of_eq_None_iff)
  then have here: "log_of s k = l"
    using Cons.prems(1) kl by (simp add: log_of_def map_add_def)
  show ?case
  proof (cases "drop_old cutoff l = []")
    case True
    let ?t = "sweep_log cutoff k s"
    have "?t = s\<lparr>fail_log := pre @ r\<rparr>"
      using True here new Cons.prems(1) kl by (simp add: sweep_log_def dict_pop_here)
    with Cons.IH [of ?t pre] Cons.prems(2) True kl show ?thesis by simp
  next
    case False
    let ?t = "sweep_log cutoff k s"
    have "?t = s\<lparr>fail_log := (pre @ [(k, drop_old cutoff l)]) @ r\<rparr>"
      using False here new Cons.prems(1) kl by (simp add: sweep_log_def Let_def dict_put_here)
    with Cons.IH [of ?t "pre @ [(k, drop_old cutoff l)]"] Cons.prems(2) False kl show ?thesis by simp
  qed
qed

lemma sweep_block_all:
  "block_until s = pre @ r \<Longrightarrow> distinct (map fst (pre @ r)) \<Longrightarrow>
    fold (sweep_block now) r s = s\<lparr>block_until := pre @ filter (\<lambda>(_, u). now < u) r\<rparr>"
proof (induction r arbitrary: pre s)
  case Nil
  then show ?case by simp
next
  case (Cons ku r)
  obtain k u where ku: "ku = (k, u)" by (cases ku)
  have new: "k \<notin> fst ` set pre" "k \<notin> fst ` set r" using Cons.prems(2) ku by auto
  show ?case
  proof (cases "u \<le> now")
    case True
    let ?t = "sweep_block now ku s"
    have "?t = s\<lparr>block_until := pre @ r\<rparr>"
      using True new Cons.prems(1) ku by (simp add: sweep_block_def dict_pop_here)
    with Cons.IH [of ?t pre] Cons.prems(2) True ku show ?thesis by simp
  next
    case False
    then have "sweep_block now ku s = s" by (simp add: sweep_block_def ku)
    with Cons.IH [of s "pre @ [ku]"] Cons.prems False ku show ?thesis by simp
  qed
qed

lemma portal_clean:
  assumes "distinct (map fst (fail_log s))" and "distinct (map fst (block_until s))"
    and "t = fold (sweep_log (now - RATE_WINDOW)) (map fst (fail_log s)) s"
  shows "fold (sweep_block now) (block_until t) t = clean_rate now s"
proof -
  have "t = s\<lparr>fail_log := filter (\<lambda>(_, l). l \<noteq> []) (map (\<lambda>(k, l). (k, drop_old (now - RATE_WINDOW) l)) (fail_log s))\<rparr>"
    using sweep_log_all [of s "[]"] assms(1,3) by simp
  then show ?thesis
    using sweep_block_all [of t "[]"] assms(2) by (simp add: clean_rate_def)
qed

lemma portal_rate_same:
  "portal_rate_check ip now s = rate_check ip now s" "portal_rate_clear ip s = rate_clear ip s"
  by (simp_all add: portal_rate_check_def rate_check_def portal_rate_clear_def rate_clear_def)

lemma portal_fail_same:
  assumes "distinct (map fst (fail_log s))" and "distinct (map fst (block_until s))"
  shows "portal_rate_fail ip now s = rate_record_fail ip now s"
proof -
  have "(let t = fold (sweep_log (now - RATE_WINDOW)) (map fst (fail_log s)) s in fold (sweep_block now) (block_until t) t) =
      clean_rate now s"
    using portal_clean [OF assms refl] by (simp only: Let_def)
  then show ?thesis by (simp only: portal_rate_fail_def rate_record_fail_def log_of_def Let_def)
qed

text \<open>What the door answers a sequence of requests.\<close>

fun knocks ::
  "kdf_fn \<Rightarrow> 'p portal_env \<Rightarrow> (string \<times> rat \<times> (string \<times> string)) list \<Rightarrow> rate \<Rightarrow> (exn + gate) list" where
  "knocks P c [] s = []"
| "knocks P c ((ip, now, creds) # xs) s =
     (case require_auth P c ip now (Some creds) s of (g, t) \<Rightarrow> g # knocks P c xs t)"

definition right_creds :: "kdf_fn \<Rightarrow> 'p portal_env \<Rightarrow> string \<times> string \<Rightarrow> bool" where
  "right_creds P c creds \<longleftrightarrow> fst creds = AUTH_USER c \<and> portal_verify P c (snd creds) = Inr True"

definition gate_of :: "verdict \<Rightarrow> gate" where
  "gate_of v = (case v of Refused left \<Rightarrow> TooMany (\<lfloor>left\<rfloor> + 1) | Accepted \<Rightarrow> Enter | Denied \<Rightarrow> Unauthorized)"

definition keyed :: "rate \<Rightarrow> bool" where
  "keyed s \<longleftrightarrow> distinct (map fst (fail_log s)) \<and> distinct (map fst (block_until s))"

lemma keyed_clean: "keyed s \<Longrightarrow> keyed (clean_rate now s)"
  using clean_keys [of "drop_old (now - RATE_WINDOW)" "fail_log s"]
  by (auto simp: keyed_def clean_rate_def simp del: map_map intro!: distinct_map_filter)

lemma keyed_check: "keyed s \<Longrightarrow> keyed (snd (rate_check ip now s))"
  by (auto simp: rate_check_def keyed_def split: option.split)

lemma keyed_clear: "keyed s \<Longrightarrow> keyed (rate_clear ip s)"
  by (auto simp: rate_clear_def keyed_def)

lemma keyed_fail: "keyed s \<Longrightarrow> keyed (rate_record_fail ip now s)"
proof -
  assume "keyed s"
  then have "keyed (if MAX_TRACKED < length (fail_log s) then clean_rate now s else s)" by (simp add: keyed_clean)
  then show ?thesis by (simp add: rate_record_fail_def Let_def keyed_def)
qed

lemma keyed_attempt: "keyed s \<Longrightarrow> keyed (snd (attempt ip now good s))"
  using keyed_check [of s ip now]
  by (auto simp: attempt_def keyed_clear keyed_fail split: prod.split)

lemma require_auth_attempt:
  assumes "keyed s" and "AUTH_USER c \<noteq> []" and "portal_verify P c (snd creds) = Inr b"
    and "attempt ip now (right_creds P c creds) s = (v, t)"
  shows "require_auth P c ip now (Some creds) s = (Inr (gate_of v), t)"
proof -
  have "keyed (snd (rate_check ip now s))" by (rule keyed_check [OF assms(1)])
  then have "portal_rate_fail ip now (snd (rate_check ip now s)) = rate_record_fail ip now (snd (rate_check ip now s))"
    by (intro portal_fail_same) (simp_all add: keyed_def)
  with assms(2-4) show ?thesis
    by (cases creds) (auto simp: require_auth_def attempt_def portal_rate_same right_creds_def gate_of_def split: prod.splits if_splits)
qed

lemma knocks_attempts:
  assumes "keyed s" and "AUTH_USER c \<noteq> []" and "\<forall>(ip, now, creds) \<in> set xs. \<exists>b. portal_verify P c (snd creds) = Inr b"
  shows "knocks P c xs s = map (Inr \<circ> gate_of) (attempt_seq (map (\<lambda>(ip, now, creds). (ip, now, right_creds P c creds)) xs) s)"
  using assms(1,3)
proof (induction xs arbitrary: s)
  case (Cons x xs)
  obtain ip now creds where x: "x = (ip, now, creds)" by (cases x)
  obtain v t where a: "attempt ip now (right_creds P c creds) s = (v, t)" by fastforce
  with Cons.prems assms(2) x have "require_auth P c ip now (Some creds) s = (Inr (gate_of v), t)"
    by (auto intro: require_auth_attempt)
  moreover have "keyed t" using keyed_attempt [OF Cons.prems(1), of ip now "right_creds P c creds"] a by simp
  ultimately show ?case using Cons a x by simp
qed simp

section \<open>Properties\<close>

text \<open>
  C35: the door of the portal is fair. The tables of the portal's limiter are cleaned by loops of their own,
  but to requests in the order of their times the door answers each address what a limiter that watches
  that address alone and never forgets answers: let in on the right credentials, refused on others, and
  after five failures within a minute refused for five minutes whatever is sent, with the seconds left.
\<close>

theorem portal_door_fair:
  assumes "sorted (map (\<lambda>(ip, now, creds). now) xs)" and "AUTH_USER c \<noteq> []"
    and "\<forall>(ip, now, creds) \<in> set xs. \<exists>b. portal_verify P c (snd creds) = Inr b"
  shows "knocks P c xs empty_rate =
    map (Inr \<circ> gate_of) (ref_seq (map (\<lambda>(ip, now, creds). (ip, now, right_creds P c creds)) xs) (\<lambda>_. ([], None)))"
proof -
  have "keyed empty_rate" by (simp add: keyed_def empty_rate_def)
  moreover have "times (map (\<lambda>(ip, now, creds). (ip, now, right_creds P c creds)) xs) = map (\<lambda>(ip, now, creds). now) xs"
    by (simp add: times_def split_beta comp_def)
  ultimately show ?thesis
    using assms(1) by (simp add: knocks_attempts [OF _ assms(2,3)] attempt_seq_empty)
qed


definition owner_settings :: "string portal_env" where
  "owner_settings = portal_settings id ''/sd'' (Some (''# portal'' @ [CHR 0x0A] @ ''AUTH_USER=ann'' @ [CHR 0x0A] @ ''AUTH_PASS=pw''))"

lemma owner_settings_eq: "AUTH_USER owner_settings = ''ann''" "AUTH_HASH owner_settings = []" "AUTH_PASS owner_settings = ''pw''"
  by code_simp+

theorem portal_door_fair_witness:
  "knocks (\<lambda>_ _ _. []) owner_settings [(''a'', 0, (''ann'', ''x'')), (''a'', 1, (''ann'', ''pw''))] empty_rate =
    map (Inr \<circ> gate_of) (ref_seq [(''a'', 0, False), (''a'', 1, True)] (\<lambda>_. ([], None)))"
proof -
  have v: "portal_verify (\<lambda>_ _ _. []) owner_settings p = Inr (encode p = encode ''pw'')" for p
    by (simp add: portal_verify_def owner_settings_eq)
  have "encode ''x'' \<noteq> encode ''pw''" by code_simp
  with v portal_door_fair [of "[(''a'', 0, (''ann'', ''x'')), (''a'', 1, (''ann'', ''pw''))]" owner_settings "\<lambda>_ _ _. []"]
  show ?thesis by (simp add: right_creds_def owner_settings_eq)
qed

end
