(* ===== verification/Portal.thy ===== *)
theory Portal
  imports PortalAuth AgentFiles Html
begin

text \<open>
  The single-user portal (\<^verbatim>\<open>app_v1.py\<close>) behind its door: the saved devices in a JSON file, the browser of
  the local files, the proxy to the portal of another device, the pages, and the routes. Paths and files
  are those of \<open>AgentFiles\<close>; what \<open>Path.resolve\<close> makes of a path, the style sheet, and what comes back
  when a request is sent to another address are parameters.
\<close>

section \<open>Saved devices\<close>

text \<open>The file of the devices: not there, not readable as JSON, or holding a value.\<close>

datatype devices_file = NoFile | BadFile | JsonFile json

record portal =
  po_rate :: rate
  po_devices :: devices_file

text \<open>What Python iterates over in a value.\<close>

definition iter_json :: "json \<Rightarrow> exn + json list" where
  "iter_json v = (case v of JArr xs \<Rightarrow> Inr xs | JObj kvs \<Rightarrow> Inr (map (\<lambda>(k, _). JStr k) kvs)
     | JStr s \<Rightarrow> Inr (map (\<lambda>c. JStr [c]) s) | _ \<Rightarrow> Inl TypeError)"

definition load_devices :: "devices_file \<Rightarrow> json" where
  "load_devices f = (case f of JsonFile (JObj d) \<Rightarrow> jget_default d ''devices'' (JArr []) | _ \<Rightarrow> JArr [])"

text \<open>The file is replaced whole, or writing fails and it stays.\<close>

definition save_devices :: "exn option \<Rightarrow> json list \<Rightarrow> (portal, unit) op" where
  "save_devices fails ds = (case fails of Some e \<Rightarrow> raise e
     | None \<Rightarrow> modify (\<lambda>s. s\<lparr>po_devices := JsonFile (JObj [(''devices'', JArr ds)])\<rparr>))"

fun find_in :: "string \<Rightarrow> json list \<Rightarrow> exn + (string \<times> json) list option" where
  "find_in i [] = Inr None"
| "find_in i (JObj d # ds) = (if is_str i (jget d ''id'') then Inr (Some d) else find_in i ds)"
| "find_in i (_ # ds) = Inl AttributeError"

definition find_device :: "string \<Rightarrow> (portal, (string \<times> json) list option) op" where
  "find_device i = bindE (asks (\<lambda>s. load_devices (po_devices s))) (\<lambda>v.
     bindE (liftE (iter_json v)) (\<lambda>ds. liftE (find_in i ds)))"

text \<open>\<open>str(d.get(k, x))\<close> where only text is accepted.\<close>

definition text_or :: "(string \<times> json) list \<Rightarrow> string \<Rightarrow> string \<Rightarrow> exn + string" where
  "text_or d k x = (case jget_default d k (JStr x) of JStr s \<Rightarrow> Inr s | _ \<Rightarrow> Inl AttributeError)"

section \<open>Pages\<close>

text \<open>\<open>map\<close> over entries any of which may raise; an entry that is no dictionary does.\<close>

fun map_dicts :: "((string \<times> json) list \<Rightarrow> exn + 'a) \<Rightarrow> json list \<Rightarrow> exn + 'a list" where
  "map_dicts f [] = Inr []"
| "map_dicts f (JObj d # ds) = (case f d of Inl e \<Rightarrow> Inl e
     | Inr a \<Rightarrow> (case map_dicts f ds of Inl e \<Rightarrow> Inl e | Inr as \<Rightarrow> Inr (a # as)))"
| "map_dicts f (_ # ds) = Inl AttributeError"

definition portal_nav :: "string \<Rightarrow> string \<times> string \<Rightarrow> string" where
  "portal_nav active item = (case item of (href, label) \<Rightarrow>
     ''<a class=\"'' @ (if href = active then ''active'' else []) @ ''\" href=\"'' @ href @ ''\">'' @ escape label @ ''</a>'')"

definition portal_layout ::
  "string \<Rightarrow> string \<Rightarrow> string \<Rightarrow> string \<Rightarrow> string \<Rightarrow> string" where
  "portal_layout css name title body active =
     (let nav = concat (map (portal_nav active)
       [(''/dashboard/'', ''Dashboard''), (''/devices'', ''Devices''), (''/local/files/'', ''Local Files'')]) in
     ''<!doctype html>\<newline>'' @
     ''<html lang=\"en\"><head><meta charset=\"utf-8\">\<newline>'' @
     ''<meta name=\"viewport\" content=\"width=device-width, initial-scale=1\">\<newline>'' @
     ''<title>'' @ escape title @ '' '' @ utf8 [0xE2, 0x80, 0x94] @ '' Vortex Remote</title>\<newline>'' @
     ''<style>'' @ css @ ''</style>\<newline>'' @
     ''</head><body>\<newline>'' @
     ''<header class=\"topbar\">\<newline>'' @
     ''  <div class=\"brand\">\<newline>'' @
     ''    <span class=\"logo\"></span>\<newline>'' @
     ''    <h1>Vortex<span class=\"accent\">Remote</span></h1>\<newline>'' @
     ''  </div>\<newline>'' @
     ''  <nav>'' @ nav @ ''</nav>\<newline>'' @
     ''</header>\<newline>'' @
     ''<main>'' @ body @ ''</main>\<newline>'' @
     ''<footer>VORTEX REMOTE V'' @ ''1.2'' @ '' '' @ [CHR 0xB7] @ '' '' @ escape name @ ''</footer>\<newline>'' @
     ''</body></html>'')"

definition dashboard_card ::
  "(string \<times> json) list \<Rightarrow> exn + string" where
  "dashboard_card kv =
     (case text_or kv ''id'' [] of Inl e \<Rightarrow> Inl e | Inr did \<Rightarrow>
      (case text_or kv ''name'' ''Unnamed'' of Inl e \<Rightarrow> Inl e | Inr name \<Rightarrow>
      (case text_or kv ''url'' [] of Inl e \<Rightarrow> Inl e | Inr url \<Rightarrow> Inr (
     ''<div class=\"card\" data-device-id=\"'' @ escape did @ ''\">\<newline>'' @
     ''  <div style=\"display:flex;justify-content:space-between;align-items:start;margin-bottom:.5rem\">\<newline>'' @
     ''    <h3 style=\"margin:0\">'' @ escape name @ ''</h3>\<newline>'' @
     ''    <span class=\"badge unknown\" data-status>Checking</span>\<newline>'' @
     ''  </div>\<newline>'' @
     ''  <p class=\"url\">'' @ escape url @ ''</p>\<newline>'' @
     ''  <div class=\"actions\">\<newline>'' @
     ''    <a class=\"btn btn-primary\" href=\"/devices/'' @ escape did @ ''/files/\">Browse Files</a>\<newline>'' @
     ''  </div>\<newline>'' @
     ''</div>''))))"

definition render_dashboard ::
  "string \<Rightarrow> string \<Rightarrow> json list \<Rightarrow> exn + string" where
  "render_dashboard css name ds =
     (case map_dicts dashboard_card ds of Inl e \<Rightarrow> Inl e | Inr cards \<Rightarrow>
      let own =
     ''<div class=\"card local\">\<newline>'' @
     ''  <h3>'' @ escape name @ ''</h3>\<newline>'' @
     ''  <p class=\"url\">localhost '' @ [CHR 0xB7] @ '' this device</p>\<newline>'' @
     ''  <div class=\"actions\">\<newline>'' @
     ''    <a class=\"btn btn-primary\" href=\"/local/files/\">Browse Files</a>\<newline>'' @
     ''  </div>\<newline>'' @
     ''</div>'' in
      Inr (portal_layout css name ''Dashboard'' (
     ''\<newline>'' @
     ''<div class=\"section-head\">\<newline>'' @
     ''  <h2>// Devices</h2>\<newline>'' @
     ''  <a class=\"btn\" href=\"/devices\">+ Add Device</a>\<newline>'' @
     ''</div>\<newline>'' @
     ''<div class=\"grid\">'' @ concat (own # cards) @ ''</div>\<newline>'' @
     ''<script>\<newline>'' @
     ''async function pollStatuses() {\<newline>'' @
     ''  const cards = document.querySelectorAll('[data-device-id]');\<newline>'' @
     ''  await Promise.all(Array.from(cards).map(async card => {\<newline>'' @
     ''    const id = card.dataset.deviceId;\<newline>'' @
     ''    const badge = card.querySelector('[data-status]');\<newline>'' @
     ''    if (!badge) return;\<newline>'' @
     ''    try {\<newline>'' @
     ''      const r = await fetch(`/devices/${id}/health`, {cache: 'no-store'});\<newline>'' @
     ''      if (r.ok) { badge.className = 'badge online'; badge.textContent = 'Online'; }\<newline>'' @
     ''      else { badge.className = 'badge offline'; badge.textContent = 'Offline'; }\<newline>'' @
     ''    } catch (e) {\<newline>'' @
     ''      badge.className = 'badge offline'; badge.textContent = 'Offline';\<newline>'' @
     ''    }\<newline>'' @
     ''  }));\<newline>'' @
     ''}\<newline>'' @
     ''pollStatuses();\<newline>'' @
     ''setInterval(pollStatuses, 15000);\<newline>'' @
     ''</script>\<newline>'') ''/dashboard/''))"

definition device_row_card ::
  "(string \<times> json) list \<Rightarrow> exn + string" where
  "device_row_card kv =
     (case text_or kv ''id'' [] of Inl e \<Rightarrow> Inl e | Inr did \<Rightarrow>
      (case text_or kv ''name'' ''Unnamed'' of Inl e \<Rightarrow> Inl e | Inr name \<Rightarrow>
      (case text_or kv ''url'' [] of Inl e \<Rightarrow> Inl e | Inr url \<Rightarrow>
      (case text_or kv ''username'' [] of Inl e \<Rightarrow> Inl e | Inr user \<Rightarrow>
      (case text_or kv ''name'' [] of Inl e \<Rightarrow> Inl e | Inr name2 \<Rightarrow> Inr (
     ''<div class=\"card\">\<newline>'' @
     ''  <div style=\"display:flex;justify-content:space-between;align-items:start\">\<newline>'' @
     ''    <div style=\"flex:1;min-width:0\">\<newline>'' @
     ''      <h3 style=\"margin:0 0 .25rem\">'' @ escape name @ ''</h3>\<newline>'' @
     ''      <p class=\"url\">'' @ escape url @ ''</p>\<newline>'' @
     ''      <p class=\"url\">user: '' @ escape user @ ''</p>\<newline>'' @
     ''    </div>\<newline>'' @
     ''  </div>\<newline>'' @
     ''  <div class=\"actions\">\<newline>'' @
     ''    <a class=\"btn btn-primary\" href=\"/devices/'' @ escape did @ ''/files/\">Browse</a>\<newline>'' @
     ''    <form method=\"post\" action=\"/devices/'' @ escape did @ ''/delete\" style=\"display:inline;margin:0\">\<newline>'' @
     ''      <button class=\"btn btn-danger\" type=\"submit\"\<newline>'' @
     ''              onclick=\"return confirm('Delete '' @ escape name2 @ ''?')\">Delete</button>\<newline>'' @
     ''    </form>\<newline>'' @
     ''  </div>\<newline>'' @
     ''</div>''))))))"

definition render_devices_page ::
  "string \<Rightarrow> string \<Rightarrow> json list \<Rightarrow> exn + string" where
  "render_devices_page css name ds =
     (case map_dicts device_row_card ds of Inl e \<Rightarrow> Inl e | Inr rows \<Rightarrow>
      let list_html = (if rows \<noteq> [] then ''<div class=\"grid\">'' @ concat rows @ ''</div>''
       else ''<div class=\"empty\">\<newline>'' @
       ''  <h3>No saved devices</h3>\<newline>'' @
       ''  <p>Add a device below to control it from this dashboard.</p>\<newline>'' @
       ''</div>'') in
      Inr (portal_layout css name ''Devices'' (
     ''\<newline>'' @
     ''<div class=\"section-head\"><h2>// Saved Devices</h2></div>\<newline>'' @
     list_html @ ''\<newline>'' @
     ''\<newline>'' @
     ''<div class=\"section-head\" style=\"margin-top:2rem\"><h2>// Add Device</h2></div>\<newline>'' @
     ''<div class=\"card\" style=\"max-width:520px\">\<newline>'' @
     ''  <form method=\"post\" action=\"/devices\">\<newline>'' @
     ''    <label>Display name <input name=\"name\" required maxlength=\"80\"\<newline>'' @
     ''           placeholder=\"e.g. Pixel 8 Pro\"></label>\<newline>'' @
     ''    <label>Public URL <input name=\"url\" type=\"url\" required\<newline>'' @
     ''           placeholder=\"https://abc-123.trycloudflare.com\"></label>\<newline>'' @
     ''    <label>Username <input name=\"username\" required maxlength=\"80\"></label>\<newline>'' @
     ''    <label>Password <input name=\"password\" type=\"password\" required></label>\<newline>'' @
     ''    <button class=\"btn btn-primary\" type=\"submit\"\<newline>'' @
     ''            style=\"align-self:flex-start;margin-top:.5rem\">Save Device</button>\<newline>'' @
     ''  </form>\<newline>'' @
     ''</div>\<newline>'') ''/devices''))"

definition minimal_layout ::
  "string \<Rightarrow> string \<Rightarrow> string \<Rightarrow> string" where
  "minimal_layout css title body =
     ''<!doctype html>\<newline>'' @
     ''<html lang=\"en\"><head><meta charset=\"utf-8\">\<newline>'' @
     ''<meta name=\"viewport\" content=\"width=device-width, initial-scale=1\">\<newline>'' @
     ''<title>'' @ escape title @ '' '' @ utf8 [0xE2, 0x80, 0x94] @ '' Vortex Remote</title>\<newline>'' @
     ''<style>'' @ css @ ''</style>\<newline>'' @
     ''</head><body>'' @ body @ ''</body></html>''"

definition dir_row ::
  "string \<times> node \<Rightarrow> string" where
  "dir_row e =
     (case e of (p, n) \<Rightarrow>
      let is_dir = (n = Dir);
          name = p @ (if is_dir then ''/'' else []);
          href = quote p @ (if is_dir then ''/'' else []);
          size = (case n of Dir \<Rightarrow> [] | File bs \<Rightarrow> []) in
     ''<li><a href=\"'' @ href @ ''\">'' @ escape name @ ''</a><span class=\"size\">'' @ size @ ''</span></li>'')"

definition render_dir ::
  "string \<Rightarrow> string \<Rightarrow> (path \<Rightarrow> bool) \<Rightarrow> fs \<Rightarrow> path \<Rightarrow> string \<Rightarrow> exn + string" where
  "render_dir css name denied f target rel =
     (if denied target then Inl (HTTPException 403 ''Permission denied'')
      else let rows = (if rel \<noteq> [] then ''<li><a href=\"../\">../</a><span class=\"size\"></span></li>'' else []) @
             concat (map dir_row (order_by entry_key (children f target)));
           title_path = CHR ''/'' # rel in
      Inr (minimal_layout css (''Files '' @ title_path) (
     ''<div class=\"breadcrumbs\">\<newline>'' @
     ''  <span class=\"device-pill\">'' @ ''LOCAL'' @ ''</span>\<newline>'' @
     ''  <span>'' @ [CHR 0xB7] @ ''</span>\<newline>'' @
     ''  <strong>'' @ escape name @ ''</strong>\<newline>'' @
     ''  <span>:</span>\<newline>'' @
     ''  <span>'' @ escape title_path @ ''</span>\<newline>'' @
     ''</div>\<newline>'' @
     ''<main><ul class=\"dirlist\">'' @ rows @ ''</ul></main>'')))"

section \<open>Answers\<close>

text \<open>What the portal answers; the body of a stream is the pieces the other side sends.\<close>

datatype answer =
    Redirect int string
  | HtmlPage string
  | JsonReply int "(string \<times> json) list"
  | FileBody "byte list"
  | Streamed int "(string \<times> string) list" "byte list list"
  | Denied401
  | Denied429 int

text \<open>
  The surroundings of a portal: resolution of paths, the directories it may not list, the files, the style
  sheet, key derivation, new identifiers, whether the device file can be written, and what a request to
  another address with a user and a password comes to - a failure of the transport, or an answer.
\<close>

record upstream =
  up_status :: int
  up_headers :: "(string \<times> string) list"
  up_body :: "byte list list"

record world =
  wo_cfg :: "path portal_env"
  wo_resolve :: "path \<Rightarrow> path"
  wo_denied :: "path \<Rightarrow> bool"
  wo_fs :: fs
  wo_css :: string
  wo_kdf :: kdf_fn
  wo_fails :: "exn option"
  wo_send :: "string \<Rightarrow> (string \<times> string) option \<Rightarrow> string + upstream"

section \<open>Adding and deleting devices\<close>

text \<open>The form is checked, the devices are loaded, and written back with the new one; \<open>i\<close> is the new identifier.\<close>

definition clean_form :: "string \<Rightarrow> string \<Rightarrow> string \<Rightarrow> string \<Rightarrow> exn + (string \<times> string \<times> string \<times> string)" where
  "clean_form name url username password =
     (let name = take 80 (strip name); url = rstrip_slash (strip url); username = take 80 (strip username) in
      if name = [] \<or> url = [] \<or> username = [] \<or> password = [] then Inl (HTTPException 400 ''All fields required'')
      else if \<not> (startswith ''http://'' url \<or> startswith ''https://'' url) then Inl (HTTPException 400 ''URL must be http(s)://'')
      else Inr (name, url, username, password))"

definition device_entry :: "string \<Rightarrow> string \<times> string \<times> string \<times> string \<Rightarrow> json" where
  "device_entry i form = (case form of (name, url, username, password) \<Rightarrow>
     JObj [(''id'', JStr i), (''name'', JStr name), (''url'', JStr url), (''username'', JStr username),
       (''password'', JStr password)])"

definition add_device :: "world \<Rightarrow> string \<Rightarrow> string \<times> string \<times> string \<times> string \<Rightarrow> json \<Rightarrow> (portal, answer) op" where
  "add_device W i form v = (case v of
     JArr ds \<Rightarrow> thenE (save_devices (wo_fails W) (ds @ [device_entry i form])) (ret (Redirect 303 ''/devices''))
   | _ \<Rightarrow> raise AttributeError)"

definition devices_add :: "world \<Rightarrow> string \<Rightarrow> string \<Rightarrow> string \<Rightarrow> string \<Rightarrow> string \<Rightarrow> (portal, answer) op" where
  "devices_add W i name url username password =
     bindE (liftE (clean_form name url username password)) (\<lambda>form.
     bindE (asks (\<lambda>s. load_devices (po_devices s))) (add_device W i form))"

fun keep_others :: "string \<Rightarrow> json list \<Rightarrow> exn + json list" where
  "keep_others i [] = Inr []"
| "keep_others i (JObj d # ds) = (case keep_others i ds of Inl e \<Rightarrow> Inl e
     | Inr r \<Rightarrow> Inr (if is_str i (jget d ''id'') then r else JObj d # r))"
| "keep_others i (_ # ds) = Inl AttributeError"

definition devices_delete :: "world \<Rightarrow> string \<Rightarrow> (portal, answer) op" where
  "devices_delete W i = bindE (asks (\<lambda>s. load_devices (po_devices s))) (\<lambda>v.
     bindE (liftE (iter_json v)) (\<lambda>ds. bindE (liftE (keep_others i ds)) (\<lambda>r.
       thenE (save_devices (wo_fails W) r) (ret (Redirect 303 ''/devices'')))))"

section \<open>The local files\<close>

definition portal_resolve :: "world \<Rightarrow> string \<Rightarrow> exn + path" where
  "portal_resolve W rel = (let target = wo_resolve W (path_join (STORAGE_ROOT (wo_cfg W)) rel) in
     if below (STORAGE_ROOT (wo_cfg W)) target then Inr target else Inl (HTTPException 403 ''Forbidden''))"

definition local_browse :: "world \<Rightarrow> string \<Rightarrow> exn + answer" where
  "local_browse W rel = (case portal_resolve W rel of Inl e \<Rightarrow> Inl e
     | Inr target \<Rightarrow> (case node_at (wo_fs W) target of
         None \<Rightarrow> Inl (HTTPException 404 ''Not found'')
       | Some Dir \<Rightarrow>
           if rel \<noteq> [] \<and> \<not> endswith ''/'' rel then Inr (Redirect 307 (''/local/files/'' @ quote rel @ ''/''))
           else (case render_dir (wo_css W) (LOCAL_NAME (wo_cfg W)) (wo_denied W) (wo_fs W) target rel of
               Inl e \<Rightarrow> Inl e | Inr html \<Rightarrow> Inr (HtmlPage html))
       | Some (File bs) \<Rightarrow> Inr (FileBody bs)))"

section \<open>Other devices\<close>

text \<open>\<open>d[k]\<close> as a text to strip.\<close>

definition url_of :: "(string \<times> json) list \<Rightarrow> exn + string" where
  "url_of d = (case map_of d ''url'' of None \<Rightarrow> Inl KeyError | Some (JStr u) \<Rightarrow> Inr (rstrip_slash u) | Some _ \<Rightarrow> Inl AttributeError)"

definition device_health :: "world \<Rightarrow> string \<Rightarrow> (portal, answer) op" where
  "device_health W i = bindE (find_device i) (\<lambda>d. case d of
       None \<Rightarrow> raise (HTTPException 404 ''Device not found'')
     | Some d \<Rightarrow> bindE (liftE (url_of d)) (\<lambda>base. case wo_send W (base @ ''/health'') None of
         Inl _ \<Rightarrow> ret (JsonReply 502 [(''status'', JStr ''unreachable'')])
       | Inr r \<Rightarrow> if up_status r = 200 then ret (JsonReply 200 [(''status'', JStr ''up'')])
           else ret (JsonReply 502 [(''status'', JStr ''down''), (''code'', JInt (up_status r))])))"

definition is_redirect :: "upstream \<Rightarrow> bool" where
  "is_redirect r \<longleftrightarrow> up_status r \<in> {301, 302, 303, 307, 308} \<and> map_of (up_headers r) ''location'' \<noteq> None"

text \<open>The user and the password of a device, as the basic credentials take them.\<close>

definition basic_auth :: "(string \<times> json) list \<Rightarrow> exn + (string \<times> string)" where
  "basic_auth d = (case (jget_default d ''username'' (JStr []), jget_default d ''password'' (JStr [])) of
     (JStr u, JStr p) \<Rightarrow> Inr (u, p) | _ \<Rightarrow> Inl TypeError)"

text \<open>The path asked of the device: the path of the request after \<^verbatim>\<open>files/\<close>, with its last slash.\<close>

definition proxy_suffix :: "string \<Rightarrow> string \<Rightarrow> string" where
  "proxy_suffix path rel = (if endswith ''/'' path \<and> \<not> endswith ''/'' rel then rel @ ''/'' else rel)"

definition forwarded :: "string \<Rightarrow> upstream \<Rightarrow> answer" where
  "forwarded i r =
     (if is_redirect r then
        (let loc = opt_str (map_of (up_headers r) ''location'') in
         if startswith ''/files/'' loc then Redirect (up_status r) (''/devices/'' @ i @ loc)
         else Redirect (up_status r) loc)
      else Streamed (up_status r)
        ((''content-type'', (case map_of (up_headers r) ''content-type'' of None \<Rightarrow> ''application/octet-stream'' | Some t \<Rightarrow> t)) #
         (let cd = opt_str (map_of (up_headers r) ''content-disposition'') in
          if cd \<noteq> [] then [(''content-disposition'', cd)] else []))
        (up_body r))"

definition proxy_to_device :: "world \<Rightarrow> string \<Rightarrow> string \<Rightarrow> string \<Rightarrow> (portal, answer) op" where
  "proxy_to_device W i rel path = bindE (find_device i) (\<lambda>d. case d of
       None \<Rightarrow> raise (HTTPException 404 ''Device not found'')
     | Some d \<Rightarrow> bindE (liftE (url_of d)) (\<lambda>base.
         let suffix = proxy_suffix path rel;
             target = (if suffix \<noteq> [] then base @ ''/files/'' @ suffix else base @ ''/files/'') in
         bindE (liftE (basic_auth d)) (\<lambda>auth. case wo_send W target (Some auth) of
           Inl e \<Rightarrow> raise (HTTPException 502 (''Upstream error: '' @ e))
         | Inr r \<Rightarrow> ret (forwarded i r))))"

section \<open>Routes\<close>

text \<open>The routes that read, in the order in which they are declared; a path is as it arrives, decoded.\<close>

datatype route =
    Health | Root | Dashboard | DevicesPage | LocalRoot | Local string
  | DeviceHealth string | DeviceRoot string | DeviceFiles string string
  | LegacyRoot | Legacy string

text \<open>\<^verbatim>\<open>/devices/{id}/rest\<close>: the identifier is not empty and has no slash.\<close>

definition device_route :: "string \<Rightarrow> (string \<times> string) option" where
  "device_route path = (if startswith ''/devices/'' path then
       (let r = drop 9 path; i = takeWhile (\<lambda>c. c \<noteq> CHR ''/'') r in
        if i = [] then None else Some (i, drop (length i) r))
     else None)"

definition route_of :: "string \<Rightarrow> route option" where
  "route_of path =
     (if path = ''/health'' then Some Health else if path = ''/'' then Some Root
      else if path = ''/dashboard'' \<or> path = ''/dashboard/'' then Some Dashboard
      else if path = ''/devices'' then Some DevicesPage
      else if path = ''/local/files'' then Some LocalRoot
      else if startswith ''/local/files/'' path then Some (Local (drop 13 path))
      else case device_route path of
        Some (i, rest) \<Rightarrow>
          if rest = ''/health'' then Some (DeviceHealth i)
          else if rest = ''/files'' then Some (DeviceRoot i)
          else if startswith ''/files/'' rest then Some (DeviceFiles i (drop 7 rest))
          else None
      | None \<Rightarrow>
          if path = ''/files'' \<or> path = ''/files/'' then Some LegacyRoot
          else if startswith ''/files/'' path then Some (Legacy (drop 7 path))
          else None)"

definition page_of :: "exn + string \<Rightarrow> (portal, answer) op" where
  "page_of r = bindE (liftE r) (\<lambda>html. ret (HtmlPage html))"

definition rendered :: "(json list \<Rightarrow> exn + string) \<Rightarrow> (portal, answer) op" where
  "rendered f = bindE (asks (\<lambda>s. load_devices (po_devices s))) (\<lambda>v. bindE (liftE (iter_json v)) (\<lambda>ds. page_of (f ds)))"

definition handle_route :: "world \<Rightarrow> string \<Rightarrow> route \<Rightarrow> (portal, answer) op" where
  "handle_route W path r = (case r of
     Health \<Rightarrow> ret (JsonReply 200 [(''status'', JStr ''up''), (''version'', JStr ''1.2'')])
   | Root \<Rightarrow> ret (Redirect 307 ''/dashboard/'')
   | Dashboard \<Rightarrow> rendered (render_dashboard (wo_css W) (LOCAL_NAME (wo_cfg W)))
   | DevicesPage \<Rightarrow> rendered (render_devices_page (wo_css W) (LOCAL_NAME (wo_cfg W)))
   | LocalRoot \<Rightarrow> ret (Redirect 307 ''/local/files/'')
   | Local rel \<Rightarrow> liftE (local_browse W rel)
   | DeviceHealth i \<Rightarrow> device_health W i
   | DeviceRoot i \<Rightarrow> ret (Redirect 307 (''/devices/'' @ i @ ''/files/''))
   | DeviceFiles i rel \<Rightarrow> proxy_to_device W i rel path
   | LegacyRoot \<Rightarrow> ret (Redirect 307 ''/local/files/'')
   | Legacy rel \<Rightarrow> ret (Redirect 307 (''/local/files/'' @ quote rel)))"

text \<open>Every route but the first stands behind the door.\<close>

definition guarded ::
  "world \<Rightarrow> string \<Rightarrow> rat \<Rightarrow> (string \<times> string) option \<Rightarrow> (portal, answer) op \<Rightarrow> (portal, answer) op" where
  "guarded W ip now creds m =
     bindE (zoom po_rate (\<lambda>r s. s\<lparr>po_rate := r\<rparr>) (require_auth (wo_kdf W) (wo_cfg W) ip now creds)) (\<lambda>g. case g of
       Enter \<Rightarrow> m | TooMany n \<Rightarrow> ret (Denied429 n) | Unauthorized \<Rightarrow> ret Denied401)"

definition portal_get :: "world \<Rightarrow> string \<Rightarrow> rat \<Rightarrow> (string \<times> string) option \<Rightarrow> string \<Rightarrow> (portal, answer) op" where
  "portal_get W ip now creds path = (case route_of path of
     None \<Rightarrow> raise (HTTPException 404 ''Not Found'')
   | Some Health \<Rightarrow> handle_route W path Health
   | Some r \<Rightarrow> guarded W ip now creds (handle_route W path r))"

datatype form = AddForm string string string string string | DeleteForm string

definition portal_post :: "world \<Rightarrow> string \<Rightarrow> rat \<Rightarrow> (string \<times> string) option \<Rightarrow> form \<Rightarrow> (portal, answer) op" where
  "portal_post W ip now creds f = guarded W ip now creds (case f of
     AddForm i name url username password \<Rightarrow> devices_add W i name url username password
   | DeleteForm i \<Rightarrow> devices_delete W i)"


section \<open>Facts\<close>

lemma find_device_apply:
  "find_device i s = (case iter_json (load_devices (po_devices s)) of Inl e \<Rightarrow> Inl e | Inr ds \<Rightarrow> find_in i ds, s)"
  by (simp add: find_device_def bindE_def asks_def liftE_def split: sum.split)

lemma find_in_append:
  "find_in i ds = Inr None \<Longrightarrow> find_in i (ds @ es) = find_in i es"
  by (induction i ds rule: find_in.induct) (auto split: if_splits)

lemma save_devices_ok:
  "save_devices None ds s = (Inr (), s\<lparr>po_devices := JsonFile (JObj [(''devices'', JArr ds)])\<rparr>)"
  by (simp add: save_devices_def modify_def)

lemma load_saved [simp]: "load_devices (JsonFile (JObj [(''devices'', JArr ds)])) = JArr ds"
  by (simp add: load_devices_def)

lemma add_device_ok:
  "wo_fails W = None \<Longrightarrow> add_device W i form (JArr ds) s =
    (Inr (Redirect 303 ''/devices''), s\<lparr>po_devices := JsonFile (JObj [(''devices'', JArr (ds @ [device_entry i form]))])\<rparr>)"
  by (simp add: add_device_def thenE_def bindE_def save_devices_ok ret_def)

lemma proxy_apply:
  assumes "find_device i s = (Inr (Some d), s)" and "url_of d = Inr base" and "basic_auth d = Inr cr"
    and "wo_send W (base @ ''/files/'' @ proxy_suffix path rel) (Some cr) = Inr r"
  shows "proxy_to_device W i rel path s = (Inr (forwarded i r), s)"
proof -
  have "(if sfx \<noteq> [] then base @ ''/files/'' @ sfx else base @ ''/files/'') = base @ ''/files/'' @ sfx" for sfx by simp
  then show ?thesis using assms by (simp add: proxy_to_device_def bindE_def Let_def)
qed

lemma require_auth_enter:
  "require_auth P c ip now creds s = (Inr Enter, t) \<Longrightarrow> \<exists>u p. creds = Some (u, p) \<and> right_creds P c (u, p)"
  by (auto simp: require_auth_def right_creds_def split: prod.splits if_splits option.splits sum.splits)

lemma guarded_enter:
  assumes "guarded W ip now creds m s = (Inr a, t)" and "a \<noteq> Denied401" and "\<forall>n. a \<noteq> Denied429 n"
  shows "\<exists>u p r. creds = Some (u, p) \<and> right_creds (wo_kdf W) (wo_cfg W) (u, p) \<and> m (s\<lparr>po_rate := r\<rparr>) = (Inr a, t)"
proof -
  obtain g r where g: "require_auth (wo_kdf W) (wo_cfg W) ip now creds (po_rate s) = (g, r)" by fastforce
  with assms have "g = Inr Enter" and "m (s\<lparr>po_rate := r\<rparr>) = (Inr a, t)"
    by (auto simp: guarded_def bindE_def zoom_def ret_def split: sum.splits gate.splits)
  with g require_auth_enter show ?thesis by fastforce
qed

lemma local_browse_file:
  "local_browse W rel = Inr (FileBody bs) \<Longrightarrow>
    \<exists>p. below (STORAGE_ROOT (wo_cfg W)) p \<and> file_at (wo_fs W) p = Some bs"
  by (auto simp: local_browse_def portal_resolve_def Let_def file_at_def split: sum.splits option.splits node.splits if_splits)

lemma forwarded_not_file: "forwarded i r \<noteq> FileBody bs"
  by (simp add: forwarded_def Let_def)

lemma handle_route_file:
  assumes "handle_route W path r s = (Inr (FileBody bs), t)"
  shows "\<exists>p. below (STORAGE_ROOT (wo_cfg W)) p \<and> file_at (wo_fs W) p = Some bs"
proof (cases r)
  case (Local rel)
  with assms have "local_browse W rel = Inr (FileBody bs)" by (auto simp: handle_route_def liftE_def)
  then show ?thesis by (rule local_browse_file)
qed (use assms in \<open>auto simp: handle_route_def ret_def rendered_def page_of_def bindE_def asks_def liftE_def device_health_def
    proxy_to_device_def find_device_apply Let_def raise_def forwarded_not_file split: sum.splits option.splits if_splits\<close>)

section \<open>Properties\<close>



lemma portal_rate_free: "keyed r \<Longrightarrow> fst (portal_rate_check ip now empty_rate) = 0"
  by (simp add: portal_rate_check_def empty_rate_def)

definition owner_world :: world where
  "owner_world = \<lparr>wo_cfg = \<lparr>AUTH_USER = ''ann'', AUTH_HASH = [], AUTH_PASS = ''pw'', LOCAL_NAME = ''x'', STORAGE_ROOT = [''sd'']\<rparr>,
     wo_resolve = id, wo_denied = (\<lambda>_. False), wo_fs = [([''sd''], Dir), ([''sd'', ''a.txt''], File [1])], wo_css = [],
     wo_kdf = (\<lambda>_ _ _. []), wo_fails = None, wo_send = (\<lambda>_ _. Inl ''no route'')\<rparr>"

definition empty_portal :: portal where
  "empty_portal = \<lparr>po_rate = empty_rate, po_devices = NoFile\<rparr>"

lemma guarded_owner:
  assumes "right_creds (wo_kdf W) (wo_cfg W) cr" and "AUTH_USER (wo_cfg W) \<noteq> []"
    and "fst (portal_rate_check ip now (po_rate s)) = 0"
  shows "\<exists>r. \<forall>m. guarded W ip now (Some cr) m s = m (s\<lparr>po_rate := r\<rparr>)"
proof -
  obtain u pw where cr: "cr = (u, pw)" by (cases cr)
  obtain r where r: "portal_rate_check ip now (po_rate s) = (0, r)"
    using assms(3) by (cases "portal_rate_check ip now (po_rate s)") auto
  have "require_auth (wo_kdf W) (wo_cfg W) ip now (Some cr) (po_rate s) = (Inr Enter, portal_rate_clear ip r)"
    using assms(1,2) r by (simp add: require_auth_def right_creds_def cr)
  then show ?thesis by (auto simp: guarded_def bindE_def zoom_def)
qed


text \<open>
  A saved device is reached where it was saved, with its own credentials. After a device has been
  added under a new identifier, browsing it sends one request to its address, under \<^verbatim>\<open>files/\<close> and with the path
  asked for, with the user and the password saved with it, and answers with what comes back.
\<close>

theorem saved_device_is_reached:
  assumes "clean_form name url username password = Inr form" and "wo_fails W = None"
    and "load_devices (po_devices s) = JArr ds" and "find_in i ds = Inr None"
    and "wo_send W (fst (snd form) @ ''/files/'' @ proxy_suffix path rel) (Some (fst (snd (snd form)), password)) = Inr r"
    and "t = snd (devices_add W i name url username password s)"
  shows "fst (devices_add W i name url username password s) = Inr (Redirect 303 ''/devices'') \<and>
    proxy_to_device W i rel path t = (Inr (forwarded i r), t)"
proof -
  obtain n u us where form: "form = (n, u, us, password)" and u: "rstrip_slash u = u"
    using assms(1) by (auto simp: clean_form_def Let_def split: if_splits)
  have add: "devices_add W i name url username password s = (Inr (Redirect 303 ''/devices''),
      s\<lparr>po_devices := JsonFile (JObj [(''devices'', JArr (ds @ [device_entry i form]))])\<rparr>)"
    using assms(1-3) by (simp add: devices_add_def add_device_ok)
  then have t: "t = s\<lparr>po_devices := JsonFile (JObj [(''devices'', JArr (ds @ [device_entry i form]))])\<rparr>"
    using assms(6) by simp
  have "find_in i (ds @ [device_entry i form]) = Inr (Some [(''id'', JStr i), (''name'', JStr n), (''url'', JStr u),
      (''username'', JStr us), (''password'', JStr password)])"
    using find_in_append [OF assms(4)] by (simp add: device_entry_def form)
  then have "find_device i t = (Inr (Some [(''id'', JStr i), (''name'', JStr n), (''url'', JStr u),
      (''username'', JStr us), (''password'', JStr password)]), t)"
    by (simp add: find_device_apply t iter_json_def)
  from proxy_apply [OF this, of u "(us, password)" W path rel r] assms(5) show ?thesis
    by (simp add: add url_of_def basic_auth_def form u)
qed

definition linked_world :: world where
  "linked_world = owner_world\<lparr>wo_send := (\<lambda>u c. if u = ''http://b/files/x'' \<and> c = Some (''bo'', ''q'')
     then Inr \<lparr>up_status = 200, up_headers = [], up_body = [[7]]\<rparr> else Inl [])\<rparr>"

theorem saved_device_is_reached_witness:
  "fst (proxy_to_device linked_world ''d1'' ''x'' ''/devices/d1/files/x''
     (snd (devices_add linked_world ''d1'' ''B'' ''http://b/'' ''bo'' ''q'' empty_portal))) =
   Inr (Streamed 200 [(''content-type'', ''application/octet-stream'')] [[7]])"
proof -
  let ?r = "\<lparr>up_status = 200, up_headers = [], up_body = [[7]]\<rparr> :: upstream"
  have "clean_form ''B'' ''http://b/'' ''bo'' ''q'' = Inr (''B'', ''http://b'', ''bo'', ''q'')" by code_simp
  moreover have "wo_fails linked_world = None" by (simp add: linked_world_def owner_world_def)
  moreover have "load_devices (po_devices empty_portal) = JArr []" by (simp add: empty_portal_def load_devices_def)
  moreover have "find_in ''d1'' [] = Inr None" by simp
  moreover have "proxy_suffix ''/devices/d1/files/x'' ''x'' = ''x''" by code_simp
  then have "wo_send linked_world (fst (snd (''B'', ''http://b'', ''bo'', ''q'')) @ ''/files/'' @ proxy_suffix ''/devices/d1/files/x'' ''x'')
      (Some (fst (snd (snd (''B'', ''http://b'', ''bo'', ''q''))), ''q'')) = Inr ?r"
    by (simp add: linked_world_def)
  ultimately have "proxy_to_device linked_world ''d1'' ''x'' ''/devices/d1/files/x''
      (snd (devices_add linked_world ''d1'' ''B'' ''http://b/'' ''bo'' ''q'' empty_portal)) =
    (Inr (forwarded ''d1'' ?r), snd (devices_add linked_world ''d1'' ''B'' ''http://b/'' ''bo'' ''q'' empty_portal))"
    using saved_device_is_reached [OF _ _ _ _ _ refl] by blast
  moreover have "forwarded ''d1'' ?r = Streamed 200 [(''content-type'', ''application/octet-stream'')] [[7]]"
    by (simp add: forwarded_def is_redirect_def)
  ultimately show ?thesis by simp
qed

text \<open>
  Two devices added at the same time become one. Loading and saving are separate steps: of two
  requests that load before either has saved, both are answered as done, and the device of the one that
  saves first is gone.
\<close>

theorem concurrent_add_loses_device:
  assumes "load_devices (po_devices s) = JArr ds" and "wo_fails W = None" and "find_in i ds = Inr None" and "i \<noteq> j"
    and "t = snd (add_device W j g (JArr ds) (snd (add_device W i f (load_devices (po_devices s)) s)))"
  shows "fst (add_device W i f (load_devices (po_devices s)) s) = Inr (Redirect 303 ''/devices'') \<and>
    fst (add_device W j g (JArr ds) (snd (add_device W i f (JArr ds) s))) = Inr (Redirect 303 ''/devices'') \<and>
    fst (find_device i t) = Inr None \<and> load_devices (po_devices t) = JArr (ds @ [device_entry j g])"
proof -
  have t: "t = s\<lparr>po_devices := JsonFile (JObj [(''devices'', JArr (ds @ [device_entry j g]))])\<rparr>"
    using assms(1,2,5) by (simp add: add_device_ok)
  have "find_in i (ds @ [device_entry j g]) = Inr None"
    using find_in_append [OF assms(3)] assms(4) by (simp add: device_entry_def split: prod.split)
  then show ?thesis
    using assms(1,2) by (simp add: add_device_ok t find_device_apply iter_json_def)
qed

theorem concurrent_add_loses_device_witness:
  "fst (find_device ''d1'' (snd (add_device owner_world ''d2'' (''B'', ''http://b'', ''u'', ''p'') (JArr [])
     (snd (add_device owner_world ''d1'' (''A'', ''http://a'', ''u'', ''p'') (JArr []) empty_portal))))) = Inr None"
  using concurrent_add_loses_device [of empty_portal "[]" owner_world "''d1''" "''d2''" _ "(''B'', ''http://b'', ''u'', ''p'')"
      "(''A'', ''http://a'', ''u'', ''p'')", OF _ _ _ _ refl]
  by (simp add: owner_world_def empty_portal_def load_devices_def)

section \<open>One portal behind another\<close>

text \<open>The characters \<open>quote\<close> leaves as they are.\<close>

definition url_plain :: "string \<Rightarrow> bool" where
  "url_plain s \<longleftrightarrow> (\<forall>c \<in> set s. (of_char c :: nat) \<in> url_code - {37})"

lemma quote_char_plain: "(of_char c :: nat) \<in> url_code - {37} \<Longrightarrow> concat (map (quote_char {47}) (utf8_char c)) = [c]"
proof -
  assume c: "(of_char c :: nat) \<in> url_code - {37}"
  then have "utf8_char c = [word_of_nat (of_char c)]" by (auto simp: utf8_char_def url_code_def Let_def)
  moreover have "unat (word_of_nat (of_char c) :: byte) = of_char c" by (simp add: unsigned_of_nat take_bit_nat_eq_self)
  ultimately show ?thesis using c by (auto simp: quote_char_def Let_def url_code_def)
qed

lemma quote_plain: "url_plain s \<Longrightarrow> quote s = s"
proof (induction s)
  case (Cons c s)
  then have "quote s = s" "concat (map (quote_char {47}) (utf8_char c)) = [c]"
    by (auto simp: url_plain_def quote_char_plain)
  then show ?case by (simp add: quote_def encode_def)
qed (simp add: quote_def encode_def)

lemma route_legacy: "s \<noteq> [] \<Longrightarrow> route_of (''/files/'' @ s) = Some (Legacy s)"
  by (simp add: route_of_def device_route_def startswith_def)

lemma route_local: "route_of (''/local/files/'' @ s) = Some (Local s)"
  by (simp add: route_of_def startswith_def)

lemma endswith_slash: "endswith ''/'' (p @ ''/'' @ rel) \<longleftrightarrow> rel = [] \<or> endswith ''/'' rel"
  by (cases rel rule: rev_cases) (auto simp: endswith_def startswith_def)


text \<open>
  Behind a portal, a portal shows the front portal's own files. A saved device may be such a portal
  itself; whatever it holds, and whichever file of it is asked for, it answers the path under \<^verbatim>\<open>files/\<close> with
  a redirect to \<^verbatim>\<open>local/files/\<close>, the proxy passes the redirect on as it is, and the browser that follows
  it asks the front portal for its own local file of that path - for the top of the device, for the root of
  the front's file system, which is refused.
\<close>

theorem portal_behind_portal:
  assumes "find_device i s = (Inr (Some d), s)" and "url_of d = Inr base" and "basic_auth d = Inr cr"
    and "right_creds (wo_kdf B) (wo_cfg B) cr" and "AUTH_USER (wo_cfg B) \<noteq> []"
    and "fst (portal_rate_check ip now (po_rate b)) = 0"
    and "\<And>path status loc. fst (portal_get B ip now (Some cr) path b) = Inr (Redirect status loc) \<Longrightarrow>
      wo_send A (base @ path) (Some cr) = Inr \<lparr>up_status = status, up_headers = [(''location'', loc)], up_body = []\<rparr>"
    and "url_plain rel" and "wo_resolve A [] = []" and "STORAGE_ROOT (wo_cfg A) \<noteq> []"
  shows "let asked = (if rel = [] then ''/'' else rel) in
    handle_route A (''/devices/'' @ i @ ''/files/'' @ rel) (DeviceFiles i rel) s = (Inr (Redirect 307 (''/local/files/'' @ asked)), s) \<and>
    route_of (''/local/files/'' @ asked) = Some (Local asked) \<and>
    handle_route A (''/local/files/'' @ asked) (Local asked) s = (local_browse A asked, s) \<and>
    (rel = [] \<longrightarrow> local_browse A asked = Inl (HTTPException 403 ''Forbidden''))"
proof -
  let ?asked = "if rel = [] then ''/'' else rel"
  let ?path = "''/devices/'' @ i @ ''/files/'' @ rel"
  have "endswith ''/'' ?path \<longleftrightarrow> rel = [] \<or> endswith ''/'' rel"
    using endswith_slash [of "''/devices/'' @ i @ ''/files''" rel] by simp
  then have suffix: "proxy_suffix ?path rel = ?asked"
    by (auto simp: proxy_suffix_def endswith_def startswith_def)
  have ne: "?asked \<noteq> []" by simp
  have "url_plain ?asked" using assms(8) by (simp add: url_plain_def url_code_def)
  then have "quote ?asked = ?asked" by (rule quote_plain)
  moreover obtain r where "\<forall>m. guarded B ip now (Some cr) m b = m (b\<lparr>po_rate := r\<rparr>)"
    using guarded_owner [OF assms(4-6)] by blast
  ultimately have "fst (portal_get B ip now (Some cr) (''/files/'' @ ?asked) b) = Inr (Redirect 307 (''/local/files/'' @ ?asked))"
    using route_legacy [OF ne] by (simp add: portal_get_def handle_route_def)
  from assms(7) [OF this] have sent: "wo_send A (base @ ''/files/'' @ ?asked) (Some cr) =
      Inr \<lparr>up_status = 307, up_headers = [(''location'', ''/local/files/'' @ ?asked)], up_body = []\<rparr>" by simp
  let ?r = "\<lparr>up_status = 307, up_headers = [(''location'', ''/local/files/'' @ ?asked)], up_body = []\<rparr> :: upstream"
  have "proxy_to_device A i rel ?path s = (Inr (forwarded i ?r), s)"
    by (rule proxy_apply [OF assms(1-3)]) (simp only: suffix sent)
  moreover have "forwarded i ?r = Redirect 307 (''/local/files/'' @ ?asked)"
    by (simp add: forwarded_def is_redirect_def startswith_def)
  ultimately have "handle_route A ?path (DeviceFiles i rel) s = (Inr (Redirect 307 (''/local/files/'' @ ?asked)), s)"
    by (simp only: handle_route_def route.case)
  moreover have "local_browse A ''/'' = Inl (HTTPException 403 ''Forbidden'')"
  proof -
    have "path_parts ''/'' = []" by code_simp
    then have "path_join (STORAGE_ROOT (wo_cfg A)) ''/'' = []" by (simp add: path_join_def startswith_def)
    with assms(9,10) show ?thesis by (simp add: local_browse_def portal_resolve_def below_def)
  qed
  moreover have "handle_route A p (Local l) s = (local_browse A l, s)" for p l by (simp add: handle_route_def)
  ultimately show ?thesis
    unfolding Let_def using route_local [of ?asked] by (intro conjI impI) simp_all
qed

text \<open>A portal at an address, and one in front of it that has saved it.\<close>

definition far_portal :: world where
  "far_portal = owner_world\<lparr>wo_cfg := \<lparr>AUTH_USER = ''bo'', AUTH_HASH = [], AUTH_PASS = ''q'', LOCAL_NAME = ''b'', STORAGE_ROOT = [''b'']\<rparr>\<rparr>"

definition front_portal :: world where
  "front_portal = owner_world\<lparr>wo_send := (\<lambda>u c. case fst (portal_get far_portal ''c'' 0 c (drop 8 u) empty_portal) of
     Inr (Redirect status loc) \<Rightarrow> Inr \<lparr>up_status = status, up_headers = [(''location'', loc)], up_body = []\<rparr>
   | _ \<Rightarrow> Inl [])\<rparr>"

definition far_device :: "(string \<times> json) list" where
  "far_device = [(''id'', JStr ''d1''), (''url'', JStr ''http://b''), (''username'', JStr ''bo''), (''password'', JStr ''q'')]"

theorem portal_behind_portal_witness:
  "fst (handle_route front_portal ''/devices/d1/files/'' (DeviceFiles ''d1'' [])
     (empty_portal\<lparr>po_devices := JsonFile (JObj [(''devices'', JArr [JObj far_device])])\<rparr>)) = Inr (Redirect 307 ''/local/files//'') \<and>
   local_browse front_portal ''/'' = Inl (HTTPException 403 ''Forbidden'')"
proof -
  let ?s = "empty_portal\<lparr>po_devices := JsonFile (JObj [(''devices'', JArr [JObj far_device])])\<rparr>"
  have f1: "find_device ''d1'' ?s = (Inr (Some far_device), ?s)" by (simp add: find_device_apply iter_json_def far_device_def)
  have f2: "url_of far_device = Inr ''http://b''" by code_simp
  have f3: "basic_auth far_device = Inr (''bo'', ''q'')" by code_simp
  have f4: "right_creds (wo_kdf far_portal) (wo_cfg far_portal) (''bo'', ''q'')"
    by (simp add: right_creds_def far_portal_def portal_verify_def)
  have f5: "AUTH_USER (wo_cfg far_portal) \<noteq> []" by (simp add: far_portal_def)
  have f6: "fst (portal_rate_check ''c'' 0 (po_rate empty_portal)) = 0"
    by (simp add: portal_rate_check_def empty_portal_def empty_rate_def)
  have f7: "wo_send front_portal (''http://b'' @ path) (Some (''bo'', ''q'')) =
      Inr \<lparr>up_status = status, up_headers = [(''location'', loc)], up_body = []\<rparr>"
    if "fst (portal_get far_portal ''c'' 0 (Some (''bo'', ''q'')) path empty_portal) = Inr (Redirect status loc)" for path status loc
    using that by (simp add: front_portal_def)
  have f8: "url_plain []" by (simp add: url_plain_def)
  have f9: "wo_resolve front_portal [] = []" "STORAGE_ROOT (wo_cfg front_portal) \<noteq> []"
    by (simp_all add: front_portal_def owner_world_def)
  from portal_behind_portal [OF f1 f2 f3 f4 f5 f6 f7 f8 f9] show ?thesis by (simp add: Let_def)
qed

end
