(* ===== verification/Spec2Isabelle.thy ===== *)
theory Spec2Isabelle
  imports Hrana HubSocket HubTheft HubSetup HubFiles AgentDrivers AgentPairing HubIsolation Portal
begin

text \<open>
  A model of VortexPortal: a hub through which a user reaches devices of theirs (phones, computers) from
  a browser, and the agent that runs on each device.

  The program and its parts. An agent (\<^verbatim>\<open>src/agent\<close>) is enrolled at a hub with a pairing code, an account
  token or a signed-in browser, keeps the credentials in a file, and holds a socket to one hub at a time.
  The hub (\<^verbatim>\<open>src/hub\<close>) keeps accounts, devices, sessions and captures in a database, admits the agents to a
  registry of connections, and turns requests of a browser into requests on a connection; several hubs may
  share one database and relay requests to the one that holds a device. Requests, uploads and streams of
  bytes are multiplexed on one socket.

  The library, from the bottom.
  \<^item> \<open>Prelude\<close> (exceptions, operations as functions of a state, the calculi \<open>preserves\<close> and \<open>wp\<close>, database
    tables), \<open>PyString\<close> (strings, splitting, decimal numbers), \<open>Json\<close> (JSON values, base64).
  \<^item> \<^verbatim>\<open>hub/db.py\<close>: \<open>Schema\<close> (rows, backends, well-formedness), \<open>Crypto\<close>, \<open>Accounts\<close>, \<open>Devices\<close>, \<open>Sessions\<close>,
    \<open>Pairing\<close>, \<open>Locks\<close>, \<open>TheftDb\<close> (captures and audit), \<open>Mesh\<close> (nodes, presence, purging), \<open>Hrana\<close> (SQL over
    HTTP, both copies), and \<open>DbReach\<close>: one step per writing operation, and what holds in every state that
    is reachable. Interfaces stated as locales: \<open>one_shot\<close> (codes redeemed once; invites and pairing codes),
    \<open>session_store\<close>, \<open>lease\<close> (device locks), \<open>presence_directory\<close>.
  \<^item> \<^verbatim>\<open>hub/config.py\<close>: \<open>ConfigStore\<close>. \<^verbatim>\<open>hub/auth.py\<close>: \<open>RateLimit\<close> (refines a reference that keeps the whole
    history of failures), \<open>HubAuth\<close> with the account handlers of \<^verbatim>\<open>hub/app.py\<close>.
  \<^item> \<^verbatim>\<open>hub/ws_router.py\<close>: \<open>WsRouter\<close>; the locale \<open>chunk_demux\<close> of \<open>Demux\<close> is the chunk protocol, of which the
    hub's and the agent's receivers are both instances.
  \<^item> \<^verbatim>\<open>hub/app.py\<close>: \<open>HubState\<close> (the process, requests and responses), \<open>HubRelay\<close> (addresses, relaying),
    \<open>HubEnroll\<close> (enrollment, device management), \<open>HubSocket\<close> (the endpoint of the agents), \<open>HubTheft\<close>
    (captures, retention, the periodic round), \<open>HubSetup\<close> (backend selection, settings, set-up), \<open>HubFiles\<close>
    (files, input, live views).
  \<^item> \<^verbatim>\<open>hub/templates.py\<close>: \<open>Html\<close> (escaping, what a browser makes of markup, shell words, percent
    encoding), \<open>Pages\<close>, \<open>PagesLive\<close> and \<open>PagesTheft\<close>: the pages as the text the code builds, with the
    literals of the source, scripts included. \<open>HubViews\<close> puts the handlers and their pages together;
    \<open>HubIsolation\<close> compares what two states of the hub show: the pages of an account depend on its own rows
    only, and no operation that another account causes changes those.
  \<^item> \<^verbatim>\<open>app_v1.py\<close>, the single-user portal that the hub replaces: \<open>PortalAuth\<close> (settings, password, limiter) and
    \<open>Portal\<close> (pages, routes, the proxy to a device).
  \<^item> \<^verbatim>\<open>agent/agent.py\<close>: \<open>AgentFiles\<close>, \<open>AgentSession\<close> (dispatcher, uploads, streams), \<open>AgentConnect\<close> (node
    list, connection loop, direct access, peer row), \<open>AgentProbes\<close> (device operations). \<open>FileTransfer\<close> puts the
    two ends of the socket together.
  \<^item> \<^verbatim>\<open>agent/pairing.py\<close> and \<open>main\<close>: \<open>AgentPairing\<close>. The bridges to the driver app, desktop input and capture:
    \<open>AgentDrivers\<close>.
  \<^item> This theory: what spans the hub and the agent (a camera from the driver's socket to the browser,
    captures, enrollment up to the first connection, direct access, the display picker).

  How the model reads. A handler or operation is a function of a state that returns an exception or a
  value with the new state: \<open>Inl\<close> of an \<open>exn\<close> is the Python exception, and every early return and every
  \<open>HTTPException\<close> of the source is a branch. A state a handler leaves when it raises is the state it had
  reached. A page of a handler is its status, error text and cookie, or the data it is rendered from; its
  text is modelled apart, as a function of that data, and the two are composed in \<open>HubViews\<close>. A suspension
  of a coroutine is explicit: what arrives meanwhile is an argument of the operation that waits. Records
  follow the tables and classes of the source, dictionaries are association lists with distinct keys, \<open>bytes\<close> are
  lists of 8-bit words, Python integers are \<open>int\<close>.

  Parameters. The hash functions, the codec of JSON where it matters, the resolution of paths, the HTTP
  client, what a device answers, the machine of an agent (its files and commands), the driver app and the
  desktop are arguments. Where a part of the model provides what another one takes as an argument, the
  joint properties instantiate it: the agent's operations answer the hub's requests, the hub's enrollment
  answers the agent's, the driver's frames are the source of the agent's stream.

  What the lemmas show. For each component: that its operations keep the database well-formed, what each
  operation does on each branch, and the properties marked with a claim id: among them authentication and
  ownership (who may connect, enroll, read), pages that keep accounts apart and texts out of the markup,
  at-most-once redemption, mutual exclusion of device locks,
  streams that do not mix, files that arrive as sent, captures that are stored and pruned, a connection
  loop that finds a live node and whose pauses are bounded, and enrollment that is all or nothing. Some
  properties state that the code fails in a way its comments do not expect; they are named as errors.

  Bounds and recursion. Loops over finite data are structural or have a measure; reading exactly \<open>n\<close> bytes
  ends because every piece is not empty, the frames of a socket end because each takes at least four
  bytes. The connection loop is indexed by the number of rounds, and its liveness is stated for any number
  of them; waiting for a configuration is a partial function whose value \<open>None\<close> is the wait that does not
  end, and when it ends is a theorem. No fuel is used.

  Not modelled, and why. The style sheet is a parameter of the pages; the scripts in them are text, and
  what they do in a browser is not modelled. Floating point is
  exact rational arithmetic. A handler reads the clock once. Threads of the executor, the order in which
  the event loop runs ready tasks (other than as an explicit sequence of what arrives), and the web
  framework's own checks of forms and paths are outside. The texts of some error messages are shortened.
  The smoke test (\<^verbatim>\<open>scripts/smoke_local.py\<close>) and the driver app (Kotlin) are not modelled.
\<close>

section \<open>From the driver's socket to the browser\<close>

text \<open>What an agent sends for the frames of its camera, and what the hub's stream makes of it.\<close>

lemma camera_stream_seen:
  assumes "ss_out (ag_sess a) = []" and "r \<noteq> []"
    and "a' = snd (handle_request (agent_handlers RES MIME base during (Inr (frames, None)) oth) SH
      (request_fields (JStr r) ''camera_stream'' []) a)"
  shows "\<exists>m e. fst (stream SH' (JStr r) oper args None (fold hub_frame (ss_out (ag_sess a'))) c) =
    Inr (Frame m # map (Chunk (JStr r)) frames @ [Frame e], Ended) \<and>
    jget m ''type'' = JStr ''stream_start'' \<and> jget e ''type'' = JStr ''stream_end''"
proof -
  define s where "s = [(''type'', JStr ''stream_start''), (''id'', JStr r), (''content_type'', JStr ''image/jpeg'')]"
  define x where "x = [(''type'', JStr ''stream_end''), (''id'', JStr r), (''frames'', JInt (int (length frames)))]"
  have o: "ss_out (ag_sess a') = OutText (JObj s) # concat (map (chunk_pair (JStr r)) frames) @ OutText (JObj x) # []"
    unfolding assms(3) using assms(1)
    by (simp add: handle_request_def request_fields_def agent_handlers_def op_camera_stream_def forward_stream_def thenE_def
        bindE_def catch_def as_str_def UNARY_OPS_def STREAM_OPS_def jor_def Let_def s_def x_def
        stream_end_msg_def send_text_def send_chunks_out)
  have n: "\<exists>later. map_of (cn_stream (fold hub_frame [] c)) (JStr r) =
      map_option (\<lambda>q. q @ later) (map_of (cn_stream c) (JStr r))" for c
    by (rule exI [of _ "[]"]) (simp add: option.map_ident)
  show ?thesis
    by (rule exI [of _ s], rule exI [of _ x], intro conjI stream_served [OF _ _ _ _ _ _ o n]) (simp_all add: s_def x_def)
qed

lemma mjpeg_of_stream:
  assumes "jget e ''type'' = JStr ''stream_end''"
  shows "mjpeg (map (Chunk r) frames @ [Frame e]) x = (map mjpeg_part (filter (\<lambda>f. f \<noteq> []) frames) @ [mjpeg_close], Ended)"
  by (induction frames) (simp_all add: assms)

lemma read_parts_all: "read_parts (concat (map mjpeg_part js) @ mjpeg_close) = Some js"
  by (induction js) (simp_all add: read_part)

text \<open>
  C8: the camera of a phone is seen in the browser. Whatever the pieces in which the driver's socket
  delivers its frames to the agent, the agent's answer to the hub's request, routed by the hub frame by
  frame and rendered as a live body, is read by a browser as exactly the frames of the driver, in order.
\<close>

theorem camera_reaches_browser:
  assumes "[] \<notin> set pieces" and "concat pieces = concat (map frame bs) @ rest" and "broken_off rest"
    and "\<forall>b \<in> set bs. b \<noteq> [] \<and> length b \<le> MAX_FRAME_BYTES" and "\<And>x. e = Some x \<Longrightarrow> sock_error x"
    and "ss_out (ag_sess a) = []" and "r \<noteq> []"
    and "a' = snd (handle_request (agent_handlers RES MIME base during (open_stream (Inr (pieces, e))) oth) SH
      (request_fields (JStr r) ''camera_stream'' []) a)"
    and "fst (stream SH' (JStr r) ''camera_stream'' [] None (fold hub_frame (ss_out (ag_sess a'))) c) = Inr (items, x)"
  shows "\<exists>m q body y. first_frame late (items, x) = Inr (m, q, x) \<and> mjpeg q x = (body, y) \<and> y = Ended \<and>
    read_parts (concat body) = Some bs"
proof -
  have "open_stream (Inr (pieces, e)) = Inr (bs, None)"
    using frames_read [OF assms(1-5)] by simp
  with assms(8) have a': "a' = snd (handle_request (agent_handlers RES MIME base during (Inr (bs, None)) oth) SH
      (request_fields (JStr r) ''camera_stream'' []) a)" by simp
  obtain m f where "fst (stream SH' (JStr r) ''camera_stream'' [] None (fold hub_frame (ss_out (ag_sess a'))) c) =
        Inr (Frame m # map (Chunk (JStr r)) bs @ [Frame f], Ended)"
      and t: "jget m ''type'' = JStr ''stream_start''" "jget f ''type'' = JStr ''stream_end''"
    using camera_stream_seen [OF assms(6,7) a', of SH' "''camera_stream''" "[]" c] by blast
  then have i: "items = Frame m # map (Chunk (JStr r)) bs @ [Frame f]" "x = Ended" using assms(9) by auto
  have "filter (\<lambda>f. f \<noteq> []) bs = bs" using assms(4) by (auto simp: filter_id_conv)
  then have "mjpeg (map (Chunk (JStr r)) bs @ [Frame f]) x = (map mjpeg_part bs @ [mjpeg_close], Ended)"
    using mjpeg_of_stream [OF t(2)] by metis
  with t(1) i show ?thesis by (auto simp: read_parts_all)
qed

theorem camera_reaches_browser_witness:
  "\<exists>items x m q body y. fst (stream (\<lambda>_. []) (JStr ''r'') ''camera_stream'' [] None (fold hub_frame (ss_out (ag_sess
      (snd (handle_request (agent_handlers (\<lambda>p. p) (\<lambda>_. None) [] id (open_stream (Inr ([[0, 0, 0], [1, 7, 0]], None))) no_handlers) (\<lambda>_. [])
        (request_fields (JStr ''r'') ''camera_stream'' []) demo_agent))))) (new_conn ''d1'' 1 ''phone'')) = Inr (items, x) \<and>
    first_frame ''late'' (items, x) = Inr (m, q, x) \<and> mjpeg q x = (body, y) \<and> read_parts (concat body) = Some [[7]]"
proof -
  define a' where "a' = snd (handle_request (agent_handlers (\<lambda>p. p) (\<lambda>_. None) [] id (open_stream (Inr ([[0, 0, 0], [1, 7, 0]], None))) no_handlers) (\<lambda>_. [])
        (request_fields (JStr ''r'') ''camera_stream'' []) demo_agent)"
  obtain items x where st: "fst (stream (\<lambda>_. []) (JStr ''r'') ''camera_stream'' [] None (fold hub_frame (ss_out (ag_sess a')))
      (new_conn ''d1'' 1 ''phone'')) = Inr (items, x)" using stream_sent by (metis surj_pair)
  have w: "[] \<notin> set [[0, 0, 0], [1, 7, 0 :: byte]]" "concat [[0, 0, 0], [1, 7, 0]] = concat (map frame [[7]]) @ [0]" "broken_off [0]"
      "\<forall>b \<in> set [[7 :: byte]]. b \<noteq> [] \<and> length b \<le> MAX_FRAME_BYTES" "ss_out (ag_sess demo_agent) = []" "''r'' \<noteq> []"
    by (simp_all add: frame_def be32_def broken_off_def MAX_FRAME_BYTES_def demo_agent_def new_session_def)
  from camera_reaches_browser [OF w(1-4) _ w(5,6) a'_def st, of "''late''"] st show ?thesis unfolding a'_def by auto
qed

section \<open>Captures\<close>

text \<open>What an operation of the agent that sends one stream is for the hub.\<close>

lemma one_stream_seen:
  assumes "ss_out (ag_sess a) = []" and "r \<noteq> []"
    and "handle_request h SH (request_fields (JStr r) oper args) a = send_stream (JStr r) ctype chunks a"
  shows "fst (stream SH' (JStr r) oper args None (fold hub_frame (ss_out (ag_sess (snd (handle_request h SH (request_fields (JStr r) oper args) a))))) c) =
    Inr (Frame [(''type'', JStr ''stream_start''), (''id'', JStr r), (''size'', JInt (int (length (concat chunks)))), (''content_type'', JStr ctype)] #
      map (Chunk (JStr r)) chunks @ [Frame [(''type'', JStr ''stream_end''), (''id'', JStr r)]], Ended)"
proof -
  define s where "s = [(''type'', JStr ''stream_start''), (''id'', JStr r), (''size'', JInt (int (length (concat chunks)))), (''content_type'', JStr ctype)]"
  define x where "x = [(''type'', JStr ''stream_end''), (''id'', JStr r)]"
  have o: "ss_out (ag_sess (snd (handle_request h SH (request_fields (JStr r) oper args) a))) =
      OutText (JObj s) # concat (map (chunk_pair (JStr r)) chunks) @ OutText (JObj x) # []"
    unfolding assms(3) using assms(1)
    by (simp add: send_stream_def thenE_def bindE_def s_def x_def stream_end_msg_def send_text_def send_chunks_out)
  have n: "\<exists>later. map_of (cn_stream (fold hub_frame [] c)) (JStr r) =
      map_option (\<lambda>q. q @ later) (map_of (cn_stream c) (JStr r))" for c
    by (rule exI [of _ "[]"]) (simp add: option.map_ident)
  show ?thesis
    unfolding s_def [symmetric] x_def [symmetric]
    by (rule stream_served [OF _ _ _ _ _ _ o n]) (simp_all add: s_def x_def assms(2))
qed

lemma collect_chunks:
  "collect (map (Chunk r) cs @ [Frame [(''type'', JStr ''stream_end''), (''id'', i)]]) e buf = Inr (buf @ concat cs)"
  by (induction cs arbitrary: buf) simp_all

text \<open>
  C9: what a device captures is what is stored. On a phone whose camera command succeeds, the photo that
  the agent streams in answer to the hub's request, routed frame by frame, is collected by the capture of
  the hub as exactly the bytes of the picture file; a location fix likewise as the text the command printed.
\<close>

theorem captures_arrive:
  assumes "ss_out (ag_sess a) = []" and "r \<noteq> []" and "have_termux_camera M"
    and "mc_run M [''termux-camera-photo'', ''-c'', cam, ''tmp''] = Inr (0, out, err)" and "shot \<noteq> []"
    and "mc_which M ''termux-location''" and "mc_run M [''termux-location'', ''-r'', ''once''] = Inr (0, fixed, err')" and "strip fixed \<noteq> []"
    and "run = (\<lambda>oper args. fst (stream SH' (JStr r) oper args None (fold hub_frame (ss_out (ag_sess
      (snd (handle_request (probe_handlers SH v store M shot clip desk phone oth) SH (request_fields (JStr r) oper args) a))))) c))"
  shows "map_sum id (\<lambda>st. captured (fst st, None)) (run ''camera_capture'' (capture_args ''photo'' cam 0)) = Inr (Inr shot) \<and>
    map_sum id (\<lambda>st. captured (fst st, None)) (run ''location'' (capture_args ''location'' cam 0)) = Inr (Inr (encode (strip fixed)))"
proof -
  let ?h = "probe_handlers SH v store M shot clip desk phone oth"
  have p: "handle_request ?h SH (request_fields (JStr r) ''camera_capture'' (capture_args ''photo'' cam 0)) a =
      send_stream (JStr r) ''image/jpeg'' (chunks_of CHUNK_SIZE shot) a"
    using assms(3-5)
    by (simp add: handle_request_def request_fields_def as_str_def UNARY_OPS_def STREAM_OPS_def jor_def Let_def probe_handlers_def
        op_camera_capture_def capture_args_def jget_or_def catch_def send_stream_def thenE_def bindE_def)
  have l: "handle_request ?h SH (request_fields (JStr r) ''location'' (capture_args ''location'' cam 0)) a =
      send_stream (JStr r) ''application/json'' [encode (strip fixed)] a"
    using assms(6-8)
    by (simp add: handle_request_def request_fields_def as_str_def UNARY_OPS_def STREAM_OPS_def jor_def Let_def probe_handlers_def
        op_location_def capture_args_def jget_or_def catch_def send_stream_def thenE_def bindE_def)
  show ?thesis
    unfolding assms(9) one_stream_seen [OF assms(1,2) p] one_stream_seen [OF assms(1,2) l]
    by (simp add: captured_def collect_chunks concat_chunks_of CHUNK_SIZE_def)
qed

definition demo_camera :: machine where
  "demo_camera = bare_machine\<lparr>mc_which := (\<lambda>_. True), mc_run := (\<lambda>cmd. Inr (0, ''fixed'', []))\<rparr>"

theorem captures_arrive_witness:
  "map_sum id (\<lambda>st. captured (fst st, None)) (fst (stream (\<lambda>_. []) (JStr ''r'') ''camera_capture'' (capture_args ''photo'' ''0'' 0) None
      (fold hub_frame (ss_out (ag_sess (snd (handle_request (probe_handlers (\<lambda>_. []) [] [] demo_camera [1, 2] [] (\<lambda>_. Inr JNull) (\<lambda>_. Inr JNull) no_handlers)
        (\<lambda>_. []) (request_fields (JStr ''r'') ''camera_capture'' (capture_args ''photo'' ''0'' 0)) demo_agent))))) (new_conn ''d1'' 1 ''phone''))) = Inr (Inr [1, 2])"
  by (rule conjunct1 [OF captures_arrive [where a = demo_agent and r = "''r''" and M = demo_camera and cam = "''0''" and shot = "[1, 2]" and fixed = "''fixed''"
      and run = "\<lambda>oper args. fst (stream (\<lambda>_. []) (JStr ''r'') oper args None
      (fold hub_frame (ss_out (ag_sess (snd (handle_request (probe_handlers (\<lambda>_. []) [] [] demo_camera [1, 2] [] (\<lambda>_. Inr JNull) (\<lambda>_. Inr JNull) no_handlers)
        (\<lambda>_. []) (request_fields (JStr ''r'') oper args) demo_agent))))) (new_conn ''d1'' 1 ''phone''))", OF _ _ _ _ _ _ _ _ refl]])
    (simp_all add: demo_agent_def new_session_def demo_camera_def bare_machine_def have_termux_camera_def strip_def rstrip_by_def lstrip_by_def is_space_def)

section \<open>Enrollment and the first connection\<close>

text \<open>What the hub sends for a result of an enrollment, and the hello of an agent (\<open>_connect_once\<close>).\<close>

definition hub_reply :: "exn + enrolled \<Rightarrow> reply" where
  "hub_reply r = (case r of
     Inr e \<Rightarrow> Reply 200 (Some (JObj [(''device_id'', JStr (en_device_id e)), (''token'', JStr (en_token e)),
       (''name'', JStr (en_name e)), (''nodes'', JArr (map JStr (en_nodes e)))])) []
   | Inl (HTTPException code detail) \<Rightarrow> Reply code (Some (JObj [(''detail'', JStr detail)])) []
   | Inl _ \<Rightarrow> Reply 500 None ''Internal Server Error'')"

definition agent_hello :: "string \<Rightarrow> (string \<times> json) list \<Rightarrow> json" where
  "agent_hello version cfg = JObj [(''type'', JStr ''auth''), (''device_id'', jget cfg ''device_id''),
     (''token'', jget cfg ''token''), (''agent_version'', JStr version)]"

text \<open>The hub's half: a request with a token of an account makes a device of that account.\<close>

lemma hub_enrolls_token:
  assumes "answers (h_db h)" and "wf_db (h_db h)" and "a \<in> set (account_tokens (h_db h))"
    and "a_token_hash a = hash_token (pH X) tok" and "tok \<noteq> []" and "\<not> has_key d_id dev (devices (h_db h))"
    and "name_field body = Inr nm" and "jget_or body ''account_token'' (JStr []) = Inr (JStr tok)" and "strip tok = tok"
  obtains ns t where
    "api_enroll X now dev dtok rq (Some body) h = (Inr \<lparr>en_device_id = dev, en_token = dtok,
       en_name = or_str nm ''Unnamed Device'', en_nodes = ns\<rparr>, t)"
    and "wf_db (h_db t)" and "answers_reads (h_db t)"
    and "devices (h_db t) = devices (h_db h) @ [\<lparr>d_id = dev, d_owner_id = a_user_id a, d_name = or_str nm ''Unnamed Device'',
       d_token_hash = hash_token (pH X) dtok, d_paired_at = now, d_last_seen = None, d_characteristics = None\<rparr>]"
proof -
  obtain ts where acc: "account_token_user (pH X) tok now (h_db h) = (Inr (Some (a_user_id a)), (h_db h)\<lparr>account_tokens := ts\<rparr>)"
      and fk: "fk_user (a_user_id a) (h_db h)"
    using account_token_known [OF assms(1-5)] by blast
  define g where "g = h\<lparr>h_db := (h_db h)\<lparr>account_tokens := ts\<rparr>\<rparr>"
  let ?nm = "or_str nm ''Unnamed Device''"
  have "answers (h_db g)" "fk_user (a_user_id a) (h_db g)" "\<not> has_key d_id dev (devices (h_db g))"
    using assms(1,6) fk by (simp_all add: g_def fk_user_iff answers_def)
  from enroll_as_ok [OF this, of X now dtok rq ?nm] obtain ns t where
      en: "enroll_as X now dev dtok rq (a_user_id a) ?nm g = (Inr \<lparr>en_device_id = dev, en_token = dtok, en_name = ?nm, en_nodes = ns\<rparr>, t)"
      and db: "h_db t = (h_db g)\<lparr>devices := devices (h_db g) @ [\<lparr>d_id = dev, d_owner_id = a_user_id a, d_name = ?nm,
        d_token_hash = hash_token (pH X) dtok, d_paired_at = now, d_last_seen = None, d_characteristics = None\<rparr>]\<rparr>" by blast
  have api: "api_enroll X now dev dtok rq (Some body) h = (Inr \<lparr>en_device_id = dev, en_token = dtok, en_name = ?nm, en_nodes = ns\<rparr>, t)"
    using acc en assms(5,7-9) by (simp add: api_enroll_def bindE_def on_db_apply g_def)
  have "wf_hub t"
    using preservesD [OF enrollment_wf(4) [of X now dev dtok rq "Some body"]] api assms(2) by (auto simp: wf_hub_def)
  moreover have "answers_reads (h_db t)"
    using assms(1) unfolding db g_def by (auto simp: answers_reads_def answers_def can_write_read split: option.splits)
  ultimately show ?thesis
    by (intro that [OF api]) (simp_all add: wf_hub_def db g_def)
qed


text \<open>The hub of a user with the token \<^verbatim>\<open>tok\<close>.\<close>

definition token_hub :: hub where
  "token_hub = fresh_hub (invite_demo\<lparr>account_tokens := [\<lparr>a_id = 1, a_user_id = 1, a_token_hash = hash_token (pH plain_params) ''tok'',
     a_label = None, a_created_at = 0, a_last_used = None\<rparr>], account_seq := 1\<rparr>)"

definition token_hub_post :: "string \<Rightarrow> json \<Rightarrow> reply" where
  "token_hub_post = (\<lambda>u body. hub_reply (fst (api_enroll plain_params 650 ''d9'' ''secret'' plain_request (Some body) token_hub)))"


section \<open>Direct access and displays\<close>

text \<open>
  C11: direct access is handed from the device to its owner. What an agent announces of itself, the hub
  gives to the owner of the device: the addresses at which the agent is to be reached, none of them
  loopback or link-local, and a ticket; a connection that presents that ticket is served by the agent,
  and one that presents any other is refused.
\<close>

theorem direct_access_handover:
  assumes "fst (own_device X now rq d (\<lambda>u i. ret (u, i)) s) = Inr (u, i)" and "map_of (h_conns s) d = Some k"
    and "port \<noteq> 0" and "local_hosts found \<noteq> []" and "direct_info_msg port found ticket = JObj m"
    and "rm_direct R k = cn_direct (snd (handle_incoming m c))"
  shows "device_direct X now R rq d s =
      (Inr (map (\<lambda>h. ''ws://'' @ h @ '':'' @ int_str port @ ''/'') (local_hosts found), JStr ticket), s) \<and>
    (\<forall>h. h \<in> set (local_hosts found) \<longrightarrow> \<not> startswith ''127.'' h \<and> \<not> startswith ''169.254.'' h) \<and>
    (\<forall>t. direct_handler ticket (Some (JObj [(''type'', JStr ''hello''), (''ticket'', t)])) =
      (if t = JStr ticket then DirectServed (JObj [(''type'', JStr ''hello_ok'')])
       else DirectRefused (JObj [(''type'', JStr ''hello_fail'')])))"
proof -
  have "rm_direct R k = Some (JInt port, JArr (map JStr (local_hosts found)), JStr ticket)"
    using assms(4-6) by (auto simp: direct_info_msg_def handle_incoming_def jor_def Let_def)
  then have "device_direct X now R rq d s =
      (Inr (map (\<lambda>h. ''ws://'' @ h @ '':'' @ int_str port @ ''/'') (local_hosts found), JStr ticket), s)"
    using assms(2-4) by (simp add: device_direct_def own_device_run [OF assms(1)] comp_def)
  moreover have "\<forall>h. h \<in> set (local_hosts found) \<longrightarrow> \<not> startswith ''127.'' h \<and> \<not> startswith ''169.254.'' h"
    by (auto simp: local_hosts_def)
  ultimately show ?thesis by (simp add: direct_handler_def)
qed

text \<open>The phone of the example, at an address of the local network.\<close>

definition direct_remote :: "msg \<Rightarrow> remote" where
  "direct_remote m = demo_remote\<lparr>rm_direct := (\<lambda>_. cn_direct (snd (handle_incoming m (new_conn ''d1'' 1 ''phone''))))\<rparr>"

theorem direct_access_handover_witness:
  "\<exists>m. direct_info_msg 8770 [''127.0.0.1'', ''10.0.0.2''] ''t'' = JObj m \<and>
    device_direct plain_params 150 (direct_remote m) signed_request ''d1'' signed_in =
      (Inr ([''ws://10.0.0.2:8770/''], JStr ''t''), signed_in)"
proof -
  have hosts: "local_hosts [''127.0.0.1'', ''10.0.0.2''] = [''10.0.0.2'']"
    by (simp add: local_hosts_def startswith_def order_by_def)
  obtain m where m: "direct_info_msg 8770 [''127.0.0.1'', ''10.0.0.2''] ''t'' = JObj m" by (simp add: direct_info_msg_def)
  obtain u i where own: "fst (own_device plain_params 150 signed_request ''d1'' (\<lambda>u i. ret (u, i)) signed_in) = Inr (u, i)"
    using signed_in_owner by blast
  have port: "int_str 8770 = ''8770''" by (simp add: int_str_def nat_str.simps dec_digit_def char_of_def bit_0)
  from direct_access_handover [OF own _ _ _ m, of 0 "direct_remote m" "new_conn ''d1'' 1 ''phone''"]
  show ?thesis using m by (simp add: signed_in_def direct_remote_def hosts port)
qed

text \<open>
  All displays together cannot be shown. The agent lists the whole desktop as display 0, the hub
  accepts 0 and forwards it, and the agent then captures what it captures for display 1.
\<close>

theorem all_displays_unreachable:
  assumes "query_param rq ''monitor'' = ''0''" and "dk_mss D = None" and "dk_mons D \<noteq> []"
  shows "(\<exists>ms kvs. list_monitors D = Inr (JObj kvs # ms) \<and> jget kvs ''index'' = JInt 0 \<and> jget kvs ''label'' = JStr ''All displays'') \<and>
    screen_args rq = [(''monitor'', JInt 0)] \<and>
    op_screen_stream FL False phone_src pc_src rid (JObj (screen_args rq)) =
      op_screen_stream FL False phone_src pc_src rid (JObj [(''monitor'', JInt 1)])"
proof -
  have "[0..<length (dk_mons D)] = 0 # [1..<length (dk_mons D)]" using assms(3) by (simp add: upt_conv_Cons)
  then have "\<exists>ms kvs. list_monitors D = Inr (JObj kvs # ms) \<and> jget kvs ''index'' = JInt 0 \<and> jget kvs ''label'' = JStr ''All displays''"
    using assms(2) by (simp add: list_monitors_def monitor_json_def)
  moreover have "py_int ''0'' = Some 0" by code_simp
  then have "screen_args rq = [(''monitor'', JInt 0)]" by (simp add: screen_args_def assms(1))
  ultimately show ?thesis by (simp add: op_screen_stream_def int_arg_def float_arg_def jget_or_def)
qed

theorem all_displays_unreachable_witness:
  "screen_args (plain_request\<lparr>rq_params := [(''monitor'', ''0'')]\<rparr>) = [(''monitor'', JInt 0)] \<and>
    op_screen_stream (\<lambda>_. None) False (Inl []) (\<lambda>q d f mon. Inl (int_str mon)) (JStr ''r'') (JObj [(''monitor'', JInt 0)]) =
      op_screen_stream (\<lambda>_. None) False (Inl []) (\<lambda>q d f mon. Inl (int_str mon)) (JStr ''r'') (JObj [(''monitor'', JInt 1)])"
  using all_displays_unreachable [of "plain_request\<lparr>rq_params := [(''monitor'', ''0'')]\<rparr>" demo_pc "\<lambda>_. None" "Inl []"
      "\<lambda>q d f mon. Inl (int_str mon)" "JStr ''r''"]
  by (auto simp: query_param_def opt_str_def demo_pc_def)

end
